(* ===== verification/Dvb_Prelude.thy ===== *)
theory Dvb_Prelude
  imports Main "HOL-Library.Word" "HOL-Library.Monad_Syntax" "HOL-Library.Signed_Division"
begin

text \<open>
  Shared vocabulary of the development: the machine types of the C++ code, the reading of
  undefined behaviour as \<open>None\<close>, the two loop shapes the code uses (a bounded \<open>for\<close> over
  a list, and \<open>while ((p = get(j)) != NULL) j++\<close> with an index of fixed width) and the
  rules by which every component reasons about them.

  Convention: a function that can touch memory out of range, use freed memory or run for ever
  has an \<open>option\<close> result, and \<open>None\<close> is exactly those outcomes.
\<close>

type_synonym byte = "8 word"
type_synonym bytes = "8 word list"
type_synonym mtime = int

named_theorems frame_simps \<open>which fields an operation leaves alone\<close>

subsection \<open>Access checks\<close>

definition ensure :: "bool \<Rightarrow> unit option" where
  "ensure b = (if b then Some () else None)"

lemma ensure_eq_Some [simp]: "ensure b = Some u \<longleftrightarrow> b"
  by (simp add: ensure_def)

lemma ensure_True [simp]: "ensure True = Some ()"
  by (simp add: ensure_def)

lemma ensure_False [simp]: "ensure False = None"
  by (simp add: ensure_def)

lemma ensure_bind [simp]: "(ensure b \<bind> f) = Some y \<longleftrightarrow> b \<and> f () = Some y"
  by (cases b) simp_all

definition rd :: "'a list \<Rightarrow> nat \<Rightarrow> 'a option" where
  "rd xs i = (if i < length xs then Some (xs ! i) else None)"

lemma rd_eq_Some [simp]: "rd xs i = Some x \<longleftrightarrow> i < length xs \<and> x = xs ! i"
  by (auto simp: rd_def)

lemma rd_eq_None [simp]: "rd xs i = None \<longleftrightarrow> length xs \<le> i"
  by (auto simp: rd_def)

lemma rd_less: "i < length xs \<Longrightarrow> rd xs i = Some (xs ! i)"
  by simp

subsection \<open>A bounded loop whose body can fail\<close>

fun ofold :: "('x \<Rightarrow> 's \<Rightarrow> 's option) \<Rightarrow> 'x list \<Rightarrow> 's \<Rightarrow> 's option" where
  "ofold f [] s = Some s"
| "ofold f (x # xs) s = (case f x s of None \<Rightarrow> None | Some s' \<Rightarrow> ofold f xs s')"

lemma ofold_append: "ofold f (xs @ ys) s = (ofold f xs s \<bind> ofold f ys)"
  by (induction xs arbitrary: s) (auto split: option.splits)

lemma ofold_preserves:
  assumes "\<And>x s s'. x \<in> set xs \<Longrightarrow> P s \<Longrightarrow> f x s = Some s' \<Longrightarrow> P s'"
    and "P s" and "ofold f xs s = Some s'"
  shows "P s'"
  using assms
  by (induction xs arbitrary: s) (auto split: option.splits)

lemma ofold_total:
  assumes "\<And>x s. x \<in> set xs \<Longrightarrow> P s \<Longrightarrow> \<exists>s'. f x s = Some s' \<and> P s'"
    and "P s"
  shows "\<exists>s'. ofold f xs s = Some s' \<and> P s'"
  using assms
proof (induction xs arbitrary: s)
  case Nil
  then show ?case by simp
next
  case (Cons x xs)
  then obtain s1 where s1: "f x s = Some s1" "P s1"
    by (meson list.set_intros(1))
  have "\<exists>s'. ofold f xs s1 = Some s' \<and> P s'"
    using Cons.prems(1) s1(2) by (intro Cons.IH) auto
  with s1 show ?case by simp
qed

lemma ofold_upt:
  assumes "\<And>i s. i < n \<Longrightarrow> P i s \<Longrightarrow> \<exists>s'. f i s = Some s' \<and> P (Suc i) s'" and "P 0 s"
  shows "\<exists>s'. ofold f [0..<n] s = Some s' \<and> P n s'"
  using assms(1)
proof (induction n)
  case 0
  with assms(2) show ?case by simp
next
  case (Suc n)
  then obtain s1 where s1: "ofold f [0..<n] s = Some s1" "P n s1" by force
  with Suc.prems [of n s1] show ?case by (auto simp: ofold_append)
qed

lemma ofold_frame:
  assumes "\<And>x s s'. x \<in> set xs \<Longrightarrow> f x s = Some s' \<Longrightarrow> g s' = g s"
    and "ofold f xs s = Some s'"
  shows "g s' = g s"
  using ofold_preserves [of xs "\<lambda>t. g t = g s" f s s'] assms by simp

lemma ofold_map: "ofold f (map g xs) s = ofold (\<lambda>x. f (g x)) xs s"
  by (induction xs arbitrary: s) (auto split: option.split)

lemma ofold_pure: "ofold (\<lambda>x s. Some (g x s)) xs s = Some (fold g xs s)"
  by (induction xs arbitrary: s) auto

subsection \<open>The first index that satisfies a test\<close>

text \<open>\<open>for (j = 0; j < n; j++) if (P(a[j])) break;\<close> leaves \<open>j\<close> at this value.\<close>

definition index_of :: "('a \<Rightarrow> bool) \<Rightarrow> 'a list \<Rightarrow> nat" where
  "index_of P xs = length (takeWhile (\<lambda>x. \<not> P x) xs)"

lemma index_of_le: "index_of P xs \<le> length xs"
  by (simp add: index_of_def length_takeWhile_le)

lemma index_of_hit: "index_of P xs < length xs \<Longrightarrow> P (xs ! index_of P xs)"
  using nth_length_takeWhile [of "\<lambda>x. \<not> P x" xs] by (simp add: index_of_def)

lemma index_of_miss: "k < index_of P xs \<Longrightarrow> \<not> P (xs ! k)"
  by (induction xs arbitrary: k) (auto simp: index_of_def nth_Cons split: if_splits nat.splits)

lemma index_of_less_iff: "index_of P xs < length xs \<longleftrightarrow> (\<exists>x\<in>set xs. P x)"
  by (induction xs) (auto simp: index_of_def)

lemma index_of_eq_length_iff: "index_of P xs = length xs \<longleftrightarrow> (\<forall>x\<in>set xs. \<not> P x)"
  by (induction xs) (auto simp: index_of_def)

lemma index_of_Nil [simp]: "index_of P [] = 0"
  by (simp add: index_of_def)

lemma index_of_Cons [simp]: "index_of P (x # xs) = (if P x then 0 else Suc (index_of P xs))"
  by (simp add: index_of_def)

subsection \<open>Iterating a getter until it returns NULL\<close>

text \<open>
  \<open>j = 0; while ((p = get(j)) != NULL) { j++; ... }\<close> where \<open>j\<close> has \<open>2 ^ w\<close> values (\<open>m\<close>
  here). The getter has no state, so when no index below \<open>m\<close> gives NULL the index wraps
  to 0 and the loop never ends: \<open>None\<close>. The result is the list of the values the body
  sees, in order.
\<close>

partial_function (option) collect_from :: "nat \<Rightarrow> (nat \<Rightarrow> 'a option) \<Rightarrow> nat \<Rightarrow> 'a list option" where
  "collect_from m get j =
     (case get (j mod m) of
        None \<Rightarrow> Some []
      | Some x \<Rightarrow> do { xs \<leftarrow> collect_from m get (j mod m + 1); Some (x # xs) })"

definition collect :: "nat \<Rightarrow> (nat \<Rightarrow> 'a option) \<Rightarrow> 'a list option" where
  "collect m get = collect_from m get 0"

lemma collect_from_values:
  assumes "get n = None" and "\<And>i. i < n \<Longrightarrow> get i \<noteq> None" and "n < m" and "j \<le> n"
  shows "collect_from m get j = Some (map (\<lambda>i. the (get i)) [j..<n])"
  using assms(4)
proof (induction "n - j" arbitrary: j)
  case 0
  with assms show ?case by (subst collect_from.simps) simp
next
  case (Suc k)
  then have j: "j < n" by simp
  with Suc have "collect_from m get (Suc j) = Some (map (\<lambda>i. the (get i)) [Suc j..<n])"
    by simp
  with j assms show ?case
    by (subst collect_from.simps) (auto simp: upt_conv_Cons split: option.splits)
qed

lemma collect_values:
  assumes "get n = None" and "\<And>i. i < n \<Longrightarrow> get i \<noteq> None" and "n < m"
  shows "collect m get = Some (map (\<lambda>i. the (get i)) [0..<n])"
  using assms by (simp add: collect_def collect_from_values)

lemma collect_from_returns:
  assumes "collect_from m get j = Some xs"
  shows "\<exists>i. get (i mod m) = None"
proof (rule collect_from.raw_induct
        [where P = "\<lambda>m get j xs. \<exists>i. get (i mod m) = None", OF _ assms])
  fix f :: "nat \<Rightarrow> (nat \<Rightarrow> 'a option) \<Rightarrow> nat \<Rightarrow> 'a list option"
    and m j xs and get :: "nat \<Rightarrow> 'a option"
  assume IH: "\<And>m get j xs. f m get j = Some xs \<Longrightarrow> \<exists>i. get (i mod m) = None"
    and eq: "(case get (j mod m) of None \<Rightarrow> Some []
              | Some x \<Rightarrow> do { xs \<leftarrow> f m get (j mod m + 1); Some (x # xs) }) = Some xs"
  show "\<exists>i. get (i mod m) = None"
  proof (cases "get (j mod m)")
    case None
    then show ?thesis by blast
  next
    case (Some x)
    with eq obtain ys where "f m get (j mod m + 1) = Some ys"
      by (auto simp: bind_eq_Some_conv)
    then show ?thesis by (rule IH)
  qed
qed

lemma collect_diverges:
  assumes "0 < m" and "\<And>i. i < m \<Longrightarrow> get i \<noteq> None"
  shows "collect m get = None"
proof (rule ccontr)
  assume "collect m get \<noteq> None"
  then obtain xs where "collect_from m get 0 = Some xs" by (auto simp: collect_def)
  then obtain i where "get (i mod m) = None" using collect_from_returns by blast
  moreover have "i mod m < m" using assms(1) by simp
  ultimately show False using assms(2) by blast
qed

text \<open>The reading the components use: the getter of an array of \<open>n\<close> elements.\<close>

lemma collect_nth:
  assumes "\<And>i. get i = (if i < length xs then Some (xs ! i) else None)"
  shows "collect m get = (if length xs < m then Some xs else if m = 0 then collect m get else None)"
proof (cases "length xs < m")
  case True
  then have "collect m get = Some (map (\<lambda>i. the (get i)) [0..<length xs])"
    using assms by (intro collect_values) auto
  moreover have "map (\<lambda>i. the (get i)) [0..<length xs] = xs"
    using assms by (intro nth_equalityI) auto
  ultimately show ?thesis using True by simp
next
  case False
  show ?thesis
  proof (cases "m = 0")
    case True
    with False show ?thesis by simp
  next
    case m: False
    then have "collect m get = None"
      using assms False by (intro collect_diverges) auto
    with False m show ?thesis by simp
  qed
qed

subsection \<open>Lists\<close>

lemma sum_list_update_nat:
  "i < length xs \<Longrightarrow> sum_list (xs[i := (v::nat)]) + xs ! i = sum_list xs + v"
  by (induction xs arbitrary: i) (auto split: nat.splits)

lemma count_list_distinct: "distinct xs \<Longrightarrow> count_list xs x = (if x \<in> set xs then 1 else 0)"
  by (induction xs) auto

lemma sum_list_map_update:
  fixes f :: "'a \<Rightarrow> nat"
  assumes "i < length xs"
  shows "sum_list (map f (xs[i := v])) + f (xs ! i) = sum_list (map f xs) + f v"
  using sum_list_update_nat [of i "map f xs" "f v"] assms by (simp add: map_update)

lemma sum_list_map_ge_nth:
  fixes f :: "'a \<Rightarrow> nat"
  assumes "i < length xs"
  shows "f (xs ! i) \<le> sum_list (map f xs)"
  using assms by (induction xs arbitrary: i) (auto simp: nth_Cons split: nat.splits intro: trans_le_add2)

text \<open>C division truncates; on non-negative numbers it is Isabelle's.\<close>

lemma sdiv_nonneg [simp]: "0 \<le> a \<Longrightarrow> 0 < b \<Longrightarrow> a sdiv b = a div (b::int)"
  by (cases "a = 0") (auto simp: signed_divide_int_def)

lemma smod_nonneg [simp]: "0 \<le> a \<Longrightarrow> 0 < b \<Longrightarrow> a smod b = a mod (b::int)"
  by (cases "a = 0") (auto simp: signed_modulo_int_def)

lemma not_None_the: "x \<noteq> None \<Longrightarrow> x = Some (the x)"
  by auto

lemma unat_byte: "unat (b :: byte) < 256"
  using unsigned_less [of b] by simp

subsection \<open>An outgoing queue\<close>

text \<open>
  What every sender in the program promises: while the state is \<open>ready\<close>, putting an accepted
  item returns, keeps the state ready and makes the item the last one of the stream. Clients
  put several items; they then stand in the stream in that order.
\<close>

locale outbox =
  fixes ready :: "'s \<Rightarrow> bool"
    and stream :: "'s \<Rightarrow> 'b list"
    and accepts :: "'m \<Rightarrow> bool"
    and image :: "'m \<Rightarrow> 'b"
    and put :: "'m \<Rightarrow> 's \<Rightarrow> 's option"
  assumes put_appends: "ready s \<Longrightarrow> accepts m \<Longrightarrow>
    \<exists>s'. put m s = Some s' \<and> ready s' \<and> stream s' = stream s @ [image m]"
begin

lemma put_all:
  assumes "ready s" and "\<forall>m\<in>set ms. accepts m"
  shows "\<exists>s'. ofold put ms s = Some s' \<and> ready s' \<and> stream s' = stream s @ map image ms"
  using assms
proof (induction ms arbitrary: s)
  case (Cons m ms)
  then obtain s1 where s1: "put m s = Some s1" "ready s1" "stream s1 = stream s @ [image m]"
    using put_appends [of s m] by auto
  from Cons.IH [OF s1(2)] Cons.prems(2) obtain s' where
    "ofold put ms s1 = Some s'" "ready s'" "stream s' = stream s1 @ map image ms" by auto
  with s1 show ?case by simp
qed simp

end

end
