(* ===== verification/Dvb_Blocks.thy ===== *)
theory Dvb_Blocks
  imports Dvb_Prelude
begin

text \<open>
  The root object and the TS block pool (\<open>cLdvbcore\<close>, \<open>cLdvboutput::block_*\<close>).
  A block is one 188-byte packet with a reference count; freed blocks are kept on a list of at
  most \<open>CLDVB_MAX_BLOCKS\<close> and handed out again. Addresses are naturals, memory is a total
  map (an address that was never written holds an arbitrary block), and \<open>allocd\<close> says which
  addresses \<open>malloc\<close> has given out and \<open>free\<close> has not taken back. A failing \<open>malloc\<close> is
  not modelled.
\<close>

definition TS_SIZE :: nat where "TS_SIZE = 188"
definition MAX_PIDS :: nat where "MAX_PIDS = 8192"
definition UNUSED_PID :: nat where "UNUSED_PID = MAX_PIDS + 1"
definition PADDING_PID :: nat where "PADDING_PID = 8191"
definition CLDVB_MAX_BLOCKS :: nat where "CLDVB_MAX_BLOCKS = 500"

lemmas dvb_consts = TS_SIZE_def MAX_PIDS_def UNUSED_PID_def PADDING_PID_def CLDVB_MAX_BLOCKS_def

subsection \<open>The root class: clock and globals\<close>

text \<open>\<open>mdate\<close> reads the monotonic clock: its readings are a stream the state carries.\<close>

record dvbobj =
  native_charset :: string
  mrtg_file :: "string option"
  i_print_period :: mtime
  i_priority :: int
  i_adapter :: int
  i_delsysatsc :: int
  clk :: "nat \<Rightarrow> mtime"
  ticks :: nat

definition mdate_of :: "int \<Rightarrow> int \<Rightarrow> mtime" where
  "mdate_of tv_sec tv_nsec = tv_sec * 1000000 + tv_nsec sdiv 1000"

definition msleep_spec :: "mtime \<Rightarrow> int \<times> int" where
  "msleep_spec delay = (delay sdiv 1000000, (delay smod 1000000) * 1000)"

definition mdate :: "'a dvbobj_scheme \<Rightarrow> mtime \<times> 'a dvbobj_scheme" where
  "mdate s = (clk s (ticks s), s\<lparr>ticks := Suc (ticks s)\<rparr>)"

subsection \<open>Blocks\<close>

record block =
  bk_ts :: bytes
  bk_refcount :: int
  bk_dts :: mtime
  bk_tmp_pid :: nat

record dvbheap = dvbobj +
  mem :: "nat \<Rightarrow> block"
  allocd :: "nat \<Rightarrow> bool"
  brk :: nat
  p_block_lifo :: "nat list"
  i_block_count :: nat

definition c_free :: "nat \<Rightarrow> 'a dvbheap_scheme \<Rightarrow> 'a dvbheap_scheme option" where
  "c_free a s = (if allocd s a then Some (s\<lparr>allocd := (allocd s)(a := False)\<rparr>) else None)"

definition upd_block :: "nat \<Rightarrow> (block \<Rightarrow> block) \<Rightarrow> 'a dvbheap_scheme \<Rightarrow> 'a dvbheap_scheme" where
  "upd_block a f s = s\<lparr>mem := (mem s)(a := f (mem s a))\<rparr>"

definition block_New :: "'a dvbheap_scheme \<Rightarrow> (nat \<times> 'a dvbheap_scheme) option" where
  "block_New s = do {
     (a, s) \<leftarrow>
       (if i_block_count s \<noteq> 0 then
          (case p_block_lifo s of
             [] \<Rightarrow> None
           | a # as \<Rightarrow> do {
               ensure (allocd s a);
               Some (a, s\<lparr>p_block_lifo := as, i_block_count := i_block_count s - 1\<rparr>) })
        else Some (brk s, s\<lparr>allocd := (allocd s)(brk s := True), brk := Suc (brk s)\<rparr>));
     Some (a, upd_block a (\<lambda>b. b\<lparr>bk_refcount := 1\<rparr>) s) }"

definition block_Delete :: "nat \<Rightarrow> 'a dvbheap_scheme \<Rightarrow> 'a dvbheap_scheme option" where
  "block_Delete a s =
     (if CLDVB_MAX_BLOCKS \<le> i_block_count s then c_free a s
      else do {
        ensure (allocd s a);
        Some (s\<lparr>p_block_lifo := a # p_block_lifo s, i_block_count := Suc (i_block_count s)\<rparr>) })"

definition block_DeleteChain :: "nat list \<Rightarrow> 'a dvbheap_scheme \<Rightarrow> 'a dvbheap_scheme option" where
  "block_DeleteChain as s = ofold block_Delete as s"

function block_Vacuum :: "'a dvbheap_scheme \<Rightarrow> 'a dvbheap_scheme option" where
  "block_Vacuum s =
     (if i_block_count s = 0 then Some s
      else (case p_block_lifo s of
              [] \<Rightarrow> None
            | a # as \<Rightarrow>
                (case c_free a (s\<lparr>p_block_lifo := as\<rparr>) of
                   None \<Rightarrow> None
                 | Some s1 \<Rightarrow> block_Vacuum (s1\<lparr>i_block_count := i_block_count s - 1\<rparr>))))"
  by pat_completeness auto
termination
  by (relation "measure i_block_count") (auto simp: c_free_def split: if_splits)

declare block_Vacuum.simps [simp del]

text \<open>\<open>p_block->i_refcount++\<close> and \<open>if (!--p_block->i_refcount) block_Delete(p_block)\<close>.\<close>

definition block_Acquire :: "nat \<Rightarrow> 'a dvbheap_scheme \<Rightarrow> 'a dvbheap_scheme" where
  "block_Acquire a = upd_block a (\<lambda>b. b\<lparr>bk_refcount := bk_refcount b + 1\<rparr>)"

definition block_Release :: "nat \<Rightarrow> 'a dvbheap_scheme \<Rightarrow> 'a dvbheap_scheme option" where
  "block_Release a s = do {
     ensure (allocd s a);
     let s = upd_block a (\<lambda>b. b\<lparr>bk_refcount := bk_refcount b - 1\<rparr>) s;
     if bk_refcount (mem s a) = 0 then block_Delete a s else Some s }"

subsection \<open>The pool invariant\<close>

definition pool_ok :: "'a dvbheap_scheme \<Rightarrow> bool" where
  "pool_ok s \<longleftrightarrow> i_block_count s = length (p_block_lifo s) \<and> distinct (p_block_lifo s)
     \<and> (\<forall>a \<in> set (p_block_lifo s). allocd s a) \<and> (\<forall>a. allocd s a \<longrightarrow> a < brk s)
     \<and> i_block_count s \<le> CLDVB_MAX_BLOCKS"

text \<open>A block is live when it is allocated and not waiting on the free list.\<close>

definition live :: "'a dvbheap_scheme \<Rightarrow> nat \<Rightarrow> bool" where
  "live s a \<longleftrightarrow> allocd s a \<and> a \<notin> set (p_block_lifo s)"

definition block_ref :: "'a dvbheap_scheme \<Rightarrow> nat \<Rightarrow> int" where
  "block_ref s a = bk_refcount (mem s a)"

lemmas pool_defs = pool_ok_def live_def block_ref_def upd_block_def

lemma block_New_spec:
  assumes "pool_ok s"
  shows "\<exists>a s'. block_New s = Some (a, s') \<and> pool_ok s' \<and> \<not> live s a
           \<and> live s' = (live s)(a := True) \<and> block_ref s' = (block_ref s)(a := 1)"
proof (cases "p_block_lifo s")
  case Nil
  with assms show ?thesis
    by (auto simp: block_New_def pool_defs fun_eq_iff)
next
  case (Cons a as)
  with assms show ?thesis
    by (auto simp: block_New_def pool_defs fun_eq_iff)
qed

lemma block_Delete_spec:
  assumes "pool_ok s" and "live s a"
  shows "\<exists>s'. block_Delete a s = Some s' \<and> pool_ok s' \<and> live s' = (live s)(a := False)
           \<and> block_ref s' = block_ref s"
  using assms
  by (auto simp: block_Delete_def c_free_def pool_defs fun_eq_iff)

lemma block_Acquire_spec:
  assumes "pool_ok s"
  shows "pool_ok (block_Acquire a s) \<and> live (block_Acquire a s) = live s
           \<and> block_ref (block_Acquire a s) = (block_ref s)(a := block_ref s a + 1)"
  using assms by (auto simp: block_Acquire_def pool_defs fun_eq_iff)

lemma block_Release_eq:
  assumes "pool_ok s" and "live s a"
  shows "block_Release a s =
    (let s1 = upd_block a (\<lambda>b. b\<lparr>bk_refcount := bk_refcount b - 1\<rparr>) s in
     if block_ref s a = 1 then block_Delete a s1 else Some s1)"
  using assms by (auto simp: block_Release_def pool_defs Let_def)

subsection \<open>Counting references\<close>

text \<open>
  The contract the outputs rely on: a pool whose blocks carry a reference count. Inside the
  locale a ghost count \<open>c\<close> says how many references exist; the pool agrees with it when
  exactly the blocks with a positive count are live and each stores its count.
\<close>

locale refcounted =
  fixes inv :: "'s \<Rightarrow> bool"
    and alive :: "'s \<Rightarrow> nat \<Rightarrow> bool"
    and count :: "'s \<Rightarrow> nat \<Rightarrow> int"
    and fresh :: "'s \<Rightarrow> (nat \<times> 's) option"
    and acquire :: "nat \<Rightarrow> 's \<Rightarrow> 's"
    and release :: "nat \<Rightarrow> 's \<Rightarrow> 's option"
  assumes fresh_law: "inv s \<Longrightarrow> \<exists>a s'. fresh s = Some (a, s') \<and> inv s' \<and> \<not> alive s a
            \<and> alive s' = (alive s)(a := True) \<and> count s' = (count s)(a := 1)"
    and acquire_law: "inv s \<Longrightarrow> inv (acquire a s) \<and> alive (acquire a s) = alive s
            \<and> count (acquire a s) = (count s)(a := count s a + 1)"
    and release_law: "inv s \<Longrightarrow> alive s a \<Longrightarrow> \<exists>s'. release a s = Some s' \<and> inv s'
            \<and> count s' = (count s)(a := count s a - 1)
            \<and> alive s' = (alive s)(a := (count s a \<noteq> 1))"
begin

definition agrees :: "(nat \<Rightarrow> nat) \<Rightarrow> 's \<Rightarrow> bool" where
  "agrees c s \<longleftrightarrow> inv s \<and> (\<forall>a. alive s a \<longleftrightarrow> 0 < c a) \<and> (\<forall>a. alive s a \<longrightarrow> count s a = int (c a))"

lemma agrees_inv: "agrees c s \<Longrightarrow> inv s"
  by (simp add: agrees_def)

lemma agrees_alive: "agrees c s \<Longrightarrow> alive s a \<longleftrightarrow> 0 < c a"
  by (simp add: agrees_def)

lemma fresh_agrees:
  assumes "agrees c s"
  shows "\<exists>a s'. fresh s = Some (a, s') \<and> c a = 0 \<and> agrees (c(a := 1)) s'"
proof -
  from assms fresh_law [of s] obtain a s' where
    "fresh s = Some (a, s')" "inv s'" "\<not> alive s a"
    "alive s' = (alive s)(a := True)" "count s' = (count s)(a := 1)"
    by (auto simp: agrees_def)
  with assms show ?thesis by (auto simp: agrees_def)
qed

lemma acquire_agrees:
  assumes "agrees c s" and "0 < c a"
  shows "agrees (c(a := Suc (c a))) (acquire a s)"
  using assms acquire_law [of s a] by (auto simp: agrees_def)

lemma release_agrees:
  assumes "agrees c s" and "0 < c a"
  shows "\<exists>s'. release a s = Some s' \<and> agrees (c(a := c a - 1)) s'"
proof -
  from assms have al: "alive s a" and i: "inv s" and n: "count s a = int (c a)"
    by (auto simp: agrees_def)
  from release_law [OF i al] obtain s' where s': "release a s = Some s'" "inv s'"
    "count s' = (count s)(a := count s a - 1)" "alive s' = (alive s)(a := (count s a \<noteq> 1))"
    by auto
  have "agrees (c(a := c a - 1)) s'"
    using assms s' n unfolding agrees_def by (auto split: if_splits)
  with s' show ?thesis by blast
qed

text \<open>A block leaves the pool exactly with its last reference.\<close>

lemma release_alive:
  assumes "agrees c s" and "0 < c a" and "release a s = Some s'"
  shows "alive s' b \<longleftrightarrow> (if b = a then 1 < c a else 0 < c b)"
proof -
  from release_agrees [OF assms(1,2)] assms(3) have "agrees (c(a := c a - 1)) s'" by auto
  then show ?thesis by (auto simp: agrees_def)
qed

end

lemma block_Release_spec:
  assumes "pool_ok s" and "live s a"
  shows "\<exists>s'. block_Release a s = Some s' \<and> pool_ok s'
           \<and> block_ref s' = (block_ref s)(a := block_ref s a - 1)
           \<and> live s' = (live s)(a := (block_ref s a \<noteq> 1))"
proof -
  let ?s = "upd_block a (\<lambda>b. b\<lparr>bk_refcount := bk_refcount b - 1\<rparr>) s"
  have s1: "pool_ok ?s" "live ?s = live s" "block_ref ?s = (block_ref s)(a := block_ref s a - 1)"
    using assms by (auto simp: pool_defs fun_eq_iff)
  then obtain s' where "block_Delete a ?s = Some s'" "pool_ok s'"
    "live s' = (live ?s)(a := False)" "block_ref s' = block_ref ?s"
    using block_Delete_spec [of ?s a] assms(2) by auto
  with s1 assms show ?thesis
    by (auto simp: block_Release_eq Let_def fun_eq_iff)
qed

interpretation pool: refcounted pool_ok live block_ref block_New block_Acquire block_Release
  by unfold_locales (simp_all add: block_New_spec block_Acquire_spec block_Release_spec)

subsection \<open>Vacuum\<close>

lemma block_Vacuum_spec:
  assumes "pool_ok s"
  shows "\<exists>s'. block_Vacuum s = Some s' \<and> pool_ok s' \<and> p_block_lifo s' = []
           \<and> i_block_count s' = 0 \<and> allocd s' = live s \<and> live s' = live s"
  using assms
proof (induction "i_block_count s" arbitrary: s)
  case 0
  then show ?case
    by (subst block_Vacuum.simps) (auto simp: pool_defs fun_eq_iff)
next
  case (Suc n)
  then obtain a as where as: "p_block_lifo s = a # as"
    by (cases "p_block_lifo s") (auto simp: pool_defs)
  define s1 where "s1 = s\<lparr>p_block_lifo := as, allocd := (allocd s)(a := False),
                           i_block_count := i_block_count s - 1\<rparr>"
  have step: "block_Vacuum s = block_Vacuum s1"
    using Suc.prems Suc.hyps(2) as
    by (subst block_Vacuum.simps) (auto simp: c_free_def s1_def pool_defs)
  have "pool_ok s1" and "live s1 = live s"
    using Suc.prems as by (auto simp: s1_def pool_defs fun_eq_iff)
  moreover have "n = i_block_count s1"
    using Suc.hyps(2) by (simp add: s1_def)
  ultimately show ?case
    using Suc.hyps(1) [of s1] step by simp
qed

text \<open>A freshly deleted block is the next one handed out (the free list is a stack).\<close>

lemma block_Delete_New:
  assumes "pool_ok s" and "live s a" and "i_block_count s < CLDVB_MAX_BLOCKS"
    and "block_Delete a s = Some s1"
  shows "\<exists>s2. block_New s1 = Some (a, s2) \<and> p_block_lifo s2 = p_block_lifo s
           \<and> i_block_count s2 = i_block_count s"
  using assms by (auto simp: block_Delete_def block_New_def pool_defs)

lemma clock_roundtrip:
  "0 \<le> d \<Longrightarrow> (case msleep_spec d of (sec, nsec) \<Rightarrow> mdate_of sec nsec) = d"
  by (simp add: msleep_spec_def mdate_of_def mult.commute)

end
