(* ===== verification/Dvb_Bitstream.thy ===== *)
theory Dvb_Bitstream
  imports Dvb_Prelude
begin

text \<open>
  The third-party code the program calls and this repository does not contain: the biTStream
  headers (\<open>bitstream/mpeg/ts.h\<close>, \<open>ietf/rtp.h\<close>, \<open>mpeg/psi.h\<close>, \<open>dvb/si.h\<close>) and the host
  resolver. It is a parameter of the model: a record of functions that the definitions take as
  their first argument. Packets and sections are byte lists; a getter that returns a pointer
  into a section (the \<open>j\<close>-th elementary stream, say) returns the bytes that start there, or
  \<open>None\<close> for NULL. What the proofs need of these functions is named here as predicates
  over the record, each a documented fact about the format.
\<close>

subsection \<open>Transport packets\<close>

record ts_lib =
  ts_get_pid :: "bytes \<Rightarrow> nat"
  ts_set_pid :: "nat \<Rightarrow> bytes \<Rightarrow> bytes"
  ts_get_cc :: "bytes \<Rightarrow> nat"
  ts_set_cc :: "nat \<Rightarrow> bytes \<Rightarrow> bytes"
  ts_validate :: "bytes \<Rightarrow> bool"
  ts_get_scrambling :: "bytes \<Rightarrow> nat"
  ts_get_unitstart :: "bytes \<Rightarrow> bool"
  ts_get_transporterror :: "bytes \<Rightarrow> bool"
  ts_has_payload :: "bytes \<Rightarrow> bool"
  ts_has_adaptation :: "bytes \<Rightarrow> bool"
  ts_get_adaptation :: "bytes \<Rightarrow> nat"
  tsaf_has_pcr :: "bytes \<Rightarrow> bool"
  ts_payload :: "bytes \<Rightarrow> nat"  \<comment> \<open>offset of the payload in the packet\<close>
  pes_validate :: "bytes \<Rightarrow> bool"
  ts_check_duplicate :: "nat \<Rightarrow> nat \<Rightarrow> bool"
  ts_check_discontinuity :: "nat \<Rightarrow> nat \<Rightarrow> bool"
  rtp_set_hdr :: "bytes \<Rightarrow> bytes"
  rtp_set_type :: "nat \<Rightarrow> bytes \<Rightarrow> bytes"
  rtp_set_seqnum :: "16 word \<Rightarrow> bytes \<Rightarrow> bytes"
  rtp_set_timestamp :: "32 word \<Rightarrow> bytes \<Rightarrow> bytes"
  rtp_set_ssrc :: "bytes \<Rightarrow> bytes \<Rightarrow> bytes"
  RTP_HEADER_SIZE :: nat
  RTP_TYPE_TS :: nat
  inet_addr :: "string \<Rightarrow> 32 word"

text \<open>
  The PID field of a packet (13 bits of bytes 1 and 2): what is written is read back, writing
  the PID a packet already has changes nothing, and a second write replaces the first.
\<close>

definition ts_pid_laws :: "'b ts_lib_scheme \<Rightarrow> bool" where
  "ts_pid_laws B \<longleftrightarrow>
     (\<forall>p. ts_set_pid B (ts_get_pid B p) p = p)
     \<and> (\<forall>p i j. ts_set_pid B i (ts_set_pid B j p) = ts_set_pid B i p)
     \<and> (\<forall>p i. length (ts_set_pid B i p) = length p)"

definition rtp_laws :: "'b ts_lib_scheme \<Rightarrow> bool" where
  "rtp_laws B \<longleftrightarrow> RTP_HEADER_SIZE B = 12
     \<and> (\<forall>h. length (rtp_set_hdr B h) = length h) \<and> (\<forall>t h. length (rtp_set_type B t h) = length h)
     \<and> (\<forall>n h. length (rtp_set_seqnum B n h) = length h)
     \<and> (\<forall>t h. length (rtp_set_timestamp B t h) = length h)
     \<and> (\<forall>r h. length (rtp_set_ssrc B r h) = length h)"

end
