(* ===== verification/Dvb_Outputs.thy ===== *)
theory Dvb_Outputs
  imports Dvb_Blocks Dvb_Bitstream
begin

unbundle bit_operations_syntax

text \<open>
  The outputs (\<open>cLdvboutput\<close>): configuration, packet queues, socket set-up, sending. A
  packet is a list of block addresses with the number of slots its allocation has; an output
  holds the queue of packets from \<open>p_packets\<close> to \<open>p_last_packet\<close>. System calls take their
  results from a stream in the state and are logged in order, so a theorem about every state
  is a theorem about every behaviour of the kernel.
\<close>

definition OUTPUT_WATCH :: "64 word" where "OUTPUT_WATCH = 0x01"
definition OUTPUT_STILL_PRESENT :: "64 word" where "OUTPUT_STILL_PRESENT = 0x02"
definition OUTPUT_VALID :: "64 word" where "OUTPUT_VALID = 0x04"
definition OUTPUT_UDP :: "64 word" where "OUTPUT_UDP = 0x08"
definition OUTPUT_FILE :: "64 word" where "OUTPUT_FILE = 0x10"
definition OUTPUT_DVB :: "64 word" where "OUTPUT_DVB = 0x20"
definition OUTPUT_EPG :: "64 word" where "OUTPUT_EPG = 0x40"
definition OUTPUT_RAW :: "64 word" where "OUTPUT_RAW = 0x80"

lemmas output_flags = OUTPUT_WATCH_def OUTPUT_STILL_PRESENT_def OUTPUT_VALID_def OUTPUT_UDP_def
  OUTPUT_FILE_def OUTPUT_DVB_def OUTPUT_EPG_def OUTPUT_RAW_def

definition has_flag :: "64 word \<Rightarrow> 64 word \<Rightarrow> bool" where
  "has_flag c f \<longleftrightarrow> c AND f \<noteq> 0"

definition AF_UNSPEC :: int where "AF_UNSPEC = 0"
definition AF_INET :: int where "AF_INET = 2"
definition AF_INET6 :: int where "AF_INET6 = 10"
definition CLDVB_N_MAP_PIDS :: nat where "CLDVB_N_MAP_PIDS = 4"
definition CLDVB_OUTPUT_MAX_PACKETS :: nat where "CLDVB_OUTPUT_MAX_PACKETS = 100"
definition INT64_MAX :: int where "INT64_MAX = 2 ^ 63 - 1"

subsection \<open>Data\<close>

text \<open>A socket address: the family and the bytes after it (port, address, scope).\<close>

record sockaddr =
  ss_family :: int
  sa_data :: bytes

definition sockaddr_len :: "int \<Rightarrow> nat" where
  "sockaddr_len fam = (if fam = AF_INET then 16 else 28)"

definition sockaddr_same :: "nat \<Rightarrow> sockaddr \<Rightarrow> sockaddr \<Rightarrow> bool" where
  "sockaddr_same n a b \<longleftrightarrow> ss_family a = ss_family b \<and> take (n - 2) (sa_data a) = take (n - 2) (sa_data b)"

definition zero_sockaddr :: sockaddr where
  "zero_sockaddr = \<lparr>ss_family = AF_UNSPEC, sa_data = replicate 126 0\<rparr>"

definition in_multicast :: "sockaddr \<Rightarrow> bool" where
  "in_multicast a \<longleftrightarrow> (sa_data a ! 2) AND 0xF0 = 0xE0"

definition in6_multicast :: "sockaddr \<Rightarrow> bool" where
  "in6_multicast a \<longleftrightarrow> sa_data a ! 6 = 0xFF"

record output_config =
  i_family :: int
  connect_addr :: sockaddr
  bind_addr :: sockaddr
  i_if_index_v6 :: int
  psz_displayname :: string
  i_config :: "64 word"
  i_cfg_network_id :: "16 word"
  network_name :: bytes
  service_name :: bytes
  provider_name :: bytes
  pi_ssrc :: bytes
  i_output_latency :: mtime
  i_max_retention :: mtime
  i_ttl :: int
  i_tos :: byte
  i_mtu :: int
  psz_srcaddr :: "string option"
  i_srcport :: int
  i_cfg_tsid :: int
  i_sid :: "16 word"
  pi_pids :: "nat list"
  i_new_sid :: "16 word"
  i_onid :: "16 word"
  b_passthrough :: bool
  b_cfg_do_remap :: bool
  pi_confpids :: "nat list"

record packet =
  pk_dts :: mtime
  pk_blocks :: "nat list"
  pk_cap :: nat

text \<open>The IPv4 and UDP headers of a raw packet (\<open>struct udprawpkt\<close>, 28 bytes).\<close>

record rawpkt =
  ip_ihl :: nat
  ip_version :: nat
  ip_tos :: byte
  ip_tot_len :: "16 word"
  ip_id :: "16 word"
  ip_frag_off :: "16 word"
  ip_ttl :: byte
  ip_protocol :: byte
  ip_check :: "16 word"
  ip_saddr :: "32 word"
  ip_daddr :: "32 word"
  udp_source :: "16 word"
  udp_dest :: "16 word"
  udp_len :: "16 word"
  udp_check :: "16 word"

record output_st =
  config :: output_config
  i_handle :: int
  o_packets :: "packet list"
  o_packet_lifo :: "nat list"
  i_packet_count :: nat
  i_seqnum :: "16 word"
  i_nb_errors :: int
  i_last_error :: mtime
  p_pat_section :: "bytes option"
  i_pat_version :: byte
  i_pat_cc :: nat
  p_pmt_section :: "bytes option"
  i_pmt_version :: byte
  i_pmt_cc :: nat
  p_nit_section :: "bytes option"
  i_nit_version :: byte
  i_nit_cc :: nat
  p_sdt_section :: "bytes option"
  i_sdt_version :: byte
  i_sdt_cc :: nat
  p_eit_ts_buffer :: "nat option"
  i_eit_ts_buffer_offset :: nat
  i_eit_cc :: nat
  i_tsid :: "16 word"
  i_pcr_pid :: nat
  pi_newpids :: "nat \<Rightarrow> nat"
  pi_freepids :: "nat \<Rightarrow> nat"
  raw_pkt_header :: rawpkt

datatype iovec = IovRaw rawpkt | IovBytes bytes

fun iov_len :: "iovec \<Rightarrow> nat" where
  "iov_len (IovRaw h) = 28"
| "iov_len (IovBytes b) = length b"

datatype oref = Dup | Nth nat

datatype syscall =
    SysSocket int bool            \<comment> \<open>family, raw?\<close>
  | SysBind int sockaddr
  | SysMulticastIf int
  | SysMulticastHops int int
  | SysMulticastTtl int int
  | SysIpTos int byte
  | SysConnect int sockaddr
  | SysClose int
  | SysWritev int "iovec list"
  | SysRand
  | SysRealloc
  | SysCaOpen int int           \<comment> \<open>adapter and CA number\<close>
  | SysCaGetCap
  | SysCaReset nat
  | SysCaSlotInfo nat
  | SysCaRead
  | SysCaWrite bytes
  | SysCaSendMsg bytes
  | SysCaGetMsg
  | SysTime
  | DevSetFilter nat            \<comment> \<open>the virtual methods of the device class\<close>
  | DevUnsetFilter int nat
  | DevReset

record dvboutput = dvbheap +
  i_next_send :: mtime
  i_out_wallclock :: mtime
  out_timer :: "mtime option"
  p_pad_ts :: bytes
  rtp_scratch :: bytes
  psz_dvb_charset :: string
  b_random_tsid :: bool
  b_do_remap :: bool
  pp_outputs :: "output_st list"
  b_udp_global :: bool
  b_dvb_global :: bool
  b_epg_global :: bool
  i_latency_global :: mtime
  i_retention_global :: mtime
  i_ttl_global :: int
  pi_ssrc_global :: bytes
  gl_network_name :: bytes
  gl_provider_name :: bytes
  i_network_id :: "16 word"
  psz_dup_config :: "string option"
  output_dup :: output_st
  sys_ret :: "nat \<Rightarrow> int"
  sys_err :: "nat \<Rightarrow> int"
  sys_log :: "syscall list"
  errno :: int

subsection \<open>System calls\<close>

text \<open>One call: the next result of the stream; \<open>errno\<close> is set when the result is negative.\<close>

definition sys_call :: "syscall \<Rightarrow> 'a dvboutput_scheme \<Rightarrow> int \<times> 'a dvboutput_scheme" where
  "sys_call c s =
     (let n = length (sys_log s); r = sys_ret s n in
      (r, s\<lparr>sys_log := sys_log s @ [c], errno := (if r < 0 then sys_err s n else errno s)\<rparr>))"

definition rand_mod :: "int \<Rightarrow> 'a dvboutput_scheme \<Rightarrow> int \<times> 'a dvboutput_scheme" where
  "rand_mod m s = (case sys_call SysRand s of (r, s) \<Rightarrow> (r mod m, s))"

fun out_at :: "'a dvboutput_scheme \<Rightarrow> oref \<Rightarrow> output_st" where
  "out_at s Dup = output_dup s"
| "out_at s (Nth i) = pp_outputs s ! i"

fun upd_out :: "oref \<Rightarrow> (output_st \<Rightarrow> output_st) \<Rightarrow> 'a dvboutput_scheme \<Rightarrow> 'a dvboutput_scheme" where
  "upd_out Dup f s = s\<lparr>output_dup := f (output_dup s)\<rparr>"
| "upd_out (Nth i) f s = s\<lparr>pp_outputs := (pp_outputs s)[i := f (pp_outputs s ! i)]\<rparr>"

fun oref_ok :: "'a dvboutput_scheme \<Rightarrow> oref \<Rightarrow> bool" where
  "oref_ok s Dup = True"
| "oref_ok s (Nth i) = (i < length (pp_outputs s))"

abbreviation out_valid :: "output_st \<Rightarrow> bool" where
  "out_valid p \<equiv> has_flag (i_config (config p)) OUTPUT_VALID"

subsection \<open>DVB strings and configuration defaults\<close>

definition dvb_string_cmp :: "bytes \<Rightarrow> bytes \<Rightarrow> bool" where
  "dvb_string_cmp a b \<longleftrightarrow> a \<noteq> b"

fun stropt_chars :: "string \<Rightarrow> string" where
  "stropt_chars [] = []"
| "stropt_chars (c # cs) =
     (if c = CHR ''_'' then CHR '' '' # stropt_chars cs
      else if c = CHR ''/'' then []
      else c # stropt_chars cs)"

definition config_stropt :: "string option \<Rightarrow> string option" where
  "config_stropt z = (case z of None \<Rightarrow> None
     | Some cs \<Rightarrow> if cs = [] then None else Some (stropt_chars cs))"

definition config_Init :: "'a dvboutput_scheme \<Rightarrow> output_config" where
  "config_Init s = \<lparr>
     i_family = AF_UNSPEC, connect_addr = zero_sockaddr, bind_addr = zero_sockaddr,
     i_if_index_v6 = -1, psz_displayname = [], i_config = 0,
     i_cfg_network_id = i_network_id s, network_name = [], service_name = [],
     provider_name = [], pi_ssrc = replicate 4 0, i_output_latency = 0, i_max_retention = 0,
     i_ttl = 0, i_tos = 0, i_mtu = 0, psz_srcaddr = None, i_srcport = 0, i_cfg_tsid = 0,
     i_sid = 0, pi_pids = [], i_new_sid = 0, i_onid = 0, b_passthrough = False,
     b_cfg_do_remap = False, pi_confpids = replicate CLDVB_N_MAP_PIDS UNUSED_PID\<rparr>"

definition config_Defaults :: "'a dvboutput_scheme \<Rightarrow> output_config" where
  "config_Defaults s = (config_Init s)\<lparr>
     i_config := (if b_udp_global s then OUTPUT_UDP else 0)
                 OR (if b_dvb_global s then OUTPUT_DVB else 0)
                 OR (if b_epg_global s then OUTPUT_EPG else 0),
     i_max_retention := i_retention_global s,
     i_output_latency := i_latency_global s,
     i_cfg_tsid := -1,
     i_ttl := i_ttl_global s,
     pi_ssrc := pi_ssrc_global s,
     network_name := gl_network_name s,
     provider_name := gl_provider_name s\<rparr>"

subsection \<open>Raw headers\<close>

text \<open>\<open>htons\<close> on the little-endian hosts the program is built for.\<close>

definition htons :: "16 word \<Rightarrow> 16 word" where
  "htons w = push_bit 8 w OR drop_bit 8 w"

definition sizeof_udprawpkt :: nat where "sizeof_udprawpkt = 28"
definition sizeof_udpheader :: nat where "sizeof_udpheader = 8"

definition RawFillHeaders ::
  "32 word \<Rightarrow> 32 word \<Rightarrow> 16 word \<Rightarrow> 16 word \<Rightarrow> byte \<Rightarrow> byte \<Rightarrow> 16 word \<Rightarrow> rawpkt" where
  "RawFillHeaders ipsrc ipdst portsrc portdst ttl tos len = \<lparr>
     ip_ihl = 5, ip_version = 4, ip_tos = tos,
     ip_tot_len = of_nat sizeof_udprawpkt + len, ip_id = htons 0, ip_frag_off = 0,
     ip_ttl = ttl, ip_protocol = 17, ip_check = 0, ip_saddr = ipsrc, ip_daddr = ipdst,
     udp_source = htons portsrc, udp_dest = htons portdst,
     udp_len = htons (of_nat sizeof_udpheader + len), udp_check = 0\<rparr>"

subsection \<open>Packets\<close>

definition output_BlockCount :: "'b ts_lib_scheme \<Rightarrow> output_st \<Rightarrow> int" where
  "output_BlockCount B p =
     (let mtu = (if has_flag (i_config (config p)) OUTPUT_UDP then i_mtu (config p)
                 else i_mtu (config p) - int (RTP_HEADER_SIZE B))
      in mtu sdiv int TS_SIZE)"

text \<open>
  A packet is allocated with room for \<open>output_BlockCount\<close> block pointers; one taken from the
  free list keeps the room it was allocated with.
\<close>

definition output_PacketNew :: "'b ts_lib_scheme \<Rightarrow> output_st \<Rightarrow> (packet \<times> output_st) option" where
  "output_PacketNew B p = do {
     (cap, p) \<leftarrow>
       (if i_packet_count p \<noteq> 0 then
          (case o_packet_lifo p of
             [] \<Rightarrow> None
           | c # cs \<Rightarrow> Some (c, p\<lparr>o_packet_lifo := cs, i_packet_count := i_packet_count p - 1\<rparr>))
        else Some (nat (output_BlockCount B p), p));
     Some (\<lparr>pk_dts = 0, pk_blocks = [], pk_cap = cap\<rparr>, p) }"

definition output_PacketDelete :: "packet \<Rightarrow> output_st \<Rightarrow> output_st" where
  "output_PacketDelete pk p =
     (if CLDVB_OUTPUT_MAX_PACKETS \<le> i_packet_count p then p
      else p\<lparr>o_packet_lifo := pk_cap pk # o_packet_lifo p, i_packet_count := Suc (i_packet_count p)\<rparr>)"

function output_PacketVacuum :: "output_st \<Rightarrow> output_st option" where
  "output_PacketVacuum p =
     (if i_packet_count p = 0 then Some p
      else (case o_packet_lifo p of
              [] \<Rightarrow> None
            | c # cs \<Rightarrow> output_PacketVacuum
                          (p\<lparr>o_packet_lifo := cs, i_packet_count := i_packet_count p - 1\<rparr>)))"
  by pat_completeness auto
termination
  by (relation "measure i_packet_count") auto

declare output_PacketVacuum.simps [simp del]

definition init_pid_mapping :: "output_st \<Rightarrow> output_st" where
  "init_pid_mapping p = p\<lparr>
     pi_newpids := (\<lambda>i. if i < MAX_PIDS then UNUSED_PID else pi_newpids p i),
     pi_freepids := (\<lambda>i. if i < MAX_PIDS then UNUSED_PID else pi_freepids p i)\<rparr>"

subsection \<open>Queueing a block\<close>

text \<open>
  The block joins the last packet when that has room and is young enough, otherwise it starts
  a new packet. Writing past the room of the packet is out of bounds.
\<close>

definition packet_has_pcr :: "'b ts_lib_scheme \<Rightarrow> bytes \<Rightarrow> bool" where
  "packet_has_pcr B ts \<longleftrightarrow> ts_has_adaptation B ts \<and> ts_get_adaptation B ts \<noteq> 0 \<and> tsaf_has_pcr B ts"

definition packet_append :: "nat \<Rightarrow> packet \<Rightarrow> packet option" where
  "packet_append b pk =
     (if length (pk_blocks pk) < pk_cap pk then Some (pk\<lparr>pk_blocks := pk_blocks pk @ [b]\<rparr>) else None)"

definition output_Enqueue ::
  "'b ts_lib_scheme \<Rightarrow> bytes \<Rightarrow> mtime \<Rightarrow> nat \<Rightarrow> output_st \<Rightarrow> (mtime \<times> output_st) option" where
  "output_Enqueue B ts dts b p =
     (if o_packets p \<noteq> []
         \<and> int (length (pk_blocks (last (o_packets p)))) < output_BlockCount B p
         \<and> pk_dts (last (o_packets p)) + i_max_retention (config p) > dts
      then do {
        let pk = last (o_packets p);
        let pk = (if packet_has_pcr B ts then pk\<lparr>pk_dts := dts\<rparr> else pk);
        pk \<leftarrow> packet_append b pk;
        Some (pk_dts pk, p\<lparr>o_packets := butlast (o_packets p) @ [pk]\<rparr>) }
      else do {
        (pk, p) \<leftarrow> output_PacketNew B p;
        pk \<leftarrow> packet_append b (pk\<lparr>pk_dts := dts\<rparr>);
        Some (pk_dts pk, p\<lparr>o_packets := o_packets p @ [pk]\<rparr>) })"

definition output_Put ::
  "'b ts_lib_scheme \<Rightarrow> oref \<Rightarrow> nat \<Rightarrow> 'a dvboutput_scheme \<Rightarrow> 'a dvboutput_scheme option" where
  "output_Put B r b s = do {
     ensure (oref_ok s r);
     ensure (allocd s b);
     let s = block_Acquire b s;
     (dts, p) \<leftarrow> output_Enqueue B (bk_ts (mem s b)) (bk_dts (mem s b)) b (out_at s r);
     let s = upd_out r (\<lambda>_. p) s;
     let due = dts + i_output_latency (config p);
     Some (if i_next_send s > due
           then s\<lparr>i_next_send := due, out_timer := Some (due - i_out_wallclock s)\<rparr>
           else s) }"

subsection \<open>Sending a packet\<close>

definition remap_on :: "'a dvboutput_scheme \<Rightarrow> output_st \<Rightarrow> bool" where
  "remap_on s p \<longleftrightarrow> b_do_remap s \<or> b_cfg_do_remap (config p)"

definition map_block :: "'b ts_lib_scheme \<Rightarrow> output_st \<Rightarrow> block \<Rightarrow> block" where
  "map_block B p b =
     (let pid = ts_get_pid B (bk_ts b) in
      if pi_newpids p pid \<noteq> UNUSED_PID
      then b\<lparr>bk_ts := ts_set_pid B (pi_newpids p pid) (bk_ts b), bk_tmp_pid := pid\<rparr>
      else b\<lparr>bk_tmp_pid := UNUSED_PID\<rparr>)"

definition unmap_block :: "'b ts_lib_scheme \<Rightarrow> block \<Rightarrow> block" where
  "unmap_block B b =
     (if bk_tmp_pid b \<noteq> UNUSED_PID then b\<lparr>bk_ts := ts_set_pid B (bk_tmp_pid b) (bk_ts b)\<rparr> else b)"

definition rtp_header :: "'b ts_lib_scheme \<Rightarrow> bytes \<Rightarrow> 16 word \<Rightarrow> mtime \<Rightarrow> bytes \<Rightarrow> bytes" where
  "rtp_header B buf seq now ssrc =
     rtp_set_ssrc B ssrc (rtp_set_timestamp B (word_of_int (now * 9 sdiv 100))
       (rtp_set_seqnum B seq (rtp_set_type B (RTP_TYPE_TS B) (rtp_set_hdr B buf))))"

text \<open>Dropping the packet's references; a block that stays gets its own PID back.\<close>

definition output_Unref ::
  "'b ts_lib_scheme \<Rightarrow> bool \<Rightarrow> nat \<Rightarrow> 'a dvboutput_scheme \<Rightarrow> 'a dvboutput_scheme option" where
  "output_Unref B remap b s = do {
     ensure (allocd s b);
     let s = upd_block b (\<lambda>k. k\<lparr>bk_refcount := bk_refcount k - 1\<rparr>) s;
     if bk_refcount (mem s b) = 0 then block_Delete b s
     else Some (if remap then upd_block b (unmap_block B) s else s) }"

definition flush_header :: "'b ts_lib_scheme \<Rightarrow> output_st \<Rightarrow> 'a dvboutput_scheme \<Rightarrow> iovec list" where
  "flush_header B p s =
     (if has_flag (i_config (config p)) OUTPUT_UDP then []
      else [IovBytes (rtp_header B (rtp_scratch s) (i_seqnum p) (i_out_wallclock s)
                        (pi_ssrc (config p)))])"

text \<open>The sequence number moves on with every RTP header, and the PIDs are mapped in place.\<close>

definition seq_next :: "output_st \<Rightarrow> output_st" where
  "seq_next p = (if has_flag (i_config (config p)) OUTPUT_UDP then p
                 else p\<lparr>i_seqnum := i_seqnum p + 1\<rparr>)"

definition flush_prepare ::
  "'b ts_lib_scheme \<Rightarrow> oref \<Rightarrow> packet \<Rightarrow> 'a dvboutput_scheme \<Rightarrow> 'a dvboutput_scheme" where
  "flush_prepare B r pk s =
     (let p = out_at s r;
          s = upd_out r seq_next s
      in if remap_on s p then fold (\<lambda>b. upd_block b (map_block B p)) (pk_blocks pk) s else s)"

text \<open>The payload as \<open>writev\<close> sees it, through pointers: padded up to the block count.\<close>

definition flush_payload :: "int \<Rightarrow> packet \<Rightarrow> 'a dvboutput_scheme \<Rightarrow> iovec list" where
  "flush_payload cnt pk s =
     map (\<lambda>b. IovBytes (bk_ts (mem s b))) (pk_blocks pk)
     @ replicate (nat (cnt - int (length (pk_blocks pk)))) (IovBytes (p_pad_ts s))"

definition raw_set_len :: "iovec list \<Rightarrow> output_st \<Rightarrow> output_st" where
  "raw_set_len body p =
     (if has_flag (i_config (config p)) OUTPUT_RAW
      then p\<lparr>raw_pkt_header := (raw_pkt_header p)
             \<lparr>udp_len := htons (of_nat (sizeof_udpheader + sum_list (map iov_len body)))\<rparr>\<rparr>
      else p)"

definition flush_write :: "oref \<Rightarrow> iovec list \<Rightarrow> 'a dvboutput_scheme \<Rightarrow> 'a dvboutput_scheme" where
  "flush_write r body s =
     (let p = out_at s r; raw = has_flag (i_config (config p)) OUTPUT_RAW;
          s = upd_out r (raw_set_len body) s;
          iov = (if raw then [IovRaw (raw_pkt_header (out_at s r))] else []) @ body;
          s = snd (sys_call (SysWritev (i_handle p) iov) s);
          (now, s) = mdate s
      in s\<lparr>i_out_wallclock := now\<rparr>)"

definition output_Flush ::
  "'b ts_lib_scheme \<Rightarrow> oref \<Rightarrow> 'a dvboutput_scheme \<Rightarrow> 'a dvboutput_scheme option" where
  "output_Flush B r s = do {
     ensure (oref_ok s r);
     let p = out_at s r;
     pk \<leftarrow> rd (o_packets p) 0;
     ensure (list_all (allocd s) (pk_blocks pk));
     let cnt = output_BlockCount B p;
     let raw = has_flag (i_config (config p)) OUTPUT_RAW;
     let s1 = flush_prepare B r pk s;
     let body = flush_header B p s @ flush_payload cnt pk s1;
     ensure (int (length body + (if raw then 1 else 0)) \<le> cnt + 2);
     let s2 = flush_write r body s1;
     s3 \<leftarrow> ofold (output_Unref B (remap_on s p)) (pk_blocks pk) s2;
     Some (upd_out r (\<lambda>p. output_PacketDelete pk (p\<lparr>o_packets := tl (o_packets p)\<rparr>)) s3) }"

subsection \<open>The send timer\<close>

definition head_due :: "output_st \<Rightarrow> mtime" where
  "head_due p = pk_dts (hd (o_packets p)) + i_output_latency (config p)"

definition head_is_due :: "output_st \<Rightarrow> mtime \<Rightarrow> bool" where
  "head_is_due p now \<longleftrightarrow> o_packets p \<noteq> [] \<and> head_due p \<le> now"

text \<open>\<open>while (p_packets && p_packets->i_dts + latency <= i_wallclock) output_Flush\<close>.\<close>

partial_function (option) flush_due ::
  "'b ts_lib_scheme \<Rightarrow> oref \<Rightarrow> 'a dvboutput_scheme \<Rightarrow> 'a dvboutput_scheme option" where
  "flush_due B r s =
     (if head_is_due (out_at s r) (i_out_wallclock s)
      then do { s \<leftarrow> output_Flush B r s; flush_due B r s }
      else Some s)"

definition send_dup :: "'b ts_lib_scheme \<Rightarrow> 'a dvboutput_scheme \<Rightarrow> 'a dvboutput_scheme option" where
  "send_dup B s =
     (if out_valid (output_dup s)
      then do {
        s \<leftarrow> flush_due B Dup s;
        Some (if o_packets (output_dup s) \<noteq> []
              then s\<lparr>i_next_send := head_due (output_dup s)\<rparr> else s) }
      else Some s)"

definition send_output ::
  "'b ts_lib_scheme \<Rightarrow> nat \<Rightarrow> 'a dvboutput_scheme \<Rightarrow> 'a dvboutput_scheme option" where
  "send_output B i s =
     (if \<not> out_valid (pp_outputs s ! i) then Some s
      else do {
        s \<leftarrow> flush_due B (Nth i) s;
        let p = pp_outputs s ! i;
        Some (if o_packets p \<noteq> [] \<and> head_due p < i_next_send s
              then s\<lparr>i_next_send := head_due p\<rparr> else s) })"

definition send_round :: "'b ts_lib_scheme \<Rightarrow> 'a dvboutput_scheme \<Rightarrow> 'a dvboutput_scheme option" where
  "send_round B s = do {
     s \<leftarrow> send_dup B (s\<lparr>i_next_send := INT64_MAX\<rparr>);
     ofold (send_output B) [0..<length (pp_outputs s)] s }"

partial_function (option) send_loop ::
  "'b ts_lib_scheme \<Rightarrow> 'a dvboutput_scheme \<Rightarrow> 'a dvboutput_scheme option" where
  "send_loop B s = do {
     s \<leftarrow> send_round B s;
     if i_next_send s \<le> i_out_wallclock s then send_loop B s else Some s }"

definition outputs_Send :: "'b ts_lib_scheme \<Rightarrow> 'a dvboutput_scheme \<Rightarrow> 'a dvboutput_scheme option" where
  "outputs_Send B s = do {
     let (now, s) = mdate s;
     s \<leftarrow> send_loop B (s\<lparr>i_out_wallclock := now, out_timer := None\<rparr>);
     Some (if i_next_send s < INT64_MAX
           then s\<lparr>out_timer := Some (i_next_send s - i_out_wallclock s)\<rparr> else s) }"

definition outputs_Init :: "'a dvboutput_scheme \<Rightarrow> 'a dvboutput_scheme" where
  "outputs_Init s = (let (now, s) = mdate s in s\<lparr>i_out_wallclock := now, out_timer := None\<rparr>)"

subsection \<open>Opening and closing an output\<close>

definition zero_rawpkt :: rawpkt where
  "zero_rawpkt = \<lparr>ip_ihl = 0, ip_version = 0, ip_tos = 0, ip_tot_len = 0, ip_id = 0,
     ip_frag_off = 0, ip_ttl = 0, ip_protocol = 0, ip_check = 0, ip_saddr = 0, ip_daddr = 0,
     udp_source = 0, udp_dest = 0, udp_len = 0, udp_check = 0\<rparr>"

definition zero_output :: "output_config \<Rightarrow> output_st" where
  "zero_output c = \<lparr>config = c, i_handle = 0, o_packets = [], o_packet_lifo = [],
     i_packet_count = 0, i_seqnum = 0, i_nb_errors = 0, i_last_error = 0,
     p_pat_section = None, i_pat_version = 0, i_pat_cc = 0,
     p_pmt_section = None, i_pmt_version = 0, i_pmt_cc = 0,
     p_nit_section = None, i_nit_version = 0, i_nit_cc = 0,
     p_sdt_section = None, i_sdt_version = 0, i_sdt_cc = 0,
     p_eit_ts_buffer = None, i_eit_ts_buffer_offset = 0, i_eit_cc = 0, i_tsid = 0,
     i_pcr_pid = 0, pi_newpids = (\<lambda>_. 0), pi_freepids = (\<lambda>_. 0),
     raw_pkt_header = zero_rawpkt\<rparr>"

definition sin_addr :: "sockaddr \<Rightarrow> 32 word" where
  "sin_addr a = of_nat (unat (sa_data a ! 2) + 256 * unat (sa_data a ! 3)
                  + 65536 * unat (sa_data a ! 4) + 16777216 * unat (sa_data a ! 5))"

definition sin_port :: "sockaddr \<Rightarrow> 16 word" where
  "sin_port a = of_nat (256 * unat (sa_data a ! 0) + unat (sa_data a ! 1))"

text \<open>The random start values of an output, drawn in the order of the code.\<close>

definition output_Randomize :: "output_st \<Rightarrow> 'a dvboutput_scheme \<Rightarrow> output_st \<times> 'a dvboutput_scheme" where
  "output_Randomize p s =
     (let (seq, s) = rand_mod 65536 s;
          (pat_cc, s) = rand_mod 16 s; (pmt_cc, s) = rand_mod 16 s; (nit_cc, s) = rand_mod 16 s;
          (sdt_cc, s) = rand_mod 16 s; (eit_cc, s) = rand_mod 16 s;
          (pat_v, s) = rand_mod 256 s; (pmt_v, s) = rand_mod 256 s;
          (nit_v, s) = rand_mod 256 s; (sdt_v, s) = rand_mod 256 s;
          p = p\<lparr>i_seqnum := word_of_int seq, i_pat_cc := nat pat_cc, i_pmt_cc := nat pmt_cc,
                i_nit_cc := nat nit_cc, i_sdt_cc := nat sdt_cc, i_eit_cc := nat eit_cc,
                i_pat_version := word_of_int pat_v, i_pmt_version := word_of_int pmt_v,
                i_nit_version := word_of_int nit_v, i_sdt_version := word_of_int sdt_v\<rparr>
      in if b_random_tsid s
         then (let (t, s) = rand_mod 65536 s in (p\<lparr>i_tsid := word_of_int t\<rparr>, s))
         else (p, s))"

definition output_Bind :: "output_config \<Rightarrow> int \<Rightarrow> 'a dvboutput_scheme \<Rightarrow> 'a dvboutput_scheme" where
  "output_Bind c fd s =
     (let s = (if ss_family (bind_addr c) \<noteq> AF_UNSPEC
               then (let s = snd (sys_call (SysBind fd (bind_addr c)) s) in
                     if i_family c = AF_INET \<and> in_multicast (connect_addr c)
                     then snd (sys_call (SysMulticastIf fd) s) else s)
               else s)
      in if i_family c = AF_INET6 \<and> i_if_index_v6 c \<noteq> -1 \<and> in6_multicast (connect_addr c)
         then snd (sys_call (SysMulticastIf fd) s) else s)"

text \<open>The fields of a new output that come from its configuration.\<close>

definition output_Adopt :: "output_config \<Rightarrow> output_st \<Rightarrow> output_st" where
  "output_Adopt c p =
     (let p = init_pid_mapping (p\<lparr>i_pcr_pid := 0\<rparr>);
          p = p\<lparr>config := (config p)\<lparr>i_family := i_family c, connect_addr := connect_addr c,
                bind_addr := bind_addr c, i_if_index_v6 := i_if_index_v6 c\<rparr>\<rparr>
      in if has_flag (i_config c) OUTPUT_RAW
         then p\<lparr>config := (config p)\<lparr>i_config := i_config (config p) OR OUTPUT_RAW\<rparr>\<rparr> else p)"

definition socket_call :: "output_config \<Rightarrow> syscall" where
  "socket_call c = (if has_flag (i_config c) OUTPUT_RAW then SysSocket AF_INET True
                    else SysSocket (i_family c) False)"

definition output_RawHeader ::
  "'b ts_lib_scheme \<Rightarrow> output_config \<Rightarrow> output_st \<Rightarrow> output_st option" where
  "output_RawHeader B c p =
     (if has_flag (i_config c) OUTPUT_RAW
      then (case psz_srcaddr c of None \<Rightarrow> None
            | Some a \<Rightarrow> Some (p\<lparr>raw_pkt_header :=
                RawFillHeaders (inet_addr B a) (sin_addr (connect_addr c))
                  (word_of_int (i_srcport c)) (sin_port (connect_addr c))
                  (word_of_int (i_ttl c)) (i_tos c) 0\<rparr>))
      else Some p)"

definition set_valid :: "bool \<Rightarrow> output_st \<Rightarrow> output_st" where
  "set_valid v p = p\<lparr>config := (config p)\<lparr>i_config :=
     (if v then i_config (config p) OR OUTPUT_VALID else i_config (config p) AND NOT OUTPUT_VALID)\<rparr>\<rparr>"

definition output_Init ::
  "'b ts_lib_scheme \<Rightarrow> oref \<Rightarrow> output_config \<Rightarrow> 'a dvboutput_scheme \<Rightarrow> (int \<times> 'a dvboutput_scheme) option" where
  "output_Init B r c s = do {
     ensure (oref_ok s r);
     let (p, s) = output_Randomize (zero_output (config_Init s)) s;
     let (fd, s) = sys_call (socket_call c) s;
     let p = (output_Adopt c p)\<lparr>i_handle := fd\<rparr>;
     if fd < 0 then Some (- errno s, upd_out r (\<lambda>_. set_valid False p) s)
     else do {
       let s = output_Bind c fd s;
       p \<leftarrow> output_RawHeader B c p;
       let (rc, s) = sys_call (SysConnect fd (connect_addr c)) s;
       if rc < 0 then do {
         let s = snd (sys_call (SysClose fd) s);
         Some (- errno s, upd_out r (\<lambda>_. set_valid False p) s) }
       else Some (0, upd_out r (\<lambda>_. set_valid True p) s) } }"

text \<open>
  The first slot that is not in use, or a new one at the end. The result is the index of the
  output, \<open>None\<close> (inside) when the socket could not be set up: the slot then stays, unused.
\<close>

definition output_Create ::
  "'b ts_lib_scheme \<Rightarrow> output_config \<Rightarrow> 'a dvboutput_scheme \<Rightarrow> (nat option \<times> 'a dvboutput_scheme) option" where
  "output_Create B c s = do {
     let i = index_of (\<lambda>p. \<not> out_valid p) (pp_outputs s);
     let s = (if i = length (pp_outputs s)
              then s\<lparr>pp_outputs := pp_outputs s @ [zero_output (config_Init s)]\<rparr> else s);
     (rc, s) \<leftarrow> output_Init B (Nth i) c s;
     Some (if rc < 0 then None else Some i, s) }"

definition output_Close :: "oref \<Rightarrow> 'a dvboutput_scheme \<Rightarrow> 'a dvboutput_scheme option" where
  "output_Close r s = do {
     ensure (oref_ok s r);
     s \<leftarrow> ofold (\<lambda>pk s. do {
            s \<leftarrow> ofold block_Release (pk_blocks pk) s;
            Some (upd_out r (\<lambda>p. output_PacketDelete pk (p\<lparr>o_packets := tl (o_packets p)\<rparr>)) s) })
          (o_packets (out_at s r)) s;
     p \<leftarrow> output_PacketVacuum (out_at s r);
     s \<leftarrow> (case p_eit_ts_buffer p of None \<Rightarrow> Some s | Some b \<Rightarrow> c_free b s);
     let s = upd_out r (\<lambda>_. p\<lparr>o_packets := [], p_pat_section := None, p_pmt_section := None,
                p_nit_section := None, p_sdt_section := None, p_eit_ts_buffer := None,
                config := (config p)\<lparr>i_config := i_config (config p) AND NOT OUTPUT_VALID\<rparr>\<rparr>) s;
     Some (snd (sys_call (SysClose (i_handle p)) s)) }"

definition outputs_Close :: "'b ts_lib_scheme \<Rightarrow> 'a dvboutput_scheme \<Rightarrow> 'a dvboutput_scheme option" where
  "outputs_Close B s = do {
     s \<leftarrow> ofold (\<lambda>i s.
            if out_valid (pp_outputs s ! i) then do {
              s \<leftarrow> (if o_packets (pp_outputs s ! i) \<noteq> [] then output_Flush B (Nth i) s else Some s);
              output_Close (Nth i) s }
            else Some s) [0..<length (pp_outputs s)] s;
     Some (s\<lparr>pp_outputs := [], gl_network_name := [], gl_provider_name := []\<rparr>) }"

subsection \<open>Matching a configuration with a running output\<close>

definition output_matches :: "output_config \<Rightarrow> output_st \<Rightarrow> bool" where
  "output_matches c p \<longleftrightarrow>
     (let n = sockaddr_len (i_family c); q = config p in
      out_valid p
      \<and> i_family c = i_family q
      \<and> sockaddr_same n (connect_addr c) (connect_addr q)
      \<and> sockaddr_same n (bind_addr c) (bind_addr q)
      \<and> \<not> (i_family c = AF_INET6 \<and> i_if_index_v6 c \<noteq> i_if_index_v6 q)
      \<and> \<not> has_flag (i_config c XOR i_config q) OUTPUT_RAW)"

definition output_Find :: "output_config \<Rightarrow> 'a dvboutput_scheme \<Rightarrow> nat option" where
  "output_Find c s =
     (let i = index_of (output_matches c) (pp_outputs s) in
      if i = length (pp_outputs s) then None else Some i)"

text \<open>
  Live changes. The last packet is reallocated when the new MTU gives it more room, with
  \<open>sizeof(packet_t *)\<close> (8) where \<open>sizeof(packet_t)\<close> (24) is meant, so the new allocation
  has two slots fewer than the block count. The list keeps the old pointer to it: when
  \<open>realloc\<close> moves the packet, the queue dangles, and the model stops (\<open>None\<close>).
\<close>

definition output_ChangeMtu ::
  "'b ts_lib_scheme \<Rightarrow> output_config \<Rightarrow> oref \<Rightarrow> 'a dvboutput_scheme \<Rightarrow> 'a dvboutput_scheme option" where
  "output_ChangeMtu B c r s = do {
     let p = out_at s r;
     if i_mtu (config p) \<noteq> i_mtu c \<or> has_flag (i_config (config p) XOR i_config c) OUTPUT_UDP
     then do {
       let p = p\<lparr>config := (config p)\<lparr>
             i_config := (i_config (config p) AND NOT OUTPUT_UDP) OR (i_config c AND OUTPUT_UDP),
             i_mtu := i_mtu c\<rparr>\<rparr>;
       p \<leftarrow> output_PacketVacuum p;
       let cnt = output_BlockCount B p;
       if o_packets p \<noteq> [] \<and> int (length (pk_blocks (last (o_packets p)))) < cnt
       then do {
         let (moved, s) = sys_call SysRealloc s;
         ensure (moved = 0);
         let pk = (last (o_packets p))\<lparr>pk_cap := nat (cnt - 2)\<rparr>;
         Some (upd_out r (\<lambda>_. p\<lparr>o_packets := butlast (o_packets p) @ [pk]\<rparr>) s) }
       else Some (upd_out r (\<lambda>_. p) s) }
     else Some s }"

definition output_ChangeTtl :: "output_config \<Rightarrow> oref \<Rightarrow> 'a dvboutput_scheme \<Rightarrow> 'a dvboutput_scheme" where
  "output_ChangeTtl c r s =
     (let p = out_at s r; q = config p in
      if i_ttl q \<noteq> i_ttl c
      then (let s = (if i_family q = AF_INET6
                     then (if in6_multicast (connect_addr q)
                           then snd (sys_call (SysMulticastHops (i_handle p) (i_ttl c)) s) else s)
                     else (if in_multicast (connect_addr q)
                           then snd (sys_call (SysMulticastTtl (i_handle p) (i_ttl c)) s) else s))
            in upd_out r (\<lambda>p. p\<lparr>config := (config p)\<lparr>i_ttl := i_ttl c\<rparr>,
                 raw_pkt_header := (raw_pkt_header p)\<lparr>ip_ttl := word_of_int (i_ttl c)\<rparr>\<rparr>) s)
      else s)"

definition output_ChangeTos :: "output_config \<Rightarrow> oref \<Rightarrow> 'a dvboutput_scheme \<Rightarrow> 'a dvboutput_scheme" where
  "output_ChangeTos c r s =
     (let p = out_at s r; q = config p in
      if i_tos q \<noteq> i_tos c
      then (let s = (if i_family q = AF_INET
                     then snd (sys_call (SysIpTos (i_handle p) (i_tos c)) s) else s)
            in upd_out r (\<lambda>p. p\<lparr>config := (config p)\<lparr>i_tos := i_tos c\<rparr>,
                 raw_pkt_header := (raw_pkt_header p)\<lparr>ip_tos := i_tos c\<rparr>\<rparr>) s)
      else s)"

definition output_Change ::
  "'b ts_lib_scheme \<Rightarrow> oref \<Rightarrow> output_config \<Rightarrow> 'a dvboutput_scheme \<Rightarrow> 'a dvboutput_scheme option" where
  "output_Change B r c s = do {
     ensure (oref_ok s r);
     let s = upd_out r (\<lambda>p. p\<lparr>config := (config p)\<lparr>pi_ssrc := pi_ssrc c,
               i_output_latency := i_output_latency c, i_max_retention := i_max_retention c\<rparr>\<rparr>) s;
     let s = output_ChangeTtl c r s;
     let s = output_ChangeTos c r s;
     s \<leftarrow> output_ChangeMtu B c r s;
     if has_flag (i_config c) OUTPUT_RAW
     then (case psz_srcaddr c of None \<Rightarrow> None
           | Some a \<Rightarrow> Some (upd_out r (\<lambda>p. p\<lparr>raw_pkt_header := (raw_pkt_header p)
               \<lparr>ip_saddr := inet_addr B a, udp_source := htons (word_of_int (i_srcport c))\<rparr>\<rparr>) s))
     else Some s }"

end
