(* ===== verification/Dvb_OutputRefs.thy ===== *)
theory Dvb_OutputRefs
  imports Dvb_Outputs
begin

text \<open>
  Reference counting across the outputs: a block's count is the number of queue slots that hold
  it, plus one for an EIT buffer and one for each reference outside the outputs. Queueing and
  sending keep it; no step frees a block that is still queued.
\<close>

subsection \<open>Steps that touch the heap only\<close>

definition heap_only :: "'a dvbheap_scheme \<Rightarrow> 'a dvbheap_scheme \<Rightarrow> bool" where
  "heap_only s s' \<longleftrightarrow> (\<exists>m al li n.
     s' = s\<lparr>mem := m, allocd := al, p_block_lifo := li, i_block_count := n\<rparr>)"

lemma heap_only_refl [simp]: "heap_only s s"
  unfolding heap_only_def
  by (rule exI [of _ "mem s"], rule exI [of _ "allocd s"], rule exI [of _ "p_block_lifo s"],
      rule exI [of _ "i_block_count s"]) simp

lemma heap_only_trans: "heap_only s t \<Longrightarrow> heap_only t u \<Longrightarrow> heap_only s u"
  unfolding heap_only_def by (elim exE, hypsubst, simp) blast

lemma heap_only_upd_block [simp]: "heap_only s (upd_block b f s)"
  unfolding heap_only_def upd_block_def
  by (rule exI, rule exI [of _ "allocd s"], rule exI [of _ "p_block_lifo s"],
      rule exI [of _ "i_block_count s"]) (simp; fail)

lemma heap_only_Delete:
  assumes "block_Delete b s = Some s'"
  shows "heap_only s s'"
proof (cases "CLDVB_MAX_BLOCKS \<le> i_block_count s")
  case True
  with assms have "s' = s\<lparr>mem := mem s, allocd := (allocd s)(b := False),
      p_block_lifo := p_block_lifo s, i_block_count := i_block_count s\<rparr>"
    by (auto simp: block_Delete_def c_free_def split: if_splits)
  then show ?thesis unfolding heap_only_def by blast
next
  case False
  with assms have "s' = s\<lparr>mem := mem s, allocd := allocd s,
      p_block_lifo := b # p_block_lifo s, i_block_count := Suc (i_block_count s)\<rparr>"
    by (auto simp: block_Delete_def)
  then show ?thesis unfolding heap_only_def by blast
qed

lemma heap_only_Release: "block_Release b s = Some s' \<Longrightarrow> heap_only s s'"
  by (auto simp: block_Release_def Let_def split: if_splits
           intro: heap_only_trans [OF heap_only_upd_block] dest: heap_only_Delete)

lemma heap_only_Unref: "output_Unref B rm b s = Some s' \<Longrightarrow> heap_only s s'"
  by (auto simp: output_Unref_def Let_def split: if_splits
           intro: heap_only_trans [OF heap_only_upd_block heap_only_upd_block]
             heap_only_trans [OF heap_only_upd_block] dest: heap_only_Delete)

lemma heap_only_ofold:
  assumes "\<And>x s s'. f x s = Some s' \<Longrightarrow> heap_only s s'" and "ofold f xs s = Some s'"
  shows "heap_only s s'"
  by (rule ofold_preserves [OF _ _ assms(2)]) (auto intro: heap_only_trans assms(1))

lemma heap_only_fold_upd [simp]: "heap_only s (fold (\<lambda>b. upd_block b g) bs s)"
proof (induction bs arbitrary: s)
  case (Cons b bs)
  show ?case using heap_only_trans [OF heap_only_upd_block Cons.IH] by simp
qed simp

lemma heap_only_outputs [frame_simps]:
  fixes s s' :: "'a dvboutput_scheme"
  assumes "heap_only s s'"
  shows "pp_outputs s' = pp_outputs s" and "output_dup s' = output_dup s"
    and "out_at s' r = out_at s r" and "oref_ok s' r = oref_ok s r"
    and "i_next_send s' = i_next_send s" and "i_out_wallclock s' = i_out_wallclock s"
    and "clk s' = clk s" and "ticks s' = ticks s" and "brk s' = brk s"
    and "out_timer s' = out_timer s" and "sys_log s' = sys_log s"
    and "b_do_remap s' = b_do_remap s" and "p_pad_ts s' = p_pad_ts s"
  using assms unfolding heap_only_def by (cases r; auto)+

subsection \<open>Ghost counts\<close>

text \<open>The pool contract depends on the heap fields alone.\<close>

lemma agrees_cong:
  fixes s :: "'a dvbheap_scheme" and t :: "'b dvbheap_scheme"
  assumes "\<And>a. bk_refcount (mem t a) = bk_refcount (mem s a)" and "allocd t = allocd s"
    and "p_block_lifo t = p_block_lifo s" and "i_block_count t = i_block_count s" and "brk t = brk s"
  shows "pool.agrees c t \<longleftrightarrow> pool.agrees c s"
  using assms by (simp add: pool.agrees_def pool_ok_def live_def block_ref_def)

lemma map_block_ref [simp]: "bk_refcount (map_block B p b) = bk_refcount b"
  by (simp add: map_block_def Let_def)

lemma unmap_block_ref [simp]: "bk_refcount (unmap_block B b) = bk_refcount b"
  by (simp add: unmap_block_def)

lemma agrees_upd_block:
  assumes "\<And>b. bk_refcount (f b) = bk_refcount b"
  shows "pool.agrees c (upd_block a f s) \<longleftrightarrow> pool.agrees c s"
  by (rule agrees_cong) (auto simp: upd_block_def assms)

lemma agrees_fold_upd:
  assumes "\<And>b. bk_refcount (g b) = bk_refcount b"
  shows "pool.agrees c (fold (\<lambda>b. upd_block b g) bs s) \<longleftrightarrow> pool.agrees c s"
  by (induction bs arbitrary: s) (simp_all add: agrees_upd_block assms)

lemma agrees_allocd: "pool.agrees c s \<Longrightarrow> 0 < c a \<Longrightarrow> allocd s a"
  by (auto simp: pool.agrees_def live_def)

text \<open>Dropping a reference in the sender is \<open>block_Release\<close>, then the PID comes back.\<close>

lemma output_Unref_eq:
  "output_Unref B rm b s = (do {
     s' \<leftarrow> block_Release b s;
     Some (if rm \<and> bk_refcount (mem s b) \<noteq> 1 then upd_block b (unmap_block B) s' else s') })"
proof -
  have ref: "bk_refcount (mem (upd_block b (\<lambda>k. k\<lparr>bk_refcount := bk_refcount k - 1\<rparr>) s) b) = 0
             \<longleftrightarrow> bk_refcount (mem s b) = 1"
    by (auto simp: upd_block_def)
  show ?thesis
    by (cases "allocd s b"; cases "bk_refcount (mem s b) = 1")
       (simp_all add: output_Unref_def block_Release_def Let_def ref)
qed

lemma output_Unref_agrees:
  assumes "pool.agrees c s" and "0 < c b"
  shows "\<exists>s'. output_Unref B rm b s = Some s' \<and> pool.agrees (c(b := c b - 1)) s'"
proof -
  from pool.release_agrees [OF assms] obtain s' where
    "block_Release b s = Some s'" "pool.agrees (c(b := c b - 1)) s'" by blast
  then show ?thesis by (simp add: output_Unref_eq agrees_upd_block)
qed

lemma ofold_unref_agrees:
  fixes f :: "nat \<Rightarrow> 'a dvbheap_scheme \<Rightarrow> 'a dvbheap_scheme option"
  assumes step: "\<And>c s b. pool.agrees c s \<Longrightarrow> 0 < c b \<Longrightarrow> \<exists>s'. f b s = Some s' \<and> pool.agrees (c(b := c b - 1)) s'"
    and "pool.agrees c s" and "\<And>b. count_list bs b \<le> c b"
  shows "\<exists>s'. ofold f bs s = Some s' \<and> pool.agrees (\<lambda>b. c b - count_list bs b) s'"
  using assms(2,3)
proof (induction bs arbitrary: c s)
  case Nil
  then show ?case by simp
next
  case (Cons b bs)
  have "0 < c b" using Cons.prems(2) [of b] by simp
  with Cons.prems(1) step obtain s1 where
    s1: "f b s = Some s1" "pool.agrees (c(b := c b - 1)) s1" by blast
  have "count_list bs x \<le> (c(b := c b - 1)) x" for x
    using Cons.prems(2) [of x] by (auto split: if_splits)
  from Cons.IH [OF s1(2) this] obtain s' where
    s': "ofold f bs s1 = Some s'" "pool.agrees (\<lambda>x. (c(b := c b - 1)) x - count_list bs x) s'"
    by blast
  moreover have "(\<lambda>x. (c(b := c b - 1)) x - count_list bs x) = (\<lambda>x. c x - count_list (b # bs) x)"
    by (auto simp: fun_eq_iff)
  ultimately show ?case using s1(1) by simp
qed

subsection \<open>References held by the outputs\<close>

definition queued :: "output_st \<Rightarrow> nat list" where
  "queued p = concat (map pk_blocks (o_packets p))"

definition out_refs :: "output_st \<Rightarrow> nat \<Rightarrow> nat" where
  "out_refs p b = count_list (queued p) b + (if p_eit_ts_buffer p = Some b then 1 else 0)"

definition refs :: "'a dvboutput_scheme \<Rightarrow> nat \<Rightarrow> nat" where
  "refs s b = out_refs (output_dup s) b + sum_list (map (\<lambda>p. out_refs p b) (pp_outputs s))"

text \<open>\<open>ext b\<close> counts the references outside the outputs (a packet being demultiplexed).\<close>

definition heap_ok :: "(nat \<Rightarrow> nat) \<Rightarrow> 'a dvboutput_scheme \<Rightarrow> bool" where
  "heap_ok ext s \<longleftrightarrow> pool.agrees (\<lambda>b. refs s b + ext b) s"

lemma heap_ok_live: "heap_ok ext s \<Longrightarrow> live s b \<longleftrightarrow> 0 < refs s b + ext b"
  by (simp add: heap_ok_def pool.agrees_def)

lemma heap_ok_ref:
  "heap_ok ext s \<Longrightarrow> 0 < refs s b + ext b \<Longrightarrow> block_ref s b = int (refs s b + ext b)"
  by (simp add: heap_ok_def pool.agrees_def)

lemma refs_upd_out:
  assumes "oref_ok s r"
  shows "refs (upd_out r f s) b + out_refs (out_at s r) b = refs s b + out_refs (f (out_at s r)) b"
proof (cases r)
  case (Nth i)
  with assms have "i < length (pp_outputs s)" by simp
  from sum_list_map_update [OF this, of "\<lambda>p. out_refs p b" "f (pp_outputs s ! i)"] Nth
  show ?thesis by (simp add: refs_def)
qed (simp add: refs_def)

lemma out_refs_le: "oref_ok s r \<Longrightarrow> out_refs (out_at s r) b \<le> refs s b"
  by (cases r) (auto simp: refs_def intro: trans_le_add2 sum_list_map_ge_nth)

lemma refs_upd_out_same:
  assumes "oref_ok s r" and "\<And>b. out_refs (f (out_at s r)) b = out_refs (out_at s r) b"
  shows "refs (upd_out r f s) b = refs s b"
  using refs_upd_out [OF assms(1), of f b] assms(2) by simp

lemma heap_only_refs [frame_simps]:
  "heap_only s s' \<Longrightarrow> refs s' = refs (s :: 'a dvboutput_scheme)"
  by (auto simp: refs_def fun_eq_iff frame_simps)

lemma upd_out_heap [simp]:
  "mem (upd_out r f s) = mem s" "allocd (upd_out r f s) = allocd s"
  "p_block_lifo (upd_out r f s) = p_block_lifo s" "i_block_count (upd_out r f s) = i_block_count s"
  "brk (upd_out r f s) = brk s" "i_next_send (upd_out r f s) = i_next_send s"
  "i_out_wallclock (upd_out r f s) = i_out_wallclock s" "clk (upd_out r f s) = clk s"
  "ticks (upd_out r f s) = ticks s" "sys_log (upd_out r f s) = sys_log s"
  "oref_ok (upd_out r f s) r' = oref_ok s r'" "out_timer (upd_out r f s) = out_timer s"
  "sys_ret (upd_out r f s) = sys_ret s" "sys_err (upd_out r f s) = sys_err s"
  "errno (upd_out r f s) = errno s" "rtp_scratch (upd_out r f s) = rtp_scratch s"
  "p_pad_ts (upd_out r f s) = p_pad_ts s" "b_do_remap (upd_out r f s) = b_do_remap s"
  "length (pp_outputs (upd_out r f s)) = length (pp_outputs s)"
  by (cases r; cases r'; simp)+

lemma out_at_upd_out:
  "oref_ok s r \<Longrightarrow> out_at (upd_out r f s) r' = (if r' = r then f (out_at s r) else out_at s r')"
  by (cases r; cases r') (auto simp: nth_list_update)

lemma agrees_upd_out [simp]: "pool.agrees c (upd_out r f s) \<longleftrightarrow> pool.agrees c s"
  by (rule agrees_cong) simp_all

subsection \<open>Well-formed outputs\<close>

definition out_wf :: "'b ts_lib_scheme \<Rightarrow> output_st \<Rightarrow> bool" where
  "out_wf B p \<longleftrightarrow> 1 \<le> output_BlockCount B p
     \<and> i_packet_count p = length (o_packet_lifo p) \<and> i_packet_count p \<le> CLDVB_OUTPUT_MAX_PACKETS
     \<and> (\<forall>c \<in> set (o_packet_lifo p). c = nat (output_BlockCount B p))
     \<and> (\<forall>pk \<in> set (o_packets p). pk_blocks pk \<noteq> [] \<and> length (pk_blocks pk) \<le> pk_cap pk
           \<and> pk_cap pk = nat (output_BlockCount B p))"

lemma BlockCount_cong:
  "i_config (config p) = i_config (config q) \<Longrightarrow> i_mtu (config p) = i_mtu (config q) \<Longrightarrow>
   output_BlockCount B p = output_BlockCount B q"
  by (simp add: output_BlockCount_def)

lemma output_PacketNew_spec:
  assumes "out_wf B p"
  shows "\<exists>p'. output_PacketNew B p =
            Some (\<lparr>pk_dts = 0, pk_blocks = [], pk_cap = nat (output_BlockCount B p)\<rparr>, p')
          \<and> out_wf B p' \<and> o_packets p' = o_packets p \<and> config p' = config p
          \<and> p_eit_ts_buffer p' = p_eit_ts_buffer p"
proof (cases "o_packet_lifo p")
  case Nil
  with assms show ?thesis by (auto simp: output_PacketNew_def out_wf_def)
next
  case (Cons c cs)
  then show ?thesis
    using assms by (auto simp: output_PacketNew_def out_wf_def output_BlockCount_def)
qed

lemma output_PacketVacuum_spec:
  assumes "i_packet_count p = length (o_packet_lifo p)"
  shows "output_PacketVacuum p = Some (p\<lparr>o_packet_lifo := [], i_packet_count := 0\<rparr>)"
  using assms
proof (induction "i_packet_count p" arbitrary: p)
  case 0
  then show ?case by (subst output_PacketVacuum.simps) simp
next
  case (Suc n)
  then obtain c cs where "o_packet_lifo p = c # cs" by (cases "o_packet_lifo p") auto
  with Suc show ?case by (subst output_PacketVacuum.simps) simp
qed

lemma output_Enqueue_spec:
  assumes "out_wf B p"
  shows "\<exists>d p'. output_Enqueue B ts dts b p = Some (d, p') \<and> out_wf B p'
          \<and> queued p' = queued p @ [b] \<and> config p' = config p
          \<and> p_eit_ts_buffer p' = p_eit_ts_buffer p
          \<and> o_packets p' \<noteq> [] \<and> pk_dts (last (o_packets p')) = d
          \<and> (o_packets p = [] \<longrightarrow> pk_dts (hd (o_packets p')) = d)
          \<and> (o_packets p \<noteq> [] \<longrightarrow> pk_dts (hd (o_packets p')) \<in> {pk_dts (hd (o_packets p)), d})"
proof (cases "o_packets p \<noteq> []
    \<and> int (length (pk_blocks (last (o_packets p)))) < output_BlockCount B p
    \<and> pk_dts (last (o_packets p)) + i_max_retention (config p) > dts")
  case True
  then obtain ps pk where ps: "o_packets p = ps @ [pk]"
    by (metis append_butlast_last_id)
  define pk1 where "pk1 = (if packet_has_pcr B ts then pk\<lparr>pk_dts := dts\<rparr> else pk)"
  define pk2 where "pk2 = pk1\<lparr>pk_blocks := pk_blocks pk1 @ [b]\<rparr>"
  have pk1: "pk_blocks pk1 = pk_blocks pk" "pk_cap pk1 = pk_cap pk" by (simp_all add: pk1_def)
  from True ps assms have cap: "length (pk_blocks pk) < pk_cap pk"
    by (auto simp: out_wf_def)
  have eq: "output_Enqueue B ts dts b p = Some (pk_dts pk1, p\<lparr>o_packets := ps @ [pk2]\<rparr>)"
    using True cap ps pk1 unfolding output_Enqueue_def packet_append_def
    by (simp add: Let_def flip: pk1_def) (simp add: pk2_def)
  have "pk_dts (hd (ps @ [pk2])) \<in> {pk_dts (hd (ps @ [pk])), pk_dts pk1}"
    by (cases ps) (auto simp: pk2_def)
  moreover have "out_wf B (p\<lparr>o_packets := ps @ [pk2]\<rparr>)"
    using assms ps cap pk1 by (auto simp: out_wf_def output_BlockCount_def pk2_def)
  ultimately show ?thesis
    using eq ps pk1 by (simp add: queued_def pk2_def)
next
  case False
  from output_PacketNew_spec [OF assms] obtain p1 where p1:
    "output_PacketNew B p =
       Some (\<lparr>pk_dts = 0, pk_blocks = [], pk_cap = nat (output_BlockCount B p)\<rparr>, p1)"
    "out_wf B p1" "o_packets p1 = o_packets p" "config p1 = config p"
    "p_eit_ts_buffer p1 = p_eit_ts_buffer p" by blast
  define pk where "pk = \<lparr>pk_dts = dts, pk_blocks = [b], pk_cap = nat (output_BlockCount B p)\<rparr>"
  have cnt: "1 \<le> output_BlockCount B p" "output_BlockCount B p1 = output_BlockCount B p"
    using assms p1(4) by (auto simp: out_wf_def output_BlockCount_def)
  have eq: "output_Enqueue B ts dts b p = Some (dts, p1\<lparr>o_packets := o_packets p @ [pk]\<rparr>)"
    using p1(1,3) cnt unfolding output_Enqueue_def packet_append_def if_not_P [OF False]
    by (simp add: pk_def)
  have "out_wf B (p1\<lparr>o_packets := o_packets p @ [pk]\<rparr>)"
    using p1 cnt by (auto simp: out_wf_def output_BlockCount_def pk_def)
  with eq p1 show ?thesis
    by (cases "o_packets p") (auto simp: queued_def pk_def)
qed

end
