(* ===== verification/Dvb_OutputProps.thy ===== *)
theory Dvb_OutputProps
  imports Dvb_OutputRefs
begin

text \<open>
  What queueing, sending and the send timer guarantee: no operation fails on a well-formed
  output, references stay exact, the datagrams have the announced size, and a remapped block
  gets its own PID back.
\<close>

subsection \<open>Queueing\<close>

lemma agrees_record_upd [simp]:
  "pool.agrees c (s\<lparr>i_next_send := n, out_timer := t\<rparr>) \<longleftrightarrow> pool.agrees c s"
  "pool.agrees c (s\<lparr>i_next_send := n\<rparr>) \<longleftrightarrow> pool.agrees c s"
  "pool.agrees c (s\<lparr>i_out_wallclock := n\<rparr>) \<longleftrightarrow> pool.agrees c s"
  "pool.agrees c (s\<lparr>sys_log := l, errno := e\<rparr>) \<longleftrightarrow> pool.agrees c s"
  "pool.agrees c (s\<lparr>ticks := k\<rparr>) \<longleftrightarrow> pool.agrees c (s :: 'a dvboutput_scheme)"
  by (rule agrees_cong; simp)+

lemma refs_record_upd [simp]:
  "refs (s\<lparr>i_next_send := n, out_timer := t\<rparr>) = refs s"
  "refs (s\<lparr>i_next_send := n\<rparr>) = refs s"
  "refs (s\<lparr>i_out_wallclock := n\<rparr>) = refs s"
  "refs (s\<lparr>sys_log := l, errno := e\<rparr>) = refs s"
  "refs (s\<lparr>ticks := k\<rparr>) = refs (s :: 'a dvboutput_scheme)"
  by (simp_all add: refs_def fun_eq_iff)

lemma heap_only_Acquire [simp]: "heap_only s (block_Acquire b s)"
  by (simp add: block_Acquire_def)

lemma refs_Put:
  assumes "oref_ok s r" and "queued p = queued (out_at s r) @ [b]"
    and "p_eit_ts_buffer p = p_eit_ts_buffer (out_at s r)"
  shows "refs (upd_out r (\<lambda>_. p) s) x = refs s x + (if x = b then 1 else 0)"
  using refs_upd_out [OF assms(1), of "\<lambda>_. p" x] assms(2,3)
  by (auto simp: out_refs_def split: if_splits)

lemma output_Put_spec:
  assumes "heap_ok ext s" and "oref_ok s r" and "out_wf B (out_at s r)" and "0 < refs s b + ext b"
  shows "\<exists>s'. output_Put B r b s = Some s' \<and> heap_ok ext s' \<and> out_wf B (out_at s' r)
           \<and> queued (out_at s' r) = queued (out_at s r) @ [b]
           \<and> (\<forall>r'. r' \<noteq> r \<longrightarrow> out_at s' r' = out_at s r')
           \<and> length (pp_outputs s') = length (pp_outputs s)"
proof -
  let ?ts = "bk_ts (mem s b)" and ?dts = "bk_dts (mem s b)"
  have acq: "bk_ts (mem (block_Acquire b s) b) = ?ts" "bk_dts (mem (block_Acquire b s) b) = ?dts"
    by (simp_all add: block_Acquire_def upd_block_def)
  from output_Enqueue_spec [OF assms(3), of ?ts ?dts b] obtain d p where
    enq: "output_Enqueue B ?ts ?dts b (out_at s r) = Some (d, p)" and
    p: "out_wf B p" "queued p = queued (out_at s r) @ [b]"
       "p_eit_ts_buffer p = p_eit_ts_buffer (out_at s r)" by blast
  define s1 where "s1 = upd_out r (\<lambda>_. p) (block_Acquire b s)"
  have al: "allocd s b"
    using assms(1,4) agrees_allocd unfolding heap_ok_def by fastforce
  have "pool.agrees ((\<lambda>b. refs s b + ext b)(b := Suc (refs s b + ext b))) (block_Acquire b s)"
    using pool.acquire_agrees [of "\<lambda>b. refs s b + ext b" s b] assms(1,4)
    unfolding heap_ok_def by simp
  moreover have "refs s1 x = refs s x + (if x = b then 1 else 0)" for x
    unfolding s1_def using refs_Put [of "block_Acquire b s" r p b x] assms(2) p(2,3)
    by (simp add: frame_simps [OF heap_only_Acquire])
  then have "(\<lambda>x. refs s1 x + ext x) = (\<lambda>b. refs s b + ext b)(b := Suc (refs s b + ext b))"
    by (auto simp: fun_eq_iff)
  ultimately have ok: "pool.agrees (\<lambda>x. refs s1 x + ext x) s1"
    unfolding s1_def by simp
  have out: "out_at s1 r' = (if r' = r then p else out_at s r')" for r'
    unfolding s1_def using assms(2)
    by (subst out_at_upd_out) (simp_all add: frame_simps [OF heap_only_Acquire])
  define s' where "s' = (if i_next_send s > d + i_output_latency (config p)
      then s1\<lparr>i_next_send := d + i_output_latency (config p),
              out_timer := Some (d + i_output_latency (config p) - i_out_wallclock s)\<rparr> else s1)"
  have put: "output_Put B r b s = Some s'"
    using enq al assms(2) unfolding output_Put_def
    by (simp add: Let_def acq frame_simps [OF heap_only_Acquire] flip: s1_def)
       (simp add: s'_def s1_def frame_simps [OF heap_only_Acquire])
  have same: "out_at s' r' = out_at s1 r'" "pool.agrees c s' \<longleftrightarrow> pool.agrees c s1"
    "refs s' = refs s1" "length (pp_outputs s') = length (pp_outputs s)" for r' c
    by (cases r'; simp add: s'_def s1_def frame_simps [OF heap_only_Acquire])+
  show ?thesis
    using put ok out p same by (auto simp: heap_ok_def)
qed

subsection \<open>Sending\<close>

lemma out_at_record_upd [simp]:
  "out_at (s\<lparr>i_next_send := n\<rparr>) r = out_at s r"
  "out_at (s\<lparr>i_out_wallclock := n\<rparr>) r = out_at s r"
  "out_at (s\<lparr>sys_log := l, errno := e\<rparr>) r = out_at s r"
  "out_at (s\<lparr>ticks := k\<rparr>) r = out_at (s :: 'a dvboutput_scheme) r"
  "oref_ok (s\<lparr>i_next_send := n\<rparr>) r = oref_ok s r"
  "oref_ok (s\<lparr>i_out_wallclock := n\<rparr>) r = oref_ok s r"
  "oref_ok (s\<lparr>sys_log := l, errno := e\<rparr>) r = oref_ok s r"
  "oref_ok (s\<lparr>ticks := k\<rparr>) r = oref_ok (s :: 'a dvboutput_scheme) r"
  by (cases r; simp)+

lemma raw_set_len_fields [simp]:
  "o_packets (raw_set_len body p) = o_packets p" "config (raw_set_len body p) = config p"
  "p_eit_ts_buffer (raw_set_len body p) = p_eit_ts_buffer p"
  "o_packet_lifo (raw_set_len body p) = o_packet_lifo p"
  "i_packet_count (raw_set_len body p) = i_packet_count p"
  "pi_newpids (raw_set_len body p) = pi_newpids p" "i_seqnum (raw_set_len body p) = i_seqnum p"
  by (simp_all add: raw_set_len_def)

definition flush_iov :: "oref \<Rightarrow> iovec list \<Rightarrow> 'a dvboutput_scheme \<Rightarrow> iovec list" where
  "flush_iov r body s =
     (if has_flag (i_config (config (out_at s r))) OUTPUT_RAW
      then [IovRaw (raw_pkt_header (raw_set_len body (out_at s r)))] else []) @ body"

lemma flush_write_eq:
  assumes "oref_ok s r"
  shows "\<exists>e. flush_write r body s = (upd_out r (raw_set_len body) s)
     \<lparr>sys_log := sys_log s @ [SysWritev (i_handle (out_at s r)) (flush_iov r body s)], errno := e\<rparr>
     \<lparr>ticks := Suc (ticks s)\<rparr>\<lparr>i_out_wallclock := clk s (ticks s)\<rparr>"
  by (rule exI [of _ "if sys_ret s (length (sys_log s)) < 0 then sys_err s (length (sys_log s))
                      else errno s"])
     (use assms in \<open>simp add: flush_write_def Let_def sys_call_def mdate_def flush_iov_def
        out_at_upd_out cong: if_cong\<close>)

lemma flush_write_frame:
  assumes "oref_ok s r"
  shows "mem (flush_write r body s) = mem s" "allocd (flush_write r body s) = allocd s"
    "oref_ok (flush_write r body s) r' = oref_ok s r'"
    "clk (flush_write r body s) = clk s" "ticks (flush_write r body s) = Suc (ticks s)"
    "i_out_wallclock (flush_write r body s) = clk s (ticks s)"
    "i_next_send (flush_write r body s) = i_next_send s" "out_timer (flush_write r body s) = out_timer s"
    "length (pp_outputs (flush_write r body s)) = length (pp_outputs s)"
    "out_at (flush_write r body s) r' =
       (if r' = r then raw_set_len body (out_at s r) else out_at s r')"
    "pool.agrees c (flush_write r body s) \<longleftrightarrow> pool.agrees c s"
    "sys_log (flush_write r body s) =
       sys_log s @ [SysWritev (i_handle (out_at s r)) (flush_iov r body s)]"
    "refs (flush_write r body s) = refs s"
proof -
  from flush_write_eq [OF assms, of body] obtain e where e:
    "flush_write r body s = (upd_out r (raw_set_len body) s)
     \<lparr>sys_log := sys_log s @ [SysWritev (i_handle (out_at s r)) (flush_iov r body s)], errno := e\<rparr>
     \<lparr>ticks := Suc (ticks s)\<rparr>\<lparr>i_out_wallclock := clk s (ticks s)\<rparr>" by blast
  have "refs (upd_out r (raw_set_len body) s) b = refs s b" for b
    by (rule refs_upd_out_same [OF assms]) (simp add: out_refs_def queued_def)
  then show
    "mem (flush_write r body s) = mem s" "allocd (flush_write r body s) = allocd s"
    "oref_ok (flush_write r body s) r' = oref_ok s r'"
    "clk (flush_write r body s) = clk s" "ticks (flush_write r body s) = Suc (ticks s)"
    "i_out_wallclock (flush_write r body s) = clk s (ticks s)"
    "i_next_send (flush_write r body s) = i_next_send s" "out_timer (flush_write r body s) = out_timer s"
    "length (pp_outputs (flush_write r body s)) = length (pp_outputs s)"
    "out_at (flush_write r body s) r' =
       (if r' = r then raw_set_len body (out_at s r) else out_at s r')"
    "pool.agrees c (flush_write r body s) \<longleftrightarrow> pool.agrees c s"
    "sys_log (flush_write r body s) =
       sys_log s @ [SysWritev (i_handle (out_at s r)) (flush_iov r body s)]"
    "refs (flush_write r body s) = refs s"
    using assms by (simp_all add: e out_at_upd_out fun_eq_iff)
qed

lemma seq_next_fields [simp]:
  "o_packets (seq_next p) = o_packets p" "config (seq_next p) = config p"
  "p_eit_ts_buffer (seq_next p) = p_eit_ts_buffer p" "o_packet_lifo (seq_next p) = o_packet_lifo p"
  "i_packet_count (seq_next p) = i_packet_count p" "pi_newpids (seq_next p) = pi_newpids p"
  "i_handle (seq_next p) = i_handle p"
  by (simp_all add: seq_next_def)

lemma fold_upd_allocd [simp]: "allocd (fold (\<lambda>b. upd_block b g) bs s) = allocd s"
  by (induction bs arbitrary: s) (simp_all add: upd_block_def)

lemma flush_prepare_eq:
  "flush_prepare B r pk s =
     (if remap_on s (out_at s r)
      then fold (\<lambda>b. upd_block b (map_block B (out_at s r))) (pk_blocks pk) (upd_out r seq_next s)
      else upd_out r seq_next s)"
  by (simp add: flush_prepare_def Let_def remap_on_def)

lemma flush_prepare_frame:
  assumes "oref_ok s r"
  shows "allocd (flush_prepare B r pk s) = allocd s"
    "oref_ok (flush_prepare B r pk s) r' = oref_ok s r'"
    "clk (flush_prepare B r pk s) = clk s" "ticks (flush_prepare B r pk s) = ticks s"
    "i_out_wallclock (flush_prepare B r pk s) = i_out_wallclock s"
    "i_next_send (flush_prepare B r pk s) = i_next_send s"
    "out_timer (flush_prepare B r pk s) = out_timer s"
    "length (pp_outputs (flush_prepare B r pk s)) = length (pp_outputs s)"
    "out_at (flush_prepare B r pk s) r' = (if r' = r then seq_next (out_at s r) else out_at s r')"
    "pool.agrees c (flush_prepare B r pk s) \<longleftrightarrow> pool.agrees c s"
    "sys_log (flush_prepare B r pk s) = sys_log s"
    "p_pad_ts (flush_prepare B r pk s) = p_pad_ts s"
    "refs (flush_prepare B r pk s) = refs s"
proof -
  have "refs (upd_out r seq_next s) b = refs s b" for b
    by (rule refs_upd_out_same [OF assms]) (simp add: out_refs_def queued_def)
  then have refs: "refs (upd_out r seq_next s) = refs s" by (simp add: fun_eq_iff)
  note f = frame_simps [OF heap_only_fold_upd]
  show "allocd (flush_prepare B r pk s) = allocd s"
    "oref_ok (flush_prepare B r pk s) r' = oref_ok s r'"
    "clk (flush_prepare B r pk s) = clk s" "ticks (flush_prepare B r pk s) = ticks s"
    "i_out_wallclock (flush_prepare B r pk s) = i_out_wallclock s"
    "i_next_send (flush_prepare B r pk s) = i_next_send s"
    "out_timer (flush_prepare B r pk s) = out_timer s"
    "length (pp_outputs (flush_prepare B r pk s)) = length (pp_outputs s)"
    "out_at (flush_prepare B r pk s) r' = (if r' = r then seq_next (out_at s r) else out_at s r')"
    "pool.agrees c (flush_prepare B r pk s) \<longleftrightarrow> pool.agrees c s"
    "sys_log (flush_prepare B r pk s) = sys_log s"
    "p_pad_ts (flush_prepare B r pk s) = p_pad_ts s"
    "refs (flush_prepare B r pk s) = refs s"
    using assms by (simp_all add: flush_prepare_eq f out_at_upd_out agrees_fold_upd refs)
qed

lemma PacketDelete_fields [simp]:
  "o_packets (output_PacketDelete pk p) = o_packets p" "config (output_PacketDelete pk p) = config p"
  "p_eit_ts_buffer (output_PacketDelete pk p) = p_eit_ts_buffer p"
  "i_seqnum (output_PacketDelete pk p) = i_seqnum p"
  by (simp_all add: output_PacketDelete_def)

lemma PacketDelete_wf:
  assumes "out_wf B p" and "pk_cap pk = nat (output_BlockCount B p)"
  shows "out_wf B (output_PacketDelete pk p)"
  using assms by (auto simp: out_wf_def output_PacketDelete_def output_BlockCount_def)

lemma out_wf_cong:
  assumes "config q = config p" and "o_packets q = o_packets p"
    and "o_packet_lifo q = o_packet_lifo p" and "i_packet_count q = i_packet_count p"
  shows "out_wf B q \<longleftrightarrow> out_wf B p"
  using assms by (simp add: out_wf_def output_BlockCount_def)

lemma flush_payload_length:
  "int (length (pk_blocks pk)) \<le> cnt \<Longrightarrow> length (flush_payload cnt pk s) = nat cnt"
  by (simp add: flush_payload_def)

lemma count_packet_le:
  assumes "oref_ok s r" and "o_packets (out_at s r) = pk # pks"
  shows "count_list (pk_blocks pk) b \<le> refs s b"
  using out_refs_le [OF assms(1), of b] assms(2) by (simp add: out_refs_def queued_def)

lemma ofold_Unref:
  assumes "pool.agrees c s" and "\<And>b. count_list bs b \<le> c b"
  shows "\<exists>s'. ofold (output_Unref B rm) bs s = Some s' \<and> pool.agrees (\<lambda>b. c b - count_list bs b) s'"
  by (rule ofold_unref_agrees [OF _ assms]) (rule output_Unref_agrees)

text \<open>Everything a send does, in one statement.\<close>

lemma output_Flush_spec:
  assumes ok: "heap_ok ext s" and r: "oref_ok s r" and wf: "out_wf B (out_at s r)"
    and pks: "o_packets (out_at s r) = pk # pks"
  defines "s1 \<equiv> flush_prepare B r pk s"
  defines "body \<equiv> flush_header B (out_at s r) s @ flush_payload (output_BlockCount B (out_at s r)) pk s1"
  defines "s2 \<equiv> flush_write r body s1"
  shows "\<exists>s3 s'. ofold (output_Unref B (remap_on s (out_at s r))) (pk_blocks pk) s2 = Some s3
     \<and> output_Flush B r s = Some s' \<and> heap_ok ext s' \<and> out_wf B (out_at s' r)
     \<and> o_packets (out_at s' r) = pks \<and> config (out_at s' r) = config (out_at s r)
     \<and> (\<forall>r'. r' \<noteq> r \<longrightarrow> out_at s' r' = out_at s r') \<and> (\<forall>r'. oref_ok s' r' = oref_ok s r')
     \<and> length (pp_outputs s') = length (pp_outputs s)
     \<and> clk s' = clk s \<and> ticks s' = Suc (ticks s) \<and> i_out_wallclock s' = clk s (ticks s)
     \<and> i_next_send s' = i_next_send s \<and> out_timer s' = out_timer s \<and> mem s' = mem s3
     \<and> i_seqnum (out_at s' r) = i_seqnum (seq_next (out_at s r))
     \<and> sys_log s' = sys_log s @ [SysWritev (i_handle (out_at s r)) (flush_iov r body s1)]
     \<and> (\<forall>b. refs s' b + count_list (pk_blocks pk) b = refs s b)"
proof -
  let ?p = "out_at s r" and ?bs = "pk_blocks pk" and ?c = "\<lambda>b. refs s b + ext b"
  let ?rm = "remap_on s ?p"
  note f1 = flush_prepare_frame [OF r]
  have r1: "oref_ok s1 r" using r by (simp add: f1 s1_def)
  note f2 = flush_write_frame [OF r1]
  have cnt: "count_list ?bs b \<le> refs s b" for b by (rule count_packet_le [OF r pks])
  have ag: "pool.agrees ?c s2" using ok by (simp add: f1 f2 heap_ok_def s2_def) (simp add: f1 s1_def)
  have "count_list ?bs b \<le> ?c b" for b using cnt [of b] by simp
  from ofold_Unref [OF ag this] obtain s3 where
    s3: "ofold (output_Unref B ?rm) ?bs s2 = Some s3"
        "pool.agrees (\<lambda>b. ?c b - count_list ?bs b) s3" by blast
  have h: "heap_only s2 s3" by (rule heap_only_ofold [OF heap_only_Unref s3(1)])
  note f3 = frame_simps [OF h]
  define s' where "s' = upd_out r (\<lambda>p. output_PacketDelete pk (p\<lparr>o_packets := tl (o_packets p)\<rparr>)) s3"
  have r3: "oref_ok s3 r'' = oref_ok s r''" for r'' by (simp add: f3 s2_def f2) (simp add: f1 s1_def)
  have depth: "int (length ?bs) \<le> output_BlockCount B ?p" and cap: "pk_cap pk = nat (output_BlockCount B ?p)"
    using wf pks by (auto simp: out_wf_def)
  have al: "list_all (allocd s) ?bs"
  proof (clarsimp simp: list_all_iff)
    fix b assume "b \<in> set ?bs"
    then have "0 < ?c b" using cnt [of b] by (simp add: count_list_0_iff [symmetric] del: count_list_0_iff)
        (metis add_gr_0 count_list_0_iff gr0I le_zero_eq)
    with ok show "allocd s b" unfolding heap_ok_def by (intro agrees_allocd [of ?c]) simp_all
  qed
  have fits: "int (length body + (if has_flag (i_config (config ?p)) OUTPUT_RAW then 1 else 0))
      \<le> output_BlockCount B ?p + 2"
    using depth by (simp add: body_def flush_payload_length flush_header_def)
  have Flush: "output_Flush B r s = Some s'"
    using r al fits pks s3(1) unfolding output_Flush_def s'_def s2_def body_def s1_def
    by (simp add: Let_def rd_def)
  have out3: "out_at s3 r' = (if r' = r then raw_set_len body (seq_next ?p) else out_at s r')" for r'
    by (simp add: f3 s2_def f2) (simp add: f1 s1_def)
  have out': "out_at s' r' = (if r' = r then output_PacketDelete pk
      ((raw_set_len body (seq_next ?p))\<lparr>o_packets := pks\<rparr>) else out_at s r')" for r'
    unfolding s'_def using r3 r by (simp add: out_at_upd_out out3 pks)
  have "refs s' b + out_refs (out_at s3 r) b = refs s3 b
      + out_refs (output_PacketDelete pk ((out_at s3 r)\<lparr>o_packets := tl (o_packets (out_at s3 r))\<rparr>)) b" for b
    unfolding s'_def using r3 r by (simp add: refs_upd_out)
  moreover have "refs s3 b = refs s b" for b
    by (simp add: heap_only_refs [OF h] s2_def f2) (simp add: f1 s1_def)
  ultimately have refs': "refs s' b + count_list ?bs b = refs s b" for b
    using out3 [of r] pks by (simp add: out_refs_def queued_def algebra_simps)
  have "(\<lambda>b. ?c b - count_list ?bs b) = (\<lambda>b. refs s' b + ext b)"
    using refs' by (auto simp: fun_eq_iff) (metis add.commute add.left_commute diff_add_inverse)
  with s3(2) have ok': "heap_ok ext s'" by (simp add: heap_ok_def s'_def)
  have g1: "length (pp_outputs s1) = length (pp_outputs s)" "clk s1 = clk s" "ticks s1 = ticks s"
    "i_next_send s1 = i_next_send s" "out_timer s1 = out_timer s" "sys_log s1 = sys_log s" "i_handle (out_at s1 r) = i_handle ?p"
    by (simp_all add: s1_def f1)
  have g2: "length (pp_outputs s2) = length (pp_outputs s1)" "clk s2 = clk s1"
    "ticks s2 = Suc (ticks s1)" "i_out_wallclock s2 = clk s1 (ticks s1)"
    "i_next_send s2 = i_next_send s1" "out_timer s2 = out_timer s1"
    "sys_log s2 = sys_log s1 @ [SysWritev (i_handle (out_at s1 r)) (flush_iov r body s1)]"
    by (simp_all add: s2_def f2)
  have frame: "o_packets (out_at s' r) = pks" "config (out_at s' r) = config ?p"
    "\<forall>r'. r' \<noteq> r \<longrightarrow> out_at s' r' = out_at s r'" "\<forall>r'. oref_ok s' r' = oref_ok s r'"
    "length (pp_outputs s') = length (pp_outputs s)" "clk s' = clk s" "ticks s' = Suc (ticks s)"
    "i_out_wallclock s' = clk s (ticks s)" "i_next_send s' = i_next_send s" "out_timer s' = out_timer s" "mem s' = mem s3"
    "i_seqnum (out_at s' r) = i_seqnum (seq_next ?p)"
    "sys_log s' = sys_log s @ [SysWritev (i_handle ?p) (flush_iov r body s1)]"
    using out' r3 by (simp_all add: s'_def f3 g2 g1)
  have wf': "out_wf B (out_at s' r)"
  proof -
    have "out_wf B ((raw_set_len body (seq_next ?p))\<lparr>o_packets := pks\<rparr>)"
      using wf pks by (auto simp: out_wf_def output_BlockCount_def)
    then show ?thesis using cap by (auto simp: out' output_BlockCount_def intro: PacketDelete_wf)
  qed
  show ?thesis
    using Flush s3(1) refs' frame ok' wf' by auto
qed

subsection \<open>The remapped PIDs come back\<close>

lemma fold_upd_mem:
  "distinct bs \<Longrightarrow> mem (fold (\<lambda>b. upd_block b g) bs s) x = (if x \<in> set bs then g (mem s x) else mem s x)"
  by (induction bs arbitrary: s) (auto simp: upd_block_def)

lemma block_Delete_mem [simp]: "block_Delete b s = Some s' \<Longrightarrow> mem s' = mem s"
  by (auto simp: block_Delete_def c_free_def split: if_splits)

lemma output_Unref_mem:
  assumes "output_Unref B rm b s = Some s'"
  shows "bk_ts (mem s' x) = (if x = b \<and> rm \<and> bk_refcount (mem s b) \<noteq> 1
                             then bk_ts (unmap_block B (mem s b)) else bk_ts (mem s x))"
    and "x \<noteq> b \<Longrightarrow> mem s' x = mem s x"
  using assms
  by (auto simp: output_Unref_def Let_def upd_block_def unmap_block_def split: if_splits)

lemma ofold_Unref_mem:
  assumes "distinct bs" and "ofold (output_Unref B rm) bs s = Some s'"
  shows "bk_ts (mem s' x) = (if x \<in> set bs \<and> rm \<and> bk_refcount (mem s x) \<noteq> 1
                             then bk_ts (unmap_block B (mem s x)) else bk_ts (mem s x))"
  using assms
proof (induction bs arbitrary: s)
  case (Cons b bs)
  then obtain s1 where s1: "output_Unref B rm b s = Some s1" "ofold (output_Unref B rm) bs s1 = Some s'"
    by (auto split: option.splits)
  have "bk_ts (mem s' x) = (if x \<in> set bs \<and> rm \<and> bk_refcount (mem s1 x) \<noteq> 1
      then bk_ts (unmap_block B (mem s1 x)) else bk_ts (mem s1 x))"
    using Cons.IH [OF _ s1(2)] Cons.prems(1) by simp
  moreover have "x \<in> set bs \<Longrightarrow> x \<noteq> b" using Cons.prems(1) by auto
  ultimately show ?case
    using output_Unref_mem [OF s1(1), of x] by (cases "x = b") auto
qed simp

definition pid_range :: "'b ts_lib_scheme \<Rightarrow> bool" where
  "pid_range B \<longleftrightarrow> (\<forall>p. ts_get_pid B p < MAX_PIDS)"

lemma unmap_map_block:
  assumes "ts_pid_laws B" and "pid_range B"
  shows "bk_ts (unmap_block B (map_block B p b)) = bk_ts b"
proof -
  have "ts_get_pid B (bk_ts b) \<noteq> UNUSED_PID"
    using assms(2) by (auto simp: pid_range_def UNUSED_PID_def dest: spec [of _ "bk_ts b"])
  then show ?thesis
    using assms(1) by (simp add: map_block_def unmap_block_def Let_def ts_pid_laws_def)
qed

lemma output_Flush_restores:
  assumes laws: "ts_pid_laws B" "pid_range B"
    and ok: "heap_ok ext s" and r: "oref_ok s r" and wf: "out_wf B (out_at s r)"
    and pks: "o_packets (out_at s r) = pk # pks" and dist: "distinct (pk_blocks pk)"
    and F: "output_Flush B r s = Some s'" and al: "live s' b"
  shows "bk_ts (mem s' b) = bk_ts (mem s b)"
proof -
  let ?p = "out_at s r" and ?bs = "pk_blocks pk"
  let ?rm = "remap_on s ?p"
  define s1 where "s1 = flush_prepare B r pk s"
  define s2 where "s2 = flush_write r (flush_header B ?p s @ flush_payload (output_BlockCount B ?p) pk s1) s1"
  from output_Flush_spec [OF ok r wf pks] F obtain s3 where
    s3: "ofold (output_Unref B ?rm) ?bs s2 = Some s3" "mem s' = mem s3"
    and ok': "heap_ok ext s'" and refs': "\<And>b. refs s' b + count_list ?bs b = refs s b"
    by (auto simp: s1_def s2_def)
  have r1: "oref_ok s1 r" using r by (simp add: s1_def flush_prepare_frame)
  have mem2: "mem s2 b = (if ?rm \<and> b \<in> set ?bs then map_block B ?p (mem s b) else mem s b)"
    using dist by (simp add: s2_def flush_write_frame [OF r1])
      (simp add: s1_def flush_prepare_eq fold_upd_mem)
  have ref2: "bk_refcount (mem s2 b) = bk_refcount (mem s b)" by (simp add: mem2)
  have ref1: "b \<in> set ?bs \<Longrightarrow> bk_refcount (mem s b) \<noteq> 1"
  proof -
    assume "b \<in> set ?bs"
    with dist have "count_list ?bs b = 1" by (simp add: count_list_distinct)
    with refs' [of b] have one: "refs s b = Suc (refs s' b)" by presburger
    have pos: "0 < refs s' b + ext b" by (rule iffD1 [OF heap_ok_live [OF ok'] al])
    have "block_ref s b = int (refs s b + ext b)"
      by (rule heap_ok_ref [OF ok]) (use one in linarith)
    with one pos show ?thesis unfolding block_ref_def by linarith
  qed
  have fin: "bk_ts (mem s' b) = (if b \<in> set ?bs \<and> ?rm \<and> bk_refcount (mem s b) \<noteq> 1
      then bk_ts (unmap_block B (mem s2 b)) else bk_ts (mem s2 b))"
    using ofold_Unref_mem [OF dist s3(1), of b] by (simp only: s3(2) ref2)
  show ?thesis
  proof (cases "?rm \<and> b \<in> set ?bs")
    case True
    then have "mem s2 b = map_block B ?p (mem s b)" unfolding mem2 by (rule if_P)
    moreover have "b \<in> set ?bs \<and> ?rm \<and> bk_refcount (mem s b) \<noteq> 1"
      using True ref1 by blast
    then have "bk_ts (mem s' b) = bk_ts (unmap_block B (mem s2 b))" unfolding fin by (rule if_P)
    ultimately show ?thesis by (simp only: unmap_map_block [OF laws])
  next
    case False
    then have "mem s2 b = mem s b" unfolding mem2 by (rule if_not_P)
    moreover have "\<not> (b \<in> set ?bs \<and> ?rm \<and> bk_refcount (mem s b) \<noteq> 1)"
      using False by blast
    then have "bk_ts (mem s' b) = bk_ts (mem s2 b)" unfolding fin by (rule if_not_P)
    ultimately show ?thesis by (simp only:)
  qed
qed

subsection \<open>The datagram\<close>

lemma rtp_header_length:
  "rtp_laws B \<Longrightarrow> length (rtp_header B buf seq now ssrc) = length buf"
  by (simp add: rtp_laws_def rtp_header_def)

lemma flush_payload_bytes:
  assumes "\<And>b. b \<in> set (pk_blocks pk) \<Longrightarrow> length (bk_ts (mem s b)) = TS_SIZE"
    and "length (p_pad_ts s) = TS_SIZE" and "int (length (pk_blocks pk)) \<le> cnt"
  shows "sum_list (map iov_len (flush_payload cnt pk s)) = TS_SIZE * nat cnt"
proof -
  have "sum_list (map (\<lambda>b. length (bk_ts (mem s b))) bs) = TS_SIZE * length bs"
    if "set bs \<subseteq> set (pk_blocks pk)" for bs
    using that assms(1) by (induction bs) auto
  then show ?thesis
    using assms(2,3) by (simp add: flush_payload_def o_def sum_list_replicate algebra_simps
        flip: distrib_left) (simp add: nat_diff_distrib)
qed

text \<open>The blocks keep their size while they are mapped, so the bytes handed to the kernel fill
  the MTU up to a fraction of a TS packet.\<close>

lemma mapped_length:
  assumes "ts_pid_laws B" shows "length (bk_ts (map_block B p b)) = length (bk_ts b)"
  using assms by (simp add: map_block_def Let_def ts_pid_laws_def)

lemma flush_prepare_ts_length:
  assumes "ts_pid_laws B"
  shows "length (bk_ts (mem (flush_prepare B r pk s) b)) = length (bk_ts (mem s b))"
proof -
  have "length (bk_ts (mem (fold (\<lambda>b. upd_block b (map_block B p)) bs t) b)) = length (bk_ts (mem t b))" for p bs t
    by (induction bs arbitrary: t) (simp_all add: upd_block_def mapped_length [OF assms])
  from this [of "out_at s r" "pk_blocks pk" "upd_out r seq_next s"] show ?thesis
    by (simp add: flush_prepare_eq)
qed

lemma BlockCount_bounds:
  assumes "1 \<le> output_BlockCount B p"
  defines "h \<equiv> (if has_flag (i_config (config p)) OUTPUT_UDP then 0 else RTP_HEADER_SIZE B)"
  shows "int h + int TS_SIZE * output_BlockCount B p \<le> i_mtu (config p)"
    and "i_mtu (config p) < int h + int TS_SIZE * (output_BlockCount B p + 1)"
proof -
  let ?m = "i_mtu (config p) - int h"
  have bc: "output_BlockCount B p = ?m sdiv 188"
    by (simp add: output_BlockCount_def Let_def h_def TS_SIZE_def)
  have "0 \<le> ?m"
  proof (rule ccontr)
    assume "\<not> 0 \<le> ?m"
    then have "?m sdiv 188 \<le> 0" by (simp add: signed_divide_int_def sgn_if)
    with assms(1) bc show False by simp
  qed
  with bc have "output_BlockCount B p = ?m div 188" by simp
  moreover have "188 * (?m div 188) \<le> ?m" "?m < 188 * (?m div 188) + 188" by linarith+
  ultimately show "int h + int TS_SIZE * output_BlockCount B p \<le> i_mtu (config p)"
    and "i_mtu (config p) < int h + int TS_SIZE * (output_BlockCount B p + 1)"
    by (simp_all add: TS_SIZE_def algebra_simps)
qed

end
