(* ===== verification/Dvb_OutputLife.thy ===== *)
theory Dvb_OutputLife
  imports Dvb_OutputProps
begin

text \<open>
  The life of an output: which slot \<open>output_Create\<close> picks, what \<open>output_Find\<close> answers, what
  \<open>output_Close\<close> gives back to the pool, what a live change does to the capacity of the queue.
\<close>

subsection \<open>Flag masks\<close>

lemma has_flag_or [simp]: "has_flag (c OR f) g \<longleftrightarrow> has_flag c g \<or> has_flag f g"
  by (simp add: has_flag_def bit.conj_disj_distrib2 or_eq_0_iff)

lemma has_flag_clear [simp]: "\<not> has_flag (c AND NOT f) f"
  by (simp add: has_flag_def and.assoc)

lemma has_flag_valid [simp]: "has_flag OUTPUT_VALID OUTPUT_VALID" "\<not> has_flag OUTPUT_RAW OUTPUT_VALID"
  by (simp_all add: has_flag_def output_flags)

subsection \<open>Close\<close>

lemma c_free_agrees:
  assumes "pool.agrees c s" and "c b = 1"
  shows "\<exists>s'. c_free b s = Some s' \<and> pool.agrees (c(b := 0)) s'"
proof -
  have l: "live s b" using assms by (simp add: pool.agrees_def)
  then have al: "allocd s b" and nl: "b \<notin> set (p_block_lifo s)" by (simp_all add: live_def)
  have "live (s\<lparr>allocd := (allocd s)(b := False)\<rparr>) a \<longleftrightarrow> live s a \<and> a \<noteq> b" for a
    by (auto simp: live_def)
  moreover have "pool_ok (s\<lparr>allocd := (allocd s)(b := False)\<rparr>)"
    using assms(1) nl by (auto simp: pool.agrees_def pool_ok_def)
  ultimately have "pool.agrees (c(b := 0)) (s\<lparr>allocd := (allocd s)(b := False)\<rparr>)"
    using assms(1) by (auto simp: pool.agrees_def block_ref_def)
  with al show ?thesis by (simp add: c_free_def)
qed

lemma ofold_Release:
  assumes "pool.agrees c s" and "\<And>b. count_list bs b \<le> c b"
  shows "\<exists>s'. ofold block_Release bs s = Some s' \<and> pool.agrees (\<lambda>b. c b - count_list bs b) s'"
  by (rule ofold_unref_agrees [OF _ assms]) (rule pool.release_agrees)

definition close_packet :: "oref \<Rightarrow> packet \<Rightarrow> 'a dvboutput_scheme \<Rightarrow> 'a dvboutput_scheme option" where
  "close_packet r pk s = do {
     s \<leftarrow> ofold block_Release (pk_blocks pk) s;
     Some (upd_out r (\<lambda>p. output_PacketDelete pk (p\<lparr>o_packets := tl (o_packets p)\<rparr>)) s) }"

text \<open>What closing keeps while it drops the packets one after the other.\<close>

definition closing :: "(nat \<Rightarrow> nat) \<Rightarrow> oref \<Rightarrow> 'a dvboutput_scheme \<Rightarrow> packet list \<Rightarrow> 'a dvboutput_scheme \<Rightarrow> bool" where
  "closing ext r s0 pks s \<longleftrightarrow> heap_ok ext s \<and> oref_ok s r \<and> o_packets (out_at s r) = pks
     \<and> i_packet_count (out_at s r) = length (o_packet_lifo (out_at s r))
     \<and> p_eit_ts_buffer (out_at s r) = p_eit_ts_buffer (out_at s0 r)
     \<and> config (out_at s r) = config (out_at s0 r)
     \<and> (\<forall>q. q \<noteq> r \<longrightarrow> out_at s q = out_at s0 q) \<and> length (pp_outputs s) = length (pp_outputs s0)
     \<and> (\<forall>b. refs s b + count_list (queued (out_at s0 r)) b = refs s0 b + count_list (concat (map pk_blocks pks)) b)"

lemma PacketDelete_count:
  "i_packet_count p = length (o_packet_lifo p) \<Longrightarrow>
   i_packet_count (output_PacketDelete pk p) = length (o_packet_lifo (output_PacketDelete pk p))"
  by (simp add: output_PacketDelete_def)

lemma close_packet_step:
  assumes C: "closing ext r s0 (pk # pks) s"
  shows "\<exists>s'. close_packet r pk s = Some s' \<and> closing ext r s0 pks s'"
proof -
  from C have ok: "heap_ok ext s" and r: "oref_ok s r" and pk: "o_packets (out_at s r) = pk # pks"
    and cnt: "i_packet_count (out_at s r) = length (o_packet_lifo (out_at s r))"
    and eit: "p_eit_ts_buffer (out_at s r) = p_eit_ts_buffer (out_at s0 r)"
    and cfg: "config (out_at s r) = config (out_at s0 r)"
    and oth: "\<And>q. q \<noteq> r \<Longrightarrow> out_at s q = out_at s0 q"
    and len: "length (pp_outputs s) = length (pp_outputs s0)"
    and rf: "\<And>b. refs s b + count_list (queued (out_at s0 r)) b = refs s0 b + count_list (concat (map pk_blocks (pk # pks))) b"
    unfolding closing_def by blast+
  have le: "count_list (pk_blocks pk) b \<le> refs s b + ext b" for b
    using count_packet_le [OF r pk, of b] by simp
  from ofold_Release [OF ok [unfolded heap_ok_def] le] obtain s1 where
    s1: "ofold block_Release (pk_blocks pk) s = Some s1"
    and ag: "pool.agrees (\<lambda>b. refs s b + ext b - count_list (pk_blocks pk) b) s1" by blast
  have h: "heap_only s s1" by (rule heap_only_ofold [OF heap_only_Release s1])
  note f = frame_simps [OF h]
  define g where "g p = output_PacketDelete pk (p\<lparr>o_packets := tl (o_packets p)\<rparr>)" for p :: output_st
  define s' where "s' = upd_out r g s1"
  have cl: "close_packet r pk s = Some s'" by (simp add: close_packet_def s1 s'_def g_def [abs_def])
  have r1: "oref_ok s1 r" by (simp add: f r)
  have o': "out_at s' q = (if q = r then g (out_at s r) else out_at s q)" for q
    by (simp add: s'_def out_at_upd_out [OF r1] f)
  have rr: "refs s' b + count_list (pk_blocks pk) b = refs s b" for b
  proof -
    have "refs s' b + out_refs (out_at s1 r) b = refs s1 b + out_refs (g (out_at s1 r)) b"
      unfolding s'_def by (rule refs_upd_out [OF r1])
    then show ?thesis by (simp add: f g_def out_refs_def queued_def pk)
  qed
  have "refs s b + ext b - count_list (pk_blocks pk) b = refs s' b + ext b" for b
    using rr [of b] by presburger
  then have hk: "heap_ok ext s'" using ag by (simp add: heap_ok_def s'_def)
  have rf': "refs s' b + count_list (queued (out_at s0 r)) b = refs s0 b + count_list (concat (map pk_blocks pks)) b" for b
    using rr [of b] rf [of b] by simp
  have "closing ext r s0 pks s'"
    unfolding closing_def
    using hk rf' r cnt eit cfg oth len by (simp add: o' g_def pk PacketDelete_count) (simp add: s'_def f r)
  with cl show ?thesis by blast
qed

lemma close_packets:
  assumes "closing ext r s0 pks s"
  shows "\<exists>s'. ofold (close_packet r) pks s = Some s' \<and> closing ext r s0 [] s'"
  using assms
proof (induction pks arbitrary: s)
  case (Cons pk pks)
  from close_packet_step [OF Cons.prems] obtain s1 where
    "close_packet r pk s = Some s1" "closing ext r s0 pks s1" by blast
  with Cons.IH [of s1] show ?case by simp
qed simp

lemma output_Close_eq:
  "output_Close r s = do {
     ensure (oref_ok s r);
     s \<leftarrow> ofold (close_packet r) (o_packets (out_at s r)) s;
     p \<leftarrow> output_PacketVacuum (out_at s r);
     s \<leftarrow> (case p_eit_ts_buffer p of None \<Rightarrow> Some s | Some b \<Rightarrow> c_free b s);
     let s = upd_out r (\<lambda>_. p\<lparr>o_packets := [], p_pat_section := None, p_pmt_section := None,
                p_nit_section := None, p_sdt_section := None, p_eit_ts_buffer := None,
                config := (config p)\<lparr>i_config := i_config (config p) AND NOT OUTPUT_VALID\<rparr>\<rparr>) s;
     Some (snd (sys_call (SysClose (i_handle p)) s)) }"
  unfolding output_Close_def close_packet_def [abs_def] by (rule refl)

lemma sys_call_frame [simp]:
  "out_at (snd (sys_call c s)) q = out_at s q" "oref_ok (snd (sys_call c s)) q = oref_ok s q"
  "pp_outputs (snd (sys_call c s)) = pp_outputs s" "output_dup (snd (sys_call c s)) = output_dup s"
  "pool.agrees n (snd (sys_call c s)) \<longleftrightarrow> pool.agrees n s" "refs (snd (sys_call c s)) = refs s"
  "sys_err (snd (sys_call c s)) = sys_err s" "sys_log (snd (sys_call c s)) = sys_log s @ [c]"
  by (simp_all add: sys_call_def Let_def)

lemma heap_only_free: "c_free b s = Some s' \<Longrightarrow> heap_only s s'"
  unfolding c_free_def heap_only_def
  by (rule exI [of _ "mem s"], rule exI [of _ "(allocd s)(b := False)"], rule exI [of _ "p_block_lifo s"],
      rule exI [of _ "i_block_count s"]) (auto split: if_splits)

lemma output_Close_spec:
  assumes ok: "heap_ok ext s" and r: "oref_ok s r"
    and cnt: "i_packet_count (out_at s r) = length (o_packet_lifo (out_at s r))"
    and eit: "\<forall>b. p_eit_ts_buffer (out_at s r) = Some b \<longrightarrow> refs s b + ext b = 1"
  shows "\<exists>s'. output_Close r s = Some s' \<and> heap_ok ext s' \<and> \<not> out_valid (out_at s' r)
     \<and> o_packets (out_at s' r) = [] \<and> p_eit_ts_buffer (out_at s' r) = None
     \<and> (\<forall>b. refs s' b + out_refs (out_at s r) b = refs s b)
     \<and> (\<forall>q. q \<noteq> r \<longrightarrow> out_at s' q = out_at s q) \<and> length (pp_outputs s') = length (pp_outputs s)"
proof -
  let ?p = "out_at s r"
  have "closing ext r s (o_packets ?p) s"
    using ok r cnt by (simp add: closing_def queued_def)
  from close_packets [OF this] obtain s1 where
    s1: "ofold (close_packet r) (o_packets ?p) s = Some s1" and C: "closing ext r s [] s1" by blast
  from C have ok1: "heap_ok ext s1" and r1: "oref_ok s1 r" and pk1: "o_packets (out_at s1 r) = []"
    and cnt1: "i_packet_count (out_at s1 r) = length (o_packet_lifo (out_at s1 r))"
    and eit1: "p_eit_ts_buffer (out_at s1 r) = p_eit_ts_buffer ?p"
    and cfg1: "config (out_at s1 r) = config ?p"
    and oth1: "\<And>q. q \<noteq> r \<Longrightarrow> out_at s1 q = out_at s q"
    and len1: "length (pp_outputs s1) = length (pp_outputs s)"
    and rf1: "\<And>b. refs s1 b + count_list (queued ?p) b = refs s b"
    unfolding closing_def by auto
  define p where "p = (out_at s1 r)\<lparr>o_packet_lifo := [], i_packet_count := 0\<rparr>"
  have vac: "output_PacketVacuum (out_at s1 r) = Some p"
    unfolding p_def by (rule output_PacketVacuum_spec [OF cnt1])
  define e where "e b = (if p_eit_ts_buffer ?p = Some b then 1 else 0 :: nat)" for b
  have "\<exists>s2. (case p_eit_ts_buffer p of None \<Rightarrow> Some s1 | Some b \<Rightarrow> c_free b s1) = Some s2
      \<and> heap_only s1 s2 \<and> pool.agrees (\<lambda>b. refs s1 b + ext b - e b) s2"
  proof (cases "p_eit_ts_buffer ?p")
    case None
    then show ?thesis using ok1 by (simp add: p_def eit1 e_def heap_ok_def)
  next
    case (Some b)
    have "out_refs (out_at s1 r) b \<le> refs s1 b" by (rule out_refs_le [OF r1])
    then have "1 \<le> refs s1 b" using Some by (simp add: out_refs_def eit1)
    moreover have "refs s1 b \<le> refs s b" using rf1 [of b] by simp
    ultimately have one: "refs s1 b + ext b = 1" using eit Some by simp
    from c_free_agrees [OF ok1 [unfolded heap_ok_def], of b] one obtain s2 where
      s2: "c_free b s1 = Some s2" "pool.agrees ((\<lambda>b. refs s1 b + ext b)(b := 0)) s2" by auto
    have "(\<lambda>b. refs s1 b + ext b)(b := 0) = (\<lambda>b. refs s1 b + ext b - e b)"
      using one Some by (auto simp: fun_eq_iff e_def)
    with s2 show ?thesis using Some heap_only_free [OF s2(1)] by (simp add: p_def eit1)
  qed
  then obtain s2 where s2: "(case p_eit_ts_buffer p of None \<Rightarrow> Some s1 | Some b \<Rightarrow> c_free b s1) = Some s2"
    and h: "heap_only s1 s2" and ag: "pool.agrees (\<lambda>b. refs s1 b + ext b - e b) s2" by blast
  note f = frame_simps [OF h]
  define q where "q = p\<lparr>o_packets := [], p_pat_section := None, p_pmt_section := None,
      p_nit_section := None, p_sdt_section := None, p_eit_ts_buffer := None,
      config := (config p)\<lparr>i_config := i_config (config p) AND NOT OUTPUT_VALID\<rparr>\<rparr>"
  define s' where "s' = snd (sys_call (SysClose (i_handle p)) (upd_out r (\<lambda>_. q) s2))"
  have cl: "output_Close r s = Some s'"
    using r s1 vac s2 by (simp add: output_Close_eq s'_def q_def)
  have r2: "oref_ok s2 r" by (simp add: f r1)
  have o': "out_at s' x = (if x = r then q else out_at s x)" for x
    by (simp add: s'_def out_at_upd_out [OF r2] f oth1)
  have "refs (upd_out r (\<lambda>_. q) s2) b + out_refs (out_at s2 r) b = refs s2 b + out_refs q b" for b
    by (rule refs_upd_out [OF r2])
  then have rf': "refs s' b + e b = refs s1 b" for b
    by (simp add: s'_def f) (simp add: q_def out_refs_def queued_def pk1 eit1 e_def)
  have "refs s1 b + ext b - e b = refs s' b + ext b" for b using rf' [of b] by presburger
  then have ok': "heap_ok ext s'" using ag by (simp add: heap_ok_def) (simp add: s'_def)
  have rf: "refs s' b + out_refs ?p b = refs s b" for b
    using rf' [of b] rf1 [of b] by (simp add: out_refs_def e_def)
  show ?thesis
    using cl ok' rf by (simp add: o') (simp add: q_def s'_def f len1)
qed

subsection \<open>Slots\<close>

text \<open>Drawing random numbers and issuing system calls touch the log and \<open>errno\<close> only.\<close>

definition calls_only :: "'a dvboutput_scheme \<Rightarrow> 'a dvboutput_scheme \<Rightarrow> bool" where
  "calls_only s s' \<longleftrightarrow> (\<exists>l e. s' = s\<lparr>sys_log := l, errno := e\<rparr>)"

lemma calls_only_refl [simp]: "calls_only s s"
  unfolding calls_only_def by (rule exI [of _ "sys_log s"], rule exI [of _ "errno s"]) simp

lemma calls_only_trans: "calls_only s t \<Longrightarrow> calls_only t u \<Longrightarrow> calls_only s u"
  unfolding calls_only_def by (elim exE, hypsubst, simp) blast

lemma calls_only_call: "calls_only s (snd (sys_call c s))"
proof (cases "sys_ret s (length (sys_log s)) < 0")
  case True
  then show ?thesis unfolding calls_only_def sys_call_def Let_def by auto
next
  case False
  have "snd (sys_call c s) = s\<lparr>sys_log := sys_log s @ [c], errno := errno s\<rparr>"
    using False by (simp add: sys_call_def Let_def)
  then show ?thesis unfolding calls_only_def by blast
qed

lemma calls_only_call_on [simp]: "calls_only s t \<Longrightarrow> calls_only s (snd (sys_call c t))"
  by (rule calls_only_trans [OF _ calls_only_call])

lemma calls_only_rand_on [simp]: "calls_only s t \<Longrightarrow> calls_only s (snd (rand_mod m t))"
  by (simp add: rand_mod_def case_prod_beta)

lemma calls_only_Randomize [simp]: "calls_only s t \<Longrightarrow> calls_only s (snd (output_Randomize p t))"
  by (simp add: output_Randomize_def Let_def case_prod_beta)

lemma calls_only_Bind [simp]: "calls_only s t \<Longrightarrow> calls_only s (output_Bind c fd t)"
  by (simp add: output_Bind_def Let_def)

lemma calls_only_outputs:
  assumes "calls_only s s'"
  shows "out_at s' r = out_at s r" "oref_ok s' r = oref_ok s r" "pp_outputs s' = pp_outputs s"
    "output_dup s' = output_dup s" "sys_err s' = sys_err s"
  using assms by (cases r; auto simp: calls_only_def)+

lemma Randomize_fields [simp]:
  "o_packets (fst (output_Randomize p s)) = o_packets p" "o_packet_lifo (fst (output_Randomize p s)) = o_packet_lifo p"
  "i_packet_count (fst (output_Randomize p s)) = i_packet_count p"
  "p_eit_ts_buffer (fst (output_Randomize p s)) = p_eit_ts_buffer p" "config (fst (output_Randomize p s)) = config p"
  by (simp_all add: output_Randomize_def Let_def case_prod_beta)

lemma flags_distinct [simp]:
  "\<not> has_flag OUTPUT_RAW OUTPUT_UDP" "\<not> has_flag OUTPUT_VALID OUTPUT_UDP" "\<not> has_flag OUTPUT_VALID OUTPUT_RAW"
  "has_flag OUTPUT_RAW OUTPUT_RAW" "\<not> has_flag 0 f"
  by (simp_all add: has_flag_def output_flags)

lemma has_flag_clear_other [simp]:
  "has_flag (c AND NOT OUTPUT_VALID) OUTPUT_RAW = has_flag c OUTPUT_RAW"
  "has_flag (c AND NOT OUTPUT_VALID) OUTPUT_UDP = has_flag c OUTPUT_UDP"
  by (simp_all add: has_flag_def output_flags and.assoc)

text \<open>A slot that is empty and has been given its configuration.\<close>

definition adopted :: "output_config \<Rightarrow> output_st \<Rightarrow> bool" where
  "adopted c p \<longleftrightarrow> o_packets p = [] \<and> o_packet_lifo p = [] \<and> i_packet_count p = 0 \<and> p_eit_ts_buffer p = None
     \<and> i_family (config p) = i_family c \<and> connect_addr (config p) = connect_addr c
     \<and> bind_addr (config p) = bind_addr c \<and> i_if_index_v6 (config p) = i_if_index_v6 c
     \<and> (\<forall>i < MAX_PIDS. pi_newpids p i = UNUSED_PID \<and> pi_freepids p i = UNUSED_PID)
     \<and> has_flag (i_config (config p)) OUTPUT_RAW = has_flag (i_config c) OUTPUT_RAW
     \<and> \<not> has_flag (i_config (config p)) OUTPUT_UDP"

lemma sys_call_errno:
  assumes "\<And>n. 0 < sys_err s n" and "fst (sys_call c s) < 0 \<or> 0 < errno s"
  shows "0 < errno (snd (sys_call c s))"
  using assms by (auto simp: sys_call_def Let_def)

lemma adopted_Adopt:
  assumes "o_packets p = []" "o_packet_lifo p = []" "i_packet_count p = 0" "p_eit_ts_buffer p = None"
    and "i_config (config p) = 0"
  shows "adopted c (output_Adopt c p)"
  using assms by (auto simp: adopted_def output_Adopt_def Let_def init_pid_mapping_def)

lemma adopted_handle [simp]: "adopted c (p\<lparr>i_handle := fd\<rparr>) = adopted c p"
  by (simp add: adopted_def)

lemma adopted_set_valid [simp]: "adopted c (set_valid v p) = adopted c p"
  by (simp add: adopted_def set_valid_def)

lemma set_valid_valid [simp]: "out_valid (set_valid v p) = v"
  by (simp add: set_valid_def)

lemma RawHeader_adopted:
  assumes "has_flag (i_config c) OUTPUT_RAW \<Longrightarrow> psz_srcaddr c \<noteq> None"
  shows "\<exists>p'. output_RawHeader B c p = Some p' \<and> adopted c p' = adopted c p"
  using assms by (auto simp: output_RawHeader_def adopted_def)

lemma zero_output_fields [simp]:
  "o_packets (zero_output c) = []" "o_packet_lifo (zero_output c) = []" "i_packet_count (zero_output c) = 0"
  "p_eit_ts_buffer (zero_output c) = None" "config (zero_output c) = c"
  by (simp_all add: zero_output_def)

lemma config_Init_flags [simp]: "i_config (config_Init s) = 0"
  by (simp add: config_Init_def)

text \<open>
  However the system calls turn out, \<open>output_Init\<close> changes one slot: it is in use exactly when the
  result is zero.
\<close>

lemma output_Init_spec:
  assumes r: "oref_ok s r" and src: "has_flag (i_config c) OUTPUT_RAW \<Longrightarrow> psz_srcaddr c \<noteq> None"
    and err: "\<And>n. 0 < sys_err s n"
  shows "\<exists>rc p t. output_Init B r c s = Some (rc, upd_out r (\<lambda>_. p) t) \<and> calls_only s t
           \<and> adopted c p \<and> rc \<le> 0 \<and> (out_valid p \<longleftrightarrow> rc = 0)"
proof -
  define p1 s1 where "p1 = fst (output_Randomize (zero_output (config_Init s)) s)"
    and "s1 = snd (output_Randomize (zero_output (config_Init s)) s)"
  have rnd: "output_Randomize (zero_output (config_Init s)) s = (p1, s1)" by (simp add: p1_def s1_def)
  have c1: "calls_only s s1" by (simp add: s1_def)
  define fd s2 where "fd = fst (sys_call (socket_call c) s1)" and "s2 = snd (sys_call (socket_call c) s1)"
  have sock: "sys_call (socket_call c) s1 = (fd, s2)" by (simp add: fd_def s2_def)
  have c2: "calls_only s s2" using c1 by (simp add: s2_def)
  define p2 where "p2 = (output_Adopt c p1)\<lparr>i_handle := fd\<rparr>"
  have ad: "adopted c p2" unfolding p2_def adopted_handle
    by (rule adopted_Adopt) (simp_all add: p1_def)
  show ?thesis
  proof (cases "fd < 0")
    case True
    have "\<And>n. 0 < sys_err s1 n" using err calls_only_outputs(5) [OF c1] by simp
    then have "0 < errno s2" unfolding s2_def by (rule sys_call_errno) (use True fd_def in simp)
    moreover have "output_Init B r c s = Some (- errno s2, upd_out r (\<lambda>_. set_valid False p2) s2)"
      using True r by (simp add: output_Init_def rnd sock Let_def p2_def)
    ultimately show ?thesis using c2 ad
      by (intro exI [of _ "- errno s2"] exI [of _ "set_valid False p2"] exI [of _ s2]) simp
  next
    case False
    define s3 where "s3 = output_Bind c fd s2"
    have c3: "calls_only s s3" using c2 by (simp add: s3_def)
    from RawHeader_adopted [OF src] obtain p3 where
      p3: "output_RawHeader B c p2 = Some p3" "adopted c p3" using ad by blast
    define rc s4 where "rc = fst (sys_call (SysConnect fd (connect_addr c)) s3)"
      and "s4 = snd (sys_call (SysConnect fd (connect_addr c)) s3)"
    have conn: "sys_call (SysConnect fd (connect_addr c)) s3 = (rc, s4)" by (simp add: rc_def s4_def)
    have c4: "calls_only s s4" using c3 by (simp add: s4_def)
    define s5 where "s5 = snd (sys_call (SysClose fd) s4)"
    have eq: "output_Init B r c s = Some (if rc < 0
        then (- errno s5, upd_out r (\<lambda>_. set_valid False p3) s5)
        else (0, upd_out r (\<lambda>_. set_valid True p3) s4))"
      using False r p3(1) by (simp add: output_Init_def rnd sock Let_def conn flip: p2_def s3_def s5_def)
    show ?thesis
    proof (cases "rc < 0")
      case True
      have "\<And>n. 0 < sys_err s3 n" using err calls_only_outputs(5) [OF c3] by simp
      then have "0 < errno s4" unfolding s4_def by (rule sys_call_errno) (use True rc_def in simp)
      moreover have "\<And>n. 0 < sys_err s4 n" using err calls_only_outputs(5) [OF c4] by simp
      ultimately have "0 < errno s5" unfolding s5_def by (intro sys_call_errno) simp_all
      then show ?thesis using eq True c4 p3(2)
        by (intro exI [of _ "- errno s5"] exI [of _ "set_valid False p3"] exI [of _ s5]) (simp add: s5_def)
    next
      case False
      then show ?thesis using eq c4 p3(2)
        by (intro exI [of _ "0::int"] exI [of _ "set_valid True p3"] exI [of _ s4]) simp
    qed
  qed
qed

subsection \<open>Live changes\<close>

lemma sys_call_oref [simp]: "length (pp_outputs (snd (sys_call c s))) = length (pp_outputs s)"
  by simp

lemma ChangeTtl_out:
  assumes "oref_ok s r"
  shows "(\<exists>h. \<forall>q. out_at (output_ChangeTtl c r s) q = (if q = r then (out_at s r)
      \<lparr>config := (config (out_at s r))\<lparr>i_ttl := i_ttl c\<rparr>, raw_pkt_header := h\<rparr> else out_at s q))
    \<and> (\<forall>q. oref_ok (output_ChangeTtl c r s) q = oref_ok s q)"
proof (cases "i_ttl (config (out_at s r)) = i_ttl c")
  case True
  then have "(out_at s r)\<lparr>config := (config (out_at s r))\<lparr>i_ttl := i_ttl c\<rparr>,
      raw_pkt_header := raw_pkt_header (out_at s r)\<rparr> = out_at s r" by (simp flip: True)
  with True show ?thesis
    by (intro conjI exI [of _ "raw_pkt_header (out_at s r)"]) (simp_all add: output_ChangeTtl_def Let_def)
next
  case False
  then show ?thesis
    using assms by (intro conjI exI [of _ "(raw_pkt_header (out_at s r))\<lparr>ip_ttl := word_of_int (i_ttl c)\<rparr>"])
      (auto simp: output_ChangeTtl_def Let_def out_at_upd_out)
qed

lemma ChangeTos_out:
  assumes "oref_ok s r"
  shows "(\<exists>h. \<forall>q. out_at (output_ChangeTos c r s) q = (if q = r then (out_at s r)
      \<lparr>config := (config (out_at s r))\<lparr>i_tos := i_tos c\<rparr>, raw_pkt_header := h\<rparr> else out_at s q))
    \<and> (\<forall>q. oref_ok (output_ChangeTos c r s) q = oref_ok s q)"
proof (cases "i_tos (config (out_at s r)) = i_tos c")
  case True
  then have "(out_at s r)\<lparr>config := (config (out_at s r))\<lparr>i_tos := i_tos c\<rparr>,
      raw_pkt_header := raw_pkt_header (out_at s r)\<rparr> = out_at s r" by (simp flip: True)
  with True show ?thesis
    by (intro conjI exI [of _ "raw_pkt_header (out_at s r)"]) (simp_all add: output_ChangeTos_def Let_def)
next
  case False
  then show ?thesis
    using assms by (intro conjI exI [of _ "(raw_pkt_header (out_at s r))\<lparr>ip_tos := i_tos c\<rparr>"])
      (auto simp: output_ChangeTos_def Let_def out_at_upd_out)
qed

definition mtu_config :: "output_config \<Rightarrow> output_config \<Rightarrow> output_config" where
  "mtu_config c q = (if i_mtu q \<noteq> i_mtu c \<or> has_flag (i_config q XOR i_config c) OUTPUT_UDP
     then q\<lparr>i_config := (i_config q AND NOT OUTPUT_UDP) OR (i_config c AND OUTPUT_UDP), i_mtu := i_mtu c\<rparr>
     else q)"

lemma xor_zero: "x XOR y = 0 \<Longrightarrow> x = (y :: 'a :: len word)"
  by (auto simp: bit_eq_iff bit_simps)

lemma mtu_config_simps [simp]:
  "i_mtu (mtu_config c q) = i_mtu c"
  "has_flag (i_config (mtu_config c q)) OUTPUT_UDP = has_flag (i_config c) OUTPUT_UDP"
  "has_flag (i_config (mtu_config c q)) OUTPUT_VALID = has_flag (i_config q) OUTPUT_VALID"
  "has_flag (i_config (mtu_config c q)) OUTPUT_RAW = has_flag (i_config q) OUTPUT_RAW"
proof -
  have x: "has_flag (a XOR b) f \<longleftrightarrow> (a AND f) XOR (b AND f) \<noteq> 0" for a b f :: "64 word"
    by (simp add: has_flag_def bit.conj_xor_distrib2)
  show "i_mtu (mtu_config c q) = i_mtu c" by (simp add: mtu_config_def)
  have "a AND OUTPUT_UDP = b AND OUTPUT_UDP" if "\<not> has_flag (a XOR b) OUTPUT_UDP" for a b
    using that xor_zero [of "a AND OUTPUT_UDP" "b AND OUTPUT_UDP"] by (simp add: x)
  then show "has_flag (i_config (mtu_config c q)) OUTPUT_UDP = has_flag (i_config c) OUTPUT_UDP"
    by (auto simp: mtu_config_def has_flag_def and.assoc bit.conj_disj_distrib2)
  show "has_flag (i_config (mtu_config c q)) OUTPUT_VALID = has_flag (i_config q) OUTPUT_VALID"
    "has_flag (i_config (mtu_config c q)) OUTPUT_RAW = has_flag (i_config q) OUTPUT_RAW"
    by (simp_all add: mtu_config_def has_flag_def bit.conj_disj_distrib2 and.assoc output_flags)
qed

text \<open>An output that is not sending anything takes the new MTU without risk.\<close>

lemma ChangeMtu_idle:
  assumes "oref_ok s r" and "o_packets (out_at s r) = []"
    and "i_packet_count (out_at s r) = length (o_packet_lifo (out_at s r))"
  shows "\<exists>s' li. output_ChangeMtu B c r s = Some s' \<and> (\<forall>q. oref_ok s' q = oref_ok s q)
     \<and> (\<forall>q. out_at s' q = (if q = r then (out_at s r)\<lparr>config := mtu_config c (config (out_at s r)),
            o_packet_lifo := li, i_packet_count := length li\<rparr> else out_at s q))
     \<and> (li = [] \<or> li = o_packet_lifo (out_at s r) \<and> mtu_config c (config (out_at s r)) = config (out_at s r))"
proof -
  let ?p = "out_at s r"
  define ch where "ch = (i_mtu (config ?p) \<noteq> i_mtu c \<or> has_flag (i_config (config ?p) XOR i_config c) OUTPUT_UDP)"
  show ?thesis
  proof (cases ch)
    case True
    define p1 where "p1 = ?p\<lparr>config := mtu_config c (config ?p), o_packet_lifo := [], i_packet_count := 0\<rparr>"
    have vac: "output_PacketVacuum (?p\<lparr>config := mtu_config c (config ?p)\<rparr>) = Some p1"
      using assms(3) by (subst output_PacketVacuum_spec) (simp_all add: p1_def)
    have cfg: "(config ?p)\<lparr>i_config := (i_config (config ?p) AND NOT OUTPUT_UDP) OR (i_config c AND OUTPUT_UDP),
        i_mtu := i_mtu c\<rparr> = mtu_config c (config ?p)"
      using True by (simp add: mtu_config_def ch_def)
    have "output_ChangeMtu B c r s = Some (upd_out r (\<lambda>_. p1) s)"
      using True vac assms(2) unfolding output_ChangeMtu_def Let_def cfg ch_def by (simp add: p1_def)
    then show ?thesis
      using assms(1) by (intro exI [of _ "upd_out r (\<lambda>_. p1) s"] exI [of _ "[]"]) (simp add: out_at_upd_out p1_def)
  next
    case False
    then have m: "mtu_config c (config ?p) = config ?p" by (simp add: mtu_config_def ch_def)
    have same: "?p\<lparr>config := config ?p, o_packet_lifo := o_packet_lifo ?p,
        i_packet_count := length (o_packet_lifo ?p)\<rparr> = ?p"
      by (simp flip: assms(3))
    have "output_ChangeMtu B c r s = Some s" using False by (simp add: output_ChangeMtu_def ch_def)
    then show ?thesis using m same by (intro exI [of _ s] exI [of _ "o_packet_lifo ?p"]) simp
  qed
qed

text \<open>
  With packets queued, a larger block count reallocates the last packet two slots short of it;
  the other packets keep their capacity.
\<close>

lemma ChangeMtu_grow:
  assumes r: "oref_ok s r" and pks: "o_packets (out_at s r) = pks @ [pk]"
    and cnt: "i_packet_count (out_at s r) = length (o_packet_lifo (out_at s r))"
    and mtu: "i_mtu (config (out_at s r)) \<noteq> i_mtu c"
    and grow: "int (length (pk_blocks pk)) < output_BlockCount B ((out_at s r)\<lparr>config := mtu_config c (config (out_at s r))\<rparr>)"
    and place: "sys_ret s (length (sys_log s)) = 0"
  shows "\<exists>s'. output_ChangeMtu B c r s = Some s'
     \<and> config (out_at s' r) = mtu_config c (config (out_at s r))
     \<and> o_packets (out_at s' r) = pks @ [pk\<lparr>pk_cap := nat (output_BlockCount B (out_at s' r) - 2)\<rparr>]
     \<and> oref_ok s' r \<and> mem s' = mem s \<and> allocd s' = allocd s"
proof -
  let ?p = "out_at s r"
  define p1 where "p1 = ?p\<lparr>config := mtu_config c (config ?p), o_packet_lifo := [], i_packet_count := 0\<rparr>"
  have vac: "output_PacketVacuum (?p\<lparr>config := mtu_config c (config ?p)\<rparr>) = Some p1"
    using cnt by (subst output_PacketVacuum_spec) (simp_all add: p1_def)
  have cfg: "(config ?p)\<lparr>i_config := (i_config (config ?p) AND NOT OUTPUT_UDP) OR (i_config c AND OUTPUT_UDP),
      i_mtu := i_mtu c\<rparr> = mtu_config c (config ?p)"
    using mtu by (simp add: mtu_config_def)
  have bc: "output_BlockCount B p1 = output_BlockCount B (?p\<lparr>config := mtu_config c (config ?p)\<rparr>)"
    by (simp add: p1_def output_BlockCount_def)
  define t where "t = snd (sys_call SysRealloc s)"
  have call: "sys_call SysRealloc s = (0, t)" using place by (simp add: t_def sys_call_def Let_def)
  define p2 where "p2 = p1\<lparr>o_packets := pks @ [pk\<lparr>pk_cap := nat (output_BlockCount B p1 - 2)\<rparr>]\<rparr>"
  have "output_ChangeMtu B c r s = Some (upd_out r (\<lambda>_. p2) t)"
    using mtu vac grow pks call unfolding output_ChangeMtu_def Let_def cfg
    by (simp add: bc [symmetric] p2_def) (simp add: p1_def)
  moreover have "oref_ok t r" using r by (simp add: t_def)
  moreover have "mem t = mem s" "allocd t = allocd s" by (simp_all add: t_def sys_call_def Let_def)
  moreover have "output_BlockCount B p2 = output_BlockCount B p1" by (simp add: p2_def output_BlockCount_def)
  ultimately show ?thesis
    by (intro exI [of _ "upd_out r (\<lambda>_. p2) t"]) (simp add: out_at_upd_out, simp add: p2_def p1_def)
qed

lemma sys_call_heap [simp]:
  "mem (snd (sys_call c s)) = mem s" "allocd (snd (sys_call c s)) = allocd s"
  "sys_ret (snd (sys_call c s)) = sys_ret s"
  by (simp_all add: sys_call_def Let_def)

lemma Change_heap [simp]:
  "mem (output_ChangeTtl c r s) = mem s" "allocd (output_ChangeTtl c r s) = allocd s"
  "sys_ret (output_ChangeTtl c r s) = sys_ret s"
  "mem (output_ChangeTos c r s) = mem s" "allocd (output_ChangeTos c r s) = allocd s"
  "sys_ret (output_ChangeTos c r s) = sys_ret s"
  by (simp_all add: output_ChangeTtl_def output_ChangeTos_def Let_def)

text \<open>Everything \<open>output_Change\<close> does before it comes to the MTU.\<close>

definition change_basic :: "output_config \<Rightarrow> output_config \<Rightarrow> output_config" where
  "change_basic c q = q\<lparr>pi_ssrc := pi_ssrc c, i_output_latency := i_output_latency c,
     i_max_retention := i_max_retention c, i_ttl := i_ttl c, i_tos := i_tos c\<rparr>"

lemma change_basic_simps [simp]:
  "i_mtu (change_basic c q) = i_mtu q" "i_config (change_basic c q) = i_config q"
  "i_output_latency (change_basic c q) = i_output_latency c" "i_max_retention (change_basic c q) = i_max_retention c"
  "i_ttl (change_basic c q) = i_ttl c" "i_tos (change_basic c q) = i_tos c" "pi_ssrc (change_basic c q) = pi_ssrc c"
  "connect_addr (change_basic c q) = connect_addr q" "bind_addr (change_basic c q) = bind_addr q"
  by (simp_all add: change_basic_def)

lemma Change_prefix:
  assumes "oref_ok s r" and "\<not> has_flag (i_config c) OUTPUT_RAW"
  shows "\<exists>t h. output_Change B r c s = output_ChangeMtu B c r t
     \<and> mem t = mem s \<and> allocd t = allocd s \<and> sys_ret t = sys_ret s
     \<and> (\<forall>q. oref_ok t q = oref_ok s q)
     \<and> (\<forall>q. out_at t q = (if q = r then (out_at s r)\<lparr>config := change_basic c (config (out_at s r)),
          raw_pkt_header := h\<rparr> else out_at s q))"
proof -
  define s1 where "s1 = upd_out r (\<lambda>p. p\<lparr>config := (config p)\<lparr>pi_ssrc := pi_ssrc c,
               i_output_latency := i_output_latency c, i_max_retention := i_max_retention c\<rparr>\<rparr>) s"
  have s1: "oref_ok s1 q = oref_ok s q" "out_at s1 q = (if q = r then (out_at s r)\<lparr>config := (config (out_at s r))
      \<lparr>pi_ssrc := pi_ssrc c, i_output_latency := i_output_latency c, i_max_retention := i_max_retention c\<rparr>\<rparr>
      else out_at s q)" for q
    using assms(1) by (simp_all add: s1_def out_at_upd_out)
  define s2 where "s2 = output_ChangeTtl c r s1"
  from ChangeTtl_out [of s1 r c] assms(1) obtain h2 where s2: "\<forall>q. oref_ok s2 q = oref_ok s1 q"
    "\<forall>q. out_at s2 q = (if q = r then (out_at s1 r)\<lparr>config := (config (out_at s1 r))\<lparr>i_ttl := i_ttl c\<rparr>,
        raw_pkt_header := h2\<rparr> else out_at s1 q)"
    unfolding s2_def [symmetric] by (auto simp: s1)
  define t where "t = output_ChangeTos c r s2"
  from ChangeTos_out [of s2 r c] assms(1) obtain h where t: "\<forall>q. oref_ok t q = oref_ok s2 q"
    "\<forall>q. out_at t q = (if q = r then (out_at s2 r)\<lparr>config := (config (out_at s2 r))\<lparr>i_tos := i_tos c\<rparr>,
        raw_pkt_header := h\<rparr> else out_at s2 q)"
    unfolding t_def [symmetric] by (auto simp: s1 s2)
  have bind: "(x \<bind> Some) = x" for x :: "'z option" by (cases x) simp_all
  have "output_Change B r c s = output_ChangeMtu B c r t"
    using assms by (simp add: output_Change_def Let_def bind flip: s1_def) (simp flip: s2_def t_def)
  moreover have "out_at t q = (if q = r then (out_at s r)\<lparr>config := change_basic c (config (out_at s r)),
          raw_pkt_header := h\<rparr> else out_at s q)" for q
    by (simp add: t s2 s1 change_basic_def)
  moreover have "oref_ok t q = oref_ok s q" for q by (simp add: t s2 s1)
  moreover have "mem t = mem s" "allocd t = allocd s" "sys_ret t = sys_ret s"
    by (simp_all add: t_def s2_def s1_def)
  ultimately show ?thesis by blast
qed

end
