(* ===== verification/Dvb_Send.thy ===== *)
theory Dvb_Send
  imports Dvb_OutputProps
begin

text \<open>
  The send timer (\<open>outputs_Send\<close>): with a clock that does not run backwards the loop ends,
  every packet whose time has come is sent, and the timer is set to the earliest one left.
\<close>

definition clock_ok :: "'a dvboutput_scheme \<Rightarrow> bool" where
  "clock_ok s \<longleftrightarrow> (\<forall>n. clk s n \<le> clk s (Suc n)) \<and> (\<forall>n. clk s n < INT64_MAX)
     \<and> i_out_wallclock s \<le> clk s (ticks s) \<and> i_out_wallclock s < INT64_MAX"

definition packet_due :: "output_st \<Rightarrow> packet \<Rightarrow> mtime" where
  "packet_due p pk = pk_dts pk + i_output_latency (config p)"

lemma head_due_packet: "head_due p = packet_due p (hd (o_packets p))"
  by (simp add: head_due_def packet_due_def)

definition outs_wf :: "'b ts_lib_scheme \<Rightarrow> 'a dvboutput_scheme \<Rightarrow> bool" where
  "outs_wf B s \<longleftrightarrow> (\<forall>r. oref_ok s r \<longrightarrow> out_valid (out_at s r) \<longrightarrow>
     out_wf B (out_at s r) \<and> (\<forall>pk \<in> set (o_packets (out_at s r)). packet_due (out_at s r) pk < INT64_MAX))"

definition send_inv :: "'b ts_lib_scheme \<Rightarrow> (nat \<Rightarrow> nat) \<Rightarrow> 'a dvboutput_scheme \<Rightarrow> bool" where
  "send_inv B ext s \<longleftrightarrow> heap_ok ext s \<and> outs_wf B s \<and> clock_ok s"

definition n_packets :: "'a dvboutput_scheme \<Rightarrow> nat" where
  "n_packets s = length (o_packets (output_dup s))
               + sum_list (map (\<lambda>p. length (o_packets p)) (pp_outputs s))"

text \<open>One output changes, the others stay.\<close>

definition only_out :: "oref \<Rightarrow> 'a dvboutput_scheme \<Rightarrow> 'a dvboutput_scheme \<Rightarrow> bool" where
  "only_out r s s' \<longleftrightarrow> (\<forall>r'. r' \<noteq> r \<longrightarrow> out_at s' r' = out_at s r')
     \<and> length (pp_outputs s') = length (pp_outputs s) \<and> clk s' = clk s
     \<and> i_next_send s' = i_next_send s \<and> out_timer s' = out_timer s
     \<and> i_out_wallclock s \<le> i_out_wallclock s'"

lemma oref_ok_length: "length (pp_outputs s') = length (pp_outputs s) \<Longrightarrow> oref_ok s' r = oref_ok s r"
  by (cases r) simp_all

lemma only_out_ok: "only_out r s s' \<Longrightarrow> oref_ok s' r' = oref_ok s r'"
  by (rule oref_ok_length) (simp add: only_out_def)

lemma only_out_refl [simp]: "only_out r s s"
  by (simp add: only_out_def)

lemma only_out_trans: "only_out r s t \<Longrightarrow> only_out r t u \<Longrightarrow> only_out r s u"
  by (auto simp: only_out_def)

lemma n_packets_only_out:
  assumes "only_out r s s'" and "oref_ok s r"
  shows "n_packets s' + length (o_packets (out_at s r)) = n_packets s + length (o_packets (out_at s' r))"
proof (cases r)
  case Dup
  have "pp_outputs s' = pp_outputs s"
    using assms(1) Dup by (auto simp: only_out_def intro!: nth_equalityI dest: spec [of _ "Nth _"])
  then show ?thesis by (simp add: n_packets_def Dup)
next
  case (Nth i)
  with assms(2) have i: "i < length (pp_outputs s)" by simp
  have oth: "pp_outputs s' ! j = pp_outputs s ! j" if "j \<noteq> i" for j
  proof -
    from assms(1) have "Nth j \<noteq> r \<longrightarrow> out_at s' (Nth j) = out_at s (Nth j)"
      unfolding only_out_def by blast
    with that Nth show ?thesis by simp
  qed
  have "length (pp_outputs s') = length (pp_outputs s)"
    using assms(1) by (simp add: only_out_def)
  then have "pp_outputs s' = (pp_outputs s)[i := pp_outputs s' ! i]"
    by (intro nth_equalityI) (simp_all add: nth_list_update oth i)
  then have "sum_list (map (\<lambda>p. length (o_packets p)) (pp_outputs s')) + length (o_packets (pp_outputs s ! i))
      = sum_list (map (\<lambda>p. length (o_packets p)) (pp_outputs s)) + length (o_packets (pp_outputs s' ! i))"
    using sum_list_map_update [OF i, of "\<lambda>p. length (o_packets p)" "pp_outputs s' ! i"] by simp
  moreover have "output_dup s' = output_dup s"
    using assms(1) Nth by (auto simp: only_out_def dest: spec [of _ Dup])
  ultimately show ?thesis by (simp add: n_packets_def Nth)
qed

lemma send_inv_Flush:
  assumes inv: "send_inv B ext s" and r: "oref_ok s r" and v: "out_valid (out_at s r)"
    and ne: "o_packets (out_at s r) \<noteq> []"
  shows "\<exists>s'. output_Flush B r s = Some s' \<and> send_inv B ext s' \<and> only_out r s s'
     \<and> o_packets (out_at s' r) = tl (o_packets (out_at s r))
     \<and> config (out_at s' r) = config (out_at s r)"
proof -
  from ne obtain pk pks where pks: "o_packets (out_at s r) = pk # pks"
    by (cases "o_packets (out_at s r)") auto
  from inv r v have ok: "heap_ok ext s" and wf: "out_wf B (out_at s r)"
    and ow: "outs_wf B s" and ck: "clock_ok s"
    by (auto simp: send_inv_def outs_wf_def)
  from output_Flush_spec [OF ok r wf pks] obtain s' where
    F: "output_Flush B r s = Some s'" and ok': "heap_ok ext s'" and wf': "out_wf B (out_at s' r)"
    and p': "o_packets (out_at s' r) = pks" and c': "config (out_at s' r) = config (out_at s r)"
    and oth: "\<forall>r'. r' \<noteq> r \<longrightarrow> out_at s' r' = out_at s r'" and rok: "\<forall>r'. oref_ok s' r' = oref_ok s r'"
    and fr: "length (pp_outputs s') = length (pp_outputs s)" "clk s' = clk s" "ticks s' = Suc (ticks s)"
      "i_out_wallclock s' = clk s (ticks s)" "i_next_send s' = i_next_send s"
      "out_timer s' = out_timer s"
    by (elim exE conjE) (rule that; assumption)
  have "outs_wf B s'"
    unfolding outs_wf_def
  proof (intro allI impI)
    fix r' assume a: "oref_ok s' r'" "out_valid (out_at s' r')"
    show "out_wf B (out_at s' r') \<and>
      (\<forall>pk \<in> set (o_packets (out_at s' r')). packet_due (out_at s' r') pk < INT64_MAX)"
    proof (cases "r' = r")
      case True
      then show ?thesis
        using ow [unfolded outs_wf_def, rule_format, OF r v] by (simp add: wf' p' c' pks packet_due_def)
    next
      case False
      then have "out_at s' r' = out_at s r'" by (simp add: oth)
      then show ?thesis using ow [unfolded outs_wf_def, rule_format, of r'] a by (simp add: rok)
    qed
  qed
  moreover have "clock_ok s'" using ck by (simp add: clock_ok_def fr)
  moreover have "only_out r s s'"
  proof -
    have "i_out_wallclock s \<le> i_out_wallclock s'" using ck by (simp add: clock_ok_def fr)
    then show ?thesis by (simp add: only_out_def fr oth)
  qed
  ultimately show ?thesis using F ok' p' c' pks by (simp add: send_inv_def)
qed

text \<open>
  What has left the queues between two states: a prefix of each, and only packets that are due.
\<close>

definition sent_due :: "'a dvboutput_scheme \<Rightarrow> 'a dvboutput_scheme \<Rightarrow> bool" where
  "sent_due s s' \<longleftrightarrow> i_out_wallclock s \<le> i_out_wallclock s' \<and> (\<forall>r. config (out_at s' r) = config (out_at s r)
     \<and> (\<exists>k. o_packets (out_at s' r) = drop k (o_packets (out_at s r))
          \<and> (\<forall>pk \<in> set (take k (o_packets (out_at s r))). packet_due (out_at s r) pk \<le> i_out_wallclock s')))"

lemma sent_due_refl [simp]: "sent_due s s"
  unfolding sent_due_def by (intro conjI allI exI [of _ "0::nat"]) simp_all

lemma sent_due_config: "sent_due s s' \<Longrightarrow> config (out_at s' r) = config (out_at s r)"
  by (simp add: sent_due_def)

lemma sent_due_trans:
  assumes "sent_due s t" and "sent_due t u"
  shows "sent_due s u"
  unfolding sent_due_def
proof (intro conjI allI)
  show "i_out_wallclock s \<le> i_out_wallclock u" using assms by (simp add: sent_due_def)
next
  fix r
  show "config (out_at u r) = config (out_at s r)" using assms by (simp add: sent_due_config)
next
  fix r
  from assms(1) obtain k where k: "o_packets (out_at t r) = drop k (o_packets (out_at s r))"
    and pk: "\<forall>pk \<in> set (take k (o_packets (out_at s r))). packet_due (out_at s r) pk \<le> i_out_wallclock t"
    unfolding sent_due_def by blast
  from assms(2) obtain j where j: "o_packets (out_at u r) = drop j (o_packets (out_at t r))"
    and pj: "\<forall>pk \<in> set (take j (o_packets (out_at t r))). packet_due (out_at t r) pk \<le> i_out_wallclock u"
    unfolding sent_due_def by blast
  have c: "packet_due (out_at t r) pk = packet_due (out_at s r) pk" for pk
    using sent_due_config [OF assms(1)] by (simp add: packet_due_def)
  have w: "i_out_wallclock t \<le> i_out_wallclock u" using assms(2) by (simp add: sent_due_def)
  have "packet_due (out_at s r) pk \<le> i_out_wallclock u"
    if "pk \<in> set (take (k + j) (o_packets (out_at s r)))" for pk
  proof -
    from that have "pk \<in> set (take k (o_packets (out_at s r))) \<or> pk \<in> set (take j (o_packets (out_at t r)))"
      by (simp add: take_add k)
    then show ?thesis using pk pj w by (auto simp: c)
  qed
  moreover have "o_packets (out_at u r) = drop (k + j) (o_packets (out_at s r))"
    by (simp add: j k add.commute)
  ultimately show "\<exists>k. o_packets (out_at u r) = drop k (o_packets (out_at s r))
      \<and> (\<forall>pk \<in> set (take k (o_packets (out_at s r))). packet_due (out_at s r) pk \<le> i_out_wallclock u)"
    by blast
qed

lemma sent_due_one:
  assumes oo: "only_out r s s'" and due: "head_is_due (out_at s r) (i_out_wallclock s)"
    and p': "o_packets (out_at s' r) = tl (o_packets (out_at s r))"
    and c': "config (out_at s' r) = config (out_at s r)"
  shows "sent_due s s'"
  unfolding sent_due_def
proof (intro conjI allI)
  show w: "i_out_wallclock s \<le> i_out_wallclock s'" using oo by (simp add: only_out_def)
  fix q
  have oth: "out_at s' q = out_at s q" if "q \<noteq> r" using oo that by (simp add: only_out_def)
  show "config (out_at s' q) = config (out_at s q)" using oth c' by (cases "q = r") simp_all
  show "\<exists>k. o_packets (out_at s' q) = drop k (o_packets (out_at s q))
      \<and> (\<forall>pk \<in> set (take k (o_packets (out_at s q))). packet_due (out_at s q) pk \<le> i_out_wallclock s')"
  proof (cases "q = r")
    case True
    from due obtain pk pks where pks: "o_packets (out_at s r) = pk # pks"
      and le: "packet_due (out_at s r) pk \<le> i_out_wallclock s"
      unfolding head_is_due_def head_due_packet by (cases "o_packets (out_at s r)") auto
    then show ?thesis using p' w True by (intro exI [of _ "1::nat"]) simp
  next
    case False
    then show ?thesis by (intro exI [of _ "0::nat"]) (simp add: oth)
  qed
qed

lemma sent_due_length: "sent_due s s' \<Longrightarrow> length (o_packets (out_at s' r)) \<le> length (o_packets (out_at s r))"
  unfolding sent_due_def by (metis length_drop diff_le_self)

text \<open>Draining one output.\<close>

definition drained_to :: "'b ts_lib_scheme \<Rightarrow> (nat \<Rightarrow> nat) \<Rightarrow> oref \<Rightarrow>
    'a dvboutput_scheme \<Rightarrow> 'a dvboutput_scheme \<Rightarrow> bool" where
  "drained_to B ext r s s' \<longleftrightarrow> send_inv B ext s' \<and> only_out r s s' \<and> sent_due s s'
     \<and> \<not> head_is_due (out_at s' r) (i_out_wallclock s')
     \<and> (head_is_due (out_at s r) (i_out_wallclock s) \<longrightarrow>
          length (o_packets (out_at s' r)) < length (o_packets (out_at s r)))"

lemma flush_due_spec:
  assumes "send_inv B ext s" and "oref_ok s r" and "out_valid (out_at s r)"
  shows "\<exists>s'. flush_due B r s = Some s' \<and> drained_to B ext r s s'"
  using assms
proof (induction "length (o_packets (out_at s r))" arbitrary: s rule: less_induct)
  case less
  show ?case
  proof (cases "head_is_due (out_at s r) (i_out_wallclock s)")
    case False
    then have "flush_due B r s = Some s" by (subst flush_due.simps) simp
    moreover have "drained_to B ext r s s"
      using less.prems False unfolding drained_to_def by simp
    ultimately show ?thesis by blast
  next
    case True
    then have ne: "o_packets (out_at s r) \<noteq> []" by (simp add: head_is_due_def)
    from send_inv_Flush [OF less.prems ne] obtain s1 where s1: "output_Flush B r s = Some s1"
      "send_inv B ext s1" "only_out r s s1" "o_packets (out_at s1 r) = tl (o_packets (out_at s r))"
      "config (out_at s1 r) = config (out_at s r)" by (elim exE conjE) (rule that; assumption)
    have r1: "oref_ok s1 r" using less.prems(2) by (simp add: only_out_ok [OF s1(3)])
    have v1: "out_valid (out_at s1 r)" using less.prems(3) s1(5) by simp
    have lt: "length (o_packets (out_at s1 r)) < length (o_packets (out_at s r))"
      using ne s1(4) by simp
    from less.hyps [OF lt s1(2) r1 v1] obtain s' where
      s': "flush_due B r s1 = Some s'" and dr: "drained_to B ext r s1 s'" by blast
    have one: "sent_due s s1" by (rule sent_due_one [OF s1(3) True s1(4,5)])
    from dr have d: "send_inv B ext s'" "only_out r s1 s'" "sent_due s1 s'"
      "\<not> head_is_due (out_at s' r) (i_out_wallclock s')"
      unfolding drained_to_def by blast+
    have "flush_due B r s = Some s'" using True s1(1) s' by (subst flush_due.simps) simp
    moreover have "length (o_packets (out_at s' r)) < length (o_packets (out_at s r))"
      using sent_due_length [OF d(3), of r] lt by simp
    ultimately show ?thesis
      using d only_out_trans [OF s1(3) d(2)] sent_due_trans [OF one d(3)] unfolding drained_to_def by blast
  qed
qed

subsection \<open>One round over all outputs\<close>

text \<open>
  The round's progress: \<open>done r\<close> marks the outputs already drained. The next-send time is a
  lower bound of their heads and either one of them or \<open>INT64_MAX\<close>.
\<close>

definition waiting :: "'a dvboutput_scheme \<Rightarrow> oref \<Rightarrow> bool" where
  "waiting s r \<longleftrightarrow> oref_ok s r \<and> out_valid (out_at s r) \<and> o_packets (out_at s r) \<noteq> []"

definition overdue :: "'a dvboutput_scheme \<Rightarrow> oref \<Rightarrow> bool" where
  "overdue s r \<longleftrightarrow> oref_ok s r \<and> out_valid (out_at s r) \<and> head_is_due (out_at s r) (i_out_wallclock s)"

definition round_inv ::
  "'b ts_lib_scheme \<Rightarrow> (nat \<Rightarrow> nat) \<Rightarrow> 'a dvboutput_scheme \<Rightarrow> (oref \<Rightarrow> bool) \<Rightarrow> 'a dvboutput_scheme \<Rightarrow> bool" where
  "round_inv B ext s0 drained s \<longleftrightarrow> send_inv B ext s
     \<and> length (pp_outputs s) = length (pp_outputs s0) \<and> out_timer s = out_timer s0
     \<and> sent_due s0 s
     \<and> (\<forall>r. drained r \<longrightarrow> waiting s r \<longrightarrow> i_next_send s \<le> head_due (out_at s r))
     \<and> (i_next_send s = INT64_MAX \<or> (\<exists>r. drained r \<and> waiting s r \<and> head_due (out_at s r) = i_next_send s))
     \<and> (\<forall>r. \<not> drained r \<longrightarrow> out_at s r = out_at s0 r)
     \<and> n_packets s \<le> n_packets s0
     \<and> (\<forall>r. drained r \<longrightarrow> overdue s0 r \<longrightarrow> n_packets s < n_packets s0)"

lemma waiting_upd [simp]: "waiting (s\<lparr>i_next_send := n\<rparr>) r = waiting s r"
  by (simp add: waiting_def)

lemma send_inv_upd [simp]: "send_inv B ext (s\<lparr>i_next_send := n\<rparr>) = send_inv B ext s"
  by (simp add: send_inv_def heap_ok_def outs_wf_def clock_ok_def)

lemma sent_due_upd [simp]: "sent_due s0 (s\<lparr>i_next_send := n\<rparr>) = sent_due s0 s"
  "sent_due (s\<lparr>i_next_send := n\<rparr>) s0 = sent_due s s0"
  by (simp_all add: sent_due_def)

lemma n_packets_upd [simp]: "n_packets (s\<lparr>i_next_send := n\<rparr>) = n_packets s"
  by (simp add: n_packets_def)

text \<open>Draining one more output and lowering the bound to its head keeps the invariant.\<close>

lemma round_step:
  assumes R: "round_inv B ext s0 D s" and nd: "\<not> D r" and r: "oref_ok s r"
    and v: "out_valid (out_at s r)" and fl: "flush_due B r s = Some s1"
    and n: "n = (if o_packets (out_at s1 r) \<noteq> [] \<and> head_due (out_at s1 r) < i_next_send s
                 then head_due (out_at s1 r) else i_next_send s)"
  shows "round_inv B ext s0 (\<lambda>q. D q \<or> q = r) (s1\<lparr>i_next_send := n\<rparr>)"
proof -
  from R have inv: "send_inv B ext s" and ns0: "i_next_send s = INT64_MAX \<or>
      (\<exists>q. D q \<and> waiting s q \<and> head_due (out_at s q) = i_next_send s)"
    and len0: "length (pp_outputs s) = length (pp_outputs s0)"
    and sd0: "sent_due s0 s" and np0: "n_packets s \<le> n_packets s0"
    and bnd0: "\<And>q. D q \<Longrightarrow> waiting s q \<Longrightarrow> i_next_send s \<le> head_due (out_at s q)"
    and rest0: "\<And>q. \<not> D q \<Longrightarrow> out_at s q = out_at s0 q"
    and prog0: "\<And>q. D q \<Longrightarrow> overdue s0 q \<Longrightarrow> n_packets s < n_packets s0"
    unfolding round_inv_def by blast+
  from flush_due_spec [OF inv r v] fl have dr: "drained_to B ext r s s1" by simp
  then have inv1: "send_inv B ext s1" and oo: "only_out r s s1" and sd: "sent_due s s1"
    and fewer: "head_is_due (out_at s r) (i_out_wallclock s) \<Longrightarrow>
                length (o_packets (out_at s1 r)) < length (o_packets (out_at s r))"
    unfolding drained_to_def by blast+
  have cfg: "config (out_at s1 r) = config (out_at s r)" by (rule sent_due_config [OF sd])
  have wc0: "i_out_wallclock s0 \<le> i_out_wallclock s" using sd0 by (simp add: sent_due_def)
  from oo have oth: "out_at s1 q = out_at s q" if "q \<noteq> r" for q using that by (simp add: only_out_def)
  from oo have len: "length (pp_outputs s1) = length (pp_outputs s)"
    by (simp_all add: only_out_def)
  have wt: "waiting s1 q = waiting s q" if "q \<noteq> r" for q
    by (simp add: waiting_def only_out_ok [OF oo] oth [OF that])
  have pack: "n_packets s1 + length (o_packets (out_at s r)) = n_packets s + length (o_packets (out_at s1 r))"
    by (rule n_packets_only_out [OF oo r])
  have le: "n_packets s1 \<le> n_packets s" using pack sent_due_length [OF sd, of r] by simp
  have bound: "n \<le> i_next_send s" using n by (simp split: if_splits)
  have low: "n \<le> head_due (out_at s1 q)" if "D q \<or> q = r" "waiting s1 q" for q
  proof (cases "q = r")
    case True
    then show ?thesis using n that(2) by (auto simp: waiting_def)
  next
    case False
    then show ?thesis using bnd0 [of q] that wt [OF False] oth [OF False] bound by simp
  qed
  have attained: "n = INT64_MAX \<or> (\<exists>q. (D q \<or> q = r) \<and> waiting s1 q \<and> head_due (out_at s1 q) = n)"
  proof (cases "o_packets (out_at s1 r) \<noteq> [] \<and> head_due (out_at s1 r) < i_next_send s")
    case True
    then have "waiting s1 r" using v r by (simp add: waiting_def only_out_ok [OF oo] cfg)
    then show ?thesis using True n by auto
  next
    case False
    then have nn: "n = i_next_send s" using n by auto
    from ns0 show ?thesis
    proof
      assume "\<exists>q. D q \<and> waiting s q \<and> head_due (out_at s q) = i_next_send s"
      then obtain q where q: "D q" "waiting s q" "head_due (out_at s q) = i_next_send s" by blast
      with nd have "q \<noteq> r" by blast
      then show ?thesis using q wt oth nn by auto
    qed (simp add: nn)
  qed
  have prog: "n_packets s1 < n_packets s0" if q: "D q \<or> q = r" "overdue s0 q" for q
  proof (cases "D q")
    case True
    then show ?thesis using prog0 [OF True q(2)] le by simp
  next
    case False
    with q have qr: "q = r" by simp
    then have "head_is_due (out_at s r) (i_out_wallclock s)"
      using q(2) rest0 [OF nd] wc0 by (auto simp: overdue_def head_is_due_def)
    from fewer [OF this] show ?thesis using pack np0 by simp
  qed
  have low': "\<forall>q. D q \<or> q = r \<longrightarrow> waiting s1 q \<longrightarrow> n \<le> head_due (out_at s1 q)" using low by blast
  have rest: "\<forall>q. \<not> (D q \<or> q = r) \<longrightarrow> out_at s1 q = out_at s0 q" using oth rest0 by simp
  have prog': "\<forall>q. D q \<or> q = r \<longrightarrow> overdue s0 q \<longrightarrow> n_packets s1 < n_packets s0" using prog by blast
  have tm1: "out_timer s1 = out_timer s0" using oo R by (simp add: only_out_def round_inv_def)
  have nums: "length (pp_outputs s1) = length (pp_outputs s0)" "n_packets s1 \<le> n_packets s0"
    using len len0 le np0 by simp_all
  have sd1: "sent_due s0 s1" by (rule sent_due_trans [OF sd0 sd])
  show ?thesis
    unfolding round_inv_def by (intro conjI) (simp_all add: inv1 nums tm1 sd1 low' attained rest prog')
qed

text \<open>An output that is not in use is skipped.\<close>

lemma round_skip:
  assumes R: "round_inv B ext s0 D s" and nv: "\<not> out_valid (out_at s r)" and nd: "\<not> D r"
  shows "round_inv B ext s0 (\<lambda>q. D q \<or> q = r) s"
proof -
  have w: "\<not> waiting s r" using nv by (simp add: waiting_def)
  have "out_at s0 r = out_at s r" using R nd unfolding round_inv_def by metis
  then have o: "\<not> overdue s0 r" using nv by (simp add: overdue_def)
  show ?thesis
    using R w o unfolding round_inv_def by blast
qed

definition up_to :: "nat \<Rightarrow> oref \<Rightarrow> bool" where
  "up_to i q \<longleftrightarrow> (case q of Dup \<Rightarrow> True | Nth j \<Rightarrow> j < i)"

lemma up_to_Suc: "(\<lambda>q. up_to i q \<or> q = Nth i) = up_to (Suc i)"
  by (rule ext) (auto simp: up_to_def split: oref.splits)

lemma round_output:
  assumes R: "round_inv B ext s0 (up_to i) s" and i: "i < length (pp_outputs s0)"
  shows "\<exists>s'. send_output B i s = Some s' \<and> round_inv B ext s0 (up_to (Suc i)) s'"
proof (cases "out_valid (pp_outputs s ! i)")
  case False
  then have "round_inv B ext s0 (up_to (Suc i)) s"
    using round_skip [OF R, of "Nth i"] by (simp add: up_to_Suc) (simp add: up_to_def)
  with False show ?thesis by (simp add: send_output_def)
next
  case True
  have ok: "oref_ok s (Nth i)" using R i by (simp add: round_inv_def)
  have inv: "send_inv B ext s" using R by (simp add: round_inv_def)
  have v: "out_valid (out_at s (Nth i))" using True by simp
  have nd: "\<not> up_to i (Nth i)" by (simp add: up_to_def)
  from flush_due_spec [OF inv ok v] obtain s1 where s1: "flush_due B (Nth i) s = Some s1"
    and dr: "drained_to B ext (Nth i) s s1" by blast
  have ns: "i_next_send s1 = i_next_send s" using dr by (simp add: drained_to_def only_out_def)
  define n where "n = (if o_packets (out_at s1 (Nth i)) \<noteq> [] \<and> head_due (out_at s1 (Nth i)) < i_next_send s
                 then head_due (out_at s1 (Nth i)) else i_next_send s)"
  have "round_inv B ext s0 (up_to (Suc i)) (s1\<lparr>i_next_send := n\<rparr>)"
    using round_step [OF R nd ok v s1 n_def] by (simp add: up_to_Suc)
  moreover have "send_output B i s = Some (s1\<lparr>i_next_send := n\<rparr>)"
    using True s1 by (simp add: send_output_def n_def ns [symmetric])
  ultimately show ?thesis by blast
qed

lemma round_dup:
  assumes inv: "send_inv B ext s0" and max: "i_next_send s0 = INT64_MAX"
  shows "\<exists>s'. send_dup B s0 = Some s' \<and> round_inv B ext s0 (up_to 0) s'"
proof -
  have R: "round_inv B ext s0 (\<lambda>_. False) s0" using inv max by (simp add: round_inv_def)
  have up: "(\<lambda>q. False \<or> q = Dup) = up_to 0"
    by (rule ext) (simp add: up_to_def split: oref.splits)
  show ?thesis
  proof (cases "out_valid (output_dup s0)")
    case False
    then have "round_inv B ext s0 (up_to 0) s0"
      using round_skip [OF R, of Dup] by (simp add: up [simplified])
    with False show ?thesis by (simp add: send_dup_def)
  next
    case True
    then have v: "out_valid (out_at s0 Dup)" by simp
    have ok: "oref_ok s0 Dup" by simp
    from flush_due_spec [OF inv ok v] obtain s1 where s1: "flush_due B Dup s0 = Some s1"
      and dr: "drained_to B ext Dup s0 s1" by blast
    from dr have ns: "i_next_send s1 = INT64_MAX" and inv1: "send_inv B ext s1" and sd: "sent_due s0 s1"
      using max by (simp_all add: drained_to_def only_out_def)
    have v1: "out_valid (out_at s1 Dup)" using v sent_due_config [OF sd, of Dup] by simp
    define n where "n = (if o_packets (out_at s1 Dup) \<noteq> [] \<and> head_due (out_at s1 Dup) < i_next_send s0
                 then head_due (out_at s1 Dup) else i_next_send s0)"
    have lt: "head_due (out_at s1 Dup) < INT64_MAX" if "o_packets (out_at s1 Dup) \<noteq> []"
    proof -
      from inv1 v1 have "\<forall>pk \<in> set (o_packets (out_at s1 Dup)). packet_due (out_at s1 Dup) pk < INT64_MAX"
        by (auto simp: send_inv_def outs_wf_def dest: spec [of _ Dup])
      with that show ?thesis by (simp add: head_due_packet)
    qed
    have "send_dup B s0 = Some (s1\<lparr>i_next_send := n\<rparr>)"
    proof (cases "o_packets (output_dup s1) = []")
      case True
      have "s1 = s1\<lparr>i_next_send := n\<rparr>" using True ns max by (simp add: n_def)
      then show ?thesis using True v s1 by (simp add: send_dup_def)
    next
      case False
      then show ?thesis using True s1 lt max by (simp add: send_dup_def n_def)
    qed
    moreover have "round_inv B ext s0 (up_to 0) (s1\<lparr>i_next_send := n\<rparr>)"
      using round_step [OF R _ ok v s1 n_def] by (simp add: up [simplified])
    ultimately show ?thesis by blast
  qed
qed

lemma send_round_spec:
  assumes inv: "send_inv B ext s"
  shows "\<exists>s'. send_round B s = Some s'
     \<and> round_inv B ext (s\<lparr>i_next_send := INT64_MAX\<rparr>) (up_to (length (pp_outputs s))) s'"
proof -
  let ?s0 = "s\<lparr>i_next_send := INT64_MAX\<rparr>"
  from round_dup [of B ext ?s0] inv obtain s1 where
    s1: "send_dup B ?s0 = Some s1" "round_inv B ext ?s0 (up_to 0) s1" by auto
  have len: "length (pp_outputs s1) = length (pp_outputs s)" using s1(2) by (simp add: round_inv_def)
  have "\<exists>s'. ofold (send_output B) [0..<length (pp_outputs s)] s1 = Some s'
      \<and> round_inv B ext ?s0 (up_to (length (pp_outputs s))) s'"
  proof (rule ofold_upt [where P = "\<lambda>i. round_inv B ext ?s0 (up_to i)"])
    fix i t assume "i < length (pp_outputs s)" and "round_inv B ext ?s0 (up_to i) t"
    then show "\<exists>s'. send_output B i t = Some s' \<and> round_inv B ext ?s0 (up_to (Suc i)) s'"
      by (intro round_output) simp_all
  qed (rule s1(2))
  then show ?thesis using s1(1) by (auto simp: send_round_def len)
qed

subsection \<open>The loop\<close>

text \<open>What a completed send leaves behind.\<close>

definition all_sent :: "'b ts_lib_scheme \<Rightarrow> (nat \<Rightarrow> nat) \<Rightarrow>
    'a dvboutput_scheme \<Rightarrow> 'a dvboutput_scheme \<Rightarrow> bool" where
  "all_sent B ext s s' \<longleftrightarrow> send_inv B ext s' \<and> sent_due s s' \<and> out_timer s' = out_timer s
     \<and> length (pp_outputs s') = length (pp_outputs s)
     \<and> i_out_wallclock s' < i_next_send s'
     \<and> (\<forall>r. waiting s' r \<longrightarrow> i_next_send s' \<le> head_due (out_at s' r))
     \<and> (i_next_send s' = INT64_MAX \<or> (\<exists>r. waiting s' r \<and> head_due (out_at s' r) = i_next_send s'))"

lemma all_sent_trans:
  assumes "sent_due s t" and "length (pp_outputs t) = length (pp_outputs s)" and "out_timer t = out_timer s"
    and "all_sent B ext t u"
  shows "all_sent B ext s u"
  using assms unfolding all_sent_def by (auto intro: sent_due_trans)

lemma round_result:
  assumes R: "round_inv B ext s0 (up_to (length (pp_outputs s0))) s'"
  shows "(i_out_wallclock s' < i_next_send s' \<and> all_sent B ext s0 s')
       \<or> (i_next_send s' \<le> i_out_wallclock s' \<and> (\<exists>r. overdue s' r))"
proof -
  have len: "length (pp_outputs s') = length (pp_outputs s0)" using R by (simp add: round_inv_def)
  have all: "up_to (length (pp_outputs s0)) r" if "waiting s' r" for r
    using that len by (cases r) (auto simp: waiting_def up_to_def)
  show ?thesis
  proof (cases "i_out_wallclock s' < i_next_send s'")
    case True
    have "all_sent B ext s0 s'"
      using R True all unfolding round_inv_def all_sent_def by blast
    with True show ?thesis by blast
  next
    case False
    have "i_out_wallclock s' < INT64_MAX"
      using R by (simp add: round_inv_def send_inv_def clock_ok_def)
    with False have "i_next_send s' \<noteq> INT64_MAX" by simp
    with R obtain r where "waiting s' r" "head_due (out_at s' r) = i_next_send s'"
      unfolding round_inv_def by blast
    with False have "overdue s' r" by (auto simp: overdue_def waiting_def head_is_due_def)
    with False show ?thesis by auto
  qed
qed

lemma overdue_upd [simp]: "overdue (s\<lparr>i_next_send := n\<rparr>) r = overdue s r"
  by (simp add: overdue_def)

lemma all_sent_upd [simp]: "all_sent B ext (s\<lparr>i_next_send := n\<rparr>) s' = all_sent B ext s s'"
  by (simp add: all_sent_def)

lemma overdue_up_to: "overdue s r \<Longrightarrow> up_to (length (pp_outputs s)) r"
  by (cases r) (auto simp: overdue_def up_to_def)

lemma send_loop_overdue:
  assumes "send_inv B ext s" and "overdue s r"
  shows "\<exists>s'. send_loop B s = Some s' \<and> all_sent B ext s s'"
  using assms
proof (induction "n_packets s" arbitrary: s r rule: less_induct)
  case less
  from send_round_spec [OF less.prems(1)] obtain s1 where s1: "send_round B s = Some s1"
    and R: "round_inv B ext (s\<lparr>i_next_send := INT64_MAX\<rparr>) (up_to (length (pp_outputs s))) s1" by blast
  have fewer: "n_packets s1 < n_packets s"
    using R less.prems(2) overdue_up_to [OF less.prems(2)] unfolding round_inv_def by auto
  have inv1: "send_inv B ext s1" and sd: "sent_due s s1" and len: "length (pp_outputs s1) = length (pp_outputs s)"
    and tm: "out_timer s1 = out_timer s"
    using R by (simp_all add: round_inv_def)
  from round_result [of B ext "s\<lparr>i_next_send := INT64_MAX\<rparr>" s1] R consider
      "i_out_wallclock s1 < i_next_send s1" "all_sent B ext s s1"
    | r where "i_next_send s1 \<le> i_out_wallclock s1" "overdue s1 r" by auto
  then show ?case
  proof cases
    case 1
    then show ?thesis using s1 by (subst send_loop.simps) simp
  next
    case (2 r)
    from less.hyps [OF fewer inv1 2(2)] obtain s' where
      s': "send_loop B s1 = Some s'" "all_sent B ext s1 s'" by blast
    then show ?thesis
      using s1 2 all_sent_trans [OF sd len tm s'(2)] by (subst send_loop.simps) simp
  qed
qed

lemma send_loop_spec:
  assumes inv: "send_inv B ext s"
  shows "\<exists>s'. send_loop B s = Some s' \<and> all_sent B ext s s'"
proof -
  from send_round_spec [OF inv] obtain s1 where s1: "send_round B s = Some s1"
    and R: "round_inv B ext (s\<lparr>i_next_send := INT64_MAX\<rparr>) (up_to (length (pp_outputs s))) s1" by blast
  have inv1: "send_inv B ext s1" and sd: "sent_due s s1" and len: "length (pp_outputs s1) = length (pp_outputs s)"
    and tm: "out_timer s1 = out_timer s"
    using R by (simp_all add: round_inv_def)
  from round_result [of B ext "s\<lparr>i_next_send := INT64_MAX\<rparr>" s1] R consider
      "i_out_wallclock s1 < i_next_send s1" "all_sent B ext s s1"
    | r where "i_next_send s1 \<le> i_out_wallclock s1" "overdue s1 r" by auto
  then show ?thesis
  proof cases
    case 1
    then show ?thesis using s1 by (subst send_loop.simps) simp
  next
    case (2 r)
    from send_loop_overdue [OF inv1 2(2)] obtain s' where
      s': "send_loop B s1 = Some s'" "all_sent B ext s1 s'" by blast
    then show ?thesis
      using s1 2 all_sent_trans [OF sd len tm s'(2)] by (subst send_loop.simps) simp
  qed
qed

end
