(* ===== verification/Dvb_Example.thy ===== *)
theory Dvb_Example
  imports Dvb_OutputRefs
begin

text \<open>
  Concrete instances on which the hypotheses of the properties are met: the transport packet
  functions on bytes, as the MPEG-2 standard lays the header out, and a small running instance
  with one UDP output, two TS blocks and two packets waiting.
\<close>

definition ex_get_pid :: "bytes \<Rightarrow> nat" where
  "ex_get_pid p = 256 * unat (p ! 1 AND 0x1f) + unat (p ! 2)"

definition ex_set_pid :: "nat \<Rightarrow> bytes \<Rightarrow> bytes" where
  "ex_set_pid i p = p[1 := (p ! 1 AND 0xe0) OR (of_nat (i div 256) AND 0x1f), 2 := of_nat i]"

definition ex_ts :: ts_lib where
  "ex_ts = \<lparr>
     ts_get_pid = ex_get_pid, ts_set_pid = ex_set_pid,
     ts_get_cc = (\<lambda>p. unat (p ! 3 AND 0x0f)),
     ts_set_cc = (\<lambda>c p. p[3 := (p ! 3 AND 0xf0) OR (of_nat c AND 0x0f)]),
     ts_validate = (\<lambda>p. p ! 0 = 0x47), ts_get_scrambling = (\<lambda>p. unat (drop_bit 6 (p ! 3))),
     ts_get_unitstart = (\<lambda>p. bit (p ! 1) 6), ts_get_transporterror = (\<lambda>p. bit (p ! 1) 7),
     ts_has_payload = (\<lambda>p. bit (p ! 3) 4), ts_has_adaptation = (\<lambda>p. bit (p ! 3) 5),
     ts_get_adaptation = (\<lambda>p. unat (p ! 4)), tsaf_has_pcr = (\<lambda>p. bit (p ! 5) 4),
     ts_payload = (\<lambda>p. if bit (p ! 3) 5 then 5 + unat (p ! 4) else 4),
     pes_validate = (\<lambda>p. take 3 p = [0, 0, 1]),
     ts_check_duplicate = (\<lambda>c l. c = l), ts_check_discontinuity = (\<lambda>c l. (l + 1) mod 16 \<noteq> c),
     rtp_set_hdr = (\<lambda>h. h[0 := 0x80]), rtp_set_type = (\<lambda>t h. h[1 := of_nat t]),
     rtp_set_seqnum = (\<lambda>n h. h[2 := ucast (drop_bit 8 n), 3 := ucast n]),
     rtp_set_timestamp = (\<lambda>t h. h[4 := ucast (drop_bit 24 t), 5 := ucast (drop_bit 16 t),
                                   6 := ucast (drop_bit 8 t), 7 := ucast t]),
     rtp_set_ssrc = (\<lambda>r h. h[8 := r ! 0, 9 := r ! 1, 10 := r ! 2, 11 := r ! 3]),
     RTP_HEADER_SIZE = 12, RTP_TYPE_TS = 33, inet_addr = (\<lambda>_. 0)\<rparr>"

lemma ex_ts_simps [simp]:
  "ts_get_pid ex_ts = ex_get_pid" "ts_set_pid ex_ts = ex_set_pid" "RTP_HEADER_SIZE ex_ts = 12"
  by (simp_all add: ex_ts_def)

lemma ex_pid_bits:
  fixes a b :: byte
  shows "(of_nat ((256 * unat (a AND 0x1f) + unat b) div 256) :: byte) = a AND 0x1f"
    and "(of_nat (256 * unat (a AND 0x1f) + unat b) :: byte) = b"
proof -
  have b: "unat b < 256" by (rule unat_byte)
  then show "(of_nat ((256 * unat (a AND 0x1f) + unat b) div 256) :: byte) = a AND 0x1f" by simp
  have "(of_nat (256 * unat (a AND 0x1f) + unat b) :: byte) = of_nat 256 * of_nat (unat (a AND 0x1f)) + of_nat (unat b)"
    by (simp only: of_nat_add of_nat_mult)
  also have "(of_nat 256 :: byte) = 0" by simp
  finally show "(of_nat (256 * unat (a AND 0x1f) + unat b) :: byte) = b" by simp
qed

lemma ex_set_get_pid: "ex_set_pid (ex_get_pid p) p = p"
proof -
  have "(p ! 1 AND 0xe0) OR ((p ! 1 AND 0x1f) AND 0x1f) = p ! 1"
  proof -
    have "(p ! 1 AND 0xe0) OR ((p ! 1 AND 0x1f) AND 0x1f) = p ! 1 AND (0xe0 OR 0x1f)"
      by (simp only: bit.conj_disj_distrib and.assoc and.idem)
    also have "(0xe0 OR 0x1f :: byte) = - 1" by simp
    finally show ?thesis by simp
  qed
  then show ?thesis
    by (simp only: ex_set_pid_def ex_get_pid_def ex_pid_bits list_update_id)
qed

lemma ex_mask: "((a AND 0xe0) OR (b AND 0x1f)) AND 0xe0 = a AND (0xe0 :: byte)"
proof -
  have "(b AND 0x1f) AND 0xe0 = (0 :: byte)" by (simp add: and.assoc)
  then show ?thesis by (simp add: bit.conj_disj_distrib2 and.assoc)
qed

lemma ex_set_set_pid: "ex_set_pid i (ex_set_pid j p) = ex_set_pid i p"
proof (cases "1 < length p")
  case True
  then show ?thesis
    by (simp add: ex_set_pid_def list_update_swap [of 2 "Suc 0"] ex_mask)
next
  case False
  then show ?thesis by (simp add: ex_set_pid_def list_update_beyond)
qed

lemma ex_ts_pid_laws: "ts_pid_laws ex_ts"
  by (simp add: ts_pid_laws_def ex_set_get_pid ex_set_set_pid) (simp add: ex_set_pid_def)

lemma ex_get_pid_less: "ex_get_pid p < 8192"
proof -
  have "p ! 1 AND 0x1f \<le> 0x1f" by (rule word_and_le1)
  then have "unat (p ! 1 AND 0x1f) \<le> 31" by (simp add: word_le_nat_alt)
  moreover have "unat (p ! 2) < 256" by (rule unat_byte)
  ultimately show ?thesis by (simp add: ex_get_pid_def)
qed

lemma ex_rtp_laws: "rtp_laws ex_ts"
  by (simp add: rtp_laws_def ex_ts_def)

subsection \<open>A running instance\<close>

definition ex_block :: "byte \<Rightarrow> int \<Rightarrow> mtime \<Rightarrow> block" where
  "ex_block pid rc dts = \<lparr>bk_ts = [0x47, 0, pid, 0x10] @ replicate 184 0, bk_refcount = rc, bk_dts = dts, bk_tmp_pid = 0\<rparr>"

definition ex_config :: output_config where
  "ex_config = \<lparr>
     i_family = AF_INET, connect_addr = zero_sockaddr, bind_addr = zero_sockaddr,
     i_if_index_v6 = -1, psz_displayname = [], i_config = OUTPUT_VALID,
     i_cfg_network_id = 0, network_name = [], service_name = [],
     provider_name = [], pi_ssrc = replicate 4 0, i_output_latency = 10, i_max_retention = 5,
     i_ttl = 64, i_tos = 0, i_mtu = 400, psz_srcaddr = None, i_srcport = 0, i_cfg_tsid = -1,
     i_sid = 1, pi_pids = [], i_new_sid = 0, i_onid = 0, b_passthrough = False,
     b_cfg_do_remap = True, pi_confpids = replicate CLDVB_N_MAP_PIDS UNUSED_PID\<rparr>"

definition ex_output :: "packet list \<Rightarrow> output_st" where
  "ex_output pks = (zero_output ex_config)\<lparr>o_packets := pks, i_handle := 7,
     pi_newpids := (\<lambda>i. if i = 33 then 513 else UNUSED_PID), pi_freepids := (\<lambda>_. UNUSED_PID)\<rparr>"

definition ex_state :: "output_st list \<Rightarrow> int \<Rightarrow> int \<Rightarrow> dvboutput" where
  "ex_state outs rc0 rc1 = \<lparr>
     native_charset = [], mrtg_file = None, i_print_period = 0, i_priority = 0, i_adapter = 0,
     i_delsysatsc = 0, clk = (\<lambda>n. if n < 40 then 100 else 1000), ticks = 0,
     mem = (\<lambda>a. if a = 0 then ex_block 33 rc0 50 else ex_block 34 rc1 2000),
     allocd = (\<lambda>a. (a = 0 \<and> rc0 \<noteq> 0) \<or> (a = 1 \<and> rc1 \<noteq> 0)), brk = 2, p_block_lifo = [], i_block_count = 0,
     i_next_send = INT64_MAX, i_out_wallclock = 0, out_timer = None,
     p_pad_ts = replicate 188 255, rtp_scratch = replicate 12 0, psz_dvb_charset = [], b_random_tsid = False,
     b_do_remap = False, pp_outputs = outs, b_udp_global = False, b_dvb_global = False,
     b_epg_global = False, i_latency_global = 0, i_retention_global = 0, i_ttl_global = 64,
     pi_ssrc_global = [], gl_network_name = [], gl_provider_name = [], i_network_id = 0,
     psz_dup_config = None, output_dup = zero_output ex_config\<lparr>config := ex_config\<lparr>i_config := 0\<rparr>\<rparr>,
     sys_ret = (\<lambda>_. 0), sys_err = (\<lambda>_. 5), sys_log = [], errno = 0\<rparr>"

lemmas ex_defs = ex_state_def ex_output_def ex_config_def ex_block_def zero_output_def

lemma ex_valid [simp]: "has_flag OUTPUT_VALID OUTPUT_VALID" "\<not> has_flag 0 f"
  "\<not> has_flag OUTPUT_VALID OUTPUT_UDP" "\<not> has_flag OUTPUT_VALID OUTPUT_RAW"
  by (simp_all add: has_flag_def output_flags)

lemma ex_BlockCount [simp]: "output_BlockCount ex_ts (ex_output pks) = 2"
  by (simp add: output_BlockCount_def ex_defs TS_SIZE_def)

text \<open>Block 0 waits in the first packet, block 1 in the second.\<close>

definition ex_packets :: "packet list" where
  "ex_packets = [\<lparr>pk_dts = 50, pk_blocks = [0], pk_cap = 2\<rparr>, \<lparr>pk_dts = 2000, pk_blocks = [1], pk_cap = 2\<rparr>]"

definition ex_run :: dvboutput where
  "ex_run = ex_state [ex_output ex_packets] 2 1"

lemma ex_run_heap_ok: "heap_ok (\<lambda>b. if b = 0 then 1 else 0) ex_run"
  by (auto simp: heap_ok_def pool.agrees_def pool_ok_def live_def block_ref_def refs_def out_refs_def
      queued_def ex_run_def ex_packets_def ex_defs)

lemma ex_out_wf: "out_wf ex_ts (ex_output ex_packets)"
  unfolding out_wf_def ex_BlockCount by (simp add: ex_defs ex_packets_def)

lemma ex_run_out [simp]: "pp_outputs ex_run = [ex_output ex_packets]" "ticks ex_run = 0"
  "clk ex_run = (\<lambda>n. if n < 40 then 100 else 1000)" "i_out_wallclock ex_run = 0"
  by (simp_all add: ex_run_def ex_state_def)

lemma ex_output_valid [simp]: "out_valid (ex_output pks)" "o_packets (ex_output pks) = pks"
  by (simp_all add: ex_defs)

end
