(* ===== verification/Dvb_OutputClaims.thy ===== *)
theory Dvb_OutputClaims
  imports Dvb_Send Dvb_OutputLife Dvb_Example
begin

text \<open>
  The properties of the block pool and the outputs, each with a concrete instance
  (\<open>ex_run\<close>: one RTP output with remapping, two packets waiting) on which its hypotheses hold.
\<close>

lemma ex_run_out_at [simp]: "out_at ex_run (Nth 0) = ex_output ex_packets" "oref_ok ex_run (Nth 0)"
  by (simp_all add: ex_run_def ex_state_def)

definition ex_head :: packet where
  "ex_head = \<lparr>pk_dts = 50, pk_blocks = [0], pk_cap = 2\<rparr>"

lemma ex_queue: "oref_ok ex_run (Nth 0)" "out_wf ex_ts (out_at ex_run (Nth 0))"
  "o_packets (out_at ex_run (Nth 0)) = ex_head # tl ex_packets" "distinct (pk_blocks ex_head)"
  using ex_out_wf by (simp_all) (simp_all add: ex_packets_def ex_head_def)

text \<open>C1 Queueing a block that somebody references (\<open>output_Put\<close>) always succeeds: it never writes
  past the room of a packet, the block becomes the last one of the output's queue, the other
  outputs do not change, and every block's stored reference count is again exactly the number
  of references that exist, so no queued block can be on the free list.\<close>

theorem Put_keeps_references:
  assumes "heap_ok ext s" and "oref_ok s r" and "out_wf B (out_at s r)" and "0 < refs s b + ext b"
  shows "\<exists>s'. output_Put B r b s = Some s' \<and> heap_ok ext s' \<and> out_wf B (out_at s' r)
           \<and> queued (out_at s' r) = queued (out_at s r) @ [b]
           \<and> (\<forall>x. live s' x \<longleftrightarrow> 0 < refs s' x + ext x)
           \<and> (\<forall>r'. r' \<noteq> r \<longrightarrow> out_at s' r' = out_at s r')"
proof -
  from output_Put_spec [OF assms] obtain s' where s': "output_Put B r b s = Some s'" "heap_ok ext s'"
    "out_wf B (out_at s' r)" "queued (out_at s' r) = queued (out_at s r) @ [b]"
    "\<forall>r'. r' \<noteq> r \<longrightarrow> out_at s' r' = out_at s r'" by blast
  moreover have "live s' x \<longleftrightarrow> 0 < refs s' x + ext x" for x by (rule heap_ok_live [OF s'(2)])
  ultimately show ?thesis by blast
qed

lemma Put_keeps_references_witness:
  "\<exists>s'. output_Put ex_ts (Nth 0) 1 ex_run = Some s' \<and> heap_ok (\<lambda>b. if b = 0 then 1 else 0) s'
        \<and> queued (out_at s' (Nth 0)) = [0, 1, 1]"
proof -
  have "0 < refs ex_run 1 + (if (1::nat) = 0 then 1 else 0)"
    by (simp add: refs_def out_refs_def queued_def ex_run_def ex_packets_def ex_defs)
  from Put_keeps_references [OF ex_run_heap_ok ex_run_out_at(2) _ this, of ex_ts] ex_out_wf
  obtain s' where "output_Put ex_ts (Nth 0) 1 ex_run = Some s'" "heap_ok (\<lambda>b. if b = 0 then 1 else 0) s'"
    "queued (out_at s' (Nth 0)) = queued (ex_output ex_packets) @ [1]" by auto
  then show ?thesis by (auto simp: queued_def ex_packets_def)
qed




lemma ex_pid_range: "pid_range ex_ts"
  by (simp add: pid_range_def ex_get_pid_less MAX_PIDS_def)




text \<open>The end of the send timer: the loop has sent what is due, then the timer is set.\<close>

lemma send_armed:
  assumes "send_inv B ext s"
  defines "t \<equiv> s\<lparr>out_timer := Some (i_next_send s - i_out_wallclock s)\<rparr>"
  shows "heap_ok ext t" and "outs_wf B t" and "sent_due u t = sent_due u s"
    and "waiting t r = waiting s r" and "out_at t r = out_at s r" and "i_out_wallclock t = i_out_wallclock s"
proof -
  have w: "waiting t r = waiting s r" "out_at t r = out_at s r" "oref_ok t r = oref_ok s r" for r
    by (cases r; simp add: t_def waiting_def)+
  show "waiting t r = waiting s r" "out_at t r = out_at s r" by (rule w)+
  have "pool.agrees c t \<longleftrightarrow> pool.agrees c s" for c by (rule agrees_cong) (simp_all add: t_def)
  moreover have "refs t = refs s" by (simp add: t_def refs_def fun_eq_iff)
  ultimately show "heap_ok ext t" "outs_wf B t" using assms(1) by (simp_all add: send_inv_def heap_ok_def outs_wf_def w)
  show "sent_due u t = sent_due u s" by (simp add: sent_due_def w) (simp add: t_def)
qed (simp add: t_def)

lemma nothing_waits:
  assumes "send_inv B ext s" and "\<not> i_next_send s < INT64_MAX" and "\<And>r. waiting s r \<Longrightarrow> i_next_send s \<le> head_due (out_at s r)"
  shows "\<not> waiting s r"
proof
  assume r: "waiting s r"
  then have "head_due (out_at s r) < INT64_MAX"
    using assms(1) by (auto simp: waiting_def send_inv_def outs_wf_def head_due_packet)
  with assms(3) [OF r] assms(2) show False by simp
qed

text \<open>C6 The send timer (\<open>outputs_Send\<close>): whatever is queued, the loop ends; only due packets are sent,
  from the front of each queue; afterwards nothing that is waiting is due at the last reading of
  the clock, and the timer is armed for exactly the earliest packet left, or not armed when
  nothing is waiting.\<close>

theorem Send_completes:
  assumes "heap_ok ext s" and "outs_wf B s" and "clock_ok s"
  shows "\<exists>s'. outputs_Send B s = Some s' \<and> heap_ok ext s' \<and> outs_wf B s' \<and> sent_due s s'
           \<and> (\<forall>r. waiting s' r \<longrightarrow> i_out_wallclock s' < head_due (out_at s' r))
           \<and> (case out_timer s' of
                 None \<Rightarrow> \<forall>r. \<not> waiting s' r
               | Some t \<Rightarrow> 0 < t \<and> (\<exists>r. waiting s' r \<and> head_due (out_at s' r) = i_out_wallclock s' + t)
                    \<and> (\<forall>r. waiting s' r \<longrightarrow> i_out_wallclock s' + t \<le> head_due (out_at s' r)))"
proof -
  define s0 where "s0 = s\<lparr>ticks := Suc (ticks s), i_out_wallclock := clk s (ticks s), out_timer := None\<rparr>"
  have "pool.agrees c s0 \<longleftrightarrow> pool.agrees c s" for c by (rule agrees_cong) (simp_all add: s0_def)
  moreover have "refs s0 = refs s" by (simp add: s0_def refs_def fun_eq_iff)
  moreover have o0: "out_at s0 r = out_at s r" "oref_ok s0 r = oref_ok s r" for r
    by (cases r; simp add: s0_def)+
  ultimately have inv: "send_inv B ext s0"
    using assms by (simp add: send_inv_def heap_ok_def outs_wf_def) (simp add: clock_ok_def s0_def)
  from send_loop_spec [OF inv] obtain s1 where s1: "send_loop B s0 = Some s1" and A: "all_sent B ext s0 s1" by blast
  have eq: "outputs_Send B s = Some (if i_next_send s1 < INT64_MAX
      then s1\<lparr>out_timer := Some (i_next_send s1 - i_out_wallclock s1)\<rparr> else s1)"
    using s1 by (simp add: outputs_Send_def mdate_def Let_def s0_def)
  have inv1: "send_inv B ext s1" and sd: "sent_due s0 s1" and wc: "i_out_wallclock s1 < i_next_send s1"
    and low: "\<And>r. waiting s1 r \<Longrightarrow> i_next_send s1 \<le> head_due (out_at s1 r)"
    and att: "i_next_send s1 = INT64_MAX \<or> (\<exists>r. waiting s1 r \<and> head_due (out_at s1 r) = i_next_send s1)"
    and tm: "out_timer s1 = None"
    using A by (auto simp: all_sent_def s0_def)
  have sd': "sent_due s s1"
    using sd assms(3) by (simp add: sent_due_def o0) (simp add: clock_ok_def s0_def order_trans)
  show ?thesis
  proof (cases "i_next_send s1 < INT64_MAX")
    case True
    define s' where "s' = s1\<lparr>out_timer := Some (i_next_send s1 - i_out_wallclock s1)\<rparr>"
    note ar = send_armed [OF inv1, folded s'_def]
    have "i_out_wallclock s1 < head_due (out_at s1 r)" if "waiting s1 r" for r
      using low [OF that] wc by simp
    moreover have "outputs_Send B s = Some s'" "out_timer s' = Some (i_next_send s1 - i_out_wallclock s1)"
      using eq True by (simp_all add: s'_def)
    moreover have "\<exists>r. waiting s1 r \<and> head_due (out_at s1 r) = i_next_send s1" using att True by simp
    ultimately show ?thesis using low wc sd' ar(1-3) by (intro exI [of _ s']) (simp add: ar(4-6))
  next
    case False
    then show ?thesis using eq inv1 sd' tm nothing_waits [OF inv1 False low]
      by (intro exI [of _ s1]) (simp add: send_inv_def)
  qed
qed

lemma Send_completes_witness:
  "\<exists>s'. outputs_Send ex_ts ex_run = Some s' \<and> (\<forall>r. waiting s' r \<longrightarrow> i_out_wallclock s' < head_due (out_at s' r))"
proof -
  have wf: "outs_wf ex_ts ex_run"
  proof -
    have "out_wf ex_ts (out_at ex_run r) \<and> (\<forall>pk \<in> set (o_packets (out_at ex_run r)). packet_due (out_at ex_run r) pk < INT64_MAX)"
      if "oref_ok ex_run r" "out_valid (out_at ex_run r)" for r
    proof (cases r)
      case Dup
      with that show ?thesis by (simp add: ex_run_def ex_defs)
    next
      case (Nth i)
      with that(1) have "out_at ex_run r = ex_output ex_packets" by simp
      moreover have "i_output_latency (config (ex_output ex_packets)) = 10" by (simp add: ex_defs)
      ultimately show ?thesis
        using ex_out_wf by (simp add: packet_due_def ex_packets_def INT64_MAX_def)
    qed
    then show ?thesis by (simp add: outs_wf_def)
  qed
  have "clock_ok ex_run" by (simp add: clock_ok_def INT64_MAX_def)
  from Send_completes [OF ex_run_heap_ok wf this] show ?thesis by blast
qed

text \<open>C7 Closing an output gives back exactly the references its queue held: nothing is freed that
  another output still needs, the EIT block is freed, and the slot is free for reuse.\<close>

theorem Close_releases:
  assumes "heap_ok ext s" and "oref_ok s r"
    and "i_packet_count (out_at s r) = length (o_packet_lifo (out_at s r))"
    and "\<forall>b. p_eit_ts_buffer (out_at s r) = Some b \<longrightarrow> refs s b + ext b = 1"
  shows "\<exists>s'. output_Close r s = Some s' \<and> heap_ok ext s' \<and> \<not> out_valid (out_at s' r)
     \<and> (\<forall>b. out_refs (out_at s' r) b = 0)
     \<and> (\<forall>b. live s' b \<longleftrightarrow> out_refs (out_at s r) b < refs s b + ext b)
     \<and> (\<forall>q. q \<noteq> r \<longrightarrow> out_at s' q = out_at s q)"
proof -
  from output_Close_spec [OF assms] obtain s' where s': "output_Close r s = Some s'" "heap_ok ext s'"
    "\<not> out_valid (out_at s' r)" "o_packets (out_at s' r) = []" "p_eit_ts_buffer (out_at s' r) = None"
    and rf: "\<forall>b. refs s' b + out_refs (out_at s r) b = refs s b"
    and oth: "\<forall>q. q \<noteq> r \<longrightarrow> out_at s' q = out_at s q" by (elim exE conjE) (rule that; assumption)
  have "live s' b \<longleftrightarrow> out_refs (out_at s r) b < refs s b + ext b" for b
    using heap_ok_live [OF s'(2), of b] rf [rule_format, of b] by (simp flip: rf)
  moreover have "out_refs (out_at s' r) b = 0" for b using s'(4,5) by (simp add: out_refs_def queued_def)
  ultimately show ?thesis using s' oth by blast
qed

lemma Close_releases_witness:
  "\<exists>s'. output_Close (Nth 0) ex_run = Some s' \<and> live s' 0 \<and> \<not> live s' 1"
proof -
  have st: "i_packet_count (out_at ex_run (Nth 0)) = length (o_packet_lifo (out_at ex_run (Nth 0)))"
    "p_eit_ts_buffer (out_at ex_run (Nth 0)) = None" by (simp_all add: ex_defs)
  have rf: "out_refs (out_at ex_run (Nth 0)) 0 = 1" "out_refs (out_at ex_run (Nth 0)) 1 = 1"
    "refs ex_run 0 = 1" "refs ex_run 1 = 1"
    by (simp_all add: refs_def out_refs_def queued_def ex_run_def ex_packets_def ex_defs)
  from Close_releases [OF ex_run_heap_ok ex_run_out_at(2) st(1)] st(2) obtain s' where
    "output_Close (Nth 0) ex_run = Some s'"
    and lv: "\<forall>b. live s' b \<longleftrightarrow> out_refs (out_at ex_run (Nth 0)) b < refs ex_run b + (if b = 0 then 1 else 0)"
    by fastforce
  moreover have "live s' 0" "\<not> live s' 1" using lv rf by simp_all
  ultimately show ?thesis by blast
qed

text \<open>Creating an output (\<open>output_Create\<close>) never touches one that is in use: it fills the first
  unused slot or appends one, whatever the system calls return; the result names a valid, empty
  output with the requested addresses, and a failure leaves the slot unused.\<close>

theorem Create_uses_free_slot:
  assumes "has_flag (i_config c) OUTPUT_RAW \<Longrightarrow> psz_srcaddr c \<noteq> None" and "\<And>n. 0 < sys_err s n"
  shows "\<exists>res s'. output_Create B c s = Some (res, s')
     \<and> (\<forall>i < length (pp_outputs s). out_valid (pp_outputs s ! i) \<longrightarrow> pp_outputs s' ! i = pp_outputs s ! i)
     \<and> output_dup s' = output_dup s
     \<and> (case res of
           None \<Rightarrow> filter out_valid (pp_outputs s') = filter out_valid (pp_outputs s)
         | Some i \<Rightarrow> i < length (pp_outputs s') \<and> out_valid (pp_outputs s' ! i) \<and> adopted c (pp_outputs s' ! i)
             \<and> (i < length (pp_outputs s) \<longrightarrow> \<not> out_valid (pp_outputs s ! i)))"
proof -
  define i where "i = index_of (\<lambda>p. \<not> out_valid p) (pp_outputs s)"
  define t where "t = (if i = length (pp_outputs s)
              then s\<lparr>pp_outputs := pp_outputs s @ [zero_output (config_Init s)]\<rparr> else s)"
  have il: "i \<le> length (pp_outputs s)" unfolding i_def by (rule index_of_le)
  have free: "\<not> out_valid (pp_outputs s ! i)" if "i < length (pp_outputs s)"
    using index_of_hit [of "\<lambda>p. \<not> out_valid p" "pp_outputs s"] that by (simp add: i_def)
  have ot: "oref_ok t (Nth i)" using il by (simp add: t_def)
  have freet: "\<not> out_valid (pp_outputs t ! i)"
    using free il by (auto simp: t_def nth_append config_Init_def)
  have dupt: "output_dup t = output_dup s" by (simp add: t_def)
  have filt: "filter out_valid (pp_outputs t) = filter out_valid (pp_outputs s)" by (simp add: t_def config_Init_def)
  have et: "\<And>n. 0 < sys_err t n" using assms(2) by (simp add: t_def)
  from output_Init_spec [OF ot assms(1) et] obtain rc p u where
    I: "output_Init B (Nth i) c t = Some (rc, upd_out (Nth i) (\<lambda>_. p) u)" and cu: "calls_only t u"
    and p: "adopted c p" and rc: "rc \<le> 0" and v: "out_valid p \<longleftrightarrow> rc = 0" by blast
  have C: "output_Create B c s = Some (if rc < 0 then None else Some i, upd_out (Nth i) (\<lambda>_. p) u)"
    using I by (simp add: output_Create_def Let_def flip: i_def t_def)
  have il': "i < length (pp_outputs t)" using ot by simp
  have keep: "(pp_outputs t)[i := p] ! j = pp_outputs s ! j" if "j < length (pp_outputs s)" "out_valid (pp_outputs s ! j)" for j
    using that free il by (auto simp: t_def nth_append nth_list_update)
  have filt': "filter out_valid ((pp_outputs t)[i := p]) = filter out_valid (pp_outputs s)" if "\<not> out_valid p"
    using that filt freet il' by (simp add: upd_conv_take_nth_drop) (metis filter.simps(2) filter_append id_take_nth_drop)
  show ?thesis
    unfolding C using rc v p keep il' filt' free calls_only_outputs(4) [OF cu] dupt
    by (intro exI conjI) (rule refl, auto simp: calls_only_outputs(3) [OF cu])
qed

lemma Create_uses_free_slot_witness:
  "\<exists>res s'. output_Create ex_ts ex_config ex_run = Some (res, s') \<and> pp_outputs s' ! 0 = ex_output ex_packets"
proof -
  have "has_flag (i_config ex_config) OUTPUT_RAW \<Longrightarrow> psz_srcaddr ex_config \<noteq> None"
    by (simp add: ex_config_def)
  moreover have "0 < sys_err ex_run n" for n by (simp add: ex_run_def ex_state_def)
  ultimately obtain res s' where C: "output_Create ex_ts ex_config ex_run = Some (res, s')"
    and k: "\<forall>i < length (pp_outputs ex_run). out_valid (pp_outputs ex_run ! i) \<longrightarrow> pp_outputs s' ! i = pp_outputs ex_run ! i"
    using Create_uses_free_slot [of ex_config ex_run ex_ts] by blast
  have "pp_outputs s' ! 0 = ex_output ex_packets" using k [rule_format, of 0] by simp
  with C show ?thesis by blast
qed

text \<open>\<open>output_Find\<close> answers with the first running output that has the configuration's family,
  addresses and raw mode, and only then; an unused slot never matches.\<close>

theorem Find_first_match:
  "case output_Find c s of
     None \<Rightarrow> \<forall>p \<in> set (pp_outputs s). \<not> output_matches c p
   | Some i \<Rightarrow> i < length (pp_outputs s) \<and> output_matches c (pp_outputs s ! i)
       \<and> (\<forall>j < i. \<not> output_matches c (pp_outputs s ! j))"
proof -
  let ?i = "index_of (output_matches c) (pp_outputs s)"
  have le: "?i \<le> length (pp_outputs s)" by (rule index_of_le)
  have before: "\<not> output_matches c (pp_outputs s ! j)" if "j < ?i" for j
    using that unfolding index_of_def
    by (metis (no_types, lifting) nth_mem set_takeWhileD takeWhile_nth)
  show ?thesis
  proof (cases "?i = length (pp_outputs s)")
    case True
    then show ?thesis by (simp add: output_Find_def Let_def index_of_eq_length_iff)
  next
    case False
    with le have "?i < length (pp_outputs s)" by simp
    with False before index_of_hit [OF this] show ?thesis by (simp add: output_Find_def Let_def)
  qed
qed

lemma Find_first_match_witness:
  "output_Find ex_config ex_run = Some 0 \<and> output_matches ex_config (pp_outputs ex_run ! 0)"
proof -
  have "output_Find ex_config ex_run = Some 0"
    by (simp add: output_Find_def output_matches_def ex_run_def ex_state_def Let_def sockaddr_same_def
        has_flag_def) (simp add: ex_defs output_flags has_flag_def)
  with Find_first_match [where c = ex_config and s = ex_run] show ?thesis by simp
qed

text \<open>RTP: a sent packet's header carries the output's sequence number and the wallclock as a
  90 kHz timestamp, and the next packet's number is one more modulo \<open>2 ^ 16\<close>; a plain UDP output
  sends no header and keeps its number.\<close>

theorem Flush_rtp_sequence:
  assumes "heap_ok ext s" and "oref_ok s r" and "out_wf B (out_at s r)" and "o_packets (out_at s r) = pk # pks"
    and "\<not> has_flag (i_config (config (out_at s r))) OUTPUT_RAW"
  defines "p \<equiv> out_at s r"
  shows "\<exists>s' body. output_Flush B r s = Some s'
     \<and> (if has_flag (i_config (config p)) OUTPUT_UDP
        then sys_log s' = sys_log s @ [SysWritev (i_handle p) body] \<and> i_seqnum (out_at s' r) = i_seqnum p
        else sys_log s' = sys_log s @ [SysWritev (i_handle p)
               (IovBytes (rtp_header B (rtp_scratch s) (i_seqnum p) (i_out_wallclock s) (pi_ssrc (config p))) # body)]
             \<and> unat (i_seqnum (out_at s' r)) = (unat (i_seqnum p) + 1) mod 65536)
     \<and> int (length body) = output_BlockCount B p"
proof -
  define s1 where "s1 = flush_prepare B r pk s"
  define body where "body = flush_payload (output_BlockCount B p) pk s1"
  from output_Flush_spec [OF assms(1-4), folded s1_def, folded p_def, folded body_def] obtain s' where
    F: "output_Flush B r s = Some s'"
    and lg: "sys_log s' = sys_log s @ [SysWritev (i_handle p) (flush_iov r (flush_header B p s @ body) s1)]"
    and sq: "i_seqnum (out_at s' r) = i_seqnum (seq_next p)"
    by (elim exE conjE) (rule that; assumption)
  have iov: "flush_iov r (flush_header B p s @ body) s1 = flush_header B p s @ body"
    using assms(5) by (simp add: flush_iov_def s1_def flush_prepare_frame [OF assms(2)])
  have cnt: "1 \<le> output_BlockCount B p" and depth: "int (length (pk_blocks pk)) \<le> output_BlockCount B p"
    using assms(3,4) by (auto simp: out_wf_def p_def)
  have len: "int (length body) = output_BlockCount B p"
    using cnt by (simp add: body_def flush_payload_length [OF depth])
  have inc: "unat (w + 1) = (unat w + 1) mod 65536" for w :: "16 word"
    by (simp add: unat_word_ariths)
  show ?thesis
    using F len lg sq unfolding iov
    by (intro exI [of _ s'] exI [of _ body]) (simp add: flush_header_def seq_next_def inc)
qed

lemma Flush_rtp_sequence_witness:
  "\<exists>s'. output_Flush ex_ts (Nth 0) ex_run = Some s' \<and> unat (i_seqnum (out_at s' (Nth 0))) = 1"
proof -
  have st: "\<not> has_flag (i_config (config (out_at ex_run (Nth 0)))) OUTPUT_RAW"
    "\<not> has_flag (i_config (config (out_at ex_run (Nth 0)))) OUTPUT_UDP" "i_seqnum (out_at ex_run (Nth 0)) = 0"
    by (simp_all add: ex_defs)
  from Flush_rtp_sequence [OF ex_run_heap_ok ex_queue(1-3) st(1)] st(2,3) show ?thesis by auto
qed

text \<open>A live change (\<open>output_Change\<close>) of an output that has nothing queued takes over the latency,
  retention, TTL, TOS, SSRC, MTU and framing of the new configuration, leaves addresses, validity
  and raw mode alone, and the output stays well formed when the new MTU holds a TS packet.\<close>

theorem Change_idle:
  assumes "oref_ok s r" and "\<not> has_flag (i_config c) OUTPUT_RAW"
    and "o_packets (out_at s r) = []" and "out_wf B (out_at s r)"
  shows "\<exists>s'. output_Change B r c s = Some s' \<and> (\<forall>q. q \<noteq> r \<longrightarrow> out_at s' q = out_at s q)
     \<and> (let old = config (out_at s r); new = config (out_at s' r) in
          i_output_latency new = i_output_latency c \<and> i_max_retention new = i_max_retention c
          \<and> i_ttl new = i_ttl c \<and> i_tos new = i_tos c \<and> pi_ssrc new = pi_ssrc c \<and> i_mtu new = i_mtu c
          \<and> has_flag (i_config new) OUTPUT_UDP = has_flag (i_config c) OUTPUT_UDP
          \<and> out_valid (out_at s' r) = out_valid (out_at s r)
          \<and> has_flag (i_config new) OUTPUT_RAW = has_flag (i_config old) OUTPUT_RAW
          \<and> connect_addr new = connect_addr old \<and> bind_addr new = bind_addr old)
     \<and> (1 \<le> output_BlockCount B (out_at s' r) \<longrightarrow> out_wf B (out_at s' r))"
proof -
  from Change_prefix [OF assms(1,2), of B] obtain t h where eq: "output_Change B r c s = output_ChangeMtu B c r t"
    and ok: "\<forall>q. oref_ok t q = oref_ok s q"
    and out: "\<forall>q. out_at t q = (if q = r then (out_at s r)\<lparr>config := change_basic c (config (out_at s r)),
          raw_pkt_header := h\<rparr> else out_at s q)" by blast
  have t: "oref_ok t r" "o_packets (out_at t r) = []" "i_packet_count (out_at t r) = length (o_packet_lifo (out_at t r))"
    using assms ok out by (simp_all add: out_wf_def)
  from ChangeMtu_idle [OF t, of B c] obtain s' li where s': "output_ChangeMtu B c r t = Some s'"
    and out': "\<forall>q. out_at s' q = (if q = r then (out_at t r)\<lparr>config := mtu_config c (config (out_at t r)),
            o_packet_lifo := li, i_packet_count := length li\<rparr> else out_at t q)"
    and li: "li = [] \<or> li = o_packet_lifo (out_at t r) \<and> mtu_config c (config (out_at t r)) = config (out_at t r)"
    by blast
  have wf: "out_wf B (out_at s' r)" if "1 \<le> output_BlockCount B (out_at s' r)"
    using li
  proof
    assume "li = []"
    then show ?thesis using that t(2) by (simp add: out_wf_def out' output_BlockCount_def)
  next
    assume "li = o_packet_lifo (out_at t r) \<and> mtu_config c (config (out_at t r)) = config (out_at t r)"
    then have same: "config (out_at s' r) = change_basic c (config (out_at s r))"
        "o_packet_lifo (out_at s' r) = o_packet_lifo (out_at s r)" "o_packets (out_at s' r) = []"
        "i_packet_count (out_at s' r) = i_packet_count (out_at s r)"
      using assms(3,4) by (simp_all add: out' out out_wf_def)
    then have "output_BlockCount B (out_at s' r) = output_BlockCount B (out_at s r)"
      by (intro BlockCount_cong) simp_all
    then show ?thesis using assms(4) by (simp add: out_wf_def same)
  qed
  show ?thesis
    using s' wf unfolding eq by (intro exI [of _ s']) (simp add: out' out Let_def, simp add: mtu_config_def change_basic_def)
qed

definition ex_idle :: dvboutput where
  "ex_idle = ex_state [ex_output []] 0 1"

lemma ex_idle_out [simp]: "pp_outputs ex_idle = [ex_output []]"
  by (simp add: ex_idle_def ex_state_def)

lemma Change_idle_witness:
  "\<exists>s'. output_Change ex_ts (Nth 0) (ex_config\<lparr>i_mtu := 1328\<rparr>) ex_idle = Some s' \<and> i_mtu (config (out_at s' (Nth 0))) = 1328
     \<and> out_wf ex_ts (out_at s' (Nth 0))"
proof -
  have st: "\<not> has_flag (i_config (ex_config\<lparr>i_mtu := 1328\<rparr>)) OUTPUT_RAW" "o_packets (out_at ex_idle (Nth 0)) = []"
    by (simp_all add: ex_config_def)
  have wf: "out_wf ex_ts (out_at ex_idle (Nth 0))"
    by (simp add: out_wf_def) (simp add: ex_defs)
  have "oref_ok ex_idle (Nth 0)" by simp
  from Change_idle [OF this st wf] obtain s' where
    s': "output_Change ex_ts (Nth 0) (ex_config\<lparr>i_mtu := 1328\<rparr>) ex_idle = Some s'"
    and new: "i_mtu (config (out_at s' (Nth 0))) = i_mtu (ex_config\<lparr>i_mtu := 1328\<rparr>)"
      "has_flag (i_config (config (out_at s' (Nth 0)))) OUTPUT_UDP = has_flag (i_config (ex_config\<lparr>i_mtu := 1328\<rparr>)) OUTPUT_UDP"
    and w: "1 \<le> output_BlockCount ex_ts (out_at s' (Nth 0)) \<longrightarrow> out_wf ex_ts (out_at s' (Nth 0))"
    by (auto simp: Let_def)
  have "\<not> has_flag (i_config ex_config) OUTPUT_UDP" by (simp add: ex_config_def)
  then have "1 \<le> output_BlockCount ex_ts (out_at s' (Nth 0))"
    using new by (simp add: output_BlockCount_def Let_def TS_SIZE_def)
  with s' new w show ?thesis by auto
qed

text \<open>C8 A live change that raises the MTU while a packet is queued breaks the queue: the last
  packet is reallocated two slots short of the new block count (\<open>sizeof(packet_t *)\<close> for
  \<open>sizeof(packet_t)\<close>), so the block that should fill slot \<open>count - 2\<close> is written past the end of
  the allocation (\<open>output_Put\<close> is undefined).\<close>

theorem Change_grow_overflows:
  assumes "oref_ok s r" and "\<not> has_flag (i_config c) OUTPUT_RAW" and "out_wf B (out_at s r)"
    and "o_packets (out_at s r) = pks @ [pk]" and "i_mtu (config (out_at s r)) \<noteq> i_mtu c"
    and "int (length (pk_blocks pk)) + 2 = output_BlockCount B ((out_at s r)\<lparr>config := mtu_config c (config (out_at s r))\<rparr>)"
    and "\<forall>n. sys_ret s n = 0"
    and "bk_dts (mem s b) < pk_dts pk + i_max_retention c" and "allocd s b"
  shows "\<exists>s'. output_Change B r c s = Some s' \<and> output_Put B r b s' = None"
proof -
  from Change_prefix [OF assms(1,2), of B] obtain t h where eq: "output_Change B r c s = output_ChangeMtu B c r t"
    and ok: "\<forall>q. oref_ok t q = oref_ok s q" and mt: "mem t = mem s" "allocd t = allocd s" "sys_ret t = sys_ret s"
    and out: "\<forall>q. out_at t q = (if q = r then (out_at s r)\<lparr>config := change_basic c (config (out_at s r)),
          raw_pkt_header := h\<rparr> else out_at s q)" by blast
  have cfg: "i_config (mtu_config c (change_basic c q)) = i_config (mtu_config c q)"
    "i_max_retention (mtu_config c (change_basic c q)) = i_max_retention c" for q
    by (simp_all add: mtu_config_def)
  have bc: "output_BlockCount B ((out_at t r)\<lparr>config := mtu_config c (config (out_at t r))\<rparr>)
      = int (length (pk_blocks pk)) + 2"
    unfolding assms(6) by (rule BlockCount_cong) (simp_all add: out cfg)
  have t: "oref_ok t r" "o_packets (out_at t r) = pks @ [pk]" "i_packet_count (out_at t r) = length (o_packet_lifo (out_at t r))"
      "i_mtu (config (out_at t r)) \<noteq> i_mtu c"
      "int (length (pk_blocks pk)) < output_BlockCount B ((out_at t r)\<lparr>config := mtu_config c (config (out_at t r))\<rparr>)"
      "sys_ret t (length (sys_log t)) = 0"
    using assms ok out mt bc by (simp_all add: out_wf_def)
  from ChangeMtu_grow [OF t] obtain s' where s': "output_ChangeMtu B c r t = Some s'"
    and c': "config (out_at s' r) = mtu_config c (config (out_at t r))"
    and p': "o_packets (out_at s' r) = pks @ [pk\<lparr>pk_cap := nat (output_BlockCount B (out_at s' r) - 2)\<rparr>]"
    and ok': "oref_ok s' r" and mem': "mem s' = mem t" "allocd s' = allocd t" by blast
  have bc': "output_BlockCount B (out_at s' r) = int (length (pk_blocks pk)) + 2"
    unfolding bc [symmetric] by (rule BlockCount_cong) (simp_all add: c')
  have dts: "bk_dts (mem (block_Acquire b s') b) = bk_dts (mem s b)"
    by (simp add: block_Acquire_def upd_block_def mem' mt)
  have ret: "i_max_retention (config (out_at s' r)) = i_max_retention c" by (simp add: c' out cfg)
  have "output_Enqueue B ts (bk_dts (mem s b)) b (out_at s' r) = None" for ts
    using assms(8) by (simp add: output_Enqueue_def p' bc' ret packet_append_def Let_def)
  moreover have "out_at (block_Acquire b s') r = out_at s' r" by (rule heap_only_outputs) simp
  ultimately have "output_Put B r b s' = None"
    using ok' assms(9) mem' mt by (simp add: output_Put_def Let_def dts)
  with s' eq show ?thesis by auto
qed

definition ex_full :: dvboutput where
  "ex_full = ex_state [ex_output [\<lparr>pk_dts = 50, pk_blocks = [0, 1], pk_cap = 2\<rparr>]] 2 1"

lemma Change_grow_overflows_witness:
  "\<exists>s'. output_Change ex_ts (Nth 0) (ex_config\<lparr>i_mtu := 764\<rparr>) ex_full = Some s' \<and> output_Put ex_ts (Nth 0) 0 s' = None"
proof -
  let ?pk = "\<lparr>pk_dts = 50, pk_blocks = [0, 1], pk_cap = 2\<rparr>"
  have pp: "pp_outputs ex_full = [ex_output [?pk]]" by (simp add: ex_full_def ex_state_def)
  show ?thesis
  proof (rule Change_grow_overflows [where pks = "[]" and pk = ?pk])
    show "out_wf ex_ts (out_at ex_full (Nth 0))"
      by (simp add: pp out_wf_def) (simp add: ex_defs)
    show "int (length (pk_blocks ?pk)) + 2 = output_BlockCount ex_ts ((out_at ex_full (Nth 0))
        \<lparr>config := mtu_config (ex_config\<lparr>i_mtu := 764\<rparr>) (config (out_at ex_full (Nth 0)))\<rparr>)"
      by (simp add: pp output_BlockCount_def TS_SIZE_def)
  qed (simp_all add: pp ex_full_def ex_defs)
qed

end
