(* ===== verification/Dvb_Psi.thy ===== *)
theory Dvb_Psi
  imports Dvb_Bitstream
begin

text \<open>
  The PSI/SI part of the biTStream library, as one more extension of the library parameter.
  A section is the byte list of its buffer. A getter that returns a pointer into a buffer gives
  the offset from its argument (\<open>None\<close> is NULL), a getter of a field reads the bytes that start
  at the pointer, and a setter maps them to the bytes with the field written. A table is an
  array of section pointers.
\<close>

type_synonym psi_table = "nat \<Rightarrow> bytes option"

record psi_lib = ts_lib +
  psi_get_length :: "bytes \<Rightarrow> nat"
  psi_get_tableid :: "bytes \<Rightarrow> nat"
  psi_get_version :: "bytes \<Rightarrow> byte"
  psi_get_section :: "bytes \<Rightarrow> nat"
  psi_get_current :: "bytes \<Rightarrow> bool"
  psi_validate :: "bytes \<Rightarrow> bool"
  psi_compare :: "bytes \<Rightarrow> bytes \<Rightarrow> bool"
  psi_allocate :: bytes
  psi_set_length :: "nat \<Rightarrow> bytes \<Rightarrow> bytes"
  psi_set_version :: "byte \<Rightarrow> bytes \<Rightarrow> bytes"
  psi_set_current :: "bytes \<Rightarrow> bytes"
  psi_set_section :: "nat \<Rightarrow> bytes \<Rightarrow> bytes"
  psi_set_lastsection :: "nat \<Rightarrow> bytes \<Rightarrow> bytes"
  psi_set_crc :: "bytes \<Rightarrow> bytes"
  PSI_HEADER_SIZE :: nat
  PSI_MAX_SIZE :: nat
  PSI_HEADER_SIZE_SYNTAX1 :: nat
  PSI_TABLE_MAX_SECTIONS :: nat
  \<comment> \<open>tables\<close>
  psi_table_init :: psi_table
  psi_table_validate :: "psi_table \<Rightarrow> bool"
  psi_table_compare :: "psi_table \<Rightarrow> psi_table \<Rightarrow> bool"
  psi_table_get_lastsection :: "psi_table \<Rightarrow> nat"
  psi_table_get_tableidext :: "psi_table \<Rightarrow> 16 word"
  psi_table_get_section :: "psi_table \<Rightarrow> nat \<Rightarrow> bytes option"
  psi_table_section :: "psi_table \<Rightarrow> bytes \<Rightarrow> bool \<times> psi_table"
  \<comment> \<open>descriptors\<close>
  descs_get_desc :: "bytes \<Rightarrow> nat \<Rightarrow> nat option"
  descs_set_length :: "nat \<Rightarrow> bytes \<Rightarrow> bytes"
  descl_get_desc :: "bytes \<Rightarrow> nat \<Rightarrow> nat \<Rightarrow> nat option"
  desc_get_tag :: "bytes \<Rightarrow> nat"
  desc_get_length :: "bytes \<Rightarrow> nat"
  desc_set_length :: "nat \<Rightarrow> bytes \<Rightarrow> bytes"
  DESC_HEADER_SIZE :: nat
  DESCS_HEADER_SIZE :: nat
  DESCS_MAX_SIZE :: nat
  desc09_validate :: "bytes \<Rightarrow> bool"
  desc09_get_pid :: "bytes \<Rightarrow> nat"
  desc09_get_sysid :: "bytes \<Rightarrow> 16 word"
  desc40_init :: "bytes \<Rightarrow> bytes"
  desc40_set_networkname :: "bytes \<Rightarrow> bytes \<Rightarrow> bytes"
  desc48_validate :: "bytes \<Rightarrow> bool"
  desc48_init :: "bytes \<Rightarrow> bytes"
  desc48_get_type :: "bytes \<Rightarrow> byte"
  desc48_set_type :: "byte \<Rightarrow> bytes \<Rightarrow> bytes"
  desc48_get_provider :: "bytes \<Rightarrow> bytes"
  desc48_get_service :: "bytes \<Rightarrow> bytes"
  desc48_set_provider :: "bytes \<Rightarrow> bytes \<Rightarrow> bytes"
  desc48_set_service :: "bytes \<Rightarrow> bytes \<Rightarrow> bytes"
  \<comment> \<open>PAT\<close>
  pat_validate :: "bytes \<Rightarrow> bool"
  pat_table_validate :: "psi_table \<Rightarrow> bool"
  pat_init :: "bytes \<Rightarrow> bytes"
  pat_set_length :: "nat \<Rightarrow> bytes \<Rightarrow> bytes"
  pat_set_tsid :: "16 word \<Rightarrow> bytes \<Rightarrow> bytes"
  pat_get_program :: "bytes \<Rightarrow> nat \<Rightarrow> nat option"
  pat_table_find_program :: "psi_table \<Rightarrow> 16 word \<Rightarrow> bytes option"
  patn_init :: "bytes \<Rightarrow> bytes"
  patn_get_program :: "bytes \<Rightarrow> 16 word"
  patn_get_pid :: "bytes \<Rightarrow> nat"
  patn_set_program :: "16 word \<Rightarrow> bytes \<Rightarrow> bytes"
  patn_set_pid :: "nat \<Rightarrow> bytes \<Rightarrow> bytes"
  PAT_HEADER_SIZE :: nat
  \<comment> \<open>CAT\<close>
  cat_validate :: "bytes \<Rightarrow> bool"
  cat_table_validate :: "psi_table \<Rightarrow> bool"
  cat_get_descl :: "bytes \<Rightarrow> nat"
  cat_get_desclength :: "bytes \<Rightarrow> nat"
  \<comment> \<open>PMT\<close>
  pmt_validate :: "bytes \<Rightarrow> bool"
  pmt_init :: "bytes \<Rightarrow> bytes"
  pmt_get_program :: "bytes \<Rightarrow> 16 word"
  pmt_set_program :: "16 word \<Rightarrow> bytes \<Rightarrow> bytes"
  pmt_get_pcrpid :: "bytes \<Rightarrow> nat"
  pmt_set_pcrpid :: "nat \<Rightarrow> bytes \<Rightarrow> bytes"
  pmt_set_length :: "nat \<Rightarrow> bytes \<Rightarrow> bytes"
  pmt_set_desclength :: "nat \<Rightarrow> bytes \<Rightarrow> bytes"
  pmt_get_descs :: "bytes \<Rightarrow> nat"
  pmt_get_es :: "bytes \<Rightarrow> nat \<Rightarrow> nat option"
  pmtn_init :: "bytes \<Rightarrow> bytes"
  pmtn_get_streamtype :: "bytes \<Rightarrow> nat"
  pmtn_set_streamtype :: "nat \<Rightarrow> bytes \<Rightarrow> bytes"
  pmtn_get_pid :: "bytes \<Rightarrow> nat"
  pmtn_set_pid :: "nat \<Rightarrow> bytes \<Rightarrow> bytes"
  pmtn_set_desclength :: "nat \<Rightarrow> bytes \<Rightarrow> bytes"
  pmtn_get_descs :: "bytes \<Rightarrow> nat"
  PMT_HEADER_SIZE :: nat
  \<comment> \<open>NIT\<close>
  nit_validate :: "bytes \<Rightarrow> bool"
  nit_table_validate :: "psi_table \<Rightarrow> bool"
  nit_init :: "bool \<Rightarrow> bytes \<Rightarrow> bytes"
  nit_set_length :: "nat \<Rightarrow> bytes \<Rightarrow> bytes"
  nit_set_nid :: "16 word \<Rightarrow> bytes \<Rightarrow> bytes"
  nit_set_desclength :: "nat \<Rightarrow> bytes \<Rightarrow> bytes"
  nit_get_descs :: "bytes \<Rightarrow> nat"
  nit_get_header2 :: "bytes \<Rightarrow> nat"
  nith_init :: "bytes \<Rightarrow> bytes"
  nith_set_tslength :: "nat \<Rightarrow> bytes \<Rightarrow> bytes"
  nit_get_ts :: "bytes \<Rightarrow> nat \<Rightarrow> nat option"
  nitn_init :: "bytes \<Rightarrow> bytes"
  nitn_set_tsid :: "16 word \<Rightarrow> bytes \<Rightarrow> bytes"
  nitn_set_onid :: "16 word \<Rightarrow> bytes \<Rightarrow> bytes"
  nitn_set_desclength :: "nat \<Rightarrow> bytes \<Rightarrow> bytes"
  NIT_HEADER_SIZE :: nat
  NIT_TS_SIZE :: nat
  \<comment> \<open>SDT\<close>
  sdt_validate :: "bytes \<Rightarrow> bool"
  sdt_table_validate :: "psi_table \<Rightarrow> bool"
  sdt_init :: "bool \<Rightarrow> bytes \<Rightarrow> bytes"
  sdt_set_length :: "nat \<Rightarrow> bytes \<Rightarrow> bytes"
  sdt_set_tsid :: "16 word \<Rightarrow> bytes \<Rightarrow> bytes"
  sdt_get_onid :: "bytes \<Rightarrow> 16 word"
  sdt_set_onid :: "16 word \<Rightarrow> bytes \<Rightarrow> bytes"
  sdt_get_service :: "bytes \<Rightarrow> nat \<Rightarrow> nat option"
  sdt_table_find_service :: "psi_table \<Rightarrow> 16 word \<Rightarrow> bytes option"
  sdtn_init :: "bytes \<Rightarrow> bytes"
  sdtn_get_sid :: "bytes \<Rightarrow> 16 word"
  sdtn_set_sid :: "16 word \<Rightarrow> bytes \<Rightarrow> bytes"
  sdtn_get_eitpresent :: "bytes \<Rightarrow> bool"
  sdtn_set_eitpresent :: "bytes \<Rightarrow> bytes"
  sdtn_get_eitschedule :: "bytes \<Rightarrow> bool"
  sdtn_set_eitschedule :: "bytes \<Rightarrow> bytes"
  sdtn_get_running :: "bytes \<Rightarrow> nat"
  sdtn_set_running :: "nat \<Rightarrow> bytes \<Rightarrow> bytes"
  sdtn_get_desclength :: "bytes \<Rightarrow> nat"
  sdtn_set_desclength :: "nat \<Rightarrow> bytes \<Rightarrow> bytes"
  sdtn_get_descs :: "bytes \<Rightarrow> nat"
  SDT_HEADER_SIZE :: nat
  \<comment> \<open>EIT\<close>
  eit_validate :: "bytes \<Rightarrow> bool"
  eit_get_sid :: "bytes \<Rightarrow> 16 word"
  eit_set_sid :: "16 word \<Rightarrow> bytes \<Rightarrow> bytes"
  eit_get_onid :: "bytes \<Rightarrow> 16 word"
  eit_set_onid :: "16 word \<Rightarrow> bytes \<Rightarrow> bytes"
  eit_set_tsid :: "16 word \<Rightarrow> bytes \<Rightarrow> bytes"
  \<comment> \<open>section gathering and splitting\<close>
  psi_assemble_init :: "bytes option \<times> nat"
  psi_assemble_reset :: "bytes option \<times> nat \<Rightarrow> bytes option \<times> nat"
  psi_assemble_empty :: "bytes option \<times> nat \<Rightarrow> bool"
  psi_assemble_payload :: "bytes option \<times> nat \<Rightarrow> bytes \<Rightarrow> bytes option \<times> (bytes option \<times> nat) \<times> bytes"
  psi_split_section :: "bytes \<Rightarrow> nat \<Rightarrow> bytes \<Rightarrow> nat \<Rightarrow> bytes \<times> nat \<times> nat"
  psi_split_end :: "bytes \<Rightarrow> nat \<Rightarrow> bytes \<times> nat"
  ts_section :: "bytes \<Rightarrow> nat"
  ts_next_section :: "bytes \<Rightarrow> nat"
  \<comment> \<open>CA PMT\<close>
  capmt_allocate :: bytes
  capmt_init :: "bytes \<Rightarrow> bytes"
  capmt_set_listmanagement :: "nat \<Rightarrow> bytes \<Rightarrow> bytes"
  capmt_set_program :: "16 word \<Rightarrow> bytes \<Rightarrow> bytes"
  capmt_set_version :: "byte \<Rightarrow> bytes \<Rightarrow> bytes"
  capmt_get_infos :: "bytes \<Rightarrow> nat"
  capmt_get_es :: "bytes \<Rightarrow> nat \<Rightarrow> nat option"
  capmti_init :: "bytes \<Rightarrow> bytes"
  capmti_set_length :: "nat \<Rightarrow> bytes \<Rightarrow> bytes"
  capmti_set_cmd :: "nat \<Rightarrow> bytes \<Rightarrow> bytes"
  capmti_get_info :: "bytes \<Rightarrow> nat \<Rightarrow> nat option"
  capmtn_init :: "bytes \<Rightarrow> bytes"
  capmtn_set_streamtype :: "nat \<Rightarrow> bytes \<Rightarrow> bytes"
  capmtn_set_pid :: "nat \<Rightarrow> bytes \<Rightarrow> bytes"
  capmtn_get_infos :: "bytes \<Rightarrow> nat"
  dvb_string_get :: "bytes \<Rightarrow> string"
  \<comment> \<open>table and PID numbers of the standards\<close>
  PAT_TABLE_ID :: nat
  CAT_TABLE_ID :: nat
  PMT_TABLE_ID :: nat
  NIT_TABLE_ID_ACTUAL :: nat
  SDT_TABLE_ID_ACTUAL :: nat
  EIT_TABLE_ID_PF_ACTUAL :: nat
  EIT_TABLE_ID_SCHED_ACTUAL_FIRST :: nat
  EIT_TABLE_ID_SCHED_ACTUAL_LAST :: nat
  PAT_PID :: nat
  CAT_PID :: nat
  NIT_PID :: nat
  SDT_PID :: nat
  EIT_PID :: nat
  RST_PID :: nat
  TDT_PID :: nat

subsection \<open>Pointers into a buffer\<close>

text \<open>Writing through a pointer that lies \<open>o\<close> bytes into a buffer.\<close>

definition upd_at :: "nat \<Rightarrow> (bytes \<Rightarrow> bytes) \<Rightarrow> bytes \<Rightarrow> bytes" where
  "upd_at off f buf = take off buf @ f (drop off buf)"

text \<open>\<open>memcpy\<close> to that place; past the end of the buffer it is undefined.\<close>

definition blit :: "nat \<Rightarrow> bytes \<Rightarrow> bytes \<Rightarrow> bytes option" where
  "blit off src buf =
     (if off + length src \<le> length buf
      then Some (take off buf @ src @ drop (off + length src) buf) else None)"

definition peek :: "nat \<Rightarrow> nat \<Rightarrow> bytes \<Rightarrow> bytes option" where
  "peek off n buf = (if off + n \<le> length buf then Some (take n (drop off buf)) else None)"

lemma upd_at_length: "(\<And>b. length (f b) = length b) \<Longrightarrow> length (upd_at off f buf) = length buf"
  by (simp add: upd_at_def)

lemma blit_length: "blit off src buf = Some buf' \<Longrightarrow> length buf' = length buf"
  by (auto simp: blit_def split: if_splits)

lemma blit_peek: "blit off src buf = Some buf' \<Longrightarrow> peek off (length src) buf' = Some src"
  by (auto simp: blit_def peek_def split: if_splits)

subsection \<open>Walking a loop of elements\<close>

text \<open>
  The elements a \<open>while ((p = get(buf, j)) != NULL) j++\<close> loop visits, each as the bytes that
  start there; \<open>m\<close> is the number of values of the index variable.
\<close>

definition elements :: "nat \<Rightarrow> (bytes \<Rightarrow> nat \<Rightarrow> nat option) \<Rightarrow> bytes \<Rightarrow> bytes list option" where
  "elements m get buf = collect m (\<lambda>j. map_option (\<lambda>off. drop off buf) (get buf j))"

definition pmt_descs :: "'b psi_lib_scheme \<Rightarrow> nat \<Rightarrow> bytes \<Rightarrow> bytes list option" where
  "pmt_descs B m pmt = elements m (descs_get_desc B) (drop (pmt_get_descs B pmt) pmt)"

definition es_descs :: "'b psi_lib_scheme \<Rightarrow> nat \<Rightarrow> bytes \<Rightarrow> bytes list option" where
  "es_descs B m es = elements m (descs_get_desc B) (drop (pmtn_get_descs B es) es)"

definition is_ca_desc :: "'b psi_lib_scheme \<Rightarrow> bytes \<Rightarrow> bool" where
  "is_ca_desc B d \<longleftrightarrow> desc_get_tag B d = 0x09 \<and> desc09_validate B d"

text \<open>
  A table getter is finite when some index below \<open>n\<close> gives NULL; the standards bound every
  loop of a section, whose length is at most 4096 bytes.
\<close>

definition ends_below :: "nat \<Rightarrow> (bytes \<Rightarrow> nat \<Rightarrow> nat option) \<Rightarrow> bytes \<Rightarrow> bool" where
  "ends_below n get buf \<longleftrightarrow> (\<exists>j < n. get buf j = None)"

lemma elements_returns:
  assumes "ends_below n get buf" and "n \<le> m"
  shows "\<exists>xs. elements m get buf = Some xs \<and> length xs < n"
proof -
  define k where "k = (LEAST j. get buf j = None)"
  from assms(1) obtain j where j: "j < n" "get buf j = None" by (auto simp: ends_below_def)
  then have k: "get buf k = None" "k \<le> j" unfolding k_def by (auto intro: LeastI Least_le)
  have "get buf i \<noteq> None" if "i < k" for i using that not_less_Least [of i "\<lambda>j. get buf j = None"] by (auto simp: k_def)
  then have "elements m get buf = Some (map (\<lambda>i. the (map_option (\<lambda>off. drop off buf) (get buf i))) [0..<k])"
    unfolding elements_def using k j assms(2) by (intro collect_values) simp_all
  then show ?thesis using k(2) j(1) by simp
qed

lemma elements_diverges:
  assumes "0 < m" and "\<And>j. j < m \<Longrightarrow> get buf j \<noteq> None"
  shows "elements m get buf = None"
  using assms unfolding elements_def by (intro collect_diverges) simp_all

subsection \<open>Searching a loop of elements\<close>

text \<open>The same loop with an early \<open>return\<close> at the first element that passes a test.\<close>

partial_function (option) search_from ::
  "nat \<Rightarrow> (nat \<Rightarrow> 'x option) \<Rightarrow> ('x \<Rightarrow> bool) \<Rightarrow> nat \<Rightarrow> 'x option option" where
  "search_from m get P j =
     (case get (j mod m) of
        None \<Rightarrow> Some None
      | Some x \<Rightarrow> if P x then Some (Some x) else search_from m get P (j mod m + 1))"

definition search_elem ::
  "nat \<Rightarrow> (bytes \<Rightarrow> nat \<Rightarrow> nat option) \<Rightarrow> bytes \<Rightarrow> (bytes \<Rightarrow> bool) \<Rightarrow> bytes option option" where
  "search_elem m get buf P = search_from m (\<lambda>j. map_option (\<lambda>off. drop off buf) (get buf j)) P 0"

definition any_elem ::
  "nat \<Rightarrow> (bytes \<Rightarrow> nat \<Rightarrow> nat option) \<Rightarrow> bytes \<Rightarrow> (bytes \<Rightarrow> bool) \<Rightarrow> bool option" where
  "any_elem m get buf P = map_option (\<lambda>r. r \<noteq> None) (search_elem m get buf P)"

text \<open>On a loop that ends, the search is \<open>find\<close> over the elements.\<close>

lemma search_from_find:
  assumes "get n = None" and "\<And>i. i < n \<Longrightarrow> get i \<noteq> None" and "n < m" and "j \<le> n"
  shows "search_from m get P j = Some (find P (map (\<lambda>i. the (get i)) [j..<n]))"
  using assms(4)
proof (induction "n - j" arbitrary: j)
  case 0
  with assms show ?case by (subst search_from.simps) simp
next
  case (Suc k)
  then have j: "j < n" by simp
  with Suc have "search_from m get P (Suc j) = Some (find P (map (\<lambda>i. the (get i)) [Suc j..<n]))"
    by simp
  moreover obtain x where "get j = Some x" using assms(2) [OF j] by auto
  ultimately show ?case
    using j assms(3) by (subst search_from.simps) (simp add: upt_conv_Cons)
qed

lemma search_elem_find:
  assumes "elements m get buf = Some xs" and "ends_below m get buf"
  shows "search_elem m get buf P = Some (find P xs)"
proof -
  define g where "g = (\<lambda>j. map_option (\<lambda>off. drop off buf) (get buf j))"
  define k where "k = (LEAST j. get buf j = None)"
  from assms(2) obtain j where j: "j < m" "get buf j = None" by (auto simp: ends_below_def)
  then have k: "get buf k = None" "k \<le> j" unfolding k_def by (auto intro: LeastI Least_le)
  have less: "g i \<noteq> None" if "i < k" for i
    using that not_less_Least [of i "\<lambda>j. get buf j = None"] by (auto simp: k_def g_def)
  have km: "k < m" "g k = None" using k j by (simp_all add: g_def)
  have "elements m get buf = Some (map (\<lambda>i. the (g i)) [0..<k])"
    unfolding elements_def g_def [symmetric] using less km by (intro collect_values) simp_all
  moreover have "search_elem m get buf P = Some (find P (map (\<lambda>i. the (g i)) [0..<k]))"
    unfolding search_elem_def g_def [symmetric] using less km by (intro search_from_find) simp_all
  ultimately show ?thesis using assms(1) by simp
qed

lemma any_elem_ex:
  assumes "elements m get buf = Some xs" and "ends_below m get buf"
  shows "any_elem m get buf P = Some (\<exists>x\<in>set xs. P x)"
proof -
  have "(find P xs \<noteq> None) = (\<exists>x\<in>set xs. P x)" unfolding find_None_iff by blast
  then show ?thesis by (simp only: any_elem_def search_elem_find [OF assms] option.map)
qed

end
