(* ===== verification/Dvb_Ci.thy ===== *)
theory Dvb_Ci
  imports Dvb_Prelude
begin

unbundle bit_operations_syntax

text \<open>
  The length field of the EN 50221 layers (\<open>cLdvben50221::GetLength\<close>, \<open>SetLength\<close>) and the
  fixed codes of the protocol. One byte below 128, otherwise a count byte and that many bytes,
  most significant first, gathered in a 32-bit \<open>int\<close>.
\<close>

definition SIZE_INDICATOR :: byte where "SIZE_INDICATOR = 0x80"
definition MAX_TPDU_SIZE :: nat where "MAX_TPDU_SIZE = 4096"
definition MAX_TPDU_DATA :: nat where "MAX_TPDU_DATA = 4089"
definition DATA_INDICATOR :: byte where "DATA_INDICATOR = 0x80"
definition MAX_SESSIONS :: nat where "MAX_SESSIONS = 32"
definition MAX_CI_SLOTS :: nat where "MAX_CI_SLOTS = 16"

subsection \<open>Length fields\<close>

fun len_bytes :: "nat \<Rightarrow> 32 word \<Rightarrow> bytes \<Rightarrow> (32 word \<times> bytes) option" where
  "len_bytes 0 acc p = Some (acc, p)"
| "len_bytes (Suc n) acc [] = None"
| "len_bytes (Suc n) acc (b # p) = len_bytes n (push_bit 8 acc OR ucast b) p"

definition GetLength :: "bytes \<Rightarrow> (int \<times> bytes) option" where
  "GetLength p = (case p of
      [] \<Rightarrow> None
    | b # p \<Rightarrow>
        if b AND SIZE_INDICATOR \<noteq> 0
        then do { (w, p) \<leftarrow> len_bytes (unat (b AND NOT SIZE_INDICATOR)) 0 p; Some (sint w, p) }
        else Some (int (unat b), p))"

definition SetLength :: "int \<Rightarrow> bytes" where
  "SetLength n =
     (let w = word_of_int n :: 32 word; b = \<lambda>k. ucast (drop_bit k w) :: byte in
      if n < 128 then [b 0]
      else if n < 256 then [SIZE_INDICATOR OR 0x1, b 0]
      else if n < 65536 then [SIZE_INDICATOR OR 0x2, b 8, b 0]
      else if n < 16777216 then [SIZE_INDICATOR OR 0x3, b 16, b 8, b 0]
      else [SIZE_INDICATOR OR 0x4, b 24, b 16, b 8, b 0])"

lemma SetLength_length: "1 \<le> length (SetLength n) \<and> length (SetLength n) \<le> 5"
  by (simp add: SetLength_def Let_def)

lemma SetLength_short: "n < 65536 \<Longrightarrow> length (SetLength n) \<le> 3"
  by (simp add: SetLength_def Let_def)

text \<open>Rebuilding a word from its bytes, bit by bit.\<close>

lemma int_bits_below:
  assumes "0 \<le> n" and "n < 2 ^ k" and "bit (n :: int) i"
  shows "i < k"
  using assms take_bit_int_eq_self [of n k] by (metis bit_take_bit_iff)

lemma word_of_byte:
  assumes "0 \<le> n" and "n < 256"
  shows "push_bit 8 0 OR ucast (ucast (drop_bit 0 (word_of_int n :: 32 word)) :: byte) = (word_of_int n :: 32 word)"
  using assms int_bits_below [of n 8] by (intro bit_word_eqI) (auto simp: bit_simps)

lemma word_of_bytes2:
  assumes "0 \<le> n" and "n < 65536"
  defines "w \<equiv> word_of_int n :: 32 word"
  shows "push_bit 8 (push_bit 8 0 OR ucast (ucast (drop_bit 8 w) :: byte)) OR ucast (ucast (drop_bit 0 w) :: byte) = w"
proof (rule bit_word_eqI)
  fix i assume i: "i < LENGTH(32)"
  have hi: "bit w i \<Longrightarrow> i < 16" using assms int_bits_below [of n 16] by (auto simp: bit_simps)
  show "bit (push_bit 8 (push_bit 8 0 OR ucast (ucast (drop_bit 8 w) :: byte))
      OR ucast (ucast (drop_bit 0 w) :: byte) :: 32 word) i = bit w i"
    using i hi by (cases "i < 8") (auto simp: bit_simps)
qed

lemma word_of_bytes3:
  assumes "0 \<le> n" and "n < 16777216"
  defines "w \<equiv> word_of_int n :: 32 word"
  shows "push_bit 8 (push_bit 8 (push_bit 8 0 OR ucast (ucast (drop_bit 16 w) :: byte))
      OR ucast (ucast (drop_bit 8 w) :: byte)) OR ucast (ucast (drop_bit 0 w) :: byte) = w"
proof (rule bit_word_eqI)
  fix i assume i: "i < LENGTH(32)"
  have hi: "bit w i \<Longrightarrow> i < 24" using assms int_bits_below [of n 24] by (auto simp: bit_simps)
  show "bit (push_bit 8 (push_bit 8 (push_bit 8 0 OR ucast (ucast (drop_bit 16 w) :: byte))
      OR ucast (ucast (drop_bit 8 w) :: byte)) OR ucast (ucast (drop_bit 0 w) :: byte) :: 32 word) i = bit w i"
    using i hi by (cases "i < 8"; cases "i < 16") (auto simp: bit_simps)
qed

lemma word_of_bytes4:
  fixes w :: "32 word"
  shows "push_bit 8 (push_bit 8 (push_bit 8 (push_bit 8 0 OR ucast (ucast (drop_bit 24 w) :: byte))
      OR ucast (ucast (drop_bit 16 w) :: byte)) OR ucast (ucast (drop_bit 8 w) :: byte))
      OR ucast (ucast (drop_bit 0 w) :: byte) = w"
proof (rule bit_word_eqI)
  fix i assume i: "i < LENGTH(32)"
  show "bit (push_bit 8 (push_bit 8 (push_bit 8 (push_bit 8 0 OR ucast (ucast (drop_bit 24 w) :: byte))
      OR ucast (ucast (drop_bit 16 w) :: byte)) OR ucast (ucast (drop_bit 8 w) :: byte))
      OR ucast (ucast (drop_bit 0 w) :: byte) :: 32 word) i = bit w i"
    using i by (cases "i < 8"; cases "i < 16"; cases "i < 24") (auto simp: bit_simps)
qed

lemma indicator_bit: "bit SIZE_INDICATOR i \<longleftrightarrow> i = 7"
proof -
  have eq: "SIZE_INDICATOR = push_bit 7 (1 :: byte)" by (simp add: SIZE_INDICATOR_def)
  show ?thesis unfolding eq by (auto simp only: bit_push_bit_iff bit_1_iff possible_bit_word) simp
qed

lemma low_byte_plain:
  assumes "0 \<le> n" and "n < 128"
  shows "(ucast (drop_bit 0 (word_of_int n :: 32 word)) :: byte) AND SIZE_INDICATOR = 0"
    and "int (unat (ucast (drop_bit 0 (word_of_int n :: 32 word)) :: byte)) = n"
proof -
  show "(ucast (drop_bit 0 (word_of_int n :: 32 word)) :: byte) AND SIZE_INDICATOR = 0"
    using assms int_bits_below [of n 7] by (intro bit_word_eqI) (auto simp: bit_simps indicator_bit)
  have "take_bit 8 (take_bit 32 n) = n" using assms by (simp add: take_bit_int_eq_self)
  moreover have "int (unat b) = uint b" for b :: byte by simp
  ultimately show "int (unat (ucast (drop_bit 0 (word_of_int n :: 32 word)) :: byte)) = n"
    using assms by (simp only: unsigned_ucast_eq drop_bit_0 id_apply) (simp add: unsigned_of_int take_bit_int_eq_self take_bit_nat_eq_self)
qed

lemma marked:
  "SIZE_INDICATOR \<noteq> 0"
  "(SIZE_INDICATOR OR 0x1) AND SIZE_INDICATOR \<noteq> 0" "unat ((SIZE_INDICATOR OR 0x1) AND NOT SIZE_INDICATOR) = 1"
  "(SIZE_INDICATOR OR 0x2) AND SIZE_INDICATOR \<noteq> 0" "unat ((SIZE_INDICATOR OR 0x2) AND NOT SIZE_INDICATOR) = 2"
  "(SIZE_INDICATOR OR 0x3) AND SIZE_INDICATOR \<noteq> 0" "unat ((SIZE_INDICATOR OR 0x3) AND NOT SIZE_INDICATOR) = 3"
  "(SIZE_INDICATOR OR 0x4) AND SIZE_INDICATOR \<noteq> 0" "unat ((SIZE_INDICATOR OR 0x4) AND NOT SIZE_INDICATOR) = 4"
  by (simp_all add: SIZE_INDICATOR_def)

lemma sint_word_of_int32: "0 \<le> n \<Longrightarrow> n < 2147483648 \<Longrightarrow> sint (word_of_int n :: 32 word) = n"
  by (simp add: sint_sbintrunc' signed_take_bit_int_eq_self)

theorem GetLength_SetLength:
  assumes "0 \<le> n" and "n < 2147483648"
  shows "GetLength (SetLength n @ rest) = Some (n, rest)"
proof -
  note w = sint_word_of_int32 [OF assms]
  consider "n < 128" | "128 \<le> n" "n < 256" | "256 \<le> n" "n < 65536"
    | "65536 \<le> n" "n < 16777216" | "16777216 \<le> n" by linarith
  then show ?thesis
  proof cases
    case 1
    then show ?thesis using assms low_byte_plain [of n] by (simp add: SetLength_def GetLength_def Let_def)
  next
    case 2
    then show ?thesis
      using word_of_byte [of n] w by (simp add: SetLength_def GetLength_def Let_def marked eval_nat_numeral)
  next
    case 3
    then show ?thesis
      using word_of_bytes2 [of n] w by (simp add: SetLength_def GetLength_def Let_def marked eval_nat_numeral)
  next
    case 4
    then show ?thesis
      using word_of_bytes3 [of n] w by (simp add: SetLength_def GetLength_def Let_def marked eval_nat_numeral)
  next
    case 5
    then show ?thesis
      using word_of_bytes4 [of "word_of_int n"] w
      by (simp add: SetLength_def GetLength_def Let_def marked eval_nat_numeral)
  qed
qed

end
