(* ===== verification/Dvb_En50221.thy ===== *)
theory Dvb_En50221
  imports Dvb_Outputs Dvb_Psi Dvb_Ci
begin

unbundle bit_operations_syntax

text \<open>
  The conditional-access module (\<open>cLdvben50221\<close>): transport (TPDU), session (SPDU) and application
  (APDU) layers, the resource handlers, slot supervision. The slots and sessions are the two
  fixed arrays of the class; a session's \<open>p_sys\<close> is a value that remembers whether it was freed,
  so every use after free is \<open>None\<close>. What \<open>read\<close> and the \<open>ioctl\<close>s deliver comes from streams
  indexed by the number of system calls made so far.
\<close>

subsection \<open>State\<close>

record system_ids =
  i_nb_system_ids :: int
  pi_system_ids :: "16 word list"
  i_selected_programs :: int
  b_high_level :: bool

record date_time =
  dt_session_id :: int
  dt_interval :: int
  dt_repeat :: int       \<comment> \<open>the timer's repeat value\<close>
  dt_active :: bool      \<comment> \<open>is the timer running?\<close>

text \<open>A \<open>char *\<close>: a string of its own, or memory that was never set or is already freed.\<close>

datatype cstr = CStr string | CJunk

datatype mmi_object =
    MmiNone
  | MmiEnq bool cstr
  | MmiAnsw bool cstr
  | MmiMenu cstr cstr cstr "cstr list"
  | MmiList cstr cstr cstr "cstr list"
  | MmiMenuAnsw int
  | MmiOther int

datatype session_sys = SysNull | SysFreed | SysIds system_ids | SysDate date_time | SysMmi mmi_object

datatype handler = HResourceManager | HApplicationInformation | HConditionalAccess | HDateTime | HMmi

datatype closer = CConditionalAccess | CDateTime | CMmi

record session =
  ss_slot :: int
  ss_resource :: "32 word"
  ss_handle :: "handler option"
  ss_close :: "closer option"
  ss_manage :: "closer option"
  ss_sys :: session_sys

record ci_slot =
  sl_active :: bool
  sl_expect_answer :: bool
  sl_has_data :: bool
  sl_mmi_expected :: bool
  sl_mmi_undisplayed :: bool
  sl_recv :: "bytes option"
  sl_send :: "bytes list"
  sl_send_last :: bool     \<comment> \<open>\<open>pp_send_last\<close> points into the queue\<close>
  sl_init_timer :: bool
  sl_pending :: int

record tm =
  tm_year :: int
  tm_mon :: int
  tm_mday :: int
  tm_hour :: int
  tm_min :: int
  tm_sec :: int
  tm_gmtoff :: int

record dvben = dvboutput +
  i_ca_handle :: int
  i_ca_type :: int
  i_canum :: int
  i_nb_slots :: int
  p_slots :: "ci_slot list"
  p_sessions :: "session list"
  cam_watcher :: bool
  slot_watcher :: bool
  ca_buf :: "nat \<Rightarrow> bytes"          \<comment> \<open>the buffer after call number \<open>n\<close>\<close>
  ca_word :: "nat \<Rightarrow> 32 word"       \<comment> \<open>the flag word call number \<open>n\<close> delivers\<close>
  ca_slot_num :: "nat \<Rightarrow> int"
  ca_time :: "nat \<Rightarrow> tm option"

text \<open>
  The two methods the device class supplies (\<open>dev_PIDIsSelected\<close>, \<open>dev_ResendCAPMTs\<close>) are
  arguments of the functions that call them.
\<close>

type_synonym 'a pid_selected = "'a dvben_scheme \<Rightarrow> nat \<Rightarrow> int"
type_synonym 'a resend_capmts = "'a dvben_scheme \<Rightarrow> 'a dvben_scheme option"

definition EINTR :: int where "EINTR = 4"
definition CA_CI :: int where "CA_CI = 1"
definition CA_CI_LINK :: int where "CA_CI_LINK = 2"
definition CA_CI_MODULE_READY :: "32 word" where "CA_CI_MODULE_READY = 2"

definition T_SB :: byte where "T_SB = 0x80"
definition T_RCV :: byte where "T_RCV = 0x81"
definition T_CREATE_TC :: byte where "T_CREATE_TC = 0x82"
definition T_CTC_REPLY :: byte where "T_CTC_REPLY = 0x83"
definition T_DELETE_TC :: byte where "T_DELETE_TC = 0x84"
definition T_DTC_REPLY :: byte where "T_DTC_REPLY = 0x85"
definition T_REQUEST_TC :: byte where "T_REQUEST_TC = 0x86"
definition T_NEW_TC :: byte where "T_NEW_TC = 0x87"
definition T_TC_ERROR :: byte where "T_TC_ERROR = 0x88"
definition T_DATA_LAST :: byte where "T_DATA_LAST = 0xA0"
definition T_DATA_MORE :: byte where "T_DATA_MORE = 0xA1"

lemmas tpdu_tags = T_SB_def T_RCV_def T_CREATE_TC_def T_CTC_REPLY_def T_DELETE_TC_def T_DTC_REPLY_def
  T_REQUEST_TC_def T_NEW_TC_def T_TC_ERROR_def T_DATA_LAST_def T_DATA_MORE_def

definition RI_RESOURCE_MANAGER :: "32 word" where "RI_RESOURCE_MANAGER = 0x00010041"
definition RI_APPLICATION_INFORMATION :: "32 word" where "RI_APPLICATION_INFORMATION = 0x00020041"
definition RI_CONDITIONAL_ACCESS_SUPPORT :: "32 word" where "RI_CONDITIONAL_ACCESS_SUPPORT = 0x00030041"
definition RI_HOST_CONTROL :: "32 word" where "RI_HOST_CONTROL = 0x00200041"
definition RI_DATE_TIME :: "32 word" where "RI_DATE_TIME = 0x00240041"
definition RI_MMI :: "32 word" where "RI_MMI = 0x00400041"

lemmas resource_ids = RI_RESOURCE_MANAGER_def RI_APPLICATION_INFORMATION_def
  RI_CONDITIONAL_ACCESS_SUPPORT_def RI_HOST_CONTROL_def RI_DATE_TIME_def RI_MMI_def

definition zero_session :: session where
  "zero_session = \<lparr>ss_slot = 0, ss_resource = 0, ss_handle = None, ss_close = None, ss_manage = None, ss_sys = SysNull\<rparr>"

definition zero_slot :: ci_slot where
  "zero_slot = \<lparr>sl_active = False, sl_expect_answer = False, sl_has_data = False, sl_mmi_expected = False,
     sl_mmi_undisplayed = False, sl_recv = None, sl_send = [], sl_send_last = False, sl_init_timer = False, sl_pending = 0\<rparr>"

subsection \<open>Array access\<close>

text \<open>Sessions are numbered from 1; a number outside the array is out of bounds.\<close>

definition sess_ok :: "'a dvben_scheme \<Rightarrow> int \<Rightarrow> bool" where
  "sess_ok s sid \<longleftrightarrow> 1 \<le> sid \<and> sid \<le> int (length (p_sessions s))"

definition sess :: "'a dvben_scheme \<Rightarrow> int \<Rightarrow> session" where
  "sess s sid = p_sessions s ! nat (sid - 1)"

definition get_sess :: "int \<Rightarrow> 'a dvben_scheme \<Rightarrow> session option" where
  "get_sess sid s = (if sess_ok s sid then Some (sess s sid) else None)"

definition upd_sess :: "int \<Rightarrow> (session \<Rightarrow> session) \<Rightarrow> 'a dvben_scheme \<Rightarrow> 'a dvben_scheme" where
  "upd_sess sid f s = s\<lparr>p_sessions := (p_sessions s)[nat (sid - 1) := f (sess s sid)]\<rparr>"

definition get_slot :: "nat \<Rightarrow> 'a dvben_scheme \<Rightarrow> ci_slot option" where
  "get_slot i s = rd (p_slots s) i"

definition upd_slot :: "nat \<Rightarrow> (ci_slot \<Rightarrow> ci_slot) \<Rightarrow> 'a dvben_scheme \<Rightarrow> 'a dvben_scheme" where
  "upd_slot i f s = s\<lparr>p_slots := (p_slots s)[i := f (p_slots s ! i)]\<rparr>"

text \<open>A session's slot is used as a \<open>uint8_t\<close>.\<close>

definition slot8 :: "int \<Rightarrow> nat" where
  "slot8 i = nat (i mod 256)"

subsection \<open>Transport layer\<close>

definition TPDUWrite :: "nat \<Rightarrow> 'a dvben_scheme \<Rightarrow> (int \<times> 'a dvben_scheme) option" where
  "TPDUWrite i s = do {
     sl \<leftarrow> get_slot i s;
     (case sl_send sl of
        [] \<Rightarrow> Some (-1, s)
      | msg # q \<Rightarrow>
          (let s = upd_slot i (\<lambda>sl. sl\<lparr>sl_send := q\<rparr>) s;
               (n, s) = sys_call (SysCaWrite msg) s
           in if n \<noteq> int (length msg) then Some (-1, s)
              else Some (0, upd_slot i (\<lambda>sl. sl\<lparr>sl_expect_answer := True\<rparr>) s))) }"

text \<open>The bytes of a TPDU; the buffer has \<open>MAX_TPDU_SIZE\<close> bytes.\<close>

definition tpdu_bytes :: "nat \<Rightarrow> byte \<Rightarrow> bytes \<Rightarrow> bytes option" where
  "tpdu_bytes i tag content =
     (let tcid = of_nat i + 1 :: byte; head = [of_nat i, tcid, tag] in
      if tag = T_RCV \<or> tag = T_CREATE_TC \<or> tag = T_CTC_REPLY \<or> tag = T_DELETE_TC
         \<or> tag = T_DTC_REPLY \<or> tag = T_REQUEST_TC
      then Some (head @ [1, tcid])
      else if tag = T_NEW_TC \<or> tag = T_TC_ERROR
      then do { b \<leftarrow> rd content 0; Some (head @ [2, tcid, b]) }
      else if tag = T_DATA_LAST \<or> tag = T_DATA_MORE
      then (let p = head @ SetLength (int (length content) + 1) @ [tcid] @ content in
            if length p \<le> MAX_TPDU_SIZE then Some p else None)
      else Some [])"

definition TPDUSend :: "nat \<Rightarrow> byte \<Rightarrow> bytes \<Rightarrow> 'a dvben_scheme \<Rightarrow> (int \<times> 'a dvben_scheme) option" where
  "TPDUSend i tag content s = do {
     sl \<leftarrow> get_slot i s;
     msg \<leftarrow> tpdu_bytes i tag content;
     ensure (sl_send_last sl);
     let s = upd_slot i (\<lambda>sl. sl\<lparr>sl_send := sl_send sl @ [msg]\<rparr>) s;
     if \<not> sl_expect_answer sl then TPDUWrite i s else Some (0, s) }"

subsection \<open>Session layer: sending\<close>

function spdu_send_loop ::
  "nat \<Rightarrow> bytes \<Rightarrow> 'a dvben_scheme \<Rightarrow> (int \<times> 'a dvben_scheme) option" where
  "spdu_send_loop slot p s =
     (if p = [] then Some (0, s)
      else if MAX_TPDU_DATA < length p
      then (case TPDUSend slot T_DATA_MORE (take MAX_TPDU_DATA p) s of
              None \<Rightarrow> None
            | Some (rc, s) \<Rightarrow> if rc \<noteq> 0 then Some (-1, s) else spdu_send_loop slot (drop MAX_TPDU_DATA p) s)
      else (case TPDUSend slot T_DATA_LAST p s of
              None \<Rightarrow> None
            | Some (rc, s) \<Rightarrow> if rc \<noteq> 0 then Some (-1, s) else Some (0, s)))"
  by pat_completeness auto
termination
  by (relation "measure (\<lambda>(_, p, _). length p)") (auto simp: MAX_TPDU_DATA_def)

declare spdu_send_loop.simps [simp del]

definition word16_bytes :: "int \<Rightarrow> bytes" where
  "word16_bytes n = [word_of_int (n div 256), word_of_int n]"

definition ST_SESSION_NUMBER :: byte where "ST_SESSION_NUMBER = 0x90"
definition ST_OPEN_SESSION_REQUEST :: byte where "ST_OPEN_SESSION_REQUEST = 0x91"
definition ST_OPEN_SESSION_RESPONSE :: byte where "ST_OPEN_SESSION_RESPONSE = 0x92"
definition ST_CREATE_SESSION_RESPONSE :: byte where "ST_CREATE_SESSION_RESPONSE = 0x94"
definition ST_CLOSE_SESSION_REQUEST :: byte where "ST_CLOSE_SESSION_REQUEST = 0x95"
definition ST_CLOSE_SESSION_RESPONSE :: byte where "ST_CLOSE_SESSION_RESPONSE = 0x96"
definition SS_OK :: byte where "SS_OK = 0"
definition SS_NOT_ALLOCATED :: byte where "SS_NOT_ALLOCATED = 0xF0"

lemmas spdu_tags = ST_SESSION_NUMBER_def ST_OPEN_SESSION_REQUEST_def ST_OPEN_SESSION_RESPONSE_def
  ST_CREATE_SESSION_RESPONSE_def ST_CLOSE_SESSION_REQUEST_def ST_CLOSE_SESSION_RESPONSE_def
  SS_OK_def SS_NOT_ALLOCATED_def

definition SPDUSend :: "int \<Rightarrow> bytes \<Rightarrow> 'a dvben_scheme \<Rightarrow> (int \<times> 'a dvben_scheme) option" where
  "SPDUSend sid p s = do {
     ss \<leftarrow> get_sess sid s;
     spdu_send_loop (slot8 (ss_slot ss)) ([ST_SESSION_NUMBER, 0x02] @ word16_bytes sid @ p) s }"

subsection \<open>Application layer: sending\<close>

definition AOT_NONE :: int where "AOT_NONE = 0"
definition AOT_PROFILE_ENQ :: int where "AOT_PROFILE_ENQ = 0x9F8010"
definition AOT_PROFILE :: int where "AOT_PROFILE = 0x9F8011"
definition AOT_PROFILE_CHANGE :: int where "AOT_PROFILE_CHANGE = 0x9F8012"
definition AOT_APPLICATION_INFO_ENQ :: int where "AOT_APPLICATION_INFO_ENQ = 0x9F8020"
definition AOT_APPLICATION_INFO :: int where "AOT_APPLICATION_INFO = 0x9F8021"
definition AOT_ENTER_MENU :: int where "AOT_ENTER_MENU = 0x9F8022"
definition AOT_CA_INFO_ENQ :: int where "AOT_CA_INFO_ENQ = 0x9F8030"
definition AOT_CA_INFO :: int where "AOT_CA_INFO = 0x9F8031"
definition AOT_CA_PMT :: int where "AOT_CA_PMT = 0x9F8032"
definition AOT_DATE_TIME_ENQ :: int where "AOT_DATE_TIME_ENQ = 0x9F8440"
definition AOT_DATE_TIME :: int where "AOT_DATE_TIME = 0x9F8441"
definition AOT_CLOSE_MMI :: int where "AOT_CLOSE_MMI = 0x9F8800"
definition AOT_DISPLAY_CONTROL :: int where "AOT_DISPLAY_CONTROL = 0x9F8801"
definition AOT_DISPLAY_REPLY :: int where "AOT_DISPLAY_REPLY = 0x9F8802"
definition AOT_TEXT_LAST :: int where "AOT_TEXT_LAST = 0x9F8803"
definition AOT_ENQ :: int where "AOT_ENQ = 0x9F8807"
definition AOT_ANSW :: int where "AOT_ANSW = 0x9F8808"
definition AOT_MENU_LAST :: int where "AOT_MENU_LAST = 0x9F8809"
definition AOT_MENU_ANSW :: int where "AOT_MENU_ANSW = 0x9F880B"
definition AOT_LIST_LAST :: int where "AOT_LIST_LAST = 0x9F880C"

lemmas apdu_tags = AOT_NONE_def AOT_PROFILE_ENQ_def AOT_PROFILE_def AOT_PROFILE_CHANGE_def
  AOT_APPLICATION_INFO_ENQ_def AOT_APPLICATION_INFO_def AOT_ENTER_MENU_def AOT_CA_INFO_ENQ_def
  AOT_CA_INFO_def AOT_CA_PMT_def AOT_DATE_TIME_ENQ_def AOT_DATE_TIME_def AOT_CLOSE_MMI_def
  AOT_DISPLAY_CONTROL_def AOT_DISPLAY_REPLY_def AOT_TEXT_LAST_def AOT_ENQ_def AOT_ANSW_def
  AOT_MENU_LAST_def AOT_MENU_ANSW_def AOT_LIST_LAST_def

fun APDUGetTag :: "bytes \<Rightarrow> int" where
  "APDUGetTag (a # b # c # _) = (int (unat a) * 256 + int (unat b)) * 256 + int (unat c)"
| "APDUGetTag _ = AOT_NONE"

definition APDUGetLength :: "bytes \<Rightarrow> (int \<times> bytes) option" where
  "APDUGetLength p = (if 3 \<le> length p then GetLength (drop 3 p) else None)"

definition apdu_bytes :: "int \<Rightarrow> bytes \<Rightarrow> bytes" where
  "apdu_bytes tag p =
     [word_of_int (tag div 65536), word_of_int (tag div 256), word_of_int tag] @ SetLength (int (length p)) @ p"

definition APDUSend :: "int \<Rightarrow> int \<Rightarrow> bytes \<Rightarrow> 'a dvben_scheme \<Rightarrow> (int \<times> 'a dvben_scheme) option" where
  "APDUSend sid tag p s =
     (let apdu = apdu_bytes tag p in
      if i_ca_type s = CA_CI_LINK then SPDUSend sid apdu s
      else if 256 < length apdu then Some (-1, s)
      else (let (rc, s) = sys_call (SysCaSendMsg (if p = [] then take 3 apdu else apdu)) s
            in Some (if rc < 0 then -1 else rc, s)))"

end
