(* ===== verification/Dvb_CaPmt.thy ===== *)
theory Dvb_CaPmt
  imports Dvb_En50221
begin

text \<open>
  The CA PMT (\<open>CheckSystemID\<close>, \<open>HasCADescriptors\<close>, \<open>CopyCADescriptors\<close>, \<open>CAPMTBuild\<close> and the four
  messages built on it): which CA descriptors of a PMT a CA application hears of.
\<close>

text \<open>A session's \<open>p_sys\<close> read as \<open>system_ids_t *\<close>; NULL is \<open>None\<close> inside.\<close>

definition sys_as_ids :: "session \<Rightarrow> system_ids option option" where
  "sys_as_ids ss = (case ss_sys ss of SysNull \<Rightarrow> Some None | SysIds i \<Rightarrow> Some (Some i) | _ \<Rightarrow> None)"

definition CheckSystemID :: "system_ids option \<Rightarrow> 16 word \<Rightarrow> bool" where
  "CheckSystemID ids i = (case ids of None \<Rightarrow> False
     | Some p \<Rightarrow> if b_high_level p then True else list_ex (\<lambda>x. x = i) (pi_system_ids p))"

definition ca_desc_matches :: "'b psi_lib_scheme \<Rightarrow> system_ids option \<Rightarrow> bytes \<Rightarrow> bool" where
  "ca_desc_matches B ids d \<longleftrightarrow> is_ca_desc B d \<and> CheckSystemID ids (desc09_get_sysid B d)"

definition HasCADescriptors :: "'b psi_lib_scheme \<Rightarrow> system_ids option \<Rightarrow> bytes \<Rightarrow> bool option" where
  "HasCADescriptors B ids descs = any_elem 65536 (descs_get_desc B) descs (ca_desc_matches B ids)"

definition copy_ca_desc ::
  "'b psi_lib_scheme \<Rightarrow> system_ids option \<Rightarrow> bytes \<Rightarrow> nat \<times> bytes \<Rightarrow> (nat \<times> bytes) option" where
  "copy_ca_desc B ids d = (\<lambda>(k, infos).
     if ca_desc_matches B ids d then do {
       off \<leftarrow> capmti_get_info B infos k;
       src \<leftarrow> peek 0 (DESC_HEADER_SIZE B + desc_get_length B d) d;
       infos \<leftarrow> blit off src infos;
       Some ((k + 1) mod 65536, infos) }
     else Some (k, infos))"

definition CopyCADescriptors ::
  "'b psi_lib_scheme \<Rightarrow> system_ids option \<Rightarrow> nat \<Rightarrow> bytes \<Rightarrow> bytes \<Rightarrow> bytes option" where
  "CopyCADescriptors B ids cmd infos descs = do {
     let infos = capmti_set_cmd B cmd (capmti_set_length B 0xfff (capmti_init B infos));
     ds \<leftarrow> elements 65536 (descs_get_desc B) descs;
     (k, infos) \<leftarrow> ofold (copy_ca_desc B ids) ds (0, infos);
     if k \<noteq> 0 then do {
       off \<leftarrow> capmti_get_info B infos k;
       Some (capmti_set_length B (off - DESCS_HEADER_SIZE B) infos) }
     else Some (capmti_set_length B 0 infos) }"

text \<open>Is any selected stream there, and does any of them (or the program) have a CA descriptor?\<close>

definition capmt_scan_es ::
  "'b psi_lib_scheme \<Rightarrow> 'a pid_selected \<Rightarrow> 'a dvben_scheme \<Rightarrow> system_ids option \<Rightarrow>
   bytes \<Rightarrow> bool \<times> bool \<Rightarrow> (bool \<times> bool) option" where
  "capmt_scan_es B sel s ids es = (\<lambda>(has_ca, has_es).
     if sel s (pmtn_get_pid B es) = 1
     then (if has_ca then Some (True, True)
           else do { ca \<leftarrow> HasCADescriptors B ids (drop (pmtn_get_descs B es) es); Some (ca, True) })
     else Some (has_ca, has_es))"

definition capmt_add_es ::
  "'b psi_lib_scheme \<Rightarrow> 'a pid_selected \<Rightarrow> 'a dvben_scheme \<Rightarrow> system_ids option \<Rightarrow> nat \<Rightarrow>
   bytes \<Rightarrow> nat \<times> bytes \<Rightarrow> (nat \<times> bytes) option" where
  "capmt_add_es B sel s ids cmd es = (\<lambda>(k, capmt).
     if sel s (pmtn_get_pid B es) = 0 then Some (k, capmt)
     else do {
       off \<leftarrow> capmt_get_es B capmt k;
       let n = capmtn_set_pid B (pmtn_get_pid B es)
                 (capmtn_set_streamtype B (pmtn_get_streamtype B es) (capmtn_init B (drop off capmt)));
       let io = capmtn_get_infos B n;
       infos \<leftarrow> CopyCADescriptors B ids cmd (drop io n) (drop (pmtn_get_descs B es) es);
       Some ((k + 1) mod 65536, take off capmt @ take io n @ infos) })"

definition CAPMTBuild ::
  "'b psi_lib_scheme \<Rightarrow> 'a pid_selected \<Rightarrow> int \<Rightarrow> bytes \<Rightarrow> nat \<Rightarrow> nat \<Rightarrow> 'a dvben_scheme \<Rightarrow> bytes option option" where
  "CAPMTBuild B sel sid pmt list_mgt cmd s = do {
     ss \<leftarrow> get_sess sid s;
     ids \<leftarrow> sys_as_ids ss;
     let descs = drop (pmt_get_descs B pmt) pmt;
     ca \<leftarrow> HasCADescriptors B ids descs;
     ess \<leftarrow> elements 65536 (pmt_get_es B) pmt;
     (has_ca, has_es) \<leftarrow> ofold (capmt_scan_es B sel s ids) ess (ca, False);
     if \<not> has_es \<or> \<not> has_ca then Some None
     else do {
       let capmt = capmt_set_version B (psi_get_version B pmt)
             (capmt_set_program B (pmt_get_program B pmt)
               (capmt_set_listmanagement B list_mgt (capmt_init B (capmt_allocate B))));
       let io = capmt_get_infos B capmt;
       infos \<leftarrow> CopyCADescriptors B ids cmd (drop io capmt) descs;
       (k, capmt) \<leftarrow> ofold (capmt_add_es B sel s ids cmd) ess (0, take io capmt @ infos);
       size \<leftarrow> capmt_get_es B capmt k;
       msg \<leftarrow> peek 0 size capmt;
       Some (Some msg) } }"

text \<open>An empty message (\<open>i_capmt_size == 0\<close>) is not sent.\<close>

definition CAPMTSend ::
  "'b psi_lib_scheme \<Rightarrow> 'a pid_selected \<Rightarrow> int \<Rightarrow> bytes \<Rightarrow> nat \<Rightarrow> nat \<Rightarrow> 'a dvben_scheme \<Rightarrow> 'a dvben_scheme option" where
  "CAPMTSend B sel sid pmt list_mgt cmd s = do {
     r \<leftarrow> CAPMTBuild B sel sid pmt list_mgt cmd s;
     (case r of
        None \<Rightarrow> Some s
      | Some msg \<Rightarrow> if msg = [] then Some s else map_option snd (APDUSend sid AOT_CA_PMT msg s)) }"

definition CAPMTFirst where "CAPMTFirst B sel sid pmt = CAPMTSend B sel sid pmt 0x3 0x1"
definition CAPMTUpdate where "CAPMTUpdate B sel sid pmt = CAPMTSend B sel sid pmt 0x5 0x1"

definition upd_programs :: "int \<Rightarrow> (int \<Rightarrow> int) \<Rightarrow> 'a dvben_scheme \<Rightarrow> 'a dvben_scheme option" where
  "upd_programs sid f s = do {
     ss \<leftarrow> get_sess sid s;
     ids \<leftarrow> sys_as_ids ss;
     i \<leftarrow> ids;
     Some (upd_sess sid (\<lambda>ss. ss\<lparr>ss_sys := SysIds (i\<lparr>i_selected_programs := f (i_selected_programs i)\<rparr>)\<rparr>) s) }"

definition selected_programs :: "int \<Rightarrow> 'a dvben_scheme \<Rightarrow> int" where
  "selected_programs sid s = (case ss_sys (sess s sid) of SysIds i \<Rightarrow> i_selected_programs i | _ \<Rightarrow> 0)"

definition CAPMTAdd ::
  "'b psi_lib_scheme \<Rightarrow> 'a pid_selected \<Rightarrow> int \<Rightarrow> bytes \<Rightarrow> 'a dvben_scheme \<Rightarrow> 'a dvben_scheme option" where
  "CAPMTAdd B sel sid pmt s = do {
     s \<leftarrow> upd_programs sid (\<lambda>n. n + 1) s;
     if selected_programs sid s = 1 then CAPMTFirst B sel sid pmt s
     else CAPMTSend B sel sid pmt 0x4 0x1 s }"

definition CAPMTDelete ::
  "'b psi_lib_scheme \<Rightarrow> 'a pid_selected \<Rightarrow> int \<Rightarrow> bytes \<Rightarrow> 'a dvben_scheme \<Rightarrow> 'a dvben_scheme option" where
  "CAPMTDelete B sel sid pmt s = do {
     s \<leftarrow> upd_programs sid (\<lambda>n. n - 1) s;
     CAPMTSend B sel sid pmt 0x5 0x4 s }"

text \<open>The entry points: every session that runs conditional access gets the message.\<close>

definition for_ca_sessions ::
  "(int \<Rightarrow> 'a dvben_scheme \<Rightarrow> 'a dvben_scheme option) \<Rightarrow> 'a dvben_scheme \<Rightarrow> 'a dvben_scheme option" where
  "for_ca_sessions f s =
     ofold (\<lambda>i s. if ss_resource (sess s (int i)) = RI_CONDITIONAL_ACCESS_SUPPORT then f (int i) s else Some s)
       [1..<MAX_SESSIONS + 1] s"

definition en50221_AddPMT ::
  "'b psi_lib_scheme \<Rightarrow> 'a pid_selected \<Rightarrow> bytes \<Rightarrow> 'a dvben_scheme \<Rightarrow> 'a dvben_scheme option" where
  "en50221_AddPMT B sel pmt = for_ca_sessions (\<lambda>sid. CAPMTAdd B sel sid pmt)"

definition en50221_UpdatePMT ::
  "'b psi_lib_scheme \<Rightarrow> 'a pid_selected \<Rightarrow> bytes \<Rightarrow> 'a dvben_scheme \<Rightarrow> 'a dvben_scheme option" where
  "en50221_UpdatePMT B sel pmt = for_ca_sessions (\<lambda>sid. CAPMTUpdate B sel sid pmt)"

definition en50221_DeletePMT ::
  "'b psi_lib_scheme \<Rightarrow> 'a pid_selected \<Rightarrow> bytes \<Rightarrow> 'a dvben_scheme \<Rightarrow> 'a dvben_scheme option" where
  "en50221_DeletePMT B sel pmt = for_ca_sessions (\<lambda>sid. CAPMTDelete B sel sid pmt)"

end
