(* ===== verification/Dvb_CiResources.thy ===== *)
theory Dvb_CiResources
  imports Dvb_CaPmt
begin

unbundle bit_operations_syntax

text \<open>
  The resources the host offers to a CAM: resource manager, application information, conditional
  access, date-time and MMI. Each has a handler for the APDUs of its sessions, an open and,
  where it keeps data in \<open>p_sys\<close>, a close. The APDU is the exact content of the received
  buffer, so reading past it is undefined (\<open>None\<close>).
\<close>

definition set_sys :: "int \<Rightarrow> session_sys \<Rightarrow> 'a dvben_scheme \<Rightarrow> 'a dvben_scheme" where
  "set_sys sid v = upd_sess sid (\<lambda>ss. ss\<lparr>ss_sys := v\<rparr>)"

definition open_session :: "int \<Rightarrow> handler \<Rightarrow> 'a dvben_scheme \<Rightarrow> 'a dvben_scheme option" where
  "open_session sid h s =
     (if sess_ok s sid then Some (upd_sess sid (\<lambda>ss. ss\<lparr>ss_handle := Some h\<rparr>) s) else None)"

text \<open>\<open>free\<close> of \<open>p_sys\<close>: NULL is allowed, memory that is already freed is not.\<close>

definition free_sys :: "int \<Rightarrow> 'a dvben_scheme \<Rightarrow> 'a dvben_scheme option" where
  "free_sys sid s = do {
     ss \<leftarrow> get_sess sid s;
     (case ss_sys ss of SysFreed \<Rightarrow> None | SysNull \<Rightarrow> Some s | _ \<Rightarrow> Some (set_sys sid SysFreed s)) }"

definition apdu_send :: "int \<Rightarrow> int \<Rightarrow> bytes \<Rightarrow> 'a dvben_scheme \<Rightarrow> 'a dvben_scheme option" where
  "apdu_send sid tag p s = map_option snd (APDUSend sid tag p s)"

subsection \<open>Resource manager\<close>

definition rid_bytes :: "32 word \<Rightarrow> bytes" where
  "rid_bytes w = [ucast (drop_bit 24 w), ucast (drop_bit 16 w), ucast (drop_bit 8 w), ucast w]"

definition host_resources :: bytes where
  "host_resources = concat (map rid_bytes [RI_RESOURCE_MANAGER, RI_APPLICATION_INFORMATION,
     RI_CONDITIONAL_ACCESS_SUPPORT, RI_DATE_TIME, RI_MMI])"

definition ResourceManagerHandle :: "int \<Rightarrow> bytes \<Rightarrow> 'a dvben_scheme \<Rightarrow> 'a dvben_scheme option" where
  "ResourceManagerHandle sid apdu s =
     (let tag = APDUGetTag apdu in
      if tag = AOT_PROFILE_ENQ then apdu_send sid AOT_PROFILE host_resources s
      else if tag = AOT_PROFILE then apdu_send sid AOT_PROFILE_CHANGE [] s
      else Some s)"

definition ResourceManagerOpen :: "int \<Rightarrow> 'a dvben_scheme \<Rightarrow> 'a dvben_scheme option" where
  "ResourceManagerOpen sid s = do {
     s \<leftarrow> open_session sid HResourceManager s;
     apdu_send sid AOT_PROFILE_ENQ [] s }"

subsection \<open>Application information\<close>

definition ApplicationInformationEnterMenu :: "int \<Rightarrow> 'a dvben_scheme \<Rightarrow> 'a dvben_scheme option" where
  "ApplicationInformationEnterMenu sid s = do {
     ss \<leftarrow> get_sess sid s;
     s \<leftarrow> apdu_send sid AOT_ENTER_MENU [] s;
     let i = nat (ss_slot ss);
     ensure (0 \<le> ss_slot ss \<and> i < length (p_slots s));
     Some (upd_slot i (\<lambda>sl. sl\<lparr>sl_mmi_expected := True\<rparr>) s) }"

text \<open>
  Application info: the body holds type, manufacturer, code and a menu string with its own length
  field, read without checking it against the APDU. Nothing is kept.
\<close>

definition ApplicationInformationHandle :: "int \<Rightarrow> bytes \<Rightarrow> 'a dvben_scheme \<Rightarrow> 'a dvben_scheme option" where
  "ApplicationInformationHandle sid apdu s =
     (if APDUGetTag apdu = AOT_APPLICATION_INFO
      then do {
        (l, d) \<leftarrow> APDUGetLength apdu;
        if l < 4 then Some s
        else do {
          ensure (5 \<le> length d);
          (n, name) \<leftarrow> GetLength (drop 5 d);
          ensure (0 \<le> n \<and> nat n \<le> length name);
          Some s } }
      else Some s)"

definition ApplicationInformationOpen :: "int \<Rightarrow> 'a dvben_scheme \<Rightarrow> 'a dvben_scheme option" where
  "ApplicationInformationOpen sid s = do {
     s \<leftarrow> open_session sid HApplicationInformation s;
     apdu_send sid AOT_APPLICATION_INFO_ENQ [] s }"

subsection \<open>Conditional access\<close>

fun ca_ids :: "nat \<Rightarrow> bytes \<Rightarrow> 16 word list option" where
  "ca_ids 0 d = Some []"
| "ca_ids (Suc n) (a # b # d) =
     map_option (\<lambda>ids. (push_bit 8 (ucast a) OR ucast b) # ids) (ca_ids n d)"
| "ca_ids (Suc n) _ = None"

definition zero_ids :: system_ids where
  "zero_ids = \<lparr>i_nb_system_ids = 0, pi_system_ids = [], i_selected_programs = 0, b_high_level = False\<rparr>"

definition ConditionalAccessHandle ::
  "'a resend_capmts \<Rightarrow> int \<Rightarrow> bytes \<Rightarrow> 'a dvben_scheme \<Rightarrow> 'a dvben_scheme option" where
  "ConditionalAccessHandle R sid apdu s =
     (if APDUGetTag apdu = AOT_CA_INFO
      then do {
        (l, d) \<leftarrow> APDUGetLength apdu;
        ss \<leftarrow> get_sess sid s;
        ids \<leftarrow> sys_as_ids ss;
        p \<leftarrow> ids;
        xs \<leftarrow> ca_ids (nat (l sdiv 2)) d;
        R
          (set_sys sid (SysIds (p\<lparr>i_nb_system_ids := l sdiv 2, pi_system_ids := xs\<rparr>)) s) }
      else Some s)"

definition ConditionalAccessClose :: "int \<Rightarrow> 'a dvben_scheme \<Rightarrow> 'a dvben_scheme option" where
  "ConditionalAccessClose sid s = free_sys sid s"

definition ConditionalAccessOpen :: "int \<Rightarrow> 'a dvben_scheme \<Rightarrow> 'a dvben_scheme option" where
  "ConditionalAccessOpen sid s = do {
     s \<leftarrow> open_session sid HConditionalAccess s;
     let s = upd_sess sid (\<lambda>ss. ss\<lparr>ss_close := Some CConditionalAccess, ss_sys := SysIds zero_ids\<rparr>) s;
     apdu_send sid AOT_CA_INFO_ENQ [] s }"

subsection \<open>Date and time\<close>

definition DEC2BCD :: "int \<Rightarrow> byte" where
  "DEC2BCD d = word_of_int (d div 10 * 16 + d mod 10)"

text \<open>
  The modified Julian date. The two floating-point products are exact enough that their integer
  parts are those of \<open>x * 1461 / 4\<close> and \<open>x * 306001 / 10000\<close> for the values a calendar has.
\<close>

definition mjd_of :: "tm \<Rightarrow> int" where
  "mjd_of t =
     (let Y = tm_year t; M = tm_mon t + 1; D = tm_mday t; L = (if M = 1 \<or> M = 2 then 1 else 0)
      in 14956 + D + (Y - L) * 1461 sdiv 4 + (M + 1 + L * 12) * 306001 sdiv 10000)"

text \<open>\<open>htons(x) >> 8\<close> and \<open>htons(x) & 0xff\<close>, as the code writes the two bytes of a number.\<close>

definition htons_bytes :: "int \<Rightarrow> bytes" where
  "htons_bytes x = (let w = htons (word_of_int x) in [ucast (drop_bit 8 w), ucast w])"

definition date_time_bytes :: "tm \<Rightarrow> bytes" where
  "date_time_bytes t = htons_bytes (mjd_of t)
     @ [DEC2BCD (tm_hour t), DEC2BCD (tm_min t), DEC2BCD (tm_sec t)] @ htons_bytes (tm_gmtoff t sdiv 60)"

definition sys_as_date :: "session \<Rightarrow> date_time option" where
  "sys_as_date ss = (case ss_sys ss of SysDate d \<Rightarrow> Some d | _ \<Rightarrow> None)"

definition DateTimeSend :: "int \<Rightarrow> 'a dvben_scheme \<Rightarrow> 'a dvben_scheme option" where
  "DateTimeSend sid s =
     (let n = length (sys_log s); s = snd (sys_call SysTime s) in
      case ca_time s n of
        None \<Rightarrow> Some s
      | Some t \<Rightarrow> do {
          s \<leftarrow> apdu_send sid AOT_DATE_TIME (date_time_bytes t) s;
          ss \<leftarrow> get_sess sid s;
          d \<leftarrow> sys_as_date ss;
          Some (set_sys sid (SysDate (d\<lparr>dt_active := (dt_repeat d \<noteq> 0)\<rparr>)) s) })"

definition DateTimeHandle :: "int \<Rightarrow> bytes \<Rightarrow> 'a dvben_scheme \<Rightarrow> 'a dvben_scheme option" where
  "DateTimeHandle sid apdu s =
     (if APDUGetTag apdu = AOT_DATE_TIME_ENQ
      then do {
        ss \<leftarrow> get_sess sid s;
        (l, d) \<leftarrow> APDUGetLength apdu;
        p \<leftarrow> sys_as_date ss;
        i \<leftarrow> (if l > 0 then map_option (\<lambda>b. int (unat b)) (rd d 0) else Some 0);
        DateTimeSend sid (set_sys sid (SysDate (p\<lparr>dt_interval := i, dt_repeat := i, dt_active := False\<rparr>)) s) }
      else Some s)"

definition DateTimeClose :: "int \<Rightarrow> 'a dvben_scheme \<Rightarrow> 'a dvben_scheme option" where
  "DateTimeClose sid s = do {
     ss \<leftarrow> get_sess sid s;
     _ \<leftarrow> sys_as_date ss;
     free_sys sid s }"

definition DateTimeOpen :: "int \<Rightarrow> 'a dvben_scheme \<Rightarrow> 'a dvben_scheme option" where
  "DateTimeOpen sid s = do {
     s \<leftarrow> open_session sid HDateTime s;
     DateTimeSend sid (upd_sess sid (\<lambda>ss. ss\<lparr>ss_manage := None, ss_close := Some CDateTime,
       ss_sys := SysDate \<lparr>dt_session_id = sid, dt_interval = 0, dt_repeat = 0, dt_active = False\<rparr>\<rparr>) s) }"

text \<open>The timer of a session (\<open>_DateTimeSend\<close>): it sends on the session its data names.\<close>

definition DateTimeTimer :: "date_time \<Rightarrow> 'a dvben_scheme \<Rightarrow> 'a dvben_scheme option" where
  "DateTimeTimer d s = DateTimeSend (dt_session_id d) s"

subsection \<open>MMI\<close>

definition free_cstr :: "cstr \<Rightarrow> unit option" where
  "free_cstr c = (case c of CStr _ \<Rightarrow> Some () | CJunk \<Rightarrow> None)"

definition free_cstrs :: "cstr list \<Rightarrow> unit option" where
  "free_cstrs cs = (if list_all (\<lambda>c. free_cstr c \<noteq> None) cs then Some () else None)"

definition en50221_MMIFree :: "mmi_object \<Rightarrow> unit option" where
  "en50221_MMIFree m = (case m of
       MmiEnq _ t \<Rightarrow> free_cstr t
     | MmiAnsw ok t \<Rightarrow> if ok then free_cstr t else Some ()
     | MmiMenu a b c cs \<Rightarrow> free_cstrs ([a, b, c] @ cs)
     | MmiList a b c cs \<Rightarrow> free_cstrs ([a, b, c] @ cs)
     | _ \<Rightarrow> Some ())"

definition str_bytes :: "string \<Rightarrow> bytes" where
  "str_bytes z = map (\<lambda>c. of_nat (of_char c)) z"

definition mmi_payload :: "mmi_object \<Rightarrow> (int \<times> bytes) option option" where
  "mmi_payload m = (case m of
       MmiAnsw ok (CStr z) \<Rightarrow> Some (Some (AOT_ANSW, (if ok then 0x1 else 0x0) # str_bytes z))
     | MmiAnsw ok CJunk \<Rightarrow> None
     | MmiMenuAnsw c \<Rightarrow> Some (Some (AOT_MENU_ANSW, [word_of_int c]))
     | _ \<Rightarrow> Some None)"

definition expect_mmi :: "int \<Rightarrow> 'a dvben_scheme \<Rightarrow> 'a dvben_scheme option" where
  "expect_mmi slot s =
     (if 0 \<le> slot \<and> nat slot < length (p_slots s)
      then Some (upd_slot (nat slot) (\<lambda>sl. sl\<lparr>sl_mmi_expected := True\<rparr>) s) else None)"

definition MMISendObject :: "int \<Rightarrow> mmi_object \<Rightarrow> 'a dvben_scheme \<Rightarrow> 'a dvben_scheme option" where
  "MMISendObject sid m s = do {
     ss \<leftarrow> get_sess sid s;
     r \<leftarrow> mmi_payload m;
     (case r of
        None \<Rightarrow> Some s
      | Some (tag, p) \<Rightarrow> do { s \<leftarrow> apdu_send sid tag p s; expect_mmi (ss_slot ss) s }) }"

definition MMISendClose :: "int \<Rightarrow> 'a dvben_scheme \<Rightarrow> 'a dvben_scheme option" where
  "MMISendClose sid s = do {
     ss \<leftarrow> get_sess sid s;
     s \<leftarrow> apdu_send sid AOT_CLOSE_MMI [] s;
     expect_mmi (ss_slot ss) s }"

definition MMIDisplayReply :: "int \<Rightarrow> 'a dvben_scheme \<Rightarrow> 'a dvben_scheme option" where
  "MMIDisplayReply sid s = apdu_send sid AOT_DISPLAY_REPLY [0x01, 0x01] s"

text \<open>
  One text of a menu: what it reads, the rest of the buffer and the length left. The header is
  taken to be four bytes long whatever form the length field has.
\<close>

definition MMIGetText :: "'b psi_lib_scheme \<Rightarrow> bytes \<Rightarrow> int \<Rightarrow> (string \<times> bytes \<times> int) option" where
  "MMIGetText B d n =
     (if 3 \<le> n \<and> length d < 3 then None
      else if APDUGetTag (if n < 3 then [] else d) \<noteq> AOT_TEXT_LAST then Some ([], d, 0)
      else do {
        (l, t) \<leftarrow> APDUGetLength d;
        ensure (0 \<le> l \<and> nat l \<le> length t);
        Some (dvb_string_get B (take (nat l) t), drop (nat (l + 4)) d, n - (l + 4)) })"

partial_function (option) mmi_choices :: "'b psi_lib_scheme \<Rightarrow> bytes \<Rightarrow> int \<Rightarrow> cstr list option" where
  "mmi_choices B d l =
     (if l > 0
      then do { (t, d, l) \<leftarrow> MMIGetText B d l; cs \<leftarrow> mmi_choices B d l; Some (CStr t # cs) }
      else Some [])"

definition mmi_field :: "'b psi_lib_scheme \<Rightarrow> bytes \<Rightarrow> int \<Rightarrow> (cstr \<times> bytes \<times> int) option" where
  "mmi_field B d l =
     (if l > 0 then do { (t, d, l) \<leftarrow> MMIGetText B d l; Some (CStr t, d, l) } else Some (CJunk, d, l))"

definition sys_as_mmi :: "session \<Rightarrow> mmi_object option" where
  "sys_as_mmi ss = (case ss_sys ss of SysMmi m \<Rightarrow> Some m | _ \<Rightarrow> None)"

text \<open>A new object for the user of the slot: it is no longer awaited, and not yet shown.\<close>

definition mmi_arrived :: "int \<Rightarrow> 'a dvben_scheme \<Rightarrow> 'a dvben_scheme option" where
  "mmi_arrived slot s =
     (if 0 \<le> slot \<and> nat slot < length (p_slots s)
      then Some (upd_slot (nat slot) (\<lambda>sl. sl\<lparr>sl_mmi_expected := False, sl_mmi_undisplayed := True\<rparr>) s)
      else None)"

definition c_string :: "bytes \<Rightarrow> string" where
  "c_string p = map (\<lambda>b. char_of (unat b)) (takeWhile (\<lambda>b. b \<noteq> 0) p)"

definition MMIHandleEnq :: "int \<Rightarrow> bytes \<Rightarrow> 'a dvben_scheme \<Rightarrow> 'a dvben_scheme option" where
  "MMIHandleEnq sid apdu s = do {
     ss \<leftarrow> get_sess sid s;
     (l, d) \<leftarrow> APDUGetLength apdu;
     old \<leftarrow> sys_as_mmi ss;
     _ \<leftarrow> en50221_MMIFree old;
     flags \<leftarrow> rd d 0;
     ensure (2 \<le> l \<and> (nat l \<le> length d \<or> 0 \<in> set (drop 2 d)));
     let m = MmiEnq (flags AND 0x1 \<noteq> 0) (CStr (c_string (take (nat (l - 2)) (drop 2 d))));
     mmi_arrived (ss_slot ss) (set_sys sid (SysMmi m) s) }"

text \<open>
  A menu or a list. The three headings are only set while there is text left, so with a short
  APDU they keep what was in the union before, which \<open>MMIFree\<close> has just given back.
\<close>

definition MMIHandleMenu ::
  "'b psi_lib_scheme \<Rightarrow> int \<Rightarrow> int \<Rightarrow> bytes \<Rightarrow> 'a dvben_scheme \<Rightarrow> 'a dvben_scheme option" where
  "MMIHandleMenu B sid tag apdu s = do {
     ss \<leftarrow> get_sess sid s;
     (l, d) \<leftarrow> APDUGetLength apdu;
     old \<leftarrow> sys_as_mmi ss;
     _ \<leftarrow> en50221_MMIFree old;
     (t, u, v, cs) \<leftarrow>
       (if l > 0 then do {
          (t, d, l) \<leftarrow> mmi_field B (drop 1 d) (l - 1);
          (u, d, l) \<leftarrow> mmi_field B d l;
          (v, d, l) \<leftarrow> mmi_field B d l;
          cs \<leftarrow> mmi_choices B d l;
          Some (t, u, v, cs) }
        else Some (CJunk, CJunk, CJunk, []));
     let m = (if tag = AOT_MENU_LAST then MmiMenu t u v cs else MmiList t u v cs);
     mmi_arrived (ss_slot ss) (set_sys sid (SysMmi m) s) }"

definition SessionSendClose :: "int \<Rightarrow> 'a dvben_scheme \<Rightarrow> 'a dvben_scheme option" where
  "SessionSendClose sid s = do {
     ss \<leftarrow> get_sess sid s;
     map_option snd (TPDUSend (slot8 (ss_slot ss)) T_DATA_LAST
       ([ST_CLOSE_SESSION_REQUEST, 0x2] @ word16_bytes sid) s) }"

definition MMIHandle ::
  "'b psi_lib_scheme \<Rightarrow> int \<Rightarrow> bytes \<Rightarrow> 'a dvben_scheme \<Rightarrow> 'a dvben_scheme option" where
  "MMIHandle B sid apdu s =
     (let tag = APDUGetTag apdu in
      if tag = AOT_DISPLAY_CONTROL then do {
        (l, d) \<leftarrow> APDUGetLength apdu;
        if l > 0 then do {
          c \<leftarrow> rd d 0;
          if c = 0x01 then do {
            mode \<leftarrow> rd d 1;
            if l = 2 \<and> mode = 0x01 then MMIDisplayReply sid s else Some s }
          else Some s }
        else Some s }
      else if tag = AOT_ENQ then MMIHandleEnq sid apdu s
      else if tag = AOT_LIST_LAST \<or> tag = AOT_MENU_LAST then MMIHandleMenu B sid tag apdu s
      else if tag = AOT_CLOSE_MMI then SessionSendClose sid s
      else Some s)"

definition MMIClose :: "int \<Rightarrow> 'a dvben_scheme \<Rightarrow> 'a dvben_scheme option" where
  "MMIClose sid s = do {
     ss \<leftarrow> get_sess sid s;
     m \<leftarrow> sys_as_mmi ss;
     _ \<leftarrow> en50221_MMIFree m;
     s \<leftarrow> free_sys sid s;
     mmi_arrived (ss_slot ss) s }"

definition MMIOpen :: "int \<Rightarrow> 'a dvben_scheme \<Rightarrow> 'a dvben_scheme option" where
  "MMIOpen sid s = do {
     s \<leftarrow> open_session sid HMmi s;
     Some (upd_sess sid (\<lambda>ss. ss\<lparr>ss_close := Some CMmi, ss_sys := SysMmi MmiNone\<rparr>) s) }"

subsection \<open>Dispatch through the function pointers\<close>

definition run_handler ::
  "'b psi_lib_scheme \<Rightarrow> 'a resend_capmts \<Rightarrow> handler \<Rightarrow> int \<Rightarrow> bytes \<Rightarrow> 'a dvben_scheme \<Rightarrow> 'a dvben_scheme option" where
  "run_handler B R h sid apdu s = (case h of
       HResourceManager \<Rightarrow> ResourceManagerHandle sid apdu s
     | HApplicationInformation \<Rightarrow> ApplicationInformationHandle sid apdu s
     | HConditionalAccess \<Rightarrow> ConditionalAccessHandle R sid apdu s
     | HDateTime \<Rightarrow> DateTimeHandle sid apdu s
     | HMmi \<Rightarrow> MMIHandle B sid apdu s)"

definition run_closer :: "closer \<Rightarrow> int \<Rightarrow> 'a dvben_scheme \<Rightarrow> 'a dvben_scheme option" where
  "run_closer c sid s = (case c of
       CConditionalAccess \<Rightarrow> ConditionalAccessClose sid s
     | CDateTime \<Rightarrow> DateTimeClose sid s
     | CMmi \<Rightarrow> MMIClose sid s)"

text \<open>The open that goes with a resource id; an unknown one frees the session's slot in the array.\<close>

definition open_resource :: "32 word \<Rightarrow> int \<Rightarrow> 'a dvben_scheme \<Rightarrow> 'a dvben_scheme option" where
  "open_resource rid sid s =
     (if rid = RI_RESOURCE_MANAGER then ResourceManagerOpen sid s
      else if rid = RI_APPLICATION_INFORMATION then ApplicationInformationOpen sid s
      else if rid = RI_CONDITIONAL_ACCESS_SUPPORT then ConditionalAccessOpen sid s
      else if rid = RI_DATE_TIME then DateTimeOpen sid s
      else if rid = RI_MMI then MMIOpen sid s
      else if sess_ok s sid then Some (upd_sess sid (\<lambda>ss. ss\<lparr>ss_resource := 0\<rparr>) s) else None)"

end
