(* ===== verification/Dvb_CiLink.thy ===== *)
theory Dvb_CiLink
  imports Dvb_CiResources
begin

unbundle bit_operations_syntax

text \<open>
  Sessions as the CAM opens and closes them (\<open>SessionOpen\<close> to \<open>SPDUHandle\<close>), the receiver
  (\<open>TPDURecv\<close>), supervision of the slots (\<open>ResetSlot\<close>, \<open>en50221_Poll\<close>), start-up, and the entry
  points the control socket uses.
\<close>

subsection \<open>Sessions\<close>

definition ResourceIdToInt :: "bytes \<Rightarrow> 32 word option" where
  "ResourceIdToInt p = (case p of
      a # b # c # d # _ \<Rightarrow> Some (push_bit 24 (ucast a) OR push_bit 16 (ucast b) OR push_bit 8 (ucast c) OR ucast d)
    | _ \<Rightarrow> None)"

definition SessionOpenCb :: "nat \<Rightarrow> 'a dvben_scheme \<Rightarrow> 'a dvben_scheme option" where
  "SessionOpenCb i s = do {
     sl \<leftarrow> get_slot i s;
     let sid = sl_pending sl;
     ss \<leftarrow> get_sess sid s;
     open_resource (ss_resource ss) sid (upd_slot i (\<lambda>sl. sl\<lparr>sl_pending := 0\<rparr>) s) }"

definition known_resource :: "32 word \<Rightarrow> bool" where
  "known_resource rid \<longleftrightarrow> rid = RI_RESOURCE_MANAGER \<or> rid = RI_APPLICATION_INFORMATION
     \<or> rid = RI_CONDITIONAL_ACCESS_SUPPORT \<or> rid = RI_DATE_TIME \<or> rid = RI_MMI"

text \<open>The first free session number, \<open>MAX_SESSIONS + 1\<close> when there is none.\<close>

definition free_session :: "'a dvben_scheme \<Rightarrow> int" where
  "free_session s = int (index_of (\<lambda>ss. ss_resource ss = 0) (p_sessions s)) + 1"

definition SessionOpen :: "nat \<Rightarrow> bytes \<Rightarrow> 'a dvben_scheme \<Rightarrow> 'a dvben_scheme option" where
  "SessionOpen i spdu s = do {
     rid \<leftarrow> ResourceIdToInt (drop 2 spdu);
     let sid = free_session s;
     if int (length (p_sessions s)) < sid then Some s
     else do {
       let s = upd_sess sid (\<lambda>ss. ss\<lparr>ss_slot := int i, ss_resource := rid, ss_close := None, ss_manage := None\<rparr>) s;
       let status = (if known_resource rid then SS_OK else SS_NOT_ALLOCATED);
       (rc, s) \<leftarrow> TPDUSend i T_DATA_LAST
         ([ST_OPEN_SESSION_RESPONSE, 0x7, status] @ take 4 (drop 2 spdu) @ word16_bytes sid) s;
       if rc \<noteq> 0 then Some s
       else Some (upd_slot i (\<lambda>sl. sl\<lparr>sl_pending := sid\<rparr>) s) } }"

definition session_number :: "byte \<Rightarrow> byte \<Rightarrow> int" where
  "session_number a b = int (unat a) * 256 + int (unat b)"

definition SessionCreateResponse :: "nat \<Rightarrow> bytes \<Rightarrow> 'a dvben_scheme \<Rightarrow> 'a dvben_scheme option" where
  "SessionCreateResponse i spdu s = do {
     status \<leftarrow> rd spdu 2;
     rid \<leftarrow> ResourceIdToInt (drop 3 spdu);
     a \<leftarrow> rd spdu 7;
     b \<leftarrow> rd spdu 8;
     let sid = session_number a b;
     if status \<noteq> SS_OK
     then (if sess_ok s sid then Some (upd_sess sid (\<lambda>ss. ss\<lparr>ss_resource := 0\<rparr>) s) else None)
     else open_resource rid sid s }"

text \<open>Ending a session: its close function, then the slot of the array is free.\<close>

definition end_session :: "int \<Rightarrow> 'a dvben_scheme \<Rightarrow> 'a dvben_scheme option" where
  "end_session sid s = do {
     ss \<leftarrow> get_sess sid s;
     s \<leftarrow> (case ss_close ss of None \<Rightarrow> Some s | Some c \<Rightarrow> run_closer c sid s);
     Some (upd_sess sid (\<lambda>ss. ss\<lparr>ss_resource := 0\<rparr>) s) }"

definition SessionClose :: "int \<Rightarrow> 'a dvben_scheme \<Rightarrow> 'a dvben_scheme option" where
  "SessionClose sid s = do {
     ss \<leftarrow> get_sess sid s;
     s \<leftarrow> end_session sid s;
     map_option snd (TPDUSend (slot8 (ss_slot ss)) T_DATA_LAST
       ([ST_CLOSE_SESSION_RESPONSE, 0x3, SS_OK] @ word16_bytes sid) s) }"

definition SPDUHandle ::
  "'b psi_lib_scheme \<Rightarrow> 'a resend_capmts \<Rightarrow> nat \<Rightarrow> bytes \<Rightarrow> 'a dvben_scheme \<Rightarrow> 'a dvben_scheme option" where
  "SPDUHandle B R i spdu s = do {
     tag \<leftarrow> rd spdu 0;
     if tag = ST_SESSION_NUMBER then
       (if length spdu \<le> 4 then Some s
        else (let sid = session_number (spdu ! 2) (spdu ! 3) in
              if int MAX_SESSIONS < sid then Some s
              else do {
                ss \<leftarrow> get_sess sid s;
                (case ss_handle ss of None \<Rightarrow> Some s | Some h \<Rightarrow> run_handler B R h sid (drop 4 spdu) s) }))
     else if tag = ST_OPEN_SESSION_REQUEST then
       (if length spdu \<noteq> 6 \<or> spdu ! 1 \<noteq> 0x4 then Some s else SessionOpen i spdu s)
     else if tag = ST_CREATE_SESSION_RESPONSE then
       (if length spdu \<noteq> 9 \<or> spdu ! 1 \<noteq> 0x7 then Some s else SessionCreateResponse i spdu s)
     else if tag = ST_CLOSE_SESSION_REQUEST then
       (if length spdu \<noteq> 4 \<or> spdu ! 1 \<noteq> 0x2 then Some s
        else SessionClose (session_number (spdu ! 2) (spdu ! 3)) s)
     else if tag = ST_CLOSE_SESSION_RESPONSE then
       (if length spdu \<noteq> 5 \<or> spdu ! 1 \<noteq> 0x3 then Some s
        else if spdu ! 2 \<noteq> 0 then Some s
        else end_session (session_number (spdu ! 3) (spdu ! 4)) s)
     else Some s }"

subsection \<open>Receiving\<close>

text \<open>\<open>do i_size = read(...); while (i_size < 0 && errno == EINTR)\<close>, with the index of the last call.\<close>

partial_function (option) ca_read_loop :: "'a dvben_scheme \<Rightarrow> (int \<times> nat \<times> 'a dvben_scheme) option" where
  "ca_read_loop s =
     (let n = length (sys_log s); (r, s) = sys_call SysCaRead s in
      if r < 0 \<and> errno s = EINTR then ca_read_loop s else Some (r, n, s))"

text \<open>What a data TPDU carries: the length counts the connection id, which is skipped.\<close>

definition data_content :: "bytes \<Rightarrow> bytes option" where
  "data_content p = do {
     (l, d) \<leftarrow> GetLength p;
     if l \<le> 1 then Some []
     else do {
       let n = nat (l - 1);
       ensure (n + 1 \<le> length d);
       Some (take n (drop 1 d)) } }"

definition recv_data ::
  "'b psi_lib_scheme \<Rightarrow> 'a resend_capmts \<Rightarrow> nat \<Rightarrow> bool \<Rightarrow> bytes \<Rightarrow> 'a dvben_scheme \<Rightarrow> 'a dvben_scheme option" where
  "recv_data B R i fin p s = do {
     c \<leftarrow> data_content p;
     if c = [] then Some s
     else do {
       sl \<leftarrow> get_slot i s;
       let buf = (case sl_recv sl of None \<Rightarrow> [] | Some r \<Rightarrow> r) @ c;
       let s = upd_slot i (\<lambda>sl. sl\<lparr>sl_recv := Some buf\<rparr>) s;
       if fin then do {
         s \<leftarrow> SPDUHandle B R i buf s;
         Some (upd_slot i (\<lambda>sl. sl\<lparr>sl_recv := None\<rparr>) s) }
       else Some s } }"

text \<open>What is left to send goes out as soon as no answer is awaited.\<close>

definition recv_reply :: "nat \<Rightarrow> 'a dvben_scheme \<Rightarrow> 'a dvben_scheme option" where
  "recv_reply i s = do {
     sl \<leftarrow> get_slot i s;
     s \<leftarrow> (if \<not> sl_expect_answer sl \<and> sl_send sl \<noteq> [] then map_option snd (TPDUWrite i s) else Some s);
     sl \<leftarrow> get_slot i s;
     s \<leftarrow> (if \<not> sl_expect_answer sl \<and> sl_pending sl \<noteq> 0 then SessionOpenCb i s else Some s);
     sl \<leftarrow> get_slot i s;
     (if \<not> sl_expect_answer sl \<and> sl_has_data sl then map_option snd (TPDUSend i T_RCV [] s) else Some s) }"

definition TPDURecv ::
  "'b psi_lib_scheme \<Rightarrow> 'a resend_capmts \<Rightarrow> 'a dvben_scheme \<Rightarrow> (int \<times> 'a dvben_scheme) option" where
  "TPDURecv B R s = do {
     (size, n, s) \<leftarrow> ca_read_loop s;
     if size < 5 then Some (-1, s)
     else do {
       let buf = ca_buf s n;
       b1 \<leftarrow> rd buf 1;
       tag \<leftarrow> rd buf 2;
       let i = unat (b1 - 1);
       if i_nb_slots s \<le> int i then Some (-1, s)
       else do {
         _ \<leftarrow> get_slot i s;
         t4 \<leftarrow> rd buf (nat size - 4);
         t3 \<leftarrow> rd buf (nat size - 3);
         t1 \<leftarrow> rd buf (nat size - 1);
         let s = upd_slot i (\<lambda>sl. sl\<lparr>
               sl_has_data := (t4 = T_SB \<and> t3 = 2 \<and> t1 AND DATA_INDICATOR \<noteq> 0),
               sl_expect_answer := False\<rparr>) s;
         s \<leftarrow> (if tag = T_CTC_REPLY
               then Some (upd_slot i (\<lambda>sl. sl\<lparr>sl_active := True, sl_init_timer := False\<rparr>) s)
               else if tag = T_DATA_LAST then recv_data B R i True (drop 3 buf) s
               else if tag = T_DATA_MORE then recv_data B R i False (drop 3 buf) s
               else Some s);
         s \<leftarrow> recv_reply i s;
         Some (0, s) } } }"

subsection \<open>Supervision\<close>

definition InitSlot :: "nat \<Rightarrow> 'a dvben_scheme \<Rightarrow> 'a dvben_scheme option" where
  "InitSlot i s = map_option snd (TPDUSend i T_CREATE_TC [] s)"

definition close_slot_session :: "nat \<Rightarrow> nat \<Rightarrow> 'a dvben_scheme \<Rightarrow> 'a dvben_scheme option" where
  "close_slot_session i sid s =
     (let ss = sess s (int sid) in
      if ss_resource ss \<noteq> 0 \<and> ss_slot ss = int i then end_session (int sid) s else Some s)"

definition ResetSlot :: "nat \<Rightarrow> 'a dvben_scheme \<Rightarrow> 'a dvben_scheme option" where
  "ResetSlot i s = do {
     _ \<leftarrow> get_slot i s;
     let s = snd (sys_call (SysCaReset i) s);
     let s = upd_slot i (\<lambda>sl. sl\<lparr>sl_active := False, sl_init_timer := True, sl_expect_answer := False,
               sl_mmi_expected := False, sl_mmi_undisplayed := False, sl_recv := None, sl_send := [],
               sl_send_last := True\<rparr>) s;
     ofold (close_slot_session i) [1..<MAX_SESSIONS + 1] s }"

definition ResetSlotCb :: "nat \<Rightarrow> 'a dvben_scheme \<Rightarrow> 'a dvben_scheme option" where
  "ResetSlotCb i s = do {
     sl \<leftarrow> get_slot i s;
     if sl_active sl \<or> \<not> sl_expect_answer sl then Some s else ResetSlot i s }"

definition en50221_Read ::
  "'b psi_lib_scheme \<Rightarrow> 'a resend_capmts \<Rightarrow> 'a dvben_scheme \<Rightarrow> 'a dvben_scheme option" where
  "en50221_Read B R s = map_option (\<lambda>(_, s). s\<lparr>slot_watcher := True\<rparr>) (TPDURecv B R s)"

definition poll_status :: "nat \<Rightarrow> 'a dvben_scheme \<Rightarrow> 'a dvben_scheme option" where
  "poll_status i s = do {
     sl \<leftarrow> get_slot i s;
     let n = length (sys_log s);
     let (rc, s) = sys_call (SysCaSlotInfo i) s;
     if rc \<noteq> 0 then Some s
     else if ca_word s n AND CA_CI_MODULE_READY = 0
     then (if sl_active sl then ResetSlot i s else Some s)
     else if \<not> sl_active sl \<and> \<not> sl_expect_answer sl then InitSlot i s
     else Some s }"

definition poll_manage :: "nat \<Rightarrow> 'a dvben_scheme \<Rightarrow> 'a dvben_scheme option" where
  "poll_manage sid s = do {
     ss \<leftarrow> get_sess (int sid) s;
     (case ss_manage ss of
        None \<Rightarrow> Some s
      | Some c \<Rightarrow>
          if ss_resource ss = 0 then Some s
          else do {
            ensure (0 \<le> ss_slot ss);
            sl \<leftarrow> get_slot (nat (ss_slot ss)) s;
            if sl_expect_answer sl then Some s else run_closer c (int sid) s }) }"

definition poll_slot :: "nat \<Rightarrow> 'a dvben_scheme \<Rightarrow> 'a dvben_scheme option" where
  "poll_slot i s = do {
     sl \<leftarrow> get_slot i s;
     if sl_active sl \<and> \<not> sl_expect_answer sl
     then do {
       (rc, s) \<leftarrow> TPDUSend i T_DATA_LAST [] s;
       if rc \<noteq> 0 then ResetSlot i s else Some s }
     else Some s }"

definition en50221_Poll :: "'a dvben_scheme \<Rightarrow> 'a dvben_scheme option" where
  "en50221_Poll s = do {
     s \<leftarrow> ofold poll_status [0..<nat (i_nb_slots s)] s;
     s \<leftarrow> ofold poll_manage [1..<MAX_SESSIONS + 1] s;
     ofold poll_slot [0..<nat (i_nb_slots s)] s }"

subsection \<open>Start-up\<close>

definition ca_link :: "'a dvben_scheme \<Rightarrow> bool" where
  "ca_link s \<longleftrightarrow> i_ca_type s AND CA_CI_LINK \<noteq> 0"

definition ca_close :: "'a dvben_scheme \<Rightarrow> 'a dvben_scheme" where
  "ca_close s = (snd (sys_call (SysClose (i_ca_handle s)) s))\<lparr>i_ca_handle := 0\<rparr>"

text \<open>A high-level interface has one dummy session, and the CAM answers who it is.\<close>

definition reset_high_level :: "'a dvben_scheme \<Rightarrow> 'a dvben_scheme option" where
  "reset_high_level s = do {
     let n = length (sys_log s);
     let (rc, s) = sys_call (SysCaSlotInfo 0) s;
     if rc < 0 then Some (ca_close s)
     else if ca_word s n = 0 then Some (ca_close s)
     else do {
       ss \<leftarrow> get_sess 1 s;
       _ \<leftarrow> sys_as_ids ss;
       let s = upd_sess 1 (\<lambda>ss. ss\<lparr>ss_resource := RI_CONDITIONAL_ACCESS_SUPPORT,
                 ss_close := Some CConditionalAccess, ss_sys := SysIds (zero_ids\<lparr>b_high_level := True\<rparr>)\<rparr>) s;
       s \<leftarrow> apdu_send 1 AOT_APPLICATION_INFO_ENQ [] s;
       let n = length (sys_log s);
       let (rc, s) = sys_call SysCaGetMsg s;
       if rc < 0 then Some (ca_close s)
       else do {
         m8 \<leftarrow> rd (ca_buf s n) 8;
         m9 \<leftarrow> rd (ca_buf s n) 9;
         if m8 = 0xff \<and> m9 = 0xff then Some (ca_close s) else Some s } } }"

definition en50221_Reset :: "'a dvben_scheme \<Rightarrow> 'a dvben_scheme option" where
  "en50221_Reset s =
     (let s = s\<lparr>p_slots := replicate MAX_CI_SLOTS zero_slot\<rparr> in
      if ca_link s then ofold ResetSlot [0..<nat (i_nb_slots s)] s else reset_high_level s)"

definition en50221_Init :: "'a dvben_scheme \<Rightarrow> 'a dvben_scheme option" where
  "en50221_Init s =
     (let (fd, s) = sys_call (SysCaOpen (i_adapter s) (i_canum s)) s in
      if fd < 0 then Some (s\<lparr>i_ca_handle := 0\<rparr>)
      else
        (let s = s\<lparr>i_ca_handle := fd\<rparr>; n = length (sys_log s); (rc, s) = sys_call SysCaGetCap s in
         if rc \<noteq> 0 then Some (ca_close s)
         else if ca_slot_num s n = 0 then Some (ca_close s)
         else if ca_word s n AND 2 \<noteq> 0
         then en50221_Reset (s\<lparr>i_ca_type := CA_CI_LINK, i_nb_slots := ca_slot_num s n,
                p_sessions := replicate MAX_SESSIONS zero_session, cam_watcher := True, slot_watcher := True\<rparr>)
         else if ca_word s n AND 1 \<noteq> 0
         then en50221_Reset (s\<lparr>i_ca_type := CA_CI, i_nb_slots := ca_slot_num s n,
                p_sessions := replicate MAX_SESSIONS zero_session\<rparr>)
         else Some (ca_close s)))"

subsection \<open>The control socket\<close>

definition RET_OK :: nat where "RET_OK = 0"
definition RET_ERR :: nat where "RET_ERR = 1"
definition RET_MMI_STATUS :: nat where "RET_MMI_STATUS = 3"
definition RET_MMI_SLOT_STATUS :: nat where "RET_MMI_SLOT_STATUS = 4"
definition RET_MMI_RECV :: nat where "RET_MMI_RECV = 5"
definition RET_MMI_WAIT :: nat where "RET_MMI_WAIT = 6"
definition RET_HUH :: nat where "RET_HUH = 255"

definition find_session :: "32 word \<Rightarrow> int \<Rightarrow> 'a dvben_scheme \<Rightarrow> int option" where
  "find_session rid slot s =
     (let i = index_of (\<lambda>ss. ss_resource ss = rid \<and> ss_slot ss = slot) (p_sessions s) in
      if i = length (p_sessions s) then None else Some (int i + 1))"

definition en50221_StatusMMI :: "'a dvben_scheme \<Rightarrow> nat \<times> 'a dvben_scheme" where
  "en50221_StatusMMI s = (let (rc, s) = sys_call SysCaGetCap s in
     (if rc \<noteq> 0 then RET_ERR else RET_MMI_STATUS, s))"

definition en50221_StatusMMISlot :: "bytes \<Rightarrow> 'a dvben_scheme \<Rightarrow> nat \<times> 'a dvben_scheme" where
  "en50221_StatusMMISlot buf s = (case buf of
       [b] \<Rightarrow> (let (rc, s) = sys_call (SysCaSlotInfo (unat b)) s in
                (if rc \<noteq> 0 then RET_ERR else RET_MMI_SLOT_STATUS, s))
     | _ \<Rightarrow> (RET_HUH, s))"

definition en50221_OpenMMI :: "bytes \<Rightarrow> 'a dvben_scheme \<Rightarrow> (nat \<times> 'a dvben_scheme) option" where
  "en50221_OpenMMI buf s = (case buf of
       [b] \<Rightarrow>
         (if ca_link s then
            (case find_session RI_MMI (int (unat b)) s of
               Some _ \<Rightarrow> Some (RET_OK, s)
             | None \<Rightarrow>
                 (case find_session RI_APPLICATION_INFORMATION (int (unat b)) s of
                    Some sid \<Rightarrow> map_option (Pair RET_OK) (ApplicationInformationEnterMenu sid s)
                  | None \<Rightarrow> Some (RET_ERR, s)))
          else Some (RET_ERR, s))
     | _ \<Rightarrow> Some (RET_HUH, s))"

definition en50221_CloseMMI :: "bytes \<Rightarrow> 'a dvben_scheme \<Rightarrow> (nat \<times> 'a dvben_scheme) option" where
  "en50221_CloseMMI buf s = (case buf of
       [b] \<Rightarrow>
         (if ca_link s then
            (case find_session RI_MMI (int (unat b)) s of
               Some sid \<Rightarrow> map_option (Pair RET_OK) (MMISendClose sid s)
             | None \<Rightarrow> Some (RET_ERR, s))
          else Some (RET_ERR, s))
     | _ \<Rightarrow> Some (RET_HUH, s))"

text \<open>The object itself stands for its serialised form; \<open>fits\<close> says whether that has room.\<close>

definition en50221_GetMMIObject ::
  "(mmi_object \<Rightarrow> bool) \<Rightarrow> bytes \<Rightarrow> 'a dvben_scheme \<Rightarrow> (nat \<times> mmi_object option) option" where
  "en50221_GetMMIObject fits buf s = (case buf of
       [b] \<Rightarrow> do {
         sl \<leftarrow> get_slot (unat b) s;
         if sl_mmi_expected sl then Some (RET_MMI_WAIT, None)
         else (case find_session RI_MMI (int (unat b)) s of
            None \<Rightarrow> Some (RET_MMI_RECV, Some MmiNone)
          | Some sid \<Rightarrow>
              (case ss_sys (sess s sid) of
                 SysNull \<Rightarrow> Some (RET_ERR, None)
               | SysMmi m \<Rightarrow> if fits m then Some (RET_MMI_RECV, Some m) else Some (RET_ERR, None)
               | _ \<Rightarrow> None)) }
     | _ \<Rightarrow> Some (RET_HUH, None))"

definition en50221_SendMMIObject ::
  "byte \<Rightarrow> mmi_object \<Rightarrow> 'a dvben_scheme \<Rightarrow> (nat \<times> 'a dvben_scheme) option" where
  "en50221_SendMMIObject b m s =
     (case find_session RI_MMI (int (unat b)) s of
        Some sid \<Rightarrow> map_option (Pair RET_OK) (MMISendObject sid m s)
      | None \<Rightarrow> Some (RET_ERR, s))"

end
