(* ===== verification/Dvb_Demux.thy ===== *)
theory Dvb_Demux
  imports Dvb_CiLink
begin

text \<open>
  The demultiplexer (\<open>cLdvbdemux\<close>): its state, the PID filters with their reference counts, and
  the choice of the PIDs a program needs. The array \<open>p_pids\<close> of \<open>MAX_PIDS\<close> entries is a
  function with a bound check at each access; \<open>pp_sids\<close> is the list of known programs, an entry
  whose SID is 0 being free. The virtual methods of the device class are system calls. The
  packet counters, which only ever count up, are naturals.
\<close>

subsection \<open>State\<close>

record ts_pid_info =
  i_first_packet_ts :: mtime
  i_last_packet_ts :: mtime
  i_packets :: nat
  i_cc_errors :: nat
  i_transport_errors :: nat
  i_bytes_per_sec :: nat
  i_scrambling :: nat

record ts_pid =
  i_refcount :: int
  i_psi_refcount :: int
  b_pes :: bool
  i_last_cc :: int
  i_pid_fd :: int
  b_emm :: bool
  i_bytes_ts :: mtime
  i_packets_passed :: nat
  pid_info :: ts_pid_info
  psi_buffer :: "bytes option \<times> nat"   \<comment> \<open>\<open>p_psi_buffer\<close>, \<open>i_psi_buffer_used\<close>\<close>
  pid_outputs :: "nat option list"      \<comment> \<open>\<open>pp_outputs\<close>, NULL is \<open>None\<close>\<close>
  i_pes_status :: int
  pid_timeout :: "mtime option"

record sid_entry =
  sid_sid :: "16 word"
  sid_pmt_pid :: nat
  p_current_pmt :: "bytes option"
  eit_table :: "psi_table list"

record dvbdemux = dvben +
  current_pat :: psi_table
  next_pat :: psi_table
  current_cat :: psi_table
  next_cat :: psi_table
  current_nit :: psi_table
  next_nit :: psi_table
  current_sdt :: psi_table
  next_sdt :: psi_table
  i_last_dts :: mtime
  i_demux_fd :: int
  i_nb_packets :: nat
  i_nb_invalids :: nat
  i_nb_discontinuities :: nat
  i_dmx_errors :: nat               \<comment> \<open>\<open>i_nb_errors\<close> of the demultiplexer\<close>
  i_tuner_errors :: int
  i_last_dmx_error :: mtime         \<comment> \<open>\<open>i_last_error\<close>\<close>
  i_last_reset :: mtime
  i_wallclock :: mtime
  b_enable_emm :: bool
  b_enable_ecm :: bool
  i_es_timeout :: mtime
  b_budget_mode :: bool
  b_select_pmts :: bool
  b_any_type :: bool
  g_newpids :: "nat list"           \<comment> \<open>\<open>pi_newpids\<close>, one PID per kind of stream\<close>
  p_pids :: "nat \<Rightarrow> ts_pid"
  pp_sids :: "sid_entry list"
  i_quit_timeout_duration :: mtime
  print_timer :: bool
  quit_timer :: bool

definition I_PMTPID :: nat where "I_PMTPID = 0"
definition I_APID :: nat where "I_APID = 1"
definition I_VPID :: nat where "I_VPID = 2"
definition I_SPUPID :: nat where "I_SPUPID = 3"

definition WATCHDOG_WAIT :: mtime where "WATCHDOG_WAIT = 10000000"
definition WATCHDOG_REFRACTORY_PERIOD :: mtime where "WATCHDOG_REFRACTORY_PERIOD = 60000000"
definition MAX_ERRORS :: int where "MAX_ERRORS = 1000"
definition MAX_EIT_RETENTION :: mtime where "MAX_EIT_RETENTION = 500000"

definition MAX_EIT_TABLES :: "'b psi_lib_scheme \<Rightarrow> nat" where
  "MAX_EIT_TABLES B = EIT_TABLE_ID_SCHED_ACTUAL_LAST B - EIT_TABLE_ID_PF_ACTUAL B"

lemmas demux_consts = I_PMTPID_def I_APID_def I_VPID_def I_SPUPID_def WATCHDOG_WAIT_def
  WATCHDOG_REFRACTORY_PERIOD_def MAX_ERRORS_def MAX_EIT_RETENTION_def

definition get_pid :: "nat \<Rightarrow> 'a dvbdemux_scheme \<Rightarrow> ts_pid option" where
  "get_pid pid s = (if pid < MAX_PIDS then Some (p_pids s pid) else None)"

definition upd_pid :: "nat \<Rightarrow> (ts_pid \<Rightarrow> ts_pid) \<Rightarrow> 'a dvbdemux_scheme \<Rightarrow> 'a dvbdemux_scheme" where
  "upd_pid pid f s = s\<lparr>p_pids := (p_pids s)(pid := f (p_pids s pid))\<rparr>"

definition upd_sid :: "nat \<Rightarrow> (sid_entry \<Rightarrow> sid_entry) \<Rightarrow> 'a dvbdemux_scheme \<Rightarrow> 'a dvbdemux_scheme" where
  "upd_sid i f s = s\<lparr>pp_sids := (pp_sids s)[i := f (pp_sids s ! i)]\<rparr>"

subsection \<open>Looking up\<close>

definition FindSID :: "16 word \<Rightarrow> 'a dvbdemux_scheme \<Rightarrow> nat option" where
  "FindSID sid s =
     (let i = index_of (\<lambda>e. sid_sid e = sid) (pp_sids s) in
      if i = length (pp_sids s) then None else Some i)"

definition IsIn :: "nat list \<Rightarrow> nat \<Rightarrow> bool" where
  "IsIn pids pid \<longleftrightarrow> index_of (\<lambda>p. pid = p) pids \<noteq> length pids"

definition on_sid :: "16 word \<Rightarrow> output_st \<Rightarrow> bool" where
  "on_sid sid p \<longleftrightarrow> out_valid p \<and> i_sid (config p) = sid"

definition SIDIsSelected :: "16 word \<Rightarrow> 'a dvboutput_scheme \<Rightarrow> bool" where
  "SIDIsSelected sid s = list_ex (on_sid sid) (pp_outputs s)"

text \<open>A loop over the outputs.\<close>

definition for_outputs ::
  "(nat \<Rightarrow> 'a dvboutput_scheme \<Rightarrow> 'a dvboutput_scheme option) \<Rightarrow> 'a dvboutput_scheme \<Rightarrow> 'a dvboutput_scheme option" where
  "for_outputs f s = ofold f [0..<length (pp_outputs s)] s"

subsection \<open>Hardware filters\<close>

definition SetPID :: "nat \<Rightarrow> 'a dvbdemux_scheme \<Rightarrow> 'a dvbdemux_scheme option" where
  "SetPID pid s = do {
     _ \<leftarrow> get_pid pid s;
     let s = upd_pid pid (\<lambda>p. p\<lparr>i_refcount := i_refcount p + 1\<rparr>) s;
     let p = p_pids s pid;
     if \<not> b_budget_mode s \<and> i_refcount p \<noteq> 0 \<and> i_pid_fd p = -1
     then (let (fd, s) = sys_call (DevSetFilter pid) s
           in Some (upd_pid pid (\<lambda>p. p\<lparr>i_pid_fd := fd\<rparr>) s))
     else Some s }"

definition SetPID_EMM :: "nat \<Rightarrow> 'a dvbdemux_scheme \<Rightarrow> 'a dvbdemux_scheme option" where
  "SetPID_EMM pid s = do {
     s \<leftarrow> SetPID pid s;
     Some (upd_pid pid (\<lambda>p. p\<lparr>b_emm := True\<rparr>) s) }"

definition UnsetPID :: "nat \<Rightarrow> 'a dvbdemux_scheme \<Rightarrow> 'a dvbdemux_scheme option" where
  "UnsetPID pid s = do {
     _ \<leftarrow> get_pid pid s;
     let s = upd_pid pid (\<lambda>p. p\<lparr>i_refcount := i_refcount p - 1\<rparr>) s;
     let p = p_pids s pid;
     if \<not> b_budget_mode s \<and> i_refcount p = 0 \<and> i_pid_fd p \<noteq> -1
     then (let s = snd (sys_call (DevUnsetFilter (i_pid_fd p) pid) s)
           in Some (upd_pid pid (\<lambda>p. p\<lparr>i_pid_fd := -1, b_emm := False\<rparr>) s))
     else Some s }"

subsection \<open>Which outputs want a PID\<close>

text \<open>An output joins a PID once: in the first hole of the PID's list, or at its end.\<close>

definition StartPID :: "nat \<Rightarrow> nat \<Rightarrow> 'a dvbdemux_scheme \<Rightarrow> 'a dvbdemux_scheme option" where
  "StartPID n pid s = do {
     p \<leftarrow> get_pid pid s;
     let outs = pid_outputs p;
     if index_of (\<lambda>x. x = Some n) outs \<noteq> length outs then Some s
     else do {
       let j = index_of (\<lambda>x. x = None) outs;
       let outs = (if j = length outs then outs @ [Some n] else outs[j := Some n]);
       SetPID pid (upd_pid pid (\<lambda>p. p\<lparr>pid_outputs := outs\<rparr>) s) } }"

definition StopPID :: "nat \<Rightarrow> nat \<Rightarrow> 'a dvbdemux_scheme \<Rightarrow> 'a dvbdemux_scheme option" where
  "StopPID n pid s = do {
     p \<leftarrow> get_pid pid s;
     let j = index_of (\<lambda>x. x = Some n) (pid_outputs p);
     if j \<noteq> length (pid_outputs p)
     then UnsetPID pid (upd_pid pid (\<lambda>p. p\<lparr>pid_outputs := (pid_outputs p)[j := None]\<rparr>) s)
     else Some s }"

definition SelectPID :: "16 word \<Rightarrow> nat \<Rightarrow> bool \<Rightarrow> 'a dvbdemux_scheme \<Rightarrow> 'a dvbdemux_scheme option" where
  "SelectPID sid pid b_pcr s = for_outputs (\<lambda>i s.
     let p = pp_outputs s ! i in
     if \<not> on_sid sid p then Some s
     else if pi_pids (config p) \<noteq> [] \<and> \<not> IsIn (pi_pids (config p)) pid
     then (if b_pcr then StartPID i pid (upd_out (Nth i) (\<lambda>p. p\<lparr>i_pcr_pid := pid\<rparr>) s) else Some s)
     else StartPID i pid s) s"

definition UnselectPID :: "16 word \<Rightarrow> nat \<Rightarrow> 'a dvbdemux_scheme \<Rightarrow> 'a dvbdemux_scheme option" where
  "UnselectPID sid pid s = for_outputs (\<lambda>i s.
     let p = pp_outputs s ! i in
     if on_sid sid p \<and> pi_pids (config p) = [] then StopPID i pid s else Some s) s"

definition SelectPMT :: "16 word \<Rightarrow> nat \<Rightarrow> 'a dvbdemux_scheme \<Rightarrow> 'a dvbdemux_scheme option" where
  "SelectPMT sid pid s = do {
     _ \<leftarrow> get_pid pid s;
     let s = upd_pid pid (\<lambda>p. p\<lparr>i_psi_refcount := i_psi_refcount p + 1, b_pes := False\<rparr>) s;
     if b_select_pmts s then SetPID pid s
     else for_outputs (\<lambda>i s. if on_sid sid (pp_outputs s ! i) then SetPID pid s else Some s) s }"

definition UnselectPMT ::
  "'b psi_lib_scheme \<Rightarrow> 16 word \<Rightarrow> nat \<Rightarrow> 'a dvbdemux_scheme \<Rightarrow> 'a dvbdemux_scheme option" where
  "UnselectPMT B sid pid s = do {
     _ \<leftarrow> get_pid pid s;
     let s = upd_pid pid (\<lambda>p. p\<lparr>i_psi_refcount := i_psi_refcount p - 1\<rparr>) s;
     let s = (if i_psi_refcount (p_pids s pid) = 0
              then upd_pid pid (\<lambda>p. p\<lparr>psi_buffer := psi_assemble_reset B (psi_buffer p)\<rparr>) s else s);
     if b_select_pmts s then UnsetPID pid s
     else for_outputs (\<lambda>i s. if on_sid sid (pp_outputs s ! i) then UnsetPID pid s else Some s) s }"

subsection \<open>What a stream is\<close>

definition PIDWouldBeSelected :: "'b psi_lib_scheme \<Rightarrow> bytes \<Rightarrow> 'a dvbdemux_scheme \<Rightarrow> bool option" where
  "PIDWouldBeSelected B es s =
     (let t = pmtn_get_streamtype B es in
      if b_any_type s then Some True
      else if t \<in> {0x1, 0x2, 0x3, 0x4, 0xf, 0x10, 0x11, 0x1b, 0x24, 0x81, 0x87} then Some True
      else if t = 0x6
      then any_elem 65536 (descs_get_desc B) (drop (pmtn_get_descs B es) es)
             (\<lambda>d. desc_get_tag B d \<in> {0x46, 0x56, 0x59, 0x6a, 0x7a, 0x7b, 0x7c})
      else Some False)"

definition PIDCarriesPES :: "'b psi_lib_scheme \<Rightarrow> bytes \<Rightarrow> bool" where
  "PIDCarriesPES B es \<longleftrightarrow>
     pmtn_get_streamtype B es \<in> {0x1, 0x2, 0x3, 0x4, 0x6, 0xf, 0x10, 0x11, 0x1b, 0x24, 0x81, 0x87}"

text \<open>The stream loop has an 8-bit index here, the descriptor loops 16-bit ones.\<close>

definition has_ca_tag :: "'b psi_lib_scheme \<Rightarrow> bytes \<Rightarrow> bool option" where
  "has_ca_tag B descs = any_elem 65536 (descs_get_desc B) descs (\<lambda>d. desc_get_tag B d = 0x9)"

partial_function (option) es_needs_descrambling :: "'b psi_lib_scheme \<Rightarrow> bytes \<Rightarrow> nat \<Rightarrow> bool option" where
  "es_needs_descrambling B pmt i =
     (case pmt_get_es B pmt (i mod 256) of
        None \<Rightarrow> Some False
      | Some off \<Rightarrow>
          (let es = drop off pmt in do {
             ca \<leftarrow> has_ca_tag B (drop (pmtn_get_descs B es) es);
             if ca then Some True else es_needs_descrambling B pmt (i mod 256 + 1) }))"

definition PMTNeedsDescrambling :: "'b psi_lib_scheme \<Rightarrow> bytes \<Rightarrow> bool option" where
  "PMTNeedsDescrambling B pmt = do {
     ca \<leftarrow> has_ca_tag B (drop (pmt_get_descs B pmt) pmt);
     if ca then Some True else es_needs_descrambling B pmt 0 }"

definition ca_desc_find :: "'b psi_lib_scheme \<Rightarrow> bytes \<Rightarrow> nat \<Rightarrow> nat \<Rightarrow> bytes option option" where
  "ca_desc_find B descl len ca_pid =
     search_elem (2 ^ 31) (\<lambda>d. descl_get_desc B d len) descl
       (\<lambda>d. is_ca_desc B d \<and> desc09_get_pid B d = ca_pid)"

subsection \<open>The PIDs an output wants\<close>

text \<open>The PIDs of the CA descriptors of a loop, in order (8-bit index).\<close>

definition ecm_pids :: "'b psi_lib_scheme \<Rightarrow> bytes \<Rightarrow> nat list option" where
  "ecm_pids B descs = do {
     ds \<leftarrow> elements 256 (descs_get_desc B) descs;
     Some (map (desc09_get_pid B) (filter (is_ca_desc B) ds)) }"

definition GetPIDS_es ::
  "'b psi_lib_scheme \<Rightarrow> nat list \<Rightarrow> 'a dvbdemux_scheme \<Rightarrow> bytes \<Rightarrow> nat list \<Rightarrow> nat list option" where
  "GetPIDS_es B pids s es wanted = do {
     let pid = pmtn_get_pid B es;
     sel \<leftarrow> (if pids \<noteq> [] then Some (IsIn pids pid) else PIDWouldBeSelected B es s);
     let wanted = (if pids = [] \<and> sel then wanted @ [pid] else wanted);
     if sel \<and> b_enable_ecm s
     then do { ecm \<leftarrow> ecm_pids B (drop (pmtn_get_descs B es) es); Some (wanted @ ecm) }
     else Some wanted }"

definition GetPIDS_pmt ::
  "'b psi_lib_scheme \<Rightarrow> nat list \<Rightarrow> nat \<Rightarrow> bytes \<Rightarrow> 'a dvbdemux_scheme \<Rightarrow> (nat list \<times> nat) option" where
  "GetPIDS_pmt B pids pmt_pid pmt s = do {
     let pcr = pmt_get_pcrpid B pmt;
     ess \<leftarrow> elements 256 (pmt_get_es B) pmt;
     wanted \<leftarrow> ofold (GetPIDS_es B pids s) ess pids;
     wanted \<leftarrow> (if b_enable_ecm s
                then do { ecm \<leftarrow> ecm_pids B (drop (pmt_get_descs B pmt) pmt); Some (wanted @ ecm) }
                else Some wanted);
     if pcr \<noteq> PADDING_PID \<and> pcr \<noteq> pmt_pid \<and> \<not> IsIn wanted pcr
     then Some (wanted @ [pcr], pcr) else Some (wanted, 0) }"

text \<open>The PIDs asked for by number come first, whether the program is known or not.\<close>

definition GetPIDS ::
  "'b psi_lib_scheme \<Rightarrow> 16 word \<Rightarrow> nat list \<Rightarrow> 'a dvbdemux_scheme \<Rightarrow> (nat list \<times> nat) option" where
  "GetPIDS B sid pids s =
     (if sid = 0 then Some (pids, 0)
      else (case FindSID sid s of
              None \<Rightarrow> Some (pids, 0)
            | Some i \<Rightarrow>
                (let e = pp_sids s ! i in
                 case p_current_pmt e of
                   None \<Rightarrow> Some (pids, 0)
                 | Some pmt \<Rightarrow> GetPIDS_pmt B pids (sid_pmt_pid e) pmt s)))"

subsection \<open>Remapping an elementary stream\<close>

text \<open>The first free PID from \<open>n\<close> on; the search does not stop at the end of the array.\<close>

function free_pid :: "(nat \<Rightarrow> nat) \<Rightarrow> nat \<Rightarrow> nat option" where
  "free_pid freepids n =
     (if MAX_PIDS \<le> n then None
      else if freepids n \<noteq> UNUSED_PID then free_pid freepids (Suc n)
      else Some n)"
  by pat_completeness auto
termination
  by (relation "measure (\<lambda>(_, n). MAX_PIDS - n)") auto

declare free_pid.simps [simp del]

definition base_pid :: "'a dvbdemux_scheme \<Rightarrow> output_st \<Rightarrow> nat \<Rightarrow> nat" where
  "base_pid s p k = (if b_do_remap s then g_newpids s ! k else pi_confpids (config p) ! k)"

text \<open>The kind of a private stream: the last descriptor that tells decides.\<close>

definition substream :: "'b psi_lib_scheme \<Rightarrow> bytes list \<Rightarrow> nat" where
  "substream B ds = fold (\<lambda>d k.
     let t = desc_get_tag B d in
     let k = (if t \<in> {0x6a, 0x7a, 0x7b, 0x7c} then I_APID else k) in
     if t \<in> {0x46, 0x56, 0x59} then I_SPUPID else k) ds CLDVB_N_MAP_PIDS"

definition new_base ::
  "'b psi_lib_scheme \<Rightarrow> output_st \<Rightarrow> bytes \<Rightarrow> nat \<Rightarrow> 'a dvbdemux_scheme \<Rightarrow> nat option" where
  "new_base B p es pid s =
     (let t = pmtn_get_streamtype B es in
      if t \<in> {0x03, 0x04, 0x0f, 0x11, 0x81, 0x87} then Some (base_pid s p I_APID)
      else if t \<in> {0x01, 0x02, 0x10, 0x1b, 0x24, 0x42} then Some (base_pid s p I_VPID)
      else if t = 0x06
      then do {
        ds \<leftarrow> es_descs B 65536 es;
        let k = substream B ds;
        Some (if k = I_APID then base_pid s p I_APID
              else if k = I_SPUPID then base_pid s p I_SPUPID else pid) }
      else Some pid)"

definition map_es_pid ::
  "'b psi_lib_scheme \<Rightarrow> output_st \<Rightarrow> bytes \<Rightarrow> nat \<Rightarrow> 'a dvbdemux_scheme \<Rightarrow> (nat \<times> output_st) option" where
  "map_es_pid B p es pid s =
     (if \<not> b_do_remap s \<and> \<not> b_cfg_do_remap (config p) then Some (pid, p)
      else do {
        base \<leftarrow> new_base B p es pid s;
        if base = 0 then Some (pid, p)
        else do {
          n \<leftarrow> free_pid (pi_freepids p) base;
          ensure (pid < MAX_PIDS);
          Some (n, p\<lparr>pi_freepids := (pi_freepids p)(n := pid),
                    pi_newpids := (pi_newpids p)(pid := n)\<rparr>) } })"

subsection \<open>The virtual methods as \<open>cLdvbdev\<close> defines them\<close>

definition dev_PIDIsSelected :: "'a dvbdemux_scheme \<Rightarrow> nat \<Rightarrow> int" where
  "dev_PIDIsSelected s pid = (if list_ex (\<lambda>x. x \<noteq> None) (pid_outputs (p_pids s pid)) then 1 else 0)"

definition dev_ResendCAPMTs ::
  "'b psi_lib_scheme \<Rightarrow> 'a dvbdemux_scheme \<Rightarrow> 'a dvbdemux_scheme option" where
  "dev_ResendCAPMTs B s = ofold (\<lambda>i s.
     let e = pp_sids s ! i in
     case p_current_pmt e of
       None \<Rightarrow> Some s
     | Some pmt \<Rightarrow>
         if SIDIsSelected (sid_sid e) s then do {
           d \<leftarrow> PMTNeedsDescrambling B pmt;
           if d then en50221_AddPMT B dev_PIDIsSelected pmt s else Some s }
         else Some s) [0..<length (pp_sids s)] s"

end
