(* ===== verification/Dvb_Tables.thy ===== *)
theory Dvb_Tables
  imports Dvb_Demux
begin

unbundle bit_operations_syntax

text \<open>
  The tables an output sends: cutting a section into TS packets (\<open>OutputPSISection\<close>), sending
  them on time (\<open>SendPAT\<close> to \<open>SendEMM\<close>), and building the PAT, PMT, NIT and SDT of one output
  (\<open>NewPAT\<close> to \<open>NewSDT\<close>). A section under construction is the buffer of \<open>psi_allocate\<close>; a getter
  that returns NULL where the code dereferences the result is undefined (\<open>None\<close>).
\<close>

subsection \<open>Cutting a section into packets\<close>

text \<open>The continuity counter a table uses (\<open>pi_cc\<close>).\<close>

datatype cc_field = CcPat | CcPmt | CcNit | CcSdt | CcEit

fun get_cc :: "cc_field \<Rightarrow> output_st \<Rightarrow> nat" where
  "get_cc CcPat p = i_pat_cc p"
| "get_cc CcPmt p = i_pmt_cc p"
| "get_cc CcNit p = i_nit_cc p"
| "get_cc CcSdt p = i_sdt_cc p"
| "get_cc CcEit p = i_eit_cc p"

fun set_cc :: "cc_field \<Rightarrow> nat \<Rightarrow> output_st \<Rightarrow> output_st" where
  "set_cc CcPat n p = p\<lparr>i_pat_cc := n\<rparr>"
| "set_cc CcPmt n p = p\<lparr>i_pmt_cc := n\<rparr>"
| "set_cc CcNit n p = p\<lparr>i_nit_cc := n\<rparr>"
| "set_cc CcSdt n p = p\<lparr>i_sdt_cc := n\<rparr>"
| "set_cc CcEit n p = p\<lparr>i_eit_cc := n\<rparr>"

definition section_length :: "'b psi_lib_scheme \<Rightarrow> bytes \<Rightarrow> nat" where
  "section_length B sec = psi_get_length B sec + PSI_HEADER_SIZE B"

text \<open>The block to fill: the output's EIT buffer, where the table has one, or a new block.\<close>

definition psi_block ::
  "nat \<Rightarrow> mtime \<Rightarrow> bool \<Rightarrow> 'a dvboutput_scheme \<Rightarrow> (nat \<times> nat \<times> bool \<times> 'a dvboutput_scheme) option" where
  "psi_block n dts buffered s =
     (case (if buffered then p_eit_ts_buffer (pp_outputs s ! n) else None) of
        Some b \<Rightarrow> if allocd s b then Some (b, i_eit_ts_buffer_offset (pp_outputs s ! n), True, s) else None
      | None \<Rightarrow> do {
          (b, s) \<leftarrow> block_New s;
          Some (b, 0, False, upd_block b (\<lambda>k. k\<lparr>bk_dts := dts\<rparr>) s) })"

definition psi_put ::
  "'b psi_lib_scheme \<Rightarrow> nat \<Rightarrow> nat \<Rightarrow> mtime \<Rightarrow> bool \<Rightarrow> 'a dvboutput_scheme \<Rightarrow> 'a dvboutput_scheme option" where
  "psi_put B n b dts buffered s = do {
     let s = upd_block b (\<lambda>k. k\<lparr>bk_dts := dts, bk_refcount := bk_refcount k - 1\<rparr>) s;
     s \<leftarrow> output_Put B (Nth n) b s;
     Some (if buffered then upd_out (Nth n) (\<lambda>p. p\<lparr>p_eit_ts_buffer := None, i_eit_ts_buffer_offset := 0\<rparr>) s
           else s) }"

text \<open>One turn of the loop: the new offset in the section, and whether the loop is left by \<open>break\<close>.\<close>

definition psi_step ::
  "'b psi_lib_scheme \<Rightarrow> nat \<Rightarrow> bytes \<Rightarrow> nat \<Rightarrow> cc_field \<Rightarrow> mtime \<Rightarrow> bool \<Rightarrow> nat \<Rightarrow>
   'a dvboutput_scheme \<Rightarrow> (bool \<times> nat \<times> 'a dvboutput_scheme) option" where
  "psi_step B n sec pid cc dts buffered off s = do {
     (b, ts_off, append, s) \<leftarrow> psi_block n dts buffered s;
     let (ts, ts_off, off) = psi_split_section B (bk_ts (mem s b)) ts_off sec off;
     let c = get_cc cc (pp_outputs s ! n);
     let ts = (if append then ts else ts_set_cc B c (ts_set_pid B pid ts));
     let s = upd_block b (\<lambda>k. k\<lparr>bk_ts := ts\<rparr>) s;
     let s = (if append then s else upd_out (Nth n) (set_cc cc ((c + 1) mod 16)) s);
     if off = section_length B sec \<and> ts_off < TS_SIZE - PSI_HEADER_SIZE_SYNTAX1 B \<and> buffered
     then Some (True, off, upd_out (Nth n) (\<lambda>p. p\<lparr>p_eit_ts_buffer := Some b, i_eit_ts_buffer_offset := ts_off\<rparr>) s)
     else do {
       let s = (if off = section_length B sec
                then upd_block b (\<lambda>k. k\<lparr>bk_ts := fst (psi_split_end B (bk_ts k) ts_off)\<rparr>) s else s);
       s \<leftarrow> psi_put B n b dts buffered s;
       Some (False, off, s) } }"

partial_function (option) psi_loop ::
  "'b psi_lib_scheme \<Rightarrow> nat \<Rightarrow> bytes \<Rightarrow> nat \<Rightarrow> cc_field \<Rightarrow> mtime \<Rightarrow> bool \<Rightarrow> nat \<Rightarrow>
   'a dvboutput_scheme \<Rightarrow> 'a dvboutput_scheme option" where
  "psi_loop B n sec pid cc dts buffered off s = do {
     (stop, off, s) \<leftarrow> psi_step B n sec pid cc dts buffered off s;
     if stop \<or> section_length B sec \<le> off then Some s
     else psi_loop B n sec pid cc dts buffered off s }"

definition OutputPSISection ::
  "'b psi_lib_scheme \<Rightarrow> nat \<Rightarrow> bytes \<Rightarrow> nat \<Rightarrow> cc_field \<Rightarrow> mtime \<Rightarrow> bool \<Rightarrow>
   'a dvboutput_scheme \<Rightarrow> 'a dvboutput_scheme option" where
  "OutputPSISection B n sec pid cc dts buffered s = do {
     ensure (n < length (pp_outputs s));
     psi_loop B n sec pid cc dts buffered 0 s }"

subsection \<open>Sending the tables\<close>

definition send_section ::
  "'b psi_lib_scheme \<Rightarrow> nat \<Rightarrow> bytes option \<Rightarrow> nat \<Rightarrow> cc_field \<Rightarrow> mtime \<Rightarrow> 'a dvboutput_scheme \<Rightarrow> 'a dvboutput_scheme option" where
  "send_section B n sec pid cc dts s =
     (case sec of None \<Rightarrow> Some s | Some x \<Rightarrow> OutputPSISection B n x pid cc dts False s)"

text \<open>The PAT of an output whose program does not exist: no programs at all.\<close>

definition empty_pat :: "'b psi_lib_scheme \<Rightarrow> 16 word \<Rightarrow> byte \<Rightarrow> bytes" where
  "empty_pat B tsid v = psi_set_crc B (psi_set_lastsection B 0 (psi_set_section B 0 (psi_set_current B
     (psi_set_version B v (pat_set_tsid B tsid (pat_set_length B 0 (pat_init B (psi_allocate B))))))))"

definition SendPAT :: "'b psi_lib_scheme \<Rightarrow> mtime \<Rightarrow> 'a dvbdemux_scheme \<Rightarrow> 'a dvbdemux_scheme option" where
  "SendPAT B dts s = for_outputs (\<lambda>i s.
     let p = pp_outputs s ! i in
     if \<not> out_valid p \<or> b_passthrough (config p) then Some s
     else (let s = (if p_pat_section p = None \<and> psi_table_validate B (current_pat s)
                    then upd_out (Nth i) (\<lambda>p. p\<lparr>i_pat_version := i_pat_version p + 1,
                           p_pat_section := Some (empty_pat B (i_tsid p) (i_pat_version p + 1))\<rparr>) s
                    else s)
           in send_section B i (p_pat_section (pp_outputs s ! i)) (PAT_PID B) CcPat dts s)) s"

text \<open>The PID of the PMT, once changed for an output, stays so for the outputs after it.\<close>

definition SendPMT ::
  "'b psi_lib_scheme \<Rightarrow> sid_entry \<Rightarrow> mtime \<Rightarrow> 'a dvbdemux_scheme \<Rightarrow> 'a dvbdemux_scheme option" where
  "SendPMT B e dts s = map_option snd (ofold (\<lambda>i (pid, s).
     let p = pp_outputs s ! i in
     if on_sid (sid_sid e) p \<and> p_pmt_section p \<noteq> None
     then do {
       let pid = (if b_cfg_do_remap (config p) \<and> pi_confpids (config p) ! I_PMTPID \<noteq> 0
                  then pi_confpids (config p) ! I_PMTPID else pid);
       s \<leftarrow> send_section B i (p_pmt_section p) pid CcPmt dts s;
       Some (pid, s) }
     else Some (pid, s)) [0..<length (pp_outputs s)]
     (if b_do_remap s then g_newpids s ! I_PMTPID else sid_pmt_pid e, s))"

definition dvb_output :: "output_st \<Rightarrow> bool" where
  "dvb_output p \<longleftrightarrow> out_valid p \<and> \<not> b_passthrough (config p) \<and> has_flag (i_config (config p)) OUTPUT_DVB"

definition SendNIT :: "'b psi_lib_scheme \<Rightarrow> mtime \<Rightarrow> 'a dvbdemux_scheme \<Rightarrow> 'a dvbdemux_scheme option" where
  "SendNIT B dts s = for_outputs (\<lambda>i s.
     let p = pp_outputs s ! i in
     if dvb_output p then send_section B i (p_nit_section p) (NIT_PID B) CcNit dts s else Some s) s"

definition SendSDT :: "'b psi_lib_scheme \<Rightarrow> mtime \<Rightarrow> 'a dvbdemux_scheme \<Rightarrow> 'a dvbdemux_scheme option" where
  "SendSDT B dts s = for_outputs (\<lambda>i s.
     let p = pp_outputs s ! i in
     if dvb_output p then send_section B i (p_sdt_section p) (SDT_PID B) CcSdt dts s else Some s) s"

definition handle_epg :: "'b psi_lib_scheme \<Rightarrow> nat \<Rightarrow> bool" where
  "handle_epg B t \<longleftrightarrow> t = EIT_TABLE_ID_PF_ACTUAL B
     \<or> EIT_TABLE_ID_SCHED_ACTUAL_FIRST B \<le> t \<and> t \<le> EIT_TABLE_ID_SCHED_ACTUAL_LAST B"

text \<open>The EIT is rewritten in place for each output in turn; the caller sees the last version.\<close>

definition out_sid :: "output_st \<Rightarrow> 16 word" where
  "out_sid p = (if i_new_sid (config p) \<noteq> 0 then i_new_sid (config p) else i_sid (config p))"

definition retag_eit :: "'b psi_lib_scheme \<Rightarrow> output_st \<Rightarrow> bytes \<Rightarrow> bytes" where
  "retag_eit B p eit =
     (let eit = eit_set_sid B (out_sid p) (eit_set_tsid B (i_tsid p) eit);
          eit = (if i_onid (config p) \<noteq> 0 then eit_set_onid B (i_onid (config p)) eit else eit)
      in psi_set_crc B eit)"

definition SendEIT ::
  "'b psi_lib_scheme \<Rightarrow> sid_entry \<Rightarrow> mtime \<Rightarrow> bytes \<Rightarrow> 'a dvbdemux_scheme \<Rightarrow> (bytes \<times> 'a dvbdemux_scheme) option" where
  "SendEIT B e dts eit s =
     (let epg = handle_epg B (psi_get_tableid B eit); onid = eit_get_onid B eit in
      ofold (\<lambda>i (eit, s).
        let p = pp_outputs s ! i in
        if dvb_output p \<and> (epg \<longrightarrow> has_flag (i_config (config p)) OUTPUT_EPG)
           \<and> i_sid (config p) = sid_sid e
        then do {
          let eit = retag_eit B p eit;
          s \<leftarrow> OutputPSISection B i eit (EIT_PID B) CcEit dts True s;
          Some (if i_onid (config p) \<noteq> 0 then eit_set_onid B onid eit else eit, s) }
        else Some (eit, s)) [0..<length (pp_outputs s)] (eit, s))"

definition FlushEIT ::
  "'b psi_lib_scheme \<Rightarrow> nat \<Rightarrow> mtime \<Rightarrow> 'a dvbdemux_scheme \<Rightarrow> 'a dvbdemux_scheme option" where
  "FlushEIT B n dts s = do {
     p \<leftarrow> rd (pp_outputs s) n;
     b \<leftarrow> p_eit_ts_buffer p;
     ensure (allocd s b);
     let s = upd_block b (\<lambda>k. k\<lparr>bk_ts := fst (psi_split_end B (bk_ts k) (i_eit_ts_buffer_offset p))\<rparr>) s;
     psi_put B n b dts True s }"

definition SendTDT :: "'b psi_lib_scheme \<Rightarrow> nat \<Rightarrow> 'a dvbdemux_scheme \<Rightarrow> 'a dvbdemux_scheme option" where
  "SendTDT B b s = for_outputs (\<lambda>i s.
     let p = pp_outputs s ! i in
     if dvb_output p \<and> p_sdt_section p \<noteq> None then output_Put B (Nth i) b s else Some s) s"

definition SendEMM :: "'b psi_lib_scheme \<Rightarrow> nat \<Rightarrow> 'a dvbdemux_scheme \<Rightarrow> 'a dvbdemux_scheme option" where
  "SendEMM B b s = for_outputs (\<lambda>i s.
     let p = pp_outputs s ! i in
     if out_valid p \<and> \<not> b_passthrough (config p) then output_Put B (Nth i) b s else Some s) s"

subsection \<open>The PAT of an output\<close>

definition out_pmt_pid :: "'a dvbdemux_scheme \<Rightarrow> output_st \<Rightarrow> nat \<Rightarrow> nat" where
  "out_pmt_pid s p pid =
     (if b_do_remap s then g_newpids s ! I_PMTPID
      else if b_cfg_do_remap (config p) \<and> pi_confpids (config p) ! I_PMTPID \<noteq> 0
      then pi_confpids (config p) ! I_PMTPID
      else pid)"

definition patn_put :: "'b psi_lib_scheme \<Rightarrow> nat \<Rightarrow> 16 word \<Rightarrow> nat \<Rightarrow> bytes \<Rightarrow> bytes option" where
  "patn_put B k sid pid sec = do {
     off \<leftarrow> pat_get_program B sec k;
     Some (upd_at off (\<lambda>q. patn_set_pid B pid (patn_set_program B sid (patn_init B q))) sec) }"

definition build_pat :: "'b psi_lib_scheme \<Rightarrow> output_st \<Rightarrow> nat \<Rightarrow> bytes option" where
  "build_pat B p pid = do {
     let sec = psi_set_lastsection B 0 (psi_set_section B 0 (psi_set_current B
           (psi_set_version B (i_pat_version p) (pat_set_tsid B (i_tsid p)
             (psi_set_length B (PSI_MAX_SIZE B) (pat_init B (psi_allocate B)))))));
     let dvb = has_flag (i_config (config p)) OUTPUT_DVB;
     sec \<leftarrow> (if dvb then patn_put B 0 0 (NIT_PID B) sec else Some sec);
     let k = (if dvb then 1 else 0);
     sec \<leftarrow> patn_put B k (out_sid p) pid sec;
     off \<leftarrow> pat_get_program B sec (k + 1);
     Some (psi_set_crc B (pat_set_length B (off - PAT_HEADER_SIZE B) sec)) }"

definition NewPAT :: "'b psi_lib_scheme \<Rightarrow> nat \<Rightarrow> 'a dvbdemux_scheme \<Rightarrow> 'a dvbdemux_scheme option" where
  "NewPAT B n s = do {
     p \<leftarrow> rd (pp_outputs s) n;
     let p = p\<lparr>p_pat_section := None, i_pat_version := i_pat_version p + 1\<rparr>;
     p \<leftarrow>
       (if i_sid (config p) = 0 \<or> \<not> psi_table_validate B (current_pat s) then Some p
        else (case pat_table_find_program B (current_pat s) (i_sid (config p)) of
                None \<Rightarrow> Some p
              | Some prog \<Rightarrow> do {
                  sec \<leftarrow> build_pat B p (out_pmt_pid s p (patn_get_pid B prog));
                  Some (p\<lparr>p_pat_section := Some sec\<rparr>) }));
     Some (upd_out (Nth n) (\<lambda>_. p) s) }"

subsection \<open>The PMT of an output\<close>

text \<open>Copies the descriptors of a loop, CA descriptors only when ECMs are passed on.\<close>

definition copy_desc :: "'b psi_lib_scheme \<Rightarrow> bool \<Rightarrow> bytes \<Rightarrow> nat \<times> bytes \<Rightarrow> (nat \<times> bytes) option" where
  "copy_desc B ecm d = (\<lambda>(k, descs).
     if \<not> ecm \<and> desc_get_tag B d = 0x9 then Some (k, descs)
     else (case descs_get_desc B descs k of
             None \<Rightarrow> Some (k, descs)
           | Some off \<Rightarrow> do {
               src \<leftarrow> peek 0 (DESC_HEADER_SIZE B + desc_get_length B d) d;
               descs \<leftarrow> blit off src descs;
               Some ((k + 1) mod 65536, descs) }))"

definition CopyDescriptors :: "'b psi_lib_scheme \<Rightarrow> bool \<Rightarrow> bytes \<Rightarrow> bytes \<Rightarrow> bytes option" where
  "CopyDescriptors B ecm descs cur = do {
     ds \<leftarrow> elements 65536 (descs_get_desc B) cur;
     (k, descs) \<leftarrow> ofold (copy_desc B ecm) ds (0, descs_set_length B (DESCS_MAX_SIZE B) descs);
     Some (case descs_get_desc B descs k of
             None \<Rightarrow> descs_set_length B 0 descs
           | Some off \<Rightarrow> descs_set_length B (off - DESCS_HEADER_SIZE B) descs) }"

definition es_wanted ::
  "'b psi_lib_scheme \<Rightarrow> nat list \<Rightarrow> bytes \<Rightarrow> 'a dvbdemux_scheme \<Rightarrow> bool option" where
  "es_wanted B pids es s =
     (if pids \<noteq> [] then Some (IsIn pids (pmtn_get_pid B es))
      else PIDWouldBeSelected B es s)"

definition pmt_add_es ::
  "'b psi_lib_scheme \<Rightarrow> 'a dvbdemux_scheme \<Rightarrow> bytes \<Rightarrow> nat \<times> bytes \<times> output_st \<Rightarrow> (nat \<times> bytes \<times> output_st) option" where
  "pmt_add_es B s es = (\<lambda>(k, sec, p). do {
     want \<leftarrow> es_wanted B (pi_pids (config p)) es s;
     if \<not> want then Some (k, sec, p)
     else (case pmt_get_es B sec k of
             None \<Rightarrow> Some (k, sec, p)
           | Some off \<Rightarrow> do {
               (pid, p) \<leftarrow> map_es_pid B p es (pmtn_get_pid B es) s;
               let q = pmtn_set_desclength B 0 (pmtn_set_pid B pid
                         (pmtn_set_streamtype B (pmtn_get_streamtype B es) (pmtn_init B (drop off sec))));
               let d = pmtn_get_descs B q;
               descs \<leftarrow> CopyDescriptors B (b_enable_ecm s) (drop d q) (drop (pmtn_get_descs B es) es);
               Some ((k + 1) mod 65536, take off sec @ take d q @ descs, p) }) })"

definition build_pmt ::
  "'b psi_lib_scheme \<Rightarrow> output_st \<Rightarrow> bytes \<Rightarrow> 'a dvbdemux_scheme \<Rightarrow> (bytes \<times> output_st) option" where
  "build_pmt B p cur s = do {
     let sec = pmt_set_desclength B 0 (psi_set_current B (psi_set_version B (i_pmt_version p)
           (pmt_set_program B (out_sid p) (psi_set_length B (PSI_MAX_SIZE B) (pmt_init B (psi_allocate B))))));
     let p = init_pid_mapping p;
     let d = pmt_get_descs B sec;
     descs \<leftarrow> CopyDescriptors B (b_enable_ecm s) (drop d sec) (drop (pmt_get_descs B cur) cur);
     ess \<leftarrow> elements 65536 (pmt_get_es B) cur;
     (k, sec, p) \<leftarrow> ofold (pmt_add_es B s) ess (0, take d sec @ descs, p);
     let pcr = pmt_get_pcrpid B cur;
     ensure (pcr < MAX_PIDS);
     let pcr = (if pi_newpids p pcr \<noteq> UNUSED_PID then pi_newpids p pcr else pcr);
     let sec = pmt_set_pcrpid B pcr sec;
     let sec = (case pmt_get_es B sec k of
                  None \<Rightarrow> pmt_set_length B 0 sec
                | Some off \<Rightarrow> pmt_set_length B (off - PMT_HEADER_SIZE B) sec);
     Some (psi_set_crc B sec, p) }"

definition NewPMT :: "'b psi_lib_scheme \<Rightarrow> nat \<Rightarrow> 'a dvbdemux_scheme \<Rightarrow> 'a dvbdemux_scheme option" where
  "NewPMT B n s = do {
     p \<leftarrow> rd (pp_outputs s) n;
     let p = p\<lparr>p_pmt_section := None, i_pmt_version := i_pmt_version p + 1\<rparr>;
     p \<leftarrow>
       (if i_sid (config p) = 0 then Some p
        else (case FindSID (i_sid (config p)) s of
                None \<Rightarrow> Some p
              | Some i \<Rightarrow>
                  (case p_current_pmt (pp_sids s ! i) of
                     None \<Rightarrow> Some p
                   | Some cur \<Rightarrow> do {
                       (sec, p) \<leftarrow> build_pmt B p cur s;
                       Some (p\<lparr>p_pmt_section := Some sec\<rparr>) })));
     Some (upd_out (Nth n) (\<lambda>_. p) s) }"

subsection \<open>The NIT of an output\<close>

definition nit_network_name :: "'b psi_lib_scheme \<Rightarrow> bytes \<Rightarrow> bytes \<Rightarrow> bytes option" where
  "nit_network_name B name sec = do {
     let sec = nit_set_desclength B (DESCS_MAX_SIZE B) sec;
     let d = nit_get_descs B sec;
     off \<leftarrow> descs_get_desc B (drop d sec) 0;
     let sec = upd_at (d + off) (\<lambda>q. desc40_set_networkname B name (desc40_init B q)) sec;
     off \<leftarrow> descs_get_desc B (drop d sec) 1;
     Some (upd_at d (descs_set_length B (off - DESCS_HEADER_SIZE B)) sec) }"

definition build_nit :: "'b psi_lib_scheme \<Rightarrow> output_st \<Rightarrow> bytes option" where
  "build_nit B p = do {
     let c = config p;
     let sec = psi_set_lastsection B 0 (psi_set_section B 0 (psi_set_current B (psi_set_version B (i_nit_version p)
           (nit_set_nid B (i_cfg_network_id c) (nit_set_length B (PSI_MAX_SIZE B) (nit_init B True (psi_allocate B)))))));
     sec \<leftarrow> (if network_name c \<noteq> [] then nit_network_name B (network_name c) sec
             else Some (nit_set_desclength B 0 sec));
     let sec = upd_at (nit_get_header2 B sec) (\<lambda>q. nith_set_tslength B (NIT_TS_SIZE B) (nith_init B q)) sec;
     off \<leftarrow> nit_get_ts B sec 0;
     let onid = (if i_onid c \<noteq> 0 then i_onid c else i_cfg_network_id c);
     let sec = upd_at off (\<lambda>q. nitn_set_desclength B 0 (nitn_set_onid B onid (nitn_set_tsid B (i_tsid p) (nitn_init B q)))) sec;
     let sec = (case nit_get_ts B sec 1 of
                  None \<Rightarrow> nit_set_length B 0 sec
                | Some off \<Rightarrow> nit_set_length B (off - NIT_HEADER_SIZE B) sec);
     Some (psi_set_crc B sec) }"

definition NewNIT :: "'b psi_lib_scheme \<Rightarrow> nat \<Rightarrow> 'a dvboutput_scheme \<Rightarrow> 'a dvboutput_scheme option" where
  "NewNIT B n s = do {
     p \<leftarrow> rd (pp_outputs s) n;
     let p = p\<lparr>p_nit_section := None, i_nit_version := i_nit_version p + 1\<rparr>;
     sec \<leftarrow> build_nit B p;
     Some (upd_out (Nth n) (\<lambda>_. p\<lparr>p_nit_section := Some sec\<rparr>) s) }"

subsection \<open>The SDT of an output\<close>

definition name_or :: "bytes \<Rightarrow> bytes \<Rightarrow> bytes" where
  "name_or name old = (if name \<noteq> [] then name else old)"

text \<open>A length in a \<open>uint8_t\<close>, as the name setters take it and the descriptor length is kept.\<close>

definition name8 :: "bytes \<Rightarrow> bytes" where
  "name8 name = take (length name mod 256) name"

text \<open>The service descriptor with the configured names, at place \<open>pos\<close> of the section.\<close>

definition sdt_service_desc ::
  "'b psi_lib_scheme \<Rightarrow> output_config \<Rightarrow> bytes \<Rightarrow> nat \<Rightarrow> bytes \<Rightarrow> nat \<times> bytes" where
  "sdt_service_desc B c d pos sec =
     (let prov = name_or (provider_name c) (desc48_get_provider B d);
          serv = name_or (service_name c) (desc48_get_service B d);
          n = (3 + length prov + length serv) mod 256;
          sec = upd_at pos (\<lambda>q. desc_set_length B n (desc48_set_service B (name8 serv)
                  (desc48_set_provider B (name8 prov) (desc48_set_type B (desc48_get_type B d) (desc48_init B q))))) sec
      in (DESC_HEADER_SIZE B + n, sec))"

definition sdt_add_desc ::
  "'b psi_lib_scheme \<Rightarrow> output_config \<Rightarrow> bytes \<Rightarrow> nat option \<times> nat \<times> bytes \<Rightarrow> (nat option \<times> nat \<times> bytes) option" where
  "sdt_add_desc B c d = (\<lambda>(pos, total, sec). do {
     pos \<leftarrow> pos;
     (n, sec) \<leftarrow>
       (if desc_get_tag B d = 0x48 \<and> desc48_validate B d
        then (if pos \<le> length sec then Some (sdt_service_desc B c d pos sec) else None)
        else do {
          let n = DESC_HEADER_SIZE B + desc_get_length B d;
          src \<leftarrow> peek 0 n d;
          sec \<leftarrow> blit pos src sec;
          Some (n, sec) });
     Some (Some (pos + n), total + n, sec) })"

text \<open>A copy of length 0 does nothing, whatever its pointers are.\<close>

definition sdt_copy_descs :: "'b psi_lib_scheme \<Rightarrow> bytes \<Rightarrow> nat \<Rightarrow> bytes \<Rightarrow> bytes option" where
  "sdt_copy_descs B cur off sec =
     (let n = sdtn_get_desclength B cur; co = sdtn_get_descs B cur; d = off + sdtn_get_descs B (drop off sec) in
      if n = 0 then Some sec
      else do {
        src_off \<leftarrow> descs_get_desc B (drop co cur) 0;
        src \<leftarrow> peek (co + src_off) n cur;
        dst \<leftarrow> descs_get_desc B (drop d sec) 0;
        blit (d + dst) src sec })"

definition sdt_new_descs :: "'b psi_lib_scheme \<Rightarrow> output_config \<Rightarrow> bytes \<Rightarrow> nat \<Rightarrow> bytes \<Rightarrow> bytes option" where
  "sdt_new_descs B c cur off sec = do {
     let d = off + sdtn_get_descs B (drop off sec);
     ds \<leftarrow> elements (2 ^ 31) (descs_get_desc B) (drop (sdtn_get_descs B cur) cur);
     (_, total, sec) \<leftarrow> ofold (sdt_add_desc B c) ds
       (map_option (\<lambda>o1. d + o1) (descs_get_desc B (drop d sec) 0), 0, sec);
     Some (upd_at off (sdtn_set_desclength B total) sec) }"

definition build_sdt ::
  "'b psi_lib_scheme \<Rightarrow> output_st \<Rightarrow> bytes \<Rightarrow> 16 word \<Rightarrow> bytes option" where
  "build_sdt B p cur onid = do {
     let c = config p;
     let sec = sdt_set_onid B onid (psi_set_lastsection B 0 (psi_set_section B 0 (psi_set_current B
           (psi_set_version B (i_sdt_version p) (sdt_set_tsid B (i_tsid p)
             (sdt_set_length B (PSI_MAX_SIZE B) (sdt_init B True (psi_allocate B))))))));
     off \<leftarrow> sdt_get_service B sec 0;
     let sec = upd_at off (\<lambda>q.
           let q = sdtn_set_sid B (out_sid p) (sdtn_init B q);
               q = (if sdtn_get_eitpresent B cur then sdtn_set_eitpresent B q else q);
               q = (if has_flag (i_config c) OUTPUT_EPG \<and> sdtn_get_eitschedule B cur
                    then sdtn_set_eitschedule B q else q);
               q = sdtn_set_running B (sdtn_get_running B cur) q
           in sdtn_set_desclength B (sdtn_get_desclength B cur) q) sec;
     sec \<leftarrow> (if provider_name c = [] \<and> service_name c = [] then sdt_copy_descs B cur off sec
             else sdt_new_descs B c cur off sec);
     let sec = (case sdt_get_service B sec 1 of
                  None \<Rightarrow> sdt_set_length B 0 sec
                | Some off \<Rightarrow> sdt_set_length B (off - SDT_HEADER_SIZE B) sec);
     Some (psi_set_crc B sec) }"

text \<open>The service is gone: an empty PAT goes with it, so that the next one is built anew.\<close>

definition drop_empty_pat :: "'b psi_lib_scheme \<Rightarrow> output_st \<Rightarrow> output_st" where
  "drop_empty_pat B p = (case p_pat_section p of
       None \<Rightarrow> p
     | Some pat \<Rightarrow> if pat_get_program B pat 0 = None
                   then p\<lparr>p_pat_section := None, i_pat_version := i_pat_version p + 1\<rparr> else p)"

definition NewSDT :: "'b psi_lib_scheme \<Rightarrow> nat \<Rightarrow> 'a dvbdemux_scheme \<Rightarrow> 'a dvbdemux_scheme option" where
  "NewSDT B n s = do {
     p \<leftarrow> rd (pp_outputs s) n;
     let p = p\<lparr>p_sdt_section := None, i_sdt_version := i_sdt_version p + 1\<rparr>;
     p \<leftarrow>
       (if i_sid (config p) = 0 \<or> \<not> psi_table_validate B (current_sdt s) then Some p
        else (case sdt_table_find_service B (current_sdt s) (i_sid (config p)) of
                None \<Rightarrow> Some (drop_empty_pat B p)
              | Some cur \<Rightarrow> do {
                  onid \<leftarrow> (if i_onid (config p) \<noteq> 0 then Some (i_onid (config p))
                           else map_option (sdt_get_onid B) (psi_table_get_section B (current_sdt s) 0));
                  sec \<leftarrow> build_sdt B p cur onid;
                  Some (p\<lparr>p_sdt_section := Some sec\<rparr>) }));
     Some (upd_out (Nth n) (\<lambda>_. p) s) }"

subsection \<open>Updating the tables of the outputs of a program\<close>

definition update_outputs ::
  "(nat \<Rightarrow> 'a dvboutput_scheme \<Rightarrow> 'a dvboutput_scheme option) \<Rightarrow> 16 word \<Rightarrow> 'a dvboutput_scheme \<Rightarrow> 'a dvboutput_scheme option" where
  "update_outputs new sid s = for_outputs (\<lambda>i s. if on_sid sid (pp_outputs s ! i) then new i s else Some s) s"

definition UpdatePAT :: "'b psi_lib_scheme \<Rightarrow> 16 word \<Rightarrow> 'a dvbdemux_scheme \<Rightarrow> 'a dvbdemux_scheme option" where
  "UpdatePAT B = update_outputs (NewPAT B)"

definition UpdatePMT :: "'b psi_lib_scheme \<Rightarrow> 16 word \<Rightarrow> 'a dvbdemux_scheme \<Rightarrow> 'a dvbdemux_scheme option" where
  "UpdatePMT B = update_outputs (NewPMT B)"

definition UpdateSDT :: "'b psi_lib_scheme \<Rightarrow> 16 word \<Rightarrow> 'a dvbdemux_scheme \<Rightarrow> 'a dvbdemux_scheme option" where
  "UpdateSDT B = update_outputs (NewSDT B)"

definition UpdateTSID :: "'b psi_lib_scheme \<Rightarrow> 'a dvbdemux_scheme \<Rightarrow> 'a dvbdemux_scheme option" where
  "UpdateTSID B s =
     (let tsid = psi_table_get_tableidext B (current_pat s) in
      for_outputs (\<lambda>i s.
        let p = pp_outputs s ! i in
        if out_valid p \<and> i_cfg_tsid (config p) = -1 \<and> \<not> b_random_tsid s
        then NewNIT B i (upd_out (Nth i) (\<lambda>p. p\<lparr>i_tsid := tsid\<rparr>) s) else Some s) s)"

end
