(* ===== verification/Dvb_Atsc.thy ===== *)
theory Dvb_Atsc
  imports Dvb_Prelude
begin

unbundle bit_operations_syntax

text \<open>
  Reading bit fields of ATSC tables (\<open>cLdvbatsc.c\<close>). \<open>getBits\<close> works on a 32-bit accumulator;
  reading past the buffer and shifting by a negative amount are undefined (\<open>None\<close>).
\<close>

definition CRC_LEN :: nat where "CRC_LEN = 4"

definition bits_load :: "bytes \<Rightarrow> 32 word" where
  "bits_load bs = foldl (\<lambda>t b. push_bit 8 t OR ucast b) 0 bs"

definition getBits :: "bytes \<Rightarrow> nat \<Rightarrow> nat \<Rightarrow> 32 word option" where
  "getBits buf startbit bitlen = do {
     let k = startbit div 8;
     let sb = startbit mod 8;
     let n = (bitlen - 1) div 8 + 1;
     ensure (k + n \<le> length buf);
     ensure (sb + bitlen \<le> 8 * n);
     Some (drop_bit (8 * n - sb - bitlen) (bits_load (take n (drop k buf))) AND mask bitlen) }"

definition get_bits :: "bytes \<Rightarrow> nat \<Rightarrow> nat \<Rightarrow> nat option" where
  "get_bits buf i n = map_option unat (getBits buf i n)"

record extended_channel_name_descriptor =
  ecn_tag :: nat
  ecn_length :: nat
  ecn_todo :: nat

record service_location_descriptor =
  sld_tag :: nat
  sld_length :: nat
  sld_reserved :: nat
  sld_pcr_pid :: nat
  sld_number_elements :: nat

record service_location_element =
  sle_stream_type :: nat
  sle_reserved :: nat
  sle_elementary_pid :: nat
  sle_language :: nat

record tvct_channel =
  tc_short_name :: "nat list"
  tc_major :: nat
  tc_minor :: nat
  tc_modulation_mode :: nat
  tc_carrier_frequency :: nat
  tc_channel_TSID :: nat
  tc_program_number :: nat
  tc_ETM_location :: nat
  tc_access_controlled :: nat
  tc_hidden :: nat
  tc_hide_guide :: nat
  tc_service_type :: nat
  tc_source_id :: nat
  tc_descriptors_length :: nat

definition read_extended_channel_name_descriptor :: "bytes \<Rightarrow> extended_channel_name_descriptor option" where
  "read_extended_channel_name_descriptor b = do {
     t \<leftarrow> get_bits b 0 8; l \<leftarrow> get_bits b 8 8; x \<leftarrow> get_bits b 16 1;
     Some \<lparr>ecn_tag = t, ecn_length = l, ecn_todo = x\<rparr> }"

definition read_service_location_descriptor :: "bytes \<Rightarrow> service_location_descriptor option" where
  "read_service_location_descriptor b = do {
     t \<leftarrow> get_bits b 0 8; l \<leftarrow> get_bits b 8 8; r \<leftarrow> get_bits b 16 3; p \<leftarrow> get_bits b 19 13; n \<leftarrow> get_bits b 32 8;
     Some \<lparr>sld_tag = t, sld_length = l, sld_reserved = r, sld_pcr_pid = p, sld_number_elements = n\<rparr> }"

definition read_service_location_element :: "bytes \<Rightarrow> service_location_element option" where
  "read_service_location_element b = do {
     t \<leftarrow> get_bits b 0 8; r \<leftarrow> get_bits b 8 3; p \<leftarrow> get_bits b 11 13; l \<leftarrow> get_bits b 24 24;
     Some \<lparr>sle_stream_type = t, sle_reserved = r, sle_elementary_pid = p, sle_language = l\<rparr> }"

text \<open>The reserved fields are read too and kept nowhere.\<close>

definition read_tvct_channel :: "bytes \<Rightarrow> tvct_channel option" where
  "read_tvct_channel b = do {
     n0 \<leftarrow> get_bits b 0 16; n1 \<leftarrow> get_bits b 16 16; n2 \<leftarrow> get_bits b 32 16; n3 \<leftarrow> get_bits b 48 16;
     n4 \<leftarrow> get_bits b 64 16; n5 \<leftarrow> get_bits b 80 16; n6 \<leftarrow> get_bits b 96 16;
     _ \<leftarrow> get_bits b 112 4;
     maj \<leftarrow> get_bits b 116 10; mnr \<leftarrow> get_bits b 126 10; modl \<leftarrow> get_bits b 136 8;
     freq \<leftarrow> get_bits b 144 32; tsid \<leftarrow> get_bits b 176 16; prog \<leftarrow> get_bits b 192 16;
     etm \<leftarrow> get_bits b 208 2; ac \<leftarrow> get_bits b 210 1; hid \<leftarrow> get_bits b 211 1; _ \<leftarrow> get_bits b 212 2;
     hg \<leftarrow> get_bits b 214 1; _ \<leftarrow> get_bits b 215 3; st \<leftarrow> get_bits b 218 6; src \<leftarrow> get_bits b 224 16;
     _ \<leftarrow> get_bits b 240 6; dl \<leftarrow> get_bits b 246 10;
     Some \<lparr>tc_short_name = [n0, n1, n2, n3, n4, n5, n6], tc_major = maj, tc_minor = mnr,
       tc_modulation_mode = modl, tc_carrier_frequency = freq, tc_channel_TSID = tsid,
       tc_program_number = prog, tc_ETM_location = etm, tc_access_controlled = ac, tc_hidden = hid,
       tc_hide_guide = hg, tc_service_type = st, tc_source_id = src, tc_descriptors_length = dl\<rparr> }"

subsection \<open>What \<open>getBits\<close> reads\<close>

text \<open>The bytes as one big-endian number, and the reference reading of a bit field of it.\<close>

definition be_nat :: "bytes \<Rightarrow> nat" where
  "be_nat bs = foldl (\<lambda>t b. 256 * t + unat b) 0 bs"

definition bit_field :: "bytes \<Rightarrow> nat \<Rightarrow> nat \<Rightarrow> nat" where
  "bit_field buf i n = be_nat buf div 2 ^ (8 * length buf - i - n) mod 2 ^ n"

lemma be_nat_snoc: "be_nat (bs @ [b]) = 256 * be_nat bs + unat b"
  by (simp add: be_nat_def)

lemma be_nat_append: "be_nat (as @ bs) = be_nat as * 2 ^ (8 * length bs) + be_nat bs"
proof (induction bs rule: rev_induct)
  case Nil
  then show ?case by (simp add: be_nat_def)
next
  case (snoc b bs)
  have "be_nat (as @ bs @ [b]) = 256 * be_nat (as @ bs) + unat b"
    using be_nat_snoc [of "as @ bs" b] by simp
  also have "\<dots> = 256 * (be_nat as * 2 ^ (8 * length bs) + be_nat bs) + unat b" using snoc by simp
  finally show ?case by (simp add: be_nat_snoc power_add algebra_simps)
qed

lemma be_nat_less: "be_nat bs < 2 ^ (8 * length bs)"
proof (induction bs rule: rev_induct)
  case Nil
  then show ?case by (simp add: be_nat_def)
next
  case (snoc b bs)
  then have "256 * be_nat bs + unat b < 256 * 2 ^ (8 * length bs)"
    using unat_byte [of b] by linarith
  then show ?case by (simp add: be_nat_snoc power_add)
qed

lemma shift_or_byte: "push_bit 8 (t :: 32 word) OR ucast (b :: byte) = 256 * t + ucast b"
proof -
  have "push_bit 8 t AND ucast b = 0"
    by (rule bit_eqI) (auto simp: bit_simps dest: bit_imp_le_length)
  then have "push_bit 8 t OR ucast b = push_bit 8 t + ucast b"
    by (simp add: disjunctive_add_eq_or)
  then show ?thesis by (simp add: push_bit_eq_mult)
qed

lemma bits_load_snoc: "bits_load (bs @ [b]) = 256 * bits_load bs + ucast b"
  by (simp add: bits_load_def shift_or_byte)

lemma bits_load_nat: "length bs \<le> 4 \<Longrightarrow> unat (bits_load bs) = be_nat bs"
proof (induction bs rule: rev_induct)
  case Nil
  then show ?case by (simp add: bits_load_def be_nat_def)
next
  case (snoc b bs)
  then have IH: "unat (bits_load bs) = be_nat bs" by simp
  have lt: "256 * be_nat bs + unat b < 2 ^ 32"
    using be_nat_less [of "bs @ [b]"] snoc.prems power_increasing [of "8 * length (bs @ [b])" 32 "2::nat"]
    by (simp add: be_nat_snoc)
  have "unat (bits_load (bs @ [b])) = (256 * be_nat bs + unat b) mod 2 ^ 32"
    by (simp add: bits_load_snoc unat_word_ariths IH unsigned_ucast_eq take_bit_eq_mod mod_simps)
  with lt show ?case by (simp add: be_nat_snoc)
qed

text \<open>The bits a field has, seen in the bytes it touches and in the whole buffer.\<close>

lemma bit_field_within:
  assumes "k + m \<le> length buf" and "8 * k \<le> i" and "i + n \<le> 8 * (k + m)"
  shows "bit_field buf i n = be_nat (take m (drop k buf)) div 2 ^ (8 * (k + m) - i - n) mod 2 ^ n"
proof -
  define a b c where "a = take k buf" and "b = take m (drop k buf)" and "c = drop (k + m) buf"
  have len: "length a = k" "length b = m" "length c = length buf - (k + m)"
    using assms(1) by (simp_all add: a_def b_def c_def)
  have "drop m (drop k buf) = c" by (simp add: c_def add.commute)
  then have buf: "buf = a @ b @ c" by (metis a_def b_def append_take_drop_id)
  define e where "e = 8 * (k + m) - i - n"
  have e: "8 * length buf - i - n = e + 8 * length c" using assms len by (simp add: e_def)
  have "be_nat buf div 2 ^ (8 * length c) = be_nat (a @ b)"
    using be_nat_append [of "a @ b" c] be_nat_less [of c] buf by simp
  then have "be_nat buf div 2 ^ (8 * length buf - i - n) = be_nat (a @ b) div 2 ^ e"
    unfolding e by (metis div_mult2_eq mult.commute power_add)
  also have "\<dots> = (be_nat a * 2 ^ (8 * m) + be_nat b) div 2 ^ e" by (simp add: be_nat_append len)
  also have "\<dots> = be_nat a * 2 ^ (8 * m - e) + be_nat b div 2 ^ e"
  proof -
    have "(2::nat) ^ (8 * m) = 2 ^ (8 * m - e) * 2 ^ e"
      using assms by (simp add: e_def flip: power_add)
    then show ?thesis by (simp flip: mult.assoc)
  qed
  finally have "bit_field buf i n = (be_nat a * 2 ^ (8 * m - e) + be_nat b div 2 ^ e) mod 2 ^ n"
    by (simp add: bit_field_def)
  moreover have "n \<le> 8 * m - e" using assms by (simp add: e_def)
  then have "(2::nat) ^ n dvd be_nat a * 2 ^ (8 * m - e)" by (simp add: le_imp_power_dvd)
  then have "(be_nat a * 2 ^ (8 * m - e) + be_nat b div 2 ^ e) mod 2 ^ n = be_nat b div 2 ^ e mod 2 ^ n"
    by (metis add_cancel_left_left dvd_imp_mod_0 mod_add_left_eq)
  ultimately show ?thesis by (simp add: b_def e_def)
qed

text \<open>
  A field may not reach into one byte more than its width needs. Where it does not, and it lies
  inside the buffer, \<open>getBits\<close> reads exactly the field.
\<close>

definition aligned :: "nat \<Rightarrow> nat \<Rightarrow> bool" where
  "aligned i n \<longleftrightarrow> 0 < n \<and> n \<le> 32 \<and> i mod 8 + n \<le> 8 * ((n - 1) div 8 + 1)"

lemma get_bits_field:
  assumes "aligned i n" and "i + n \<le> 8 * length buf"
  shows "get_bits buf i n = Some (bit_field buf i n)"
proof -
  define k m where "k = i div 8" and "m = (n - 1) div 8 + 1"
  have al: "0 < n" "n \<le> 32" "i mod 8 + n \<le> 8 * m" using assms(1) by (simp_all add: aligned_def m_def)
  have i: "i = 8 * k + i mod 8" by (simp add: k_def)
  have m4: "m \<le> 4" using al(2) by (simp add: m_def)
  have "8 * (m - 1) < n" using al(1) by (simp add: m_def)
  then have km: "k + m \<le> length buf" using assms(2) i by linarith
  define e where "e = 8 * m - i mod 8 - n"
  have e: "8 * (k + m) - i - n = e" using i by (simp add: e_def)
  have "getBits buf i n = Some (drop_bit e (bits_load (take m (drop k buf))) AND mask n)"
    unfolding getBits_def Let_def k_def [symmetric] m_def [symmetric] using km al(3)
    by (simp add: e_def)
  moreover have "unat (drop_bit e (bits_load (take m (drop k buf))) AND mask n)
      = be_nat (take m (drop k buf)) div 2 ^ e mod 2 ^ n"
  proof -
    let ?w = "bits_load (take m (drop k buf))"
    have "unat (drop_bit e ?w AND mask n) = take_bit n (drop_bit e (unat ?w))"
      by (simp only: take_bit_eq_mask [symmetric] unsigned_take_bit_eq unsigned_drop_bit_eq)
        (simp add: take_bit_eq_mod mod_less unsigned_less [where 'b = 32, simplified])
    also have "unat ?w = be_nat (take m (drop k buf))" using m4 by (intro bits_load_nat) simp
    finally show ?thesis by (simp add: drop_bit_eq_div take_bit_eq_mod)
  qed
  moreover have "bit_field buf i n = be_nat (take m (drop k buf)) div 2 ^ e mod 2 ^ n"
    using bit_field_within [of k m buf i n] km i al(3) e by simp
  ultimately show ?thesis by (simp add: get_bits_def)
qed

text \<open>Otherwise the shift amount is negative.\<close>

lemma get_bits_misaligned:
  "\<not> i mod 8 + n \<le> 8 * ((n - 1) div 8 + 1) \<Longrightarrow> get_bits buf i n = None"
  by (simp add: get_bits_def getBits_def Let_def bind_eq_None_conv ensure_def)

lemma bit_field_less: "bit_field buf i n < 2 ^ n"
  by (simp add: bit_field_def)

end
