(* ===== verification/Dvb_Programs.thy ===== *)
theory Dvb_Programs
  imports Dvb_Tables Dvb_Atsc
begin

unbundle bit_operations_syntax

text \<open>
  What the demultiplexer does with the sections it gathers: programs come and go with the PAT,
  EMM PIDs with the CAT, elementary streams with the PMT (\<open>DeleteProgram\<close> to \<open>HandleSection\<close>).
  The loops over the sections of a table have an 8-bit index compared with \<open><=\<close>, so a table whose
  last section is number 255 is never left (\<open>None\<close>).
\<close>

definition table_sections :: "'b psi_lib_scheme \<Rightarrow> psi_table \<Rightarrow> nat \<Rightarrow> bytes list option" where
  "table_sections B t last_sec =
     (if 255 \<le> last_sec then None
      else those (map (psi_table_get_section B t) [0..<last_sec + 1]))"

definition when_ca ::
  "'b psi_lib_scheme \<Rightarrow> bytes option \<Rightarrow> (bytes \<Rightarrow> 'a dvbdemux_scheme \<Rightarrow> 'a dvbdemux_scheme option) \<Rightarrow>
   'a dvbdemux_scheme \<Rightarrow> 'a dvbdemux_scheme option" where
  "when_ca B pmt f s = (case pmt of None \<Rightarrow> Some s
     | Some x \<Rightarrow> do { d \<leftarrow> PMTNeedsDescrambling B x; if d then f x s else Some s })"

subsection \<open>Programs\<close>

definition delete_es ::
  "'b psi_lib_scheme \<Rightarrow> 16 word \<Rightarrow> bytes \<Rightarrow> 'a dvbdemux_scheme \<Rightarrow> 'a dvbdemux_scheme option" where
  "delete_es B sid es s = do {
     sel \<leftarrow> PIDWouldBeSelected B es s;
     s \<leftarrow> (if sel then UnselectPID sid (pmtn_get_pid B es) s else Some s);
     if b_enable_ecm s then do {
       ecm \<leftarrow> ecm_pids B (drop (pmtn_get_descs B es) es);
       ofold (UnselectPID sid) ecm s }
     else Some s }"

definition delete_pmt ::
  "'b psi_lib_scheme \<Rightarrow> 16 word \<Rightarrow> nat \<Rightarrow> bytes \<Rightarrow> 'a dvbdemux_scheme \<Rightarrow> 'a dvbdemux_scheme option" where
  "delete_pmt B sid pmt_pid pmt s = do {
     let pcr = pmt_get_pcrpid B pmt;
     s \<leftarrow> (if i_ca_handle s \<noteq> 0 \<and> SIDIsSelected sid s
           then when_ca B (Some pmt) (en50221_DeletePMT B dev_PIDIsSelected) s else Some s);
     s \<leftarrow> (if pcr \<noteq> PADDING_PID \<and> pcr \<noteq> pmt_pid then UnselectPID sid pcr s else Some s);
     s \<leftarrow> (if b_enable_ecm s then do {
              ecm \<leftarrow> ecm_pids B (drop (pmt_get_descs B pmt) pmt);
              ofold (UnselectPID sid) ecm s }
            else Some s);
     ess \<leftarrow> elements 256 (pmt_get_es B) pmt;
     ofold (delete_es B sid) ess s }"

definition init_eit :: "'b psi_lib_scheme \<Rightarrow> psi_table list" where
  "init_eit B = replicate (MAX_EIT_TABLES B) (psi_table_init B)"

definition DeleteProgram ::
  "'b psi_lib_scheme \<Rightarrow> 16 word \<Rightarrow> nat \<Rightarrow> 'a dvbdemux_scheme \<Rightarrow> 'a dvbdemux_scheme option" where
  "DeleteProgram B sid pid s = do {
     s \<leftarrow> UnselectPMT B sid pid s;
     (case FindSID sid s of
        None \<Rightarrow> Some s
      | Some i \<Rightarrow> do {
          let e = pp_sids s ! i;
          s \<leftarrow> (case p_current_pmt e of None \<Rightarrow> Some s
                | Some pmt \<Rightarrow> delete_pmt B sid (sid_pmt_pid e) pmt s);
          Some (upd_sid i (\<lambda>_. \<lparr>sid_sid = 0, sid_pmt_pid = 0, p_current_pmt = None, eit_table = init_eit B\<rparr>) s) }) }"

text \<open>A program takes the first free entry of \<open>pp_sids\<close>, or a new one at the end.\<close>

definition sid_claim ::
  "'b psi_lib_scheme \<Rightarrow> 16 word \<Rightarrow> nat \<Rightarrow> 'a dvbdemux_scheme \<Rightarrow> 'a dvbdemux_scheme" where
  "sid_claim B sid pid s = (case FindSID 0 s of
       Some i \<Rightarrow> upd_sid i (\<lambda>e. e\<lparr>sid_sid := sid, sid_pmt_pid := pid\<rparr>) s
     | None \<Rightarrow> s\<lparr>pp_sids := pp_sids s @
         [\<lparr>sid_sid = sid, sid_pmt_pid = pid, p_current_pmt = None, eit_table = init_eit B\<rparr>]\<rparr>)"

definition pat_program ::
  "'b psi_lib_scheme \<Rightarrow> psi_table \<Rightarrow> bool \<Rightarrow> bytes \<Rightarrow> 'a dvbdemux_scheme \<Rightarrow> 'a dvbdemux_scheme option" where
  "pat_program B old change prog s =
     (let sid = patn_get_program B prog; pid = patn_get_pid B prog;
          oldp = (if psi_table_validate B old then pat_table_find_program B old sid else None)
      in if sid = 0 then Some s
         else if oldp = None \<or> patn_get_pid B (the oldp) \<noteq> pid \<or> change
         then do {
           s \<leftarrow> (case oldp of None \<Rightarrow> Some s | Some q \<Rightarrow> DeleteProgram B sid (patn_get_pid B q) s);
           s \<leftarrow> SelectPMT sid pid s;
           UpdatePAT B sid (sid_claim B sid pid s) }
         else Some s)"

definition pat_gone ::
  "'b psi_lib_scheme \<Rightarrow> bytes \<Rightarrow> 'a dvbdemux_scheme \<Rightarrow> 'a dvbdemux_scheme option" where
  "pat_gone B prog s =
     (let sid = patn_get_program B prog in
      if sid = 0 then Some s
      else if pat_table_find_program B (current_pat s) sid = None
      then do { s \<leftarrow> DeleteProgram B sid (patn_get_pid B prog) s; UpdatePAT B sid s }
      else Some s)"

definition table_programs :: "'b psi_lib_scheme \<Rightarrow> psi_table \<Rightarrow> nat \<Rightarrow> bytes list option" where
  "table_programs B t last_sec = do {
     secs \<leftarrow> table_sections B t last_sec;
     map_option concat (those (map (elements (2 ^ 31) (pat_get_program B)) secs)) }"

definition switch_pat :: "'b psi_lib_scheme \<Rightarrow> 'a dvbdemux_scheme \<Rightarrow> 'a dvbdemux_scheme option" where
  "switch_pat B s = do {
     let last_sec = psi_table_get_lastsection B (next_pat s);
     let old = current_pat s;
     let s = s\<lparr>current_pat := next_pat s, next_pat := psi_table_init B\<rparr>;
     let change = (\<not> psi_table_validate B old
           \<or> psi_table_get_tableidext B (current_pat s) \<noteq> psi_table_get_tableidext B old);
     s \<leftarrow> (if change then UpdateTSID B s else Some s);
     progs \<leftarrow> table_programs B (current_pat s) last_sec;
     s \<leftarrow> ofold (pat_program B old change) progs s;
     if psi_table_validate B old
     then do {
       progs \<leftarrow> table_programs B old (psi_table_get_lastsection B old);
       ofold (pat_gone B) progs s }
     else Some s }"

definition HandlePAT :: "'b psi_lib_scheme \<Rightarrow> mtime \<Rightarrow> 'a dvbdemux_scheme \<Rightarrow> 'a dvbdemux_scheme option" where
  "HandlePAT B dts s = do {
     s \<leftarrow>
       (if psi_table_validate B (current_pat s) \<and> psi_table_compare B (current_pat s) (next_pat s)
           \<or> \<not> pat_table_validate B (next_pat s)
        then Some (s\<lparr>next_pat := psi_table_init B\<rparr>)
        else switch_pat B s);
     SendPAT B dts s }"

definition HandlePATSection ::
  "'b psi_lib_scheme \<Rightarrow> nat \<Rightarrow> bytes \<Rightarrow> mtime \<Rightarrow> 'a dvbdemux_scheme \<Rightarrow> 'a dvbdemux_scheme option" where
  "HandlePATSection B pid sec dts s =
     (if pid \<noteq> PAT_PID B \<or> \<not> pat_validate B sec then Some s
      else (let (complete, t) = psi_table_section B (next_pat s) sec; s = s\<lparr>next_pat := t\<rparr>
            in if complete then HandlePAT B dts s else Some s))"

subsection \<open>Entitlement messages\<close>

definition cat_descs :: "'b psi_lib_scheme \<Rightarrow> bytes \<Rightarrow> bytes list option" where
  "cat_descs B sec =
     elements (2 ^ 31) (\<lambda>d. descl_get_desc B d (cat_get_desclength B sec)) (drop (cat_get_descl B sec) sec)"

definition emm_pids :: "'b psi_lib_scheme \<Rightarrow> bytes \<Rightarrow> nat list option" where
  "emm_pids B sec = map_option (\<lambda>ds. map (desc09_get_pid B) (filter (is_ca_desc B) ds)) (cat_descs B sec)"

definition table_emm_pids :: "'b psi_lib_scheme \<Rightarrow> psi_table \<Rightarrow> nat \<Rightarrow> nat list option" where
  "table_emm_pids B t last_sec = do {
     secs \<leftarrow> table_sections B t last_sec;
     map_option concat (those (map (emm_pids B) secs)) }"

text \<open>The search of one section of the new table; with no CA descriptor at all it is not started.\<close>

definition cat_section_has :: "'b psi_lib_scheme \<Rightarrow> nat \<Rightarrow> bytes \<Rightarrow> bool option" where
  "cat_section_has B pid sec = do {
     ds \<leftarrow> cat_descs B sec;
     if list_ex (is_ca_desc B) ds
     then map_option (\<lambda>r. r \<noteq> None)
            (ca_desc_find B (drop (cat_get_descl B sec) sec) (cat_get_desclength B sec) pid)
     else Some False }"

definition cat_has :: "'b psi_lib_scheme \<Rightarrow> psi_table \<Rightarrow> nat \<Rightarrow> bool option" where
  "cat_has B t pid = do {
     secs \<leftarrow> table_sections B t (psi_table_get_lastsection B t);
     map_option (list_ex id) (those (map (cat_section_has B pid) secs)) }"

definition cat_gone :: "'b psi_lib_scheme \<Rightarrow> nat \<Rightarrow> 'a dvbdemux_scheme \<Rightarrow> 'a dvbdemux_scheme option" where
  "cat_gone B pid s = do {
     found \<leftarrow> cat_has B (current_cat s) pid;
     if found then Some s else UnsetPID pid s }"

definition HandleCAT :: "'b psi_lib_scheme \<Rightarrow> 'a dvbdemux_scheme \<Rightarrow> 'a dvbdemux_scheme option" where
  "HandleCAT B s =
     (if psi_table_validate B (current_cat s) \<and> psi_table_compare B (current_cat s) (next_cat s)
         \<or> \<not> cat_table_validate B (next_cat s)
      then Some (s\<lparr>next_cat := psi_table_init B\<rparr>)
      else do {
        let last_sec = psi_table_get_lastsection B (next_cat s);
        let old = current_cat s;
        let s = s\<lparr>current_cat := next_cat s, next_cat := psi_table_init B\<rparr>;
        pids \<leftarrow> table_emm_pids B (current_cat s) last_sec;
        s \<leftarrow> ofold SetPID_EMM pids s;
        if psi_table_validate B old
        then do {
          pids \<leftarrow> table_emm_pids B old (psi_table_get_lastsection B old);
          ofold (cat_gone B) pids s }
        else Some s })"

definition HandleCATSection ::
  "'b psi_lib_scheme \<Rightarrow> nat \<Rightarrow> bytes \<Rightarrow> 'a dvbdemux_scheme \<Rightarrow> 'a dvbdemux_scheme option" where
  "HandleCATSection B pid sec s =
     (if pid \<noteq> CAT_PID B \<or> \<not> cat_validate B sec then Some s
      else (let (complete, t) = psi_table_section B (next_cat s) sec; s = s\<lparr>next_cat := t\<rparr>
            in if complete then HandleCAT B s else Some s))"

subsection \<open>Program maps\<close>

definition mark_pid :: "byte \<Rightarrow> nat \<Rightarrow> (nat \<Rightarrow> byte) \<Rightarrow> (nat \<Rightarrow> byte) option" where
  "mark_pid m pid pm = (if pid < MAX_PIDS then Some (pm(pid := pm pid OR m)) else None)"

text \<open>The indices are 16 bits wide here.\<close>

definition ca_pids16 :: "'b psi_lib_scheme \<Rightarrow> bytes \<Rightarrow> nat list option" where
  "ca_pids16 B descs = do {
     ds \<leftarrow> elements 65536 (descs_get_desc B) descs;
     Some (map (desc09_get_pid B) (filter (is_ca_desc B) ds)) }"

definition mark_es ::
  "'b psi_lib_scheme \<Rightarrow> byte \<Rightarrow> bytes \<Rightarrow> (nat \<Rightarrow> byte) \<times> 'a dvbdemux_scheme \<Rightarrow> ((nat \<Rightarrow> byte) \<times> 'a dvbdemux_scheme) option" where
  "mark_es B m es = (\<lambda>(pm, s). do {
     let pid = pmtn_get_pid B es;
     sel \<leftarrow> PIDWouldBeSelected B es s;
     pm \<leftarrow> (if sel then mark_pid m pid pm else Some pm);
     _ \<leftarrow> get_pid pid s;
     let s = upd_pid pid (\<lambda>p. p\<lparr>b_pes := PIDCarriesPES B es\<rparr>) s;
     pm \<leftarrow> (if b_enable_ecm s then do {
                ecm \<leftarrow> ca_pids16 B (drop (pmtn_get_descs B es) es);
                ofold (mark_pid m) ecm pm }
              else Some pm);
     Some (pm, s) })"

definition mark_pmt_pids ::
  "'b psi_lib_scheme \<Rightarrow> bytes \<Rightarrow> byte \<Rightarrow> (nat \<Rightarrow> byte) \<times> 'a dvbdemux_scheme \<Rightarrow> ((nat \<Rightarrow> byte) \<times> 'a dvbdemux_scheme) option" where
  "mark_pmt_pids B pmt m = (\<lambda>(pm, s). do {
     let pcr = pmt_get_pcrpid B pmt;
     pm \<leftarrow> (if b_enable_ecm s then do {
                ecm \<leftarrow> ca_pids16 B (drop (pmt_get_descs B pmt) pmt);
                ofold (mark_pid m) ecm pm }
              else Some pm);
     pm \<leftarrow> (if pcr \<noteq> PADDING_PID then mark_pid m pcr pm else Some pm);
     ess \<leftarrow> elements 65536 (pmt_get_es B) pmt;
     ofold (mark_es B m) ess (pm, s) })"

text \<open>One PID of the map: in the new PMT only it is selected, in the old one only unselected.\<close>

definition pmt_move :: "16 word \<Rightarrow> nat \<Rightarrow> (nat \<Rightarrow> byte) \<Rightarrow> nat \<Rightarrow> 'a dvbdemux_scheme \<Rightarrow> 'a dvbdemux_scheme option" where
  "pmt_move sid pcr pm pid s =
     (let m = pm pid AND 0x03 in
      if m = 0x02 then UnselectPID sid pid s
      else if m = 0x01 then SelectPID sid pid (pid = pcr) s
      else Some s)"

definition reset_pcr :: "16 word \<Rightarrow> 'a dvboutput_scheme \<Rightarrow> 'a dvboutput_scheme" where
  "reset_pcr sid s = s\<lparr>pp_outputs := map (\<lambda>p. if on_sid sid p then p\<lparr>i_pcr_pid := 0\<rparr> else p) (pp_outputs s)\<rparr>"

definition switch_pmt ::
  "'b psi_lib_scheme \<Rightarrow> nat \<Rightarrow> bytes \<Rightarrow> 'a dvbdemux_scheme \<Rightarrow> 'a dvbdemux_scheme option" where
  "switch_pmt B i pmt s = do {
     let sid = pmt_get_program B pmt;
     let old = p_current_pmt (pp_sids s ! i);
     needs \<leftarrow> PMTNeedsDescrambling B pmt;
     needed \<leftarrow> (case old of None \<Rightarrow> Some False | Some x \<Rightarrow> PMTNeedsDescrambling B x);
     let ca = (i_ca_handle s \<noteq> 0 \<and> SIDIsSelected sid s);
     s \<leftarrow> (case old of Some x \<Rightarrow> if ca \<and> \<not> needs \<and> needed then en50221_DeletePMT B dev_PIDIsSelected x s else Some s
           | None \<Rightarrow> Some s);
     (pm, s) \<leftarrow> (case old of None \<Rightarrow> Some (\<lambda>_. 0, s) | Some x \<Rightarrow> mark_pmt_pids B x 0x02 (\<lambda>_. 0, s));
     (pm, s) \<leftarrow> mark_pmt_pids B pmt 0x01 (pm, s);
     let s = reset_pcr sid s;
     s \<leftarrow> ofold (pmt_move sid (pmt_get_pcrpid B pmt) pm) [0..<MAX_PIDS] s;
     let s = upd_sid i (\<lambda>e. e\<lparr>p_current_pmt := Some pmt\<rparr>) s;
     s \<leftarrow> (if ca \<and> needs
           then (if needed then en50221_UpdatePMT B dev_PIDIsSelected pmt s
                 else en50221_AddPMT B dev_PIDIsSelected pmt s)
           else Some s);
     UpdatePMT B sid s }"

definition HandlePMT ::
  "'b psi_lib_scheme \<Rightarrow> nat \<Rightarrow> bytes \<Rightarrow> mtime \<Rightarrow> 'a dvbdemux_scheme \<Rightarrow> 'a dvbdemux_scheme option" where
  "HandlePMT B pid pmt dts s =
     (case FindSID (pmt_get_program B pmt) s of
        None \<Rightarrow> Some s
      | Some i \<Rightarrow>
          (let e = pp_sids s ! i in
           if pid \<noteq> sid_pmt_pid e then Some s
           else do {
             s \<leftarrow> (if (\<exists>x. p_current_pmt e = Some x \<and> psi_compare B x pmt) \<or> \<not> pmt_validate B pmt
                   then Some s else switch_pmt B i pmt s);
             SendPMT B (pp_sids s ! i) dts s }))"

subsection \<open>Network and service tables\<close>

definition HandleNIT :: "'b psi_lib_scheme \<Rightarrow> 'a dvbdemux_scheme \<Rightarrow> 'a dvbdemux_scheme" where
  "HandleNIT B s =
     (if psi_table_validate B (current_nit s) \<and> psi_table_compare B (current_nit s) (next_nit s)
         \<or> \<not> nit_table_validate B (next_nit s)
      then s\<lparr>next_nit := psi_table_init B\<rparr>
      else s\<lparr>current_nit := next_nit s, next_nit := psi_table_init B\<rparr>)"

definition HandleNITSection ::
  "'b psi_lib_scheme \<Rightarrow> nat \<Rightarrow> bytes \<Rightarrow> mtime \<Rightarrow> 'a dvbdemux_scheme \<Rightarrow> 'a dvbdemux_scheme option" where
  "HandleNITSection B pid sec dts s =
     (if pid \<noteq> NIT_PID B \<or> \<not> nit_validate B sec then Some s
      else (let (complete, t) = psi_table_section B (next_nit s) sec; s = s\<lparr>next_nit := t\<rparr>
            in SendNIT B dts (if complete then HandleNIT B s else s)))"

definition table_services :: "'b psi_lib_scheme \<Rightarrow> psi_table \<Rightarrow> nat \<Rightarrow> 16 word list option" where
  "table_services B t last_sec = do {
     secs \<leftarrow> table_sections B t last_sec;
     map_option (\<lambda>xs. map (sdtn_get_sid B) (concat xs)) (those (map (elements (2 ^ 31) (sdt_get_service B)) secs)) }"

definition sdt_gone :: "'b psi_lib_scheme \<Rightarrow> 16 word \<Rightarrow> 'a dvbdemux_scheme \<Rightarrow> 'a dvbdemux_scheme option" where
  "sdt_gone B sid s =
     (if sdt_table_find_service B (current_sdt s) sid = None then UpdateSDT B sid s else Some s)"

definition HandleSDT :: "'b psi_lib_scheme \<Rightarrow> mtime \<Rightarrow> 'a dvbdemux_scheme \<Rightarrow> 'a dvbdemux_scheme option" where
  "HandleSDT B dts s = do {
     s \<leftarrow>
       (if psi_table_validate B (current_sdt s) \<and> psi_table_compare B (current_sdt s) (next_sdt s)
           \<or> \<not> sdt_table_validate B (next_sdt s)
        then Some (s\<lparr>next_sdt := psi_table_init B\<rparr>)
        else do {
          let last_sec = psi_table_get_lastsection B (next_sdt s);
          let old = current_sdt s;
          let s = s\<lparr>current_sdt := next_sdt s, next_sdt := psi_table_init B\<rparr>;
          sids \<leftarrow> table_services B (current_sdt s) last_sec;
          s \<leftarrow> ofold (UpdateSDT B) sids s;
          if psi_table_validate B old
          then do {
            sids \<leftarrow> table_services B old (psi_table_get_lastsection B old);
            ofold (sdt_gone B) sids s }
          else Some s });
     SendSDT B dts s }"

definition HandleSDTSection ::
  "'b psi_lib_scheme \<Rightarrow> nat \<Rightarrow> bytes \<Rightarrow> mtime \<Rightarrow> 'a dvbdemux_scheme \<Rightarrow> 'a dvbdemux_scheme option" where
  "HandleSDTSection B pid sec dts s =
     (if pid \<noteq> SDT_PID B \<or> \<not> sdt_validate B sec then Some s
      else (let (complete, t) = psi_table_section B (next_sdt s) sec; s = s\<lparr>next_sdt := t\<rparr>
            in if complete then HandleSDT B dts s else Some s))"

subsection \<open>ATSC virtual channels, as services\<close>

record atsc_acc =
  aa_pos :: nat        \<comment> \<open>\<open>b\<close>, as an offset into the section\<close>
  aa_pseudo :: int
  aa_num :: nat
  aa_sdt :: bytes

definition atsc_service_type :: "nat \<Rightarrow> byte" where
  "atsc_service_type t = (if t = 3 then 2 else if t = 2 then 1 else of_nat t)"

definition atsc_name :: "tvct_channel \<Rightarrow> bytes" where
  "atsc_name ch = map of_nat (tc_short_name ch)"

definition atsc_put :: "'b psi_lib_scheme \<Rightarrow> tvct_channel \<Rightarrow> 16 word \<Rightarrow> nat \<Rightarrow> bytes \<Rightarrow> bytes option" where
  "atsc_put B ch prog k sdt = do {
     off \<leftarrow> sdt_get_service B sdt k;
     let sdt = upd_at off (\<lambda>q. sdtn_set_desclength B 2 (sdtn_set_running B 4 (sdtn_set_sid B prog (sdtn_init B q)))) sdt;
     let d = off + sdtn_get_descs B (drop off sdt);
     o1 \<leftarrow> descs_get_desc B (drop d sdt) 0;
     let sdt = upd_at (d + o1) (\<lambda>q. desc_set_length B 17 (desc48_set_service B (atsc_name ch)
           (desc48_set_provider B (atsc_name ch) (desc48_set_type B (atsc_service_type (tc_service_type ch)) (desc48_init B q))))) sdt;
     Some (upd_at off (sdtn_set_desclength B (DESC_HEADER_SIZE B + 17)) sdt) }"

text \<open>
  One turn of the loop over the channels. A channel of another type than analog, TV or radio is
  skipped with \<open>continue\<close>, which leaves the read position where it is.
\<close>

definition atsc_channel :: "'b psi_lib_scheme \<Rightarrow> bytes \<Rightarrow> nat \<Rightarrow> atsc_acc \<Rightarrow> atsc_acc option" where
  "atsc_channel B sec _ a = do {
     ch \<leftarrow> read_tvct_channel (drop (aa_pos a) sec);
     if tc_service_type ch \<notin> {0x01, 0x02, 0x03} then Some a
     else do {
       let (prog, a) = (if tc_program_number ch = 0
             then (word_of_int (aa_pseudo a - 1), a\<lparr>aa_pseudo := aa_pseudo a - 1\<rparr>)
             else (of_nat (tc_program_number ch), a));
       a \<leftarrow> (if tc_hidden ch \<noteq> 0 then Some a
             else do {
               sdt \<leftarrow> atsc_put B ch prog (aa_num a) (aa_sdt a);
               Some (a\<lparr>aa_sdt := sdt, aa_num := aa_num a + 1\<rparr>) });
       Some (a\<lparr>aa_pos := aa_pos a + 32 + tc_descriptors_length ch\<rparr>) } }"

definition atsc_sdt :: "'b psi_lib_scheme \<Rightarrow> nat \<Rightarrow> nat \<Rightarrow> bytes \<Rightarrow> bytes option" where
  "atsc_sdt B ext ver sec = do {
     let sdt = psi_set_lastsection B 0 (psi_set_section B 0 (psi_set_current B (psi_set_version B (of_nat ver)
           (sdt_set_tsid B (of_nat ext) (sdt_set_length B (PSI_MAX_SIZE B)
             (sdt_init B True (replicate (PSI_MAX_SIZE B + PSI_HEADER_SIZE B) 0)))))));
     num \<leftarrow> rd sec 9;
     a \<leftarrow> ofold (atsc_channel B sec) [0..<unat num] \<lparr>aa_pos = 10, aa_pseudo = 0xffff, aa_num = 0, aa_sdt = sdt\<rparr>;
     let sdt = aa_sdt a;
     Some (psi_set_crc B (case sdt_get_service B sdt (aa_num a) of
             None \<Rightarrow> sdt_set_length B 0 sdt
           | Some off \<Rightarrow> sdt_set_length B (off - SDT_HEADER_SIZE B) sdt)) }"

definition HandleATSCSection ::
  "'b psi_lib_scheme \<Rightarrow> bytes \<Rightarrow> mtime \<Rightarrow> 'a dvbdemux_scheme \<Rightarrow> 'a dvbdemux_scheme option" where
  "HandleATSCSection B sec dts s = do {
     len \<leftarrow> get_bits sec 12 12;
     ext \<leftarrow> get_bits sec 24 16;
     ver \<leftarrow> get_bits sec 42 5;
     if len < CRC_LEN + 5 then Some s
     else do {
       sdt \<leftarrow> atsc_sdt B ext ver sec;
       let (complete, t) = psi_table_section B (next_sdt s) sdt;
       let s = s\<lparr>next_sdt := t\<rparr>;
       if complete then HandleSDT B dts s else Some s } }"

subsection \<open>Event information\<close>

text \<open>
  The stored section is the one \<open>SendEIT\<close> rewrites: the table holds it as it went to the last
  output.
\<close>

definition HandleEIT ::
  "'b psi_lib_scheme \<Rightarrow> nat \<Rightarrow> bytes \<Rightarrow> mtime \<Rightarrow> 'a dvbdemux_scheme \<Rightarrow> 'a dvbdemux_scheme option" where
  "HandleEIT B pid eit dts s =
     (case FindSID (eit_get_sid B eit) s of
        None \<Rightarrow> Some s
      | Some i \<Rightarrow>
          if pid \<noteq> EIT_PID B \<or> \<not> eit_validate B eit then Some s
          else do {
            let t = psi_get_tableid B eit;
            let k = (t + 256 - EIT_TABLE_ID_PF_ACTUAL B) mod 256;
            (eit', s) \<leftarrow> SendEIT B (pp_sids s ! i) dts eit s;
            Some (if handle_epg B t \<and> k < MAX_EIT_TABLES B
                  then upd_sid i (\<lambda>e. e\<lparr>eit_table := (eit_table e)
                         [k := ((eit_table e) ! k)(psi_get_section B eit := Some eit')]\<rparr>) s
                  else s) })"

subsection \<open>Sections and packets\<close>

definition TID_ATSC_CVT1 :: nat where "TID_ATSC_CVT1 = 0xC8"
definition TID_ATSC_CVT2 :: nat where "TID_ATSC_CVT2 = 0xC9"

definition HandleSection ::
  "'b psi_lib_scheme \<Rightarrow> nat \<Rightarrow> bytes \<Rightarrow> mtime \<Rightarrow> 'a dvbdemux_scheme \<Rightarrow> 'a dvbdemux_scheme option" where
  "HandleSection B pid sec dts s =
     (let t = psi_get_tableid B sec in
      if \<not> psi_validate B sec \<or> \<not> psi_get_current B sec then Some s
      else if t = PAT_TABLE_ID B then HandlePATSection B pid sec dts s
      else if t = CAT_TABLE_ID B then (if b_enable_emm s then HandleCATSection B pid sec s else Some s)
      else if t = PMT_TABLE_ID B then HandlePMT B pid sec dts s
      else if t = NIT_TABLE_ID_ACTUAL B then HandleNITSection B pid sec dts s
      else if t = SDT_TABLE_ID_ACTUAL B then HandleSDTSection B pid sec dts s
      else if t = TID_ATSC_CVT1 \<or> t = TID_ATSC_CVT2 then HandleATSCSection B sec dts s
      else if handle_epg B t then HandleEIT B pid sec dts s
      else Some s)"

end
