(* ===== verification/Dvb_Run.thy ===== *)
theory Dvb_Run
  imports Dvb_Programs
begin

unbundle bit_operations_syntax

text \<open>
  The packet path (\<open>demux_Run\<close>, \<open>demux_Handle\<close>, \<open>HandlePSIPacket\<close>), start and stop, live
  changes of an output (\<open>demux_Change\<close>), and what the control socket asks for: packed tables and
  the description of a PID.
\<close>

subsection \<open>What a PID is\<close>

definition h222_stream_type_desc :: "nat \<Rightarrow> string" where
  "h222_stream_type_desc t =
     (if t = 0x00 then ''Reserved stream''
      else if t = 0x01 then ''11172-2 video (MPEG-1)''
      else if t = 0x02 then ''H.262/13818-2 video (MPEG-2) or 11172-2 constrained video''
      else if t = 0x03 then ''11172-3 audio (MPEG-1)''
      else if t = 0x04 then ''13818-3 audio (MPEG-2)''
      else if t = 0x05 then ''H.222.0/13818-1  private sections''
      else if t = 0x06 then ''H.222.0/13818-1 PES private data''
      else if t = 0x07 then ''13522 MHEG''
      else if t = 0x08 then ''H.222.0/13818-1 Annex A - DSM CC''
      else if t = 0x09 then ''H.222.1''
      else if t = 0x0A then ''13818-6 type A''
      else if t = 0x0B then ''13818-6 type B''
      else if t = 0x0C then ''13818-6 type C''
      else if t = 0x0D then ''13818-6 type D''
      else if t = 0x0E then ''H.222.0/13818-1 auxiliary''
      else if t = 0x0F then ''13818-7 Audio with ADTS transport syntax''
      else if t = 0x10 then ''14496-2 Visual (MPEG-4 part 2 video)''
      else if t = 0x11 then ''14496-3 Audio with LATM transport syntax (14496-3/AMD 1)''
      else if t = 0x12 then ''14496-1 SL-packetized or FlexMux stream in PES packets''
      else if t = 0x13 then ''14496-1 SL-packetized or FlexMux stream in 14496 sections''
      else if t = 0x14 then ''ISO/IEC 13818-6 Synchronized Download Protocol''
      else if t = 0x15 then ''Metadata in PES packets''
      else if t = 0x16 then ''Metadata in metadata_sections''
      else if t = 0x17 then ''Metadata in 13818-6 Data Carousel''
      else if t = 0x18 then ''Metadata in 13818-6 Object Carousel''
      else if t = 0x19 then ''Metadata in 13818-6 Synchronized Download Protocol''
      else if t = 0x1A then ''13818-11 MPEG-2 IPMP stream''
      else if t = 0x1B then ''H.264/14496-10 video (MPEG-4/AVC)''
      else if t = 0x24 then ''H.265/23008-2 video (HEVC)''
      else if t = 0x42 then ''AVS Video''
      else if t = 0x7F then ''IPMP stream''
      else ''Unknown stream'')"

text \<open>The NIT PID of the PAT: the first program 0 of each section, the last section wins.\<close>

definition pat_nit_pid :: "'b psi_lib_scheme \<Rightarrow> 'a dvbdemux_scheme \<Rightarrow> nat option" where
  "pat_nit_pid B s =
     (if psi_table_validate B (current_pat s)
      then do {
        secs \<leftarrow> table_sections B (current_pat s) (psi_table_get_lastsection B (current_pat s));
        ofold (\<lambda>sec nit. do {
          r \<leftarrow> search_elem (2 ^ 31) (pat_get_program B) sec (\<lambda>p. patn_get_program B p = 0);
          Some (case r of None \<Rightarrow> nit | Some p \<Rightarrow> patn_get_pid B p) }) secs (NIT_PID B) }
      else Some (NIT_PID B))"

definition is_emm_pid :: "'b psi_lib_scheme \<Rightarrow> nat \<Rightarrow> 'a dvbdemux_scheme \<Rightarrow> bool option" where
  "is_emm_pid B pid s =
     (if b_enable_emm s \<and> psi_table_validate B (current_cat s)
      then do {
        pids \<leftarrow> table_emm_pids B (current_cat s) (psi_table_get_lastsection B (current_cat s));
        Some (pid \<in> set pids) }
      else Some False)"

text \<open>
  One program: \<open>Inl\<close> is an answer, \<open>Inr\<close> goes on with the PCR PID and the SID found so far. The
  descriptor and stream indices are \<open>int\<close>s here.
\<close>

definition pid_in_program ::
  "'b psi_lib_scheme \<Rightarrow> nat \<Rightarrow> sid_entry \<Rightarrow> nat \<times> 16 word \<Rightarrow> (string \<times> 16 word + nat \<times> 16 word) option" where
  "pid_in_program B pid e = (\<lambda>(pcr, sid).
     if sid_pmt_pid e = pid then Some (Inl (''PMT'', sid_sid e))
     else if sid_sid e = 0 then Some (Inr (pcr, sid))
     else (case p_current_pmt e of
        None \<Rightarrow> Some (Inr (pcr, sid))
      | Some pmt \<Rightarrow> do {
          let (pcr, sid) = (if pid = pmt_get_pcrpid B pmt then (pid, sid_sid e) else (pcr, sid));
          ecm \<leftarrow> search_elem (2 ^ 31) (descs_get_desc B) (drop (pmt_get_descs B pmt) pmt)
                  (\<lambda>d. is_ca_desc B d \<and> desc09_get_pid B d = pid);
          if ecm \<noteq> None then Some (Inl (''ECM'', sid_sid e))
          else do {
            es \<leftarrow> search_elem (2 ^ 31) (pmt_get_es B) pmt (\<lambda>es. pmtn_get_pid B es = pid);
            Some (case es of None \<Rightarrow> Inr (pcr, sid)
                  | Some x \<Rightarrow> Inl (h222_stream_type_desc (pmtn_get_streamtype B x), sid_sid e)) } }))"

fun pid_in_programs ::
  "'b psi_lib_scheme \<Rightarrow> nat \<Rightarrow> sid_entry list \<Rightarrow> nat \<times> 16 word \<Rightarrow> (string \<times> 16 word + nat \<times> 16 word) option" where
  "pid_in_programs B pid [] acc = Some (Inr acc)"
| "pid_in_programs B pid (e # es) acc =
     (case pid_in_program B pid e acc of
        None \<Rightarrow> None
      | Some (Inl r) \<Rightarrow> Some (Inl r)
      | Some (Inr acc) \<Rightarrow> pid_in_programs B pid es acc)"

definition get_pid_desc ::
  "'b psi_lib_scheme \<Rightarrow> nat \<Rightarrow> 16 word \<Rightarrow> 'a dvbdemux_scheme \<Rightarrow> (string \<times> 16 word) option" where
  "get_pid_desc B pid sid s =
     (if pid = 0x00 then Some (''PAT'', sid)
      else if pid = 0x01 then Some (''CAT'', sid)
      else if pid = 0x11 then Some (''SDT'', sid)
      else if pid = 0x12 then Some (''EPG'', sid)
      else if pid = 0x14 then Some (''TDT/TOT'', sid)
      else do {
        nit \<leftarrow> pat_nit_pid B s;
        emm \<leftarrow> is_emm_pid B pid s;
        if emm then Some (''EMM'', sid)
        else do {
          r \<leftarrow> pid_in_programs B pid (pp_sids s) (0, sid);
          Some (case r of
                  Inl x \<Rightarrow> x
                | Inr (pcr, sid) \<Rightarrow>
                    (if pid = nit then ''NIT'' else if pid = pcr then ''PCR'' else ''...'', sid)) } })"

subsection \<open>Gathering sections\<close>

definition psi_payload ::
  "'b psi_lib_scheme \<Rightarrow> nat \<Rightarrow> bytes \<Rightarrow> mtime \<Rightarrow> 'a dvbdemux_scheme \<Rightarrow> (bytes \<times> 'a dvbdemux_scheme) option" where
  "psi_payload B pid data dts s = do {
     let (sec, buf, data) = psi_assemble_payload B (psi_buffer (p_pids s pid)) data;
     let s = upd_pid pid (\<lambda>p. p\<lparr>psi_buffer := buf\<rparr>) s;
     s \<leftarrow> (case sec of None \<Rightarrow> Some s | Some x \<Rightarrow> HandleSection B pid x dts s);
     Some (data, s) }"

partial_function (option) psi_payload_loop ::
  "'b psi_lib_scheme \<Rightarrow> nat \<Rightarrow> bytes \<Rightarrow> mtime \<Rightarrow> 'a dvbdemux_scheme \<Rightarrow> 'a dvbdemux_scheme option" where
  "psi_payload_loop B pid data dts s =
     (if data = [] then Some s
      else do { (data, s) \<leftarrow> psi_payload B pid data dts s; psi_payload_loop B pid data dts s })"

definition HandlePSIPacket ::
  "'b psi_lib_scheme \<Rightarrow> bytes \<Rightarrow> mtime \<Rightarrow> 'a dvbdemux_scheme \<Rightarrow> 'a dvbdemux_scheme option" where
  "HandlePSIPacket B ts dts s = do {
     let pid = ts_get_pid B ts;
     p \<leftarrow> get_pid pid s;
     let cc = ts_get_cc B ts;
     let last_cc = i_last_cc p;
     if ts_check_duplicate B cc (nat (last_cc mod 256)) \<or> \<not> ts_has_payload B ts then Some s
     else do {
       let s = (if last_cc \<noteq> -1 \<and> ts_check_discontinuity B cc (nat (last_cc mod 256))
                then upd_pid pid (\<lambda>p. p\<lparr>psi_buffer := psi_assemble_reset B (psi_buffer p)\<rparr>) s else s);
       s \<leftarrow> (if psi_assemble_empty B (psi_buffer (p_pids s pid)) then Some s
             else map_option snd (psi_payload B pid (drop (ts_section B ts) ts) dts s));
       psi_payload_loop B pid (drop (ts_next_section B ts) ts) dts s } }"

subsection \<open>One packet\<close>

definition handle_stats :: "'b psi_lib_scheme \<Rightarrow> bytes \<Rightarrow> nat \<Rightarrow> 'a dvbdemux_scheme \<Rightarrow> 'a dvbdemux_scheme" where
  "handle_stats B ts pid s =
     (let now = i_wallclock s in
      upd_pid pid (\<lambda>p.
        let i = pid_info p;
            i = (if pid \<noteq> PADDING_PID then i\<lparr>i_scrambling := ts_get_scrambling B ts\<rparr> else i);
            i = i\<lparr>i_last_packet_ts := now, i_packets := i_packets i + 1\<rparr>;
            p = p\<lparr>i_packets_passed := i_packets_passed p + 1\<rparr>;
            (i, p) = (if now > i_bytes_ts p + 1000000
                      then (i\<lparr>i_bytes_per_sec := i_packets_passed p * TS_SIZE\<rparr>,
                            p\<lparr>i_packets_passed := 0, i_bytes_ts := now\<rparr>)
                      else (i, p));
            i = (if i_first_packet_ts i = 0 then i\<lparr>i_first_packet_ts := now\<rparr> else i)
        in p\<lparr>pid_info := i\<rparr>) s)"

definition upd_info :: "nat \<Rightarrow> (ts_pid_info \<Rightarrow> ts_pid_info) \<Rightarrow> 'a dvbdemux_scheme \<Rightarrow> 'a dvbdemux_scheme" where
  "upd_info pid f = upd_pid pid (\<lambda>p. p\<lparr>pid_info := f (pid_info p)\<rparr>)"

definition handle_cc ::
  "'b psi_lib_scheme \<Rightarrow> nat \<Rightarrow> nat \<Rightarrow> 'a dvbdemux_scheme \<Rightarrow> 'a dvbdemux_scheme option" where
  "handle_cc B pid cc s =
     (let last_cc = i_last_cc (p_pids s pid) in
      if pid \<noteq> PADDING_PID \<and> last_cc \<noteq> -1
         \<and> \<not> ts_check_duplicate B cc (nat (last_cc mod 256)) \<and> ts_check_discontinuity B cc (nat (last_cc mod 256))
      then do {
        _ \<leftarrow> get_pid_desc B pid 0 s;
        Some ((upd_info pid (\<lambda>i. i\<lparr>i_cc_errors := i_cc_errors i + 1\<rparr>) s)
              \<lparr>i_nb_discontinuities := i_nb_discontinuities s + 1\<rparr>) }
      else Some s)"

text \<open>Transport errors; too many of them reset the device.\<close>

definition handle_errors ::
  "'b psi_lib_scheme \<Rightarrow> bytes \<Rightarrow> nat \<Rightarrow> 'a dvbdemux_scheme \<Rightarrow> 'a dvbdemux_scheme option" where
  "handle_errors B ts pid s = do {
     s \<leftarrow>
       (if ts_get_transporterror B ts
        then do {
          _ \<leftarrow> get_pid_desc B pid 0 s;
          Some ((upd_info pid (\<lambda>i. i\<lparr>i_transport_errors := i_transport_errors i + 1\<rparr>) s)
                \<lparr>i_dmx_errors := i_dmx_errors s + 1, i_tuner_errors := i_tuner_errors s + 1,
                 i_last_dmx_error := i_wallclock s\<rparr>) }
        else Some (if i_wallclock s > i_last_dmx_error s + WATCHDOG_WAIT then s\<lparr>i_tuner_errors := 0\<rparr> else s));
     Some (if i_tuner_errors s > MAX_ERRORS
           then snd (sys_call DevReset (s\<lparr>i_tuner_errors := 0\<rparr>)) else s) }"

definition packet_pes_status :: "'b psi_lib_scheme \<Rightarrow> bytes \<Rightarrow> int" where
  "packet_pes_status B ts =
     (if ts_get_scrambling B ts \<noteq> 0 then 0
      else if ts_get_unitstart B ts \<and> ts_payload B ts + 3 < TS_SIZE
      then (if pes_validate B (drop (ts_payload B ts) ts) then 1 else 0)
      else -1)"

definition handle_es_timeout ::
  "'b psi_lib_scheme \<Rightarrow> bytes \<Rightarrow> nat \<Rightarrow> 'a dvbdemux_scheme \<Rightarrow> 'a dvbdemux_scheme" where
  "handle_es_timeout B ts pid s =
     (let st = packet_pes_status B ts in
      if i_es_timeout s = 0 \<or> st = -1 then s
      else upd_pid pid (\<lambda>p.
        if i_pes_status p = -1
        then p\<lparr>i_pes_status := st, pid_timeout := Some (if pid \<noteq> TDT_PID B then i_es_timeout s else 30000000)\<rparr>
        else p\<lparr>i_pes_status := st\<rparr>) s)"

text \<open>The timer of a PID: no packet of it has come for too long.\<close>

definition PrintESCb :: "nat \<Rightarrow> 'a dvbdemux_scheme \<Rightarrow> 'a dvbdemux_scheme" where
  "PrintESCb pid = upd_pid pid (\<lambda>p. p\<lparr>pid_timeout := None, i_pes_status := -1\<rparr>)"

definition PrintCb :: "'a dvbdemux_scheme \<Rightarrow> 'a dvbdemux_scheme" where
  "PrintCb s = s\<lparr>i_nb_packets := 0, i_nb_invalids := 0, i_nb_discontinuities := 0, i_dmx_errors := 0\<rparr>"

definition handle_psi ::
  "'b psi_lib_scheme \<Rightarrow> nat \<Rightarrow> bytes \<Rightarrow> nat \<Rightarrow> 'a dvbdemux_scheme \<Rightarrow> 'a dvbdemux_scheme option" where
  "handle_psi B b ts pid s =
     (if ts_get_transporterror B ts then Some s
      else do {
        s \<leftarrow>
          (if pid = TDT_PID B \<or> pid = RST_PID B then SendTDT B b s
           else if i_psi_refcount (p_pids s pid) \<noteq> 0 then HandlePSIPacket B ts (bk_dts (mem s b)) s
           else if i_delsysatsc s \<noteq> 0 \<and> pid \<noteq> PADDING_PID \<and> ts_has_payload B ts
           then HandlePSIPacket B ts (bk_dts (mem s b)) s
           else Some s);
        if b_enable_emm s \<and> b_emm (p_pids s pid) then SendEMM B b s else Some s })"

text \<open>The watchdog of an output: too many scrambled or broken packets reset the CAM.\<close>

definition watchdog_bad :: "'b psi_lib_scheme \<Rightarrow> bytes \<Rightarrow> bool \<Rightarrow> bool" where
  "watchdog_bad B ts pes \<longleftrightarrow> ts_get_scrambling B ts \<noteq> 0
     \<or> pes \<and> ts_payload B ts + 3 < TS_SIZE \<and> \<not> pes_validate B (drop (ts_payload B ts) ts)"

definition watchdog ::
  "'b psi_lib_scheme \<Rightarrow> bytes \<Rightarrow> nat \<Rightarrow> nat \<Rightarrow> 'a dvbdemux_scheme \<Rightarrow> 'a dvbdemux_scheme option" where
  "watchdog B ts pid n s =
     (if i_ca_handle s \<noteq> 0 \<and> has_flag (i_config (config (pp_outputs s ! n))) OUTPUT_WATCH \<and> ts_get_unitstart B ts
      then
        (let now = i_wallclock s;
             s = (if watchdog_bad B ts (b_pes (p_pids s pid))
                  then (if now > i_last_reset s + WATCHDOG_REFRACTORY_PERIOD
                        then upd_out (Nth n) (\<lambda>p. p\<lparr>i_nb_errors := i_nb_errors p + 1, i_last_error := now\<rparr>) s
                        else s)
                  else if now > i_last_error (pp_outputs s ! n) + WATCHDOG_WAIT
                  then upd_out (Nth n) (\<lambda>p. p\<lparr>i_nb_errors := 0\<rparr>) s else s)
         in if i_nb_errors (pp_outputs s ! n) > MAX_ERRORS
            then en50221_Reset (s\<lparr>pp_outputs := map (\<lambda>p. p\<lparr>i_nb_errors := 0\<rparr>) (pp_outputs s), i_last_reset := now\<rparr>)
            else Some s)
      else Some s)"

definition handle_output ::
  "'b psi_lib_scheme \<Rightarrow> nat \<Rightarrow> bytes \<Rightarrow> nat \<Rightarrow> nat \<Rightarrow> 'a dvbdemux_scheme \<Rightarrow> 'a dvbdemux_scheme option" where
  "handle_output B b ts pid i s =
     (case pid_outputs (p_pids s pid) ! i of
        None \<Rightarrow> Some s
      | Some n \<Rightarrow> do {
          ensure (n < length (pp_outputs s));
          s \<leftarrow> watchdog B ts pid n s;
          s \<leftarrow> (if i_pcr_pid (pp_outputs s ! n) \<noteq> pid \<or> packet_has_pcr B ts
                then output_Put B (Nth n) b s else Some s);
          (case p_eit_ts_buffer (pp_outputs s ! n) of
             None \<Rightarrow> Some s
           | Some eb \<Rightarrow> if bk_dts (mem s b) > bk_dts (mem s eb) + MAX_EIT_RETENTION
                        then FlushEIT B n (bk_dts (mem s b)) s else Some s) })"

definition handle_passthrough ::
  "'b psi_lib_scheme \<Rightarrow> nat \<Rightarrow> nat \<Rightarrow> 'a dvbdemux_scheme \<Rightarrow> 'a dvbdemux_scheme option" where
  "handle_passthrough B b i s =
     (let p = pp_outputs s ! i in
      if out_valid p \<and> b_passthrough (config p) then output_Put B (Nth i) b s else Some s)"

definition demux_Handle ::
  "'b psi_lib_scheme \<Rightarrow> nat \<Rightarrow> 'a dvbdemux_scheme \<Rightarrow> 'a dvbdemux_scheme option" where
  "demux_Handle B b s = do {
     ensure (allocd s b);
     let ts = bk_ts (mem s b);
     let pid = ts_get_pid B ts;
     let cc = ts_get_cc B ts;
     _ \<leftarrow> get_pid pid s;
     let s = s\<lparr>i_nb_packets := i_nb_packets s + 1\<rparr>;
     if \<not> ts_validate B ts
     then map_option (\<lambda>s. s\<lparr>i_nb_invalids := i_nb_invalids s + 1\<rparr>) (block_Delete b s)
     else do {
       s \<leftarrow> handle_cc B pid cc (handle_stats B ts pid s);
       s \<leftarrow> handle_errors B ts pid s;
       s \<leftarrow> handle_psi B b ts pid (handle_es_timeout B ts pid s);
       let s = upd_pid pid (\<lambda>p. p\<lparr>i_last_cc := int cc\<rparr>) s;
       s \<leftarrow> ofold (handle_output B b ts pid) [0..<length (pid_outputs (p_pids s pid))] s;
       s \<leftarrow> for_outputs (handle_passthrough B b) s;
       s \<leftarrow> (if out_valid (output_dup s) then output_Put B Dup b s else Some s);
       block_Release b s } }"

subsection \<open>A read from the device\<close>

text \<open>The packets of one read are spread evenly over the time since the last one.\<close>

definition dts_of :: "mtime \<Rightarrow> mtime \<Rightarrow> nat \<Rightarrow> nat \<Rightarrow> mtime" where
  "dts_of now dur n k = now - dur * (int n - 1 - int k) sdiv int n"

definition SetDTS :: "nat list \<Rightarrow> 'a dvbdemux_scheme \<Rightarrow> 'a dvbdemux_scheme" where
  "SetDTS bs s =
     (let now = i_wallclock s; dur = (if i_last_dts s = -1 then 0 else now - i_last_dts s)
      in (fold (\<lambda>(k, b). upd_block b (\<lambda>x. x\<lparr>bk_dts := dts_of now dur (length bs) k\<rparr>)) (enumerate 0 bs) s)
         \<lparr>i_last_dts := now\<rparr>)"

definition demux_Run :: "'b psi_lib_scheme \<Rightarrow> nat list \<Rightarrow> 'a dvbdemux_scheme \<Rightarrow> 'a dvbdemux_scheme option" where
  "demux_Run B bs s =
     (let (now, s) = mdate s in ofold (demux_Handle B) bs (SetDTS bs (s\<lparr>i_wallclock := now\<rparr>)))"

end
