(* ===== verification/Dvb_Control.thy ===== *)
theory Dvb_Control
  imports Dvb_Run
begin

unbundle bit_operations_syntax

text \<open>
  Start and stop of the demultiplexer, the change of one output while the stream runs
  (\<open>demux_Change\<close>), and the tables the control socket sends (\<open>psi_pack_sections\<close> and relatives).
\<close>

subsection \<open>Start and stop\<close>

definition zero_info :: ts_pid_info where
  "zero_info = \<lparr>i_first_packet_ts = 0, i_last_packet_ts = 0, i_packets = 0, i_cc_errors = 0,
     i_transport_errors = 0, i_bytes_per_sec = 0, i_scrambling = 0\<rparr>"

definition init_pid :: "'b psi_lib_scheme \<Rightarrow> ts_pid" where
  "init_pid B = \<lparr>i_refcount = 0, i_psi_refcount = 0, b_pes = False, i_last_cc = -1, i_pid_fd = -1,
     b_emm = False, i_bytes_ts = 0, i_packets_passed = 0, pid_info = zero_info,
     psi_buffer = psi_assemble_init B, pid_outputs = [], i_pes_status = -1, pid_timeout = None\<rparr>"

definition psi_ref :: "nat \<Rightarrow> 'a dvbdemux_scheme \<Rightarrow> 'a dvbdemux_scheme" where
  "psi_ref pid = upd_pid pid (\<lambda>p. p\<lparr>i_psi_refcount := i_psi_refcount p + 1\<rparr>)"

text \<open>
  The permanent filters of the standard tables. Reading the configuration file comes last: it is
  the argument \<open>read_config\<close>, the hardware start-up of the device class is \<open>dev_Open\<close>.
\<close>

definition demux_Filters :: "'b psi_lib_scheme \<Rightarrow> 'a dvbdemux_scheme \<Rightarrow> 'a dvbdemux_scheme option" where
  "demux_Filters B s = do {
     s \<leftarrow> SetPID (PAT_PID B) (s\<lparr>current_pat := psi_table_init B, next_pat := psi_table_init B\<rparr>);
     let s = psi_ref (PAT_PID B) s;
     s \<leftarrow> (if b_enable_emm s
           then map_option (psi_ref (CAT_PID B))
                  (SetPID_EMM (CAT_PID B) (s\<lparr>current_cat := psi_table_init B, next_cat := psi_table_init B\<rparr>))
           else Some s);
     s \<leftarrow> map_option (psi_ref (NIT_PID B)) (SetPID (NIT_PID B) s);
     s \<leftarrow> map_option (psi_ref (SDT_PID B))
           (SetPID (SDT_PID B) (s\<lparr>current_sdt := psi_table_init B, next_sdt := psi_table_init B\<rparr>));
     s \<leftarrow> map_option (psi_ref (EIT_PID B)) (SetPID (EIT_PID B) s);
     s \<leftarrow> SetPID (RST_PID B) s;
     SetPID (TDT_PID B) s }"

definition demux_Open ::
  "'b psi_lib_scheme \<Rightarrow> ('a dvbdemux_scheme \<Rightarrow> 'a dvbdemux_scheme option) \<Rightarrow>
   ('a dvbdemux_scheme \<Rightarrow> 'a dvbdemux_scheme option) \<Rightarrow> 'a dvbdemux_scheme \<Rightarrow> 'a dvbdemux_scheme option" where
  "demux_Open B dev_Open read_config s = do {
     s \<leftarrow> dev_Open s;
     let s = s\<lparr>p_pids := \<lambda>pid. if pid < MAX_PIDS then init_pid B else p_pids s pid\<rparr>;
     let s = (if b_budget_mode s then (let (fd, s) = sys_call (DevSetFilter 8192) s in s\<lparr>i_demux_fd := fd\<rparr>) else s);
     s \<leftarrow> demux_Filters B s;
     let s = s\<lparr>print_timer := (i_print_period s \<noteq> 0)\<rparr>;
     s \<leftarrow> read_config s;
     Some (outputs_Init (s\<lparr>quit_timer := (i_quit_timeout_duration s \<noteq> 0)\<rparr>)) }"

text \<open>After \<open>demux_Close\<close> the tables, sections and programs are freed; none of them is used again.\<close>

definition demux_Close :: "'b psi_lib_scheme \<Rightarrow> 'a dvbdemux_scheme \<Rightarrow> 'a dvbdemux_scheme option" where
  "demux_Close B s = do {
     s \<leftarrow> outputs_Close B s;
     let s = s\<lparr>p_pids := \<lambda>pid. if pid < MAX_PIDS then (p_pids s pid)\<lparr>pid_timeout := None\<rparr> else p_pids s pid,
               print_timer := False\<rparr>;
     block_Vacuum s }"

subsection \<open>Changing an output\<close>

definition network_changes :: "output_config \<Rightarrow> output_config \<Rightarrow> bool" where
  "network_changes q c \<longleftrightarrow> dvb_string_cmp (network_name q) (network_name c) \<or> i_cfg_network_id q \<noteq> i_cfg_network_id c"

definition service_changes :: "output_config \<Rightarrow> output_config \<Rightarrow> bool" where
  "service_changes q c \<longleftrightarrow> dvb_string_cmp (service_name q) (service_name c) \<or> dvb_string_cmp (provider_name q) (provider_name c)"

definition remap_changes :: "output_config \<Rightarrow> output_config \<Rightarrow> bool" where
  "remap_changes q c \<longleftrightarrow> i_new_sid q \<noteq> i_new_sid c \<or> i_onid q \<noteq> i_onid c \<or> b_cfg_do_remap q \<noteq> b_cfg_do_remap c
     \<or> (\<exists>k\<in>set [I_PMTPID, I_APID, I_VPID, I_SPUPID]. pi_confpids q ! k \<noteq> pi_confpids c ! k)"

text \<open>The settings that take effect at once.\<close>

definition change_settings :: "output_config \<Rightarrow> output_config \<Rightarrow> output_config" where
  "change_settings c q = q\<lparr>i_config := i_config c, i_cfg_network_id := i_cfg_network_id c,
     i_new_sid := i_new_sid c, i_onid := i_onid c, b_cfg_do_remap := b_cfg_do_remap c,
     pi_confpids := pi_confpids c, network_name := network_name c, service_name := service_name c,
     provider_name := provider_name c\<rparr>"

text \<open>The transport stream id, fixed by the configuration, or else that of the stream or a random one.\<close>

definition change_tsid ::
  "'b psi_lib_scheme \<Rightarrow> nat \<Rightarrow> output_config \<Rightarrow> 'a dvbdemux_scheme \<Rightarrow> bool \<times> 'a dvbdemux_scheme" where
  "change_tsid B n c s =
     (let q = i_cfg_tsid (config (pp_outputs s ! n));
          put = (\<lambda>t p. p\<lparr>i_tsid := t, config := (config p)\<lparr>i_cfg_tsid := i_cfg_tsid c\<rparr>\<rparr>) in
      if i_cfg_tsid c \<noteq> -1 \<and> q \<noteq> i_cfg_tsid c
      then (True, upd_out (Nth n) (put (word_of_int (i_cfg_tsid c))) s)
      else if i_cfg_tsid c = -1 \<and> q \<noteq> -1
      then (if psi_table_validate B (current_pat s) \<and> \<not> b_random_tsid s
            then (True, upd_out (Nth n) (put (psi_table_get_tableidext B (current_pat s))) s)
            else (let (r, s) = sys_call SysRand s in (True, upd_out (Nth n) (put (word_of_int r)) s)))
      else (False, s))"

definition set_cfg_sid :: "16 word \<Rightarrow> output_st \<Rightarrow> output_st" where
  "set_cfg_sid sid p = p\<lparr>config := (config p)\<lparr>i_sid := sid\<rparr>\<rparr>"

definition sid_pmt :: "16 word \<Rightarrow> 'a dvbdemux_scheme \<Rightarrow> bytes option" where
  "sid_pmt sid s = (case FindSID sid s of None \<Rightarrow> None | Some i \<Rightarrow> p_current_pmt (pp_sids s ! i))"

text \<open>Leaving the old program, and joining the new one.\<close>

definition leave_program ::
  "'b psi_lib_scheme \<Rightarrow> nat \<Rightarrow> 16 word \<Rightarrow> 16 word \<Rightarrow> 'a dvbdemux_scheme \<Rightarrow> 'a dvbdemux_scheme option" where
  "leave_program B n old sid s =
     (let s = upd_out (Nth n) (set_cfg_sid sid) s in
      case FindSID old s of
        None \<Rightarrow> Some s
      | Some i \<Rightarrow> do {
          s \<leftarrow> UnselectPMT B old (sid_pmt_pid (pp_sids s ! i)) s;
          if i_ca_handle s \<noteq> 0 \<and> \<not> SIDIsSelected old s
          then when_ca B (p_current_pmt (pp_sids s ! i)) (en50221_DeletePMT B dev_PIDIsSelected) s
          else Some s })"

definition join_program ::
  "'b psi_lib_scheme \<Rightarrow> nat \<Rightarrow> 16 word \<Rightarrow> 16 word \<Rightarrow> 'a dvbdemux_scheme \<Rightarrow> 'a dvbdemux_scheme option" where
  "join_program B n old sid s =
     (let s = upd_out (Nth n) (set_cfg_sid old) s in
      case FindSID sid s of
        None \<Rightarrow> Some s
      | Some i \<Rightarrow> do {
          s \<leftarrow> SelectPMT sid (sid_pmt_pid (pp_sids s ! i)) s;
          if i_ca_handle s \<noteq> 0 \<and> \<not> SIDIsSelected sid s
          then when_ca B (p_current_pmt (pp_sids s ! i)) (en50221_AddPMT B dev_PIDIsSelected) s
          else Some s })"

definition update_ca ::
  "'b psi_lib_scheme \<Rightarrow> 16 word \<Rightarrow> 'a dvbdemux_scheme \<Rightarrow> 'a dvbdemux_scheme option" where
  "update_ca B sid s =
     (if i_ca_handle s \<noteq> 0 \<and> sid \<noteq> 0 \<and> SIDIsSelected sid s
      then when_ca B (sid_pmt sid s) (en50221_UpdatePMT B dev_PIDIsSelected) s else Some s)"

definition moved_pids :: "nat list \<Rightarrow> nat list \<Rightarrow> nat list" where
  "moved_pids from_pids to_pids = filter (\<lambda>pid. \<not> IsIn to_pids pid) from_pids"

definition change_pids ::
  "'b psi_lib_scheme \<Rightarrow> nat \<Rightarrow> output_config \<Rightarrow> 16 word \<Rightarrow> nat list \<Rightarrow> 'a dvbdemux_scheme \<Rightarrow> (bool \<times> 'a dvbdemux_scheme) option" where
  "change_pids B n c old old_pids s = do {
     let sid = i_sid c;
     let sid_change = (sid \<noteq> old);
     (wanted, pcr) \<leftarrow> GetPIDS B sid (pi_pids c) s;
     (current, _) \<leftarrow> GetPIDS B old old_pids s;
     s \<leftarrow> (if sid_change \<and> old \<noteq> 0 then leave_program B n old sid s else Some s);
     s \<leftarrow> ofold (StopPID n) (moved_pids current wanted) s;
     s \<leftarrow> (if sid_change then update_ca B old s else Some s);
     s \<leftarrow> ofold (StartPID n) (moved_pids wanted current) s;
     let s = upd_out (Nth n) (\<lambda>p. p\<lparr>i_pcr_pid := pcr\<rparr>) s;
     s \<leftarrow> (if sid_change \<and> sid \<noteq> 0 then join_program B n old sid s else Some s);
     s \<leftarrow> update_ca B sid s;
     Some (moved_pids current wanted \<noteq> [] \<or> moved_pids wanted current \<noteq> [],
           upd_out (Nth n) (\<lambda>p. p\<lparr>config := (config p)\<lparr>b_passthrough := b_passthrough c, i_sid := sid,
                                    pi_pids := pi_pids c\<rparr>\<rparr>) s) }"

text \<open>Which tables of the output are built anew.\<close>

definition change_tables ::
  "'b psi_lib_scheme \<Rightarrow> nat \<Rightarrow> bool \<Rightarrow> bool \<Rightarrow> bool \<Rightarrow> bool \<Rightarrow> bool \<Rightarrow> bool \<Rightarrow>
   'a dvbdemux_scheme \<Rightarrow> 'a dvbdemux_scheme option" where
  "change_tables B n all tsid dvb network sdt pids s =
     (if all
      then do { s \<leftarrow> NewSDT B n s; s \<leftarrow> NewNIT B n s; s \<leftarrow> NewPAT B n s; NewPMT B n s }
      else do {
        s \<leftarrow>
          (if tsid then do { s \<leftarrow> NewSDT B n s; s \<leftarrow> NewNIT B n s; NewPAT B n s }
           else if dvb then do { s \<leftarrow> NewNIT B n s; NewPAT B n s }
           else if network then NewNIT B n s
           else Some s);
        s \<leftarrow> (if \<not> tsid \<and> sdt then NewSDT B n s else Some s);
        if pids then NewPMT B n s else Some s })"

definition same_streams :: "output_config \<Rightarrow> output_config \<Rightarrow> bool" where
  "same_streams c q \<longleftrightarrow> b_passthrough c = b_passthrough q \<and> i_sid c = i_sid q \<and> pi_pids c = pi_pids q"

definition demux_Change ::
  "'b psi_lib_scheme \<Rightarrow> nat \<Rightarrow> output_config \<Rightarrow> 'a dvbdemux_scheme \<Rightarrow> 'a dvbdemux_scheme option" where
  "demux_Change B n c s = do {
     p \<leftarrow> rd (pp_outputs s) n;
     let q = config p;
     let flip = i_config q XOR i_config c;
     let s = upd_out (Nth n) (\<lambda>p. p\<lparr>config := change_settings c (config p)\<rparr>) s;
     let (tsid, s) = change_tsid B n c s;
     (pids, s) \<leftarrow> (if same_streams c q then Some (False, s) else change_pids B n c (i_sid q) (pi_pids q) s);
     change_tables B n (i_sid c \<noteq> i_sid q \<or> remap_changes q c) tsid (has_flag flip OUTPUT_DVB) (network_changes q c)
       (service_changes q c \<or> has_flag flip OUTPUT_EPG) pids s }"

subsection \<open>Packed tables\<close>

definition psi_pack_section :: "'b psi_lib_scheme \<Rightarrow> bytes \<Rightarrow> bytes option" where
  "psi_pack_section B sec = peek 0 (section_length B sec) sec"

text \<open>The index is wide enough here: all 256 sections are packed.\<close>

definition psi_pack_sections :: "'b psi_lib_scheme \<Rightarrow> psi_table \<Rightarrow> bytes option option" where
  "psi_pack_sections B t =
     (if \<not> psi_table_validate B t then Some None
      else do {
        secs \<leftarrow> those (map (psi_table_get_section B t) [0..<psi_table_get_lastsection B t + 1]);
        flat \<leftarrow> those (map (psi_pack_section B) secs);
        Some (Some (concat flat)) })"

text \<open>
  One turn of the unpacking loop and the loop, at most \<open>PSI_TABLE_MAX_SECTIONS\<close> turns. The end
  test \<open>i_offset >= i_size - 1\<close> is one of \<open>unsigned int\<close>s.
\<close>

fun unpack_loop ::
  "'b psi_lib_scheme \<Rightarrow> bytes \<Rightarrow> nat \<Rightarrow> nat \<Rightarrow> nat \<Rightarrow> psi_table \<Rightarrow> psi_table option option" where
  "unpack_loop B flat flatlen 0 off t = Some (Some t)"
| "unpack_loop B flat flatlen (Suc n) off t =
     (let sec = drop off flat in
      if length flat < off + PSI_HEADER_SIZE B then None
      else if \<not> psi_validate B sec then Some None
      else (case psi_pack_section B sec of
              None \<Rightarrow> None
            | Some x \<Rightarrow>
                (let t = snd (psi_table_section B t x); off = off + section_length B sec in
                 if (flatlen + 2 ^ 32 - 1) mod 2 ^ 32 \<le> off then Some (Some t)
                 else unpack_loop B flat flatlen n off t)))"

definition psi_unpack_sections :: "'b psi_lib_scheme \<Rightarrow> bytes \<Rightarrow> nat \<Rightarrow> psi_table option option" where
  "psi_unpack_sections B flat flatlen =
     unpack_loop B flat flatlen (PSI_TABLE_MAX_SECTIONS B) 0 (psi_table_init B)"

definition demux_get_current_packed_PAT where "demux_get_current_packed_PAT B s = psi_pack_sections B (current_pat s)"
definition demux_get_current_packed_CAT where "demux_get_current_packed_CAT B s = psi_pack_sections B (current_cat s)"
definition demux_get_current_packed_NIT where "demux_get_current_packed_NIT B s = psi_pack_sections B (current_nit s)"
definition demux_get_current_packed_SDT where "demux_get_current_packed_SDT B s = psi_pack_sections B (current_sdt s)"

definition eit_pack_table :: "'b psi_lib_scheme \<Rightarrow> sid_entry \<Rightarrow> nat \<Rightarrow> bytes option" where
  "eit_pack_table B e t =
     (let k = (t + 256 - EIT_TABLE_ID_PF_ACTUAL B) mod 256 in
      if MAX_EIT_TABLES B \<le> k then Some []
      else do {
        ps \<leftarrow> those (map (\<lambda>r. case (eit_table e ! k) r of None \<Rightarrow> Some [] | Some x \<Rightarrow> psi_pack_section B x)
                       [0..<PSI_TABLE_MAX_SECTIONS B]);
        Some (concat ps) })"

definition demux_get_packed_EIT ::
  "'b psi_lib_scheme \<Rightarrow> 16 word \<Rightarrow> nat \<Rightarrow> nat \<Rightarrow> 'a dvbdemux_scheme \<Rightarrow> bytes option option" where
  "demux_get_packed_EIT B sid first_table last_table s =
     (case FindSID sid s of
        None \<Rightarrow> Some None
      | Some i \<Rightarrow> map_option (\<lambda>xs. Some (concat xs))
          (those (map (eit_pack_table B (pp_sids s ! i)) [first_table..<last_table + 1])))"

definition demux_get_packed_EIT_pf where
  "demux_get_packed_EIT_pf B sid = demux_get_packed_EIT B sid (EIT_TABLE_ID_PF_ACTUAL B) (EIT_TABLE_ID_PF_ACTUAL B)"

definition demux_get_packed_EIT_schedule where
  "demux_get_packed_EIT_schedule B sid =
     demux_get_packed_EIT B sid (EIT_TABLE_ID_SCHED_ACTUAL_FIRST B) (EIT_TABLE_ID_SCHED_ACTUAL_LAST B)"

definition demux_get_packed_PMT ::
  "'b psi_lib_scheme \<Rightarrow> 16 word \<Rightarrow> 'a dvbdemux_scheme \<Rightarrow> bytes option option" where
  "demux_get_packed_PMT B sid s = (case sid_pmt sid s of
       None \<Rightarrow> Some None
     | Some pmt \<Rightarrow> if pmt_validate B pmt then map_option Some (psi_pack_section B pmt) else Some None)"

definition demux_get_PID_info :: "nat \<Rightarrow> 'a dvbdemux_scheme \<Rightarrow> ts_pid_info option" where
  "demux_get_PID_info pid s = map_option pid_info (get_pid pid s)"

definition demux_get_PIDS_info :: "'a dvbdemux_scheme \<Rightarrow> ts_pid_info list option" where
  "demux_get_PIDS_info s = those (map (\<lambda>pid. demux_get_PID_info pid s) [0..<MAX_PIDS])"

end
