(* ===== verification/Dvb_CiProps.thy ===== *)
theory Dvb_CiProps
  imports Dvb_CiLink
begin

unbundle bit_operations_syntax

text \<open>
  Facts about the common interface: array access, what sending leaves alone, each slot's
  transmission as a FIFO (the TPDUs written so far, then those queued), the cutting of SPDUs
  and their reassembly, and the life of sessions.
\<close>

subsection \<open>Array access\<close>

lemma get_slot_eq [simp]: "get_slot i s = Some sl \<longleftrightarrow> i < length (p_slots s) \<and> sl = p_slots s ! i"
  by (simp add: get_slot_def)

lemma get_slot_less: "i < length (p_slots s) \<Longrightarrow> get_slot i s = Some (p_slots s ! i)"
  by simp

lemma upd_slot_simps [simp]:
  "p_sessions (upd_slot i f s) = p_sessions s" "sys_log (upd_slot i f s) = sys_log s"
  "length (p_slots (upd_slot i f s)) = length (p_slots s)"
  "i_ca_type (upd_slot i f s) = i_ca_type s" "i_nb_slots (upd_slot i f s) = i_nb_slots s"
  "sys_ret (upd_slot i f s) = sys_ret s" "ca_time (upd_slot i f s) = ca_time s"
  by (simp_all add: upd_slot_def)

lemma upd_slot_nth [simp]:
  "i < length (p_slots s) \<Longrightarrow> p_slots (upd_slot i f s) ! j = (if j = i then f (p_slots s ! i) else p_slots s ! j)"
  by (simp add: upd_slot_def nth_list_update)

lemma get_sess_eq [simp]: "get_sess sid s = Some ss \<longleftrightarrow> sess_ok s sid \<and> ss = sess s sid"
  by (auto simp: get_sess_def)

lemma get_sess_ok: "sess_ok s sid \<Longrightarrow> get_sess sid s = Some (sess s sid)"
  by simp

lemma get_sess_bad: "\<not> sess_ok s sid \<Longrightarrow> get_sess sid s = None"
  by (simp add: get_sess_def)

lemma upd_sess_simps [simp]:
  "p_slots (upd_sess sid f s) = p_slots s" "sys_log (upd_sess sid f s) = sys_log s"
  "length (p_sessions (upd_sess sid f s)) = length (p_sessions s)"
  "sess_ok (upd_sess sid f s) = sess_ok s"
  "i_ca_type (upd_sess sid f s) = i_ca_type s" "i_nb_slots (upd_sess sid f s) = i_nb_slots s"
  "sys_ret (upd_sess sid f s) = sys_ret s" "ca_time (upd_sess sid f s) = ca_time s"
  by (auto simp: upd_sess_def sess_ok_def fun_eq_iff)

lemma upd_sess_sess [simp]:
  assumes "sess_ok s sid" and "sess_ok s x"
  shows "sess (upd_sess sid f s) x = (if x = sid then f (sess s sid) else sess s x)"
  using assms by (auto simp: upd_sess_def sess_def sess_ok_def nth_list_update nat_eq_iff)

lemma sess_cong: "p_sessions s' = p_sessions s \<Longrightarrow> sess s' = sess s"
  by (simp add: sess_def fun_eq_iff)

lemma sess_ok_cong: "p_sessions s' = p_sessions s \<Longrightarrow> sess_ok s' = sess_ok s"
  by (simp add: sess_ok_def fun_eq_iff)

lemma sys_call_en [simp]:
  "p_slots (snd (sys_call c s)) = p_slots s" "p_sessions (snd (sys_call c s)) = p_sessions s"
  "i_ca_type (snd (sys_call c s)) = i_ca_type s" "i_nb_slots (snd (sys_call c s)) = i_nb_slots s"
  "ca_time (snd (sys_call c s)) = ca_time s"
  by (simp_all add: sys_call_def Let_def)

lemma sys_call_log: "sys_log (snd (sys_call c s)) = sys_log s @ [c]"
  by (simp add: sys_call_def Let_def)

lemma set_sys_simps [simp]:
  "p_slots (set_sys sid v s) = p_slots s" "sess_ok (set_sys sid v s) = sess_ok s"
  "sys_log (set_sys sid v s) = sys_log s" "i_ca_type (set_sys sid v s) = i_ca_type s"
  "length (p_sessions (set_sys sid v s)) = length (p_sessions s)"
  by (simp_all add: set_sys_def)

subsection \<open>What sending leaves alone\<close>

text \<open>Of a slot only the queue and the wait for an answer change; sessions do not.\<close>

definition idle_slot :: "ci_slot \<Rightarrow> ci_slot" where
  "idle_slot sl = sl\<lparr>sl_send := [], sl_expect_answer := False\<rparr>"

definition only_sends :: "'a dvben_scheme \<Rightarrow> 'a dvben_scheme \<Rightarrow> bool" where
  "only_sends s s' \<longleftrightarrow> p_sessions s' = p_sessions s \<and> i_ca_type s' = i_ca_type s \<and> i_nb_slots s' = i_nb_slots s
     \<and> map idle_slot (p_slots s') = map idle_slot (p_slots s)"

lemma only_sends_refl [intro, simp]: "only_sends s s"
  by (simp add: only_sends_def)

lemma only_sends_trans [trans]: "only_sends s t \<Longrightarrow> only_sends t u \<Longrightarrow> only_sends s u"
  by (simp add: only_sends_def)

lemma only_sends_upd_slot:
  "(\<And>sl. idle_slot (f sl) = idle_slot sl) \<Longrightarrow> only_sends s (upd_slot i f s)"
  by (auto simp: only_sends_def upd_slot_def map_update intro!: list_update_same_conv [THEN iffD2] nth_equalityI)
     (metis length_map list_update_id map_update nth_map)

lemma only_sends_call: "only_sends s (snd (sys_call c s))"
  by (simp add: only_sends_def)

lemma only_sendsD:
  assumes "only_sends s s'"
  shows "p_sessions s' = p_sessions s" "sess s' = sess s" "sess_ok s' = sess_ok s"
    "i_ca_type s' = i_ca_type s" "i_nb_slots s' = i_nb_slots s" "length (p_slots s') = length (p_slots s)"
proof -
  from assms have *: "p_sessions s' = p_sessions s" "map idle_slot (p_slots s') = map idle_slot (p_slots s)"
    by (auto simp: only_sends_def)
  show "p_sessions s' = p_sessions s" by (fact *(1))
  show "sess s' = sess s" using *(1) by (rule sess_cong)
  show "sess_ok s' = sess_ok s" using *(1) by (rule sess_ok_cong)
  show "i_ca_type s' = i_ca_type s" "i_nb_slots s' = i_nb_slots s" using assms by (auto simp: only_sends_def)
  show "length (p_slots s') = length (p_slots s)" using map_eq_imp_length_eq [OF *(2)] .
qed

lemma only_sends_slot:
  assumes "only_sends s s'" and "i < length (p_slots s)"
  shows "idle_slot (p_slots s' ! i) = idle_slot (p_slots s ! i)"
  using assms only_sendsD(6) [OF assms(1)] unfolding only_sends_def by (metis nth_map)

lemma only_sends_slot_fields:
  assumes "only_sends s s'" and "i < length (p_slots s)"
  shows "sl_send_last (p_slots s' ! i) = sl_send_last (p_slots s ! i)"
    "sl_pending (p_slots s' ! i) = sl_pending (p_slots s ! i)"
    "sl_recv (p_slots s' ! i) = sl_recv (p_slots s ! i)"
    "sl_active (p_slots s' ! i) = sl_active (p_slots s ! i)"
proof -
  have "idle_slot a = idle_slot b \<Longrightarrow> sl_send_last a = sl_send_last b \<and> sl_pending a = sl_pending b
      \<and> sl_recv a = sl_recv b \<and> sl_active a = sl_active b" for a b
    unfolding idle_slot_def by (cases a; cases b) simp
  from this [OF only_sends_slot [OF assms]]
  show "sl_send_last (p_slots s' ! i) = sl_send_last (p_slots s ! i)"
    "sl_pending (p_slots s' ! i) = sl_pending (p_slots s ! i)"
    "sl_recv (p_slots s' ! i) = sl_recv (p_slots s ! i)"
    "sl_active (p_slots s' ! i) = sl_active (p_slots s ! i)" by auto
qed

subsection \<open>A slot's transmission as a FIFO\<close>

fun ca_writes :: "syscall list \<Rightarrow> bytes list" where
  "ca_writes [] = []"
| "ca_writes (SysCaWrite m # cs) = m # ca_writes cs"
| "ca_writes (_ # cs) = ca_writes cs"

lemma ca_writes_append: "ca_writes (xs @ ys) = ca_writes xs @ ca_writes ys"
  by (induction xs rule: ca_writes.induct) auto

definition of_slot :: "nat \<Rightarrow> bytes \<Rightarrow> bool" where
  "of_slot i m \<longleftrightarrow> m \<noteq> [] \<and> hd m = of_nat i"

text \<open>All TPDUs of a slot in the order of \<open>TPDUSend\<close>: those written, then those that wait.\<close>

definition slot_stream :: "nat \<Rightarrow> 'a dvben_scheme \<Rightarrow> bytes list" where
  "slot_stream i s = filter (of_slot i) (ca_writes (sys_log s)) @ sl_send (p_slots s ! i)"

definition slot_ready :: "nat \<Rightarrow> 'a dvben_scheme \<Rightarrow> bool" where
  "slot_ready i s \<longleftrightarrow> i < length (p_slots s) \<and> sl_send_last (p_slots s ! i)
     \<and> (\<forall>m\<in>set (sl_send (p_slots s ! i)). of_slot i m)"

lemma TPDUWrite_spec:
  assumes "slot_ready i s" and "sl_send (p_slots s ! i) \<noteq> []"
  shows "\<exists>rc s'. TPDUWrite i s = Some (rc, s') \<and> slot_ready i s' \<and> slot_stream i s' = slot_stream i s
    \<and> only_sends s s' \<and> sl_send (p_slots s' ! i) = tl (sl_send (p_slots s ! i)) \<and> (rc = 0 \<or> rc = -1)"
proof -
  from assms(2) obtain m q where mq: "sl_send (p_slots s ! i) = m # q" by (cases "sl_send (p_slots s ! i)") auto
  have i: "i < length (p_slots s)" using assms(1) by (simp add: slot_ready_def)
  define s1 where "s1 = upd_slot i (\<lambda>sl. sl\<lparr>sl_send := q\<rparr>) s"
  define s2 where "s2 = snd (sys_call (SysCaWrite m) s1)"
  have o1: "only_sends s s1" unfolding s1_def by (rule only_sends_upd_slot) (simp add: idle_slot_def)
  have o2: "only_sends s1 s2" unfolding s2_def by (rule only_sends_call)
  have sl2: "p_slots s2 = p_slots s1" by (simp add: s2_def)
  have om: "of_slot i m" using assms(1) mq by (simp add: slot_ready_def)
  have lg: "sys_log s2 = sys_log s @ [SysCaWrite m]" by (simp add: s2_def s1_def sys_call_log)
  have q2: "sl_send (p_slots s2 ! i) = q" using i by (simp add: sl2 s1_def)
  have st2: "slot_stream i s2 = slot_stream i s"
    unfolding slot_stream_def lg q2 mq by (simp add: ca_writes_append om)
  have r2: "slot_ready i s2" using assms(1) i mq by (simp add: slot_ready_def sl2 s1_def)
  define n where "n = fst (sys_call (SysCaWrite m) s1)"
  have call: "sys_call (SysCaWrite m) s1 = (n, s2)" by (simp add: n_def s2_def)
  have W: "TPDUWrite i s = (if n \<noteq> int (length m) then Some (-1, s2)
      else Some (0, upd_slot i (\<lambda>sl. sl\<lparr>sl_expect_answer := True\<rparr>) s2))"
    using i mq call by (simp add: TPDUWrite_def get_slot_less s1_def Let_def)
  show ?thesis
  proof (cases "n = int (length m)")
    case True
    define s3 where "s3 = upd_slot i (\<lambda>sl. sl\<lparr>sl_expect_answer := True\<rparr>) s2"
    have i2: "i < length (p_slots s2)" using i by (simp add: sl2 s1_def)
    have "only_sends s2 s3" unfolding s3_def by (rule only_sends_upd_slot) (simp add: idle_slot_def)
    with o1 o2 have "only_sends s s3" using only_sends_trans by blast
    moreover have "slot_stream i s3 = slot_stream i s2" using i2 by (simp add: slot_stream_def s3_def)
    moreover have "slot_ready i s3" using r2 i2 by (simp add: slot_ready_def s3_def)
    ultimately show ?thesis using W True st2 q2 i2 mq by (simp add: s3_def)
  next
    case False
    then show ?thesis using W st2 r2 q2 mq only_sends_trans [OF o1 o2] by simp
  qed
qed

text \<open>Sending is an append to the FIFO, whether the TPDU is written at once, waits or fails.\<close>

lemma TPDUSend_spec:
  assumes "slot_ready i s" and "tpdu_bytes i tag content = Some m" and "of_slot i m"
  shows "\<exists>rc s'. TPDUSend i tag content s = Some (rc, s') \<and> slot_ready i s'
    \<and> slot_stream i s' = slot_stream i s @ [m] \<and> only_sends s s' \<and> (rc = 0 \<or> rc = -1)"
proof -
  have i: "i < length (p_slots s)" and l: "sl_send_last (p_slots s ! i)" using assms(1) by (simp_all add: slot_ready_def)
  define s1 where "s1 = upd_slot i (\<lambda>sl. sl\<lparr>sl_send := sl_send sl @ [m]\<rparr>) s"
  have r1: "slot_ready i s1" using assms i by (auto simp: slot_ready_def s1_def)
  have q1: "sl_send (p_slots s1 ! i) = sl_send (p_slots s ! i) @ [m]" using i by (simp add: s1_def)
  have st1: "slot_stream i s1 = slot_stream i s @ [m]" using i by (simp add: slot_stream_def s1_def)
  have o1: "only_sends s s1" unfolding s1_def by (rule only_sends_upd_slot) (simp add: idle_slot_def)
  have T: "TPDUSend i tag content s = (if \<not> sl_expect_answer (p_slots s ! i) then TPDUWrite i s1 else Some (0, s1))"
    using i l assms(2) by (simp add: TPDUSend_def get_slot_less s1_def Let_def)
  show ?thesis
  proof (cases "sl_expect_answer (p_slots s ! i)")
    case True
    then show ?thesis using T r1 st1 o1 by simp
  next
    case False
    from TPDUWrite_spec [OF r1] q1 obtain rc s' where W: "TPDUWrite i s1 = Some (rc, s')" "slot_ready i s'"
      "slot_stream i s' = slot_stream i s1" "only_sends s1 s'" "rc = 0 \<or> rc = -1" by auto
    then show ?thesis using T False st1 only_sends_trans [OF o1 W(4)] by auto
  qed
qed

text \<open>Every slot's transmission is an outgoing queue.\<close>

definition tpdu_accepted :: "nat \<Rightarrow> byte \<times> bytes \<Rightarrow> bool" where
  "tpdu_accepted i x \<longleftrightarrow> (\<exists>m. tpdu_bytes i (fst x) (snd x) = Some m \<and> of_slot i m)"

interpretation slot_queue: outbox "slot_ready i" "slot_stream i" "tpdu_accepted i"
    "\<lambda>x. the (tpdu_bytes i (fst x) (snd x))" "\<lambda>x s. map_option snd (TPDUSend i (fst x) (snd x) s)" for i
proof
  fix s :: "'a dvben_scheme" and x assume "slot_ready i s" and "tpdu_accepted i x"
  then obtain m where m: "tpdu_bytes i (fst x) (snd x) = Some m" "of_slot i m" by (auto simp: tpdu_accepted_def)
  from TPDUSend_spec [OF \<open>slot_ready i s\<close> m] m(1)
  show "\<exists>s'. map_option snd (TPDUSend i (fst x) (snd x) s) = Some s' \<and> slot_ready i s'
      \<and> slot_stream i s' = slot_stream i s @ [the (tpdu_bytes i (fst x) (snd x))]" by auto
qed

subsection \<open>The bytes of a TPDU\<close>

lemma SetLength_ne [simp]: "SetLength n \<noteq> []"
  using SetLength_length [of n] by auto

lemma data_tags [simp]:
  "T_DATA_LAST \<noteq> T_RCV" "T_DATA_LAST \<noteq> T_CREATE_TC" "T_DATA_LAST \<noteq> T_CTC_REPLY" "T_DATA_LAST \<noteq> T_DELETE_TC"
  "T_DATA_LAST \<noteq> T_DTC_REPLY" "T_DATA_LAST \<noteq> T_REQUEST_TC" "T_DATA_LAST \<noteq> T_NEW_TC" "T_DATA_LAST \<noteq> T_TC_ERROR"
  "T_DATA_MORE \<noteq> T_RCV" "T_DATA_MORE \<noteq> T_CREATE_TC" "T_DATA_MORE \<noteq> T_CTC_REPLY" "T_DATA_MORE \<noteq> T_DELETE_TC"
  "T_DATA_MORE \<noteq> T_DTC_REPLY" "T_DATA_MORE \<noteq> T_REQUEST_TC" "T_DATA_MORE \<noteq> T_NEW_TC" "T_DATA_MORE \<noteq> T_TC_ERROR"
  "T_DATA_MORE \<noteq> T_DATA_LAST"
  by (simp_all add: tpdu_tags)

definition is_data :: "byte \<Rightarrow> bool" where
  "is_data tag \<longleftrightarrow> tag = T_DATA_LAST \<or> tag = T_DATA_MORE"

definition data_tpdu :: "nat \<Rightarrow> byte \<Rightarrow> bytes \<Rightarrow> bytes" where
  "data_tpdu i tag c = [of_nat i, of_nat i + 1, tag] @ SetLength (int (length c) + 1) @ [of_nat i + 1] @ c"

lemma tpdu_bytes_data:
  assumes "is_data tag" and "length c \<le> MAX_TPDU_DATA"
  shows "tpdu_bytes i tag c = Some (data_tpdu i tag c)"
proof -
  have "length (SetLength (int (length c) + 1)) \<le> 3"
    using assms(2) by (intro SetLength_short) (simp add: MAX_TPDU_DATA_def)
  then have "length (data_tpdu i tag c) \<le> MAX_TPDU_SIZE"
    using assms(2) by (simp add: data_tpdu_def MAX_TPDU_DATA_def MAX_TPDU_SIZE_def)
  then show ?thesis using assms(1) by (auto simp: tpdu_bytes_def is_data_def data_tpdu_def Let_def)
qed

lemma data_tpdu_of_slot [simp]: "of_slot i (data_tpdu i tag c)"
  by (simp add: of_slot_def data_tpdu_def)

text \<open>What the receiver takes out of a data TPDU is what the sender put in.\<close>

lemma data_content_tpdu:
  assumes "length c \<le> MAX_TPDU_DATA"
  shows "data_content (drop 3 (data_tpdu i tag c)) = Some c"
proof -
  have "GetLength (SetLength (int (length c) + 1) @ (of_nat i + 1) # c) = Some (int (length c) + 1, (of_nat i + 1) # c)"
    using assms by (intro GetLength_SetLength) (simp_all add: MAX_TPDU_DATA_def)
  then show ?thesis by (simp add: data_content_def data_tpdu_def Let_def)
qed

subsection \<open>SPDUs in pieces\<close>

fun spdu_pieces :: "nat \<Rightarrow> bytes \<Rightarrow> (bool \<times> bytes) list" where
  "spdu_pieces 0 p = []"
| "spdu_pieces (Suc n) p =
     (if p = [] then []
      else if MAX_TPDU_DATA < length p then (False, take MAX_TPDU_DATA p) # spdu_pieces n (drop MAX_TPDU_DATA p)
      else [(True, p)])"

text \<open>As many turns as there are bytes are enough.\<close>

definition pieces :: "bytes \<Rightarrow> (bool \<times> bytes) list" where
  "pieces p = spdu_pieces (length p) p"

lemma spdu_pieces_enough:
  "length p \<le> n \<Longrightarrow> length p \<le> m \<Longrightarrow> spdu_pieces n p = spdu_pieces m p"
proof (induction n arbitrary: m p)
  case 0
  then show ?case by (cases m) auto
next
  case (Suc n)
  show ?case
  proof (cases m)
    case 0
    with Suc.prems show ?thesis by simp
  next
    case (Suc k)
    have "MAX_TPDU_DATA < length p \<Longrightarrow>
        spdu_pieces n (drop MAX_TPDU_DATA p) = spdu_pieces k (drop MAX_TPDU_DATA p)"
      using Suc.prems \<open>m = Suc k\<close> by (intro Suc.IH) (auto simp: MAX_TPDU_DATA_def)
    with Suc show ?thesis by simp
  qed
qed

lemma pieces_Nil [simp]: "pieces [] = []"
  by (simp add: pieces_def)

lemma pieces_short: "p \<noteq> [] \<Longrightarrow> length p \<le> MAX_TPDU_DATA \<Longrightarrow> pieces p = [(True, p)]"
  by (cases p) (simp_all add: pieces_def)

lemma pieces_long:
  "MAX_TPDU_DATA < length p \<Longrightarrow> pieces p = (False, take MAX_TPDU_DATA p) # pieces (drop MAX_TPDU_DATA p)"
proof -
  assume l: "MAX_TPDU_DATA < length p"
  then obtain n where n: "length p = Suc n" by (cases "length p") auto
  with l have "spdu_pieces n (drop MAX_TPDU_DATA p) = pieces (drop MAX_TPDU_DATA p)"
    unfolding pieces_def by (intro spdu_pieces_enough) (auto simp: MAX_TPDU_DATA_def)
  then show ?thesis using l n by (auto simp: pieces_def)
qed

lemma pieces_induct [case_names Nil short long]:
  assumes "P []" and "\<And>p. p \<noteq> [] \<Longrightarrow> length p \<le> MAX_TPDU_DATA \<Longrightarrow> P p"
    and "\<And>p. MAX_TPDU_DATA < length p \<Longrightarrow> P (drop MAX_TPDU_DATA p) \<Longrightarrow> P p"
  shows "P p"
proof (induction p rule: length_induct)
  case (1 p)
  have "MAX_TPDU_DATA < length p \<Longrightarrow> P (drop MAX_TPDU_DATA p)"
    using 1 by (simp add: MAX_TPDU_DATA_def)
  then show ?case using assms by (metis leI)
qed

lemma pieces_concat: "concat (map snd (pieces p)) = p"
  by (induction p rule: pieces_induct) (simp_all add: pieces_short pieces_long)

lemma MAX_TPDU_DATA_pos [simp]: "0 < MAX_TPDU_DATA" "MAX_TPDU_DATA \<noteq> 0"
  by (simp_all add: MAX_TPDU_DATA_def)

lemma pieces_fit: "\<forall>x\<in>set (pieces p). snd x \<noteq> [] \<and> length (snd x) \<le> MAX_TPDU_DATA"
proof (induction p rule: pieces_induct)
  case (short p)
  then show ?case using pieces_short [OF short] by simp
next
  case (long p)
  have "take MAX_TPDU_DATA p \<noteq> []" using long(1) by auto
  then show ?case using long(2) pieces_long [OF long(1)] by simp
qed simp

definition piece_tpdu :: "nat \<Rightarrow> bool \<times> bytes \<Rightarrow> bytes" where
  "piece_tpdu i x = data_tpdu i (if fst x then T_DATA_LAST else T_DATA_MORE) (snd x)"

text \<open>\<open>SPDUSend\<close> appends the TPDUs of the pieces to the slot's FIFO, all of them or, when a
  write fails, an initial part.\<close>

lemma spdu_send_loop_spec:
  assumes "slot_ready i s"
  shows "\<exists>rc s' k. spdu_send_loop i p s = Some (rc, s') \<and> slot_ready i s' \<and> only_sends s s'
    \<and> slot_stream i s' = slot_stream i s @ take k (map (piece_tpdu i) (pieces p))
    \<and> (rc = 0 \<longrightarrow> length (pieces p) \<le> k) \<and> (rc = 0 \<or> rc = -1)"
  using assms
proof (induction p arbitrary: s rule: pieces_induct)
  case Nil
  then show ?case by (simp add: spdu_send_loop.simps)
next
  case (short p)
  from TPDUSend_spec [OF short.prems tpdu_bytes_data [of T_DATA_LAST p i]] short
  obtain rc s' where T: "TPDUSend i T_DATA_LAST p s = Some (rc, s')" "slot_ready i s'"
    "slot_stream i s' = slot_stream i s @ [data_tpdu i T_DATA_LAST p]" "only_sends s s'" "rc = 0 \<or> rc = -1"
    by (auto simp: is_data_def)
  have "spdu_send_loop i p s = Some (rc, s')"
    using T short by (subst spdu_send_loop.simps) auto
  moreover have "map (piece_tpdu i) (pieces p) = [data_tpdu i T_DATA_LAST p]"
    using short by (simp add: pieces_short piece_tpdu_def)
  ultimately show ?case using T short by (intro exI [of _ rc] exI [of _ s'] exI [of _ 1]) (simp add: pieces_short)
next
  case (long p)
  let ?c = "take MAX_TPDU_DATA p"
  have c: "length ?c \<le> MAX_TPDU_DATA" by simp
  from TPDUSend_spec [OF long.prems tpdu_bytes_data [of T_DATA_MORE ?c i]] c
  obtain rc s1 where T: "TPDUSend i T_DATA_MORE ?c s = Some (rc, s1)" "slot_ready i s1"
    "slot_stream i s1 = slot_stream i s @ [data_tpdu i T_DATA_MORE ?c]" "only_sends s s1" "rc = 0 \<or> rc = -1"
    by (auto simp: is_data_def)
  have P: "map (piece_tpdu i) (pieces p) = data_tpdu i T_DATA_MORE ?c # map (piece_tpdu i) (pieces (drop MAX_TPDU_DATA p))"
    using long by (simp add: pieces_long piece_tpdu_def)
  have ne: "p \<noteq> []" using long by auto
  show ?case
  proof (cases "rc = 0")
    case True
    from long.IH [OF T(2)] obtain rc' s' k where I: "spdu_send_loop i (drop MAX_TPDU_DATA p) s1 = Some (rc', s')"
      "slot_ready i s'" "only_sends s1 s'"
      "slot_stream i s' = slot_stream i s1 @ take k (map (piece_tpdu i) (pieces (drop MAX_TPDU_DATA p)))"
      "rc' = 0 \<longrightarrow> length (pieces (drop MAX_TPDU_DATA p)) \<le> k" "rc' = 0 \<or> rc' = -1" by blast
    have "spdu_send_loop i p s = Some (rc', s')"
      using T(1) True I(1) long(1) ne by (subst spdu_send_loop.simps) simp
    moreover have "slot_stream i s' = slot_stream i s @ take (Suc k) (map (piece_tpdu i) (pieces p))"
      by (simp add: I(4) T(3) P)
    ultimately show ?thesis
      using I only_sends_trans [OF T(4) I(3)] pieces_long [OF long(1)]
      by (intro exI [of _ rc'] exI [of _ s'] exI [of _ "Suc k"]) simp
  next
    case False
    then have "spdu_send_loop i p s = Some (-1, s1)"
      using T(1) long(1) ne by (subst spdu_send_loop.simps) simp
    then show ?thesis using T False P by (intro exI [of _ "-1"] exI [of _ s1] exI [of _ 1]) simp
  qed
qed

subsection \<open>Reassembly\<close>

text \<open>The receiver is given the pieces one after the other; only the last one is handed up.\<close>

definition recv_pieces ::
  "'b psi_lib_scheme \<Rightarrow> 'a resend_capmts \<Rightarrow> nat \<Rightarrow> (bool \<times> bytes) list \<Rightarrow> 'a dvben_scheme \<Rightarrow> 'a dvben_scheme option" where
  "recv_pieces B R i xs = ofold (\<lambda>x. recv_data B R i (fst x) (drop 3 (piece_tpdu i x))) xs"

definition recv_whole ::
  "'b psi_lib_scheme \<Rightarrow> 'a resend_capmts \<Rightarrow> nat \<Rightarrow> bytes \<Rightarrow> 'a dvben_scheme \<Rightarrow> 'a dvben_scheme option" where
  "recv_whole B R i p s = do {
     s \<leftarrow> SPDUHandle B R i p (upd_slot i (\<lambda>sl. sl\<lparr>sl_recv := Some p\<rparr>) s);
     Some (upd_slot i (\<lambda>sl. sl\<lparr>sl_recv := None\<rparr>) s) }"

lemma upd_slot_twice:
  "i < length (p_slots s) \<Longrightarrow> upd_slot i f (upd_slot i g s) = upd_slot i (\<lambda>sl. f (g sl)) s"
  by (simp add: upd_slot_def)

lemma recv_data_piece:
  assumes "i < length (p_slots s)" and "snd x \<noteq> []" and "length (snd x) \<le> MAX_TPDU_DATA"
  defines "buf \<equiv> (case sl_recv (p_slots s ! i) of None \<Rightarrow> [] | Some r \<Rightarrow> r) @ snd x"
  shows "recv_data B R i (fst x) (drop 3 (piece_tpdu i x)) s =
    (if fst x then recv_whole B R i buf s else Some (upd_slot i (\<lambda>sl. sl\<lparr>sl_recv := Some buf\<rparr>) s))"
proof -
  have "data_content (drop 3 (piece_tpdu i x)) = Some (snd x)"
    unfolding piece_tpdu_def using assms(3) by (rule data_content_tpdu)
  then show ?thesis
    using assms(1,2) by (simp add: recv_data_def recv_whole_def get_slot_less buf_def Let_def)
qed

lemma recv_pieces_whole:
  assumes "i < length (p_slots s)" and "p \<noteq> []"
  shows "recv_pieces B R i (pieces p) s =
    recv_whole B R i ((case sl_recv (p_slots s ! i) of None \<Rightarrow> [] | Some r \<Rightarrow> r) @ p) s"
  using assms
proof (induction p arbitrary: s rule: pieces_induct)
  case Nil
  then show ?case by simp
next
  case (short p)
  have "recv_data B R i True (drop 3 (piece_tpdu i (True, p))) s =
      recv_whole B R i ((case sl_recv (p_slots s ! i) of None \<Rightarrow> [] | Some r \<Rightarrow> r) @ p) s"
    using recv_data_piece [of i s "(True, p)" B R] short by simp
  then show ?case using short by (simp add: recv_pieces_def pieces_short split: option.split)
next
  case (long p)
  let ?c = "take MAX_TPDU_DATA p" and ?old = "case sl_recv (p_slots s ! i) of None \<Rightarrow> [] | Some r \<Rightarrow> r"
  let ?s1 = "upd_slot i (\<lambda>sl. sl\<lparr>sl_recv := Some (?old @ ?c)\<rparr>) s"
  have c: "?c \<noteq> []" "length ?c \<le> MAX_TPDU_DATA" using long by (auto simp: MAX_TPDU_DATA_def)
  have D: "recv_data B R i False (drop 3 (piece_tpdu i (False, ?c))) s = Some ?s1"
    using recv_data_piece [of i s "(False, ?c)" B R] long(3) c by simp
  have W: "recv_whole B R i q ?s1 = recv_whole B R i q s" for q
    unfolding recv_whole_def upd_slot_twice [OF long(3)] by simp
  have "recv_pieces B R i (pieces p) s = recv_pieces B R i (pieces (drop MAX_TPDU_DATA p)) ?s1"
    unfolding pieces_long [OF long(1)] recv_pieces_def using D by simp
  also have "\<dots> = recv_whole B R i ((?old @ ?c) @ drop MAX_TPDU_DATA p) ?s1"
    using long.IH [of ?s1] long(1,3) by simp
  finally show ?case using W by simp
qed

end
