(* ===== verification/Dvb_CiSessions.thy ===== *)
theory Dvb_CiSessions
  imports Dvb_CiProps
begin

text \<open>
  The life of a session: what a well-formed common interface is, that sending leaves sessions
  alone, that opening a resource and closing a session return and keep the state well formed.
\<close>

subsection \<open>Well-formed slots and sessions\<close>

text \<open>The close function a session has fits the data its \<open>p_sys\<close> points to.\<close>

definition closable :: "session \<Rightarrow> bool" where
  "closable ss \<longleftrightarrow> (case ss_close ss of
       None \<Rightarrow> True
     | Some CConditionalAccess \<Rightarrow> (case ss_sys ss of SysIds _ \<Rightarrow> True | _ \<Rightarrow> False)
     | Some CDateTime \<Rightarrow> (case ss_sys ss of SysDate _ \<Rightarrow> True | _ \<Rightarrow> False)
     | Some CMmi \<Rightarrow> (case ss_sys ss of SysMmi m \<Rightarrow> en50221_MMIFree m \<noteq> None | _ \<Rightarrow> False))"

definition sess_wf :: "int \<Rightarrow> session \<Rightarrow> bool" where
  "sess_wf n ss \<longleftrightarrow> ss_manage ss = None \<and> (ss_resource ss \<noteq> 0 \<longrightarrow> 0 \<le> ss_slot ss \<and> ss_slot ss < n \<and> closable ss)"

definition ci_wf :: "'a dvben_scheme \<Rightarrow> bool" where
  "ci_wf s \<longleftrightarrow> length (p_sessions s) = MAX_SESSIONS \<and> length (p_slots s) = MAX_CI_SLOTS
     \<and> i_nb_slots s \<le> int MAX_CI_SLOTS \<and> i_ca_type s = CA_CI_LINK
     \<and> (\<forall>i. int i < i_nb_slots s \<longrightarrow> slot_ready i s
          \<and> 0 \<le> sl_pending (p_slots s ! i) \<and> sl_pending (p_slots s ! i) \<le> int MAX_SESSIONS)
     \<and> (\<forall>sid. sess_ok s sid \<longrightarrow> sess_wf (i_nb_slots s) (sess s sid))"

definition in_use :: "'a dvben_scheme \<Rightarrow> int \<Rightarrow> bool" where
  "in_use s sid \<longleftrightarrow> sess_ok s sid \<and> ss_resource (sess s sid) \<noteq> 0"

lemma ci_wf_sess_ok: "ci_wf s \<Longrightarrow> sess_ok s sid \<longleftrightarrow> 1 \<le> sid \<and> sid \<le> 32"
  by (simp add: ci_wf_def sess_ok_def MAX_SESSIONS_def)

lemma ci_wf_slot: "ci_wf s \<Longrightarrow> int i < i_nb_slots s \<Longrightarrow> slot_ready i s \<and> i < length (p_slots s) \<and> i < 16"
  by (auto simp: ci_wf_def MAX_CI_SLOTS_def)

lemma slot8_small [simp]: "i < 256 \<Longrightarrow> slot8 (int i) = i"
  by (simp add: slot8_def)

subsection \<open>Sending changes only queues\<close>

definition quiet :: "'a dvben_scheme \<Rightarrow> 'a dvben_scheme \<Rightarrow> bool" where
  "quiet s s' \<longleftrightarrow> only_sends s s' \<and> (\<forall>j. slot_ready j s \<longrightarrow> slot_ready j s')"

lemma quiet_refl [simp, intro]: "quiet s s"
  by (simp add: quiet_def)

lemma quiet_trans [trans]: "quiet s t \<Longrightarrow> quiet t u \<Longrightarrow> quiet s u"
  unfolding quiet_def using only_sends_trans by blast

lemma TPDUWrite_others:
  assumes "TPDUWrite i s = Some (rc, s')" and "j \<noteq> i"
  shows "p_slots s' ! j = p_slots s ! j"
proof (cases "i < length (p_slots s)")
  case i: True
  show ?thesis
  proof (cases "sl_send (p_slots s ! i)")
    case Nil
    then show ?thesis using assms i by (simp add: TPDUWrite_def get_slot_less)
  next
    case (Cons m q)
    define s1 where "s1 = upd_slot i (\<lambda>sl. sl\<lparr>sl_send := q\<rparr>) s"
    obtain n s2 where c: "sys_call (SysCaWrite m) s1 = (n, s2)" by (cases "sys_call (SysCaWrite m) s1")
    then have "p_slots s2 = p_slots s1" using sys_call_en(1) [of "SysCaWrite m" s1] by simp
    then show ?thesis
      using assms i Cons c by (auto simp: TPDUWrite_def get_slot_less s1_def [symmetric] Let_def split: if_splits)
         (simp_all add: s1_def upd_slot_def)
  qed
next
  case False
  then show ?thesis using assms by (simp add: TPDUWrite_def get_slot_def rd_def)
qed

lemma TPDUSend_others:
  assumes "TPDUSend i tag c s = Some (rc, s')" and "j \<noteq> i"
  shows "p_slots s' ! j = p_slots s ! j"
proof (cases "i < length (p_slots s)")
  case i: True
  from assms(1) i obtain m where m: "tpdu_bytes i tag c = Some m"
    by (cases "tpdu_bytes i tag c") (simp_all add: TPDUSend_def get_slot_less)
  define s1 where "s1 = upd_slot i (\<lambda>sl. sl\<lparr>sl_send := sl_send sl @ [m]\<rparr>) s"
  have "p_slots s1 ! j = p_slots s ! j" using assms(2) by (simp add: s1_def upd_slot_def)
  moreover have "TPDUWrite i s1 = Some (rc, s') \<or> s' = s1"
    using assms(1) i m by (simp add: TPDUSend_def get_slot_less s1_def [symmetric] Let_def ensure_def split: if_splits)
  ultimately show ?thesis using TPDUWrite_others [OF _ assms(2)] by metis
next
  case False
  then show ?thesis using assms by (simp add: TPDUSend_def get_slot_def rd_def)
qed

lemma slot_ready_cong:
  "length (p_slots s') = length (p_slots s) \<Longrightarrow> p_slots s' ! j = p_slots s ! j \<Longrightarrow> slot_ready j s \<Longrightarrow> slot_ready j s'"
  by (simp add: slot_ready_def)

lemma TPDUSend_quiet:
  assumes "slot_ready i s" and "tpdu_bytes i tag c = Some m" and "of_slot i m"
  shows "\<exists>rc s'. TPDUSend i tag c s = Some (rc, s') \<and> quiet s s' \<and> (rc = 0 \<or> rc = -1)"
proof -
  from TPDUSend_spec [OF assms] obtain rc s' where S: "TPDUSend i tag c s = Some (rc, s')" "slot_ready i s'"
    "only_sends s s'" "rc = 0 \<or> rc = -1" by blast
  have "i < length (p_slots s)" using assms(1) by (simp add: slot_ready_def)
  then have "slot_ready j s'" if "slot_ready j s" for j
    using that S(2) TPDUSend_others [OF S(1)] only_sendsD(6) [OF S(3)] slot_ready_cong [of s' s j] by (cases "j = i") auto
  with S show ?thesis by (auto simp: quiet_def)
qed

lemma spdu_send_loop_quiet:
  assumes "slot_ready i s"
  shows "\<exists>rc s'. spdu_send_loop i p s = Some (rc, s') \<and> quiet s s'"
  using assms
proof (induction p arbitrary: s rule: pieces_induct)
  case Nil
  then show ?case by (simp add: spdu_send_loop.simps)
next
  case (short p)
  from TPDUSend_quiet [OF short.prems tpdu_bytes_data [of T_DATA_LAST p i]] short
  obtain rc s' where T: "TPDUSend i T_DATA_LAST p s = Some (rc, s')" "quiet s s'"
    by (auto simp: is_data_def)
  then show ?case using short by (subst spdu_send_loop.simps) auto
next
  case (long p)
  let ?c = "take MAX_TPDU_DATA p"
  from TPDUSend_quiet [OF long.prems tpdu_bytes_data [of T_DATA_MORE ?c i]]
  obtain rc s1 where T: "TPDUSend i T_DATA_MORE ?c s = Some (rc, s1)" "quiet s s1"
    by (auto simp: is_data_def)
  have r1: "slot_ready i s1" using T(2) long.prems by (simp add: quiet_def)
  from long.IH [OF r1] obtain rc' s' where I: "spdu_send_loop i (drop MAX_TPDU_DATA p) s1 = Some (rc', s')" "quiet s1 s'"
    by blast
  have ne: "p \<noteq> []" using long by auto
  show ?case
  proof (cases "rc = 0")
    case True
    have "spdu_send_loop i p s = Some (rc', s')" using T(1) I(1) ne long(1) True by (subst spdu_send_loop.simps) simp
    then show ?thesis using quiet_trans [OF T(2) I(2)] by blast
  next
    case False
    have "spdu_send_loop i p s = Some (-1, s1)" using T(1) ne long(1) False by (subst spdu_send_loop.simps) simp
    then show ?thesis using T(2) by blast
  qed
qed

lemma ci_wf_quiet:
  assumes "ci_wf s" and "quiet s s'"
  shows "ci_wf s'"
proof -
  from assms(2) have o: "only_sends s s'" and r: "\<And>j. slot_ready j s \<Longrightarrow> slot_ready j s'" by (auto simp: quiet_def)
  note D = only_sendsD [OF o]
  have P: "sl_pending (p_slots s' ! i) = sl_pending (p_slots s ! i)" if "int i < i_nb_slots s" for i
    using only_sends_slot_fields(2) [OF o] ci_wf_slot [OF assms(1) that] by blast
  show ?thesis using assms(1) r P unfolding ci_wf_def D by metis
qed

lemma quiet_sess: "quiet s s' \<Longrightarrow> sess s' = sess s" "quiet s s' \<Longrightarrow> sess_ok s' = sess_ok s"
  "quiet s s' \<Longrightarrow> p_sessions s' = p_sessions s"
  "quiet s s' \<Longrightarrow> i_nb_slots s' = i_nb_slots s" "quiet s s' \<Longrightarrow> i_ca_type s' = i_ca_type s"
  "quiet s s' \<Longrightarrow> length (p_slots s') = length (p_slots s)"
  by (auto simp: quiet_def dest: only_sendsD)

text \<open>A session of an existing slot can always send.\<close>

definition sendable :: "'a dvben_scheme \<Rightarrow> int \<Rightarrow> bool" where
  "sendable s sid \<longleftrightarrow> sess_ok s sid \<and> 0 \<le> ss_slot (sess s sid) \<and> ss_slot (sess s sid) < i_nb_slots s"

lemma in_use_sendable: "ci_wf s \<Longrightarrow> in_use s sid \<Longrightarrow> sendable s sid"
  by (auto simp: ci_wf_def in_use_def sendable_def sess_wf_def)

lemma apdu_send_quiet:
  assumes "ci_wf s" and "sendable s sid"
  shows "\<exists>s'. apdu_send sid tag p s = Some s' \<and> quiet s s'"
proof -
  define i where "i = nat (ss_slot (sess s sid))"
  have i: "int i < i_nb_slots s" "ss_slot (sess s sid) = int i" using assms(2) by (auto simp: sendable_def i_def)
  from ci_wf_slot [OF assms(1) i(1)] have r: "slot_ready i s" "i < 16" by auto
  from spdu_send_loop_quiet [OF r(1)] obtain rc s' where
    "spdu_send_loop i ([ST_SESSION_NUMBER, 0x02] @ word16_bytes sid @ apdu_bytes tag p) s = Some (rc, s')" "quiet s s'"
    by blast
  moreover have "sess_ok s sid" using assms(2) by (simp add: sendable_def)
  moreover have "i_ca_type s = CA_CI_LINK" using assms(1) by (simp add: ci_wf_def)
  ultimately show ?thesis using i(2) r(2) by (simp add: apdu_send_def APDUSend_def SPDUSend_def get_sess_ok Let_def)
qed

subsection \<open>Changing one session\<close>

definition one_session :: "int \<Rightarrow> 'a dvben_scheme \<Rightarrow> 'a dvben_scheme \<Rightarrow> bool" where
  "one_session sid s s' \<longleftrightarrow> sess_ok s' = sess_ok s \<and> length (p_slots s') = length (p_slots s)
     \<and> i_nb_slots s' = i_nb_slots s \<and> (\<forall>x. sess_ok s x \<and> x \<noteq> sid \<longrightarrow> sess s' x = sess s x)"

lemma one_session_refl [simp, intro]: "one_session sid s s"
  by (simp add: one_session_def)

lemma one_session_trans: "one_session sid s t \<Longrightarrow> one_session sid t u \<Longrightarrow> one_session sid s u"
  by (simp add: one_session_def)

lemma one_session_quiet: "quiet s s' \<Longrightarrow> one_session sid s s'"
  by (simp add: one_session_def quiet_sess)

lemma one_session_upd: "sess_ok s sid \<Longrightarrow> one_session sid s (upd_sess sid f s)"
  by (simp add: one_session_def)

lemma slot_ready_upd_sess [simp]: "slot_ready i (upd_sess sid f s) = slot_ready i s"
  by (simp add: slot_ready_def)

lemma ci_wf_upd_sess:
  assumes "ci_wf s" and "sess_ok s sid" and "sess_wf (i_nb_slots s) (f (sess s sid))"
  shows "ci_wf (upd_sess sid f s)"
  using assms by (auto simp: ci_wf_def)

lemma sess_wf_free [simp]: "ss_resource ss = 0 \<Longrightarrow> sess_wf n ss \<longleftrightarrow> ss_manage ss = None"
  by (simp add: sess_wf_def)

lemma closable_handle [simp]: "closable (ss\<lparr>ss_handle := h\<rparr>) = closable ss"
  by (simp add: closable_def split: option.split closer.split)

lemma closable_none [simp]: "closable (ss\<lparr>ss_close := None\<rparr>)"
  by (simp add: closable_def)

lemma closable_fresh [simp]:
  "closable (ss\<lparr>ss_close := Some CConditionalAccess, ss_sys := SysIds i\<rparr>)"
  "closable (ss\<lparr>ss_manage := None, ss_close := Some CDateTime, ss_sys := SysDate d\<rparr>)"
  "closable (ss\<lparr>ss_close := Some CMmi, ss_sys := SysMmi MmiNone\<rparr>)"
  by (simp_all add: closable_def en50221_MMIFree_def)

subsection \<open>Opening a resource\<close>

text \<open>The session goes on with the resource it was asked for, its slot does not change.\<close>

definition opened :: "int \<Rightarrow> 'a dvben_scheme \<Rightarrow> 'a dvben_scheme \<Rightarrow> bool" where
  "opened sid s s' \<longleftrightarrow> ci_wf s' \<and> one_session sid s s' \<and> map idle_slot (p_slots s') = map idle_slot (p_slots s)
     \<and> ss_slot (sess s' sid) = ss_slot (sess s sid) \<and> ss_resource (sess s' sid) = ss_resource (sess s sid)"

lemma opened_refl: "ci_wf s \<Longrightarrow> opened sid s s"
  by (simp add: opened_def)

lemma opened_trans: "opened sid s t \<Longrightarrow> opened sid t u \<Longrightarrow> opened sid s u"
  by (auto simp: opened_def dest: one_session_trans)

lemma opened_quiet: "ci_wf s \<Longrightarrow> quiet s s' \<Longrightarrow> opened sid s s'"
proof -
  assume a: "ci_wf s" "quiet s s'"
  have "map idle_slot (p_slots s') = map idle_slot (p_slots s)" using a(2) by (simp add: quiet_def only_sends_def)
  then show ?thesis
    using ci_wf_quiet [OF a] one_session_quiet [OF a(2)] by (simp add: opened_def quiet_sess(1) [OF a(2)])
qed

lemma opened_upd:
  assumes "ci_wf s" and "sess_ok s sid" and "sess_wf (i_nb_slots s) (f (sess s sid))"
    and "ss_slot (f (sess s sid)) = ss_slot (sess s sid)" and "ss_resource (f (sess s sid)) = ss_resource (sess s sid)"
  shows "opened sid s (upd_sess sid f s)"
  using assms by (simp add: opened_def one_session_upd ci_wf_upd_sess)

lemma opened_sendable: "sendable s sid \<Longrightarrow> opened sid s s' \<Longrightarrow> sendable s' sid"
  by (auto simp: sendable_def opened_def one_session_def)

lemma opened_ok: "opened sid s s' \<Longrightarrow> sess_ok s' = sess_ok s" "opened sid s s' \<Longrightarrow> i_nb_slots s' = i_nb_slots s"
  by (simp_all add: opened_def one_session_def)

lemma ci_wf_sess: "ci_wf s \<Longrightarrow> sess_ok s sid \<Longrightarrow> sess_wf (i_nb_slots s) (sess s sid)"
  by (simp add: ci_wf_def)

lemma open_session_opened:
  assumes "ci_wf s" and "sess_ok s sid"
  shows "\<exists>s'. open_session sid h s = Some s' \<and> opened sid s s'"
proof -
  have "opened sid s (upd_sess sid (\<lambda>ss. ss\<lparr>ss_handle := Some h\<rparr>) s)"
    using ci_wf_sess [OF assms] assms by (intro opened_upd) (auto simp: sess_wf_def)
  then show ?thesis using assms(2) by (simp add: open_session_def)
qed

lemma send_opened:
  assumes "ci_wf s" and "sendable s sid"
  shows "\<exists>s'. apdu_send sid tag p s = Some s' \<and> quiet s s' \<and> opened sid s s'"
  using apdu_send_quiet [OF assms] opened_quiet [OF assms(1)] by blast

text \<open>Installing a handler, then sending a first APDU.\<close>

lemma open_then_send:
  assumes "ci_wf s" and "sendable s sid"
  shows "\<exists>s'. (open_session sid h s \<bind> apdu_send sid tag p) = Some s' \<and> opened sid s s'"
proof -
  have ok: "sess_ok s sid" using assms(2) by (simp add: sendable_def)
  from open_session_opened [OF assms(1) ok] obtain s1 where 1: "open_session sid h s = Some s1" "opened sid s s1" by blast
  from send_opened [of s1 sid tag p] obtain s' where "apdu_send sid tag p s1 = Some s'" "opened sid s1 s'"
    using 1(2) opened_sendable [OF assms(2) 1(2)] by (auto simp: opened_def)
  with 1 opened_trans [OF 1(2)] show ?thesis by auto
qed

text \<open>The same with data of its own in \<open>p_sys\<close>.\<close>

lemma open_with_sys:
  assumes "ci_wf s" and "sendable s sid"
    and "\<And>ss. closable (f ss) \<and> (ss_manage ss = None \<longrightarrow> ss_manage (f ss) = None) \<and> ss_slot (f ss) = ss_slot ss \<and> ss_resource (f ss) = ss_resource ss"
  shows "\<exists>s1. open_session sid h s = Some s1 \<and> opened sid s (upd_sess sid f s1)
    \<and> sendable (upd_sess sid f s1) sid \<and> sess (upd_sess sid f s1) sid = f (sess s1 sid)"
proof -
  have ok: "sess_ok s sid" using assms(2) by (simp add: sendable_def)
  from open_session_opened [OF assms(1) ok] obtain s1 where 1: "open_session sid h s = Some s1" "opened sid s s1" by blast
  have s1: "ci_wf s1" "sess_ok s1 sid" "i_nb_slots s1 = i_nb_slots s" "sendable s1 sid"
    using 1(2) ok opened_ok [OF 1(2)] opened_sendable [OF assms(2) 1(2)] by (simp_all add: opened_def)
  have "opened sid s1 (upd_sess sid f s1)"
    using s1 assms(3) ci_wf_sess [OF s1(1,2)] by (intro opened_upd) (auto simp: sess_wf_def sendable_def)
  then have o: "opened sid s (upd_sess sid f s1)" using opened_trans [OF 1(2)] by blast
  then show ?thesis using 1(1) s1(2) opened_sendable [OF assms(2) o] by simp
qed

lemma DateTimeSend_opened:
  assumes "ci_wf s" and "sendable s sid" and "ss_sys (sess s sid) = SysDate d"
  shows "\<exists>s'. DateTimeSend sid s = Some s' \<and> opened sid s s'"
proof -
  define s1 where "s1 = snd (sys_call SysTime s)"
  have q1: "quiet s s1" by (simp add: quiet_def s1_def only_sends_call slot_ready_def)
  note o1 = opened_quiet [OF assms(1) q1, of sid]
  show ?thesis
  proof (cases "ca_time s1 (length (sys_log s))")
    case None
    then show ?thesis using o1 by (simp add: DateTimeSend_def s1_def [symmetric] Let_def)
  next
    case (Some t)
    have w1: "ci_wf s1" using o1 by (simp add: opened_def)
    from send_opened [OF w1 opened_sendable [OF assms(2) o1], of AOT_DATE_TIME "date_time_bytes t"]
    obtain s2 where 2: "apdu_send sid AOT_DATE_TIME (date_time_bytes t) s1 = Some s2" "quiet s1 s2" "opened sid s1 s2" by blast
    have o2: "opened sid s s2" using opened_trans [OF o1 2(3)] .
    have x: "sess_ok s2 sid" "sess s2 sid = sess s sid" "ci_wf s2"
      using o2 assms(2) quiet_sess(1) [OF quiet_trans [OF q1 2(2)]] opened_ok [OF o2] by (simp_all add: sendable_def opened_def)
    have "opened sid s2 (set_sys sid (SysDate (d\<lparr>dt_active := (dt_repeat d \<noteq> 0)\<rparr>)) s2)"
      unfolding set_sys_def using x assms(3) ci_wf_sess [OF x(3,1)]
      by (intro opened_upd) (auto simp: sess_wf_def closable_def split: option.splits closer.splits)
    then have "opened sid s (set_sys sid (SysDate (d\<lparr>dt_active := (dt_repeat d \<noteq> 0)\<rparr>)) s2)" using opened_trans [OF o2] by blast
    then show ?thesis using 2(1) Some x assms(3)
      by (simp add: DateTimeSend_def s1_def [symmetric] Let_def get_sess_ok sys_as_date_def)
  qed
qed

lemma open_resource_known:
  assumes "ci_wf s" and "sendable s sid" and "known_resource rid"
  shows "\<exists>s'. open_resource rid sid s = Some s' \<and> opened sid s s'"
proof -
  note W = assms(1,2)
  have RM: "\<exists>s'. ResourceManagerOpen sid s = Some s' \<and> opened sid s s'"
    using open_then_send [OF W, of HResourceManager AOT_PROFILE_ENQ "[]"] by (simp add: ResourceManagerOpen_def)
  have AI: "\<exists>s'. ApplicationInformationOpen sid s = Some s' \<and> opened sid s s'"
    using open_then_send [OF W, of HApplicationInformation AOT_APPLICATION_INFO_ENQ "[]"]
    by (simp add: ApplicationInformationOpen_def)
  have CA: "\<exists>s'. ConditionalAccessOpen sid s = Some s' \<and> opened sid s s'"
  proof -
    let ?f = "\<lambda>ss. ss\<lparr>ss_close := Some CConditionalAccess, ss_sys := SysIds zero_ids\<rparr>"
    from open_with_sys [OF W, of ?f HConditionalAccess] obtain s1 where
      1: "open_session sid HConditionalAccess s = Some s1" "opened sid s (upd_sess sid ?f s1)"
        "sendable (upd_sess sid ?f s1) sid" by auto
    from 1(2) have w1: "ci_wf (upd_sess sid ?f s1)" by (simp add: opened_def)
    from send_opened [OF w1 1(3), of AOT_CA_INFO_ENQ "[]"] obtain s2 where
      "apdu_send sid AOT_CA_INFO_ENQ [] (upd_sess sid ?f s1) = Some s2" "opened sid (upd_sess sid ?f s1) s2" by blast
    then show ?thesis using 1 opened_trans [OF 1(2)] by (simp add: ConditionalAccessOpen_def)
  qed
  have DT: "\<exists>s'. DateTimeOpen sid s = Some s' \<and> opened sid s s'"
  proof -
    let ?d = "\<lparr>dt_session_id = sid, dt_interval = 0, dt_repeat = 0, dt_active = False\<rparr>"
    let ?f = "\<lambda>ss. ss\<lparr>ss_manage := None, ss_close := Some CDateTime, ss_sys := SysDate ?d\<rparr>"
    from open_with_sys [OF W, of ?f HDateTime] obtain s1 where
      1: "open_session sid HDateTime s = Some s1" "opened sid s (upd_sess sid ?f s1)"
        "sendable (upd_sess sid ?f s1) sid" "sess (upd_sess sid ?f s1) sid = ?f (sess s1 sid)" by auto
    from 1(2) have w1: "ci_wf (upd_sess sid ?f s1)" by (simp add: opened_def)
    from DateTimeSend_opened [OF w1 1(3), of ?d] 1(4) obtain s2 where
      "DateTimeSend sid (upd_sess sid ?f s1) = Some s2" "opened sid (upd_sess sid ?f s1) s2" by auto
    then show ?thesis using 1(1) opened_trans [OF 1(2)] by (simp add: DateTimeOpen_def)
  qed
  have MM: "\<exists>s'. MMIOpen sid s = Some s' \<and> opened sid s s'"
  proof -
    let ?f = "\<lambda>ss. ss\<lparr>ss_close := Some CMmi, ss_sys := SysMmi MmiNone\<rparr>"
    from open_with_sys [OF W, of ?f HMmi] obtain s1 where
      1: "open_session sid HMmi s = Some s1" "opened sid s (upd_sess sid ?f s1)" by auto
    then show ?thesis by (simp add: MMIOpen_def)
  qed
  show ?thesis using RM AI CA DT MM assms(3) unfolding open_resource_def known_resource_def
    by (simp split: if_split) blast
qed

lemma open_resource_unknown:
  assumes "sess_ok s sid" and "\<not> known_resource rid"
  shows "open_resource rid sid s = Some (upd_sess sid (\<lambda>ss. ss\<lparr>ss_resource := 0\<rparr>) s)"
  using assms by (simp add: open_resource_def known_resource_def)

subsection \<open>Ending a session\<close>

text \<open>Nothing but the session itself changes, and of its slot only what the user sees of MMI.\<close>

definition unseen :: "ci_slot \<Rightarrow> ci_slot" where
  "unseen sl = sl\<lparr>sl_mmi_expected := False, sl_mmi_undisplayed := False\<rparr>"

definition session_ended :: "int \<Rightarrow> 'a dvben_scheme \<Rightarrow> 'a dvben_scheme \<Rightarrow> bool" where
  "session_ended sid s s' \<longleftrightarrow> one_session sid s s' \<and> i_ca_type s' = i_ca_type s \<and> sys_log s' = sys_log s
     \<and> ss_resource (sess s' sid) = 0 \<and> ss_slot (sess s' sid) = ss_slot (sess s sid)
     \<and> ss_manage (sess s' sid) = ss_manage (sess s sid)
     \<and> (\<forall>j. int j \<noteq> ss_slot (sess s sid) \<longrightarrow> p_slots s' ! j = p_slots s ! j)
     \<and> map unseen (p_slots s') = map unseen (p_slots s)"

lemma free_sys_ok:
  assumes "sess_ok s sid" and "ss_sys (sess s sid) \<noteq> SysFreed"
  shows "free_sys sid s = Some (if ss_sys (sess s sid) = SysNull then s else set_sys sid SysFreed s)"
  using assms by (simp add: free_sys_def get_sess_ok split: session_sys.split)

lemma free_sys_freed: "sess_ok s sid \<Longrightarrow> ss_sys (sess s sid) = SysFreed \<Longrightarrow> free_sys sid s = None"
  by (simp add: free_sys_def get_sess_ok)

lemma set_sys_sess: "sess_ok s sid \<Longrightarrow> sess_ok s x \<Longrightarrow>
  sess (set_sys sid v s) x = (if x = sid then (sess s sid)\<lparr>ss_sys := v\<rparr> else sess s x)"
  by (simp add: set_sys_def)

lemma unseen_update:
  assumes "i < length xs" and "unseen y = unseen (xs ! i)"
  shows "map unseen (xs[i := y]) = map unseen xs"
  using assms by (simp add: map_update list_update_same_conv)

lemma end_session_ended:
  assumes "sess_ok s sid" and "closable (sess s sid)" and "0 \<le> ss_slot (sess s sid)"
    and "ss_slot (sess s sid) < int (length (p_slots s))"
  shows "\<exists>s'. end_session sid s = Some s' \<and> session_ended sid s s'"
proof -
  let ?ss = "sess s sid" and ?free = "upd_sess sid (\<lambda>ss. ss\<lparr>ss_resource := 0\<rparr>)"
  have E: "session_ended sid s (?free (set_sys sid SysFreed s))" "session_ended sid s (?free s)"
    using assms(1) by (simp_all add: session_ended_def one_session_def set_sys_sess)
      (simp_all add: set_sys_def)
  show ?thesis
  proof (cases "ss_close ?ss")
    case None
    then show ?thesis using assms(1) E(2) by (simp add: end_session_def get_sess_ok)
  next
    case (Some c)
    show ?thesis
    proof (cases c)
      case CConditionalAccess
      with Some assms(2) obtain i where "ss_sys ?ss = SysIds i" by (auto simp: closable_def split: session_sys.splits)
      then show ?thesis using Some CConditionalAccess assms(1) E(1)
        by (simp add: end_session_def get_sess_ok run_closer_def ConditionalAccessClose_def free_sys_ok)
    next
      case CDateTime
      with Some assms(2) obtain d where "ss_sys ?ss = SysDate d" by (auto simp: closable_def split: session_sys.splits)
      then show ?thesis using Some CDateTime assms(1) E(1)
        by (simp add: end_session_def get_sess_ok run_closer_def DateTimeClose_def free_sys_ok sys_as_date_def)
    next
      case CMmi
      with Some assms(2) obtain m u where m: "ss_sys ?ss = SysMmi m" "en50221_MMIFree m = Some u"
        by (auto simp: closable_def split: session_sys.splits)
      define i where "i = nat (ss_slot ?ss)"
      have i: "i < length (p_slots s)" "ss_slot ?ss = int i" using assms(3,4) by (auto simp: i_def)
      define s1 where "s1 = upd_slot i (\<lambda>sl. sl\<lparr>sl_mmi_expected := False, sl_mmi_undisplayed := True\<rparr>) (set_sys sid SysFreed s)"
      have "MMIClose sid s = Some s1"
        using m i assms(1) by (simp add: MMIClose_def get_sess_ok sys_as_mmi_def free_sys_ok mmi_arrived_def s1_def)
      moreover have "session_ended sid s (?free s1)"
      proof -
        have sl: "p_slots (?free s1) = (p_slots s)[i := (p_slots s ! i)\<lparr>sl_mmi_expected := False, sl_mmi_undisplayed := True\<rparr>]"
          by (simp add: s1_def) (simp add: upd_slot_def set_sys_def upd_sess_def)
        have ss: "p_sessions (?free s1) = p_sessions (?free (set_sys sid SysFreed s))"
          by (simp add: s1_def upd_sess_def sess_def)
        have "map unseen (p_slots (?free s1)) = map unseen (p_slots s)"
          unfolding sl by (rule unseen_update [OF i(1)]) (simp add: unseen_def)
        moreover have "\<forall>j. int j \<noteq> ss_slot ?ss \<longrightarrow> p_slots (?free s1) ! j = p_slots s ! j"
          unfolding sl using i by simp
        moreover have "length (p_slots (?free s1)) = length (p_slots s)" by (simp only: sl length_list_update)
        moreover have "i_nb_slots (?free s1) = i_nb_slots s" "i_ca_type (?free s1) = i_ca_type s" "sys_log (?free s1) = sys_log s"
          by (simp_all add: s1_def) (simp_all add: set_sys_def)
        ultimately show ?thesis
          using E(1) unfolding session_ended_def one_session_def sess_cong [OF ss] sess_ok_cong [OF ss] by simp
      qed
      ultimately show ?thesis using Some CMmi assms(1)
        by (simp add: end_session_def get_sess_ok run_closer_def)
    qed
  qed
qed

text \<open>The data is given back, the close function stays.\<close>

lemma end_session_freed:
  assumes "end_session sid s = Some s'" and "sess_ok s sid" and "ss_close (sess s sid) \<noteq> None"
    and "closable (sess s sid)"
  shows "ss_sys (sess s' sid) = SysFreed" and "ss_close (sess s' sid) = ss_close (sess s sid)"
proof -
  let ?ss = "sess s sid" and ?free = "upd_sess sid (\<lambda>ss. ss\<lparr>ss_resource := 0\<rparr>)"
  from assms(3) obtain c where c: "ss_close ?ss = Some c" by auto
  have ok: "sess_ok (set_sys sid SysFreed s) sid" using assms(2) by simp
  have base: "ss_sys (sess (?free (set_sys sid SysFreed s)) sid) = SysFreed
      \<and> ss_close (sess (?free (set_sys sid SysFreed s)) sid) = ss_close ?ss"
    using assms(2) by (simp add: set_sys_sess)
  have p: "p_sessions s' = p_sessions (?free (set_sys sid SysFreed s))"
  proof (cases c)
    case CMmi
    with c assms(4) obtain m u where m: "ss_sys ?ss = SysMmi m" "en50221_MMIFree m = Some u"
      by (auto simp: closable_def split: session_sys.splits)
    have "p_sessions (?free (upd_slot k f v)) = p_sessions (?free v)" for k f and v :: "'a dvben_scheme"
      by (simp add: upd_sess_def sess_def)
    then show ?thesis using assms(1,2) c m CMmi
      by (auto simp: end_session_def get_sess_ok run_closer_def MMIClose_def sys_as_mmi_def free_sys_ok mmi_arrived_def
          split: if_splits)
  next
    case CDateTime
    with c assms(4) obtain d where "ss_sys ?ss = SysDate d" by (auto simp: closable_def split: session_sys.splits)
    then show ?thesis using assms(1,2) c CDateTime
      by (auto simp: end_session_def get_sess_ok run_closer_def DateTimeClose_def sys_as_date_def free_sys_ok)
  next
    case CConditionalAccess
    with c assms(4) obtain d where "ss_sys ?ss = SysIds d" by (auto simp: closable_def split: session_sys.splits)
    then show ?thesis using assms(1,2) c CConditionalAccess
      by (auto simp: end_session_def get_sess_ok run_closer_def ConditionalAccessClose_def free_sys_ok)
  qed
  show "ss_sys (sess s' sid) = SysFreed" "ss_close (sess s' sid) = ss_close ?ss"
    using base unfolding sess_cong [OF p] by simp_all
qed

lemma session_number_small:
  assumes "1 \<le> sid" and "sid \<le> 32"
  shows "session_number (word_of_int (sid div 256)) (word_of_int sid) = sid"
proof -
  have "sid div 256 = 0" using assms by simp
  moreover have "int (unat (word_of_int sid :: byte)) = sid"
    using assms by (simp add: unsigned_of_int take_bit_int_eq_self)
  ultimately show ?thesis by (simp add: session_number_def)
qed

lemma unseen_slot_ready:
  assumes "map unseen (p_slots s') = map unseen (p_slots s)" and "slot_ready i s"
  shows "slot_ready i s'" and "sl_pending (p_slots s' ! i) = sl_pending (p_slots s ! i)"
proof -
  have l: "length (p_slots s') = length (p_slots s)" using map_eq_imp_length_eq [OF assms(1)] .
  have i: "i < length (p_slots s)" using assms(2) by (simp add: slot_ready_def)
  have "unseen (p_slots s' ! i) = unseen (p_slots s ! i)" using assms(1) i l by (metis nth_map)
  then have e: "sl_send (p_slots s' ! i) = sl_send (p_slots s ! i) \<and> sl_send_last (p_slots s' ! i) = sl_send_last (p_slots s ! i)
      \<and> sl_pending (p_slots s' ! i) = sl_pending (p_slots s ! i)"
    by (cases "p_slots s' ! i"; cases "p_slots s ! i") (simp add: unseen_def)
  then show "sl_pending (p_slots s' ! i) = sl_pending (p_slots s ! i)" by simp
  show "slot_ready i s'" using assms(2) e l by (simp add: slot_ready_def)
qed

lemma session_ended_wf:
  assumes "ci_wf s" and "session_ended sid s s'"
  shows "ci_wf s'"
proof -
  have f: "sess_ok s' = sess_ok s" "length (p_slots s') = length (p_slots s)" "i_nb_slots s' = i_nb_slots s"
    "i_ca_type s' = i_ca_type s" "map unseen (p_slots s') = map unseen (p_slots s)"
    using assms(2) by (simp_all add: session_ended_def one_session_def)
  have "length (p_sessions s') = length (p_sessions s)"
  proof -
    have "sess_ok s' x = sess_ok s x" for x using f(1) by simp
    from this [of "int (length (p_sessions s'))"] this [of "int (length (p_sessions s))"] show ?thesis
      by (auto simp: sess_ok_def)
  qed
  moreover have "sess_wf (i_nb_slots s) (sess s' x)" if "sess_ok s x" for x
    using that assms ci_wf_sess [OF assms(1) that] by (cases "x = sid") (auto simp: session_ended_def one_session_def ci_wf_def sess_wf_def)
  moreover have "slot_ready i s' \<and> sl_pending (p_slots s' ! i) = sl_pending (p_slots s ! i)" if "int i < i_nb_slots s" for i
    using unseen_slot_ready [OF f(5)] ci_wf_slot [OF assms(1) that] by blast
  ultimately show ?thesis using assms(1) unfolding ci_wf_def f by simp
qed

subsection \<open>Resetting a slot\<close>

definition reset_state :: "nat \<Rightarrow> 'a dvben_scheme \<Rightarrow> 'a dvben_scheme" where
  "reset_state i s = upd_slot i (\<lambda>sl. sl\<lparr>sl_active := False, sl_init_timer := True, sl_expect_answer := False,
     sl_mmi_expected := False, sl_mmi_undisplayed := False, sl_recv := None, sl_send := [],
     sl_send_last := True\<rparr>) (snd (sys_call (SysCaReset i) s))"

lemma reset_state_simps [simp]:
  "p_sessions (reset_state i s) = p_sessions s" "length (p_slots (reset_state i s)) = length (p_slots s)"
  "i_nb_slots (reset_state i s) = i_nb_slots s" "i_ca_type (reset_state i s) = i_ca_type s"
  "sess_ok (reset_state i s) = sess_ok s" "sess (reset_state i s) = sess s"
  by (simp_all add: reset_state_def sess_ok_def sess_def fun_eq_iff)

lemma reset_state_slot:
  assumes "i < length (p_slots s)"
  shows "p_slots (reset_state i s) ! j = (if j = i then (p_slots s ! i)\<lparr>sl_active := False, sl_init_timer := True,
    sl_expect_answer := False, sl_mmi_expected := False, sl_mmi_undisplayed := False, sl_recv := None, sl_send := [],
    sl_send_last := True\<rparr> else p_slots s ! j)"
  using assms by (simp add: reset_state_def)

lemma reset_state_wf:
  assumes "ci_wf s" and "int i < i_nb_slots s"
  shows "ci_wf (reset_state i s)"
proof -
  have i: "i < length (p_slots s)" using ci_wf_slot [OF assms] by simp
  have "slot_ready j (reset_state i s) \<and> sl_pending (p_slots (reset_state i s) ! j) = sl_pending (p_slots s ! j)"
    if "slot_ready j s" for j
    using that i by (simp add: slot_ready_def reset_state_slot)
  then show ?thesis using assms(1) by (simp add: ci_wf_def)
qed

definition closed_upto :: "nat \<Rightarrow> nat \<Rightarrow> 'a dvben_scheme \<Rightarrow> 'a dvben_scheme \<Rightarrow> bool" where
  "closed_upto i n t s \<longleftrightarrow> ci_wf s \<and> sess_ok s = sess_ok t \<and> i_nb_slots s = i_nb_slots t
     \<and> sys_log s = sys_log t \<and> map unseen (p_slots s) = map unseen (p_slots t)
     \<and> (\<forall>j. j \<noteq> i \<longrightarrow> p_slots s ! j = p_slots t ! j)
     \<and> (\<forall>x. sess_ok t x \<longrightarrow> (if in_use t x \<and> ss_slot (sess t x) = int i \<and> x \<le> int n
           then ss_resource (sess s x) = 0 \<and> ss_slot (sess s x) = int i else sess s x = sess t x))"

lemma close_slot_session_step:
  assumes "closed_upto i n t s" and "n < MAX_SESSIONS" and "int i < i_nb_slots t"
  shows "\<exists>s'. close_slot_session i (Suc n) s = Some s' \<and> closed_upto i (Suc n) t s'"
proof -
  have w: "ci_wf s" and ok: "sess_ok s = sess_ok t" and nb: "i_nb_slots s = i_nb_slots t"
    using assms(1) by (auto simp: closed_upto_def)
  have x: "sess_ok s (int (Suc n))" using assms(2) ci_wf_sess_ok [OF w] by (simp add: MAX_SESSIONS_def)
  have same: "sess s (int (Suc n)) = sess t (int (Suc n))" using assms(1) x ok by (auto simp: closed_upto_def)
  show ?thesis
  proof (cases "ss_resource (sess s (int (Suc n))) \<noteq> 0 \<and> ss_slot (sess s (int (Suc n))) = int i")
    case True
    have wf: "sess_wf (i_nb_slots s) (sess s (int (Suc n)))" using ci_wf_sess [OF w x] .
    have il: "i < length (p_slots s)" using ci_wf_slot [OF w, of i] assms(3) nb by simp
    from end_session_ended [OF x] True wf il obtain s' where
      e: "end_session (int (Suc n)) s = Some s'" "session_ended (int (Suc n)) s s'" by (auto simp: sess_wf_def)
    have f: "sess_ok s' = sess_ok s" "i_nb_slots s' = i_nb_slots s" "sys_log s' = sys_log s"
      "map unseen (p_slots s') = map unseen (p_slots s)" "\<forall>j. j \<noteq> i \<longrightarrow> p_slots s' ! j = p_slots s ! j"
      using e(2) True by (auto simp: session_ended_def one_session_def)
    have "(if in_use t y \<and> ss_slot (sess t y) = int i \<and> y \<le> int (Suc n)
           then ss_resource (sess s' y) = 0 \<and> ss_slot (sess s' y) = int i else sess s' y = sess t y)" if y: "sess_ok t y" for y
    proof (cases "y = int (Suc n)")
      case yn: True
      then show ?thesis using e(2) True same y by (simp add: session_ended_def in_use_def)
    next
      case False
      then have "sess s' y = sess s y" using e(2) y ok by (simp add: session_ended_def one_session_def)
      moreover have "y \<le> int (Suc n) \<longleftrightarrow> y \<le> int n" using False by auto
      ultimately show ?thesis using assms(1) y by (simp add: closed_upto_def)
    qed
    then have "closed_upto i (Suc n) t s'"
      using assms(1) f session_ended_wf [OF w e(2)] by (simp add: closed_upto_def)
    then show ?thesis using e(1) True by (simp add: close_slot_session_def Let_def)
  next
    case False
    have "closed_upto i (Suc n) t s"
    proof -
      have "(if in_use t y \<and> ss_slot (sess t y) = int i \<and> y \<le> int (Suc n)
           then ss_resource (sess s y) = 0 \<and> ss_slot (sess s y) = int i else sess s y = sess t y)" if y: "sess_ok t y" for y
      proof (cases "y = int (Suc n)")
        case yn: True
        then show ?thesis using False same y by (auto simp: in_use_def)
      next
        case yn: False
        then have "y \<le> int (Suc n) \<longleftrightarrow> y \<le> int n" by auto
        then show ?thesis using assms(1) y by (simp add: closed_upto_def)
      qed
      then show ?thesis using assms(1) by (simp add: closed_upto_def)
    qed
    then show ?thesis using False by (auto simp: close_slot_session_def Let_def)
  qed
qed

lemma ResetSlot_spec:
  assumes "ci_wf s" and "int i < i_nb_slots s"
  shows "\<exists>s'. ResetSlot i s = Some s' \<and> closed_upto i MAX_SESSIONS (reset_state i s) s'"
proof -
  let ?t = "reset_state i s"
  have i: "i < length (p_slots s)" using ci_wf_slot [OF assms] by simp
  have "closed_upto i 0 ?t ?t"
    using reset_state_wf [OF assms] by (auto simp: closed_upto_def sess_ok_def)
  moreover have "\<exists>s'. (\<lambda>n. close_slot_session i (Suc n)) n s = Some s' \<and> closed_upto i (Suc n) ?t s'"
    if "n < MAX_SESSIONS" "closed_upto i n ?t s" for n s
    using close_slot_session_step [OF that(2,1)] assms(2) by simp
  ultimately have "\<exists>s'. ofold (\<lambda>n. close_slot_session i (Suc n)) [0..<MAX_SESSIONS] ?t = Some s'
      \<and> closed_upto i MAX_SESSIONS ?t s'" by (intro ofold_upt) auto
  moreover have "ofold (close_slot_session i) [1..<MAX_SESSIONS + 1] ?t = ofold (\<lambda>n. close_slot_session i (Suc n)) [0..<MAX_SESSIONS] ?t"
    using ofold_map [of "close_slot_session i" Suc "[0..<MAX_SESSIONS]" ?t] by (simp add: map_Suc_upt)
  ultimately show ?thesis using i
    by (simp add: ResetSlot_def get_slot_less Let_def reset_state_def [symmetric] del: upt_Suc)
qed

text \<open>While no session of a slot is in use, resetting it is only the reset.\<close>

lemma ResetSlot_idle:
  assumes "\<forall>ss\<in>set (p_sessions s). ss_resource ss = 0" and "length (p_sessions s) = MAX_SESSIONS"
    and "i < length (p_slots s)"
  shows "ResetSlot i s = Some (reset_state i s)"
proof -
  let ?t = "reset_state i s"
  have "close_slot_session i n u = Some u" if "n \<in> set [1..<MAX_SESSIONS + 1]" "p_sessions u = p_sessions s" for n and u :: "'a dvben_scheme"
  proof -
    have "p_sessions s ! (n - 1) \<in> set (p_sessions s)" using that(1) assms(2) by (intro nth_mem) (auto simp: MAX_SESSIONS_def)
    moreover have "nat (int n - 1) = n - 1" by simp
    ultimately have "ss_resource (sess u (int n)) = 0" using assms(1) that(2) by (simp only: sess_def)
    then show ?thesis by (simp add: close_slot_session_def)
  qed
  then have "\<exists>u. ofold (close_slot_session i) [1..<MAX_SESSIONS + 1] ?t = Some u \<and> u = ?t"
    by (intro ofold_total) (auto simp del: upt_Suc)
  then show ?thesis using assms(3)
    by (simp add: ResetSlot_def get_slot_less Let_def reset_state_def [symmetric] del: upt_Suc)
qed

subsection \<open>A session is requested\<close>

definition open_answer :: "bytes \<Rightarrow> int \<Rightarrow> 32 word \<Rightarrow> bytes" where
  "open_answer spdu sid rid = [ST_OPEN_SESSION_RESPONSE, 0x7, if known_resource rid then SS_OK else SS_NOT_ALLOCATED]
     @ take 4 (drop 2 spdu) @ word16_bytes sid"

lemma free_session_spec:
  assumes "free_session s \<le> int (length (p_sessions s))"
  shows "sess_ok s (free_session s)" and "ss_resource (sess s (free_session s)) = 0"
    and "\<And>x. 1 \<le> x \<Longrightarrow> x < free_session s \<Longrightarrow> ss_resource (sess s x) \<noteq> 0"
proof -
  let ?n = "index_of (\<lambda>ss. ss_resource ss = 0) (p_sessions s)"
  have n: "?n < length (p_sessions s)" using assms by (simp add: free_session_def)
  show "sess_ok s (free_session s)" using n by (simp add: free_session_def sess_ok_def)
  show "ss_resource (sess s (free_session s)) = 0"
    using index_of_hit [OF n] by (simp add: free_session_def sess_def)
  fix x assume x: "1 \<le> x" "x < free_session s"
  then have "nat (x - 1) < ?n" by (simp add: free_session_def)
  then show "ss_resource (sess s x) \<noteq> 0" using index_of_miss by (fastforce simp: sess_def)
qed

lemma SessionOpen_spec:
  assumes "ci_wf s" and "int i < i_nb_slots s" and "length spdu = 6" and "free_session s \<le> int MAX_SESSIONS"
    and "ResourceIdToInt (drop 2 spdu) = Some rid"
  defines "sid \<equiv> free_session s"
  shows "\<exists>s'. SessionOpen i spdu s = Some s' \<and> ci_wf s'
    \<and> slot_stream i s' = slot_stream i s @ [data_tpdu i T_DATA_LAST (open_answer spdu sid rid)]
    \<and> sess s' sid = (sess s sid)\<lparr>ss_slot := int i, ss_resource := rid, ss_close := None, ss_manage := None\<rparr>
    \<and> one_session sid s s' \<and> (sl_pending (p_slots s' ! i) = sid \<or> sl_pending (p_slots s' ! i) = sl_pending (p_slots s ! i))"
proof -
  let ?f = "\<lambda>ss. ss\<lparr>ss_slot := int i, ss_resource := rid, ss_close := None, ss_manage := None\<rparr>"
  define s1 where "s1 = upd_sess sid ?f s"
  have len: "length (p_sessions s) = MAX_SESSIONS" using assms(1) by (simp add: ci_wf_def)
  have ok: "sess_ok s sid" using free_session_spec(1) [of s] assms(4) len by (simp add: sid_def)
  from ci_wf_slot [OF assms(1,2)] have i: "slot_ready i s" "i < length (p_slots s)" "i < 16" by auto
  have w1: "ci_wf s1" unfolding s1_def using assms(1,2) ok by (intro ci_wf_upd_sess) (auto simp: sess_wf_def closable_def)
  have st1: "slot_stream i s1 = slot_stream i s" by (simp add: slot_stream_def s1_def)
  have o1: "one_session sid s s1" unfolding s1_def by (rule one_session_upd [OF ok])
  have e1: "sess s1 sid = ?f (sess s sid)" using ok by (simp add: s1_def)
  let ?c = "open_answer spdu sid rid"
  have c: "length ?c \<le> MAX_TPDU_DATA" using assms(3) by (simp add: open_answer_def word16_bytes_def MAX_TPDU_DATA_def)
  have b: "tpdu_bytes i T_DATA_LAST ?c = Some (data_tpdu i T_DATA_LAST ?c)" using c by (intro tpdu_bytes_data) (simp_all add: is_data_def)
  have r1: "slot_ready i s1" using i(1) by (simp add: s1_def)
  from TPDUSend_spec [OF r1 b data_tpdu_of_slot] obtain rc s2 where 2: "TPDUSend i T_DATA_LAST ?c s1 = Some (rc, s2)"
    "slot_stream i s2 = slot_stream i s1 @ [data_tpdu i T_DATA_LAST ?c]" by blast
  from TPDUSend_quiet [OF r1 b data_tpdu_of_slot] 2(1) have q2: "quiet s1 s2" by auto
  have w2: "ci_wf s2" using ci_wf_quiet [OF w1 q2] .
  have o2: "one_session sid s s2" using one_session_trans [OF o1 one_session_quiet [OF q2]] .
  have e2: "sess s2 sid = ?f (sess s sid)" using quiet_sess(1) [OF q2] e1 by simp
  have l2: "i < length (p_slots s2)" using quiet_sess(6) [OF q2] i(2) by (simp add: s1_def)
  have p2: "sl_pending (p_slots s2 ! i) = sl_pending (p_slots s ! i)"
    using only_sends_slot_fields(2) [of s1 s2 i] q2 i(2) by (simp add: quiet_def s1_def)
  have S: "SessionOpen i spdu s = (if rc \<noteq> 0 then Some s2 else Some (upd_slot i (\<lambda>sl. sl\<lparr>sl_pending := sid\<rparr>) s2))"
    using assms(4,5) 2(1) len by (simp add: SessionOpen_def Let_def sid_def [symmetric] s1_def [symmetric] open_answer_def)
  show ?thesis
  proof (cases "rc = 0")
    case False
    then show ?thesis using S w2 2(2) st1 o2 e2 p2 by simp
  next
    case True
    define s3 where "s3 = upd_slot i (\<lambda>sl. sl\<lparr>sl_pending := sid\<rparr>) s2"
    have sl: "p_slots s3 ! j = (if j = i then (p_slots s2 ! i)\<lparr>sl_pending := sid\<rparr> else p_slots s2 ! j)" for j
      using l2 by (simp add: s3_def)
    have ps: "p_sessions s3 = p_sessions s2" by (simp add: s3_def)
    have sid: "0 \<le> sid" "sid \<le> int MAX_SESSIONS" using ok len by (auto simp: sess_ok_def)
    have "ci_wf s3"
    proof -
      have "slot_ready j s3" if "slot_ready j s2" for j
        using that sl by (cases "j = i") (simp_all add: slot_ready_def s3_def)
      then show ?thesis using w2 sid sl unfolding ci_wf_def sess_cong [OF ps] sess_ok_cong [OF ps] ps by (simp add: s3_def)
    qed
    moreover have "slot_stream i s3 = slot_stream i s2" using sl by (simp add: slot_stream_def s3_def)
    moreover have "one_session sid s s3"
      using o2 unfolding one_session_def sess_cong [OF ps] sess_ok_cong [OF ps] by (simp add: s3_def)
    moreover have "sess s3 sid = ?f (sess s sid)" using e2 sess_cong [OF ps] by simp
    ultimately show ?thesis using S True 2(2) st1 sl by (simp add: s3_def)
  qed
qed

text \<open>The pending session of a slot gets its resource, when it still has one.\<close>

lemma SessionOpenCb_wf:
  assumes "ci_wf s" and "int i < i_nb_slots s" and "sl_pending (p_slots s ! i) \<noteq> 0"
  shows "\<exists>s'. SessionOpenCb i s = Some s' \<and> ci_wf s'"
proof -
  let ?p = "sl_pending (p_slots s ! i)"
  from ci_wf_slot [OF assms(1,2)] have i: "slot_ready i s" "i < length (p_slots s)" by auto
  have p: "0 \<le> ?p" "?p \<le> int MAX_SESSIONS" using assms(1,2) by (auto simp: ci_wf_def)
  have ok: "sess_ok s ?p" using p assms(3) ci_wf_sess_ok [OF assms(1)] by (simp add: MAX_SESSIONS_def)
  define s1 where "s1 = upd_slot i (\<lambda>sl. sl\<lparr>sl_pending := 0\<rparr>) s"
  have sl: "p_slots s1 ! j = (if j = i then (p_slots s ! i)\<lparr>sl_pending := 0\<rparr> else p_slots s ! j)" for j
    using i(2) by (simp add: s1_def)
  have ps: "p_sessions s1 = p_sessions s" by (simp add: s1_def)
  have "slot_ready j s1" if "slot_ready j s" for j
    using that sl by (cases "j = i") (simp_all add: slot_ready_def s1_def)
  then have w1: "ci_wf s1"
    using assms(1) sl unfolding ci_wf_def sess_cong [OF ps] sess_ok_cong [OF ps] ps by (simp add: s1_def)
  have ok1: "sess_ok s1 ?p" "sess s1 ?p = sess s ?p" using ok sess_ok_cong [OF ps] sess_cong [OF ps] by simp_all
  have C: "SessionOpenCb i s = open_resource (ss_resource (sess s ?p)) ?p s1"
    using i(2) ok by (simp add: SessionOpenCb_def get_slot_less get_sess_ok Let_def s1_def)
  show ?thesis
  proof (cases "known_resource (ss_resource (sess s ?p))")
    case True
    then have "in_use s1 ?p" using ok1 by (auto simp: in_use_def known_resource_def resource_ids)
    from open_resource_known [OF w1 in_use_sendable [OF w1 this] True] show ?thesis
      using C by (auto simp: opened_def)
  next
    case False
    have "ci_wf (upd_sess ?p (\<lambda>ss. ss\<lparr>ss_resource := 0\<rparr>) s1)" using w1 ok1 ci_wf_sess [OF w1 ok1(1)] by (intro ci_wf_upd_sess) (auto simp: sess_wf_def)
    then show ?thesis using C open_resource_unknown [OF ok1(1) False] by simp
  qed
qed

lemma in_use_closable:
  assumes "ci_wf s" and "in_use s sid"
  shows "sess_ok s sid" "closable (sess s sid)" "0 \<le> ss_slot (sess s sid)" "ss_slot (sess s sid) < i_nb_slots s"
    "ss_slot (sess s sid) < int (length (p_slots s))"
  using assms by (auto simp: ci_wf_def in_use_def sess_wf_def)

text \<open>A session in use is closed with one answer.\<close>

lemma SessionClose_wf:
  assumes "ci_wf s" and "in_use s sid"
  shows "\<exists>s'. SessionClose sid s = Some s' \<and> ci_wf s' \<and> one_session sid s s'
    \<and> sess_ok s' sid \<and> ss_resource (sess s' sid) = 0"
proof -
  note U = in_use_closable [OF assms]
  from end_session_ended [OF U(1,2,3,5)] obtain s1 where
    1: "end_session sid s = Some s1" "session_ended sid s s1" by blast
  note w1 = session_ended_wf [OF assms(1) 1(2)]
  define i where "i = nat (ss_slot (sess s sid))"
  have i: "ss_slot (sess s sid) = int i" "int i < i_nb_slots s1" using U 1(2) by (auto simp: i_def session_ended_def one_session_def)
  from ci_wf_slot [OF w1 i(2)] have r: "slot_ready i s1" "i < 16" by auto
  let ?c = "[ST_CLOSE_SESSION_RESPONSE, 0x3, SS_OK] @ word16_bytes sid"
  have b: "tpdu_bytes i T_DATA_LAST ?c = Some (data_tpdu i T_DATA_LAST ?c)"
    by (intro tpdu_bytes_data) (simp_all add: is_data_def word16_bytes_def MAX_TPDU_DATA_def)
  from TPDUSend_quiet [OF r(1) b data_tpdu_of_slot] obtain rc s2 where
    2: "TPDUSend i T_DATA_LAST ?c s1 = Some (rc, s2)" "quiet s1 s2" by blast
  have "SessionClose sid s = Some s2"
    using U(1) 1(1) i(1) r(2) 2(1) by (simp add: SessionClose_def get_sess_ok)
  moreover have "ci_wf s2" using ci_wf_quiet [OF w1 2(2)] .
  moreover have "one_session sid s s2"
    using 1(2) one_session_quiet [OF 2(2), of sid] one_session_trans by (auto simp: session_ended_def)
  moreover have "ss_resource (sess s2 sid) = 0" using 1(2) quiet_sess(1) [OF 2(2)] by (simp add: session_ended_def)
  moreover have "sess_ok s2 sid" using U(1) \<open>one_session sid s s2\<close> by (simp add: one_session_def)
  ultimately show ?thesis by blast
qed

text \<open>Link-layer start-up: all sessions are free, every slot the adapter has is reset.\<close>

lemma Reset_link_wf:
  assumes "i_ca_type s = CA_CI_LINK" and "i_nb_slots s \<le> int MAX_CI_SLOTS" and "p_sessions s = replicate MAX_SESSIONS zero_session"
  shows "\<exists>s'. en50221_Reset s = Some s' \<and> ci_wf s' \<and> (\<forall>sid. \<not> in_use s' sid)"
proof -
  define s0 where "s0 = s\<lparr>p_slots := replicate MAX_CI_SLOTS zero_slot\<rparr>"
  define good where "good = (\<lambda>n (u::'a dvben_scheme). p_sessions u = p_sessions s \<and> length (p_slots u) = MAX_CI_SLOTS
    \<and> i_nb_slots u = i_nb_slots s \<and> i_ca_type u = i_ca_type s
    \<and> (\<forall>j<MAX_CI_SLOTS. sl_send (p_slots u ! j) = [] \<and> sl_pending (p_slots u ! j) = 0)
    \<and> (\<forall>j<n. sl_send_last (p_slots u ! j)))"
  have ss: "\<forall>ss\<in>set (p_sessions s). ss_resource ss = 0" "length (p_sessions s) = MAX_SESSIONS"
    using assms(3) by (simp_all add: zero_session_def)
  have g0: "good 0 s0" by (simp add: good_def s0_def zero_slot_def)
  have "\<exists>u'. ResetSlot n u = Some u' \<and> good (Suc n) u'" if "n < nat (i_nb_slots s)" "good n u" for n u
  proof -
    have n: "n < length (p_slots u)" using that assms(2) by (auto simp: good_def)
    have "ResetSlot n u = Some (reset_state n u)" using ResetSlot_idle [of u n] n ss that(2) by (simp add: good_def)
    moreover have "good (Suc n) (reset_state n u)"
      using that(2) n by (auto simp: good_def reset_state_slot less_Suc_eq)
    ultimately show ?thesis by blast
  qed
  then obtain s' where s': "ofold ResetSlot [0..<nat (i_nb_slots s)] s0 = Some s'" "good (nat (i_nb_slots s)) s'"
    using ofold_upt [of "nat (i_nb_slots s)" good ResetSlot s0] g0 by blast
  have "ca_link s0" using assms(1) by (simp add: ca_link_def s0_def CA_CI_LINK_def)
  moreover have nb: "i_nb_slots s0 = i_nb_slots s" by (simp add: s0_def)
  ultimately have "en50221_Reset s = Some s'" using s'(1) by (simp add: en50221_Reset_def s0_def [symmetric] Let_def)
  moreover have free: "ss_resource (sess s' sid) = 0 \<and> ss_manage (sess s' sid) = None" if "sess_ok s' sid" for sid
  proof -
    have "sess s' sid \<in> set (p_sessions s')" using that by (auto simp: sess_def sess_ok_def intro: nth_mem)
    then show ?thesis using s'(2) assms(3) by (simp add: good_def zero_session_def)
  qed
  moreover have "ci_wf s'"
    using s'(2) assms ss(2) free by (auto simp: ci_wf_def good_def slot_ready_def)
  ultimately show ?thesis by (auto simp: in_use_def)
qed

subsection \<open>Polling\<close>

lemma small_tpdu:
  "tpdu_bytes i T_CREATE_TC [] = Some [of_nat i, of_nat i + 1, T_CREATE_TC, 1, of_nat i + 1]"
  by (simp add: tpdu_bytes_def Let_def)

lemma InitSlot_quiet: "slot_ready i s \<Longrightarrow> \<exists>s'. InitSlot i s = Some s' \<and> quiet s s'"
  using TPDUSend_quiet [OF _ small_tpdu, of i s] by (auto simp: InitSlot_def of_slot_def)

lemma ResetSlot_wf: "ci_wf s \<Longrightarrow> int i < i_nb_slots s \<Longrightarrow>
  \<exists>s'. ResetSlot i s = Some s' \<and> ci_wf s' \<and> i_nb_slots s' = i_nb_slots s"
  using ResetSlot_spec [of s i] by (auto simp: closed_upto_def)

lemma quiet_call: "quiet s (snd (sys_call c s))"
  by (simp add: quiet_def only_sends_call slot_ready_def)

lemma poll_status_wf:
  assumes "ci_wf s" and "int i < i_nb_slots s"
  shows "\<exists>s'. poll_status i s = Some s' \<and> ci_wf s' \<and> i_nb_slots s' = i_nb_slots s"
proof -
  obtain rc s1 where c: "sys_call (SysCaSlotInfo i) s = (rc, s1)" by (cases "sys_call (SysCaSlotInfo i) s")
  with quiet_call [of s "SysCaSlotInfo i"] have q: "quiet s s1" by simp
  note w1 = ci_wf_quiet [OF assms(1) q] and nb = quiet_sess(4) [OF q]
  from ci_wf_slot [OF w1, of i] assms(2) nb have i: "slot_ready i s1" "i < length (p_slots s1)" by auto
  from ci_wf_slot [OF assms] have i0: "i < length (p_slots s)" by auto
  from InitSlot_quiet [OF i(1)] obtain s2 where "InitSlot i s1 = Some s2" "quiet s1 s2" by blast
  moreover from this have "ci_wf s2" "i_nb_slots s2 = i_nb_slots s" using ci_wf_quiet [OF w1] quiet_sess(4) [of s1 s2] nb by auto
  moreover from ResetSlot_wf [OF w1, of i] obtain s3 where "ResetSlot i s1 = Some s3" "ci_wf s3" "i_nb_slots s3 = i_nb_slots s"
    using assms(2) nb by auto
  ultimately show ?thesis using c w1 nb i0 by (simp add: poll_status_def get_slot_less Let_def)
qed

lemma poll_slot_wf:
  assumes "ci_wf s" and "int i < i_nb_slots s"
  shows "\<exists>s'. poll_slot i s = Some s' \<and> ci_wf s' \<and> i_nb_slots s' = i_nb_slots s"
proof -
  from ci_wf_slot [OF assms] have i: "slot_ready i s" "i < length (p_slots s)" by auto
  from TPDUSend_quiet [OF i(1) tpdu_bytes_data [of T_DATA_LAST "[]" i]] obtain rc s1 where
    1: "TPDUSend i T_DATA_LAST [] s = Some (rc, s1)" "quiet s s1" by (auto simp: is_data_def)
  note w1 = ci_wf_quiet [OF assms(1) 1(2)] and nb = quiet_sess(4) [OF 1(2)]
  from ResetSlot_wf [OF w1, of i] obtain s3 where "ResetSlot i s1 = Some s3" "ci_wf s3" "i_nb_slots s3 = i_nb_slots s"
    using assms(2) nb by auto
  then show ?thesis using 1(1) w1 nb i(2) assms(1) by (simp add: poll_slot_def get_slot_less)
qed

lemma poll_manage_id: "ci_wf s \<Longrightarrow> 1 \<le> n \<Longrightarrow> n \<le> MAX_SESSIONS \<Longrightarrow> poll_manage n s = Some s"
  using ci_wf_sess [of s "int n"] ci_wf_sess_ok [of s "int n"]
  by (simp add: poll_manage_def get_sess_ok sess_wf_def MAX_SESSIONS_def)

lemma Poll_wf:
  assumes "ci_wf s"
  shows "\<exists>s'. en50221_Poll s = Some s' \<and> ci_wf s'"
proof -
  let ?n = "i_nb_slots s" and ?P = "\<lambda>u. ci_wf u \<and> i_nb_slots u = i_nb_slots s"
  have ps: "\<exists>s'. poll_status i u = Some s' \<and> ?P s'" if "i \<in> set [0..<nat ?n]" "?P u" for i and u :: "'a dvben_scheme"
    using poll_status_wf [of u i] that by auto
  have pl: "\<exists>s'. poll_slot i u = Some s' \<and> ?P s'" if "i \<in> set [0..<nat ?n]" "?P u" for i and u :: "'a dvben_scheme"
    using poll_slot_wf [of u i] that by auto
  have "\<exists>s'. ofold poll_status [0..<nat ?n] s = Some s' \<and> ?P s'"
    by (rule ofold_total [where P = ?P, OF ps]) (use assms in simp_all)
  then obtain s1 where 1: "ofold poll_status [0..<nat ?n] s = Some s1" "?P s1" by blast
  have "\<exists>s'. ofold poll_manage [1..<MAX_SESSIONS + 1] s1 = Some s' \<and> ?P s'"
    using 1(2) by (intro ofold_total) (auto simp: poll_manage_id simp del: upt_Suc)
  then obtain s2 where 2: "ofold poll_manage [1..<MAX_SESSIONS + 1] s1 = Some s2" "?P s2" by blast
  have "\<exists>s'. ofold poll_slot [0..<nat ?n] s2 = Some s' \<and> ?P s'"
    by (rule ofold_total [where P = ?P, OF pl]) (use 2(2) in simp_all)
  then obtain s3 where 3: "ofold poll_slot [0..<nat ?n] s2 = Some s3" "?P s3" by blast
  have "en50221_Poll s = Some s3"
    unfolding en50221_Poll_def 1(1) using 2 3(1) by (simp del: upt_Suc)
  then show ?thesis using 3(2) by blast
qed

end
