(* ===== verification/Dvb_PsiExample.thy ===== *)
theory Dvb_PsiExample
  imports Dvb_Example Dvb_Psi
begin

unbundle bit_operations_syntax

text \<open>
  A concrete table library for the instances of the properties: the header fields, descriptor
  loops, programs and elementary streams of MPEG-2 sections where ISO/IEC 13818-1 puts them; a table of
  sections as an array; the setters, which no instance needs, leave the bytes as they are.
\<close>

definition ex_word16 :: "bytes \<Rightarrow> 16 word" where
  "ex_word16 p = of_nat (256 * unat (p ! 0) + unat (p ! 1))"

definition ex_pid13 :: "bytes \<Rightarrow> nat" where
  "ex_pid13 p = 256 * unat (p ! 0 AND 0x1f) + unat (p ! 1)"

text \<open>The place of descriptor \<open>k\<close> in a loop of \<open>n\<close> bytes that starts at place \<open>pos\<close>.\<close>

fun ex_desc :: "nat \<Rightarrow> bytes \<Rightarrow> nat \<Rightarrow> nat \<Rightarrow> nat option" where
  "ex_desc n (a # l # p) pos k =
     (if n < unat l + 2 then None
      else if k = 0 then Some pos
      else ex_desc (n - unat l - 2) (drop (unat l) p) (pos + unat l + 2) (k - 1))"
| "ex_desc n p pos k = None"

text \<open>The place of entry \<open>k\<close> of a list of entries of \<open>w\<close> bytes.\<close>

definition ex_entry :: "nat \<Rightarrow> nat \<Rightarrow> nat \<Rightarrow> nat \<Rightarrow> nat option" where
  "ex_entry w n pos k = (if w * (k + 1) \<le> n then Some (pos + w * k) else None)"

fun ex_stream :: "nat \<Rightarrow> bytes \<Rightarrow> nat \<Rightarrow> nat option" where
  "ex_stream n p 0 = (if 5 \<le> n then Some 0 else None)"
| "ex_stream n p (Suc k) =
     (let l = 5 + 256 * unat (p ! 3 AND 0x0f) + unat (p ! 4) in
      if n < l then None else map_option (\<lambda>m. m + l) (ex_stream (n - l) (drop l p) k))"

definition ex_pmt_es :: "bytes \<Rightarrow> nat \<Rightarrow> nat option" where
  "ex_pmt_es p k =
     (let n = 256 * unat (p ! 1 AND 0x0f) + unat (p ! 2) - 13; d = 256 * unat (p ! 10 AND 0x0f) + unat (p ! 11)
      in map_option (\<lambda>m. m + 12 + d) (ex_stream (n - d) (drop (12 + d) p) k))"

text \<open>As many bytes of the section as the packet has room for.\<close>

definition ex_split :: "bytes \<Rightarrow> nat \<Rightarrow> bytes \<Rightarrow> nat \<Rightarrow> bytes \<times> nat \<times> nat" where
  "ex_split ts ts_off sec off =
     (let ts_off = (if ts_off = 0 then (if off = 0 then 5 else 4) else ts_off);
          n = min (188 - ts_off) (256 * unat (sec ! 1 AND 0x0f) + unat (sec ! 2) + 3 - off)
      in (take ts_off ts @ take n (drop off sec) @ drop (ts_off + n) ts, ts_off + n, off + n))"

definition ex_psi :: psi_lib where
  "ex_psi = ts_lib.extend ex_ts (psi_lib.fields
     (\<lambda>p. 256 * unat (p ! 1 AND 0x0f) + unat (p ! 2)) (\<lambda>p. unat (p ! 0))
     (\<lambda>p. drop_bit 1 (p ! 5) AND 0x1f) (\<lambda>p. unat (p ! 6)) (\<lambda>p. bit (p ! 5) 0)
     (\<lambda>p. 8 \<le> length p) (\<lambda>p q. p = q) (replicate 1024 0) (\<lambda>_ p. p)
     (\<lambda>_ p. p) (\<lambda>p. p) (\<lambda>_ p. p) (\<lambda>_ p. p) (\<lambda>p. p) 3 1021 8 256
     (\<lambda>_. None) (\<lambda>t. t 0 \<noteq> None) (\<lambda>t u. t 0 = u 0)
     (\<lambda>t. case t 0 of None \<Rightarrow> 0 | Some p \<Rightarrow> unat (p ! 7))
     (\<lambda>t. case t 0 of None \<Rightarrow> 0 | Some p \<Rightarrow> ex_word16 (drop 3 p))
     (\<lambda>t k. t k) (\<lambda>t p. (unat (p ! 6) = unat (p ! 7), t(unat (p ! 6) := Some p)))
     (\<lambda>p k. ex_desc (256 * unat (p ! 0 AND 0x0f) + unat (p ! 1)) (drop 2 p) 2 k) (\<lambda>_ p. p)
     (\<lambda>p n k. ex_desc n p 0 k) (\<lambda>p. unat (p ! 0)) (\<lambda>p. unat (p ! 1))
     (\<lambda>_ p. p) 2 2 1023 (\<lambda>p. 4 \<le> unat (p ! 1)) (\<lambda>p. ex_pid13 (drop 4 p))
     (\<lambda>p. ex_word16 (drop 2 p)) (\<lambda>p. p) (\<lambda>_ p. p) (\<lambda>_. False)
     (\<lambda>p. p) (\<lambda>_. 0) (\<lambda>_ p. p) (\<lambda>p. p) (\<lambda>p. p) (\<lambda>_ p. p)
     (\<lambda>_ p. p) (\<lambda>p. p ! 0 = 0) (\<lambda>_. True) (\<lambda>p. p) (\<lambda>_ p. p)
     (\<lambda>_ p. p) (\<lambda>p k. ex_entry 4 (256 * unat (p ! 1 AND 0x0f) + unat (p ! 2) - 9) 8 k)
     (\<lambda>t sid. case t 0 of None \<Rightarrow> None | Some p \<Rightarrow> find (\<lambda>q. ex_word16 q = sid) [drop 8 p])
     (\<lambda>p. p) ex_word16 (\<lambda>p. ex_pid13 (drop 2 p)) (\<lambda>_ p. p) (\<lambda>_ p. p) 8
     (\<lambda>p. p ! 0 = 1) (\<lambda>_. True) (\<lambda>_. 8)
     (\<lambda>p. 256 * unat (p ! 1 AND 0x0f) + unat (p ! 2) - 9) (\<lambda>p. p ! 0 = 2) (\<lambda>p. p)
     (\<lambda>p. ex_word16 (drop 3 p)) (\<lambda>_ p. p) (\<lambda>p. ex_pid13 (drop 8 p))
     (\<lambda>_ p. p) (\<lambda>_ p. p) (\<lambda>_ p. p) (\<lambda>_. 10) ex_pmt_es (\<lambda>p. p)
     (\<lambda>p. unat (p ! 0)) (\<lambda>_ p. p) (\<lambda>p. ex_pid13 (drop 1 p)) (\<lambda>_ p. p)
     (\<lambda>_ p. p) (\<lambda>_. 3) 12 (\<lambda>_. False) (\<lambda>_. False) (\<lambda>_ p. p)
     (\<lambda>_ p. p) (\<lambda>_ p. p) (\<lambda>_ p. p) (\<lambda>_. 0) (\<lambda>_. 0) (\<lambda>p. p)
     (\<lambda>_ p. p) (\<lambda>_ _. None) (\<lambda>p. p) (\<lambda>_ p. p) (\<lambda>_ p. p)
     (\<lambda>_ p. p) 10 6 (\<lambda>_. False) (\<lambda>_. False) (\<lambda>_ p. p) (\<lambda>_ p. p)
     (\<lambda>_ p. p) (\<lambda>_. 0) (\<lambda>_ p. p) (\<lambda>_ _. None) (\<lambda>_ _. None)
     (\<lambda>p. p) (\<lambda>_. 0) (\<lambda>_ p. p) (\<lambda>_. False) (\<lambda>p. p)
     (\<lambda>_. False) (\<lambda>p. p) (\<lambda>_. 0) (\<lambda>_ p. p) (\<lambda>_. 0) (\<lambda>_ p. p)
     (\<lambda>_. 0) 11 (\<lambda>_. True) (\<lambda>p. ex_word16 (drop 3 p)) (\<lambda>_ p. p)
     (\<lambda>p. ex_word16 (drop 10 p)) (\<lambda>_ p. p) (\<lambda>_ p. p) (None, 0)
     (\<lambda>_. (None, 0)) (\<lambda>x. fst x = None) (\<lambda>buf p. (None, buf, [])) ex_split
     (\<lambda>ts n. (take n ts @ replicate (188 - n) 0xff, 188)) (\<lambda>p. 5) (\<lambda>p. 5)
     (replicate 4096 0) (\<lambda>p. p) (\<lambda>_ p. p) (\<lambda>_ p. p) (\<lambda>_ p. p)
     (\<lambda>_. 0) (\<lambda>_ _. None) (\<lambda>p. p) (\<lambda>_ p. p) (\<lambda>_ p. p)
     (\<lambda>_ _. None) (\<lambda>p. p) (\<lambda>_ p. p) (\<lambda>_ p. p) (\<lambda>_. 0)
     (\<lambda>p. map (\<lambda>b. char_of (unat b)) p) 0 1 2 0x40 0x42 0x4e 0x50 0x5f 0 1 16 17 18 19 20)"

lemmas ex_psi_defs = ex_psi_def ts_lib.defs psi_lib.defs

lemma ex_psi_simps [simp]:
  "psi_get_length ex_psi = (\<lambda>p. 256 * unat (p ! 1 AND 0x0f) + unat (p ! 2))"
  "psi_get_tableid ex_psi = (\<lambda>p. unat (p ! 0))"
  "psi_get_version ex_psi = (\<lambda>p. drop_bit 1 (p ! 5) AND 0x1f)"
  "psi_get_section ex_psi = (\<lambda>p. unat (p ! 6))"
  "psi_get_current ex_psi = (\<lambda>p. bit (p ! 5) 0)"
  "psi_validate ex_psi = (\<lambda>p. 8 \<le> length p)"
  "psi_compare ex_psi = (\<lambda>p q. p = q)"
  "psi_allocate ex_psi = (replicate 1024 0)"
  "PSI_HEADER_SIZE ex_psi = 3"
  "PSI_MAX_SIZE ex_psi = 1021"
  "PSI_HEADER_SIZE_SYNTAX1 ex_psi = 8"
  "PSI_TABLE_MAX_SECTIONS ex_psi = 256"
  "psi_table_init ex_psi = (\<lambda>_. None)"
  "psi_table_validate ex_psi = (\<lambda>t. t 0 \<noteq> None)"
  "psi_table_compare ex_psi = (\<lambda>t u. t 0 = u 0)"
  "psi_table_get_lastsection ex_psi = (\<lambda>t. case t 0 of None \<Rightarrow> 0 | Some p \<Rightarrow> unat (p ! 7))"
  "psi_table_get_tableidext ex_psi = (\<lambda>t. case t 0 of None \<Rightarrow> 0 | Some p \<Rightarrow> ex_word16 (drop 3 p))"
  "psi_table_get_section ex_psi = (\<lambda>t k. t k)"
  "psi_table_section ex_psi = (\<lambda>t p. (unat (p ! 6) = unat (p ! 7), t(unat (p ! 6) := Some p)))"
  "descs_get_desc ex_psi = (\<lambda>p k. ex_desc (256 * unat (p ! 0 AND 0x0f) + unat (p ! 1)) (drop 2 p) 2 k)"
  "descl_get_desc ex_psi = (\<lambda>p n k. ex_desc n p 0 k)"
  "desc_get_tag ex_psi = (\<lambda>p. unat (p ! 0))"
  "desc_get_length ex_psi = (\<lambda>p. unat (p ! 1))"
  "DESC_HEADER_SIZE ex_psi = 2"
  "DESCS_HEADER_SIZE ex_psi = 2"
  "DESCS_MAX_SIZE ex_psi = 1023"
  "desc09_validate ex_psi = (\<lambda>p. 4 \<le> unat (p ! 1))"
  "desc09_get_pid ex_psi = (\<lambda>p. ex_pid13 (drop 4 p))"
  "desc09_get_sysid ex_psi = (\<lambda>p. ex_word16 (drop 2 p))"
  "pat_validate ex_psi = (\<lambda>p. p ! 0 = 0)"
  "pat_table_validate ex_psi = (\<lambda>_. True)"
  "pat_get_program ex_psi = (\<lambda>p k. ex_entry 4 (256 * unat (p ! 1 AND 0x0f) + unat (p ! 2) - 9) 8 k)"
  "pat_table_find_program ex_psi = (\<lambda>t sid. case t 0 of None \<Rightarrow> None | Some p \<Rightarrow> find (\<lambda>q. ex_word16 q = sid) [drop 8 p])"
  "patn_get_program ex_psi = ex_word16"
  "patn_get_pid ex_psi = (\<lambda>p. ex_pid13 (drop 2 p))"
  "PAT_HEADER_SIZE ex_psi = 8"
  "cat_validate ex_psi = (\<lambda>p. p ! 0 = 1)"
  "cat_table_validate ex_psi = (\<lambda>_. True)"
  "cat_get_descl ex_psi = (\<lambda>_. 8)"
  "cat_get_desclength ex_psi = (\<lambda>p. 256 * unat (p ! 1 AND 0x0f) + unat (p ! 2) - 9)"
  "pmt_validate ex_psi = (\<lambda>p. p ! 0 = 2)"
  "pmt_get_program ex_psi = (\<lambda>p. ex_word16 (drop 3 p))"
  "pmt_get_pcrpid ex_psi = (\<lambda>p. ex_pid13 (drop 8 p))"
  "pmt_get_descs ex_psi = (\<lambda>_. 10)"
  "pmt_get_es ex_psi = ex_pmt_es"
  "pmtn_get_streamtype ex_psi = (\<lambda>p. unat (p ! 0))"
  "pmtn_get_pid ex_psi = (\<lambda>p. ex_pid13 (drop 1 p))"
  "pmtn_get_descs ex_psi = (\<lambda>_. 3)"
  "PMT_HEADER_SIZE ex_psi = 12"
  "NIT_HEADER_SIZE ex_psi = 10"
  "NIT_TS_SIZE ex_psi = 6"
  "SDT_HEADER_SIZE ex_psi = 11"
  "eit_validate ex_psi = (\<lambda>_. True)"
  "eit_get_sid ex_psi = (\<lambda>p. ex_word16 (drop 3 p))"
  "eit_get_onid ex_psi = (\<lambda>p. ex_word16 (drop 10 p))"
  "psi_assemble_init ex_psi = (None, 0)"
  "psi_assemble_reset ex_psi = (\<lambda>_. (None, 0))"
  "psi_assemble_empty ex_psi = (\<lambda>x. fst x = None)"
  "psi_assemble_payload ex_psi = (\<lambda>buf p. (None, buf, []))"
  "psi_split_section ex_psi = ex_split"
  "psi_split_end ex_psi = (\<lambda>ts n. (take n ts @ replicate (188 - n) 0xff, 188))"
  "ts_section ex_psi = (\<lambda>p. 5)"
  "ts_next_section ex_psi = (\<lambda>p. 5)"
  "capmt_allocate ex_psi = (replicate 4096 0)"
  "dvb_string_get ex_psi = (\<lambda>p. map (\<lambda>b. char_of (unat b)) p)"
  "PAT_TABLE_ID ex_psi = 0"
  "CAT_TABLE_ID ex_psi = 1"
  "PMT_TABLE_ID ex_psi = 2"
  "NIT_TABLE_ID_ACTUAL ex_psi = 0x40"
  "SDT_TABLE_ID_ACTUAL ex_psi = 0x42"
  "EIT_TABLE_ID_PF_ACTUAL ex_psi = 0x4e"
  "EIT_TABLE_ID_SCHED_ACTUAL_FIRST ex_psi = 0x50"
  "EIT_TABLE_ID_SCHED_ACTUAL_LAST ex_psi = 0x5f"
  "PAT_PID ex_psi = 0"
  "CAT_PID ex_psi = 1"
  "NIT_PID ex_psi = 16"
  "SDT_PID ex_psi = 17"
  "EIT_PID ex_psi = 18"
  "RST_PID ex_psi = 19"
  "TDT_PID ex_psi = 20"
  by (simp_all add: ex_psi_def ts_lib.defs psi_lib.defs)

lemma ex_psi_ts [simp]:
  "ts_get_pid ex_psi = ex_get_pid" "ts_set_pid ex_psi = ex_set_pid" "RTP_HEADER_SIZE ex_psi = 12"
  by (simp_all add: ex_psi_def ts_lib.defs psi_lib.defs ex_ts_def)

end
