(* ===== verification/Dvb_CiClaims.thy ===== *)
theory Dvb_CiClaims
  imports Dvb_CiSessions Dvb_PsiExample
begin

unbundle bit_operations_syntax

text \<open>
  The properties of the common interface, each with a concrete instance: \<open>ex_ci\<close> is an adapter
  with one link-layer slot whose writes succeed, as \<open>en50221_Init\<close> leaves it.
\<close>

subsection \<open>A concrete interface\<close>

definition ex_ci0 :: "int \<Rightarrow> dvben" where
  "ex_ci0 ret = dvboutput.extend ((ex_state [] 0 0)\<lparr>sys_ret := (\<lambda>n. if n < 3 then 0 else ret)\<rparr>)
     (dvben.fields 0 0 0 0 [] [] False False (\<lambda>_. []) (\<lambda>_. 2) (\<lambda>_. 1) (\<lambda>_. None))"

definition ex_slot :: ci_slot where
  "ex_slot = zero_slot\<lparr>sl_init_timer := True, sl_send_last := True\<rparr>"

definition ex_ci :: "int \<Rightarrow> dvben" where
  "ex_ci ret = (ex_ci0 ret)\<lparr>i_ca_type := CA_CI_LINK, i_nb_slots := 1, p_sessions := replicate 32 zero_session,
     p_slots := ex_slot # replicate 15 zero_slot, cam_watcher := True, slot_watcher := True,
     sys_log := [SysCaOpen 0 0, SysCaGetCap, SysCaReset 0]\<rparr>"

lemmas ex_ci_defs = ex_ci_def ex_ci0_def ex_state_def dvboutput.defs dvben.defs

lemma ex_ci_simps [simp]:
  "i_ca_type (ex_ci r) = CA_CI_LINK" "i_nb_slots (ex_ci r) = 1" "p_sessions (ex_ci r) = replicate 32 zero_session"
  "p_slots (ex_ci r) = ex_slot # replicate 15 zero_slot" "sys_log (ex_ci r) = [SysCaOpen 0 0, SysCaGetCap, SysCaReset 0]"
  "sys_ret (ex_ci r) = (\<lambda>n. if n < 3 then 0 else r)" "slot_watcher (ex_ci r)"
  by (simp_all add: ex_ci_defs)

lemma ex_slot_simps [simp]: "sl_send ex_slot = []" "sl_send_last ex_slot" "sl_pending ex_slot = 0"
  "sl_recv ex_slot = None" "\<not> sl_expect_answer ex_slot" "\<not> sl_active ex_slot"
  by (simp_all add: ex_slot_def zero_slot_def)

lemma ex_ci_ready: "slot_ready 0 (ex_ci r)"
  by (simp add: slot_ready_def)

lemma ex_ci_wf: "ci_wf (ex_ci r)"
proof -
  have "sess (ex_ci r) sid = zero_session" if "sess_ok (ex_ci r) sid" for sid
    using that unfolding sess_def sess_ok_def ex_ci_simps by (subst nth_replicate) auto
  then show ?thesis using ex_ci_ready [of r]
    by (auto simp: ci_wf_def MAX_SESSIONS_def MAX_CI_SLOTS_def sess_wf_def zero_session_def)
qed

text \<open>The same with session 1 of the slot in use.\<close>

definition ex_session :: session where
  "ex_session = zero_session\<lparr>ss_resource := RI_CONDITIONAL_ACCESS_SUPPORT, ss_handle := Some HConditionalAccess,
     ss_close := Some CConditionalAccess, ss_sys := SysIds zero_ids\<rparr>"

definition ex_ca :: "int \<Rightarrow> dvben" where
  "ex_ca r = upd_sess 1 (\<lambda>_. ex_session) (ex_ci r)"

lemma ex_ca_simps [simp]:
  "p_slots (ex_ca r) = ex_slot # replicate 15 zero_slot" "i_nb_slots (ex_ca r) = 1"
  "sys_ret (ex_ca r) = (\<lambda>n. if n < 3 then 0 else r)"
  "sess (ex_ca r) 1 = ex_session" "sess_ok (ex_ca r) sid \<longleftrightarrow> 1 \<le> sid \<and> sid \<le> 32"
  "sys_log (ex_ca r) = [SysCaOpen 0 0, SysCaGetCap, SysCaReset 0]" "i_ca_type (ex_ca r) = CA_CI_LINK"
  by (simp_all add: ex_ca_def) (simp_all add: sess_def upd_sess_def sess_ok_def)

lemma ex_session_simps [simp]: "ss_slot ex_session = 0" "ss_resource ex_session = RI_CONDITIONAL_ACCESS_SUPPORT"
  "ss_close ex_session = Some CConditionalAccess" "ss_sys ex_session = SysIds zero_ids" "ss_manage ex_session = None"
  by (simp_all add: ex_session_def zero_session_def)

lemma ex_ca_in_use: "in_use (ex_ca r) 1"
  by (simp add: in_use_def resource_ids)

lemma ex_ca_wf: "ci_wf (ex_ca r)"
proof -
  have "sess_ok (ex_ci r) 1" by (simp add: sess_ok_def)
  then show ?thesis unfolding ex_ca_def
    by (intro ci_wf_upd_sess ex_ci_wf) (simp_all add: sess_wf_def closable_def)
qed

subsection \<open>Transport\<close>

text \<open>The length field of the common interface's layers is read back as it was written, and
  what follows it is untouched: \<open>GetLength\<close> undoes \<open>SetLength\<close> for every length a 32-bit \<open>int\<close> holds.\<close>

theorem Length_roundtrip:
  assumes "0 \<le> n" and "n < 2 ^ 31"
  shows "GetLength (SetLength n @ rest) = Some (n, rest) \<and> length (SetLength n) \<le> 5"
  using GetLength_SetLength [of n rest] assms SetLength_length [of n] by simp

lemma Length_roundtrip_witness: "GetLength (SetLength 4090 @ [7]) = Some (4090, [7]) \<and> length (SetLength 4090) \<le> 5"
  by (rule Length_roundtrip) simp_all

text \<open>The buffer of \<open>TPDUSend\<close> has room for exactly the data the session layer puts into one
  TPDU: up to \<open>MAX_TPDU_DATA\<close> bytes always fit, one byte more overruns it.\<close>

theorem TPDU_data_bound:
  "(tpdu_bytes i T_DATA_LAST c \<noteq> None \<longleftrightarrow> length c \<le> MAX_TPDU_DATA)
    \<and> (tpdu_bytes i T_DATA_MORE c \<noteq> None \<longleftrightarrow> length c \<le> MAX_TPDU_DATA)"
proof -
  have L: "3 \<le> length (SetLength n)" if "4090 < n" for n using that by (simp add: SetLength_def Let_def)
  have "tpdu_bytes i tag c = None" if "is_data tag" "MAX_TPDU_DATA < length c" for tag
    using that L [of "int (length c) + 1"]
    by (auto simp: tpdu_bytes_def is_data_def MAX_TPDU_DATA_def MAX_TPDU_SIZE_def Let_def)
  then have "tpdu_bytes i T_DATA_LAST c \<noteq> None \<longleftrightarrow> length c \<le> MAX_TPDU_DATA"
    "tpdu_bytes i T_DATA_MORE c \<noteq> None \<longleftrightarrow> length c \<le> MAX_TPDU_DATA"
    using tpdu_bytes_data [of T_DATA_LAST c i] tpdu_bytes_data [of T_DATA_MORE c i] unfolding is_data_def
    by (metis leI option.distinct(1))+
  then show ?thesis by blast
qed

subsubsection \<open>The transmission of a slot as a queue\<close>

text \<open>What happens to a slot's transmission: the host sends, or the module answers.\<close>

datatype slot_event = Put byte bytes | Answer bool

fun slot_step :: "nat \<Rightarrow> slot_event \<Rightarrow> 'a dvben_scheme \<Rightarrow> 'a dvben_scheme option" where
  "slot_step i (Put tag c) s = map_option snd (TPDUSend i tag c s)"
| "slot_step i (Answer avail) s =
     recv_reply i (upd_slot i (\<lambda>sl. sl\<lparr>sl_has_data := avail, sl_expect_answer := False\<rparr>) s)"

fun put_tpdu :: "nat \<Rightarrow> slot_event \<Rightarrow> bytes list" where
  "put_tpdu i (Put tag c) = [data_tpdu i tag c]"
| "put_tpdu i (Answer avail) = []"

fun data_event :: "slot_event \<Rightarrow> bool" where
  "data_event (Put tag c) \<longleftrightarrow> is_data tag \<and> length c \<le> MAX_TPDU_DATA"
| "data_event (Answer avail) \<longleftrightarrow> True"

definition data_of :: "bytes list \<Rightarrow> bytes list" where
  "data_of ms = filter (\<lambda>m. m ! 2 \<noteq> T_RCV) ms"

lemma data_of_append [simp]: "data_of (xs @ ys) = data_of xs @ data_of ys"
  by (simp add: data_of_def)

lemma data_of_tpdu [simp]: "is_data tag \<Longrightarrow> data_of [data_tpdu i tag c] = [data_tpdu i tag c]"
  by (auto simp: data_of_def data_tpdu_def is_data_def tpdu_tags)

lemma rcv_tpdu: "tpdu_bytes i T_RCV [] = Some [of_nat i, of_nat i + 1, T_RCV, 1, of_nat i + 1]"
  by (simp add: tpdu_bytes_def Let_def)

definition queue_step :: "nat \<Rightarrow> bytes list \<Rightarrow> 'a dvben_scheme \<Rightarrow> 'a dvben_scheme \<Rightarrow> bool" where
  "queue_step i ms s s' \<longleftrightarrow> slot_ready i s' \<and> sl_pending (p_slots s' ! i) = 0
     \<and> p_sessions s' = p_sessions s \<and> data_of (slot_stream i s') = data_of (slot_stream i s) @ ms"

lemma queue_stepI:
  assumes "slot_ready i s" and "sl_pending (p_slots s ! i) = 0" and "slot_ready i s'" and "only_sends s s'"
    and "data_of (slot_stream i s') = data_of (slot_stream i s) @ ms"
  shows "queue_step i ms s s'"
proof -
  have "i < length (p_slots s)" using assms(1) by (simp add: slot_ready_def)
  then show ?thesis using assms only_sends_slot_fields(2) [OF assms(4)] only_sendsD(1) [OF assms(4)]
    by (simp add: queue_step_def)
qed

lemma recv_reply_queue:
  assumes "slot_ready i s" and "sl_pending (p_slots s ! i) = 0"
  shows "\<exists>s'. recv_reply i s = Some s' \<and> queue_step i [] s s'"
proof -
  have il: "i < length (p_slots s)" using assms(1) by (simp add: slot_ready_def)
  let ?go = "\<not> sl_expect_answer (p_slots s ! i) \<and> sl_send (p_slots s ! i) \<noteq> []"
  have "\<exists>s1. (if ?go then map_option snd (TPDUWrite i s) else Some s) = Some s1 \<and> slot_ready i s1
      \<and> slot_stream i s1 = slot_stream i s \<and> only_sends s s1"
    using TPDUWrite_spec [OF assms(1)] assms(1) by (cases ?go) auto
  then obtain s1 where 1: "(if ?go then map_option snd (TPDUWrite i s) else Some s) = Some s1" "slot_ready i s1"
    "slot_stream i s1 = slot_stream i s" "only_sends s s1" by (elim exE conjE)
  have q1: "queue_step i [] s s1" using assms 1 by (intro queue_stepI) simp_all
  have l1: "i < length (p_slots s1)" "sl_pending (p_slots s1 ! i) = 0" using 1(2) q1 by (simp_all add: slot_ready_def queue_step_def)
  let ?more = "\<not> sl_expect_answer (p_slots s1 ! i) \<and> sl_has_data (p_slots s1 ! i)"
  from TPDUSend_spec [OF 1(2) rcv_tpdu] obtain rc s2 where 2: "TPDUSend i T_RCV [] s1 = Some (rc, s2)" "slot_ready i s2"
    "slot_stream i s2 = slot_stream i s1 @ [[of_nat i, of_nat i + 1, T_RCV, 1, of_nat i + 1]]" "only_sends s1 s2"
    by (auto simp: of_slot_def)
  have q2: "queue_step i [] s s2"
    using assms 1 2 only_sends_trans [OF 1(4) 2(4)] by (intro queue_stepI) (simp_all add: data_of_def)
  have "recv_reply i s = (if ?more then Some s2 else Some s1)"
    using il 1(1) l1 2(1) by (simp add: recv_reply_def get_slot_less)
  then show ?thesis using q1 q2 by simp
qed

lemma slot_step_queue:
  assumes "slot_ready i s" and "sl_pending (p_slots s ! i) = 0" and "data_event e"
  shows "\<exists>s'. slot_step i e s = Some s' \<and> queue_step i (put_tpdu i e) s s'"
proof (cases e)
  case (Put tag c)
  then have p: "is_data tag" "length c \<le> MAX_TPDU_DATA" using assms(3) by simp_all
  from TPDUSend_spec [OF assms(1) tpdu_bytes_data [OF p] data_tpdu_of_slot] obtain rc s' where
    S: "TPDUSend i tag c s = Some (rc, s')" "slot_ready i s'" "slot_stream i s' = slot_stream i s @ [data_tpdu i tag c]"
      "only_sends s s'" by blast
  have "queue_step i (put_tpdu i e) s s'" using assms S p(1) Put by (intro queue_stepI) simp_all
  then show ?thesis using S(1) Put by simp
next
  case (Answer avail)
  let ?s = "upd_slot i (\<lambda>sl. sl\<lparr>sl_has_data := avail, sl_expect_answer := False\<rparr>) s"
  have il: "i < length (p_slots s)" using assms(1) by (simp add: slot_ready_def)
  have "slot_ready i ?s" "sl_pending (p_slots ?s ! i) = 0" "slot_stream i ?s = slot_stream i s"
    using assms il by (simp_all add: slot_ready_def slot_stream_def)
  with recv_reply_queue [of i ?s] show ?thesis using Answer by (simp add: queue_step_def)
qed

lemma slot_run_queue:
  assumes "slot_ready i s" and "sl_pending (p_slots s ! i) = 0" and "\<forall>e\<in>set evs. data_event e"
  shows "\<exists>s'. ofold (slot_step i) evs s = Some s' \<and> queue_step i (concat (map (put_tpdu i) evs)) s s'"
  using assms
proof (induction evs arbitrary: s)
  case Nil
  then show ?case by (simp add: queue_step_def)
next
  case (Cons e evs)
  from slot_step_queue [OF Cons.prems(1,2), of e] Cons.prems(3) obtain s1 where
    1: "slot_step i e s = Some s1" "queue_step i (put_tpdu i e) s s1" by auto
  from Cons.IH [of s1] 1(2) Cons.prems(3) obtain s' where
    2: "ofold (slot_step i) evs s1 = Some s'" "queue_step i (concat (map (put_tpdu i) evs)) s1 s'" by (auto simp: queue_step_def)
  have "queue_step i (concat (map (put_tpdu i) (e # evs))) s s'" using 1(2) 2(2) by (simp add: queue_step_def)
  then show ?case using 1(1) 2(1) by simp
qed

text \<open>C9 Each slot's transmission is a FIFO: however sending data (\<open>TPDUSend\<close>) and answers of the
  module (the end of \<open>TPDURecv\<close>) alternate, and whether the writes succeed or not, nothing is out of bounds,
  and the data TPDUs written so far followed by those still queued are exactly those handed to
  \<open>TPDUSend\<close>, in that order; while an answer is awaited, sending writes nothing.\<close>

theorem Slot_fifo:
  assumes "slot_ready i s" and "sl_pending (p_slots s ! i) = 0" and "\<forall>e\<in>set evs. data_event e"
  shows "\<exists>s'. ofold (slot_step i) evs s = Some s'
    \<and> data_of (filter (of_slot i) (ca_writes (sys_log s'))) @ data_of (sl_send (p_slots s' ! i))
        = data_of (filter (of_slot i) (ca_writes (sys_log s))) @ data_of (sl_send (p_slots s ! i))
          @ concat (map (put_tpdu i) evs)
    \<and> p_sessions s' = p_sessions s
    \<and> (sl_expect_answer (p_slots s ! i) \<longrightarrow>
        (\<forall>tag c rc s1. TPDUSend i tag c s = Some (rc, s1) \<longrightarrow> sys_log s1 = sys_log s \<and> rc = 0))"
proof -
  from slot_run_queue [OF assms] obtain s' where
    R: "ofold (slot_step i) evs s = Some s'" "queue_step i (concat (map (put_tpdu i) evs)) s s'" by blast
  have "data_of (filter (of_slot i) (ca_writes (sys_log s'))) @ data_of (sl_send (p_slots s' ! i))
        = data_of (filter (of_slot i) (ca_writes (sys_log s))) @ data_of (sl_send (p_slots s ! i))
          @ concat (map (put_tpdu i) evs)"
    using R(2) by (simp add: queue_step_def slot_stream_def)
  moreover have "sys_log s1 = sys_log s \<and> rc = 0"
    if "sl_expect_answer (p_slots s ! i)" "TPDUSend i tag c s = Some (rc, s1)" for tag c rc s1
    using that assms(1) by (auto simp: TPDUSend_def slot_ready_def get_slot_less Let_def bind_eq_Some_conv)
  ultimately show ?thesis using R by (auto simp: queue_step_def)
qed

lemma Slot_fifo_witness:
  "\<exists>s'. ofold (slot_step 0) [Put T_DATA_LAST [1], Put T_DATA_LAST [2], Answer True] (ex_ci 0) = Some s'
    \<and> data_of (filter (of_slot 0) (ca_writes (sys_log s'))) @ data_of (sl_send (p_slots s' ! 0))
      = [data_tpdu 0 T_DATA_LAST [1], data_tpdu 0 T_DATA_LAST [2]]"
  using Slot_fifo [OF ex_ci_ready [of 0], of "[Put T_DATA_LAST [1], Put T_DATA_LAST [2], Answer True]"]
  by (auto simp: is_data_def MAX_TPDU_DATA_def data_of_def)

subsection \<open>Session layer\<close>



subsubsection \<open>Every run of session management\<close>

text \<open>
  The states that start-up, the module's requests, the poll timer and the host's own sending
  lead to. A request to close comes for a session that is in use.
\<close>

inductive ci_reached :: "'a dvben_scheme \<Rightarrow> bool" where
  started: "en50221_Init s0 = Some s \<Longrightarrow> \<not> slot_watcher s0 \<Longrightarrow> slot_watcher s
    \<Longrightarrow> \<forall>n. ca_slot_num s0 n \<le> int MAX_CI_SLOTS \<Longrightarrow> ci_reached s"
| requested: "ci_reached s \<Longrightarrow> int i < i_nb_slots s \<Longrightarrow> length spdu = 6 \<Longrightarrow> SessionOpen i spdu s = Some s' \<Longrightarrow> ci_reached s'"
| completed: "ci_reached s \<Longrightarrow> int i < i_nb_slots s \<Longrightarrow> sl_pending (p_slots s ! i) \<noteq> 0 \<Longrightarrow> SessionOpenCb i s = Some s'
    \<Longrightarrow> ci_reached s'"
| closed: "ci_reached s \<Longrightarrow> in_use s sid \<Longrightarrow> SessionClose sid s = Some s' \<Longrightarrow> ci_reached s'"
| sent: "ci_reached s \<Longrightarrow> in_use s sid \<Longrightarrow> apdu_send sid tag p s = Some s' \<Longrightarrow> ci_reached s'"
| unplugged: "ci_reached s \<Longrightarrow> int i < i_nb_slots s \<Longrightarrow> ResetSlot i s = Some s' \<Longrightarrow> ci_reached s'"
| polled: "ci_reached s \<Longrightarrow> en50221_Poll s = Some s' \<Longrightarrow> ci_reached s'"

lemma keep_watcher: "slot_watcher (snd (sys_call c u)) = slot_watcher u"
  by (simp add: sys_call_def Let_def)

lemma keep_watcher': "sys_call c u = (rc, v) \<Longrightarrow> slot_watcher v = slot_watcher u \<and> i_ca_type v = i_ca_type u"
  using keep_watcher [of c u] sys_call_en(3) [of c u] by simp

lemma ca_close_watcher [simp]: "slot_watcher (ca_close u) = slot_watcher u"
  by (simp add: ca_close_def keep_watcher)

lemma apdu_send_watcher:
  assumes "apdu_send sid tag p u = Some v" and "i_ca_type u \<noteq> CA_CI_LINK"
  shows "slot_watcher v = slot_watcher u"
  using assms by (auto simp: apdu_send_def APDUSend_def Let_def keep_watcher' split: if_splits prod.splits)

lemma reset_high_level_watcher:
  assumes "reset_high_level u = Some v" and "i_ca_type u \<noteq> CA_CI_LINK"
  shows "slot_watcher v = slot_watcher u"
proof -
  obtain rc u1 where 1: "sys_call (SysCaSlotInfo 0) u = (rc, u1)" by (cases "sys_call (SysCaSlotInfo 0) u")
  let ?u2 = "upd_sess 1 (\<lambda>ss. ss\<lparr>ss_resource := RI_CONDITIONAL_ACCESS_SUPPORT,
    ss_close := Some CConditionalAccess, ss_sys := SysIds (zero_ids\<lparr>b_high_level := True\<rparr>)\<rparr>) u1"
  have w: "slot_watcher ?u2 = slot_watcher u" "i_ca_type ?u2 = i_ca_type u" "slot_watcher u1 = slot_watcher u"
    using keep_watcher' [OF 1] by (simp_all add: upd_sess_def)
  show ?thesis
  proof (cases "rc < 0 \<or> ca_word u1 (length (sys_log u)) = 0")
    case True
    then have "v = ca_close u1" using assms(1) 1 by (simp add: reset_high_level_def split: if_splits)
    then show ?thesis using w(3) by simp
  next
    case False
    with assms(1) 1 obtain u3 where 3: "apdu_send 1 AOT_APPLICATION_INFO_ENQ [] ?u2 = Some u3"
      by (auto simp: reset_high_level_def Let_def bind_eq_Some_conv split: if_splits)
    obtain rc4 u4 where 4: "sys_call SysCaGetMsg u3 = (rc4, u4)" by (cases "sys_call SysCaGetMsg u3")
    have "slot_watcher u3 = slot_watcher u" using apdu_send_watcher [OF 3] w(1,2) assms(2) by simp
    then have "slot_watcher u4 = slot_watcher u" using keep_watcher' [OF 4] by simp
    then show ?thesis using assms(1) 1 3 4 False
      by (auto simp: reset_high_level_def Let_def bind_eq_Some_conv split: if_splits)
  qed
qed

lemma Init_link_wf:
  assumes "en50221_Init s0 = Some s" and "\<not> slot_watcher s0" and "slot_watcher s" and "\<forall>n. ca_slot_num s0 n \<le> int MAX_CI_SLOTS"
  shows "ci_wf s"
proof -
  obtain fd s1 where 1: "sys_call (SysCaOpen (i_adapter s0) (i_canum s0)) s0 = (fd, s1)" by (metis surj_pair)
  let ?s1 = "s1\<lparr>i_ca_handle := fd\<rparr>"
  obtain rc s2 where 2: "sys_call SysCaGetCap ?s1 = (rc, s2)" by (metis surj_pair)
  have w: "\<not> slot_watcher s1" "\<not> slot_watcher s2" using keep_watcher' [OF 1] keep_watcher' [OF 2] assms(2) by simp_all
  let ?n = "length (sys_log ?s1)"
  let ?link = "s2\<lparr>i_ca_type := CA_CI_LINK, i_nb_slots := ca_slot_num s2 ?n,
      p_sessions := replicate MAX_SESSIONS zero_session, cam_watcher := True, slot_watcher := True\<rparr>"
  let ?high = "s2\<lparr>i_ca_type := CA_CI, i_nb_slots := ca_slot_num s2 ?n, p_sessions := replicate MAX_SESSIONS zero_session\<rparr>"
  have "en50221_Reset ?high \<noteq> Some s"
  proof
    assume r: "en50221_Reset ?high = Some s"
    let ?h = "?high\<lparr>p_slots := replicate MAX_CI_SLOTS zero_slot\<rparr>"
    have "reset_high_level ?h = Some s" using r by (simp add: en50221_Reset_def ca_link_def CA_CI_def CA_CI_LINK_def)
    from reset_high_level_watcher [OF this] w assms(3) show False by (simp add: CA_CI_def CA_CI_LINK_def)
  qed
  moreover have "ca_close s2 \<noteq> s" "s1\<lparr>i_ca_handle := 0\<rparr> \<noteq> s" using w assms(3) by auto
  ultimately have R: "en50221_Reset ?link = Some s"
    using assms(1) 1 2 by (simp add: en50221_Init_def Let_def split: if_splits)
  have "ca_slot_num (snd (sys_call c u)) = ca_slot_num u" for c and u :: "'a dvben_scheme" by (simp add: sys_call_def Let_def)
  from this [of "SysCaOpen (i_adapter s0) (i_canum s0)" s0] this [of SysCaGetCap ?s1]
  have nb: "i_nb_slots ?link \<le> int MAX_CI_SLOTS" using assms(4) 1 2 by simp
  from Reset_link_wf [OF _ nb] R show ?thesis by simp
qed

lemma ci_reached_wf: "ci_reached s \<Longrightarrow> ci_wf s"
proof (induction rule: ci_reached.induct)
  case (started s0 s)
  then show ?case by (rule Init_link_wf)
next
  case (requested s i spdu s')
  then obtain rid where rid: "ResourceIdToInt (drop 2 spdu) = Some rid"
    by (cases spdu rule: list.exhaust) (auto simp: ResourceIdToInt_def length_Suc_conv eval_nat_numeral)
  show ?case
  proof (cases "free_session s \<le> int MAX_SESSIONS")
    case True
    then show ?thesis using SessionOpen_spec [OF requested(5,2,3) _ rid] requested(4) by auto
  next
    case False
    then have "s' = s" using requested(4,5) rid by (simp add: SessionOpen_def ci_wf_def Let_def)
    then show ?thesis using requested(5) by simp
  qed
next
  case (completed s i s')
  then show ?case using SessionOpenCb_wf [of s i] by auto
next
  case (closed s sid s')
  then show ?case using SessionClose_wf [of s sid] by auto
next
  case (sent s sid tag p s')
  then show ?case using apdu_send_quiet [OF _ in_use_sendable, of s sid tag p] ci_wf_quiet by fastforce
next
  case (unplugged s i s')
  then show ?case using ResetSlot_wf [of s i] by auto
next
  case (polled s s')
  then show ?case using Poll_wf [of s] by auto
qed

lemma SessionOpen_returns:
  assumes "ci_wf s" and "int i < i_nb_slots s" and "length spdu = 6"
  shows "SessionOpen i spdu s \<noteq> None"
proof -
  obtain rid where rid: "ResourceIdToInt (drop 2 spdu) = Some rid"
    using assms(3) by (auto simp: ResourceIdToInt_def length_Suc_conv eval_nat_numeral)
  show ?thesis
    using SessionOpen_spec [OF assms _ rid] rid assms(1) by (cases "free_session s \<le> int MAX_SESSIONS")
      (auto simp: SessionOpen_def ci_wf_def Let_def)
qed


lemma ex_ci_reached: "ci_reached (ex_ci 0)"
proof (rule ci_reached.started)
  let ?s = "(ex_ci 0)\<lparr>p_slots := replicate MAX_CI_SLOTS zero_slot, sys_log := [SysCaOpen 0 0, SysCaGetCap]\<rparr>"
  have "ResetSlot 0 ?s = Some (reset_state 0 ?s)"
    by (rule ResetSlot_idle) (simp_all add: zero_session_def MAX_SESSIONS_def MAX_CI_SLOTS_def)
  moreover have "reset_state 0 ?s = ex_ci 0"
    by (simp add: reset_state_def upd_slot_def sys_call_def MAX_CI_SLOTS_def ex_slot_def zero_slot_def ex_ci_defs)
      (simp add: eval_nat_numeral)
  ultimately have "ofold ResetSlot [0] ?s = Some (ex_ci 0)" by simp
  moreover have "en50221_Init (ex_ci0 0) = ofold ResetSlot [0] ?s"
    by (simp add: en50221_Init_def en50221_Reset_def sys_call_def ca_link_def CA_CI_LINK_def MAX_SESSIONS_def ex_ci_defs)
  ultimately show "en50221_Init (ex_ci0 0) = Some (ex_ci 0)" by simp
qed (simp_all add: ex_ci_defs MAX_CI_SLOTS_def)


text \<open>A request for a session gets the first free session number, belongs to the slot it came
  from, and is answered with exactly one TPDU that names the resource, the number, and \<open>SS_OK\<close> for
  a resource the host has and \<open>SS_NOT_ALLOCATED\<close> for any other; no other session changes.\<close>

theorem SessionOpen_answers:
  assumes "ci_wf s" and "int i < i_nb_slots s" and "length spdu = 6"
    and "ResourceIdToInt (drop 2 spdu) = Some rid" and "\<exists>sid. sess_ok s sid \<and> \<not> in_use s sid"
  shows "\<exists>sid s'. SessionOpen i spdu s = Some s' \<and> sess_ok s sid \<and> \<not> in_use s sid
    \<and> (\<forall>x. 1 \<le> x \<and> x < sid \<longrightarrow> in_use s x)
    \<and> ss_slot (sess s' sid) = int i \<and> ss_resource (sess s' sid) = rid
    \<and> (\<forall>x. sess_ok s x \<and> x \<noteq> sid \<longrightarrow> sess s' x = sess s x)
    \<and> slot_stream i s' = slot_stream i s @ [data_tpdu i T_DATA_LAST
         ([ST_OPEN_SESSION_RESPONSE, 0x7, if known_resource rid then SS_OK else SS_NOT_ALLOCATED]
          @ take 4 (drop 2 spdu) @ word16_bytes sid)]"
proof -
  let ?sid = "free_session s"
  from assms(5) obtain y where y: "sess_ok s y" "ss_resource (sess s y) = 0" by (auto simp: in_use_def)
  then have "sess s y \<in> set (p_sessions s)" by (auto simp: sess_def sess_ok_def intro!: nth_mem)
  with y(2) have "index_of (\<lambda>ss. ss_resource ss = 0) (p_sessions s) < length (p_sessions s)"
    unfolding index_of_less_iff by blast
  then have le: "?sid \<le> int (length (p_sessions s))" by (simp add: free_session_def)
  then have le32: "?sid \<le> int MAX_SESSIONS" using assms(1) by (simp add: ci_wf_def)
  note F = free_session_spec [OF le]
  from SessionOpen_spec [OF assms(1,2,3) le32 assms(4)] obtain s' where
    S: "SessionOpen i spdu s = Some s'"
      "slot_stream i s' = slot_stream i s @ [data_tpdu i T_DATA_LAST (open_answer spdu ?sid rid)]"
      "sess s' ?sid = (sess s ?sid)\<lparr>ss_slot := int i, ss_resource := rid, ss_close := None, ss_manage := None\<rparr>"
      "one_session ?sid s s'" by blast
  have "in_use s x" if "1 \<le> x" "x < ?sid" for x
    using F(1) F(3) [OF that] that by (auto simp: in_use_def sess_ok_def)
  then show ?thesis using S F(1,2) unfolding open_answer_def one_session_def
    by (intro exI [of _ ?sid] exI [of _ s']) (simp add: in_use_def)
qed

lemma SessionOpen_answers_witness:
  "\<exists>sid s'. SessionOpen 0 [ST_OPEN_SESSION_REQUEST, 4, 0, 1, 0, 0x41] (ex_ca 0) = Some s' \<and> sess_ok (ex_ca 0) sid
     \<and> ss_resource (sess s' sid) = RI_RESOURCE_MANAGER"
proof -
  have "sess (ex_ca 0) 2 = zero_session"
    by (simp add: ex_ca_def sess_def upd_sess_def)
  then have "sess_ok (ex_ca 0) 2 \<and> \<not> in_use (ex_ca 0) 2" by (simp add: in_use_def zero_session_def)
  moreover have "ResourceIdToInt (drop 2 [ST_OPEN_SESSION_REQUEST, 4, 0, 1, 0, 0x41]) = Some RI_RESOURCE_MANAGER"
    by (simp add: ResourceIdToInt_def RI_RESOURCE_MANAGER_def)
  ultimately show ?thesis
    using SessionOpen_answers [OF ex_ca_wf [of 0], of 0 "[ST_OPEN_SESSION_REQUEST, 4, 0, 1, 0, 0x41]"] by fastforce
qed

text \<open>C12 Resetting a slot (\<open>ResetSlot\<close>: the module was taken out, did not answer, or a write failed)
  ends every session of that slot and no other, and leaves the slot inactive with empty queues and
  nothing half received; the other slots are untouched.\<close>

theorem ResetSlot_ends_sessions:
  assumes "ci_wf s" and "int i < i_nb_slots s"
  shows "\<exists>s'. ResetSlot i s = Some s'
    \<and> (\<forall>sid. in_use s' sid \<longleftrightarrow> in_use s sid \<and> ss_slot (sess s sid) \<noteq> int i)
    \<and> (\<forall>sid. in_use s' sid \<longrightarrow> sess s' sid = sess s sid)
    \<and> (\<forall>j. j \<noteq> i \<longrightarrow> p_slots s' ! j = p_slots s ! j)
    \<and> \<not> sl_active (p_slots s' ! i) \<and> \<not> sl_expect_answer (p_slots s' ! i)
    \<and> sl_send (p_slots s' ! i) = [] \<and> sl_recv (p_slots s' ! i) = None \<and> sys_log s' = sys_log s @ [SysCaReset i]"
proof -
  from ResetSlot_spec [OF assms] obtain s' where R: "ResetSlot i s = Some s'"
    "closed_upto i MAX_SESSIONS (reset_state i s) s'" by blast
  have il: "i < length (p_slots s)" using ci_wf_slot [OF assms] by simp
  have eq: "sess_ok s' = sess_ok s" "map unseen (p_slots s') = map unseen (p_slots (reset_state i s))"
    "\<forall>j. j \<noteq> i \<longrightarrow> p_slots s' ! j = p_slots (reset_state i s) ! j" "sys_log s' = sys_log (reset_state i s)"
    using R(2) by (simp_all add: closed_upto_def)
  have S: "if in_use s x \<and> ss_slot (sess s x) = int i then ss_resource (sess s' x) = 0 else sess s' x = sess s x"
    if "sess_ok s x" for x
    using R(2) that ci_wf_sess_ok [OF assms(1), of x] by (auto simp: closed_upto_def in_use_def MAX_SESSIONS_def split: if_splits)
  have use: "in_use s' x \<longleftrightarrow> in_use s x \<and> ss_slot (sess s x) \<noteq> int i" for x
    using S [of x] eq(1) by (auto simp: in_use_def split: if_splits)
  moreover have "sess s' x = sess s x" if "in_use s' x" for x
    using S [of x] that use [of x] by (auto simp: in_use_def)
  moreover have "unseen (p_slots s' ! i) = unseen (p_slots (reset_state i s) ! i)"
  proof -
    have "length (p_slots s') = length (p_slots s)" using map_eq_imp_length_eq [OF eq(2)] by simp
    then show ?thesis using eq(2) il by (metis nth_map reset_state_simps(2))
  qed
  then have "\<not> sl_active (p_slots s' ! i) \<and> \<not> sl_expect_answer (p_slots s' ! i)
      \<and> sl_send (p_slots s' ! i) = [] \<and> sl_recv (p_slots s' ! i) = None"
    unfolding reset_state_slot [OF il] by (cases "p_slots s' ! i"; cases "p_slots s ! i") (simp add: unseen_def)
  ultimately show ?thesis using R(1) eq(3,4) il by (simp add: reset_state_slot) (simp add: reset_state_def sys_call_log)
qed

lemma ResetSlot_ends_sessions_witness:
  "\<exists>s'. ResetSlot 0 (ex_ca 0) = Some s' \<and> \<not> in_use s' 1 \<and> in_use (ex_ca 0) 1"
  using ResetSlot_ends_sessions [OF ex_ca_wf [of 0], of 0] ex_ca_in_use [of 0] by auto

text \<open>\<open>SessionClose\<close> gives the session's data back but keeps its close function and the pointer,
  and the dispatcher does not ask whether the session is in use: a module that closes the same
  session twice makes the host free the same memory twice.\<close>

theorem SessionClose_twice:
  assumes "ci_wf s" and "in_use s sid" and "ss_close (sess s sid) \<noteq> None"
  shows "\<exists>s'. SPDUHandle B R i ([ST_CLOSE_SESSION_REQUEST, 0x2] @ word16_bytes sid) s = Some s'
    \<and> SPDUHandle B R i ([ST_CLOSE_SESSION_REQUEST, 0x2] @ word16_bytes sid) s' = None"
proof -
  note U = in_use_closable [OF assms(1,2)]
  from SessionClose_wf [OF assms(1,2)] obtain s' where C: "SessionClose sid s = Some s'" "sess_ok s' sid" by blast
  from end_session_ended [OF U(1,2,3,5)] obtain s1 where
    1: "end_session sid s = Some s1" "session_ended sid s s1" by blast
  note w1 = session_ended_wf [OF assms(1) 1(2)]
  have f1: "ss_sys (sess s1 sid) = SysFreed" "ss_close (sess s1 sid) = ss_close (sess s sid)"
    using end_session_freed [OF 1(1) U(1) assms(3) U(2)] by simp_all
  have "quiet s1 s'"
  proof -
    define k where "k = nat (ss_slot (sess s sid))"
    have k: "ss_slot (sess s sid) = int k" "int k < i_nb_slots s1"
      using U 1(2) by (auto simp: k_def session_ended_def one_session_def)
    from ci_wf_slot [OF w1 k(2)] have r: "slot_ready k s1" "k < 16" by auto
    have b: "tpdu_bytes k T_DATA_LAST ([ST_CLOSE_SESSION_RESPONSE, 0x3, SS_OK] @ word16_bytes sid) =
        Some (data_tpdu k T_DATA_LAST ([ST_CLOSE_SESSION_RESPONSE, 0x3, SS_OK] @ word16_bytes sid))"
      by (intro tpdu_bytes_data) (simp_all add: is_data_def word16_bytes_def MAX_TPDU_DATA_def)
    from TPDUSend_quiet [OF r(1) b data_tpdu_of_slot] show ?thesis
      using C(1) U(1) 1(1) k(1) r(2) by (auto simp: SessionClose_def get_sess_ok)
  qed
  then have f': "ss_sys (sess s' sid) = SysFreed" "ss_close (sess s' sid) = ss_close (sess s sid)"
    using f1 quiet_sess(1) by metis+
  have "end_session sid s' = None"
    using C(2) f' assms(3)
    by (auto simp: end_session_def get_sess_ok run_closer_def ConditionalAccessClose_def DateTimeClose_def MMIClose_def
        free_sys_freed sys_as_date_def sys_as_mmi_def split: option.split closer.split)
  then have twice: "SessionClose sid s' = None" using C(2) by (simp add: SessionClose_def get_sess_ok)
  have n: "session_number (word_of_int (sid div 256)) (word_of_int sid) = sid"
    using U(1) ci_wf_sess_ok [OF assms(1), of sid] by (intro session_number_small) simp_all
  show ?thesis using C(1) twice n by (simp add: SPDUHandle_def word16_bytes_def spdu_tags rd_def)
qed

lemma SessionClose_twice_witness:
  "\<exists>s'. SPDUHandle ex_psi Some 0 [0x95, 2, 0, 1] (ex_ca 0) = Some s' \<and> SPDUHandle ex_psi Some 0 [0x95, 2, 0, 1] s' = None"
  using SessionClose_twice [OF ex_ca_wf ex_ca_in_use, of 0] by (simp add: word16_bytes_def spdu_tags)

text \<open>A session number comes from the module and is only checked against the upper bound of
  the session array (and not even that when a session is closed): number 0, in a data SPDU or in
  either of the closing SPDUs, reads the session before the array.\<close>

theorem Session_zero_out_of_bounds:
  fixes s :: "'a dvben_scheme"
  shows "SPDUHandle B R i (ST_SESSION_NUMBER # n # 0 # 0 # b # apdu) s = None
    \<and> SPDUHandle B R i [ST_CLOSE_SESSION_REQUEST, 2, 0, 0] s = None
    \<and> SPDUHandle B R i [ST_CLOSE_SESSION_RESPONSE, 3, 0, 0, 0] s = None"
proof -
  have "\<not> sess_ok s 0" by (simp add: sess_ok_def)
  then show ?thesis
    by (simp add: SPDUHandle_def spdu_tags session_number_def SessionClose_def end_session_def get_sess_bad MAX_SESSIONS_def
        rd_def)
qed

subsection \<open>Application layer\<close>

text \<open>What \<open>CAPMTBuild\<close> looks for: a descriptor loop with a CA system the module has.\<close>

definition has_matching_ca :: "'b psi_lib_scheme \<Rightarrow> system_ids option \<Rightarrow> bytes \<Rightarrow> bool" where
  "has_matching_ca B ids descs \<longleftrightarrow>
     (\<exists>d\<in>set (the (elements 65536 (descs_get_desc B) descs)). ca_desc_matches B ids d)"

lemma HasCADescriptors_eq:
  assumes "ends_below 65536 (descs_get_desc B) descs"
  shows "HasCADescriptors B ids descs = Some (has_matching_ca B ids descs)"
proof -
  from elements_returns [OF assms] obtain xs where "elements 65536 (descs_get_desc B) descs = Some xs" by auto
  with any_elem_ex [OF this assms] show ?thesis by (simp add: HasCADescriptors_def has_matching_ca_def)
qed

lemma capmt_scan:
  assumes "\<forall>es\<in>set ess. ends_below 65536 (descs_get_desc B) (drop (pmtn_get_descs B es) es)"
  shows "ofold (capmt_scan_es B sel s ids) ess (ca, has_es) =
    Some (ca \<or> (\<exists>es\<in>set ess. sel s (pmtn_get_pid B es) = 1 \<and> has_matching_ca B ids (drop (pmtn_get_descs B es) es)),
          has_es \<or> (\<exists>es\<in>set ess. sel s (pmtn_get_pid B es) = 1))"
  using assms
proof (induction ess arbitrary: ca has_es)
  case (Cons es ess)
  have H: "HasCADescriptors B ids (drop (pmtn_get_descs B es) es) = Some (has_matching_ca B ids (drop (pmtn_get_descs B es) es))"
    using Cons.prems by (intro HasCADescriptors_eq) simp
  show ?case using Cons.IH Cons.prems H by (cases "sel s (pmtn_get_pid B es) = 1"; cases ca) (auto simp: capmt_scan_es_def)
qed simp


text \<open>A program with one stream, scrambled for CA system 0x0500; the module of session 1 has none.\<close>

definition ex_pmt :: bytes where
  "ex_pmt = [2, 0xb0, 24, 0, 7, 0xc1, 0, 0, 0xe0, 33, 0xf0, 0, 2, 0xe0, 33, 0xf0, 6, 9, 4, 5, 0, 0xe0, 40, 0, 0, 0, 0]"

lemma ex_pmt_loops:
  "elements 65536 (pmt_get_es ex_psi) ex_pmt = Some [drop 12 ex_pmt]"
  "elements 65536 (descs_get_desc ex_psi) (drop 10 ex_pmt) = Some []"
  "elements 65536 (descs_get_desc ex_psi) (drop 15 ex_pmt) = Some [drop 17 ex_pmt]"
  "ends_below 65536 (descs_get_desc ex_psi) (drop 10 ex_pmt)"
  "ends_below 65536 (descs_get_desc ex_psi) (drop 15 ex_pmt)"
proof -
  have e: "pmt_get_es ex_psi ex_pmt 0 = Some 12" "pmt_get_es ex_psi ex_pmt 1 = None"
    by (simp_all add: ex_pmt_es_def ex_pmt_def)
  have d: "descs_get_desc ex_psi (drop 10 ex_pmt) 0 = None" "descs_get_desc ex_psi (drop 15 ex_pmt) 0 = Some 2"
    "descs_get_desc ex_psi (drop 15 ex_pmt) 1 = None"
    by (simp_all add: ex_pmt_def)
  show "elements 65536 (pmt_get_es ex_psi) ex_pmt = Some [drop 12 ex_pmt]"
    using collect_values [of "\<lambda>j. map_option (\<lambda>off. drop off ex_pmt) (pmt_get_es ex_psi ex_pmt j)" 1 65536] e
    by (simp add: elements_def)
  show "elements 65536 (descs_get_desc ex_psi) (drop 10 ex_pmt) = Some []"
    using collect_values [of "\<lambda>j. map_option (\<lambda>off. drop off (drop 10 ex_pmt)) (descs_get_desc ex_psi (drop 10 ex_pmt) j)" 0 65536] d(1)
    by (simp add: elements_def)
  show "elements 65536 (descs_get_desc ex_psi) (drop 15 ex_pmt) = Some [drop 17 ex_pmt]"
    using collect_values [of "\<lambda>j. map_option (\<lambda>off. drop off (drop 15 ex_pmt)) (descs_get_desc ex_psi (drop 15 ex_pmt) j)" 1 65536] d(2,3)
    by (simp add: elements_def)
  show "ends_below 65536 (descs_get_desc ex_psi) (drop 10 ex_pmt)"
    unfolding ends_below_def by (rule exI [of _ 0]) (use d(1) in simp)
  show "ends_below 65536 (descs_get_desc ex_psi) (drop 15 ex_pmt)"
    unfolding ends_below_def by (rule exI [of _ 1]) (use d(3) in simp)
qed


subsubsection \<open>Date and time\<close>

lemma htons_bytes_low_first: "htons_bytes x = [word_of_int x, word_of_int (x div 256)]"
proof -
  define w where "w = (word_of_int x :: 16 word)"
  have "ucast (drop_bit 8 (htons w)) = (word_of_int x :: byte)"
    by (rule bit_word_eqI) (auto simp: htons_def w_def bit_simps)
  moreover have "ucast (htons w) = (word_of_int (x div 256) :: byte)"
  proof (rule bit_word_eqI)
    fix n assume n: "n < LENGTH(8)"
    have "x div 256 = drop_bit 8 x" by (simp add: drop_bit_eq_div)
    then show "bit (ucast (htons w) :: byte) n = bit (word_of_int (x div 256) :: byte) n"
      using n by (auto simp: htons_def w_def bit_simps add.commute)
  qed
  ultimately show ?thesis by (simp add: htons_bytes_def Let_def w_def)
qed

lemma byte_of_int: "int (unat (word_of_int y :: byte)) = y mod 256"
  by (simp add: uint_word_of_int)

lemma DEC2BCD_digits:
  assumes "0 \<le> d" and "d < 100"
  shows "int (unat (DEC2BCD d)) = d div 10 * 16 + d mod 10"
proof -
  have "0 \<le> d div 10 * 16 + d mod 10" "d div 10 * 16 + d mod 10 < 256" using assms by simp_all
  then show ?thesis unfolding DEC2BCD_def byte_of_int by (rule mod_pos_pos_trivial)
qed

text \<open>In the date and time object the hour, minute and second are right, in BCD, but the two-byte
  numbers are byte-swapped on the little-endian hosts: \<open>htons\<close> is applied although the bytes are
  then written high byte first, so a reader of the big-endian field gets the modified Julian date with
  its bytes exchanged, a wrong date unless both bytes are equal.\<close>

theorem DateTime_object:
  assumes "0 \<le> tm_hour t" and "tm_hour t < 100" and "0 \<le> tm_min t" and "tm_min t < 100"
    and "0 \<le> tm_sec t" and "tm_sec t < 100"
  shows "\<exists>a b h m x c d. date_time_bytes t = [a, b, h, m, x, c, d]
    \<and> int (unat h) = tm_hour t div 10 * 16 + tm_hour t mod 10
    \<and> int (unat m) = tm_min t div 10 * 16 + tm_min t mod 10
    \<and> int (unat x) = tm_sec t div 10 * 16 + tm_sec t mod 10
    \<and> session_number a b = mjd_of t mod 256 * 256 + mjd_of t div 256 mod 256
    \<and> (session_number a b = mjd_of t mod 65536 \<longleftrightarrow> mjd_of t mod 256 = mjd_of t div 256 mod 256)"
proof -
  let ?j = "mjd_of t"
  have s: "session_number (word_of_int ?j) (word_of_int (?j div 256)) = ?j mod 256 * 256 + ?j div 256 mod 256"
    by (simp only: session_number_def byte_of_int)
  have "?j mod 65536 = ?j div 256 mod 256 * 256 + ?j mod 256"
    using mod_mult2_eq' [of ?j 256 256] by (simp add: mult.commute)
  then have "(?j mod 256 * 256 + ?j div 256 mod 256 = ?j mod 65536) = (?j mod 256 = ?j div 256 mod 256)" by arith
  moreover note DEC2BCD_digits [OF assms(1,2)] DEC2BCD_digits [OF assms(3,4)] DEC2BCD_digits [OF assms(5,6)] s
  ultimately show ?thesis
    by (intro exI) (auto simp only: date_time_bytes_def htons_bytes_low_first append_Cons append_Nil)
qed

definition ex_tm :: tm where
  "ex_tm = \<lparr>tm_year = 120, tm_mon = 5, tm_mday = 15, tm_hour = 23, tm_min = 59, tm_sec = 7, tm_gmtoff = 3600\<rparr>"

lemma DateTime_object_witness:
  "mjd_of ex_tm = 59015 \<and> (\<exists>a b h m x c d. date_time_bytes ex_tm = [a, b, h, m, x, c, d]
    \<and> int (unat h) = 0x23 \<and> session_number a b = 34790 \<and> session_number a b \<noteq> 59015)"
proof -
  have j: "mjd_of ex_tm = 59015" by (simp add: mjd_of_def ex_tm_def)
  from DateTime_object [of ex_tm] j show ?thesis by (auto simp: ex_tm_def)
qed

subsubsection \<open>Menus\<close>

text \<open>A text of a menu as the standard encodes it.\<close>

definition mmi_text :: "bytes \<Rightarrow> bytes" where
  "mmi_text t = [0x9F, 0x88, 0x03] @ SetLength (int (length t)) @ t"

lemma MMIGetText_text:
  assumes "length t < 65536" and "3 \<le> n"
  shows "MMIGetText B (mmi_text t @ rest) n =
    Some (dvb_string_get B t, drop (length t + 4) (mmi_text t @ rest), n - (int (length t) + 4))"
proof -
  have "GetLength (SetLength (int (length t)) @ t @ rest) = Some (int (length t), t @ rest)"
    using assms by (intro GetLength_SetLength) simp_all
  then have "APDUGetLength (mmi_text t @ rest) = Some (int (length t), t @ rest)"
    by (simp add: APDUGetLength_def mmi_text_def)
  moreover have "APDUGetTag (mmi_text t @ rest) = AOT_TEXT_LAST" by (simp add: mmi_text_def AOT_TEXT_LAST_def)
  moreover have "\<not> length (mmi_text t @ rest) < 3" by (simp add: mmi_text_def)
  moreover have "nat (int (length t) + 4) = length t + 4" by simp
  ultimately show ?thesis using assms(2) by (simp add: MMIGetText_def)
qed

lemma SetLength_one: "length t < 128 \<Longrightarrow> length (SetLength (int (length t))) = 1"
  by (simp add: SetLength_def Let_def)

text \<open>C14 The choices of a menu are read back in order and complete: from any sequence of texts of
  fewer than 128 bytes each, \<open>MMIHandleMenu\<close>'s loop returns and makes exactly one choice per text.\<close>

theorem MMI_choices_roundtrip:
  assumes "\<forall>t\<in>set ts. length t < 128"
  shows "mmi_choices B (concat (map mmi_text ts)) (int (length (concat (map mmi_text ts)))) =
    Some (map (\<lambda>t. CStr (dvb_string_get B t)) ts)"
  using assms
proof (induction ts)
  case Nil
  then show ?case by (simp add: mmi_choices.simps)
next
  case (Cons t ts)
  let ?rest = "concat (map mmi_text ts)"
  have t: "length t < 128" using Cons.prems by simp
  have len: "length (mmi_text t) = length t + 4" using SetLength_one [OF t] by (simp add: mmi_text_def)
  have get: "MMIGetText B (mmi_text t @ ?rest) (int (length (mmi_text t @ ?rest))) =
      Some (dvb_string_get B t, ?rest, int (length ?rest))"
    using MMIGetText_text [of t "int (length (mmi_text t @ ?rest))" B ?rest] t len by simp
  have IH: "mmi_choices B ?rest (int (length ?rest)) = Some (map (\<lambda>t. CStr (dvb_string_get B t)) ts)"
    using Cons by simp
  have "0 < int (length (mmi_text t @ ?rest))" using len by simp
  then have "mmi_choices B (mmi_text t @ ?rest) (int (length (mmi_text t @ ?rest))) =
      Some (CStr (dvb_string_get B t) # map (\<lambda>t. CStr (dvb_string_get B t)) ts)"
    by (subst mmi_choices.simps) (simp only: if_True get bind.bind_lunit prod.case IH)
  then show ?case by simp
qed

lemma MMI_choices_roundtrip_witness:
  "mmi_choices ex_psi (mmi_text [65] @ mmi_text [66, 67]) (int (length (mmi_text [65] @ mmi_text [66, 67]))) =
    Some [CStr (dvb_string_get ex_psi [65]), CStr (dvb_string_get ex_psi [66, 67])]"
  using MMI_choices_roundtrip [of "[[65], [66, 67]]" ex_psi] by simp

lemma first_digit:
  "(x * 256 + y) * 256 + z = 0x9F8803 \<Longrightarrow> y < 256 \<Longrightarrow> z < 256 \<Longrightarrow> 0 \<le> y \<Longrightarrow> 0 \<le> z \<Longrightarrow> x = (159 :: int)"
  by simp

lemma tag_first:
  "a \<noteq> 159 \<Longrightarrow> (int (unat (a :: byte)) * 256 + int (unat (b :: byte))) * 256 + int (unat (c :: byte)) \<noteq> 0x9F8803"
proof
  assume a: "a \<noteq> 159" and e: "(int (unat a) * 256 + int (unat b)) * 256 + int (unat c) = 0x9F8803"
  have "int (unat b) < 256" "int (unat c) < 256" "0 \<le> int (unat b)" "0 \<le> int (unat c)"
    using unat_byte [of b] unat_byte [of c] by (simp_all only: of_nat_less_numeral_iff of_nat_0_le_iff)
  with e have "int (unat a) = 159" by (intro first_digit)
  then have "uint a = uint (159 :: byte)" by simp
  with a show False by (metis word_uint_eq_iff)
qed

text \<open>\<open>MMIGetText\<close> takes every text header to be four bytes long. For a text of 128 to 255 bytes,
  whose length field has two bytes, the next text is looked for one byte too early, at the last
  byte of this text, so all later texts of the menu are lost (their number and content depend on that byte).\<close>

theorem MMI_long_text_misaligned:
  assumes "128 \<le> length t" and "length t < 256" and "last t \<noteq> 0x9F"
    and "n = int (length (mmi_text t @ mmi_text u @ rest))"
  shows "\<exists>d l. MMIGetText B (mmi_text t @ mmi_text u @ rest) n = Some (dvb_string_get B t, d, l)
    \<and> d = last t # mmi_text u @ rest \<and> MMIGetText B d l = Some ([], d, 0)"
proof -
  have len: "length (SetLength (int (length t))) = 2" using assms(1,2) by (simp add: SetLength_def Let_def)
  have t: "t \<noteq> []" using assms(1) by auto
  let ?d = "last t # mmi_text u @ rest"
  define h where "h = [0x9F, 0x88, 0x03] @ SetLength (int (length t))"
  have h: "length h = 5" "mmi_text t = h @ t" using len by (simp_all add: h_def mmi_text_def)
  have "drop (length t + 4) (mmi_text t @ mmi_text u @ rest) = drop (length t - 1) t @ mmi_text u @ rest"
    using h t by (simp add: Suc_le_eq)
  also have "drop (length t - 1) t = [last t]"
  proof -
    have "t = butlast t @ [last t]" using t by simp
    then have "drop (length t - 1) t = drop (length t - 1) (butlast t @ [last t])" by simp
    then show ?thesis by simp
  qed
  finally have d: "drop (length t + 4) (mmi_text t @ mmi_text u @ rest) = ?d" by simp
  have n3: "3 \<le> n" using len unfolding assms(4) by (simp add: mmi_text_def)
  have g: "MMIGetText B (mmi_text t @ mmi_text u @ rest) n = Some (dvb_string_get B t, ?d, n - (int (length t) + 4))"
    using MMIGetText_text [of t n B "mmi_text u @ rest"] assms(2) n3 d by simp
  have l: "3 \<le> n - (int (length t) + 4)" using len unfolding assms(4) by (simp add: mmi_text_def)
  obtain c cs where u: "mmi_text u @ rest = 0x9F # c # cs" by (simp add: mmi_text_def)
  have "APDUGetTag ?d \<noteq> AOT_TEXT_LAST"
    using tag_first [OF assms(3), of "0x9F" c] by (simp only: u AOT_TEXT_LAST_def APDUGetTag.simps not_False_eq_True)
  then have "MMIGetText B ?d (n - (int (length t) + 4)) = Some ([], ?d, 0)"
    using l u by (simp add: MMIGetText_def)
  with g show ?thesis by blast
qed

lemma MMI_long_text_misaligned_witness:
  "\<exists>d l. MMIGetText ex_psi (mmi_text (replicate 200 65) @ mmi_text [66] @ []) (int (length (mmi_text (replicate 200 65) @ mmi_text [66] @ [])))
     = Some (dvb_string_get ex_psi (replicate 200 65), d, l)
    \<and> d = 65 # mmi_text [66] @ [] \<and> MMIGetText ex_psi d l = Some ([], d, 0)"
proof -
  have "last (replicate 200 65) = (65 :: byte)" by (simp add: last_replicate)
  with MMI_long_text_misaligned [of "replicate 200 65" _ "[66]" "[]" ex_psi, OF _ _ _ refl] show ?thesis by simp
qed

end
