(* ===== verification/Dvb_DemuxProps.thy ===== *)
theory Dvb_DemuxProps
  imports Dvb_Control
begin

text \<open>
  Facts about the demultiplexer: the PID filters as reference-counted sets of outputs, what the
  CAM code leaves alone, PID remapping, time stamps, section cutting, packed tables.
\<close>

subsection \<open>A set that is joined and left\<close>

text \<open>
  The contract of a membership: joining adds one element, leaving takes it away, both return and keep
  the invariant. Clients move a whole set of members from what is current to what is wanted.
\<close>

locale membership =
  fixes inv :: "'s \<Rightarrow> bool"
    and members :: "'s \<Rightarrow> 'x set"
    and allowed :: "'x \<Rightarrow> bool"
    and join :: "'x \<Rightarrow> 's \<Rightarrow> 's option"
    and leave :: "'x \<Rightarrow> 's \<Rightarrow> 's option"
  assumes join_adds: "inv s \<Longrightarrow> allowed x \<Longrightarrow> \<exists>s'. join x s = Some s' \<and> inv s' \<and> members s' = insert x (members s)"
    and leave_removes: "inv s \<Longrightarrow> allowed x \<Longrightarrow> \<exists>s'. leave x s = Some s' \<and> inv s' \<and> members s' = members s - {x}"
begin

lemma join_all:
  assumes "inv s" and "\<forall>x\<in>set xs. allowed x"
  shows "\<exists>s'. ofold join xs s = Some s' \<and> inv s' \<and> members s' = members s \<union> set xs"
  using assms
proof (induction xs arbitrary: s)
  case (Cons x xs)
  then obtain s1 where 1: "join x s = Some s1" "inv s1" "members s1 = insert x (members s)"
    using join_adds [of s x] by auto
  from Cons.IH [OF 1(2)] Cons.prems(2) obtain s' where
    "ofold join xs s1 = Some s'" "inv s'" "members s' = members s1 \<union> set xs" by auto
  with 1 show ?case by auto
qed simp

lemma leave_all:
  assumes "inv s" and "\<forall>x\<in>set xs. allowed x"
  shows "\<exists>s'. ofold leave xs s = Some s' \<and> inv s' \<and> members s' = members s - set xs"
  using assms
proof (induction xs arbitrary: s)
  case (Cons x xs)
  then obtain s1 where 1: "leave x s = Some s1" "inv s1" "members s1 = members s - {x}"
    using leave_removes [of s x] by auto
  from Cons.IH [OF 1(2)] Cons.prems(2) obtain s' where
    "ofold leave xs s1 = Some s'" "inv s'" "members s' = members s1 - set xs" by auto
  with 1 show ?case by auto
qed simp

lemma move:
  assumes "inv s" and "\<forall>x\<in>set old \<union> set new. allowed x"
  shows "\<exists>s1 s'. ofold leave (filter (\<lambda>x. x \<notin> set new) old) s = Some s1
    \<and> ofold join (filter (\<lambda>x. x \<notin> set old) new) s1 = Some s' \<and> inv s'
    \<and> members s' = members s - (set old - set new) \<union> (set new - set old)"
proof -
  from leave_all [of s "filter (\<lambda>x. x \<notin> set new) old"] assms obtain s1 where
    1: "ofold leave (filter (\<lambda>x. x \<notin> set new) old) s = Some s1" "inv s1"
      "members s1 = members s - {x \<in> set old. x \<notin> set new}" by auto
  from join_all [OF 1(2), of "filter (\<lambda>x. x \<notin> set old) new"] assms(2) obtain s' where
    2: "ofold join (filter (\<lambda>x. x \<notin> set old) new) s1 = Some s'" "inv s'"
      "members s' = members s1 \<union> {x \<in> set new. x \<notin> set old}" by auto
  have "members s' = members s - (set old - set new) \<union> (set new - set old)" using 1(3) 2(3) by auto
  with 1(1) 2(1,2) show ?thesis by blast
qed

end

subsection \<open>Access to the PIDs\<close>

lemma get_pid_eq [simp]: "get_pid pid s = Some p \<longleftrightarrow> pid < MAX_PIDS \<and> p = p_pids s pid"
  by (auto simp: get_pid_def)

lemma get_pid_less: "pid < MAX_PIDS \<Longrightarrow> get_pid pid s = Some (p_pids s pid)"
  by simp

lemma upd_pid_simps [simp]:
  "p_pids (upd_pid pid f s) = (p_pids s)(pid := f (p_pids s pid))"
  "b_budget_mode (upd_pid pid f s) = b_budget_mode s" "sys_ret (upd_pid pid f s) = sys_ret s"
  "sys_log (upd_pid pid f s) = sys_log s" "pp_outputs (upd_pid pid f s) = pp_outputs s"
  "pp_sids (upd_pid pid f s) = pp_sids s" "b_select_pmts (upd_pid pid f s) = b_select_pmts s"
  by (simp_all add: upd_pid_def)

lemma upd_pid_twice: "upd_pid pid f (upd_pid pid g s) = upd_pid pid (\<lambda>p. f (g p)) s"
  by (simp add: upd_pid_def)

lemma sys_call_demux [simp]:
  "p_pids (snd (sys_call c s)) = p_pids s" "b_budget_mode (snd (sys_call c s)) = b_budget_mode s"
  "pp_outputs (snd (sys_call c s)) = pp_outputs s" "pp_sids (snd (sys_call c s)) = pp_sids s"
  "sys_ret (snd (sys_call c s)) = sys_ret s" "b_select_pmts (snd (sys_call c s)) = b_select_pmts s"
  by (simp_all add: sys_call_def Let_def)

lemma sys_call_ret: "fst (sys_call c s) = sys_ret s (length (sys_log s))"
  by (simp add: sys_call_def Let_def)

subsection \<open>The filter of a PID\<close>

definition joined :: "ts_pid \<Rightarrow> nat set" where
  "joined p = {n. Some n \<in> set (pid_outputs p)}"

text \<open>
  A PID in order: an output is entered once; the count is that of the outputs and of the other
  users (\<open>e\<close>: the standard tables, EMMs, program maps); the hardware filter is open while the count is
  positive, unless one filter passes everything.
\<close>

definition pid_ok :: "bool \<Rightarrow> int \<Rightarrow> ts_pid \<Rightarrow> bool" where
  "pid_ok budget e p \<longleftrightarrow> 0 \<le> e \<and> distinct (filter (\<lambda>x. x \<noteq> None) (pid_outputs p))
     \<and> i_refcount p = e + int (card (joined p)) \<and> (\<not> budget \<longrightarrow> (i_pid_fd p \<noteq> -1 \<longleftrightarrow> i_refcount p \<noteq> 0))"

definition pids_inv :: "(nat \<Rightarrow> int) \<Rightarrow> 'a dvbdemux_scheme \<Rightarrow> bool" where
  "pids_inv ext s \<longleftrightarrow> (\<forall>n. sys_ret s n \<noteq> -1) \<and> (\<forall>pid<MAX_PIDS. pid_ok (b_budget_mode s) (ext pid) (p_pids s pid))"

definition pid_members :: "'a dvbdemux_scheme \<Rightarrow> (nat \<times> nat) set" where
  "pid_members s = {(n, pid). pid < MAX_PIDS \<and> n \<in> joined (p_pids s pid)}"

lemma finite_joined [simp]: "finite (joined p)"
proof -
  have "joined p = the ` (set (pid_outputs p) - {None})" by (force simp: joined_def)
  then show ?thesis by simp
qed

text \<open>Setting and unsetting a PID, on one PID in order up to the count.\<close>

lemma SetPID_spec:
  assumes "pid < MAX_PIDS" and "\<forall>n. sys_ret s n \<noteq> -1" and "0 \<le> i_refcount (p_pids s pid)"
    and "\<not> b_budget_mode s \<longrightarrow> (i_pid_fd (p_pids s pid) \<noteq> -1 \<longleftrightarrow> i_refcount (p_pids s pid) \<noteq> 0)"
  shows "\<exists>s'. SetPID pid s = Some s' \<and> sys_ret s' = sys_ret s \<and> b_budget_mode s' = b_budget_mode s
    \<and> pp_outputs s' = pp_outputs s \<and> pp_sids s' = pp_sids s \<and> b_select_pmts s' = b_select_pmts s
    \<and> (\<forall>q. q \<noteq> pid \<longrightarrow> p_pids s' q = p_pids s q)
    \<and> (\<exists>fd. p_pids s' pid = (p_pids s pid)\<lparr>i_refcount := i_refcount (p_pids s pid) + 1, i_pid_fd := fd\<rparr>
        \<and> (\<not> b_budget_mode s \<longrightarrow> fd \<noteq> -1))"
proof -
  define s1 where "s1 = upd_pid pid (\<lambda>p. p\<lparr>i_refcount := i_refcount p + 1\<rparr>) s"
  have p1: "p_pids s1 pid = (p_pids s pid)\<lparr>i_refcount := i_refcount (p_pids s pid) + 1\<rparr>" by (simp add: s1_def)
  have ne: "i_refcount (p_pids s pid) + 1 \<noteq> 0" using assms(3) by simp
  show ?thesis
  proof (cases "\<not> b_budget_mode s \<and> i_pid_fd (p_pids s pid) = -1")
    case True
    define s2 where "s2 = snd (sys_call (DevSetFilter pid) s1)"
    define fd where "fd = fst (sys_call (DevSetFilter pid) s1)"
    have c: "sys_call (DevSetFilter pid) s1 = (fd, s2)" by (simp add: s2_def fd_def)
    have fd: "fd \<noteq> -1" using assms(2) by (simp add: fd_def sys_call_ret s1_def)
    have "SetPID pid s = Some (upd_pid pid (\<lambda>p. p\<lparr>i_pid_fd := fd\<rparr>) s2)"
      using assms(1) True ne c p1 by (simp add: SetPID_def get_pid_less s1_def [symmetric] Let_def) (simp add: s1_def)
    then show ?thesis using fd p1 by (simp add: s2_def) (auto simp: s1_def intro!: exI [of _ fd])
  next
    case False
    have "SetPID pid s = Some s1"
      using assms(1) False p1 by (auto simp: SetPID_def get_pid_less s1_def [symmetric] Let_def) (simp_all add: s1_def)
    moreover have "p_pids s1 pid = (p_pids s pid)\<lparr>i_refcount := i_refcount (p_pids s pid) + 1, i_pid_fd := i_pid_fd (p_pids s pid)\<rparr>"
      using p1 by simp
    moreover have "\<not> b_budget_mode s \<longrightarrow> i_pid_fd (p_pids s pid) \<noteq> -1" using False by auto
    ultimately show ?thesis unfolding s1_def by (simp add: exI [of _ "i_pid_fd (p_pids s pid)"])
  qed
qed

lemma UnsetPID_spec:
  assumes "pid < MAX_PIDS" and "0 < i_refcount (p_pids s pid)"
    and "\<not> b_budget_mode s \<longrightarrow> i_pid_fd (p_pids s pid) \<noteq> -1"
  shows "\<exists>s'. UnsetPID pid s = Some s' \<and> sys_ret s' = sys_ret s \<and> b_budget_mode s' = b_budget_mode s
    \<and> pp_outputs s' = pp_outputs s \<and> pp_sids s' = pp_sids s \<and> b_select_pmts s' = b_select_pmts s
    \<and> (\<forall>q. q \<noteq> pid \<longrightarrow> p_pids s' q = p_pids s q)
    \<and> (\<exists>fd emm. p_pids s' pid = (p_pids s pid)\<lparr>i_refcount := i_refcount (p_pids s pid) - 1, i_pid_fd := fd, b_emm := emm\<rparr>
        \<and> (\<not> b_budget_mode s \<longrightarrow> (fd \<noteq> -1 \<longleftrightarrow> i_refcount (p_pids s pid) - 1 \<noteq> 0)))"
proof -
  define s1 where "s1 = upd_pid pid (\<lambda>p. p\<lparr>i_refcount := i_refcount p - 1\<rparr>) s"
  have p1: "p_pids s1 pid = (p_pids s pid)\<lparr>i_refcount := i_refcount (p_pids s pid) - 1\<rparr>" by (simp add: s1_def)
  show ?thesis
  proof (cases "\<not> b_budget_mode s \<and> i_refcount (p_pids s pid) = 1")
    case True
    define s2 where "s2 = snd (sys_call (DevUnsetFilter (i_pid_fd (p_pids s1 pid)) pid) s1)"
    have "UnsetPID pid s = Some (upd_pid pid (\<lambda>p. p\<lparr>i_pid_fd := -1, b_emm := False\<rparr>) s2)"
      using assms(1,3) True p1 by (simp add: UnsetPID_def get_pid_less s1_def [symmetric] s2_def Let_def) (simp add: s1_def)
    then show ?thesis using True p1 by (simp add: s2_def) (auto simp: s1_def)
  next
    case False
    have "UnsetPID pid s = Some s1"
      using assms(1) False p1 by (auto simp: UnsetPID_def get_pid_less s1_def [symmetric] Let_def) (simp_all add: s1_def)
    moreover have "\<exists>fd emm. p_pids s1 pid = (p_pids s pid)\<lparr>i_refcount := i_refcount (p_pids s pid) - 1, i_pid_fd := fd, b_emm := emm\<rparr>
        \<and> (\<not> b_budget_mode s \<longrightarrow> (fd \<noteq> -1 \<longleftrightarrow> i_refcount (p_pids s pid) - 1 \<noteq> 0))"
      using p1 False assms(3) by (intro exI [of _ "i_pid_fd (p_pids s pid)"] exI [of _ "b_emm (p_pids s pid)"]) auto
    moreover have "\<forall>q. q \<noteq> pid \<longrightarrow> p_pids s1 q = p_pids s q" by (simp add: s1_def)
    moreover have "sys_ret s1 = sys_ret s" "b_budget_mode s1 = b_budget_mode s" "pp_outputs s1 = pp_outputs s"
      "pp_sids s1 = pp_sids s" "b_select_pmts s1 = b_select_pmts s" by (simp_all add: s1_def)
    ultimately show ?thesis by blast
  qed
qed

subsection \<open>Joining and leaving\<close>

text \<open>The list of the outputs of a PID, as a set with holes.\<close>

definition enter :: "nat \<Rightarrow> nat option list \<Rightarrow> nat option list" where
  "enter n outs = (let j = index_of (\<lambda>x. x = None) outs in if j = length outs then outs @ [Some n] else outs[j := Some n])"

lemma enter_cases:
  obtains "enter n outs = outs @ [Some n]"
    | a b where "outs = a @ None # b" "enter n outs = a @ Some n # b"
proof (cases "index_of (\<lambda>x. x = None) outs = length outs")
  case True
  then show ?thesis using that(1) by (simp add: enter_def Let_def)
next
  case False
  define j where "j = index_of (\<lambda>x. x = None) outs"
  have j: "j < length outs" using False index_of_le [of "\<lambda>x. x = None" outs] by (simp add: j_def)
  have "outs = take j outs @ None # drop (Suc j) outs"
    using index_of_hit [of "\<lambda>x. x = None" outs] id_take_nth_drop [OF j] j by (simp add: j_def)
  moreover have "enter n outs = take j outs @ Some n # drop (Suc j) outs"
    using False j by (simp add: enter_def j_def [symmetric] upd_conv_take_nth_drop)
  ultimately show ?thesis by (rule that(2))
qed

lemma enter_spec:
  assumes "distinct (filter (\<lambda>x. x \<noteq> None) outs)" and "Some n \<notin> set outs"
  shows "distinct (filter (\<lambda>x. x \<noteq> None) (enter n outs))" and "Some m \<in> set (enter n outs) \<longleftrightarrow> m = n \<or> Some m \<in> set outs"
proof -
  have "distinct (filter (\<lambda>x. x \<noteq> None) (enter n outs)) \<and> (Some m \<in> set (enter n outs) \<longleftrightarrow> m = n \<or> Some m \<in> set outs)"
    using assms by (cases rule: enter_cases [of n outs]) auto
  then show "distinct (filter (\<lambda>x. x \<noteq> None) (enter n outs))" "Some m \<in> set (enter n outs) \<longleftrightarrow> m = n \<or> Some m \<in> set outs"
    by auto
qed

definition clear_at :: "nat \<Rightarrow> nat option list \<Rightarrow> nat option list" where
  "clear_at n outs = outs[index_of (\<lambda>x. x = Some n) outs := None]"

lemma clear_cases:
  assumes "Some n \<in> set outs"
  obtains a b where "outs = a @ Some n # b" "clear_at n outs = a @ None # b"
proof -
  define j where "j = index_of (\<lambda>x. x = Some n) outs"
  have j: "j < length outs" using assms by (auto simp: j_def index_of_less_iff)
  have "outs = take j outs @ Some n # drop (Suc j) outs"
    using index_of_hit [of "\<lambda>x. x = Some n" outs] id_take_nth_drop [OF j] j by (simp add: j_def)
  moreover have "clear_at n outs = take j outs @ None # drop (Suc j) outs"
    using j by (simp add: clear_at_def j_def [symmetric] upd_conv_take_nth_drop)
  ultimately show ?thesis by (rule that)
qed

lemma clear_spec:
  assumes "distinct (filter (\<lambda>x. x \<noteq> None) outs)" and "Some n \<in> set outs"
  shows "distinct (filter (\<lambda>x. x \<noteq> None) (clear_at n outs))" and "Some m \<in> set (clear_at n outs) \<longleftrightarrow> m \<noteq> n \<and> Some m \<in> set outs"
proof -
  from assms(2) obtain a b where eq: "outs = a @ Some n # b" "clear_at n outs = a @ None # b" by (rule clear_cases)
  then show "distinct (filter (\<lambda>x. x \<noteq> None) (clear_at n outs))" using assms(1) by simp
  show "Some m \<in> set (clear_at n outs) \<longleftrightarrow> m \<noteq> n \<and> Some m \<in> set outs"
    unfolding eq(2) using assms(1) by (auto simp: eq(1))
qed

lemma StartPID_eq:
  assumes "pid < MAX_PIDS"
  shows "StartPID n pid s = (if Some n \<in> set (pid_outputs (p_pids s pid)) then Some s
    else SetPID pid (upd_pid pid (\<lambda>p. p\<lparr>pid_outputs := enter n (pid_outputs p)\<rparr>) s))"
proof -
  have "upd_pid pid (\<lambda>p. p\<lparr>pid_outputs := enter n (pid_outputs (p_pids s pid))\<rparr>) s =
      upd_pid pid (\<lambda>p. p\<lparr>pid_outputs := enter n (pid_outputs p)\<rparr>) s" by (simp add: upd_pid_def)
  then show ?thesis
    using assms index_of_eq_length_iff [of "\<lambda>x. x = Some n" "pid_outputs (p_pids s pid)"]
    by (auto simp: StartPID_def get_pid_less enter_def Let_def)
qed

lemma StopPID_eq:
  assumes "pid < MAX_PIDS"
  shows "StopPID n pid s = (if Some n \<in> set (pid_outputs (p_pids s pid))
    then UnsetPID pid (upd_pid pid (\<lambda>p. p\<lparr>pid_outputs := clear_at n (pid_outputs p)\<rparr>) s) else Some s)"
proof -
  let ?j = "index_of (\<lambda>x. x = Some n) (pid_outputs (p_pids s pid))"
  have "upd_pid pid (\<lambda>p. p\<lparr>pid_outputs := (pid_outputs p)[?j := None]\<rparr>) s =
      upd_pid pid (\<lambda>p. p\<lparr>pid_outputs := clear_at n (pid_outputs p)\<rparr>) s" by (simp add: upd_pid_def clear_at_def)
  then show ?thesis
    using assms index_of_eq_length_iff [of "\<lambda>x. x = Some n" "pid_outputs (p_pids s pid)"]
    by (auto simp: StopPID_def get_pid_less Let_def)
qed

lemma pids_invD: "pids_inv ext s \<Longrightarrow> pid < MAX_PIDS \<Longrightarrow> pid_ok (b_budget_mode s) (ext pid) (p_pids s pid)"
  by (simp add: pids_inv_def)

lemma members_step:
  assumes "pid < MAX_PIDS" and "\<forall>q. q \<noteq> pid \<longrightarrow> p_pids s' q = p_pids s q"
  shows "pid_members s' = pid_members s - (\<lambda>n. (n, pid)) ` joined (p_pids s pid) \<union> (\<lambda>n. (n, pid)) ` joined (p_pids s' pid)"
proof (rule set_eqI)
  fix x :: "nat \<times> nat"
  obtain n q where x: "x = (n, q)" by (cases x)
  show "x \<in> pid_members s' \<longleftrightarrow> x \<in> pid_members s - (\<lambda>n. (n, pid)) ` joined (p_pids s pid) \<union> (\<lambda>n. (n, pid)) ` joined (p_pids s' pid)"
    using assms x by (cases "q = pid") (auto simp: pid_members_def)
qed

lemma StartPID_spec:
  assumes "pids_inv ext s" and "pid < MAX_PIDS"
  shows "\<exists>s'. StartPID n pid s = Some s' \<and> pids_inv ext s' \<and> pid_members s' = insert (n, pid) (pid_members s)
    \<and> pp_outputs s' = pp_outputs s \<and> pp_sids s' = pp_sids s"
proof (cases "Some n \<in> set (pid_outputs (p_pids s pid))")
  case True
  then show ?thesis using assms by (auto simp: StartPID_eq pid_members_def joined_def)
next
  case False
  let ?p = "p_pids s pid"
  let ?s1 = "upd_pid pid (\<lambda>p. p\<lparr>pid_outputs := enter n (pid_outputs p)\<rparr>) s"
  note ok = pids_invD [OF assms]
  note E = enter_spec [OF _ False]
  have d: "distinct (filter (\<lambda>x. x \<noteq> None) (pid_outputs ?p))" using ok by (simp add: pid_ok_def)
  have j: "{m. Some m \<in> set (enter n (pid_outputs ?p))} = insert n (joined ?p)" using E(2) [OF d] by (auto simp: joined_def)
  have nj: "n \<notin> joined ?p" using False by (simp add: joined_def)
  have ret: "\<forall>k. sys_ret s k \<noteq> -1" using assms(1) by (simp add: pids_inv_def)
  from SetPID_spec [of pid ?s1] ok ret assms(2) obtain s' fd where
    S: "SetPID pid ?s1 = Some s'" "sys_ret s' = sys_ret s" "b_budget_mode s' = b_budget_mode s"
      "pp_outputs s' = pp_outputs s" "pp_sids s' = pp_sids s" "\<forall>q. q \<noteq> pid \<longrightarrow> p_pids s' q = p_pids s q"
      "p_pids s' pid = ?p\<lparr>pid_outputs := enter n (pid_outputs ?p), i_refcount := i_refcount ?p + 1, i_pid_fd := fd\<rparr>"
      "\<not> b_budget_mode s \<longrightarrow> fd \<noteq> -1"
    by (auto simp: pid_ok_def)
  have j': "joined (p_pids s' pid) = insert n (joined ?p)" unfolding S(7) joined_def using j by (simp add: joined_def)
  have "pid_ok (b_budget_mode s) (ext pid) (p_pids s' pid)"
    using ok S(7,8) E(1) [OF d] j' nj by (simp add: pid_ok_def)
  then have "pids_inv ext s'" using assms(1) S(2,3,6) by (auto simp: pids_inv_def)
  moreover have "pid_members s' = insert (n, pid) (pid_members s)"
    unfolding members_step [OF assms(2) S(6)] j' using assms(2) by (auto simp: pid_members_def)
  ultimately show ?thesis using S(1,4,5) assms(2) False by (auto simp: StartPID_eq)
qed

lemma StopPID_spec:
  assumes "pids_inv ext s" and "pid < MAX_PIDS"
  shows "\<exists>s'. StopPID n pid s = Some s' \<and> pids_inv ext s' \<and> pid_members s' = pid_members s - {(n, pid)}
    \<and> pp_outputs s' = pp_outputs s \<and> pp_sids s' = pp_sids s"
proof (cases "Some n \<in> set (pid_outputs (p_pids s pid))")
  case False
  then show ?thesis using assms by (auto simp: StopPID_eq pid_members_def joined_def)
next
  case True
  let ?p = "p_pids s pid"
  let ?s1 = "upd_pid pid (\<lambda>p. p\<lparr>pid_outputs := clear_at n (pid_outputs p)\<rparr>) s"
  note ok = pids_invD [OF assms]
  have d: "distinct (filter (\<lambda>x. x \<noteq> None) (pid_outputs ?p))" using ok by (simp add: pid_ok_def)
  note E = clear_spec [OF d True]
  have j: "{m. Some m \<in> set (clear_at n (pid_outputs ?p))} = joined ?p - {n}" using E(2) by (auto simp: joined_def)
  have nj: "n \<in> joined ?p" using True by (simp add: joined_def)
  then have c: "card (joined ?p) = Suc (card (joined ?p - {n}))" using card.remove [of "joined ?p" n] by simp
  have pos: "0 < i_refcount ?p" using ok c by (simp add: pid_ok_def)
  from UnsetPID_spec [of pid ?s1] ok pos assms(2) obtain s' fd emm where
    S: "UnsetPID pid ?s1 = Some s'" "sys_ret s' = sys_ret s" "b_budget_mode s' = b_budget_mode s"
      "pp_outputs s' = pp_outputs s" "pp_sids s' = pp_sids s" "\<forall>q. q \<noteq> pid \<longrightarrow> p_pids s' q = p_pids s q"
      "p_pids s' pid = ?p\<lparr>pid_outputs := clear_at n (pid_outputs ?p), i_refcount := i_refcount ?p - 1, i_pid_fd := fd, b_emm := emm\<rparr>"
      "\<not> b_budget_mode s \<longrightarrow> (fd \<noteq> -1 \<longleftrightarrow> i_refcount ?p - 1 \<noteq> 0)"
    by (auto simp: pid_ok_def)
  have j': "joined (p_pids s' pid) = joined ?p - {n}" unfolding S(7) joined_def using j by (simp add: joined_def)
  have "pid_ok (b_budget_mode s) (ext pid) (p_pids s' pid)"
    using ok S(7,8) E(1) j' c by (simp add: pid_ok_def)
  then have "pids_inv ext s'" using assms(1) S(2,3,6) by (auto simp: pids_inv_def)
  moreover have "pid_members s' = pid_members s - {(n, pid)}"
    unfolding members_step [OF assms(2) S(6)] j' using assms(2) by (auto simp: pid_members_def)
  ultimately show ?thesis using S(1,4,5) assms(2) True by (auto simp: StopPID_eq)
qed

interpretation pid_filters: membership "pids_inv ext" pid_members "\<lambda>x. snd x < MAX_PIDS"
    "\<lambda>x. StartPID (fst x) (snd x)" "\<lambda>x. StopPID (fst x) (snd x)" for ext
proof
  fix s :: "'a dvbdemux_scheme" and x :: "nat \<times> nat" assume a: "pids_inv ext s" "snd x < MAX_PIDS"
  show "\<exists>s'. StartPID (fst x) (snd x) s = Some s' \<and> pids_inv ext s' \<and> pid_members s' = insert x (pid_members s)"
    using StartPID_spec [OF a, of "fst x"] by auto
  show "\<exists>s'. StopPID (fst x) (snd x) s = Some s' \<and> pids_inv ext s' \<and> pid_members s' = pid_members s - {x}"
    using StopPID_spec [OF a, of "fst x"] by auto
qed

subsection \<open>What the CAM code leaves alone\<close>

text \<open>The demultiplexer's side of the state, as far as the selection of PIDs goes, and the settings
  that the configuration of an output starts from.\<close>

definition conf_globals where
  "conf_globals s = (b_udp_global s, b_dvb_global s, b_epg_global s, i_retention_global s, i_latency_global s,
     i_ttl_global s, pi_ssrc_global s, gl_network_name s, gl_provider_name s, i_network_id s,
     psz_dvb_charset s, native_charset s, sys_ret s)"

definition demux_view where
  "demux_view s = (p_pids s, pp_outputs s, pp_sids s, (b_budget_mode s, b_select_pmts s, b_enable_ecm s, b_any_type s, sys_ret s),
     conf_globals s)"

lemmas demux_view_defs = demux_view_def conf_globals_def

lemma view_call [simp]: "demux_view (snd (sys_call c s)) = demux_view (s :: 'a dvbdemux_scheme)"
  by (simp add: demux_view_defs sys_call_def Let_def)

lemma view_call': "sys_call c s = (r, s') \<Longrightarrow> demux_view s' = demux_view (s :: 'a dvbdemux_scheme)"
  using view_call [of c s] by simp

lemma view_upd_slot [simp]: "demux_view (upd_slot i f s) = demux_view (s :: 'a dvbdemux_scheme)"
  by (simp add: demux_view_defs upd_slot_def)

lemma view_upd_sess [simp]: "demux_view (upd_sess i f s) = demux_view (s :: 'a dvbdemux_scheme)"
  by (simp add: demux_view_defs upd_sess_def)

lemma view_TPDUWrite: "TPDUWrite i s = Some (rc, s') \<Longrightarrow> demux_view s' = demux_view (s :: 'a dvbdemux_scheme)"
proof -
  assume a: "TPDUWrite i s = Some (rc, s')"
  then obtain sl where sl: "get_slot i s = Some sl" by (cases "get_slot i s") (simp_all add: TPDUWrite_def)
  show ?thesis
  proof (cases "sl_send sl")
    case Nil
    then show ?thesis using a sl by (simp add: TPDUWrite_def)
  next
    case (Cons m q)
    define s1 where "s1 = upd_slot i (\<lambda>sl. sl\<lparr>sl_send := q\<rparr>) s"
    obtain n s2 where c: "sys_call (SysCaWrite m) s1 = (n, s2)" by (cases "sys_call (SysCaWrite m) s1")
    have "demux_view s2 = demux_view s" using view_call' [OF c] by (simp add: s1_def)
    then show ?thesis using a sl Cons c by (auto simp: TPDUWrite_def s1_def [symmetric] split: if_splits)
  qed
qed

lemma view_TPDUSend: "TPDUSend i tag c s = Some (rc, s') \<Longrightarrow> demux_view s' = demux_view (s :: 'a dvbdemux_scheme)"
  by (auto simp: TPDUSend_def Let_def bind_eq_Some_conv split: if_splits dest: view_TPDUWrite)

lemma view_spdu_loop: "spdu_send_loop i p s = Some (rc, s') \<Longrightarrow> demux_view s' = demux_view (s :: 'a dvbdemux_scheme)"
proof (induction i p s rule: spdu_send_loop.induct)
  case (1 i p s)
  show ?case
  proof (cases "p = []")
    case True
    then show ?thesis using "1.prems" by (simp add: spdu_send_loop.simps)
  next
    case ne: False
    show ?thesis
    proof (cases "MAX_TPDU_DATA < length p")
      case long: True
      then obtain r s1 where T: "TPDUSend i T_DATA_MORE (take MAX_TPDU_DATA p) s = Some (r, s1)"
        using "1.prems" ne by (subst (asm) spdu_send_loop.simps) (auto split: option.splits)
      show ?thesis
      proof (cases "r = 0")
        case True
        then have "spdu_send_loop i (drop MAX_TPDU_DATA p) s1 = Some (rc, s')"
          using "1.prems" ne long T by (subst (asm) spdu_send_loop.simps) simp
        then show ?thesis using "1.IH" [OF ne long T refl] True view_TPDUSend [OF T] by simp
      next
        case False
        then show ?thesis using "1.prems" ne long T view_TPDUSend [OF T] by (subst (asm) spdu_send_loop.simps) simp
      qed
    next
      case False
      then obtain r s1 where T: "TPDUSend i T_DATA_LAST p s = Some (r, s1)"
        using "1.prems" ne by (subst (asm) spdu_send_loop.simps) (auto split: option.splits)
      then show ?thesis using "1.prems" ne False view_TPDUSend [OF T]
        by (subst (asm) spdu_send_loop.simps) (simp split: if_splits)
    qed
  qed
qed

lemma view_APDUSend: "APDUSend sid tag p s = Some (rc, s') \<Longrightarrow> demux_view s' = demux_view (s :: 'a dvbdemux_scheme)"
  by (auto simp: APDUSend_def SPDUSend_def Let_def bind_eq_Some_conv split: if_splits prod.splits
      dest: view_spdu_loop view_call')

lemma view_CAPMTSend: "CAPMTSend B sel sid pmt l c s = Some s' \<Longrightarrow> demux_view s' = demux_view (s :: 'a dvbdemux_scheme)"
  by (auto simp: CAPMTSend_def bind_eq_Some_conv split: option.splits if_splits dest: view_APDUSend)

lemma view_upd_programs: "upd_programs sid f s = Some s' \<Longrightarrow> demux_view s' = demux_view (s :: 'a dvbdemux_scheme)"
  by (auto simp: upd_programs_def bind_eq_Some_conv)

lemma view_for_ca:
  assumes "\<And>sid (s :: 'a dvbdemux_scheme) s'. f sid s = Some s' \<Longrightarrow> demux_view s' = demux_view s"
    and "for_ca_sessions f s = Some s'"
  shows "demux_view s' = demux_view s"
  using assms(2) unfolding for_ca_sessions_def
  by (rule ofold_frame [where g = demux_view, rotated]) (auto split: if_splits dest: assms(1))

lemma view_AddPMT: "en50221_AddPMT B sel pmt s = Some s' \<Longrightarrow> demux_view s' = demux_view (s :: 'a dvbdemux_scheme)"
  unfolding en50221_AddPMT_def
  by (rule view_for_ca [rotated], assumption)
     (auto simp: CAPMTAdd_def CAPMTFirst_def bind_eq_Some_conv split: if_splits dest!: view_CAPMTSend view_upd_programs)

lemma view_UpdatePMT: "en50221_UpdatePMT B sel pmt s = Some s' \<Longrightarrow> demux_view s' = demux_view (s :: 'a dvbdemux_scheme)"
  unfolding en50221_UpdatePMT_def by (rule view_for_ca [rotated], assumption) (auto simp: CAPMTUpdate_def dest!: view_CAPMTSend)

lemma view_DeletePMT: "en50221_DeletePMT B sel pmt s = Some s' \<Longrightarrow> demux_view s' = demux_view (s :: 'a dvbdemux_scheme)"
  unfolding en50221_DeletePMT_def
  by (rule view_for_ca [rotated], assumption) (auto simp: CAPMTDelete_def bind_eq_Some_conv dest!: view_CAPMTSend view_upd_programs)

lemma view_when_ca:
  assumes "\<And>x (s :: 'a dvbdemux_scheme) s'. f x s = Some s' \<Longrightarrow> demux_view s' = demux_view s"
    and "when_ca B pmt f s = Some s'"
  shows "demux_view s' = demux_view s"
  using assms by (auto simp: when_ca_def bind_eq_Some_conv split: option.splits if_splits)

lemma view_update_ca: "update_ca B sid s = Some s' \<Longrightarrow> demux_view s' = demux_view (s :: 'a dvbdemux_scheme)"
  by (auto simp: update_ca_def split: if_splits elim!: view_when_ca [rotated] dest: view_UpdatePMT)

lemma view_pids_inv:
  assumes "demux_view s' = demux_view s"
  shows "pids_inv ext s' = pids_inv ext s" and "pid_members s' = pid_members s" and "pp_outputs s' = pp_outputs s"
  using assms by (simp_all add: demux_view_defs pids_inv_def pid_members_def)

subsection \<open>Membership without the counts\<close>

text \<open>Setting and unsetting filters never changes which outputs a PID has.\<close>

definition lists_ok :: "'a dvbdemux_scheme \<Rightarrow> bool" where
  "lists_ok s \<longleftrightarrow> (\<forall>pid<MAX_PIDS. distinct (filter (\<lambda>x. x \<noteq> None) (pid_outputs (p_pids s pid))))"

definition sel_view where
  "sel_view s = ((\<lambda>q. pid_outputs (p_pids s q)), pp_outputs s, pp_sids s,
     (i_ca_handle s, b_enable_ecm s, b_any_type s, b_select_pmts s))"

lemma sel_view_inv:
  assumes "sel_view s' = sel_view (s :: 'a dvbdemux_scheme)"
  shows "lists_ok s' = lists_ok s" "pid_members s' = pid_members s" "pp_outputs s' = pp_outputs s"
    "pp_sids s' = pp_sids s" "i_ca_handle s' = i_ca_handle s"
proof -
  have o: "pid_outputs (p_pids s' q) = pid_outputs (p_pids s q)" for q using assms by (simp add: sel_view_def fun_eq_iff)
  show "lists_ok s' = lists_ok s" by (simp add: lists_ok_def o)
  show "pid_members s' = pid_members s" by (simp add: pid_members_def joined_def o)
  show "pp_outputs s' = pp_outputs s" "pp_sids s' = pp_sids s" "i_ca_handle s' = i_ca_handle s"
    using assms by (simp_all add: sel_view_def)
qed

lemma sel_view_upd: "(\<And>p. pid_outputs (f p) = pid_outputs p) \<Longrightarrow> sel_view (upd_pid pid f s) = sel_view s"
  by (simp add: sel_view_def upd_pid_def fun_eq_iff)

lemma sel_view_call: "sel_view (snd (sys_call c s)) = sel_view (s :: 'a dvbdemux_scheme)"
  by (simp add: sel_view_def sys_call_def Let_def)

lemma SetPID_view: "pid < MAX_PIDS \<Longrightarrow> \<exists>s'. SetPID pid s = Some s' \<and> sel_view s' = sel_view s"
  using sel_view_call [of "DevSetFilter pid" "upd_pid pid (\<lambda>p. p\<lparr>i_refcount := i_refcount p + 1\<rparr>) s"]
  by (cases "sys_call (DevSetFilter pid) (upd_pid pid (\<lambda>p. p\<lparr>i_refcount := i_refcount p + 1\<rparr>) s)")
    (simp add: SetPID_def get_pid_less Let_def sel_view_upd)

lemma UnsetPID_view: "pid < MAX_PIDS \<Longrightarrow> \<exists>s'. UnsetPID pid s = Some s' \<and> sel_view s' = sel_view s"
  by (simp add: UnsetPID_def get_pid_less Let_def sel_view_upd sel_view_call)

lemma StartPID_members:
  assumes "lists_ok s" and "pid < MAX_PIDS"
  shows "\<exists>s'. StartPID n pid s = Some s' \<and> lists_ok s' \<and> pid_members s' = insert (n, pid) (pid_members s)
    \<and> pp_outputs s' = pp_outputs s \<and> pp_sids s' = pp_sids s \<and> i_ca_handle s' = i_ca_handle s"
proof (cases "Some n \<in> set (pid_outputs (p_pids s pid))")
  case True
  then show ?thesis using assms by (auto simp: StartPID_eq pid_members_def joined_def)
next
  case False
  let ?s1 = "upd_pid pid (\<lambda>p. p\<lparr>pid_outputs := enter n (pid_outputs p)\<rparr>) s"
  have d: "distinct (filter (\<lambda>x. x \<noteq> None) (pid_outputs (p_pids s pid)))" using assms by (simp add: lists_ok_def)
  note E = enter_spec [OF d False]
  from SetPID_view [OF assms(2), of ?s1] obtain s' where S: "SetPID pid ?s1 = Some s'" "sel_view s' = sel_view ?s1" by blast
  note V = sel_view_inv [OF S(2)]
  have "lists_ok ?s1" using assms(1) E(1) by (simp add: lists_ok_def)
  moreover have "pid_members ?s1 = insert (n, pid) (pid_members s)"
    using assms(2) E(2) by (auto simp: pid_members_def joined_def)
  moreover have "i_ca_handle ?s1 = i_ca_handle s" by (simp add: upd_pid_def)
  ultimately show ?thesis using S(1) V assms(2) False by (auto simp: StartPID_eq)
qed

lemma StopPID_members:
  assumes "lists_ok s" and "pid < MAX_PIDS"
  shows "\<exists>s'. StopPID n pid s = Some s' \<and> lists_ok s' \<and> pid_members s' = pid_members s - {(n, pid)}
    \<and> pp_outputs s' = pp_outputs s \<and> pp_sids s' = pp_sids s \<and> i_ca_handle s' = i_ca_handle s"
proof (cases "Some n \<in> set (pid_outputs (p_pids s pid))")
  case False
  then show ?thesis using assms by (auto simp: StopPID_eq pid_members_def joined_def)
next
  case True
  let ?s1 = "upd_pid pid (\<lambda>p. p\<lparr>pid_outputs := clear_at n (pid_outputs p)\<rparr>) s"
  have d: "distinct (filter (\<lambda>x. x \<noteq> None) (pid_outputs (p_pids s pid)))" using assms by (simp add: lists_ok_def)
  note E = clear_spec [OF d True]
  from UnsetPID_view [OF assms(2), of ?s1] obtain s' where S: "UnsetPID pid ?s1 = Some s'" "sel_view s' = sel_view ?s1" by blast
  note V = sel_view_inv [OF S(2)]
  have "lists_ok ?s1" using assms(1) E(1) by (simp add: lists_ok_def)
  moreover have "pid_members ?s1 = pid_members s - {(n, pid)}"
    using assms(2) E(2) by (auto simp: pid_members_def joined_def)
  moreover have "i_ca_handle ?s1 = i_ca_handle s" by (simp add: upd_pid_def)
  ultimately show ?thesis using S(1) V assms(2) True by (auto simp: StopPID_eq)
qed

text \<open>With everything that must stay as it is in the invariant, the same contract holds.\<close>

definition sel_inv where
  "sel_inv os sids ca s \<longleftrightarrow> lists_ok s \<and> pp_outputs s = os \<and> pp_sids s = sids \<and> i_ca_handle s = ca"

interpretation pid_sets: membership "sel_inv os sids ca" pid_members "\<lambda>x. snd x < MAX_PIDS"
    "\<lambda>x. StartPID (fst x) (snd x)" "\<lambda>x. StopPID (fst x) (snd x)" for os sids ca
proof
  fix s :: "'a dvbdemux_scheme" and x :: "nat \<times> nat" assume a: "sel_inv os sids ca s" "snd x < MAX_PIDS"
  show "\<exists>s'. StartPID (fst x) (snd x) s = Some s' \<and> sel_inv os sids ca s' \<and> pid_members s' = insert x (pid_members s)"
    using StartPID_members [OF _ a(2), of s "fst x"] a(1) by (auto simp: sel_inv_def)
  show "\<exists>s'. StopPID (fst x) (snd x) s = Some s' \<and> sel_inv os sids ca s' \<and> pid_members s' = pid_members s - {x}"
    using StopPID_members [OF _ a(2), of s "fst x"] a(1) by (auto simp: sel_inv_def)
qed

subsection \<open>Selecting program maps\<close>

lemma for_outputs_view:
  assumes "\<And>i (s :: 'a dvbdemux_scheme). \<exists>s'. f i s = Some s' \<and> sel_view s' = sel_view s"
  shows "\<exists>s'. for_outputs f s = Some s' \<and> sel_view s' = sel_view s"
  unfolding for_outputs_def by (rule ofold_total [where P = "\<lambda>t. sel_view t = sel_view s"]) (use assms in auto, metis)

lemma SelectPMT_view:
  assumes "pid < MAX_PIDS"
  shows "\<exists>s'. SelectPMT sid pid s = Some s' \<and> sel_view s' = sel_view (s :: 'a dvbdemux_scheme)"
proof -
  let ?s1 = "upd_pid pid (\<lambda>p. p\<lparr>i_psi_refcount := i_psi_refcount p + 1, b_pes := False\<rparr>) s"
  have v: "sel_view ?s1 = sel_view s" by (rule sel_view_upd) simp
  show ?thesis
  proof (cases "b_select_pmts s")
    case True
    then show ?thesis using SetPID_view [OF assms, of ?s1] v assms by (simp add: SelectPMT_def get_pid_less Let_def)
  next
    case False
    have "\<exists>s'. for_outputs (\<lambda>i s. if on_sid sid (pp_outputs s ! i) then SetPID pid s else Some s) ?s1 = Some s' \<and> sel_view s' = sel_view ?s1"
      by (rule for_outputs_view) (use SetPID_view [OF assms] in auto)
    then show ?thesis using False v assms by (simp add: SelectPMT_def get_pid_less Let_def)
  qed
qed

lemma UnselectPMT_view:
  assumes "pid < MAX_PIDS"
  shows "\<exists>s'. UnselectPMT B sid pid s = Some s' \<and> sel_view s' = sel_view (s :: 'a dvbdemux_scheme)"
proof -
  let ?s0 = "upd_pid pid (\<lambda>p. p\<lparr>i_psi_refcount := i_psi_refcount p - 1\<rparr>) s"
  define s1 where "s1 = (if i_psi_refcount (p_pids ?s0 pid) = 0
    then upd_pid pid (\<lambda>p. p\<lparr>psi_buffer := psi_assemble_reset B (psi_buffer p)\<rparr>) ?s0 else ?s0)"
  have v: "sel_view s1 = sel_view s" by (simp add: s1_def sel_view_upd)
  have b: "b_select_pmts s1 = b_select_pmts s" by (simp add: s1_def)
  have "UnselectPMT B sid pid s = (if b_select_pmts s1 then UnsetPID pid s1
     else for_outputs (\<lambda>i s. if on_sid sid (pp_outputs s ! i) then UnsetPID pid s else Some s) s1)"
    using assms by (simp add: UnselectPMT_def get_pid_less Let_def s1_def)
  moreover have "\<exists>s'. for_outputs (\<lambda>i s. if on_sid sid (pp_outputs s ! i) then UnsetPID pid s else Some s) s1 = Some s' \<and> sel_view s' = sel_view s1"
    by (rule for_outputs_view) (use UnsetPID_view [OF assms] in auto)
  ultimately show ?thesis using UnsetPID_view [OF assms, of s1] v by auto
qed

end
