(* ===== verification/Dvb_DemuxClaims.thy ===== *)
theory Dvb_DemuxClaims
  imports Dvb_DemuxProps Dvb_CiClaims
begin

unbundle bit_operations_syntax

text \<open>
  The properties of the demultiplexer's selection of PIDs, its time stamps, remapping and tables.
  \<open>ex_demux\<close> is a demultiplexer with two outputs, no CAM and nothing received yet.
\<close>

subsection \<open>A concrete demultiplexer\<close>

definition no_table :: psi_table where
  "no_table = (\<lambda>_. None)"

definition ex_demux :: "sid_entry list \<Rightarrow> dvbdemux" where
  "ex_demux sids = dvben.extend ((ex_ci 0)\<lparr>pp_outputs := [ex_output [], ex_output []]\<rparr>)
     (dvbdemux.fields no_table no_table no_table no_table no_table no_table no_table no_table
        0 0 0 0 0 0 0 0 0 0 False False 0 False False False [0, 0, 0, 0] (\<lambda>_. init_pid ex_psi) sids 0 False False)"

lemma ex_demux_simps [simp]:
  "pp_outputs (ex_demux e) = [ex_output [], ex_output []]" "p_pids (ex_demux e) = (\<lambda>_. init_pid ex_psi)"
  "pp_sids (ex_demux e) = e" "b_budget_mode (ex_demux e) = False" "i_ca_handle (ex_demux e) = 0"
  "b_enable_ecm (ex_demux e) = False" "b_any_type (ex_demux e) = False" "b_select_pmts (ex_demux e) = False"
  "sys_ret (ex_demux e) = (\<lambda>n. 0)" "current_pat (ex_demux e) = no_table" "next_pat (ex_demux e) = no_table"
  "current_cat (ex_demux e) = no_table" "next_cat (ex_demux e) = no_table"
  "g_newpids (ex_demux e) = [0, 0, 0, 0]" "b_do_remap (ex_demux e) = False"
  by (simp_all add: ex_demux_def ex_ci_defs dvben.defs dvbdemux.defs fun_eq_iff)

lemma init_pid_simps [simp]: "pid_outputs (init_pid B) = []" "i_refcount (init_pid B) = 0" "i_pid_fd (init_pid B) = -1"
  by (simp_all add: init_pid_def)

lemma ex_demux_inv: "pids_inv (\<lambda>_. 0) (ex_demux e)" "lists_ok (ex_demux e)" "pid_members (ex_demux e) = {}"
  by (simp_all add: pids_inv_def pid_ok_def joined_def lists_ok_def pid_members_def)

subsection \<open>PID filters\<close>

datatype pid_op = Join nat nat | Leave nat nat

fun op_pid :: "pid_op \<Rightarrow> nat" where
  "op_pid (Join n pid) = pid"
| "op_pid (Leave n pid) = pid"

fun pid_step :: "pid_op \<Rightarrow> 'a dvbdemux_scheme \<Rightarrow> 'a dvbdemux_scheme option" where
  "pid_step (Join n pid) s = StartPID n pid s"
| "pid_step (Leave n pid) s = StopPID n pid s"

fun spec_step :: "pid_op \<Rightarrow> (nat \<times> nat) set \<Rightarrow> (nat \<times> nat) set" where
  "spec_step (Join n pid) M = insert (n, pid) M"
| "spec_step (Leave n pid) M = M - {(n, pid)}"

lemma pid_step_spec:
  assumes "pids_inv ext s" and "op_pid a < MAX_PIDS"
  shows "\<exists>s'. pid_step a s = Some s' \<and> pids_inv ext s' \<and> pid_members s' = spec_step a (pid_members s)"
proof (cases a)
  case (Join n pid)
  then show ?thesis using pid_filters.join_adds [OF assms(1), of "(n, pid)"] assms(2) by simp
next
  case (Leave n pid)
  then show ?thesis using pid_filters.leave_removes [OF assms(1), of "(n, pid)"] assms(2) by simp
qed

lemma pid_run_spec:
  assumes "pids_inv ext s" and "\<forall>a\<in>set as. op_pid a < MAX_PIDS"
  shows "\<exists>s'. ofold pid_step as s = Some s' \<and> pids_inv ext s' \<and> pid_members s' = fold spec_step as (pid_members s)"
  using assms
proof (induction as arbitrary: s)
  case (Cons a as)
  then obtain s1 where 1: "pid_step a s = Some s1" "pids_inv ext s1" "pid_members s1 = spec_step a (pid_members s)"
    using pid_step_spec [of ext s a] by auto
  from Cons.IH [OF 1(2)] Cons.prems(2) 1 show ?case by auto
qed simp



subsection \<open>A change of the wanted PIDs\<close>

lemma IsIn_set [simp]: "IsIn pids pid \<longleftrightarrow> pid \<in> set pids"
  using index_of_eq_length_iff [of "\<lambda>p. pid = p" pids] by (auto simp: IsIn_def)

lemma moved_pids_filter: "moved_pids xs ys = filter (\<lambda>x. x \<notin> set ys) xs"
  by (simp add: moved_pids_def)

lemma no_ca_update: "i_ca_handle s = 0 \<Longrightarrow> update_ca B sid s = Some s"
  by (simp add: update_ca_def)

lemma upd_out_view:
  "i_ca_handle (upd_out (Nth n) f s) = i_ca_handle s" "pp_sids (upd_out (Nth n) f s) = pp_sids s"
  "lists_ok (upd_out (Nth n) f s) = lists_ok s" "pid_members (upd_out (Nth n) f s) = pid_members s"
  "pp_outputs (upd_out (Nth n) f s) = (pp_outputs s)[n := f (pp_outputs s ! n)]"
  by (simp_all add: lists_ok_def pid_members_def)

lemma FindSID_less: "FindSID sid s = Some i \<Longrightarrow> i < length (pp_sids s)"
  using index_of_le [of "\<lambda>e. sid_sid e = sid" "pp_sids s"] by (auto simp: FindSID_def Let_def split: if_splits)

lemma leave_program_view:
  assumes "i_ca_handle s = 0" and "\<forall>e\<in>set (pp_sids s). sid_pmt_pid e < MAX_PIDS"
  shows "\<exists>s'. leave_program B n old sid s = Some s' \<and> sel_view s' = sel_view (upd_out (Nth n) (set_cfg_sid sid) s)"
proof -
  let ?s = "upd_out (Nth n) (set_cfg_sid sid) s"
  show ?thesis
  proof (cases "FindSID old ?s")
    case None
    then show ?thesis by (simp only: leave_program_def Let_def option.case) blast
  next
    case (Some i)
    have "sid_pmt_pid (pp_sids ?s ! i) < MAX_PIDS" using FindSID_less [OF Some] assms(2) by (simp add: upd_out_view)
    from UnselectPMT_view [OF this, of B old ?s] obtain s1 where
      1: "UnselectPMT B old (sid_pmt_pid (pp_sids ?s ! i)) ?s = Some s1" "sel_view s1 = sel_view ?s" by blast
    have "i_ca_handle s1 = 0" using sel_view_inv(5) [OF 1(2)] assms(1) by (simp only: upd_out_view)
    then have "leave_program B n old sid s = Some s1"
      using Some 1(1) by (simp only: leave_program_def Let_def option.case bind.bind_lunit) simp
    then show ?thesis using 1(2) by blast
  qed
qed

lemma join_program_view:
  assumes "i_ca_handle s = 0" and "\<forall>e\<in>set (pp_sids s). sid_pmt_pid e < MAX_PIDS"
  shows "\<exists>s'. join_program B n old sid s = Some s' \<and> sel_view s' = sel_view (upd_out (Nth n) (set_cfg_sid old) s)"
proof -
  let ?s = "upd_out (Nth n) (set_cfg_sid old) s"
  show ?thesis
  proof (cases "FindSID sid ?s")
    case None
    then show ?thesis by (simp only: join_program_def Let_def option.case) blast
  next
    case (Some i)
    have "sid_pmt_pid (pp_sids ?s ! i) < MAX_PIDS" using FindSID_less [OF Some] assms(2) by (simp add: upd_out_view)
    from SelectPMT_view [OF this, of sid ?s] obtain s1 where
      1: "SelectPMT sid (sid_pmt_pid (pp_sids ?s ! i)) ?s = Some s1" "sel_view s1 = sel_view ?s" by blast
    have "i_ca_handle s1 = 0" using sel_view_inv(5) [OF 1(2)] assms(1) by (simp only: upd_out_view)
    then have "join_program B n old sid s = Some s1"
      using Some 1(1) by (simp only: join_program_def Let_def option.case bind.bind_lunit) simp
    then show ?thesis using 1(2) by blast
  qed
qed

definition out_pids :: "nat \<Rightarrow> 'a dvbdemux_scheme \<Rightarrow> nat set" where
  "out_pids n s = {pid. (n, pid) \<in> pid_members s}"

lemma move_output:
  assumes "sel_inv os sids 0 s" and "\<forall>pid\<in>set old \<union> set new. pid < MAX_PIDS"
  shows "\<exists>s1 s'. ofold (StopPID n) (moved_pids old new) s = Some s1 \<and> sel_inv os sids 0 s1
    \<and> ofold (StartPID n) (moved_pids new old) s1 = Some s' \<and> sel_inv os sids 0 s'
    \<and> pid_members s' = pid_members s - Pair n ` (set old - set new) \<union> Pair n ` (set new - set old)"
proof -
  let ?o = "map (Pair n) old" and ?w = "map (Pair n) new"
  have f: "filter (\<lambda>x. x \<notin> set (map (Pair n) ys)) (map (Pair n) xs) = map (Pair n) (moved_pids xs ys)" for xs ys
    by (induction xs) (auto simp: moved_pids_filter)
  from pid_sets.leave_all [OF assms(1), of "map (Pair n) (moved_pids old new)"] assms(2) obtain s1 where
    1: "ofold (\<lambda>x. StopPID (fst x) (snd x)) (map (Pair n) (moved_pids old new)) s = Some s1" "sel_inv os sids 0 s1"
    by (auto simp: moved_pids_filter)
  from pid_sets.move [OF assms(1), of ?o ?w] assms(2) obtain s' where
    2: "ofold (\<lambda>x. StartPID (fst x) (snd x)) (map (Pair n) (moved_pids new old)) s1 = Some s'" "sel_inv os sids 0 s'"
      "pid_members s' = pid_members s - (set ?o - set ?w) \<union> (set ?w - set ?o)"
    using 1(1) unfolding f by fastforce
  have "set ?o - set ?w = Pair n ` (set old - set new)" "set ?w - set ?o = Pair n ` (set new - set old)" by auto
  then show ?thesis using 1 2 unfolding ofold_map by auto
qed

text \<open>Leaving a program and joining one change the outputs' settings and the filters of PMTs, not the PIDs outputs are given.\<close>

lemma leave_keeps_pids:
  assumes "lists_ok s" and "i_ca_handle s = 0" and "\<forall>e\<in>set (pp_sids s). sid_pmt_pid e < MAX_PIDS"
  shows "\<exists>s1. (if c \<and> old \<noteq> 0 then leave_program B n old nw s else Some s) = Some s1
    \<and> sel_inv (pp_outputs s1) (pp_sids s) 0 s1 \<and> pid_members s1 = pid_members s \<and> length (pp_outputs s1) = length (pp_outputs s)"
proof (cases "c \<and> old \<noteq> 0")
  case True
  from leave_program_view [OF assms(2,3), of B n old nw] obtain s1 where
    1: "leave_program B n old nw s = Some s1" "sel_view s1 = sel_view (upd_out (Nth n) (set_cfg_sid nw) s)" by blast
  have "sel_inv (pp_outputs s1) (pp_sids s) 0 s1 \<and> pid_members s1 = pid_members s \<and> length (pp_outputs s1) = length (pp_outputs s)"
    unfolding sel_inv_def sel_view_inv [OF 1(2)] upd_out_view using assms(1,2) by simp
  with 1(1) True show ?thesis by simp
next
  case False
  then show ?thesis using assms(1,2) by (auto simp: sel_inv_def)
qed

lemma join_keeps_pids:
  fixes pcr :: nat and s :: "'a dvbdemux_scheme"
  assumes "i_ca_handle s = 0" and "\<forall>e\<in>set (pp_sids s). sid_pmt_pid e < MAX_PIDS" and "n < length (pp_outputs s)"
  defines "t \<equiv> upd_out (Nth n) (\<lambda>p. p\<lparr>i_pcr_pid := pcr\<rparr>) s"
  shows "\<exists>u. (if c \<and> nw \<noteq> 0 then join_program B n old nw t else Some t) = Some u \<and> i_ca_handle u = 0
    \<and> pid_members u = pid_members s \<and> length (pp_outputs u) = length (pp_outputs s) \<and> i_pcr_pid (pp_outputs u ! n) = pcr"
proof (cases "c \<and> nw \<noteq> 0")
  case True
  have "i_ca_handle t = 0" "\<forall>e\<in>set (pp_sids t). sid_pmt_pid e < MAX_PIDS" using assms(1,2) by (simp_all only: t_def upd_out_view)
  from join_program_view [OF this, of B n old nw] obtain u where
    u: "join_program B n old nw t = Some u" "sel_view u = sel_view (upd_out (Nth n) (set_cfg_sid old) t)" by blast
  have "i_ca_handle u = 0 \<and> pid_members u = pid_members s \<and> length (pp_outputs u) = length (pp_outputs s) \<and> i_pcr_pid (pp_outputs u ! n) = pcr"
    unfolding sel_view_inv [OF u(2)] t_def upd_out_view using assms(1,3) by (simp add: set_cfg_sid_def)
  with u(1) True show ?thesis by simp
next
  case False
  have "i_ca_handle t = 0 \<and> pid_members t = pid_members s \<and> length (pp_outputs t) = length (pp_outputs s) \<and> i_pcr_pid (pp_outputs t ! n) = pcr"
    unfolding t_def upd_out_view using assms(1,3) by simp
  with False show ?thesis by (simp only: if_False) blast
qed



end
