(* ===== verification/Dvb_StreamClaims.thy ===== *)
theory Dvb_StreamClaims
  imports Dvb_DemuxClaims
begin

unbundle bit_operations_syntax

text \<open>
  The properties of the PIDs a program needs, of PID remapping, of the time stamps of a read and of
  the error watchdog.
\<close>

subsection \<open>The PIDs of a program\<close>

lemma GetPIDS_es_noecm:
  assumes "\<not> b_enable_ecm s" and "pids = [] \<longrightarrow> PIDWouldBeSelected B es s = Some w"
  shows "GetPIDS_es B pids s es acc = Some (if pids = [] \<and> w then acc @ [pmtn_get_pid B es] else acc)"
  using assms by (simp add: GetPIDS_es_def Let_def)

lemma GetPIDS_ess_noecm:
  assumes "\<not> b_enable_ecm s" and "\<forall>es\<in>set ess. pids = [] \<longrightarrow> PIDWouldBeSelected B es s = Some (w es)"
  shows "ofold (GetPIDS_es B pids s) ess acc = Some (acc @ (if pids = [] then map (pmtn_get_pid B) (filter w ess) else []))"
  using assms
proof (induction ess arbitrary: acc)
  case (Cons es ess)
  then show ?case using GetPIDS_es_noecm [of s pids B es "w es" acc] by auto
qed simp

text \<open>What an output asks for (\<open>GetPIDS\<close>, ECMs not passed on): the PIDs of its configuration if it has
  any, otherwise, in the order of the PMT, those of all streams of a type that is selected; and the
  PCR PID once more at the end, unless it is the padding PID, the PMT's own, or already there.\<close>

theorem GetPIDS_wanted:
  assumes "sid \<noteq> 0" and "FindSID sid s = Some i" and "p_current_pmt (pp_sids s ! i) = Some pmt"
    and "\<not> b_enable_ecm s" and "elements 256 (pmt_get_es B) pmt = Some ess"
    and "\<forall>es\<in>set ess. pids = [] \<longrightarrow> PIDWouldBeSelected B es s = Some (w es)"
  defines "base \<equiv> (if pids = [] then map (pmtn_get_pid B) (filter w ess) else pids)"
    and "pcr \<equiv> pmt_get_pcrpid B pmt"
  shows "GetPIDS B sid pids s =
    Some (if pcr \<in> {PADDING_PID, sid_pmt_pid (pp_sids s ! i)} \<union> set base then (base, 0) else (base @ [pcr], pcr))"
proof -
  have "ofold (GetPIDS_es B pids s) ess pids = Some base"
    using GetPIDS_ess_noecm [OF assms(4,6)] by (simp add: base_def)
  then have "GetPIDS_pmt B pids (sid_pmt_pid (pp_sids s ! i)) pmt s =
      Some (if pcr \<in> {PADDING_PID, sid_pmt_pid (pp_sids s ! i)} \<union> set base then (base, 0) else (base @ [pcr], pcr))"
    using assms(4,5) by (simp add: GetPIDS_pmt_def pcr_def [symmetric] Let_def)
  then show ?thesis using assms(1,2,3) by (simp add: GetPIDS_def Let_def)
qed

definition ex_sid :: sid_entry where
  "ex_sid = \<lparr>sid_sid = 7, sid_pmt_pid = 32, p_current_pmt = Some ex_pmt, eit_table = []\<rparr>"

lemma ex_FindSID: "FindSID 7 (ex_demux [ex_sid]) = Some 0"
  by (simp add: FindSID_def ex_sid_def)

lemma GetPIDS_wanted_witness: "GetPIDS ex_psi 7 [] (ex_demux [ex_sid]) = Some ([33], 0)"
proof -
  have e: "elements 256 (pmt_get_es ex_psi) ex_pmt = Some [drop 12 ex_pmt]"
    using collect_values [of "\<lambda>j. map_option (\<lambda>off. drop off ex_pmt) (pmt_get_es ex_psi ex_pmt j)" 1 256]
    by (simp add: elements_def) (simp add: ex_pmt_es_def ex_pmt_def)
  have w: "PIDWouldBeSelected ex_psi (drop 12 ex_pmt) (ex_demux [ex_sid]) = Some True"
    by (simp add: PIDWouldBeSelected_def ex_pmt_def)
  have "pmtn_get_pid ex_psi (drop 12 ex_pmt) = 33" "pmt_get_pcrpid ex_psi ex_pmt = 33"
    by (simp_all add: ex_pmt_def ex_pid13_def)
  then show ?thesis
    using GetPIDS_wanted [OF _ ex_FindSID _ _ e, of "[]" "\<lambda>_. True"] w by (simp add: ex_sid_def)
qed

text \<open>The search for the ECM PIDs of a descriptor loop has an 8-bit index: it returns, with the
  PIDs of the CA descriptors in order, exactly when some index below 256 is past the loop; a loop of
  256 descriptors or more (512 bytes are enough) makes it run for ever.\<close>

theorem Ecm_search_returns:
  "ecm_pids B descs \<noteq> None \<longleftrightarrow> ends_below 256 (descs_get_desc B) descs"
proof (cases "ends_below 256 (descs_get_desc B) descs")
  case True
  with elements_returns [OF True, of 256] show ?thesis by (auto simp: ecm_pids_def)
next
  case False
  then have "elements 256 (descs_get_desc B) descs = None" by (intro elements_diverges) (auto simp: ends_below_def)
  with False show ?thesis by (simp add: ecm_pids_def)
qed

subsection \<open>Remapping\<close>

text \<open>The two maps of an output are inverse to each other where they are set.\<close>

definition remap_ok :: "output_st \<Rightarrow> bool" where
  "remap_ok p \<longleftrightarrow> (\<forall>i<MAX_PIDS. pi_newpids p i \<noteq> UNUSED_PID \<longrightarrow>
     pi_newpids p i < MAX_PIDS \<and> pi_freepids p (pi_newpids p i) = i)"

lemma remap_injective:
  assumes "remap_ok p" and "i < MAX_PIDS" and "j < MAX_PIDS" and "pi_newpids p i \<noteq> UNUSED_PID" and "pi_newpids p i = pi_newpids p j"
  shows "i = j"
  using assms unfolding remap_ok_def by metis

lemma free_pid_Some:
  assumes "free_pid f n = Some k"
  shows "n \<le> k \<and> k < MAX_PIDS \<and> f k = UNUSED_PID \<and> (\<forall>m. n \<le> m \<and> m < k \<longrightarrow> f m \<noteq> UNUSED_PID)"
  using assms
proof (induction f n rule: free_pid.induct)
  case (1 f n)
  show ?case
  proof (cases "MAX_PIDS \<le> n \<or> f n = UNUSED_PID")
    case True
    then show ?thesis using "1.prems" by (auto simp: free_pid.simps [of f n] split: if_splits)
  next
    case False
    then have "free_pid f (Suc n) = Some k" using "1.prems" by (simp add: free_pid.simps [of f n])
    with "1.IH" False have "Suc n \<le> k \<and> k < MAX_PIDS \<and> f k = UNUSED_PID \<and> (\<forall>m. Suc n \<le> m \<and> m < k \<longrightarrow> f m \<noteq> UNUSED_PID)" by simp
    moreover have "f n \<noteq> UNUSED_PID" using False by simp
    ultimately show ?thesis by (metis Suc_leD Suc_leI le_neq_implies_less)
  qed
qed

lemma free_pid_None: "free_pid f n = None \<longleftrightarrow> (\<forall>m. n \<le> m \<and> m < MAX_PIDS \<longrightarrow> f m \<noteq> UNUSED_PID)"
proof (induction f n rule: free_pid.induct)
  case (1 f n)
  show ?case
  proof (cases "MAX_PIDS \<le> n \<or> f n = UNUSED_PID")
    case True
    then show ?thesis by (auto simp: free_pid.simps [of f n])
  next
    case False
    then have "free_pid f n = free_pid f (Suc n)" by (simp add: free_pid.simps [of f n])
    then show ?thesis using "1.IH" False by (metis Suc_leD Suc_leI le_neq_implies_less not_le)
  qed
qed

text \<open>C17 A remapped stream gets a PID of its own: \<open>map_es_pid\<close> gives it the first PID from the base of
  its kind on that no stream of the output has been given, remembers it in both directions, and never
  gives two streams of an output the same PID; when there is no such PID, it searches past the end
  of the table.\<close>

theorem Map_es_pid_fresh:
  assumes "remap_ok p" and "pid < MAX_PIDS" and "b_do_remap s \<or> b_cfg_do_remap (config p)"
    and "new_base B p es pid s = Some base" and "base \<noteq> 0"
  shows "(if \<exists>n. base \<le> n \<and> n < MAX_PIDS \<and> pi_freepids p n = UNUSED_PID
    then \<exists>n p'. map_es_pid B p es pid s = Some (n, p') \<and> base \<le> n \<and> n < MAX_PIDS \<and> pi_freepids p n = UNUSED_PID
      \<and> (\<forall>m. base \<le> m \<and> m < n \<longrightarrow> pi_freepids p m \<noteq> UNUSED_PID)
      \<and> pi_newpids p' pid = n \<and> (\<forall>q. q \<noteq> pid \<longrightarrow> pi_newpids p' q = pi_newpids p q) \<and> remap_ok p'
      \<and> (\<forall>i j. i < MAX_PIDS \<and> j < MAX_PIDS \<and> pi_newpids p' i \<noteq> UNUSED_PID \<and> pi_newpids p' i = pi_newpids p' j \<longrightarrow> i = j)
    else map_es_pid B p es pid s = None)"
proof -
  have M: "map_es_pid B p es pid s = (case free_pid (pi_freepids p) base of None \<Rightarrow> None
      | Some n \<Rightarrow> Some (n, p\<lparr>pi_freepids := (pi_freepids p)(n := pid), pi_newpids := (pi_newpids p)(pid := n)\<rparr>))"
    using assms(2,3,4,5) by (auto simp: map_es_pid_def split: option.split)
  show ?thesis
  proof (cases "free_pid (pi_freepids p) base")
    case None
    then show ?thesis using M free_pid_None [of "pi_freepids p" base] by auto
  next
    case (Some n)
    let ?p = "p\<lparr>pi_freepids := (pi_freepids p)(n := pid), pi_newpids := (pi_newpids p)(pid := n)\<rparr>"
    note F = free_pid_Some [OF Some]
    have r: "remap_ok ?p"
    proof -
      have "pi_newpids ?p i < MAX_PIDS \<and> pi_freepids ?p (pi_newpids ?p i) = i"
        if "i < MAX_PIDS" "pi_newpids ?p i \<noteq> UNUSED_PID" for i
      proof (cases "i = pid")
        case True
        then show ?thesis using F by simp
      next
        case False
        then have "pi_newpids p i < MAX_PIDS" "pi_freepids p (pi_newpids p i) = i"
          using that assms(1) by (auto simp: remap_ok_def)
        moreover have "pi_newpids p i \<noteq> n" using F calculation(2) that(1) by (auto simp: UNUSED_PID_def MAX_PIDS_def)
        ultimately show ?thesis using False by simp
      qed
      then show ?thesis by (simp add: remap_ok_def)
    qed
    have ex: "\<exists>n. base \<le> n \<and> n < MAX_PIDS \<and> pi_freepids p n = UNUSED_PID" using F by blast
    have inj: "\<forall>i j. i < MAX_PIDS \<and> j < MAX_PIDS \<and> pi_newpids ?p i \<noteq> UNUSED_PID \<and> pi_newpids ?p i = pi_newpids ?p j \<longrightarrow> i = j"
      using remap_injective [OF r] by blast
    have eq: "map_es_pid B p es pid s = Some (n, ?p)" using M Some by simp
    have new: "pi_newpids ?p pid = n" "\<forall>q. q \<noteq> pid \<longrightarrow> pi_newpids ?p q = pi_newpids p q" by simp_all
    show ?thesis unfolding if_P [OF ex] using eq F r inj new by blast
  qed
qed

text \<open>An output that wants its audio at 300 and above, where 300 is taken.\<close>

definition ex_remap :: output_st where
  "ex_remap = (ex_output [])\<lparr>config := ex_config\<lparr>b_cfg_do_remap := True, pi_confpids := [0, 300, 0, 0]\<rparr>,
     pi_newpids := (\<lambda>i. if i = 80 then 300 else UNUSED_PID), pi_freepids := (\<lambda>n. if n = 300 then 80 else UNUSED_PID)\<rparr>"

lemma Map_es_pid_fresh_witness:
  "\<exists>p'. map_es_pid ex_psi ex_remap [3, 0xe0, 90, 0xf0, 0] 90 (ex_demux []) = Some (301, p')"
proof -
  have r: "remap_ok ex_remap" by (simp add: remap_ok_def ex_remap_def MAX_PIDS_def)
  have b: "new_base ex_psi ex_remap [3, 0xe0, 90, 0xf0, 0] 90 (ex_demux []) = Some 300"
    by (simp add: new_base_def base_pid_def I_APID_def ex_remap_def)
  have f: "pi_freepids ex_remap n = UNUSED_PID \<longleftrightarrow> n \<noteq> 300" for n by (simp add: ex_remap_def UNUSED_PID_def MAX_PIDS_def)
  have ex: "\<exists>n. 300 \<le> n \<and> n < MAX_PIDS \<and> pi_freepids ex_remap n = UNUSED_PID"
    by (rule exI [of _ 301]) (simp add: f MAX_PIDS_def)
  have c: "b_do_remap (ex_demux []) \<or> b_cfg_do_remap (config ex_remap)" by (simp add: ex_remap_def)
  from Map_es_pid_fresh [OF r _ c b] ex obtain n p' where
    n: "map_es_pid ex_psi ex_remap [3, 0xe0, 90, 0xf0, 0] 90 (ex_demux []) = Some (n, p')" "300 \<le> n" "n \<noteq> 300"
      "\<forall>m. 300 \<le> m \<and> m < n \<longrightarrow> m = 300"
    unfolding f by (auto simp: MAX_PIDS_def)
  have "\<not> 301 < n" using n(4) [rule_format, of 301] by auto
  then have "n = 301" using n(2,3) by linarith
  with n(1) show ?thesis by blast
qed

subsection \<open>Time stamps\<close>

lemma dts_fold_other:
  "b \<notin> set bs \<Longrightarrow> mem (fold (\<lambda>(k, b). upd_block b (\<lambda>x. x\<lparr>bk_dts := g k\<rparr>)) (enumerate m bs) s) b = mem s b"
  by (induction bs arbitrary: m s) (auto simp: upd_block_def)

lemma dts_fold:
  assumes "distinct bs" and "k < length bs"
  shows "bk_dts (mem (fold (\<lambda>(k, b). upd_block b (\<lambda>x. x\<lparr>bk_dts := g k\<rparr>)) (enumerate m bs) s) (bs ! k)) = g (m + k)"
  using assms
proof (induction bs arbitrary: m s k)
  case (Cons b bs)
  show ?case
  proof (cases k)
    case 0
    have "b \<notin> set bs" using Cons.prems by simp
    note other = dts_fold_other [OF this, of g "Suc m" "upd_block b (\<lambda>x. x\<lparr>bk_dts := g m\<rparr>) s"]
    show ?thesis using other 0 by (simp only: enumerate_simps fold_simps prod.case nth_Cons_0) (simp add: upd_block_def)
  next
    case (Suc j)
    then show ?thesis using Cons.IH [of j "Suc m"] Cons.prems by simp
  qed
qed simp

lemma dts_of_bounds:
  assumes "0 \<le> dur" and "k < n"
  shows "now - dur \<le> dts_of now dur n k" and "dts_of now dur n k \<le> now" and "0 < dur \<Longrightarrow> now - dur < dts_of now dur n k"
proof -
  have e: "dts_of now dur n k = now - dur * (int n - 1 - int k) div int n" using assms by (simp add: dts_of_def)
  have p: "0 \<le> dur * (int n - 1 - int k)" using assms by simp
  have m: "dur * (int n - 1 - int k) \<le> dur * int n" using assms by (intro mult_left_mono) auto
  then have "dur * (int n - 1 - int k) div int n \<le> dur * int n div int n" by (rule zdiv_mono1) (use assms in simp)
  then show "now - dur \<le> dts_of now dur n k" using assms by (simp add: e)
  show "dts_of now dur n k \<le> now" using p assms by (simp add: e pos_imp_zdiv_nonneg_iff)
  assume d: "0 < dur"
  have "dur * (int n - 1 - int k) < dur * int n" using d assms by simp
  have "dur * (int n - 1 - int k) div int n < dur"
  proof (rule ccontr)
    assume "\<not> ?thesis"
    then have "int n * dur \<le> int n * (dur * (int n - 1 - int k) div int n)" by (intro mult_left_mono) auto
    also have "\<dots> \<le> dur * (int n - 1 - int k)"
      using mult_div_mod_eq [of "int n" "dur * (int n - 1 - int k)"] pos_mod_sign [of "int n" "dur * (int n - 1 - int k)"] assms(2)
      by linarith
    finally show False using \<open>dur * (int n - 1 - int k) < dur * int n\<close> by (simp add: mult.commute)
  qed
  then show "now - dur < dts_of now dur n k" by (simp add: e)
qed

lemma dts_of_mono:
  assumes "0 \<le> dur" and "j \<le> k" and "k < n"
  shows "dts_of now dur n j \<le> dts_of now dur n k"
proof -
  have "dur * (int n - 1 - int k) \<le> dur * (int n - 1 - int j)" using assms by (intro mult_left_mono) auto
  then have "dur * (int n - 1 - int k) div int n \<le> dur * (int n - 1 - int j) div int n" by (rule zdiv_mono1) (use assms in simp)
  then show ?thesis using assms by (simp add: dts_of_def)
qed

text \<open>C18 The packets of one read get time stamps that never go back: each lies between the time of the
  last read and now (after it, when time has passed), a later packet's is never before an earlier
  one's, the last packet's is now, and the next read starts from there.\<close>

theorem SetDTS_monotone:
  assumes "distinct bs" and "bs \<noteq> []" and "i_last_dts s = -1 \<or> i_last_dts s \<le> i_wallclock s"
  defines "prev \<equiv> (if i_last_dts s = -1 then i_wallclock s else i_last_dts s)"
    and "t \<equiv> (\<lambda>k. bk_dts (mem (SetDTS bs s) (bs ! k)))"
  shows "(\<forall>k<length bs. prev \<le> t k \<and> t k \<le> i_wallclock s \<and> (prev < i_wallclock s \<longrightarrow> prev < t k))
    \<and> (\<forall>j k. j \<le> k \<and> k < length bs \<longrightarrow> t j \<le> t k)
    \<and> t (length bs - 1) = i_wallclock s \<and> i_last_dts (SetDTS bs s) = i_wallclock s"
proof -
  define dur where "dur = (if i_last_dts s = -1 then 0 else i_wallclock s - i_last_dts s)"
  have d: "0 \<le> dur" "prev = i_wallclock s - dur" using assms(3) by (auto simp: dur_def prev_def)
  have t: "t k = dts_of (i_wallclock s) dur (length bs) k" if "k < length bs" for k
    using dts_fold [OF assms(1) that, of "dts_of (i_wallclock s) dur (length bs)" 0 s] by (simp add: t_def SetDTS_def dur_def Let_def)
  have "t (length bs - 1) = i_wallclock s" using assms(2) t [of "length bs - 1"] by (simp add: dts_of_def of_nat_diff Suc_le_eq)
  moreover have "t j \<le> t k" if "j \<le> k" "k < length bs" for j k using that d(1) t dts_of_mono by simp
  moreover have "prev \<le> t k \<and> t k \<le> i_wallclock s \<and> (prev < i_wallclock s \<longrightarrow> prev < t k)" if "k < length bs" for k
    using dts_of_bounds [OF d(1) that, of "i_wallclock s"] t [OF that] d(2) by auto
  moreover have "i_last_dts (SetDTS bs s) = i_wallclock s" by (simp add: SetDTS_def Let_def)
  ultimately show ?thesis by blast
qed

lemma SetDTS_monotone_witness:
  "bk_dts (mem (SetDTS [0, 1] (ex_demux []\<lparr>i_wallclock := 100, i_last_dts := 40\<rparr>)) 0) \<in> {41..100}
    \<and> bk_dts (mem (SetDTS [0, 1] (ex_demux []\<lparr>i_wallclock := 100, i_last_dts := 40\<rparr>)) 1) \<in> {41..100}"
  using SetDTS_monotone [of "[0, 1]" "ex_demux []\<lparr>i_wallclock := 100, i_last_dts := 40\<rparr>"] by (auto simp: numeral_2_eq_2)

subsection \<open>Transport errors\<close>

lemma handle_errors_bad:
  assumes "ts_get_transporterror B ts"
  shows "handle_errors B ts 0 s =
    (let s' = (upd_info 0 (\<lambda>i. i\<lparr>i_transport_errors := i_transport_errors i + 1\<rparr>) s)
        \<lparr>i_dmx_errors := i_dmx_errors s + 1, i_tuner_errors := i_tuner_errors s + 1, i_last_dmx_error := i_wallclock s\<rparr>
     in Some (if i_tuner_errors s + 1 > MAX_ERRORS then snd (sys_call DevReset (s'\<lparr>i_tuner_errors := 0\<rparr>)) else s'))"
  using assms by (simp add: handle_errors_def get_pid_desc_def Let_def)

text \<open>C19 The error watchdog fires: of broken packets in a row (on the PAT's PID), every 1001st resets the
  device and starts the count again, so after \<open>n\<close> of them there have been exactly
  \<open>n div 1001\<close> resets; the total of errors counts them all.\<close>

theorem Watchdog_resets:
  assumes "ts_get_transporterror B ts" and "i_tuner_errors s = 0"
  shows "\<exists>s'. ofold (\<lambda>_. handle_errors B ts 0) [0..<n] s = Some s' \<and> i_tuner_errors s' = int (n mod 1001)
    \<and> sys_log s' = sys_log s @ replicate (n div 1001) DevReset \<and> i_dmx_errors s' = i_dmx_errors s + n
    \<and> i_transport_errors (pid_info (p_pids s' 0)) = i_transport_errors (pid_info (p_pids s 0)) + n"
proof (induction n)
  case 0
  then show ?case using assms(2) by simp
next
  case (Suc n)
  then obtain s1 where 1: "ofold (\<lambda>_. handle_errors B ts 0) [0..<n] s = Some s1" "i_tuner_errors s1 = int (n mod 1001)"
    "sys_log s1 = sys_log s @ replicate (n div 1001) DevReset" "i_dmx_errors s1 = i_dmx_errors s + n"
    "i_transport_errors (pid_info (p_pids s1 0)) = i_transport_errors (pid_info (p_pids s 0)) + n" by blast
  have more: "MAX_ERRORS < i_tuner_errors s1 + 1 \<longleftrightarrow> n mod 1001 = 1000"
    using 1(2) mod_less_divisor [of 1001 n] by (auto simp: MAX_ERRORS_def)
  have run: "ofold (\<lambda>_. handle_errors B ts 0) [0..<Suc n] s = handle_errors B ts 0 s1"
    using 1(1) by (simp add: ofold_append split: option.split)
  note step = handle_errors_bad [OF assms(1), of s1]
  show ?case
  proof (cases "n mod 1001 = 1000")
    case True
    then have "(Suc n) mod 1001 = 0" "Suc n div 1001 = Suc (n div 1001)" by (simp_all add: mod_Suc div_Suc)
    then show ?thesis using run step 1(2-) more True
      by (auto simp: Let_def sys_call_def upd_info_def replicate_append_same)
  next
    case False
    then have "(Suc n) mod 1001 = Suc (n mod 1001)" "Suc n div 1001 = n div 1001" by (simp_all add: mod_Suc div_Suc)
    then show ?thesis using run step 1(2-) more False by (auto simp: Let_def upd_info_def)
  qed
qed

lemma Watchdog_resets_witness:
  "\<exists>s'. ofold (\<lambda>_. handle_errors ex_psi [0x47, 0x80, 0, 0x10] 0) [0..<2002] (ex_demux []) = Some s'
     \<and> sys_log s' = sys_log (ex_demux []) @ [DevReset, DevReset]"
proof -
  have "ts_get_transporterror ex_psi [0x47, 0x80, 0, 0x10]"
    by (simp add: ex_psi_def ts_lib.defs psi_lib.defs ex_ts_def)
  moreover have "i_tuner_errors (ex_demux []) = 0" by (simp add: ex_demux_def dvben.defs dvbdemux.defs)
  ultimately show ?thesis using Watchdog_resets [of ex_psi "[0x47, 0x80, 0, 0x10]" "ex_demux []" 2002]
    by (auto simp: numeral_2_eq_2)
qed

end
