(* ===== verification/Dvb_SectionProps.thy ===== *)
theory Dvb_SectionProps
  imports Dvb_Tables Dvb_OutputProps
begin

text \<open>
  Cutting a section into packets (\<open>OutputPSISection\<close>) keeps the reference counts of the blocks: the
  reference of the new block moves to the queue, or to the output's EIT buffer. What the proofs
  need of the library is that a split makes progress (\<open>split_law\<close>).
\<close>

definition split_law :: "'b psi_lib_scheme \<Rightarrow> bytes \<Rightarrow> bool" where
  "split_law B sec \<longleftrightarrow> 0 < section_length B sec
     \<and> (\<forall>ts ts_off off ts' ts_off' off'. off < section_length B sec \<longrightarrow> ts_off < TS_SIZE - PSI_HEADER_SIZE_SYNTAX1 B \<longrightarrow>
          psi_split_section B ts ts_off sec off = (ts', ts_off', off') \<longrightarrow> off < off' \<and> off' \<le> section_length B sec)"

text \<open>An output whose EIT buffer, when it has one, has room for a section's header.\<close>

definition eit_room :: "'b psi_lib_scheme \<Rightarrow> output_st \<Rightarrow> bool" where
  "eit_room B p \<longleftrightarrow> 0 < TS_SIZE - PSI_HEADER_SIZE_SYNTAX1 B
     \<and> (p_eit_ts_buffer p \<noteq> None \<longrightarrow> i_eit_ts_buffer_offset p < TS_SIZE - PSI_HEADER_SIZE_SYNTAX1 B)"

lemma cc_frame [simp]:
  "queued (set_cc f n p) = queued p" "p_eit_ts_buffer (set_cc f n p) = p_eit_ts_buffer p"
  "i_eit_ts_buffer_offset (set_cc f n p) = i_eit_ts_buffer_offset p" "out_wf B (set_cc f n p) = out_wf B p"
  "get_cc f (set_cc f n p) = n" "config (set_cc f n p) = config p"
  by (cases f; simp add: queued_def out_wf_def output_BlockCount_def)+

lemma eit_frame [simp]:
  "out_wf B (p\<lparr>p_eit_ts_buffer := b, i_eit_ts_buffer_offset := k\<rparr>) = out_wf B p"
  "queued (p\<lparr>p_eit_ts_buffer := b, i_eit_ts_buffer_offset := k\<rparr>) = queued p"
  "get_cc f (p\<lparr>p_eit_ts_buffer := b, i_eit_ts_buffer_offset := k\<rparr>) = get_cc f p"
  by (simp_all add: out_wf_def queued_def output_BlockCount_def) (cases f; simp)

lemma block_New_frame:
  fixes s :: "'a dvboutput_scheme"
  assumes "block_New s = Some (b, s')"
  shows "pp_outputs s' = pp_outputs s" and "output_dup s' = output_dup s"
  using assms by (auto simp: block_New_def upd_block_def split: if_splits list.splits)

lemma refs_outputs: "pp_outputs s' = pp_outputs s \<Longrightarrow> output_dup s' = output_dup s \<Longrightarrow> refs s' = refs s"
  by (simp add: refs_def fun_eq_iff)

lemma Enqueue_frame:
  assumes "output_Enqueue B ts dts b p = Some (d, p')"
  shows "i_eit_ts_buffer_offset p' = i_eit_ts_buffer_offset p" and "get_cc f p' = get_cc f p"
  using assms
  by (cases f; auto simp: output_Enqueue_def packet_append_def output_PacketNew_def Let_def bind_eq_Some_conv
        split: if_splits list.splits)+

text \<open>The queue takes the reference the caller gives up: the counts stay as they are.\<close>

lemma psi_put_spec:
  fixes s :: "'a dvboutput_scheme"
  assumes "pool.agrees c s" and "0 < c b" and "n < length (pp_outputs s)" and "out_wf B (pp_outputs s ! n)"
  shows "\<exists>s' p'. psi_put B n b dts buffered s = Some s' \<and> pool.agrees c s'
    \<and> pp_outputs s' = (pp_outputs s)[n := p'] \<and> output_dup s' = output_dup s
    \<and> out_wf B p' \<and> queued p' = queued (pp_outputs s ! n) @ [b]
    \<and> p_eit_ts_buffer p' = (if buffered then None else p_eit_ts_buffer (pp_outputs s ! n))
    \<and> i_eit_ts_buffer_offset p' = (if buffered then 0 else i_eit_ts_buffer_offset (pp_outputs s ! n))
    \<and> (\<forall>f. get_cc f p' = get_cc f (pp_outputs s ! n))"
proof -
  let ?p = "pp_outputs s ! n"
  define s1 where "s1 = upd_block b (\<lambda>k. k\<lparr>bk_dts := dts, bk_refcount := bk_refcount k - 1\<rparr>) s"
  define s2 where "s2 = upd_block b (\<lambda>k. k\<lparr>bk_dts := dts\<rparr>) s"
  have acq: "block_Acquire b s1 = s2" by (simp add: block_Acquire_def s1_def s2_def upd_block_def)
  have 1: "allocd s1 b" "oref_ok s1 (Nth n)"
    using agrees_allocd [OF assms(1,2)] assms(3) by (simp_all add: s1_def upd_block_def)
  have 2: "pp_outputs s2 = pp_outputs s" "output_dup s2 = output_dup s" "pool.agrees c s2"
    using assms(1) by (simp_all add: s2_def agrees_upd_block) (simp_all add: upd_block_def)
  obtain d p where E: "output_Enqueue B (bk_ts (mem s2 b)) (bk_dts (mem s2 b)) b ?p = Some (d, p)"
    and p: "out_wf B p" "queued p = queued ?p @ [b]" "p_eit_ts_buffer p = p_eit_ts_buffer ?p"
    using output_Enqueue_spec [OF assms(4)] by blast
  note fr = Enqueue_frame [OF E]
  define s3 where "s3 = upd_out (Nth n) (\<lambda>_. p) s2"
  define s4 where "s4 = (if i_next_send s3 > d + i_output_latency (config p)
      then s3\<lparr>i_next_send := d + i_output_latency (config p),
              out_timer := Some (d + i_output_latency (config p) - i_out_wallclock s3)\<rparr> else s3)"
  have 4: "pp_outputs s4 = (pp_outputs s)[n := p]" "output_dup s4 = output_dup s" "pool.agrees c s4"
  proof -
    have "pool.agrees c s4 \<longleftrightarrow> pool.agrees c s3" by (rule agrees_cong) (simp_all add: s4_def)
    moreover have "pool.agrees c s3" using 2(3) by (simp add: s3_def del: upd_out.simps)
    ultimately show "pool.agrees c s4" by simp
    show "pp_outputs s4 = (pp_outputs s)[n := p]" "output_dup s4 = output_dup s"
      using 2 by (simp_all add: s4_def s3_def)
  qed
  have P: "output_Put B (Nth n) b s1 = Some s4"
    using 1 E 2(1) unfolding output_Put_def acq by (simp add: Let_def s4_def s3_def)
  define p' where "p' = (if buffered then p\<lparr>p_eit_ts_buffer := None, i_eit_ts_buffer_offset := 0\<rparr> else p)"
  define s' where "s' = (if buffered then upd_out (Nth n) (\<lambda>p. p\<lparr>p_eit_ts_buffer := None, i_eit_ts_buffer_offset := 0\<rparr>) s4 else s4)"
  have "psi_put B n b dts buffered s = Some s'" using P by (simp add: psi_put_def s'_def flip: s1_def)
  moreover have "pool.agrees c s'" using 4(3) by (simp add: s'_def del: upd_out.simps)
  moreover have "pp_outputs s' = (pp_outputs s)[n := p']" "output_dup s' = output_dup s"
    using 4 assms(3) by (simp_all add: s'_def p'_def)
  moreover have "out_wf B p'" "queued p' = queued ?p @ [b]"
    using p by (simp_all add: p'_def)
  moreover have "get_cc f p' = get_cc f ?p" for f using fr(2) [of f] by (simp add: p'_def)
  ultimately show ?thesis using p(3) fr(1) by (intro exI [of _ s'] exI [of _ p']) (simp add: p'_def)
qed

lemma refs_set:
  assumes "pp_outputs s' = (pp_outputs s)[n := p']" and "output_dup s' = output_dup s" and "n < length (pp_outputs s)"
  shows "refs s' x + out_refs (pp_outputs s ! n) x = refs s x + out_refs p' x"
  using sum_list_map_update [OF assms(3), of "\<lambda>p. out_refs p x" p'] assms(1,2) by (simp add: refs_def)

text \<open>The block a turn fills: the EIT buffer, or a fresh one nobody refers to yet.\<close>

lemma psi_block_spec:
  fixes s :: "'a dvboutput_scheme"
  assumes "heap_ok ext s" and "n < length (pp_outputs s)" and "eit_room B (pp_outputs s ! n)"
  shows "\<exists>b ts_off append s1. psi_block n dts buffered s = Some (b, ts_off, append, s1)
    \<and> pool.agrees (\<lambda>x. refs s x + ext x + (if x = b \<and> \<not> append then 1 else 0)) s1
    \<and> 0 < refs s b + ext b + (if append then 0 else 1)
    \<and> pp_outputs s1 = pp_outputs s \<and> output_dup s1 = output_dup s \<and> ts_off < TS_SIZE - PSI_HEADER_SIZE_SYNTAX1 B
    \<and> (append \<longrightarrow> buffered \<and> p_eit_ts_buffer (pp_outputs s ! n) = Some b)
    \<and> (buffered \<and> \<not> append \<longrightarrow> p_eit_ts_buffer (pp_outputs s ! n) = None)"
proof (cases "if buffered then p_eit_ts_buffer (pp_outputs s ! n) else None")
  case None
  have "pool.agrees (\<lambda>x. refs s x + ext x) s" using assms(1) by (simp add: heap_ok_def)
  from pool.fresh_agrees [OF this] obtain b s0 where
    0: "block_New s = Some (b, s0)" "refs s b + ext b = 0" "pool.agrees ((\<lambda>x. refs s x + ext x)(b := 1)) s0"
    by (elim exE conjE)
  define s1 where "s1 = upd_block b (\<lambda>k. k\<lparr>bk_dts := dts\<rparr>) s0"
  have c: "(\<lambda>x. refs s x + ext x)(b := 1) = (\<lambda>x. refs s x + ext x + (if x = b \<and> \<not> False then 1 else 0))"
    using 0(2) by (auto simp: fun_eq_iff)
  have "psi_block n dts buffered s = Some (b, 0, False, s1)"
    using None 0(1) by (simp add: psi_block_def s1_def)
  moreover have "pool.agrees (\<lambda>x. refs s x + ext x + (if x = b \<and> \<not> False then 1 else 0)) s1"
    using 0(3) unfolding c by (simp add: s1_def agrees_upd_block)
  moreover have "pp_outputs s1 = pp_outputs s" "output_dup s1 = output_dup s"
    using block_New_frame [OF 0(1)] by (simp_all add: s1_def upd_block_def)
  ultimately show ?thesis using assms(3) None
    by (intro exI [of _ b] exI [of _ 0] exI [of _ False] exI [of _ s1]) (auto simp: eit_room_def split: if_splits)
next
  case (Some b)
  then have b: "buffered" "p_eit_ts_buffer (pp_outputs s ! n) = Some b" by (auto split: if_splits)
  have "0 < out_refs (pp_outputs s ! n) b" using b(2) by (simp add: out_refs_def)
  then have pos: "0 < refs s b" using out_refs_le [of s "Nth n" b] assms(2) by simp
  have ag: "pool.agrees (\<lambda>x. refs s x + ext x) s" using assms(1) by (simp add: heap_ok_def)
  have al: "allocd s b" by (rule agrees_allocd [OF ag]) (use pos in simp)
  show ?thesis using ag al pos b assms(3)
    by (intro exI [of _ b] exI [of _ "i_eit_ts_buffer_offset (pp_outputs s ! n)"] exI [of _ True] exI [of _ s])
      (simp add: psi_block_def eit_room_def)
qed

lemma psi_step_spec:
  fixes s :: "'a dvboutput_scheme"
  assumes "split_law B sec" and "heap_ok ext s" and "n < length (pp_outputs s)" and "out_wf B (pp_outputs s ! n)"
    and "eit_room B (pp_outputs s ! n)" and "off < section_length B sec"
  shows "\<exists>stop off' s' p' bs. psi_step B n sec pid cc dts buffered off s = Some (stop, off', s')
    \<and> off < off' \<and> off' \<le> section_length B sec \<and> heap_ok ext s'
    \<and> pp_outputs s' = (pp_outputs s)[n := p'] \<and> output_dup s' = output_dup s \<and> out_wf B p' \<and> eit_room B p'
    \<and> queued p' = queued (pp_outputs s ! n) @ bs \<and> length bs \<le> 1
    \<and> (\<not> buffered \<longrightarrow> \<not> stop \<and> length bs = 1 \<and> get_cc cc p' = (get_cc cc (pp_outputs s ! n) + 1) mod 16)"
proof -
  let ?p = "pp_outputs s ! n" and ?room = "TS_SIZE - PSI_HEADER_SIZE_SYNTAX1 B"
  obtain b ts_off append s1 where 1: "psi_block n dts buffered s = Some (b, ts_off, append, s1)"
    "pool.agrees (\<lambda>x. refs s x + ext x + (if x = b \<and> \<not> append then 1 else 0)) s1"
    "0 < refs s b + ext b + (if append then 0 else 1)"
    "pp_outputs s1 = pp_outputs s" "output_dup s1 = output_dup s" "ts_off < ?room"
    "append \<longrightarrow> buffered \<and> p_eit_ts_buffer ?p = Some b" "buffered \<and> \<not> append \<longrightarrow> p_eit_ts_buffer ?p = None"
    using psi_block_spec [OF assms(2,3,5), of dts buffered] by (elim exE conjE)
  define c where "c = (\<lambda>x. refs s x + ext x + (if x = b \<and> \<not> append then 1 else 0))"
  obtain ts to off' where sp: "psi_split_section B (bk_ts (mem s1 b)) ts_off sec off = (ts, to, off')"
    by (metis prod_cases3)
  have off': "off < off'" "off' \<le> section_length B sec" using assms(1,6) 1(6) sp unfolding split_law_def by blast+
  define ts2 where "ts2 = (if append then ts else ts_set_cc B (get_cc cc ?p) (ts_set_pid B pid ts))"
  define s2 where "s2 = upd_block b (\<lambda>k. k\<lparr>bk_ts := ts2\<rparr>) s1"
  define p3 where "p3 = (if append then ?p else set_cc cc ((get_cc cc ?p + 1) mod 16) ?p)"
  define s3 where "s3 = (if append then s2 else upd_out (Nth n) (set_cc cc ((get_cc cc ?p + 1) mod 16)) s2)"
  have s2: "pp_outputs s2 = pp_outputs s" "output_dup s2 = output_dup s" "pool.agrees c s2"
    using 1(2,4,5) by (simp_all add: s2_def c_def agrees_upd_block) (simp_all add: upd_block_def)
  have s3: "pp_outputs s3 = (pp_outputs s)[n := p3]" "output_dup s3 = output_dup s"
    using s2 by (simp_all add: s3_def p3_def)
  have a3: "pool.agrees c s3" using s2(3) by (simp add: s3_def del: upd_out.simps)
  have p3: "out_wf B p3" "queued p3 = queued ?p" "p_eit_ts_buffer p3 = p_eit_ts_buffer ?p" "eit_room B p3"
    "i_eit_ts_buffer_offset p3 = i_eit_ts_buffer_offset ?p"
    using assms(4,5) by (simp_all add: p3_def eit_room_def)
  have cb: "0 < c b" using 1(3) by (simp add: c_def split: if_splits)
  have run: "psi_step B n sec pid cc dts buffered off s =
      (if off' = section_length B sec \<and> to < ?room \<and> buffered
       then Some (True, off', upd_out (Nth n) (\<lambda>p. p\<lparr>p_eit_ts_buffer := Some b, i_eit_ts_buffer_offset := to\<rparr>) s3)
       else do {
         let s4 = (if off' = section_length B sec
                then upd_block b (\<lambda>k. k\<lparr>bk_ts := fst (psi_split_end B (bk_ts k) to)\<rparr>) s3 else s3);
         s \<leftarrow> psi_put B n b dts buffered s4;
         Some (False, off', s) })"
    unfolding psi_step_def 1(1) by (simp add: sp Let_def 1(4) s2_def s3_def ts2_def)
  show ?thesis
  proof (cases "off' = section_length B sec \<and> to < ?room \<and> buffered")
    case True
    define s' where "s' = upd_out (Nth n) (\<lambda>p. p\<lparr>p_eit_ts_buffer := Some b, i_eit_ts_buffer_offset := to\<rparr>) s3"
    define p' where "p' = p3\<lparr>p_eit_ts_buffer := Some b, i_eit_ts_buffer_offset := to\<rparr>"
    have o: "pp_outputs s' = (pp_outputs s)[n := p']" "output_dup s' = output_dup s"
      using s3 assms(3) by (simp_all add: s'_def p'_def)
    have "refs s' x + ext x = c x" for x
      using refs_set [OF o assms(3), of x] p3 True 1(7,8)
      by (cases append) (auto simp: out_refs_def p'_def c_def split: if_splits)
    then have "heap_ok ext s'" using a3 by (simp add: heap_ok_def s'_def del: upd_out.simps)
    then show ?thesis using run True o p3 off'
      by (intro exI [of _ True] exI [of _ off'] exI [of _ s'] exI [of _ p'] exI [of _ "[]"])
        (simp add: p'_def s'_def eit_room_def del: upd_out.simps)
  next
    case False
    define s4 where "s4 = (if off' = section_length B sec
                then upd_block b (\<lambda>k. k\<lparr>bk_ts := fst (psi_split_end B (bk_ts k) to)\<rparr>) s3 else s3)"
    have s4: "pp_outputs s4 = (pp_outputs s)[n := p3]" "output_dup s4 = output_dup s" "pool.agrees c s4"
      using s3 a3 by (simp_all add: s4_def agrees_upd_block) (simp_all add: upd_block_def)
    have at: "pp_outputs s4 ! n = p3" "n < length (pp_outputs s4)" using s4(1) assms(3) by simp_all
    have "out_wf B (pp_outputs s4 ! n)" using p3(1) at(1) by simp
    note put = psi_put_spec [OF s4(3) cb at(2) this, of dts buffered, unfolded at(1) p3(2,3,5)]
    from put obtain s' p' where
      P: "psi_put B n b dts buffered s4 = Some s'" "pool.agrees c s'" "pp_outputs s' = (pp_outputs s)[n := p']"
      "output_dup s' = output_dup s" "out_wf B p'" "queued p' = queued ?p @ [b]"
      "p_eit_ts_buffer p' = (if buffered then None else p_eit_ts_buffer ?p)"
      "i_eit_ts_buffer_offset p' = (if buffered then 0 else i_eit_ts_buffer_offset ?p)" "\<forall>f. get_cc f p' = get_cc f p3"
      unfolding s4(1,2) list_update_overwrite by (elim exE conjE)
    have "refs s' x + ext x = c x" for x
      using refs_set [OF P(3,4) assms(3), of x] P(6,7) 1(7,8)
      by (cases append; cases buffered) (auto simp: out_refs_def c_def split: if_splits)
    then have "heap_ok ext s'" using P(2) by (simp add: heap_ok_def)
    moreover have "eit_room B p'" using assms(5) P(7,8) by (auto simp: eit_room_def split: if_splits)
    moreover have "\<not> buffered \<Longrightarrow> get_cc cc p' = (get_cc cc ?p + 1) mod 16" using P(9) 1(7) by (auto simp: p3_def)
    ultimately show ?thesis using run False P off'
      by (intro exI [of _ False] exI [of _ off'] exI [of _ s'] exI [of _ p'] exI [of _ "[b]"])
        (simp add: Let_def flip: s4_def)
  qed
qed

text \<open>The loop: each turn gets further into the section, so it ends after at most its length.\<close>

lemma psi_loop_spec:
  fixes s :: "'a dvboutput_scheme"
  assumes "split_law B sec" and "heap_ok ext s" and "n < length (pp_outputs s)" and "out_wf B (pp_outputs s ! n)"
    and "eit_room B (pp_outputs s ! n)" and "off < section_length B sec"
  shows "\<exists>s' p' bs. psi_loop B n sec pid cc dts buffered off s = Some s' \<and> heap_ok ext s'
    \<and> pp_outputs s' = (pp_outputs s)[n := p'] \<and> output_dup s' = output_dup s \<and> out_wf B p' \<and> eit_room B p'
    \<and> queued p' = queued (pp_outputs s ! n) @ bs \<and> length bs \<le> section_length B sec - off
    \<and> (\<not> buffered \<longrightarrow> bs \<noteq> [] \<and> get_cc cc p' = (get_cc cc (pp_outputs s ! n) + length bs) mod 16)"
  using assms(2-)
proof (induction "section_length B sec - off" arbitrary: off s rule: less_induct)
  case less
  let ?p = "pp_outputs s ! n"
  from psi_step_spec [OF assms(1) less.prems, of pid cc dts buffered] obtain stop off1 s1 p1 bs1 where
    1: "psi_step B n sec pid cc dts buffered off s = Some (stop, off1, s1)" "off < off1" "off1 \<le> section_length B sec"
      "heap_ok ext s1" "pp_outputs s1 = (pp_outputs s)[n := p1]" "output_dup s1 = output_dup s" "out_wf B p1" "eit_room B p1"
      "queued p1 = queued ?p @ bs1" "length bs1 \<le> 1"
      "\<not> buffered \<longrightarrow> \<not> stop \<and> length bs1 = 1 \<and> get_cc cc p1 = (get_cc cc ?p + 1) mod 16"
    by (elim exE conjE)
  have run: "psi_loop B n sec pid cc dts buffered off s =
      (if stop \<or> section_length B sec \<le> off1 then Some s1 else psi_loop B n sec pid cc dts buffered off1 s1)"
    by (subst psi_loop.simps) (simp add: 1(1))
  show ?case
  proof (cases "stop \<or> section_length B sec \<le> off1")
    case True
    then show ?thesis using run 1 less.prems(5)
      by (intro exI [of _ s1] exI [of _ p1] exI [of _ bs1]) auto
  next
    case False
    have at: "pp_outputs s1 ! n = p1" "n < length (pp_outputs s1)" using 1(5) less.prems(2) by simp_all
    have "section_length B sec - off1 < section_length B sec - off" using 1(2) False by linarith
    from less.hyps [OF this 1(4) at(2), unfolded at(1), OF 1(7,8)] False obtain s2 p2 bs2 where
      2: "psi_loop B n sec pid cc dts buffered off1 s1 = Some s2" "heap_ok ext s2" "pp_outputs s2 = (pp_outputs s1)[n := p2]"
        "output_dup s2 = output_dup s1" "out_wf B p2" "eit_room B p2" "queued p2 = queued p1 @ bs2"
        "length bs2 \<le> section_length B sec - off1"
        "\<not> buffered \<longrightarrow> bs2 \<noteq> [] \<and> get_cc cc p2 = (get_cc cc p1 + length bs2) mod 16"
      by (metis not_le)
    have "\<not> buffered \<Longrightarrow> get_cc cc p2 = (get_cc cc ?p + length (bs1 @ bs2)) mod 16"
      using 1(11) 2(9) by (simp add: mod_simps)
    moreover have "length (bs1 @ bs2) \<le> section_length B sec - off" using 1(2,10) 2(8) False unfolding length_append by linarith
    ultimately show ?thesis using run False 1 2
      by (intro exI [of _ s2] exI [of _ p2] exI [of _ "bs1 @ bs2"]) simp
  qed
qed

lemma OutputPSISection_spec:
  fixes s :: "'a dvboutput_scheme"
  assumes "split_law B sec" and "heap_ok ext s" and "n < length (pp_outputs s)" and "out_wf B (pp_outputs s ! n)"
    and "eit_room B (pp_outputs s ! n)"
  shows "\<exists>s' p' bs. OutputPSISection B n sec pid cc dts buffered s = Some s' \<and> heap_ok ext s'
    \<and> pp_outputs s' = (pp_outputs s)[n := p'] \<and> output_dup s' = output_dup s \<and> out_wf B p' \<and> eit_room B p'
    \<and> queued p' = queued (pp_outputs s ! n) @ bs \<and> length bs \<le> section_length B sec
    \<and> (\<not> buffered \<longrightarrow> bs \<noteq> [] \<and> get_cc cc p' = (get_cc cc (pp_outputs s ! n) + length bs) mod 16)"
proof -
  have "0 < section_length B sec" using assms(1) by (simp add: split_law_def)
  from psi_loop_spec [OF assms this, of pid cc dts buffered] show ?thesis
    using assms(3) by (simp add: OutputPSISection_def)
qed

end
