(* ===== verification/Dvb_Path.thy ===== *)
theory Dvb_Path
  imports Dvb_DemuxProps Dvb_SectionProps
begin

text \<open>
  The way of the packets of a read through the demultiplexer (\<open>demux_Handle\<close>): which outputs queue a packet, how often, and
  when its block goes back to the pool. Every step of the way either leaves queues and routing alone or
  appends to one queue, so the proofs carry one invariant, \<open>routed\<close>, from step to step, and from packet to packet.
\<close>

subsection \<open>What the routing of a packet depends on\<close>

definition route :: "'a dvbdemux_scheme \<Rightarrow>
    ((nat \<Rightarrow> nat option list) \<times> (nat \<Rightarrow> bool) \<times> (nat \<Rightarrow> int)) \<times> (bool \<times> int \<times> int) \<times> psi_table \<times> psi_table \<times> sid_entry list" where
  "route s = ((pid_outputs \<circ> p_pids s, b_emm \<circ> p_pids s, i_psi_refcount \<circ> p_pids s),
     (b_enable_emm s, i_ca_handle s, i_delsysatsc s), current_pat s, current_cat s, pp_sids s)"

lemma route_same:
  assumes "route s = route t"
  shows "pid_outputs (p_pids s pid) = pid_outputs (p_pids t pid)" and "b_emm (p_pids s pid) = b_emm (p_pids t pid)"
    and "i_psi_refcount (p_pids s pid) = i_psi_refcount (p_pids t pid)" and "b_enable_emm s = b_enable_emm t"
    and "i_ca_handle s = i_ca_handle t" and "i_delsysatsc s = i_delsysatsc t" and "get_pid_desc B pid sid s = get_pid_desc B pid sid t"
proof -
  have p: "pid_outputs \<circ> p_pids s = pid_outputs \<circ> p_pids t" "b_emm \<circ> p_pids s = b_emm \<circ> p_pids t"
    "i_psi_refcount \<circ> p_pids s = i_psi_refcount \<circ> p_pids t"
    and e: "b_enable_emm s = b_enable_emm t" "current_pat s = current_pat t" "current_cat s = current_cat t" "pp_sids s = pp_sids t"
    and c: "i_ca_handle s = i_ca_handle t" "i_delsysatsc s = i_delsysatsc t"
    using assms by (simp_all add: route_def)
  show "pid_outputs (p_pids s pid) = pid_outputs (p_pids t pid)" "b_emm (p_pids s pid) = b_emm (p_pids t pid)"
    "i_psi_refcount (p_pids s pid) = i_psi_refcount (p_pids t pid)"
    using p [THEN fun_cong, of pid] by simp_all
  show "get_pid_desc B pid sid s = get_pid_desc B pid sid t"
    unfolding get_pid_desc_def pat_nit_pid_def is_emm_pid_def e ..
qed (use assms in \<open>simp_all add: route_def\<close>)

text \<open>The blocks EIT sections are gathered in: the only ones whose bytes change when a packet goes out.\<close>

definition eit_block :: "'a dvboutput_scheme \<Rightarrow> nat \<Rightarrow> bool" where
  "eit_block s x \<longleftrightarrow> (\<exists>r. oref_ok s r \<and> p_eit_ts_buffer (out_at s r) = Some x)"

text \<open>
  What became of an output: \<open>k\<close> copies of the block are queued behind what was there, besides at most the
  block its EIT tables were gathered in.
\<close>

definition taken :: "'b ts_lib_scheme \<Rightarrow> nat \<Rightarrow> output_st \<Rightarrow> nat \<Rightarrow> output_st \<Rightarrow> bool" where
  "taken B b p k p' \<longleftrightarrow> out_wf B p' \<and> config p' = config p \<and> i_pcr_pid p' = i_pcr_pid p
     \<and> p_sdt_section p' = p_sdt_section p \<and> p_eit_ts_buffer p' \<in> {p_eit_ts_buffer p, None}
     \<and> (\<exists>ds. queued p' = queued p @ ds \<and> set ds \<subseteq> insert b (set_option (p_eit_ts_buffer p)) \<and> count_list ds b = k)"

definition routed ::
  "'b ts_lib_scheme \<Rightarrow> nat \<Rightarrow> (nat \<Rightarrow> nat) \<Rightarrow> 'a dvbdemux_scheme \<Rightarrow> (oref \<Rightarrow> nat) \<Rightarrow> 'a dvbdemux_scheme \<Rightarrow> bool" where
  "routed B b ext s0 d s \<longleftrightarrow> heap_ok ext s \<and> route s = route s0
     \<and> length (pp_outputs s) = length (pp_outputs s0)
     \<and> (\<forall>x. \<not> eit_block s0 x \<longrightarrow> bk_ts (mem s x) = bk_ts (mem s0 x))
     \<and> (\<forall>r. oref_ok s0 r \<longrightarrow> taken B b (out_at s0 r) (d r) (out_at s r))"

lemma routed_start:
  assumes "heap_ok ext s" and "\<And>r. oref_ok s r \<Longrightarrow> out_wf B (out_at s r)"
  shows "routed B b ext s (\<lambda>_. 0) s"
  using assms by (simp add: routed_def taken_def)

lemma routed_same:
  assumes "routed B b ext s0 d s"
  shows "pid_outputs (p_pids s pid) = pid_outputs (p_pids s0 pid)" and "b_emm (p_pids s pid) = b_emm (p_pids s0 pid)"
    and "i_psi_refcount (p_pids s pid) = i_psi_refcount (p_pids s0 pid)" and "b_enable_emm s = b_enable_emm s0"
    and "i_ca_handle s = i_ca_handle s0" and "i_delsysatsc s = i_delsysatsc s0"
  using assms route_same [of s s0] by (simp_all add: routed_def)

lemma routed_oref: "routed B b ext s0 d s \<Longrightarrow> oref_ok s r = oref_ok s0 r"
  by (cases r) (simp_all add: routed_def)

lemma routed_taken: "routed B b ext s0 d s \<Longrightarrow> oref_ok s0 r \<Longrightarrow> taken B b (out_at s0 r) (d r) (out_at s r)"
  by (simp add: routed_def)

lemma heap_ok_cong:
  assumes "heap_ok ext s" and "pp_outputs s' = pp_outputs s" and "output_dup s' = output_dup s"
    and "mem s' = mem s" and "allocd s' = allocd s" and "p_block_lifo s' = p_block_lifo s"
    and "i_block_count s' = i_block_count s" and "brk s' = brk s"
  shows "heap_ok ext s'"
proof -
  have "refs s' = refs s" by (rule refs_outputs [OF assms(2,3)])
  then show ?thesis using assms(1) agrees_cong [of s' s "\<lambda>b. refs s b + ext b"] assms(4-) by (simp add: heap_ok_def)
qed

text \<open>A step that keeps the heap, the outputs and the routing.\<close>

definition calm :: "'a dvbdemux_scheme \<Rightarrow> 'a dvbdemux_scheme \<Rightarrow> bool" where
  "calm s s' \<longleftrightarrow> route s' = route s \<and> pp_outputs s' = pp_outputs s \<and> output_dup s' = output_dup s
     \<and> mem s' = mem s \<and> allocd s' = allocd s \<and> p_block_lifo s' = p_block_lifo s
     \<and> i_block_count s' = i_block_count s \<and> brk s' = brk s"

lemma calm_trans: "calm s t \<Longrightarrow> calm t u \<Longrightarrow> calm s u"
  by (simp add: calm_def)

lemma routed_calm:
  assumes "routed B b ext s0 d s" and "calm s s'"
  shows "routed B b ext s0 d s'"
proof -
  have "out_at s' r = out_at s r" for r using assms(2) by (cases r) (simp_all add: calm_def)
  then show ?thesis using assms heap_ok_cong [of ext s s'] by (auto simp: routed_def calm_def)
qed

lemma calm_upd_pid:
  assumes "pid_outputs (f (p_pids s pid)) = pid_outputs (p_pids s pid)" and "b_emm (f (p_pids s pid)) = b_emm (p_pids s pid)"
    and "i_psi_refcount (f (p_pids s pid)) = i_psi_refcount (p_pids s pid)"
  shows "calm s (upd_pid pid f s)"
  using assms by (auto simp: calm_def route_def upd_pid_def fun_eq_iff)

subsection \<open>Queueing\<close>

lemma Enqueue_keeps:
  assumes "output_Enqueue B ts dts b p = Some (d, p')"
  shows "i_pcr_pid p' = i_pcr_pid p" and "p_sdt_section p' = p_sdt_section p" and "config p' = config p"
    and "p_eit_ts_buffer p' = p_eit_ts_buffer p"
  using assms
  by (auto simp: output_Enqueue_def packet_append_def output_PacketNew_def Let_def bind_eq_Some_conv
        split: if_splits list.splits)

lemma route_upd [simp]:
  "route (upd_out r f s) = route s" "route (upd_block a g s) = route s"
  by (cases r; simp add: route_def upd_block_def)+

lemma timer_frame:
  fixes u :: "'a dvbdemux_scheme"
  assumes "s' = (if c then u\<lparr>i_next_send := x, out_timer := y\<rparr> else u)"
  shows "route s' = route u" and "out_at s' r = out_at u r" and "length (pp_outputs s') = length (pp_outputs u)"
    and "mem s' = mem u"
  unfolding assms by (simp_all add: route_def) (cases r; simp)

lemma Put_keeps:
  fixes s :: "'a dvbdemux_scheme"
  assumes "output_Put B r b s = Some s'" and "oref_ok s r"
  shows "route s' = route s"
    and "i_pcr_pid (out_at s' r) = i_pcr_pid (out_at s r)" and "p_sdt_section (out_at s' r) = p_sdt_section (out_at s r)"
    and "config (out_at s' r) = config (out_at s r)" and "p_eit_ts_buffer (out_at s' r) = p_eit_ts_buffer (out_at s r)"
    and "length (pp_outputs s') = length (pp_outputs s)" and "bk_ts (mem s' x) = bk_ts (mem s x)"
proof -
  define a where "a = block_Acquire b s"
  have al: "allocd s b" using assms(1) by (simp add: output_Put_def ensure_def split: if_splits)
  have a: "route a = route s" "out_at a r = out_at s r" "oref_ok a r" "length (pp_outputs a) = length (pp_outputs s)"
    "bk_ts (mem a x) = bk_ts (mem s x)"
    using assms(2) by (simp_all add: a_def block_Acquire_def) (cases r; simp add: upd_block_def)+
  obtain d p where E: "output_Enqueue B (bk_ts (mem a b)) (bk_dts (mem a b)) b (out_at s r) = Some (d, p)"
    using assms al a(2) by (cases "output_Enqueue B (bk_ts (mem a b)) (bk_dts (mem a b)) b (out_at s r)")
      (auto simp: output_Put_def Let_def a_def)
  define u where "u = upd_out r (\<lambda>_. p) a"
  have "output_Put B r b s = Some (if i_next_send u > d + i_output_latency (config p)
      then u\<lparr>i_next_send := d + i_output_latency (config p),
             out_timer := Some (d + i_output_latency (config p) - i_out_wallclock u)\<rparr> else u)"
    unfolding output_Put_def Let_def a_def [symmetric] a(2) E u_def [symmetric]
    by (simp only: assms(2) al ensure_def if_True bind.simps prod.case u_def)
  note s' = timer_frame [OF this [unfolded assms(1) option.inject]]
  have u: "route u = route s" "out_at u r = p" "length (pp_outputs u) = length (pp_outputs s)"
    "bk_ts (mem u x) = bk_ts (mem s x)"
    using a by (simp_all add: u_def out_at_upd_out del: upd_out.simps)
  note at = s'(2) [where r = r, unfolded u(2)]
  show "route s' = route s" "length (pp_outputs s') = length (pp_outputs s)"
    "bk_ts (mem s' x) = bk_ts (mem s x)" by (simp_all only: s' u)
  show "i_pcr_pid (out_at s' r) = i_pcr_pid (out_at s r)" "p_sdt_section (out_at s' r) = p_sdt_section (out_at s r)"
    "config (out_at s' r) = config (out_at s r)" "p_eit_ts_buffer (out_at s' r) = p_eit_ts_buffer (out_at s r)"
    unfolding at by (rule Enqueue_keeps [OF E])+
qed

lemma taken_more:
  assumes "taken B b p k q" and "out_wf B q'" and "queued q' = queued q @ [b]" and "config q' = config q"
    and "i_pcr_pid q' = i_pcr_pid q" and "p_sdt_section q' = p_sdt_section q" and "p_eit_ts_buffer q' = p_eit_ts_buffer q"
  shows "taken B b p (Suc k) q'"
proof -
  obtain ds where "queued q = queued p @ ds" "set ds \<subseteq> insert b (set_option (p_eit_ts_buffer p))" "count_list ds b = k"
    using assms(1) by (auto simp: taken_def)
  then have "queued q' = queued p @ (ds @ [b])" "set (ds @ [b]) \<subseteq> insert b (set_option (p_eit_ts_buffer p))"
    "count_list (ds @ [b]) b = Suc k" using assms(3) by simp_all
  then show ?thesis using assms unfolding taken_def by metis
qed

lemma routed_put:
  assumes "routed B b ext s0 d s" and "oref_ok s0 r" and "0 < ext b"
  shows "\<exists>s'. output_Put B r b s = Some s' \<and> routed B b ext s0 (d(r := Suc (d r))) s'"
proof -
  have ok: "oref_ok s r" using routed_oref [OF assms(1)] assms(2) by simp
  have h: "heap_ok ext s" and t: "taken B b (out_at s0 r) (d r) (out_at s r)"
    using assms(1,2) by (simp_all add: routed_def)
  have "out_wf B (out_at s r)" using t by (simp add: taken_def)
  from output_Put_spec [OF h ok this, of b] assms(3) obtain s' where
    P: "output_Put B r b s = Some s'" "heap_ok ext s'" "out_wf B (out_at s' r)" "queued (out_at s' r) = queued (out_at s r) @ [b]"
    "\<forall>r'. r' \<noteq> r \<longrightarrow> out_at s' r' = out_at s r'" "length (pp_outputs s') = length (pp_outputs s)" by auto
  note k = Put_keeps [OF P(1) ok]
  have "taken B b (out_at s0 r') ((d(r := Suc (d r))) r') (out_at s' r')" if "oref_ok s0 r'" for r'
    using taken_more [OF t P(3,4) k(4,2,3,5)] routed_taken [OF assms(1) that] P(5) by (cases "r' = r") simp_all
  then show ?thesis using P(1,2,6) k(1,7) assms(1) by (simp add: routed_def)
qed

text \<open>The EIT buffer goes out: its reference moves to the queue.\<close>

lemma taken_eit:
  assumes "taken B b p k q" and "p_eit_ts_buffer q = Some e" and "e \<noteq> b" and "out_wf B q'" and "queued q' = queued q @ [e]"
    and "config q' = config q" and "i_pcr_pid q' = i_pcr_pid q" and "p_sdt_section q' = p_sdt_section q"
    and "p_eit_ts_buffer q' = None"
  shows "taken B b p k q'"
proof -
  obtain ds where "queued q = queued p @ ds" "set ds \<subseteq> insert b (set_option (p_eit_ts_buffer p))" "count_list ds b = k"
    using assms(1) by (auto simp: taken_def)
  moreover have "p_eit_ts_buffer p = Some e" using assms(1,2) by (auto simp: taken_def)
  ultimately have "queued q' = queued p @ (ds @ [e])" "set (ds @ [e]) \<subseteq> insert b (set_option (p_eit_ts_buffer p))"
    "count_list (ds @ [e]) b = k" using assms(3,5) by simp_all
  then show ?thesis using assms unfolding taken_def by (metis insertCI)
qed

lemma psi_put_keeps:
  fixes s :: "'a dvbdemux_scheme"
  assumes "psi_put B n b dts buffered s = Some s'" and "n < length (pp_outputs s)"
  shows "route s' = route s" and "i_pcr_pid (pp_outputs s' ! n) = i_pcr_pid (pp_outputs s ! n)"
    and "p_sdt_section (pp_outputs s' ! n) = p_sdt_section (pp_outputs s ! n)"
    and "config (pp_outputs s' ! n) = config (pp_outputs s ! n)" and "bk_ts (mem s' x) = bk_ts (mem s x)"
proof -
  define s1 where "s1 = upd_block b (\<lambda>k. k\<lparr>bk_dts := dts, bk_refcount := bk_refcount k - 1\<rparr>) s"
  obtain s2 where P: "output_Put B (Nth n) b s1 = Some s2"
    and s': "s' = (if buffered then upd_out (Nth n) (\<lambda>p. p\<lparr>p_eit_ts_buffer := None, i_eit_ts_buffer_offset := 0\<rparr>) s2 else s2)"
    using assms(1) by (auto simp: psi_put_def Let_def bind_eq_Some_conv s1_def simp del: upd_out.simps)
  have s1: "pp_outputs s1 = pp_outputs s" "route s1 = route s" by (simp_all add: s1_def) (simp add: upd_block_def)
  then have ok: "oref_ok s1 (Nth n)" using assms(2) by simp
  note k = Put_keeps [OF P ok, unfolded out_at.simps s1]
  have len: "n < length (pp_outputs s2)" using k(6) assms(2) by simp
  show "route s' = route s" using k(1) s1(2) by (simp add: s' del: upd_out.simps)
  show "bk_ts (mem s' x) = bk_ts (mem s x)" using k(7) [of x] by (simp add: s' s1_def upd_block_def del: upd_out.simps)
  show "i_pcr_pid (pp_outputs s' ! n) = i_pcr_pid (pp_outputs s ! n)"
    "p_sdt_section (pp_outputs s' ! n) = p_sdt_section (pp_outputs s ! n)" "config (pp_outputs s' ! n) = config (pp_outputs s ! n)"
    using k len by (simp_all add: s')
qed

lemma routed_flush:
  fixes s :: "'a dvbdemux_scheme"
  assumes "routed B b ext s0 d s" and "n < length (pp_outputs s0)" and "p_eit_ts_buffer (pp_outputs s ! n) = Some e" and "e \<noteq> b"
  shows "\<exists>s'. FlushEIT B n dts s = Some s' \<and> routed B b ext s0 d s'"
proof -
  let ?p = "pp_outputs s ! n"
  have n: "n < length (pp_outputs s)" and h: "heap_ok ext s" and t: "taken B b (pp_outputs s0 ! n) (d (Nth n)) ?p"
    using assms(1,2) by (simp_all add: routed_def) (metis out_at.simps(2) oref_ok.simps(2))
  have wf: "out_wf B ?p" using t by (simp add: taken_def)
  have "0 < out_refs ?p e" using assms(3) by (simp add: out_refs_def)
  then have pos: "0 < refs s e" using out_refs_le [of s "Nth n" e] n by simp
  have ag: "pool.agrees (\<lambda>x. refs s x + ext x) s" using h by (simp add: heap_ok_def)
  have al: "allocd s e" by (rule agrees_allocd [OF ag]) (use pos in simp)
  define s1 where "s1 = upd_block e (\<lambda>k. k\<lparr>bk_ts := fst (psi_split_end B (bk_ts k) (i_eit_ts_buffer_offset ?p))\<rparr>) s"
  have s1: "pp_outputs s1 = pp_outputs s" "output_dup s1 = output_dup s" "pool.agrees (\<lambda>x. refs s x + ext x) s1"
    "route s1 = route s"
    using ag by (simp_all add: s1_def agrees_upd_block) (simp_all add: upd_block_def)
  have c: "0 < refs s e + ext e" using pos by simp
  from psi_put_spec [OF s1(3) c, of n B dts True, unfolded s1(1,2), OF n wf] obtain s' p' where
    P: "psi_put B n e dts True s1 = Some s'" "pool.agrees (\<lambda>x. refs s x + ext x) s'"
    "pp_outputs s' = (pp_outputs s)[n := p']" "output_dup s' = output_dup s" "out_wf B p'" "queued p' = queued ?p @ [e]"
    "p_eit_ts_buffer p' = None" by auto
  have F: "FlushEIT B n dts s = Some s'" using assms(3) n al P(1) by (simp add: FlushEIT_def Let_def rd_def s1_def)
  have at: "pp_outputs s' ! n = p'" using P(3) n by simp
  note k = psi_put_keeps [OF P(1), unfolded s1(1), OF n, unfolded at]
  have "refs s' x = refs s x" for x
    using refs_set [OF P(3,4) n, of x] P(6,7) assms(3) by (auto simp: out_refs_def split: if_splits)
  then have h': "heap_ok ext s'" using P(2) by (simp add: heap_ok_def)
  have "taken B b (out_at s0 r) (d r) (out_at s' r)" if "oref_ok s0 r" for r
  proof (cases "r = Nth n")
    case True
    then show ?thesis using taken_eit [OF t assms(3,4) P(5,6) k(4,2,3) P(7)] at by simp
  next
    case False
    then have "out_at s' r = out_at s r" using P(3,4) by (cases r) simp_all
    then show ?thesis using routed_taken [OF assms(1) that] by simp
  qed
  moreover have "bk_ts (mem s' x) = bk_ts (mem s0 x)" if "\<not> eit_block s0 x" for x
  proof -
    have "p_eit_ts_buffer (pp_outputs s0 ! n) = Some e" using t assms(3) by (auto simp: taken_def)
    then have "eit_block s0 e" unfolding eit_block_def using assms(2) by (intro exI [of _ "Nth n"]) simp
    then have "x \<noteq> e" using that by blast
    then have "bk_ts (mem s1 x) = bk_ts (mem s x)" by (simp add: s1_def upd_block_def)
    then show ?thesis using k(5) [of x] assms(1) that by (simp add: routed_def)
  qed
  ultimately show ?thesis using F h' k(1) s1(4) P(3) assms(1) by (simp add: routed_def)
qed

lemma routed_cong:
  assumes "routed B b ext s0 d s" and "\<And>r. oref_ok s0 r \<Longrightarrow> d r = d' r"
  shows "routed B b ext s0 d' s"
  using assms by (simp add: routed_def)

subsection \<open>The loops over the outputs\<close>

text \<open>A packet that is offered to every output: those that want it queue it once.\<close>

lemma routed_offer:
  fixes s :: "'a dvbdemux_scheme"
  assumes "routed B b ext s0 d s" and "0 < ext b" and "\<forall>p k q. taken B b p k q \<longrightarrow> Q q = Q p"
  shows "\<exists>s'. for_outputs (\<lambda>i s. if Q (pp_outputs s ! i) then output_Put B (Nth i) b s else Some s) s = Some s'
    \<and> routed B b ext s0 (\<lambda>r. d r + (case r of Dup \<Rightarrow> 0 | Nth n \<Rightarrow> if Q (pp_outputs s0 ! n) then 1 else 0)) s'"
proof -
  define dd where "dd i = (\<lambda>r. d r + (case r of Dup \<Rightarrow> 0 | Nth n \<Rightarrow> if n < i \<and> Q (pp_outputs s0 ! n) then 1 else 0))" for i
  have "\<exists>s'. ofold (\<lambda>i s. if Q (pp_outputs s ! i) then output_Put B (Nth i) b s else Some s) [0..<length (pp_outputs s)] s = Some s'
      \<and> routed B b ext s0 (dd (length (pp_outputs s))) s'"
  proof (rule ofold_upt)
    show "routed B b ext s0 (dd 0) s" using assms(1) by (rule routed_cong) (simp add: dd_def split: oref.split)
    fix i and u :: "'a dvbdemux_scheme"
    assume i: "i < length (pp_outputs s)" and R: "routed B b ext s0 (dd i) u"
    have ok: "oref_ok s0 (Nth i)" using i assms(1) by (simp add: routed_def)
    have q: "Q (pp_outputs u ! i) = Q (pp_outputs s0 ! i)" using assms(3) routed_taken [OF R ok] by simp
    show "\<exists>s'. (if Q (pp_outputs u ! i) then output_Put B (Nth i) b u else Some u) = Some s' \<and> routed B b ext s0 (dd (Suc i)) s'"
    proof (cases "Q (pp_outputs s0 ! i)")
      case True
      have "(dd i)(Nth i := Suc (dd i (Nth i))) = dd (Suc i)"
        using True by (auto simp: dd_def fun_eq_iff less_Suc_eq split: oref.split)
      then show ?thesis using routed_put [OF R ok assms(2)] True q by simp
    next
      case False
      have "dd i = dd (Suc i)" using False by (auto simp: dd_def fun_eq_iff less_Suc_eq split: oref.split)
      then show ?thesis using R False q by simp
    qed
  qed
  moreover have "dd (length (pp_outputs s)) r = d r + (case r of Dup \<Rightarrow> 0 | Nth n \<Rightarrow> if Q (pp_outputs s0 ! n) then 1 else 0)"
    if "oref_ok s0 r" for r
    using that assms(1) by (cases r) (simp_all add: dd_def routed_def)
  ultimately show ?thesis unfolding for_outputs_def using routed_cong by (metis (no_types, lifting))
qed

text \<open>The outputs of the PID itself.\<close>

definition pcr_wanted :: "'b ts_lib_scheme \<Rightarrow> bytes \<Rightarrow> nat \<Rightarrow> output_st \<Rightarrow> bool" where
  "pcr_wanted B ts pid p \<longleftrightarrow> i_pcr_pid p \<noteq> pid \<or> packet_has_pcr B ts"

lemma no_watchdog: "i_ca_handle s = 0 \<Longrightarrow> watchdog B ts pid n s = Some s"
  by (simp add: watchdog_def)

lemma routed_output:
  fixes s :: "'a dvbdemux_scheme"
  assumes "routed B b ext s0 d s" and "0 < ext b" and "i_ca_handle s0 = 0"
    and "pid_outputs (p_pids s0 pid) ! i = Some n" and "n < length (pp_outputs s0)" and "p_eit_ts_buffer (pp_outputs s0 ! n) \<noteq> Some b"
  shows "\<exists>s'. handle_output B b ts pid i s = Some s'
    \<and> routed B b ext s0 (d(Nth n := d (Nth n) + (if pcr_wanted B ts pid (pp_outputs s0 ! n) then 1 else 0))) s'"
proof -
  let ?d = "d(Nth n := d (Nth n) + (if pcr_wanted B ts pid (pp_outputs s0 ! n) then 1 else 0))"
  have ok: "oref_ok s0 (Nth n)" using assms(5) by simp
  have r: "pid_outputs (p_pids s pid) ! i = Some n" "i_ca_handle s = 0" "n < length (pp_outputs s)"
    using assms routed_same [OF assms(1)] by (simp_all add: routed_def)
  have w: "(i_pcr_pid (pp_outputs s ! n) \<noteq> pid \<or> packet_has_pcr B ts) = pcr_wanted B ts pid (pp_outputs s0 ! n)"
    using routed_taken [OF assms(1) ok] by (simp add: taken_def pcr_wanted_def)
  obtain s1 where s1: "(if pcr_wanted B ts pid (pp_outputs s0 ! n) then output_Put B (Nth n) b s else Some s) = Some s1"
    and R: "routed B b ext s0 ?d s1"
    using routed_put [OF assms(1) ok assms(2)] assms(1) by (cases "pcr_wanted B ts pid (pp_outputs s0 ! n)") auto
  have run: "handle_output B b ts pid i s = (case p_eit_ts_buffer (pp_outputs s1 ! n) of None \<Rightarrow> Some s1
      | Some e \<Rightarrow> if bk_dts (mem s1 b) > bk_dts (mem s1 e) + MAX_EIT_RETENTION then FlushEIT B n (bk_dts (mem s1 b)) s1 else Some s1)"
    unfolding handle_output_def r(1) option.case no_watchdog [OF r(2)]
    by (simp only: r(3) ensure_def if_True bind.simps w s1)
  show ?thesis
  proof (cases "p_eit_ts_buffer (pp_outputs s1 ! n)")
    case None
    then show ?thesis using run R by simp
  next
    case (Some e)
    then have "e \<noteq> b" using routed_taken [OF R ok] assms(6) by (auto simp: taken_def)
    then show ?thesis using run R Some routed_flush [OF R assms(5) Some, of "bk_dts (mem s1 b)"] by simp
  qed
qed

lemma routed_outputs:
  fixes s :: "'a dvbdemux_scheme"
  assumes "routed B b ext s0 d s" and "0 < ext b" and "i_ca_handle s0 = 0"
    and "\<And>n. Some n \<in> set (pid_outputs (p_pids s0 pid)) \<Longrightarrow> n < length (pp_outputs s0) \<and> p_eit_ts_buffer (pp_outputs s0 ! n) \<noteq> Some b"
  shows "\<exists>s'. ofold (handle_output B b ts pid) [0..<length (pid_outputs (p_pids s pid))] s = Some s'
    \<and> routed B b ext s0 (\<lambda>r. d r + (case r of Dup \<Rightarrow> 0 | Nth n \<Rightarrow>
        if pcr_wanted B ts pid (pp_outputs s0 ! n) then count_list (pid_outputs (p_pids s0 pid)) (Some n) else 0)) s'"
proof -
  define xs where "xs = pid_outputs (p_pids s0 pid)"
  define dd where "dd k = (\<lambda>r. d r + (case r of Dup \<Rightarrow> 0 | Nth n \<Rightarrow>
      if pcr_wanted B ts pid (pp_outputs s0 ! n) then count_list (take k xs) (Some n) else 0))" for k
  have "\<exists>s'. ofold (handle_output B b ts pid) [0..<length xs] s = Some s' \<and> routed B b ext s0 (dd (length xs)) s'"
  proof (rule ofold_upt)
    show "routed B b ext s0 (dd 0) s" using assms(1) by (rule routed_cong) (simp add: dd_def split: oref.split)
    fix i and u :: "'a dvbdemux_scheme"
    assume i: "i < length xs" and R: "routed B b ext s0 (dd i) u"
    have tk: "take (Suc i) xs = take i xs @ [xs ! i]" using i by (rule take_Suc_conv_app_nth)
    show "\<exists>s'. handle_output B b ts pid i u = Some s' \<and> routed B b ext s0 (dd (Suc i)) s'"
    proof (cases "xs ! i")
      case None
      have "dd (Suc i) = dd i" using None by (auto simp: dd_def fun_eq_iff tk split: oref.split)
      moreover have "pid_outputs (p_pids u pid) = xs" using routed_same(1) [OF R] by (simp add: xs_def)
      ultimately show ?thesis using R None by (simp add: handle_output_def)
    next
      case (Some n)
      then have n: "n < length (pp_outputs s0)" "p_eit_ts_buffer (pp_outputs s0 ! n) \<noteq> Some b"
        using assms(4) [of n] i nth_mem [of i xs] by (simp_all add: xs_def)
      have "(dd i)(Nth n := dd i (Nth n) + (if pcr_wanted B ts pid (pp_outputs s0 ! n) then 1 else 0)) = dd (Suc i)"
        using Some by (auto simp: dd_def fun_eq_iff tk split: oref.split)
      then show ?thesis using routed_output [OF R assms(2,3) Some [unfolded xs_def] n, of ts] by simp
    qed
  qed
  moreover have "pid_outputs (p_pids s pid) = xs" using routed_same(1) [OF assms(1)] by (simp add: xs_def)
  moreover have "dd (length xs) = (\<lambda>r. d r + (case r of Dup \<Rightarrow> 0 | Nth n \<Rightarrow>
      if pcr_wanted B ts pid (pp_outputs s0 ! n) then count_list xs (Some n) else 0))"
    unfolding dd_def by (simp only: take_all order_refl)
  ultimately show ?thesis by (simp only: xs_def)
qed

subsection \<open>One packet\<close>

text \<open>A packet no section is gathered from.\<close>

definition no_section :: "'b psi_lib_scheme \<Rightarrow> bytes \<Rightarrow> nat \<Rightarrow> 'a dvbdemux_scheme \<Rightarrow> bool" where
  "no_section B ts pid s \<longleftrightarrow> pid = TDT_PID B \<or> pid = RST_PID B
     \<or> i_psi_refcount (p_pids s pid) = 0 \<and> (i_delsysatsc s = 0 \<or> pid = PADDING_PID \<or> \<not> ts_has_payload B ts)"

text \<open>How often an output queues the packet: as a time table, as an EMM, as a stream of its own, as everything else.\<close>

fun psi_copies :: "'b psi_lib_scheme \<Rightarrow> bytes \<Rightarrow> nat \<Rightarrow> 'a dvbdemux_scheme \<Rightarrow> oref \<Rightarrow> nat" where
  "psi_copies B ts pid s Dup = 0"
| "psi_copies B ts pid s (Nth n) =
     (let p = pp_outputs s ! n in
      if ts_get_transporterror B ts then 0
      else (if (pid = TDT_PID B \<or> pid = RST_PID B) \<and> dvb_output p \<and> p_sdt_section p \<noteq> None then 1 else 0)
         + (if b_enable_emm s \<and> b_emm (p_pids s pid) \<and> out_valid p \<and> \<not> b_passthrough (config p) then 1 else 0))"

fun valid_copies :: "'b psi_lib_scheme \<Rightarrow> bytes \<Rightarrow> nat \<Rightarrow> 'a dvbdemux_scheme \<Rightarrow> oref \<Rightarrow> nat" where
  "valid_copies B ts pid s Dup = (if out_valid (output_dup s) then 1 else 0)"
| "valid_copies B ts pid s (Nth n) =
     (let p = pp_outputs s ! n in
      psi_copies B ts pid s (Nth n)
      + (if pcr_wanted B ts pid p then count_list (pid_outputs (p_pids s pid)) (Some n) else 0)
      + (if out_valid p \<and> b_passthrough (config p) then 1 else 0))"

declare psi_copies.simps(2) [simp del]
declare valid_copies.simps(2) [simp del]

definition copies :: "'b psi_lib_scheme \<Rightarrow> bytes \<Rightarrow> 'a dvbdemux_scheme \<Rightarrow> oref \<Rightarrow> nat" where
  "copies B ts s r = (if ts_validate B ts then valid_copies B ts (ts_get_pid B ts) s r else 0)"

lemma calm_stats: "calm s (handle_stats B ts pid s)"
  unfolding handle_stats_def Let_def by (rule calm_upd_pid) (simp_all split: if_splits)

lemma calm_timeout: "calm s (handle_es_timeout B ts pid s)"
proof (cases "i_es_timeout s = 0 \<or> packet_pes_status B ts = -1")
  case True
  then show ?thesis by (simp add: handle_es_timeout_def calm_def)
next
  case False
  then show ?thesis unfolding handle_es_timeout_def Let_def if_not_P [OF False] by (intro calm_upd_pid) simp_all
qed

lemma calm_info: "(\<And>i. calm s (upd_info pid f s)) "
  unfolding upd_info_def by (rule calm_upd_pid) simp_all

lemma calm_errors:
  assumes "get_pid_desc B pid 0 s \<noteq> None"
  shows "\<exists>s'. handle_errors B ts pid s = Some s' \<and> calm s s'"
proof -
  define s1 where "s1 = (if ts_get_transporterror B ts
        then (upd_info pid (\<lambda>i. i\<lparr>i_transport_errors := i_transport_errors i + 1\<rparr>) s)
                \<lparr>i_dmx_errors := i_dmx_errors s + 1, i_tuner_errors := i_tuner_errors s + 1, i_last_dmx_error := i_wallclock s\<rparr>
        else if i_wallclock s > i_last_dmx_error s + WATCHDOG_WAIT then s\<lparr>i_tuner_errors := 0\<rparr> else s)"
  have "calm s s1"
  proof (cases "ts_get_transporterror B ts")
    case True
    have "calm (upd_info pid f s) (upd_info pid f s\<lparr>i_dmx_errors := x, i_tuner_errors := y, i_last_dmx_error := z\<rparr>)" for f x y z
      by (simp add: calm_def route_def)
    then show ?thesis unfolding s1_def if_P [OF True] by (blast intro: calm_trans calm_info)
  qed (simp add: s1_def calm_def route_def)
  moreover have "calm s1 (if i_tuner_errors s1 > MAX_ERRORS then snd (sys_call DevReset (s1\<lparr>i_tuner_errors := 0\<rparr>)) else s1)"
    by (simp add: calm_def route_def sys_call_def Let_def)
  moreover have "handle_errors B ts pid s
      = Some (if i_tuner_errors s1 > MAX_ERRORS then snd (sys_call DevReset (s1\<lparr>i_tuner_errors := 0\<rparr>)) else s1)"
    using assms unfolding handle_errors_def s1_def by (cases "ts_get_transporterror B ts") auto
  ultimately show ?thesis by (blast intro: calm_trans)
qed

lemma calm_cc:
  assumes "get_pid_desc B pid 0 s \<noteq> None"
  shows "\<exists>s'. handle_cc B pid cc s = Some s' \<and> calm s s'"
proof -
  have "calm (upd_info pid f s) (upd_info pid f s\<lparr>i_nb_discontinuities := x\<rparr>)" for f x
    by (simp add: calm_def route_def)
  then have "calm s (upd_info pid f s\<lparr>i_nb_discontinuities := x\<rparr>)" for f x by (blast intro: calm_trans calm_info)
  moreover have "calm s s" by (simp add: calm_def)
  ultimately show ?thesis using assms by (auto simp: handle_cc_def Let_def)
qed

text \<open>Time tables and EMMs.\<close>

lemma routed_psi:
  fixes s :: "'a dvbdemux_scheme"
  assumes "routed B b ext s0 (\<lambda>_. 0) s" and "0 < ext b" and "ts_get_transporterror B ts \<or> no_section B ts pid s0"
  shows "\<exists>s'. handle_psi B b ts pid s = Some s' \<and> routed B b ext s0 (psi_copies B ts pid s0) s'"
proof (cases "ts_get_transporterror B ts")
  case True
  have "psi_copies B ts pid s0 = (\<lambda>_. 0)"
  proof
    show "psi_copies B ts pid s0 r = 0" for r using True by (cases r) (simp_all add: psi_copies.simps(2) Let_def)
  qed
  then show ?thesis using assms(1) True by (simp add: handle_psi_def)
next
  case te: False
  let ?t = "\<lambda>p. dvb_output p \<and> p_sdt_section p \<noteq> None" and ?e = "\<lambda>p. out_valid p \<and> \<not> b_passthrough (config p)"
  let ?tdt = "pid = TDT_PID B \<or> pid = RST_PID B"
  define d1 :: "oref \<Rightarrow> nat" where "d1 = (\<lambda>r. case r of Dup \<Rightarrow> 0 | Nth n \<Rightarrow> if ?tdt \<and> ?t (pp_outputs s0 ! n) then 1 else 0)"
  have T: "\<forall>p k q. taken B b p k q \<longrightarrow> ?t q = ?t p" "\<forall>p k q. taken B b p k q \<longrightarrow> ?e q = ?e p"
    by (simp_all add: taken_def dvb_output_def)
  have "\<exists>s1. (if ?tdt then SendTDT B b s else Some s) = Some s1 \<and> routed B b ext s0 d1 s1"
  proof (cases ?tdt)
    case True
    have "d1 = (\<lambda>r. 0 + (case r of Dup \<Rightarrow> 0 | Nth n \<Rightarrow> if ?t (pp_outputs s0 ! n) then 1 else 0))"
      using True by (auto simp: d1_def fun_eq_iff split: oref.split)
    then show ?thesis using routed_offer [OF assms(1,2), where Q = ?t, OF T(1)]
      unfolding SendTDT_def Let_def if_P [OF True] by (simp only:)
  next
    case False
    have "d1 = (\<lambda>_. 0)" using False by (auto simp: d1_def fun_eq_iff split: oref.split)
    then show ?thesis using assms(1) False by simp
  qed
  then obtain s1 where s1: "(if ?tdt then SendTDT B b s else Some s) = Some s1" "routed B b ext s0 d1 s1" by blast
  define d2 where "d2 = (\<lambda>r. d1 r + (case r of Dup \<Rightarrow> 0 | Nth n \<Rightarrow>
      if (b_enable_emm s0 \<and> b_emm (p_pids s0 pid)) \<and> ?e (pp_outputs s0 ! n) then 1 else 0))"
  have em: "(b_enable_emm s1 \<and> b_emm (p_pids s1 pid)) = (b_enable_emm s0 \<and> b_emm (p_pids s0 pid))"
    using routed_same [OF s1(2)] by simp
  have "\<exists>s2. (if b_enable_emm s1 \<and> b_emm (p_pids s1 pid) then SendEMM B b s1 else Some s1) = Some s2 \<and> routed B b ext s0 d2 s2"
  proof (cases "b_enable_emm s0 \<and> b_emm (p_pids s0 pid)")
    case True
    have "d2 = (\<lambda>r. d1 r + (case r of Dup \<Rightarrow> 0 | Nth n \<Rightarrow> if ?e (pp_outputs s0 ! n) then 1 else 0))"
      using True by (auto simp: d2_def fun_eq_iff split: oref.split)
    then show ?thesis using routed_offer [OF s1(2) assms(2), where Q = ?e, OF T(2)]
      unfolding em SendEMM_def Let_def if_P [OF True] by (simp only:)
  next
    case False
    have "d2 = d1" using False by (auto simp: d2_def fun_eq_iff split: oref.split)
    then show ?thesis using s1(2) unfolding em if_not_P [OF False] by simp
  qed
  then obtain s2 where s2: "(if b_enable_emm s1 \<and> b_emm (p_pids s1 pid) then SendEMM B b s1 else Some s1) = Some s2"
    "routed B b ext s0 d2 s2" by blast
  have ns: "no_section B ts pid s" using routed_same [OF assms(1)] assms(3) te by (simp add: no_section_def)
  have "(if ?tdt then SendTDT B b s
         else if i_psi_refcount (p_pids s pid) \<noteq> 0 then HandlePSIPacket B ts (bk_dts (mem s b)) s
         else if i_delsysatsc s \<noteq> 0 \<and> pid \<noteq> PADDING_PID \<and> ts_has_payload B ts
         then HandlePSIPacket B ts (bk_dts (mem s b)) s else Some s) = Some s1"
    unfolding s1(1) [symmetric] using ns by (cases ?tdt) (auto simp: no_section_def)
  then have H: "handle_psi B b ts pid s = Some s2"
    unfolding handle_psi_def if_not_P [OF te] by (simp only: bind.simps s2(1))
  have "d2 = psi_copies B ts pid s0"
  proof
    show "d2 r = psi_copies B ts pid s0 r" for r
      using te by (cases r) (auto simp: d2_def d1_def psi_copies.simps(2) Let_def)
  qed
  from s2(2) [unfolded this] show ?thesis by (intro exI [of _ s2] conjI H)
qed

text \<open>Letting go of the block, whose last references are then those of the queues.\<close>

definition delivered ::
  "'b psi_lib_scheme \<Rightarrow> nat \<Rightarrow> (nat \<Rightarrow> nat) \<Rightarrow> 'a dvbdemux_scheme \<Rightarrow> (oref \<Rightarrow> nat) \<Rightarrow> 'a dvbdemux_scheme \<Rightarrow> bool" where
  "delivered B b ext s d t \<longleftrightarrow> routed B b (ext(b := 0)) s d t"

lemma heap_only_route: "heap_only s s' \<Longrightarrow> route s' = route s"
  unfolding heap_only_def by (elim exE, hypsubst, simp add: route_def)

lemma Delete_mem:
  assumes "block_Delete b s = Some s'"
  shows "mem s' = mem s"
proof (cases "CLDVB_MAX_BLOCKS \<le> i_block_count s")
  case True
  with assms have "s' = s\<lparr>allocd := (allocd s)(b := False)\<rparr>"
    by (auto simp: block_Delete_def c_free_def split: if_splits)
  then show ?thesis by simp
next
  case False
  with assms have "s' = s\<lparr>p_block_lifo := b # p_block_lifo s, i_block_count := Suc (i_block_count s)\<rparr>"
    by (auto simp: block_Delete_def)
  then show ?thesis by simp
qed

lemma Release_bytes: "block_Release b s = Some s' \<Longrightarrow> bk_ts (mem s' x) = bk_ts (mem s x)"
  by (auto simp: block_Release_def Let_def upd_block_def dest!: Delete_mem split: if_splits)

lemma routed_heap_only:
  assumes "routed B b ext s0 d s" and "heap_only s s'" and "heap_ok ext' s'" and "\<And>x. bk_ts (mem s' x) = bk_ts (mem s x)"
  shows "routed B b ext' s0 d s'"
  using assms heap_only_route [OF assms(2)] heap_only_outputs(1,3) [OF assms(2)] by (simp add: routed_def)

lemma routed_release:
  fixes s :: "'a dvbdemux_scheme"
  assumes "routed B b ext s0 d s" and "ext b = 1"
  shows "\<exists>s'. block_Release b s = Some s' \<and> delivered B b ext s0 d s'"
proof -
  have ag: "pool.agrees (\<lambda>x. refs s x + ext x) s" using assms(1) by (simp add: routed_def heap_ok_def)
  have "0 < refs s b + ext b" using assms(2) by simp
  from pool.release_agrees [OF ag this] obtain s' where R: "block_Release b s = Some s'"
    "pool.agrees ((\<lambda>x. refs s x + ext x)(b := refs s b + ext b - 1)) s'" by blast
  note ho = heap_only_Release [OF R(1)]
  have "(\<lambda>x. refs s x + ext x)(b := refs s b + ext b - 1) = (\<lambda>x. refs s' x + (ext(b := 0)) x)"
    using assms(2) heap_only_refs [OF ho] by (auto simp: fun_eq_iff)
  then have "heap_ok (ext(b := 0)) s'" using R(2) by (simp add: heap_ok_def)
  then show ?thesis unfolding delivered_def
    using R(1) routed_heap_only [OF assms(1) ho _ Release_bytes [OF R(1)]] by blast
qed

text \<open>A packet that is no packet goes back to the pool at once.\<close>

lemma routed_delete:
  fixes s :: "'a dvbdemux_scheme"
  assumes "routed B b ext s0 d s" and "ext b = 1" and "refs s b = 0"
  shows "\<exists>s'. block_Delete b s = Some s' \<and> delivered B b ext s0 d s'"
proof -
  have ag: "pool.agrees (\<lambda>x. refs s x + ext x) s" using assms(1) by (simp add: routed_def heap_ok_def)
  then have "pool_ok s" "live s b" using assms(2,3) by (simp_all add: pool.agrees_def)
  from block_Delete_spec [OF this] obtain s' where D: "block_Delete b s = Some s'" "pool_ok s'"
    "live s' = (live s)(b := False)" "block_ref s' = block_ref s" by blast
  note ho = heap_only_Delete [OF D(1)]
  have "heap_ok (ext(b := 0)) s'"
    using ag D(2-) assms(3) heap_only_refs [OF ho] by (auto simp: heap_ok_def pool.agrees_def)
  then show ?thesis unfolding delivered_def
    using D(1) routed_heap_only [OF assms(1) ho _] Delete_mem [OF D(1)] by simp
qed

lemma refs_positive: "0 < refs s b \<longleftrightarrow> (\<exists>r. oref_ok s r \<and> 0 < out_refs (out_at s r) b)"
proof
  assume "0 < refs s b"
  then consider "0 < out_refs (output_dup s) b" | "0 < sum_list (map (\<lambda>p. out_refs p b) (pp_outputs s))"
    by (auto simp: refs_def)
  then show "\<exists>r. oref_ok s r \<and> 0 < out_refs (out_at s r) b"
  proof cases
    case 1
    then show ?thesis by (intro exI [of _ Dup]) simp
  next
    case 2
    then obtain p where "p \<in> set (pp_outputs s)" "0 < out_refs p b"
      by (metis (no_types, lifting) bot_nat_0.not_eq_extremum image_iff list.set_map sum_list_eq_0_iff)
    then obtain n where "n < length (pp_outputs s)" "pp_outputs s ! n = p" by (auto simp: in_set_conv_nth)
    then show ?thesis using \<open>0 < out_refs p b\<close> by (intro exI [of _ "Nth n"]) simp
  qed
next
  assume "\<exists>r. oref_ok s r \<and> 0 < out_refs (out_at s r) b"
  then show "0 < refs s b" using out_refs_le order.strict_trans2 by blast
qed

lemma taken_refs:
  assumes "taken B b p k q" and "out_refs p b = 0"
  shows "out_refs q b = k"
  using assms by (auto simp: taken_def out_refs_def split: if_splits)

text \<open>The first half of \<open>demux_Handle\<close>: counters, continuity, errors, the time-out.\<close>

lemma routed_before:
  fixes s :: "'a dvbdemux_scheme"
  assumes "heap_ok ext s" and "\<forall>r. oref_ok s r \<longrightarrow> out_wf B (out_at s r)" and "get_pid_desc B pid 0 s \<noteq> None"
  shows "\<exists>s2 s3 s4. handle_stats B ts pid (s\<lparr>i_nb_packets := i_nb_packets s + 1\<rparr>) = s2 \<and> handle_cc B pid cc s2 = Some s3
    \<and> handle_errors B ts pid s3 = Some s4 \<and> routed B b ext s (\<lambda>_. 0) (handle_es_timeout B ts pid s4)"
proof -
  define s1 where "s1 = s\<lparr>i_nb_packets := i_nb_packets s + 1\<rparr>"
  define s2 where "s2 = handle_stats B ts pid s1"
  have known: "calm s u \<Longrightarrow> get_pid_desc B pid 0 u \<noteq> None" for u
    using route_same(7) [of u s B pid 0] assms(3) by (simp add: calm_def)
  have 2: "calm s s2" unfolding s2_def
    by (rule calm_trans [OF _ calm_stats]) (simp add: s1_def calm_def route_def)
  obtain s3 where s3: "handle_cc B pid cc s2 = Some s3" "calm s s3"
    using calm_cc [OF known [OF 2]] calm_trans [OF 2] by blast
  obtain s4 where s4: "handle_errors B ts pid s3 = Some s4" "calm s s4"
    using calm_errors [OF known [OF s3(2)]] calm_trans [OF s3(2)] by blast
  then have "calm s (handle_es_timeout B ts pid s4)" by (blast intro: calm_trans calm_timeout)
  then have "routed B b ext s (\<lambda>_. 0) (handle_es_timeout B ts pid s4)"
    by (rule routed_calm [rotated]) (rule routed_start, use assms(1,2) in auto)
  then show ?thesis using s3(1) s4(1) s2_def s1_def by blast
qed

text \<open>The second half: the queues.\<close>

lemma routed_queues:
  fixes s :: "'a dvbdemux_scheme"
  assumes "routed B b ext s (psi_copies B ts pid s) s6" and "0 < ext b" and "i_ca_handle s = 0"
    and "\<And>n. Some n \<in> set (pid_outputs (p_pids s pid)) \<Longrightarrow> n < length (pp_outputs s) \<and> p_eit_ts_buffer (pp_outputs s ! n) \<noteq> Some b"
  shows "\<exists>s7 s8 s9. ofold (handle_output B b ts pid) [0..<length (pid_outputs (p_pids s6 pid))] s6 = Some s7
    \<and> for_outputs (handle_passthrough B b) s7 = Some s8
    \<and> (if out_valid (output_dup s8) then output_Put B Dup b s8 else Some s8) = Some s9
    \<and> routed B b ext s (valid_copies B ts pid s) s9"
proof -
  have "\<exists>s'. ofold (handle_output B b ts pid) [0..<length (pid_outputs (p_pids s6 pid))] s6 = Some s'
    \<and> routed B b ext s (\<lambda>r. psi_copies B ts pid s r + (case r of Dup \<Rightarrow> 0 | Nth n \<Rightarrow>
        if pcr_wanted B ts pid (pp_outputs s ! n) then count_list (pid_outputs (p_pids s pid)) (Some n) else 0)) s'"
    by (rule routed_outputs [OF assms(1-3)]) (rule assms(4))
  then obtain s7 d7 where
    s7: "ofold (handle_output B b ts pid) [0..<length (pid_outputs (p_pids s6 pid))] s6 = Some s7"
    and R7: "routed B b ext s d7 s7"
    and d7: "d7 Dup = 0" "\<And>n. d7 (Nth n) + (if out_valid (pp_outputs s ! n) \<and> b_passthrough (config (pp_outputs s ! n)) then 1 else 0)
      = valid_copies B ts pid s (Nth n)"
    by (auto simp: Let_def valid_copies.simps(2))
  have "\<forall>p k q. taken B b p k q \<longrightarrow> (out_valid q \<and> b_passthrough (config q)) = (out_valid p \<and> b_passthrough (config p))"
    by (simp add: taken_def)
  from routed_offer [OF R7 assms(2) this] obtain s8 d8 where s8: "for_outputs (handle_passthrough B b) s7 = Some s8"
    and R8: "routed B b ext s d8 s8" and d8: "d8 Dup = 0" "\<And>n. d8 (Nth n) = valid_copies B ts pid s (Nth n)"
    unfolding handle_passthrough_def Let_def using d7 by (auto simp del: valid_copies.simps(2))
  have dup: "out_valid (output_dup s8) = out_valid (output_dup s)"
    using routed_taken [OF R8, of Dup] by (simp add: taken_def)
  have eq: "(if out_valid (output_dup s) then d8(Dup := Suc (d8 Dup)) else d8) = valid_copies B ts pid s"
  proof
    show "(if out_valid (output_dup s) then d8(Dup := Suc (d8 Dup)) else d8) r = valid_copies B ts pid s r" for r
      using d8 by (cases r) (simp_all del: valid_copies.simps(2))
  qed
  have "\<exists>s9. (if out_valid (output_dup s8) then output_Put B Dup b s8 else Some s8) = Some s9
      \<and> routed B b ext s (valid_copies B ts pid s) s9"
    using routed_put [OF R8 _ assms(2), of Dup] R8 dup eq by (cases "out_valid (output_dup s)") auto
  then show ?thesis using s7 s8 by blast
qed

text \<open>A packet of which nothing is asked but its way: on a known PID, gathering no section.\<close>

definition plain :: "'b psi_lib_scheme \<Rightarrow> bytes \<Rightarrow> 'a dvbdemux_scheme \<Rightarrow> bool" where
  "plain B ts s \<longleftrightarrow> (let pid = ts_get_pid B ts in
     pid < MAX_PIDS \<and> (ts_get_transporterror B ts \<or> no_section B ts pid s) \<and> get_pid_desc B pid 0 s \<noteq> None
     \<and> list_all (\<lambda>e. case e of None \<Rightarrow> True | Some n \<Rightarrow> n < length (pp_outputs s)) (pid_outputs (p_pids s pid)))"

lemma Handle_plain:
  fixes s :: "'a dvbdemux_scheme"
  assumes "heap_ok ext s" and "ext b = 1" and "refs s b = 0" and "\<forall>r. oref_ok s r \<longrightarrow> out_wf B (out_at s r)"
    and "i_ca_handle s = 0" and "plain B (bk_ts (mem s b)) s"
  shows "\<exists>t. demux_Handle B b s = Some t \<and> delivered B b ext s (copies B (bk_ts (mem s b)) s) t"
proof -
  define ts where "ts = bk_ts (mem s b)"
  define pid where "pid = ts_get_pid B ts"
  have pl: "pid < MAX_PIDS" "ts_get_transporterror B ts \<or> no_section B ts pid s" "get_pid_desc B pid 0 s \<noteq> None"
    "\<And>n. Some n \<in> set (pid_outputs (p_pids s pid)) \<Longrightarrow> n < length (pp_outputs s)"
    using assms(6) by (auto simp: plain_def Let_def ts_def pid_def list_all_iff)
  have al: "allocd s b" using agrees_allocd [of "\<lambda>x. refs s x + ext x" s b] assms(1,2) by (simp add: heap_ok_def)
  show ?thesis
  proof (cases "ts_validate B ts")
    case True
    have e: "0 < ext b" using assms(2) by simp
    obtain s2 s3 s4 where S: "handle_stats B ts pid (s\<lparr>i_nb_packets := i_nb_packets s + 1\<rparr>) = s2"
      "handle_cc B pid (ts_get_cc B ts) s2 = Some s3" "handle_errors B ts pid s3 = Some s4"
      and R4: "routed B b ext s (\<lambda>_. 0) (handle_es_timeout B ts pid s4)"
      using routed_before [OF assms(1,4) pl(3)] by blast
    from routed_psi [OF R4 e pl(2)] obtain s5 where s5: "handle_psi B b ts pid (handle_es_timeout B ts pid s4) = Some s5"
      and R5: "routed B b ext s (psi_copies B ts pid s) s5" by blast
    define s6 where "s6 = upd_pid pid (\<lambda>p. p\<lparr>i_last_cc := int (ts_get_cc B ts)\<rparr>) s5"
    have "calm s5 s6" unfolding s6_def by (rule calm_upd_pid) simp_all
    note R6 = routed_calm [OF R5 this]
    have "n < length (pp_outputs s) \<and> p_eit_ts_buffer (pp_outputs s ! n) \<noteq> Some b"
      if "Some n \<in> set (pid_outputs (p_pids s pid))" for n
      using pl(4) [OF that] out_refs_le [of s "Nth n" b] assms(3) by (auto simp: out_refs_def)
    from routed_queues [OF R6 e assms(5) this] obtain s7 s8 s9 where
      Q: "ofold (handle_output B b ts pid) [0..<length (pid_outputs (p_pids s6 pid))] s6 = Some s7"
      "for_outputs (handle_passthrough B b) s7 = Some s8" "(if out_valid (output_dup s8) then output_Put B Dup b s8 else Some s8) = Some s9"
      and R9: "routed B b ext s (valid_copies B ts pid s) s9" by blast
    have "valid_copies B ts pid s = copies B ts s" using True by (auto simp: copies_def fun_eq_iff pid_def)
    then obtain t where t: "block_Release b s9 = Some t" "delivered B b ext s (copies B ts s) t"
      using routed_release [OF R9 assms(2)] by auto
    have po: "pid_outputs (p_pids s6 pid) = pid_outputs (p_pids s5 pid)" by (simp add: s6_def upd_pid_def)
    have "demux_Handle B b s = Some t"
      using True pl(1) S(1) unfolding demux_Handle_def Let_def ts_def [symmetric] pid_def [symmetric]
      by (simp add: get_pid_def al S(2,3) s5 flip: s6_def) (simp add: Q(1) [unfolded po] Q(2,3) t(1))
    then show ?thesis using t(2) by (simp add: ts_def)
  next
    case False
    define s1 where "s1 = s\<lparr>i_nb_packets := Suc (i_nb_packets s)\<rparr>"
    have "calm s s1" by (simp add: calm_def route_def s1_def)
    then have R: "routed B b ext s (\<lambda>_. 0) s1" by (rule routed_calm [rotated]) (rule routed_start, use assms(1,4) in auto)
    have "refs s1 = refs s" by (rule refs_outputs) (simp_all add: s1_def)
    then obtain t where t: "block_Delete b s1 = Some t" "delivered B b ext s (\<lambda>_. 0) t"
      using routed_delete [OF R assms(2)] assms(3) by auto
    define u where "u = t\<lparr>i_nb_invalids := i_nb_invalids t + 1\<rparr>"
    have "calm t u" by (simp add: calm_def route_def u_def)
    then have "delivered B b ext s (\<lambda>_. 0) u" using t(2) unfolding delivered_def by (rule routed_calm [rotated])
    moreover have "copies B ts s = (\<lambda>_. 0)" using False by (simp add: copies_def fun_eq_iff)
    moreover have "demux_Handle B b s = Some u"
      using False pl(1) t(1) unfolding demux_Handle_def Let_def ts_def [symmetric] pid_def [symmetric]
      by (simp add: get_pid_def al u_def s1_def)
    ultimately show ?thesis by (simp add: ts_def)
  qed
qed

subsection \<open>A read from the device\<close>

text \<open>
  What became of an output when a list of blocks has gone by: those it took are behind what was queued before, in the
  order of the list.
\<close>

definition moved :: "'b ts_lib_scheme \<Rightarrow> nat list \<Rightarrow> output_st \<Rightarrow> (nat \<Rightarrow> nat) \<Rightarrow> output_st \<Rightarrow> bool" where
  "moved B bs p k p' \<longleftrightarrow> out_wf B p' \<and> config p' = config p \<and> i_pcr_pid p' = i_pcr_pid p
     \<and> p_sdt_section p' = p_sdt_section p \<and> p_eit_ts_buffer p' \<in> {p_eit_ts_buffer p, None}
     \<and> (\<exists>ds. queued p' = queued p @ ds \<and> set ds \<subseteq> set bs \<union> set_option (p_eit_ts_buffer p)
          \<and> filter (\<lambda>x. x \<in> set bs) ds = concat (map (\<lambda>b. replicate (k b) b) bs))"

lemma filter_only: "set ds \<subseteq> insert b E \<Longrightarrow> P b \<Longrightarrow> (\<And>x. x \<in> E \<Longrightarrow> \<not> P x) \<Longrightarrow> filter P ds = replicate (count_list ds b) b"
  by (induction ds) auto

lemma moved_refs:
  assumes "moved B bs p k p'" and "b \<in> set bs" and "out_refs p b = 0"
  shows "0 < out_refs p' b \<longleftrightarrow> 0 < k b"
proof -
  obtain ds where ds: "queued p' = queued p @ ds" "filter (\<lambda>x. x \<in> set bs) ds = concat (map (\<lambda>b. replicate (k b) b) bs)"
    and e: "p_eit_ts_buffer p' \<noteq> Some b"
    using assms(1,3) by (auto simp: moved_def out_refs_def split: if_splits)
  have c: "out_refs p' b = count_list ds b" using ds(1) e assms(3) by (auto simp: out_refs_def split: if_splits)
  have "b \<in> set ds \<longleftrightarrow> b \<in> set (filter (\<lambda>x. x \<in> set bs) ds)" using assms(2) by simp
  also have "\<dots> \<longleftrightarrow> 0 < k b" unfolding ds(2) using assms(2) by auto
  finally show ?thesis unfolding c by (simp add: count_list_0_iff flip: neq0_conv)
qed

lemma moved_cong:
  assumes "moved B bs p k q" and "\<And>x. x \<in> set bs \<Longrightarrow> k x = k' x"
  shows "moved B bs p k' q"
proof -
  have "map (\<lambda>b. replicate (k b) b) bs = map (\<lambda>b. replicate (k' b) b) bs" using assms(2) by simp
  then show ?thesis using assms(1) by (simp only: moved_def)
qed

lemma moved_Nil: "out_wf B p \<Longrightarrow> moved B [] p k p"
  by (simp add: moved_def)

lemma moved_Cons:
  assumes "taken B b p (k b) q" and "moved B bs q k p'" and "b \<notin> set bs" and "\<And>x. x \<in> set (b # bs) \<Longrightarrow> p_eit_ts_buffer p \<noteq> Some x"
  shows "moved B (b # bs) p k p'"
proof -
  obtain ds1 where 1: "queued q = queued p @ ds1" "set ds1 \<subseteq> insert b (set_option (p_eit_ts_buffer p))" "count_list ds1 b = k b"
    using assms(1) by (auto simp: taken_def)
  obtain ds2 where 2: "queued p' = queued q @ ds2" "set ds2 \<subseteq> set bs \<union> set_option (p_eit_ts_buffer q)"
    "filter (\<lambda>x. x \<in> set bs) ds2 = concat (map (\<lambda>b. replicate (k b) b) bs)"
    using assms(2) by (auto simp: moved_def)
  have q: "set_option (p_eit_ts_buffer q) \<subseteq> set_option (p_eit_ts_buffer p)" using assms(1) by (auto simp: taken_def)
  have "filter (\<lambda>x. x \<in> set (b # bs)) ds1 = replicate (k b) b"
    unfolding 1(3) [symmetric]
  proof (rule filter_only [OF 1(2)])
    show "x \<notin> set (b # bs)" if "x \<in> set_option (p_eit_ts_buffer p)" for x
      using assms(4) [of x] that by (cases "x \<in> set (b # bs)") simp_all
  qed simp
  moreover have "b \<notin> set ds2" using 2(2) q assms(3) assms(4) [of b] by auto
  then have "filter (\<lambda>x. x \<in> set (b # bs)) ds2 = filter (\<lambda>x. x \<in> set bs) ds2" by (auto intro: filter_cong)
  ultimately have "filter (\<lambda>x. x \<in> set (b # bs)) (ds1 @ ds2) = concat (map (\<lambda>b. replicate (k b) b) (b # bs))"
    using 2(3) by simp
  moreover have "queued p' = queued p @ (ds1 @ ds2)" using 1(1) 2(1) by simp
  moreover have "set (ds1 @ ds2) \<subseteq> set (b # bs) \<union> set_option (p_eit_ts_buffer p)" using 1(2) 2(2) q by auto
  moreover have "config p' = config p" "out_wf B p'" "i_pcr_pid p' = i_pcr_pid p" "p_sdt_section p' = p_sdt_section p"
    "p_eit_ts_buffer p' \<in> {p_eit_ts_buffer p, None}"
    using assms(1,2) by (auto simp: taken_def moved_def)
  ultimately show ?thesis unfolding moved_def by blast
qed

text \<open>One packet more: the routing of the others is what it was, and nothing refers to them yet.\<close>

lemma routed_pending:
  fixes s :: "'a dvbdemux_scheme"
  assumes "routed B b ext s d t" and "refs s x = 0" and "x \<noteq> b"
  shows "refs t x = 0" and "bk_ts (mem t x) = bk_ts (mem s x)"
proof -
  have no: "out_refs (out_at s r) x = 0" if "oref_ok s r" for r using out_refs_le [OF that, of x] assms(2) by simp
  have "out_refs (out_at t r) x = 0" if "oref_ok s r" for r
    using routed_taken [OF assms(1) that] no [OF that] assms(3)
    by (auto simp: taken_def out_refs_def count_list_0_iff split: if_splits)
  then show "refs t x = 0" using refs_positive [of t x] routed_oref [OF assms(1)] by auto
  have "\<not> eit_block s x"
  proof
    assume "eit_block s x"
    then obtain r where "oref_ok s r" "p_eit_ts_buffer (out_at s r) = Some x" by (auto simp: eit_block_def)
    then show False using no [of r] by (simp add: out_refs_def)
  qed
  then show "bk_ts (mem t x) = bk_ts (mem s x)" using assms(1) by (simp add: routed_def)
qed

lemma routed_plain:
  fixes s :: "'a dvbdemux_scheme"
  assumes "routed B b ext s d t"
  shows "oref_ok s r \<Longrightarrow> copies B ts t r = copies B ts s r" and "plain B ts t = plain B ts s" and "i_ca_handle t = i_ca_handle s"
proof -
  note R = assms
  then have len: "length (pp_outputs t) = length (pp_outputs s)" and rt: "route t = route s" by (simp_all add: routed_def)
  note same = route_same [OF rt]
  show "copies B ts t r = copies B ts s r" if "oref_ok s r"
  proof (cases r)
    case Dup
    then show ?thesis using routed_taken [OF R, of Dup] by (simp add: copies_def taken_def)
  next
    case (Nth n)
    then have "taken B b (pp_outputs s ! n) (d r) (pp_outputs t ! n)" using routed_taken [OF R that] by simp
    then show ?thesis using Nth same(1,2,4)
      by (simp add: copies_def valid_copies.simps(2) psi_copies.simps(2) Let_def pcr_wanted_def dvb_output_def taken_def)
  qed
  show "plain B ts t = plain B ts s"
    unfolding plain_def Let_def no_section_def len same(1,3,6,7) ..
  show "i_ca_handle t = i_ca_handle s" by (rule same(5))
qed

lemma Handle_all:
  fixes s :: "'a dvbdemux_scheme"
  assumes "heap_ok ext s" and "distinct bs" and "\<And>b. b \<in> set bs \<Longrightarrow> ext b = 1 \<and> refs s b = 0 \<and> plain B (bk_ts (mem s b)) s"
    and "\<forall>r. oref_ok s r \<longrightarrow> out_wf B (out_at s r)" and "i_ca_handle s = 0"
  shows "\<exists>t. ofold (demux_Handle B) bs s = Some t \<and> heap_ok (\<lambda>x. if x \<in> set bs then 0 else ext x) t
    \<and> length (pp_outputs t) = length (pp_outputs s)
    \<and> (\<forall>r. oref_ok s r \<longrightarrow> moved B bs (out_at s r) (\<lambda>b. copies B (bk_ts (mem s b)) s r) (out_at t r))"
  using assms
proof (induction bs arbitrary: s ext)
  case Nil
  then show ?case by (simp add: moved_Nil)
next
  case (Cons b bs)
  have b: "ext b = 1" "refs s b = 0" "plain B (bk_ts (mem s b)) s" "b \<notin> set bs" "distinct bs" using Cons.prems(2,3) by auto
  from Handle_plain [OF Cons.prems(1) b(1,2) Cons.prems(4,5) b(3)] obtain t where
    H: "demux_Handle B b s = Some t" and D: "delivered B b ext s (copies B (bk_ts (mem s b)) s) t" by blast
  have R: "routed B b (ext(b := 0)) s (copies B (bk_ts (mem s b)) s) t" using D by (simp add: delivered_def)
  have pend: "(ext(b := 0)) x = 1 \<and> refs t x = 0 \<and> bk_ts (mem t x) = bk_ts (mem s x) \<and> plain B (bk_ts (mem t x)) t" if "x \<in> set bs" for x
  proof -
    have x: "ext x = 1" "refs s x = 0" "plain B (bk_ts (mem s x)) s" "x \<noteq> b" using Cons.prems(3) [of x] that b(4) by auto
    show ?thesis using routed_pending [OF R x(2,4)] routed_plain(2) [OF R] x by simp
  qed
  have "heap_ok (ext(b := 0)) t" using R by (simp add: routed_def)
  moreover have "\<forall>r. oref_ok t r \<longrightarrow> out_wf B (out_at t r)"
    using routed_taken [OF R] routed_oref [OF R] by (simp add: taken_def)
  moreover have "i_ca_handle t = 0" using routed_plain(3) [OF R] Cons.prems(5) by simp
  ultimately obtain u where u: "ofold (demux_Handle B) bs t = Some u"
    "heap_ok (\<lambda>x. if x \<in> set bs then 0 else (ext(b := 0)) x) u" "length (pp_outputs u) = length (pp_outputs t)"
    "\<forall>r. oref_ok t r \<longrightarrow> moved B bs (out_at t r) (\<lambda>b. copies B (bk_ts (mem t b)) t r) (out_at u r)"
    using Cons.IH [OF _ b(5), of "ext(b := 0)" t] pend by blast
  have "moved B (b # bs) (out_at s r) (\<lambda>b. copies B (bk_ts (mem s b)) s r) (out_at u r)" if r: "oref_ok s r" for r
  proof (rule moved_Cons [OF _ _ b(4)])
    show "taken B b (out_at s r) (copies B (bk_ts (mem s b)) s r) (out_at t r)" by (rule routed_taken [OF R r])
    have "copies B (bk_ts (mem t x)) t r = copies B (bk_ts (mem s x)) s r" if "x \<in> set bs" for x
      using pend [OF that] routed_plain(1) [OF R r] by simp
    then show "moved B bs (out_at t r) (\<lambda>b. copies B (bk_ts (mem s b)) s r) (out_at u r)"
      using u(4) r routed_oref [OF R] by (blast intro: moved_cong)
    show "p_eit_ts_buffer (out_at s r) \<noteq> Some x" if "x \<in> set (b # bs)" for x
      using Cons.prems(3) [OF that] out_refs_le [OF r, of x] by (auto simp: out_refs_def)
  qed
  moreover have "(\<lambda>x. if x \<in> set bs then 0 else (ext(b := 0)) x) = (\<lambda>x. if x \<in> set (b # bs) then 0 else ext x)"
    by (auto simp: fun_eq_iff)
  ultimately show ?case using H u(1-3) R by (simp add: routed_def)
qed

text \<open>The time stamps of a read touch nothing else.\<close>

lemma stamps_frame:
  fixes s :: "'a dvbdemux_scheme" and g :: "nat \<Rightarrow> mtime" and xs :: "(nat \<times> nat) list"
  defines "t \<equiv> fold (\<lambda>(k, b). upd_block b (\<lambda>x. x\<lparr>bk_dts := g k\<rparr>)) xs s"
  shows "heap_only s t" and "bk_ts (mem t x) = bk_ts (mem s x)" and "pool.agrees c t = pool.agrees c s"
proof -
  have "heap_only s t \<and> bk_ts (mem t x) = bk_ts (mem s x) \<and> pool.agrees c t = pool.agrees c s" unfolding t_def
  proof (induction xs arbitrary: s)
    case (Cons y ys)
    obtain k b where y: "y = (k, b)" by (cases y)
    define u where "u = upd_block b (\<lambda>x. x\<lparr>bk_dts := g k\<rparr>) s"
    have "heap_only s u" "bk_ts (mem u x) = bk_ts (mem s x)" "pool.agrees c u = pool.agrees c s"
      by (simp_all add: u_def agrees_upd_block) (simp add: upd_block_def)
    then show ?case using Cons.IH [of u] y heap_only_trans by (auto simp flip: u_def)
  qed simp
  then show "heap_only s t" and "bk_ts (mem t x) = bk_ts (mem s x)" and "pool.agrees c t = pool.agrees c s" by blast+
qed

lemma SetDTS_routed:
  fixes s :: "'a dvbdemux_scheme"
  assumes "heap_ok ext s" and "\<forall>r. oref_ok s r \<longrightarrow> out_wf B (out_at s r)"
  shows "routed B b ext s (\<lambda>_. 0) (SetDTS bs s)" and "refs (SetDTS bs s) = refs s"
    and "bk_ts (mem (SetDTS bs s) x) = bk_ts (mem s x)"
proof -
  define f where "f = dts_of (i_wallclock s) (if i_last_dts s = -1 then 0 else i_wallclock s - i_last_dts s) (length bs)"
  define t where "t = fold (\<lambda>(k, b). upd_block b (\<lambda>x. x\<lparr>bk_dts := f k\<rparr>)) (enumerate 0 bs) s"
  note fr = stamps_frame [where s = s and g = f and xs = "enumerate 0 bs", folded t_def]
  have "heap_ok ext t"
    using assms(1) fr(3) [of "\<lambda>b. refs s b + ext b"] heap_only_refs [OF fr(1)] by (simp add: heap_ok_def)
  moreover have "routed B b ext s (\<lambda>_. 0) s" by (rule routed_start) (use assms in auto)
  ultimately have "routed B b ext s (\<lambda>_. 0) t" using routed_heap_only fr(1,2) by metis
  moreover have S: "SetDTS bs s = t\<lparr>i_last_dts := i_wallclock s\<rparr>" by (simp add: SetDTS_def Let_def t_def f_def)
  moreover have "calm t (t\<lparr>i_last_dts := i_wallclock s\<rparr>)" by (simp add: calm_def route_def)
  ultimately show "routed B b ext s (\<lambda>_. 0) (SetDTS bs s)" by (metis routed_calm)
  have "refs (SetDTS bs s) = refs t" by (rule refs_outputs) (simp_all add: S)
  then show "refs (SetDTS bs s) = refs s" using heap_only_refs [OF fr(1)] by simp
  show "bk_ts (mem (SetDTS bs s) x) = bk_ts (mem s x)" using fr(2) [of x] by (simp add: S)
qed

lemma SetDTS_outputs:
  fixes s :: "'a dvbdemux_scheme"
  shows "pp_outputs (SetDTS bs s) = pp_outputs s" and "output_dup (SetDTS bs s) = output_dup s"
proof -
  define f where "f = dts_of (i_wallclock s) (if i_last_dts s = -1 then 0 else i_wallclock s - i_last_dts s) (length bs)"
  note fr = heap_only_outputs(1,2) [OF stamps_frame(1) [where s = s and g = f and xs = "enumerate 0 bs"]]
  show "pp_outputs (SetDTS bs s) = pp_outputs s" "output_dup (SetDTS bs s) = output_dup s"
    using fr by (simp_all add: SetDTS_def Let_def f_def)
qed

end
