(* ===== verification/Dvb_PathClaims.thy ===== *)
theory Dvb_PathClaims
  imports Dvb_Path Dvb_DemuxClaims
begin

text \<open>
  What a read from the device leaves in the queues of the outputs. \<open>ex_arrival\<close> is a demultiplexer
  with three packets in hand.
\<close>

text \<open>C2 The outputs get what they are for, complete and in the order of the stream: a read whose packets gather no sections (no
  module present) returns, and what an output queues of it is, packet by packet, exactly the copies the routing says: one as a time table
  for a DVB output that sends an SDT, one as an EMM when these are passed on (neither of a packet with a transport error), one for each
  entry of the PID's list (on the PCR's PID only if the packet carries a PCR), one when the output passes everything
  through, one for the duplicate, and none of what is no packet. Beside these only the block an output's EIT sections
  were gathered in is queued; all reference counts stay exact, and a block no output wanted is back in the pool.\<close>

theorem Run_in_order:
  fixes s :: "'a dvbdemux_scheme"
  assumes "heap_ok ext s" and "distinct bs" and "\<forall>b \<in> set bs. ext b = 1 \<and> refs s b = 0 \<and> plain B (bk_ts (mem s b)) s"
    and "\<forall>r. oref_ok s r \<longrightarrow> out_wf B (out_at s r)" and "i_ca_handle s = 0"
  shows "\<exists>t. demux_Run B bs s = Some t \<and> heap_ok (\<lambda>x. if x \<in> set bs then 0 else ext x) t
    \<and> (\<forall>r. oref_ok s r \<longrightarrow> (\<exists>ds. queued (out_at t r) = queued (out_at s r) @ ds
         \<and> set ds \<subseteq> set bs \<union> set_option (p_eit_ts_buffer (out_at s r))
         \<and> filter (\<lambda>x. x \<in> set bs) ds = concat (map (\<lambda>b. replicate (copies B (bk_ts (mem s b)) s r) b) bs)))
    \<and> (\<forall>b \<in> set bs. live t b \<longleftrightarrow> (\<exists>r. oref_ok s r \<and> 0 < copies B (bk_ts (mem s b)) s r))"
proof -
  define s1 where "s1 = snd (mdate s)\<lparr>i_wallclock := fst (mdate s)\<rparr>"
  define s2 where "s2 = SetDTS bs s1"
  have c1: "calm s s1" by (simp add: calm_def route_def s1_def mdate_def)
  then have R1: "routed B b ext s (\<lambda>_. 0) s1" for b by (rule routed_calm [rotated]) (rule routed_start, use assms in auto)
  then have h1: "heap_ok ext s1" "\<forall>r. oref_ok s1 r \<longrightarrow> out_wf B (out_at s1 r)"
    using routed_taken [OF R1] routed_oref [OF R1] by (simp_all add: routed_def taken_def)
  note S = SetDTS_routed [OF h1, where bs = bs, folded s2_def]
  have R2: "routed B 0 ext s1 (\<lambda>_. 0) s2" by (rule S(1))
  have refs: "refs s2 = refs s" using S(2) refs_outputs [of s1 s] c1 by (simp add: calm_def)
  have ts: "bk_ts (mem s2 x) = bk_ts (mem s x)" for x using S(3) c1 by (simp add: calm_def)
  have cp: "copies B w s2 r = copies B w s r" if "oref_ok s r" for w r
    using routed_plain(1) [OF R1 that] routed_plain(1) [OF R2] routed_oref [OF R1] that by simp
  have out: "oref_ok s2 r = oref_ok s r" for r using routed_oref [OF R2] routed_oref [OF R1] by simp
  have at: "out_at s2 r = out_at s r" for r
    using c1 by (cases r) (simp_all add: s2_def calm_def SetDTS_outputs)
  have pl: "plain B w s2 = plain B w s" for w using routed_plain(2) [OF R2] routed_plain(2) [OF R1] by simp
  have "heap_ok ext s2" using R2 by (simp add: routed_def)
  moreover have "i_ca_handle s2 = 0" using routed_plain(3) [OF R2] routed_plain(3) [OF R1] assms(5) by simp
  ultimately obtain t where t: "ofold (demux_Handle B) bs s2 = Some t" "heap_ok (\<lambda>x. if x \<in> set bs then 0 else ext x) t"
    "length (pp_outputs t) = length (pp_outputs s2)"
    "\<forall>r. oref_ok s2 r \<longrightarrow> moved B bs (out_at s2 r) (\<lambda>b. copies B (bk_ts (mem s2 b)) s2 r) (out_at t r)"
    using Handle_all [of ext s2 bs B] assms(2-4) refs ts pl out at by auto
  have m: "moved B bs (out_at s r) (\<lambda>b. copies B (bk_ts (mem s b)) s r) (out_at t r)" if "oref_ok s r" for r
    using t(4) [rule_format, of r] that out at cp [OF that] ts by simp
  have "demux_Run B bs s = Some t" using t(1) by (simp add: demux_Run_def s2_def s1_def mdate_def)
  moreover have "live t b \<longleftrightarrow> (\<exists>r. oref_ok s r \<and> 0 < copies B (bk_ts (mem s b)) s r)" if "b \<in> set bs" for b
  proof -
    have "oref_ok t r = oref_ok s r" for r using t(3) out [of r] by (cases r) simp_all
    moreover have "0 < out_refs (out_at t r) b \<longleftrightarrow> 0 < copies B (bk_ts (mem s b)) s r" if r: "oref_ok s r" for r
      using moved_refs [OF m [OF r] \<open>b \<in> set bs\<close>] out_refs_le [OF r, of b] assms(3) that \<open>b \<in> set bs\<close> by simp
    ultimately show ?thesis using heap_ok_live [OF t(2), of b] refs_positive [of t b] that by auto
  qed
  ultimately show ?thesis using t(2) m unfolding moved_def by blast
qed

text \<open>
  A demultiplexer with two outputs, the first of which gets PIDs 33 and 34, the second PID 34, and three packets in
  hand, of PIDs 33, 34 and 35.
\<close>

definition ex_arrival :: dvbdemux where
  "ex_arrival = (ex_demux [])\<lparr>mem := (\<lambda>a. ex_block (if a = 0 then 33 else if a = 1 then 34 else 35) 1 50),
     allocd := (\<lambda>a. a < 3), brk := 3, p_block_lifo := [], i_block_count := 0,
     p_pids := (\<lambda>i. (init_pid ex_psi)\<lparr>pid_outputs := (if i = 33 then [Some 0] else if i = 34 then [Some 1, Some 0] else [])\<rparr>)\<rparr>"

lemma ex_arrival_simps [simp]:
  "pp_outputs ex_arrival = [ex_output [], ex_output []]" "i_ca_handle ex_arrival = 0" "\<not> b_enable_emm ex_arrival"
  "i_psi_refcount (p_pids ex_arrival i) = 0" "current_pat ex_arrival = no_table" "pp_sids ex_arrival = []" "i_delsysatsc ex_arrival = 0"
  "pid_outputs (p_pids ex_arrival i) = (if i = 33 then [Some 0] else if i = 34 then [Some 1, Some 0] else [])"
  "bk_ts (mem ex_arrival a) = [0x47, 0, if a = 0 then 33 else if a = 1 then 34 else 35, 0x10] @ replicate 184 0"
  by (simp_all add: ex_arrival_def ex_block_def init_pid_def) (simp_all add: ex_demux_def ex_ci_defs dvbdemux.defs)

lemma ex_psi_count [simp]: "output_BlockCount ex_psi (ex_output pks) = 2"
  by (simp add: output_BlockCount_def ex_defs TS_SIZE_def)

lemma ex_psi_header: "ts_validate ex_psi = (\<lambda>p. p ! 0 = 0x47)" "ts_get_transporterror ex_psi = (\<lambda>p. bit (p ! 1) 7)"
  by (simp_all add: ex_psi_def ts_lib.defs psi_lib.defs ex_ts_def)

lemma ex_arrival_heap: "heap_ok (\<lambda>b. if b < 3 then 1 else 0) ex_arrival" "refs ex_arrival b = 0"
proof -
  show r: "refs ex_arrival b = 0" for b
    by (simp add: refs_def out_refs_def queued_def ex_arrival_def ex_demux_def ex_ci_defs dvbdemux.defs) (simp add: ex_defs)
  show "heap_ok (\<lambda>b. if b < 3 then 1 else 0) ex_arrival"
    by (auto simp: heap_ok_def pool.agrees_def pool_ok_def live_def block_ref_def r) (simp_all add: ex_arrival_def ex_block_def)
qed

lemma ex_arrival_wf: "oref_ok ex_arrival r \<Longrightarrow> out_wf ex_psi (out_at ex_arrival r)"
proof -
  have "out_wf ex_psi (ex_output [])"
    using ex_psi_count [of "[]"] by (simp add: out_wf_def) (simp add: ex_defs)
  moreover have "out_wf ex_psi (output_dup ex_arrival)"
    by (simp add: out_wf_def ex_arrival_def ex_demux_def ex_ci_defs dvbdemux.defs)
      (simp add: ex_defs output_BlockCount_def TS_SIZE_def)
  ultimately show "oref_ok ex_arrival r \<Longrightarrow> out_wf ex_psi (out_at ex_arrival r)"
    by (cases r) (auto simp: less_Suc_eq)
qed

lemma ex_arrival_pid: "ts_get_pid ex_psi (bk_ts (mem ex_arrival a)) = (if a = 0 then 33 else if a = 1 then 34 else 35)"
  by (simp add: ex_get_pid_def)

lemma ex_arrival_plain: "plain ex_psi (bk_ts (mem ex_arrival a)) ex_arrival"
  unfolding plain_def Let_def ex_arrival_pid
  by (auto simp: MAX_PIDS_def no_section_def get_pid_desc_def pat_nit_pid_def is_emm_pid_def no_table_def)

lemma ex_output_routing: "i_pcr_pid (ex_output []) = 0" "p_sdt_section (ex_output []) = None" "p_eit_ts_buffer (ex_output []) = None"
  "\<not> b_passthrough (config (ex_output []))" "queued (ex_output []) = []"
  by (simp_all add: queued_def) (simp_all add: ex_defs)

lemma ex_arrival_copies:
  assumes "n < 2"
  shows "copies ex_psi (bk_ts (mem ex_arrival a)) ex_arrival (Nth n) = (if a = 1 \<or> a = 0 \<and> n = 0 then 1 else 0)"
proof -
  have p: "pp_outputs ex_arrival ! n = ex_output []" using assms by (auto simp: less_2_cases_iff)
  obtain w where w: "w = bk_ts (mem ex_arrival a)" by blast
  have f: "\<not> ts_get_transporterror ex_psi w" "ts_validate ex_psi w" "ex_get_pid w = (if a = 0 then 33 else if a = 1 then 34 else 35)"
    unfolding w using ex_arrival_pid [of a] by (simp_all add: ex_psi_header)
  show ?thesis
    unfolding w [symmetric] copies_def valid_copies.simps(2) psi_copies.simps(2) p Let_def pcr_wanted_def
    using assms f by (cases "a = 0"; cases "a = 1"; cases "n = 0") (simp_all add: ex_output_routing)
qed

lemma Run_in_order_witness:
  "\<exists>t. demux_Run ex_psi [0, 1, 2] ex_arrival = Some t \<and> queued (pp_outputs t ! 0) = [0, 1] \<and> queued (pp_outputs t ! 1) = [1]
    \<and> live t 0 \<and> live t 1"
proof -
  have in_hand: "\<forall>b \<in> set [0, 1, 2]. (if b < 3 then 1 else 0 :: nat) = 1 \<and> refs ex_arrival b = 0
      \<and> plain ex_psi (bk_ts (mem ex_arrival b)) ex_arrival"
    using ex_arrival_heap(2) ex_arrival_plain by simp
  have wf: "\<forall>r. oref_ok ex_arrival r \<longrightarrow> out_wf ex_psi (out_at ex_arrival r)" using ex_arrival_wf by blast
  from Run_in_order [OF ex_arrival_heap(1) _ in_hand wf] obtain t where t: "demux_Run ex_psi [0, 1, 2] ex_arrival = Some t"
    and q: "\<forall>r. oref_ok ex_arrival r \<longrightarrow> (\<exists>ds. queued (out_at t r) = queued (out_at ex_arrival r) @ ds
         \<and> set ds \<subseteq> set [0, 1, 2] \<union> set_option (p_eit_ts_buffer (out_at ex_arrival r))
         \<and> filter (\<lambda>x. x \<in> set [0, 1, 2]) ds
           = concat (map (\<lambda>b. replicate (copies ex_psi (bk_ts (mem ex_arrival b)) ex_arrival r) b) [0, 1, 2]))"
    and l: "\<forall>b \<in> set [0, 1, 2]. live t b \<longleftrightarrow> (\<exists>r. oref_ok ex_arrival r \<and> 0 < copies ex_psi (bk_ts (mem ex_arrival b)) ex_arrival r)"
    by auto
  have Q: "queued (pp_outputs t ! n) = concat (map (\<lambda>b. replicate (if b = 1 \<or> b = 0 \<and> n = 0 then 1 else 0) b) [0, 1, 2])"
    if n: "n < 2" for n
  proof -
    have p: "out_at ex_arrival (Nth n) = ex_output []" using n by (auto simp: less_2_cases_iff)
    have "oref_ok ex_arrival (Nth n)" using n by simp
    from q [rule_format, OF this] obtain ds where ds: "queued (pp_outputs t ! n) = ds" "set ds \<subseteq> set [0, 1, 2]"
      "filter (\<lambda>x. x \<in> set [0, 1, 2]) ds = concat (map (\<lambda>b. replicate (if b = 1 \<or> b = 0 \<and> n = 0 then 1 else 0) b) [0, 1, 2])"
      unfolding p ex_output_routing ex_arrival_copies [OF n] by auto
    have "filter (\<lambda>x. x \<in> set [0, 1, 2]) ds = ds" using ds(2) by (intro filter_True) auto
    then show ?thesis using ds(1,3) by simp
  qed
  have "live t b" if "b = 0 \<or> b = 1" for b
    using l [rule_format, of b] that ex_arrival_copies [of 0 b] by (auto intro!: exI [of _ "Nth 0"])
  then show ?thesis using t Q [of 0] Q [of 1] by simp
qed

end
