(* ===== verification/Dvb_TableClaims.thy ===== *)
theory Dvb_TableClaims
  imports Dvb_StreamClaims Dvb_SectionProps
begin

unbundle bit_operations_syntax

text \<open>
  The properties of the tables: reading bit fields, the section loops of the handlers, packing
  tables for the control socket, EMM filters, and the sections an output is sent.
\<close>

subsection \<open>Bit fields\<close>

text \<open>\<open>getBits\<close> reads big-endian bit fields: for a field of up to 32 bits inside the buffer it gives
  exactly the bits \<open>i\<close> to \<open>i + n - 1\<close> of the buffer read as one number, provided the field
  touches no more bytes than \<open>n\<close> bits need; a field that does is shifted by a negative amount.\<close>

theorem GetBits_field:
  assumes "0 < n" and "n \<le> 32" and "i + n \<le> 8 * length buf"
  shows "map_option unat (getBits buf i n) =
    (if i mod 8 + n \<le> 8 * ((n - 1) div 8 + 1) then Some (bit_field buf i n) else None)"
  using get_bits_field [of i n buf] get_bits_misaligned [of i n buf] assms by (simp add: get_bits_def aligned_def)

lemma GetBits_field_witness: "map_option unat (getBits [0x12, 0x34, 0x56] 4 12) = Some 0x234"
  using GetBits_field [of 12 4 "[0x12, 0x34, 0x56]"] by (simp add: bit_field_def be_nat_def)

text \<open>Reading a channel of an ATSC virtual channel table is undefined whatever the section holds: the
  three reserved bits at bit 215 start at the last bit of a byte, and \<open>getBits\<close> shifts by -2. So no
  table that has a channel is turned into services.\<close>

theorem Channel_table_undefined:
  assumes "rd sec 9 = Some num" and "num \<noteq> 0"
  shows "read_tvct_channel b = None \<and> atsc_sdt B ext ver sec = None"
proof -
  have "get_bits b 215 3 = None" for b by (rule get_bits_misaligned) simp
  then have r: "read_tvct_channel b = None" for b by (simp add: read_tvct_channel_def bind_eq_None_conv)
  have "0 < unat num" using assms(2) by (simp add: unat_gt_0 del: rd_eq_Some)
  then have "ofold (atsc_channel B sec) [0..<unat num] a = None" for a
    by (simp add: upt_conv_Cons atsc_channel_def r del: rd_eq_Some)
  moreover have "rd sec 9 = Some num" by (rule assms(1))
  ultimately show ?thesis using r unfolding atsc_sdt_def by (simp del: rd_eq_Some add: Let_def)
qed

lemma Channel_table_undefined_witness:
  "read_tvct_channel (replicate 100 0) = None \<and> atsc_sdt ex_psi 1 0 [0xc8, 0xf0, 42, 0, 1, 0xc1, 0, 0, 0, 1] = None"
  by (rule Channel_table_undefined [of _ 1]) (simp_all add: rd_def)

subsection \<open>Tables of 256 sections\<close>



subsection \<open>Event information\<close>

text \<open>An EIT (present/following or schedule) goes to no output that has not asked for the programme guide:
  with no such output on the program, \<open>SendEIT\<close> changes nothing and leaves the section as it came,
  present/following included.\<close>

theorem EIT_needs_EPG:
  assumes "handle_epg B (psi_get_tableid B eit)"
    and "\<forall>p\<in>set (pp_outputs s). i_sid (config p) = sid_sid e \<longrightarrow> \<not> has_flag (i_config (config p)) OUTPUT_EPG"
  shows "SendEIT B e dts eit s = Some (eit, s)"
proof -
  have fixed: "\<forall>i\<in>set xs. g i a = Some a \<Longrightarrow> ofold g xs a = Some a" for g xs and a :: "bytes \<times> 'b dvbdemux_scheme"
    by (induction xs) auto
  have "\<not> has_flag (i_config (config (pp_outputs s ! i))) OUTPUT_EPG"
    if "i < length (pp_outputs s)" "i_sid (config (pp_outputs s ! i)) = sid_sid e" for i
    using assms(2) that by simp
  then show ?thesis unfolding SendEIT_def Let_def using assms(1) by (intro fixed) auto
qed

lemma EIT_needs_EPG_witness:
  "let e = \<lparr>sid_sid = 1, sid_pmt_pid = 100, p_current_pmt = None, eit_table = []\<rparr>; eit = 0x4e # replicate 14 0
   in SendEIT ex_psi e 0 eit (ex_demux []) = Some (eit, ex_demux [])"
  unfolding Let_def
  by (rule EIT_needs_EPG) (simp_all add: handle_epg_def ex_output_def ex_config_def zero_output_def has_flag_def
    OUTPUT_VALID_def OUTPUT_EPG_def)

subsection \<open>References of the PMT and EMM filters\<close>

lemma SetPID_count:
  assumes "pid < MAX_PIDS"
  shows "\<exists>s'. SetPID pid s = Some s' \<and> sel_view s' = sel_view s \<and> current_cat s' = current_cat s
    \<and> (\<forall>q. i_refcount (p_pids s' q) = i_refcount (p_pids s q) + (if q = pid then 1 else 0))
    \<and> (\<forall>q. i_psi_refcount (p_pids s' q) = i_psi_refcount (p_pids s q))"
proof -
  define s1 where "s1 = upd_pid pid (\<lambda>p. p\<lparr>i_refcount := i_refcount p + 1\<rparr>) s"
  have v: "sel_view s1 = sel_view s" "current_cat s1 = current_cat s"
    by (simp_all add: s1_def sel_view_upd) (simp add: upd_pid_def)
  obtain fd s2 where 2: "sys_call (DevSetFilter pid) s1 = (fd, s2)" by (metis surj_pair)
  then have s2: "sel_view s2 = sel_view s1" "p_pids s2 = p_pids s1" "current_cat s2 = current_cat s1"
    using sel_view_call [of "DevSetFilter pid" s1] sys_call_demux(1) [of "DevSetFilter pid" s1]
    by (auto simp: sys_call_def Let_def)
  have "SetPID pid s = Some (if \<not> b_budget_mode s1 \<and> i_refcount (p_pids s1 pid) \<noteq> 0 \<and> i_pid_fd (p_pids s1 pid) = -1
      then upd_pid pid (\<lambda>p. p\<lparr>i_pid_fd := fd\<rparr>) s2 else s1)"
    using 2 by (simp add: SetPID_def get_pid_less [OF assms] Let_def flip: s1_def)
  then show ?thesis using v s2 by (auto simp: sel_view_upd s1_def) (auto simp: upd_pid_def)
qed

lemma SetPID_all_count:
  assumes "pid < MAX_PIDS"
  shows "\<exists>s'. ofold (\<lambda>i s. if on_sid sid (pp_outputs s ! i) then SetPID pid s else Some s) ks s = Some s'
    \<and> sel_view s' = sel_view s
    \<and> i_refcount (p_pids s' pid) = i_refcount (p_pids s pid) + int (length (filter (\<lambda>k. on_sid sid (pp_outputs s ! k)) ks))
    \<and> i_psi_refcount (p_pids s' pid) = i_psi_refcount (p_pids s pid)"
proof (induction ks arbitrary: s)
  case (Cons k ks)
  show ?case
  proof (cases "on_sid sid (pp_outputs s ! k)")
    case True
    obtain s1 where 1: "SetPID pid s = Some s1" "sel_view s1 = sel_view s"
      "i_refcount (p_pids s1 pid) = i_refcount (p_pids s pid) + 1" "i_psi_refcount (p_pids s1 pid) = i_psi_refcount (p_pids s pid)"
      using SetPID_count [OF assms, of s] by force
    then show ?thesis using Cons.IH [of s1] True sel_view_inv(3) [OF 1(2)] by auto
  next
    case False
    then show ?thesis using Cons.IH [of s] by simp
  qed
qed simp



lemma those_map_Some:
  assumes "those (map f xs) = Some ys" and "\<And>x y. f x = Some y \<Longrightarrow> g x = Some (h y)"
  shows "those (map g xs) = Some (map h ys)"
  using assms(1) by (induction xs arbitrary: ys) (auto split: option.splits dest: assms(2))

lemma cat_section_has_pid:
  assumes "emm_pids B sec = Some pids"
  shows "cat_section_has B pid sec = Some (pid \<in> set pids)"
proof -
  obtain ds where ds: "cat_descs B sec = Some ds" "pids = map (desc09_get_pid B) (filter (is_ca_desc B) ds)"
    using assms by (auto simp: emm_pids_def)
  define get where "get = (\<lambda>d. descl_get_desc B d (cat_get_desclength B sec))"
  define buf where "buf = drop (cat_get_descl B sec) sec"
  have el: "elements (2 ^ 31) get buf = Some ds" using ds(1) unfolding cat_descs_def get_def buf_def .
  have "ends_below (2 ^ 31) get buf"
  proof (rule ccontr)
    assume "\<not> ?thesis"
    then have "elements (2 ^ 31) get buf = None" by (intro elements_diverges) (auto simp: ends_below_def)
    with el show False by simp
  qed
  then have "search_elem (2 ^ 31) get buf P = Some (find P ds)" for P by (rule search_elem_find [OF el])
  then have "ca_desc_find B buf (cat_get_desclength B sec) pid = Some (find (\<lambda>d. is_ca_desc B d \<and> desc09_get_pid B d = pid) ds)"
    unfolding ca_desc_find_def get_def .
  then have "cat_section_has B pid sec = (if list_ex (is_ca_desc B) ds
      then Some (find (\<lambda>d. is_ca_desc B d \<and> desc09_get_pid B d = pid) ds \<noteq> None) else Some False)"
    unfolding cat_section_has_def ds(1) buf_def by simp
  also have "\<dots> = Some (pid \<in> set pids)"
    unfolding ds(2) find_None_iff by (auto simp: list_ex_iff)
  finally show ?thesis .
qed

lemma cat_has_pid:
  assumes "table_emm_pids B t (psi_table_get_lastsection B t) = Some pids"
  shows "cat_has B t pid = Some (pid \<in> set pids)"
proof -
  obtain secs xss where 1: "table_sections B t (psi_table_get_lastsection B t) = Some secs"
    "those (map (emm_pids B) secs) = Some xss" "pids = concat xss"
    using assms by (auto simp: table_emm_pids_def bind_eq_Some_conv)
  have "those (map (cat_section_has B pid) secs) = Some (map (\<lambda>xs. pid \<in> set xs) xss)"
    by (rule those_map_Some [OF 1(2)]) (rule cat_section_has_pid)
  then show ?thesis using 1(1,3) by (simp add: cat_has_def list_ex_iff)
qed

lemma SetPID_EMM_all:
  assumes "\<forall>p\<in>set pids. p < MAX_PIDS"
  shows "\<exists>s'. ofold SetPID_EMM pids s = Some s' \<and> current_cat s' = current_cat s
    \<and> (\<forall>q. i_refcount (p_pids s' q) = i_refcount (p_pids s q) + int (count_list pids q))"
  using assms
proof (induction pids arbitrary: s)
  case (Cons p pids)
  obtain s1 where 1: "SetPID p s = Some s1" "current_cat s1 = current_cat s"
    "\<And>q. i_refcount (p_pids s1 q) = i_refcount (p_pids s q) + (if q = p then 1 else 0)"
    using SetPID_count [of p s] Cons.prems by auto
  define s2 where "s2 = upd_pid p (\<lambda>p. p\<lparr>b_emm := True\<rparr>) s1"
  have 2: "SetPID_EMM p s = Some s2" "current_cat s2 = current_cat s"
    "i_refcount (p_pids s2 q) = i_refcount (p_pids s q) + (if q = p then 1 else 0)" for q
    using 1 by (simp_all add: SetPID_EMM_def s2_def) (simp add: upd_pid_def)
  from Cons.IH [of s2] Cons.prems obtain s' where
    "ofold SetPID_EMM pids s2 = Some s'" "current_cat s' = current_cat s2"
    "\<forall>q. i_refcount (p_pids s' q) = i_refcount (p_pids s2 q) + int (count_list pids q)" by auto
  then show ?case using 2 by (intro exI [of _ s']) auto
qed simp

lemma UnsetPID_count:
  assumes "pid < MAX_PIDS"
  shows "\<exists>s'. UnsetPID pid s = Some s' \<and> current_cat s' = current_cat s
    \<and> (\<forall>q. i_refcount (p_pids s' q) = i_refcount (p_pids s q) - (if q = pid then 1 else 0))"
  by (auto simp: UnsetPID_def get_pid_less [OF assms] Let_def) (auto simp: upd_pid_def sys_call_def Let_def)

lemma cat_gone_all:
  assumes "\<forall>p\<in>set pids. p < MAX_PIDS" and "\<And>p. cat_has B (current_cat s) p = Some (p \<in> N)"
  shows "\<exists>s'. ofold (cat_gone B) pids s = Some s' \<and> current_cat s' = current_cat s
    \<and> (\<forall>q. i_refcount (p_pids s' q) = i_refcount (p_pids s q) - (if q \<in> N then 0 else int (count_list pids q)))"
  using assms
proof (induction pids arbitrary: s)
  case (Cons p pids)
  define s1 where "s1 = (if p \<in> N then s else the (UnsetPID p s))"
  have 1: "cat_gone B p s = Some s1" "current_cat s1 = current_cat s"
    "i_refcount (p_pids s1 q) = i_refcount (p_pids s q) - (if q = p \<and> p \<notin> N then 1 else 0)" for q
    using UnsetPID_count [of p s] Cons.prems by (auto simp: cat_gone_def s1_def)
  from Cons.IH [of s1] Cons.prems obtain s' where
    "ofold (cat_gone B) pids s1 = Some s'" "current_cat s' = current_cat s1"
    "\<forall>q. i_refcount (p_pids s' q) = i_refcount (p_pids s1 q) - (if q \<in> N then 0 else int (count_list pids q))"
    unfolding 1(2) by auto
  then show ?case using 1 by (intro exI [of _ s']) auto
qed simp


definition ex_cat :: "byte \<Rightarrow> bytes" where
  "ex_cat v = [1, 0xb0, 15, 0, 0, v, 0, 0, 9, 4, 0, 1, 0, 100, 0, 0, 0, 0]"

lemma ex_cat_pids: "table_emm_pids ex_psi (\<lambda>_. Some (ex_cat v)) 0 = Some [100]"
proof -
  have e: "descl_get_desc ex_psi (drop 8 (ex_cat v)) 6 0 = Some 0" "descl_get_desc ex_psi (drop 8 (ex_cat v)) 6 1 = None"
    by (simp_all add: ex_cat_def)
  have "collect m (\<lambda>j. map_option (\<lambda>off. drop off (drop 8 (ex_cat v))) (descl_get_desc ex_psi (drop 8 (ex_cat v)) 6 j))
      = Some [drop 8 (ex_cat v)]" if "1 < m" for m
    using collect_values [of "\<lambda>j. map_option (\<lambda>off. drop off (drop 8 (ex_cat v))) (descl_get_desc ex_psi (drop 8 (ex_cat v)) 6 j)" 1 m] e that
    by simp
  then have "elements m (\<lambda>d. descl_get_desc ex_psi d 6) (drop 8 (ex_cat v)) = Some [drop 8 (ex_cat v)]" if "1 < m" for m
    using that unfolding elements_def by blast
  moreover have "cat_get_desclength ex_psi (ex_cat v) = 6" "cat_get_descl ex_psi (ex_cat v) = 8" by (simp_all add: ex_cat_def)
  ultimately have "cat_descs ex_psi (ex_cat v) = Some [drop 8 (ex_cat v)]" unfolding cat_descs_def by simp
  then have "emm_pids ex_psi (ex_cat v) = Some [100]"
    by (simp add: emm_pids_def is_ca_desc_def) (simp add: ex_cat_def ex_pid13_def)
  then show ?thesis by (simp add: table_emm_pids_def table_sections_def)
qed


subsection \<open>Packed tables\<close>

text \<open>What the library says of a section's header: it lies in the section itself.\<close>

definition psi_local :: "'b psi_lib_scheme \<Rightarrow> bool" where
  "psi_local B \<longleftrightarrow> PSI_HEADER_SIZE B = 3 \<and> 256 \<le> PSI_TABLE_MAX_SECTIONS B
     \<and> (\<forall>b y. section_length B b \<le> length b \<longrightarrow>
          section_length B (take (section_length B b) b @ y) = section_length B b
          \<and> psi_validate B (take (section_length B b) b @ y) = psi_validate B b)"

lemma those_map_Some_all:
  "those (map f xs) = Some ys \<Longrightarrow> length ys = length xs \<and> (\<forall>y\<in>set ys. \<exists>x\<in>set xs. f x = Some y)"
  by (induction xs arbitrary: ys) (force split: option.splits)+

lemma those_map_eq: "those (map f xs) = Some ys \<Longrightarrow> ys = map (\<lambda>x. the (f x)) xs \<and> (\<forall>x\<in>set xs. f x \<noteq> None)"
  by (induction xs arbitrary: ys) (auto split: option.splits)

lemma unpack_loop_sections:
  assumes "psi_local B" and "bs \<noteq> []" and "length bs \<le> n"
    and "\<forall>b\<in>set bs. psi_validate B b \<and> section_length B b \<le> length b"
    and "flat = pre @ concat (map (\<lambda>b. take (section_length B b) b) bs)" and "length flat < 2 ^ 32"
  shows "unpack_loop B flat (length flat) n (length pre) t =
    Some (Some (fold (\<lambda>x t. snd (psi_table_section B t x)) (map (\<lambda>b. take (section_length B b) b) bs) t))"
  using assms(2-)
proof (induction bs arbitrary: n pre t)
  case (Cons b bs)
  from Cons.prems(2) obtain m where n: "n = Suc m" "length bs \<le> m" by (cases n) auto
  let ?x = "take (section_length B b) b"
  let ?y = "concat (map (\<lambda>b. take (section_length B b) b) bs)"
  have b: "psi_validate B b" "section_length B b \<le> length b" using Cons.prems(3) by simp_all
  have lx: "length ?x = section_length B b" "3 \<le> section_length B b"
    using b assms(1) by (simp_all add: psi_local_def section_length_def)
  have sec: "drop (length pre) flat = ?x @ ?y" using Cons.prems(4) by simp
  have loc: "section_length B (?x @ ?y) = section_length B b" "psi_validate B (?x @ ?y)"
    using assms(1) b unfolding psi_local_def by blast+
  have pack: "psi_pack_section B (?x @ ?y) = Some ?x"
    using loc(1) lx(1) by (simp add: psi_pack_section_def peek_def)
  have len: "length flat = length pre + section_length B b + length ?y" using Cons.prems(4) lx(1) by simp
  have wrap: "(length flat + 2 ^ 32 - 1) mod 2 ^ 32 = length flat - 1"
  proof -
    have "length flat + 2 ^ 32 - 1 = (length flat - 1) + 2 ^ 32" using len lx(2) by linarith
    then show ?thesis unfolding \<open>length flat + 2 ^ 32 - 1 = (length flat - 1) + 2 ^ 32\<close> mod_add_self2
      using Cons.prems(5) by (intro mod_less) linarith
  qed
  have step: "unpack_loop B flat (length flat) n (length pre) t =
      (if length flat - 1 \<le> length (pre @ ?x) then Some (Some (snd (psi_table_section B t ?x)))
       else unpack_loop B flat (length flat) m (length (pre @ ?x)) (snd (psi_table_section B t ?x)))"
    using len lx assms(1) loc pack wrap unfolding n(1) unpack_loop.simps sec Let_def
    by (simp add: psi_local_def)
  show ?case
  proof (cases bs)
    case Nil
    then have "length flat - 1 \<le> length (pre @ ?x)" using len lx(1) by simp
    then show ?thesis using step Nil by simp
  next
    case (Cons c cs)
    then have "3 \<le> length (take (section_length B c) c)"
      using Cons.prems(3) assms(1) by (simp add: psi_local_def section_length_def)
    then have "3 \<le> length ?y" using Cons by (simp only: list.map concat.simps length_append)
    then have more: "\<not> length flat - 1 \<le> length (pre @ ?x)" using len lx by simp
    have "bs \<noteq> []" using Cons by simp
    from Cons.IH [OF this n(2), of "pre @ ?x"] Cons.prems(3-) more step show ?thesis by simp
  qed
qed simp

text \<open>C23 The control socket's copy of a table is complete: unpacking what \<open>psi_pack_sections\<close> gives hands every
  section of the table, cut to its length, in order, to the library, and no other bytes.\<close>

theorem Sections_roundtrip:
  assumes "psi_local B" and "psi_pack_sections B t = Some (Some flat)" and "length flat < 2 ^ 32"
    and "psi_table_get_lastsection B t < 256"
    and "\<forall>i\<le>psi_table_get_lastsection B t. \<forall>b. psi_table_get_section B t i = Some b \<longrightarrow> psi_validate B b"
  shows "\<exists>bs. those (map (psi_table_get_section B t) [0..<psi_table_get_lastsection B t + 1]) = Some bs
    \<and> psi_unpack_sections B flat (length flat) =
        Some (Some (fold (\<lambda>x t. snd (psi_table_section B t x)) (map (\<lambda>b. take (section_length B b) b) bs) (psi_table_init B)))"
proof -
  let ?n = "psi_table_get_lastsection B t"
  obtain bs fs where 1: "those (map (psi_table_get_section B t) [0..<?n + 1]) = Some bs"
    "those (map (psi_pack_section B) bs) = Some fs" "flat = concat fs"
    using assms(2) by (auto simp: psi_pack_sections_def bind_eq_Some_conv split: if_splits)
  have len: "length bs = ?n + 1" and all: "\<forall>b\<in>set bs. \<exists>i\<in>set [0..<?n + 1]. psi_table_get_section B t i = Some b"
    using those_map_Some_all [OF 1(1)] by simp_all
  have in_t: "\<exists>i\<le>?n. psi_table_get_section B t i = Some b" if "b \<in> set bs" for b
  proof -
    from all that obtain i where i: "i \<in> set [0..<?n + 1]" "psi_table_get_section B t i = Some b" by blast
    then have "i \<le> ?n" by auto
    with i(2) show ?thesis by blast
  qed
  have fits: "\<forall>b\<in>set bs. section_length B b \<le> length b"
    using those_map_eq [OF 1(2)] by (auto simp: psi_pack_section_def peek_def split: if_splits)
  moreover have "fs = map (\<lambda>b. take (section_length B b) b) bs"
    using those_map_eq [OF 1(2)] fits by (auto simp: psi_pack_section_def peek_def)
  moreover have "\<forall>b\<in>set bs. psi_validate B b" using in_t assms(5) by blast
  moreover have "bs \<noteq> []" "length bs \<le> PSI_TABLE_MAX_SECTIONS B" using len assms(1,4) by (auto simp: psi_local_def)
  ultimately have "unpack_loop B flat (length flat) (PSI_TABLE_MAX_SECTIONS B) (length ([] :: bytes)) (psi_table_init B)
      = Some (Some (fold (\<lambda>x t. snd (psi_table_section B t x)) (map (\<lambda>b. take (section_length B b) b) bs) (psi_table_init B)))"
    using assms(1,3) 1(3) by (intro unpack_loop_sections) auto
  then show ?thesis using 1(1) by (simp add: psi_unpack_sections_def)
qed

definition ex_psi3 :: psi_lib where
  "ex_psi3 = ex_psi\<lparr>psi_validate := \<lambda>p. 3 \<le> length p\<rparr>"

lemma ex_psi3_local: "psi_local ex_psi3"
  unfolding psi_local_def
proof (intro conjI allI impI)
  fix b y :: bytes assume a: "section_length ex_psi3 b \<le> length b"
  let ?n = "section_length ex_psi3 b"
  have v: "psi_validate ex_psi3 = (\<lambda>p. 3 \<le> length p)" by (simp add: ex_psi3_def)
  have n: "3 \<le> ?n" by (simp add: section_length_def ex_psi3_def)
  then have "(take ?n b @ y) ! k = b ! k" if "k < 3" for k using a that by (simp add: nth_append)
  then show "section_length ex_psi3 (take ?n b @ y) = ?n" by (simp add: section_length_def ex_psi3_def)
  have "3 \<le> length (take ?n b @ y)" "3 \<le> length b" using a n by simp_all
  then show "psi_validate ex_psi3 (take ?n b @ y) = psi_validate ex_psi3 b"
    using v by (simp only:)
qed (simp_all add: ex_psi3_def)

lemma Sections_roundtrip_witness:
  "psi_unpack_sections ex_psi3 (ex_cat 0xc1) (length (ex_cat 0xc1)) = Some (Some [0 \<mapsto> ex_cat 0xc1])"
proof -
  have c: "psi_pack_sections ex_psi3 (\<lambda>_. Some (ex_cat 0xc1)) = Some (Some (ex_cat 0xc1))"
    "section_length ex_psi3 (ex_cat 0xc1) = length (ex_cat 0xc1)" "length (ex_cat 0xc1) < 2 ^ 32"
    "ex_cat 0xc1 ! 7 = 0" "ex_cat 0xc1 ! 6 = 0" "3 \<le> length (ex_cat 0xc1)"
    by (simp_all add: psi_pack_sections_def psi_pack_section_def peek_def section_length_def ex_cat_def ex_psi3_def)
  show ?thesis
    using Sections_roundtrip [OF ex_psi3_local c(1,3)] c(2-) by (simp add: ex_psi3_def)
qed

subsection \<open>Sections in packets\<close>


lemma ex_split_law: "split_law ex_psi sec"
  unfolding split_law_def
proof (intro conjI allI impI)
  show "0 < section_length ex_psi sec" by (simp add: section_length_def)
  fix ts ts_off off ts' ts_off' off'
  assume a: "off < section_length ex_psi sec" "ts_off < TS_SIZE - PSI_HEADER_SIZE_SYNTAX1 ex_psi"
    "psi_split_section ex_psi ts ts_off sec off = (ts', ts_off', off')"
  then have "off' = off + min (188 - (if ts_off = 0 then (if off = 0 then 5 else 4) else ts_off)) (section_length ex_psi sec - off)"
    by (auto simp: ex_split_def Let_def section_length_def)
  moreover have "0 < (188 :: nat) - (if ts_off = 0 then (if off = 0 then 5 else 4) else ts_off)"
    using a(2) by (simp add: TS_SIZE_def)
  ultimately obtain r where "0 < r" "off' = off + min r (section_length ex_psi sec - off)" by blast
  then show "off < off'" "off' \<le> section_length ex_psi sec" using a(1) by (auto simp: min_def)
qed


end
