(* ===== verification/Dvb_DvbApi.thy ===== *)
theory Dvb_DvbApi
  imports Dvb_Prelude
begin

text \<open>
  What the program uses of the DVB API (\<open>linux_dvb_frontend.h\<close>) and the command sequences it keeps
  for tuning (\<open>cLdvbdevc.c\<close>). Enumerations are datatypes with the header's constructors; where one
  travels in the data word of a property, its number is the position in the declaration. Delivery
  systems come from the driver as bytes, so they are words; capabilities are bits.
\<close>

subsection \<open>Enumerations\<close>

datatype fe_type = FE_QPSK | FE_QAM | FE_OFDM | FE_ATSC

datatype fe_sec_voltage = SEC_VOLTAGE_13 | SEC_VOLTAGE_18 | SEC_VOLTAGE_OFF

datatype fe_sec_tone_mode = SEC_TONE_ON | SEC_TONE_OFF

datatype fe_sec_mini_cmd = SEC_MINI_A | SEC_MINI_B

text \<open>The enumerations that go into \<open>u.data\<close>, with their numbers.\<close>

datatype fe_spectral_inversion = INVERSION_OFF | INVERSION_ON | INVERSION_AUTO

primrec fe_spectral_inversion_val :: "fe_spectral_inversion \<Rightarrow> 32 word" where
  "fe_spectral_inversion_val INVERSION_OFF = 0"
| "fe_spectral_inversion_val INVERSION_ON = 1"
| "fe_spectral_inversion_val INVERSION_AUTO = 2"

datatype fe_code_rate = FEC_NONE | FEC_1_2 | FEC_2_3 | FEC_3_4 | FEC_4_5 | FEC_5_6 | FEC_6_7 | FEC_7_8
    | FEC_8_9 | FEC_AUTO | FEC_3_5 | FEC_9_10 | FEC_2_5

primrec fe_code_rate_val :: "fe_code_rate \<Rightarrow> 32 word" where
  "fe_code_rate_val FEC_NONE = 0"
| "fe_code_rate_val FEC_1_2 = 1"
| "fe_code_rate_val FEC_2_3 = 2"
| "fe_code_rate_val FEC_3_4 = 3"
| "fe_code_rate_val FEC_4_5 = 4"
| "fe_code_rate_val FEC_5_6 = 5"
| "fe_code_rate_val FEC_6_7 = 6"
| "fe_code_rate_val FEC_7_8 = 7"
| "fe_code_rate_val FEC_8_9 = 8"
| "fe_code_rate_val FEC_AUTO = 9"
| "fe_code_rate_val FEC_3_5 = 10"
| "fe_code_rate_val FEC_9_10 = 11"
| "fe_code_rate_val FEC_2_5 = 12"

datatype fe_modulation = QPSK | QAM_16 | QAM_32 | QAM_64 | QAM_128 | QAM_256 | QAM_AUTO | VSB_8 | VSB_16
    | PSK_8 | APSK_16 | APSK_32 | DQPSK | QAM_4_NR

primrec fe_modulation_val :: "fe_modulation \<Rightarrow> 32 word" where
  "fe_modulation_val QPSK = 0"
| "fe_modulation_val QAM_16 = 1"
| "fe_modulation_val QAM_32 = 2"
| "fe_modulation_val QAM_64 = 3"
| "fe_modulation_val QAM_128 = 4"
| "fe_modulation_val QAM_256 = 5"
| "fe_modulation_val QAM_AUTO = 6"
| "fe_modulation_val VSB_8 = 7"
| "fe_modulation_val VSB_16 = 8"
| "fe_modulation_val PSK_8 = 9"
| "fe_modulation_val APSK_16 = 10"
| "fe_modulation_val APSK_32 = 11"
| "fe_modulation_val DQPSK = 12"
| "fe_modulation_val QAM_4_NR = 13"

datatype fe_transmit_mode = TRANSMISSION_MODE_2K | TRANSMISSION_MODE_8K | TRANSMISSION_MODE_AUTO
    | TRANSMISSION_MODE_4K | TRANSMISSION_MODE_1K | TRANSMISSION_MODE_16K | TRANSMISSION_MODE_32K
    | TRANSMISSION_MODE_C1 | TRANSMISSION_MODE_C3780

primrec fe_transmit_mode_val :: "fe_transmit_mode \<Rightarrow> 32 word" where
  "fe_transmit_mode_val TRANSMISSION_MODE_2K = 0"
| "fe_transmit_mode_val TRANSMISSION_MODE_8K = 1"
| "fe_transmit_mode_val TRANSMISSION_MODE_AUTO = 2"
| "fe_transmit_mode_val TRANSMISSION_MODE_4K = 3"
| "fe_transmit_mode_val TRANSMISSION_MODE_1K = 4"
| "fe_transmit_mode_val TRANSMISSION_MODE_16K = 5"
| "fe_transmit_mode_val TRANSMISSION_MODE_32K = 6"
| "fe_transmit_mode_val TRANSMISSION_MODE_C1 = 7"
| "fe_transmit_mode_val TRANSMISSION_MODE_C3780 = 8"

datatype fe_guard_interval = GUARD_INTERVAL_1_32 | GUARD_INTERVAL_1_16 | GUARD_INTERVAL_1_8
    | GUARD_INTERVAL_1_4 | GUARD_INTERVAL_AUTO | GUARD_INTERVAL_1_128 | GUARD_INTERVAL_19_128
    | GUARD_INTERVAL_19_256 | GUARD_INTERVAL_PN420 | GUARD_INTERVAL_PN595 | GUARD_INTERVAL_PN945

primrec fe_guard_interval_val :: "fe_guard_interval \<Rightarrow> 32 word" where
  "fe_guard_interval_val GUARD_INTERVAL_1_32 = 0"
| "fe_guard_interval_val GUARD_INTERVAL_1_16 = 1"
| "fe_guard_interval_val GUARD_INTERVAL_1_8 = 2"
| "fe_guard_interval_val GUARD_INTERVAL_1_4 = 3"
| "fe_guard_interval_val GUARD_INTERVAL_AUTO = 4"
| "fe_guard_interval_val GUARD_INTERVAL_1_128 = 5"
| "fe_guard_interval_val GUARD_INTERVAL_19_128 = 6"
| "fe_guard_interval_val GUARD_INTERVAL_19_256 = 7"
| "fe_guard_interval_val GUARD_INTERVAL_PN420 = 8"
| "fe_guard_interval_val GUARD_INTERVAL_PN595 = 9"
| "fe_guard_interval_val GUARD_INTERVAL_PN945 = 10"

datatype fe_hierarchy = HIERARCHY_NONE | HIERARCHY_1 | HIERARCHY_2 | HIERARCHY_4 | HIERARCHY_AUTO

primrec fe_hierarchy_val :: "fe_hierarchy \<Rightarrow> 32 word" where
  "fe_hierarchy_val HIERARCHY_NONE = 0"
| "fe_hierarchy_val HIERARCHY_1 = 1"
| "fe_hierarchy_val HIERARCHY_2 = 2"
| "fe_hierarchy_val HIERARCHY_4 = 3"
| "fe_hierarchy_val HIERARCHY_AUTO = 4"

datatype fe_pilot = PILOT_ON | PILOT_OFF | PILOT_AUTO

primrec fe_pilot_val :: "fe_pilot \<Rightarrow> 32 word" where
  "fe_pilot_val PILOT_ON = 0"
| "fe_pilot_val PILOT_OFF = 1"
| "fe_pilot_val PILOT_AUTO = 2"

datatype fe_rolloff = ROLLOFF_35 | ROLLOFF_20 | ROLLOFF_25 | ROLLOFF_AUTO

primrec fe_rolloff_val :: "fe_rolloff \<Rightarrow> 32 word" where
  "fe_rolloff_val ROLLOFF_35 = 0"
| "fe_rolloff_val ROLLOFF_20 = 1"
| "fe_rolloff_val ROLLOFF_25 = 2"
| "fe_rolloff_val ROLLOFF_AUTO = 3"

subsection \<open>Delivery systems and capabilities\<close>

type_synonym fe_delivery_system = "32 word"

definition SYS_UNDEFINED :: fe_delivery_system where "SYS_UNDEFINED = 0"
definition SYS_DVBC_ANNEX_A :: fe_delivery_system where "SYS_DVBC_ANNEX_A = 1"
definition SYS_DVBC_ANNEX_B :: fe_delivery_system where "SYS_DVBC_ANNEX_B = 2"
definition SYS_DVBT :: fe_delivery_system where "SYS_DVBT = 3"
definition SYS_DSS :: fe_delivery_system where "SYS_DSS = 4"
definition SYS_DVBS :: fe_delivery_system where "SYS_DVBS = 5"
definition SYS_DVBS2 :: fe_delivery_system where "SYS_DVBS2 = 6"
definition SYS_DVBH :: fe_delivery_system where "SYS_DVBH = 7"
definition SYS_ISDBT :: fe_delivery_system where "SYS_ISDBT = 8"
definition SYS_ISDBS :: fe_delivery_system where "SYS_ISDBS = 9"
definition SYS_ISDBC :: fe_delivery_system where "SYS_ISDBC = 10"
definition SYS_ATSC :: fe_delivery_system where "SYS_ATSC = 11"
definition SYS_ATSCMH :: fe_delivery_system where "SYS_ATSCMH = 12"
definition SYS_DTMB :: fe_delivery_system where "SYS_DTMB = 13"
definition SYS_CMMB :: fe_delivery_system where "SYS_CMMB = 14"
definition SYS_DAB :: fe_delivery_system where "SYS_DAB = 15"
definition SYS_DVBT2 :: fe_delivery_system where "SYS_DVBT2 = 16"
definition SYS_TURBO :: fe_delivery_system where "SYS_TURBO = 17"
definition SYS_DVBC_ANNEX_C :: fe_delivery_system where "SYS_DVBC_ANNEX_C = 18"

lemmas delsys_defs = SYS_UNDEFINED_def SYS_DVBC_ANNEX_A_def SYS_DVBC_ANNEX_B_def SYS_DVBT_def SYS_DSS_def SYS_DVBS_def SYS_DVBS2_def SYS_DVBH_def SYS_ISDBT_def SYS_ISDBS_def SYS_ISDBC_def SYS_ATSC_def SYS_ATSCMH_def SYS_DTMB_def SYS_CMMB_def SYS_DAB_def SYS_DVBT2_def SYS_TURBO_def SYS_DVBC_ANNEX_C_def

definition FE_IS_STUPID :: "32 word" where "FE_IS_STUPID = 0"
definition FE_CAN_INVERSION_AUTO :: "32 word" where "FE_CAN_INVERSION_AUTO = 0x1"
definition FE_CAN_FEC_1_2 :: "32 word" where "FE_CAN_FEC_1_2 = 0x2"
definition FE_CAN_FEC_2_3 :: "32 word" where "FE_CAN_FEC_2_3 = 0x4"
definition FE_CAN_FEC_3_4 :: "32 word" where "FE_CAN_FEC_3_4 = 0x8"
definition FE_CAN_FEC_4_5 :: "32 word" where "FE_CAN_FEC_4_5 = 0x10"
definition FE_CAN_FEC_5_6 :: "32 word" where "FE_CAN_FEC_5_6 = 0x20"
definition FE_CAN_FEC_6_7 :: "32 word" where "FE_CAN_FEC_6_7 = 0x40"
definition FE_CAN_FEC_7_8 :: "32 word" where "FE_CAN_FEC_7_8 = 0x80"
definition FE_CAN_FEC_8_9 :: "32 word" where "FE_CAN_FEC_8_9 = 0x100"
definition FE_CAN_FEC_AUTO :: "32 word" where "FE_CAN_FEC_AUTO = 0x200"
definition FE_CAN_QPSK :: "32 word" where "FE_CAN_QPSK = 0x400"
definition FE_CAN_QAM_16 :: "32 word" where "FE_CAN_QAM_16 = 0x800"
definition FE_CAN_QAM_32 :: "32 word" where "FE_CAN_QAM_32 = 0x1000"
definition FE_CAN_QAM_64 :: "32 word" where "FE_CAN_QAM_64 = 0x2000"
definition FE_CAN_QAM_128 :: "32 word" where "FE_CAN_QAM_128 = 0x4000"
definition FE_CAN_QAM_256 :: "32 word" where "FE_CAN_QAM_256 = 0x8000"
definition FE_CAN_QAM_AUTO :: "32 word" where "FE_CAN_QAM_AUTO = 0x10000"
definition FE_CAN_TRANSMISSION_MODE_AUTO :: "32 word" where "FE_CAN_TRANSMISSION_MODE_AUTO = 0x20000"
definition FE_CAN_BANDWIDTH_AUTO :: "32 word" where "FE_CAN_BANDWIDTH_AUTO = 0x40000"
definition FE_CAN_GUARD_INTERVAL_AUTO :: "32 word" where "FE_CAN_GUARD_INTERVAL_AUTO = 0x80000"
definition FE_CAN_HIERARCHY_AUTO :: "32 word" where "FE_CAN_HIERARCHY_AUTO = 0x100000"
definition FE_CAN_8VSB :: "32 word" where "FE_CAN_8VSB = 0x200000"
definition FE_CAN_16VSB :: "32 word" where "FE_CAN_16VSB = 0x400000"
definition FE_HAS_EXTENDED_CAPS :: "32 word" where "FE_HAS_EXTENDED_CAPS = 0x800000"
definition FE_CAN_MULTISTREAM :: "32 word" where "FE_CAN_MULTISTREAM = 0x4000000"
definition FE_CAN_TURBO_FEC :: "32 word" where "FE_CAN_TURBO_FEC = 0x8000000"
definition FE_CAN_2G_MODULATION :: "32 word" where "FE_CAN_2G_MODULATION = 0x10000000"
definition FE_NEEDS_BENDING :: "32 word" where "FE_NEEDS_BENDING = 0x20000000"
definition FE_CAN_RECOVER :: "32 word" where "FE_CAN_RECOVER = 0x40000000"
definition FE_CAN_MUTE_TS :: "32 word" where "FE_CAN_MUTE_TS = 0x80000000"

lemmas fe_caps_defs = FE_IS_STUPID_def FE_CAN_INVERSION_AUTO_def FE_CAN_FEC_1_2_def FE_CAN_FEC_2_3_def FE_CAN_FEC_3_4_def FE_CAN_FEC_4_5_def FE_CAN_FEC_5_6_def FE_CAN_FEC_6_7_def FE_CAN_FEC_7_8_def FE_CAN_FEC_8_9_def FE_CAN_FEC_AUTO_def FE_CAN_QPSK_def FE_CAN_QAM_16_def FE_CAN_QAM_32_def FE_CAN_QAM_64_def FE_CAN_QAM_128_def FE_CAN_QAM_256_def FE_CAN_QAM_AUTO_def FE_CAN_TRANSMISSION_MODE_AUTO_def FE_CAN_BANDWIDTH_AUTO_def FE_CAN_GUARD_INTERVAL_AUTO_def FE_CAN_HIERARCHY_AUTO_def FE_CAN_8VSB_def FE_CAN_16VSB_def FE_HAS_EXTENDED_CAPS_def FE_CAN_MULTISTREAM_def FE_CAN_TURBO_FEC_def FE_CAN_2G_MODULATION_def FE_NEEDS_BENDING_def FE_CAN_RECOVER_def FE_CAN_MUTE_TS_def

definition FE_HAS_SIGNAL :: "32 word" where "FE_HAS_SIGNAL = 0x01"
definition FE_HAS_CARRIER :: "32 word" where "FE_HAS_CARRIER = 0x02"
definition FE_HAS_VITERBI :: "32 word" where "FE_HAS_VITERBI = 0x04"
definition FE_HAS_SYNC :: "32 word" where "FE_HAS_SYNC = 0x08"
definition FE_HAS_LOCK :: "32 word" where "FE_HAS_LOCK = 0x10"
definition FE_TIMEDOUT :: "32 word" where "FE_TIMEDOUT = 0x20"
definition FE_REINIT :: "32 word" where "FE_REINIT = 0x40"

lemmas fe_status_defs = FE_HAS_SIGNAL_def FE_HAS_CARRIER_def FE_HAS_VITERBI_def FE_HAS_SYNC_def FE_HAS_LOCK_def FE_TIMEDOUT_def FE_REINIT_def

record dvb_frontend_info =
  fe_name :: string
  fe_itype :: "32 word"               \<comment> \<open>\<open>type\<close>, as the driver wrote it\<close>
  frequency_min :: nat
  frequency_max :: nat
  frequency_stepsize :: nat
  frequency_tolerance :: nat
  symbol_rate_min :: nat
  symbol_rate_max :: nat
  symbol_rate_tolerance :: nat
  fe_caps :: "32 word"

fun fe_type_of :: "32 word \<Rightarrow> fe_type option" where
  "fe_type_of t = (if t = 0 then Some FE_QPSK else if t = 1 then Some FE_QAM
     else if t = 2 then Some FE_OFDM else if t = 3 then Some FE_ATSC else None)"

subsection \<open>Properties\<close>

text \<open>The commands of the sequences below, each with its number.\<close>

datatype dtv_cmd = DTV_TUNE | DTV_CLEAR | DTV_FREQUENCY | DTV_MODULATION | DTV_BANDWIDTH_HZ | DTV_INVERSION
    | DTV_SYMBOL_RATE | DTV_INNER_FEC | DTV_PILOT | DTV_ROLLOFF | DTV_DELIVERY_SYSTEM | DTV_ISDBT_LAYERA_FEC
    | DTV_ISDBT_LAYERA_MODULATION | DTV_ISDBT_LAYERA_SEGMENT_COUNT | DTV_ISDBT_LAYERA_TIME_INTERLEAVING
    | DTV_ISDBT_LAYERB_FEC | DTV_ISDBT_LAYERB_MODULATION | DTV_ISDBT_LAYERB_SEGMENT_COUNT
    | DTV_ISDBT_LAYERB_TIME_INTERLEAVING | DTV_ISDBT_LAYERC_FEC | DTV_ISDBT_LAYERC_MODULATION
    | DTV_ISDBT_LAYERC_SEGMENT_COUNT | DTV_ISDBT_LAYERC_TIME_INTERLEAVING | DTV_API_VERSION
    | DTV_CODE_RATE_HP | DTV_CODE_RATE_LP | DTV_GUARD_INTERVAL | DTV_TRANSMISSION_MODE | DTV_HIERARCHY
    | DTV_STREAM_ID | DTV_ENUM_DELSYS

primrec dtv_code :: "dtv_cmd \<Rightarrow> nat" where
  "dtv_code DTV_TUNE = 1"
| "dtv_code DTV_CLEAR = 2"
| "dtv_code DTV_FREQUENCY = 3"
| "dtv_code DTV_MODULATION = 4"
| "dtv_code DTV_BANDWIDTH_HZ = 5"
| "dtv_code DTV_INVERSION = 6"
| "dtv_code DTV_SYMBOL_RATE = 8"
| "dtv_code DTV_INNER_FEC = 9"
| "dtv_code DTV_PILOT = 12"
| "dtv_code DTV_ROLLOFF = 13"
| "dtv_code DTV_DELIVERY_SYSTEM = 17"
| "dtv_code DTV_ISDBT_LAYERA_FEC = 23"
| "dtv_code DTV_ISDBT_LAYERA_MODULATION = 24"
| "dtv_code DTV_ISDBT_LAYERA_SEGMENT_COUNT = 25"
| "dtv_code DTV_ISDBT_LAYERA_TIME_INTERLEAVING = 26"
| "dtv_code DTV_ISDBT_LAYERB_FEC = 27"
| "dtv_code DTV_ISDBT_LAYERB_MODULATION = 28"
| "dtv_code DTV_ISDBT_LAYERB_SEGMENT_COUNT = 29"
| "dtv_code DTV_ISDBT_LAYERB_TIME_INTERLEAVING = 30"
| "dtv_code DTV_ISDBT_LAYERC_FEC = 31"
| "dtv_code DTV_ISDBT_LAYERC_MODULATION = 32"
| "dtv_code DTV_ISDBT_LAYERC_SEGMENT_COUNT = 33"
| "dtv_code DTV_ISDBT_LAYERC_TIME_INTERLEAVING = 34"
| "dtv_code DTV_API_VERSION = 35"
| "dtv_code DTV_CODE_RATE_HP = 36"
| "dtv_code DTV_CODE_RATE_LP = 37"
| "dtv_code DTV_GUARD_INTERVAL = 38"
| "dtv_code DTV_TRANSMISSION_MODE = 39"
| "dtv_code DTV_HIERARCHY = 40"
| "dtv_code DTV_STREAM_ID = 42"
| "dtv_code DTV_ENUM_DELSYS = 44"

text \<open>A property is a command and its data word; a sequence is the array the \<open>FE_SET_PROPERTY\<close> call gets.\<close>

type_synonym dtv_property = "dtv_cmd \<times> 32 word"

datatype cmdseq = Dvbs | Dvbs2 | Dvbc | Dvbt | Dvbt2 | Atsc | Isdbt

definition dvbs_cmdargs :: "dtv_property list" where
  "dvbs_cmdargs =
     [(DTV_DELIVERY_SYSTEM, SYS_DVBS), (DTV_FREQUENCY, 0), (DTV_MODULATION, fe_modulation_val QPSK),
      (DTV_INVERSION, fe_spectral_inversion_val INVERSION_AUTO), (DTV_SYMBOL_RATE, 27500000),
      (DTV_INNER_FEC, fe_code_rate_val FEC_AUTO), (DTV_PILOT, fe_pilot_val PILOT_AUTO),
      (DTV_ROLLOFF, fe_rolloff_val ROLLOFF_AUTO), (DTV_STREAM_ID, 0), (DTV_TUNE, 0)]"

definition dvbs2_cmdargs :: "dtv_property list" where
  "dvbs2_cmdargs =
     [(DTV_DELIVERY_SYSTEM, SYS_DVBS2), (DTV_FREQUENCY, 0), (DTV_MODULATION, fe_modulation_val PSK_8),
      (DTV_INVERSION, fe_spectral_inversion_val INVERSION_AUTO), (DTV_SYMBOL_RATE, 27500000),
      (DTV_INNER_FEC, fe_code_rate_val FEC_AUTO), (DTV_PILOT, fe_pilot_val PILOT_AUTO),
      (DTV_ROLLOFF, fe_rolloff_val ROLLOFF_AUTO), (DTV_STREAM_ID, 0), (DTV_TUNE, 0)]"

definition dvbc_cmdargs :: "dtv_property list" where
  "dvbc_cmdargs =
     [(DTV_DELIVERY_SYSTEM, SYS_DVBC_ANNEX_A), (DTV_FREQUENCY, 0),
      (DTV_MODULATION, fe_modulation_val QAM_AUTO),
      (DTV_INVERSION, fe_spectral_inversion_val INVERSION_AUTO), (DTV_SYMBOL_RATE, 27500000),
      (DTV_TUNE, 0)]"

definition dvbt_cmdargs :: "dtv_property list" where
  "dvbt_cmdargs =
     [(DTV_DELIVERY_SYSTEM, SYS_DVBT), (DTV_FREQUENCY, 0), (DTV_MODULATION, fe_modulation_val QAM_AUTO),
      (DTV_INVERSION, fe_spectral_inversion_val INVERSION_AUTO), (DTV_BANDWIDTH_HZ, 8000000),
      (DTV_CODE_RATE_HP, fe_code_rate_val FEC_AUTO), (DTV_CODE_RATE_LP, fe_code_rate_val FEC_AUTO),
      (DTV_GUARD_INTERVAL, fe_guard_interval_val GUARD_INTERVAL_AUTO),
      (DTV_TRANSMISSION_MODE, fe_transmit_mode_val TRANSMISSION_MODE_AUTO),
      (DTV_HIERARCHY, fe_hierarchy_val HIERARCHY_AUTO), (DTV_TUNE, 0)]"

definition dvbt2_cmdargs :: "dtv_property list" where
  "dvbt2_cmdargs =
     [(DTV_DELIVERY_SYSTEM, SYS_DVBT2), (DTV_FREQUENCY, 0), (DTV_MODULATION, fe_modulation_val QAM_AUTO),
      (DTV_INVERSION, fe_spectral_inversion_val INVERSION_AUTO), (DTV_BANDWIDTH_HZ, 8000000),
      (DTV_CODE_RATE_HP, fe_code_rate_val FEC_AUTO), (DTV_CODE_RATE_LP, fe_code_rate_val FEC_AUTO),
      (DTV_GUARD_INTERVAL, fe_guard_interval_val GUARD_INTERVAL_AUTO),
      (DTV_TRANSMISSION_MODE, fe_transmit_mode_val TRANSMISSION_MODE_AUTO),
      (DTV_HIERARCHY, fe_hierarchy_val HIERARCHY_AUTO), (DTV_STREAM_ID, 0), (DTV_TUNE, 0)]"

definition atsc_cmdargs :: "dtv_property list" where
  "atsc_cmdargs =
     [(DTV_DELIVERY_SYSTEM, SYS_ATSC), (DTV_FREQUENCY, 0), (DTV_MODULATION, fe_modulation_val QAM_AUTO),
      (DTV_INVERSION, fe_spectral_inversion_val INVERSION_AUTO), (DTV_TUNE, 0)]"

definition isdbt_cmdargs :: "dtv_property list" where
  "isdbt_cmdargs =
     [(DTV_DELIVERY_SYSTEM, SYS_ISDBT), (DTV_FREQUENCY, 0), (DTV_BANDWIDTH_HZ, 6000000),
      (DTV_INVERSION, fe_spectral_inversion_val INVERSION_AUTO),
      (DTV_ISDBT_LAYERA_FEC, fe_code_rate_val FEC_AUTO),
      (DTV_ISDBT_LAYERA_MODULATION, fe_modulation_val QAM_AUTO),
      (DTV_ISDBT_LAYERA_SEGMENT_COUNT, 0), (DTV_ISDBT_LAYERA_TIME_INTERLEAVING, 0),
      (DTV_ISDBT_LAYERB_FEC, fe_code_rate_val FEC_AUTO),
      (DTV_ISDBT_LAYERB_MODULATION, fe_modulation_val QAM_AUTO),
      (DTV_ISDBT_LAYERB_SEGMENT_COUNT, 0), (DTV_ISDBT_LAYERB_TIME_INTERLEAVING, 0),
      (DTV_ISDBT_LAYERC_FEC, fe_code_rate_val FEC_AUTO),
      (DTV_ISDBT_LAYERC_MODULATION, fe_modulation_val QAM_AUTO),
      (DTV_ISDBT_LAYERC_SEGMENT_COUNT, 0), (DTV_ISDBT_LAYERC_TIME_INTERLEAVING, 0), (DTV_TUNE, 0)]"

primrec cmdargs_init :: "cmdseq \<Rightarrow> dtv_property list" where
  "cmdargs_init Dvbs = dvbs_cmdargs"
| "cmdargs_init Dvbs2 = dvbs2_cmdargs"
| "cmdargs_init Dvbc = dvbc_cmdargs"
| "cmdargs_init Dvbt = dvbt_cmdargs"
| "cmdargs_init Dvbt2 = dvbt2_cmdargs"
| "cmdargs_init Atsc = atsc_cmdargs"
| "cmdargs_init Isdbt = isdbt_cmdargs"

lemmas cmdargs_defs = dvbs_cmdargs_def dvbs2_cmdargs_def dvbc_cmdargs_def dvbt_cmdargs_def dvbt2_cmdargs_def
  atsc_cmdargs_def isdbt_cmdargs_def

text \<open>\<open>p->props[i].u.data = v\<close>.\<close>

definition put_prop :: "nat \<Rightarrow> 32 word \<Rightarrow> dtv_property list \<Rightarrow> dtv_property list" where
  "put_prop i v ps = ps[i := (fst (ps ! i), v)]"

lemma put_prop_cmds [simp]: "map fst (put_prop i v ps) = map fst ps"
  by (simp add: put_prop_def map_update) (metis list_update_id map_update)

lemma put_prop_length [simp]: "length (put_prop i v ps) = length ps"
  by (simp add: put_prop_def)

text \<open>The value a sequence gives a command.\<close>

definition prop_value :: "dtv_property list \<Rightarrow> dtv_cmd \<Rightarrow> 32 word option" where
  "prop_value ps c = map_of ps c"

end
