(* ===== verification/Dvb_CStrings.thy ===== *)
theory Dvb_CStrings
  imports Dvb_Prelude
begin

text \<open>
  What the program uses of the C library on text: comparing without case, searching, cutting into
  tokens and reading numbers. A C string is the list of its characters up to the final NUL.
\<close>

subsection \<open>Comparing and searching\<close>

definition to_lower :: "char \<Rightarrow> char" where
  "to_lower c = (let n = (of_char c :: nat) in if 65 \<le> n \<and> n \<le> 90 then char_of (n + 32) else c)"

text \<open>\<open>strcasecmp\<close> on ASCII strings, and \<open>strncasecmp(s, option, strlen(option))\<close> with what follows.\<close>

definition same_nocase :: "string \<Rightarrow> string \<Rightarrow> bool" where
  "same_nocase a b \<longleftrightarrow> map to_lower a = map to_lower b"

definition is_option :: "string \<Rightarrow> string \<Rightarrow> bool" where
  "is_option opt s \<longleftrightarrow> same_nocase (take (length opt) s) opt"

definition arg_option :: "string \<Rightarrow> string \<Rightarrow> string" where
  "arg_option opt s = drop (length opt) s"

text \<open>\<open>strpbrk\<close>, and \<open>strchr\<close> as its case of one character: the tail that starts with it.\<close>

definition str_pbrk :: "char list \<Rightarrow> string \<Rightarrow> string option" where
  "str_pbrk cs s = (case dropWhile (\<lambda>c. c \<notin> set cs) s of [] \<Rightarrow> None | r \<Rightarrow> Some r)"

definition str_chr :: "char \<Rightarrow> string \<Rightarrow> string option" where
  "str_chr c s = str_pbrk [c] s"

lemma str_pbrk_shorter:
  assumes "str_pbrk cs s = Some r"
  shows "r \<noteq> [] \<and> length r \<le> length s"
proof -
  have "r = dropWhile (\<lambda>c. c \<notin> set cs) s" "r \<noteq> []" using assms by (auto simp: str_pbrk_def split: list.splits)
  then show ?thesis using length_dropWhile_le [of "\<lambda>c. c \<notin> set cs" s] by simp
qed

definition before :: "char list \<Rightarrow> string \<Rightarrow> string" where
  "before cs s = takeWhile (\<lambda>c. c \<notin> set cs) s"

text \<open>\<open>strtok_r\<close>: the next token and what is left to cut.\<close>

definition strtok :: "char list \<Rightarrow> string \<Rightarrow> (string \<times> string) option" where
  "strtok cs s = (case dropWhile (\<lambda>c. c \<in> set cs) s of
       [] \<Rightarrow> None
     | t \<Rightarrow> Some (before cs t, drop 1 (dropWhile (\<lambda>c. c \<notin> set cs) t)))"

text \<open>All tokens, one after the other.\<close>

function tokens :: "char list \<Rightarrow> string \<Rightarrow> string list" where
  "tokens cs s = (case strtok cs s of None \<Rightarrow> [] | Some (t, r) \<Rightarrow> t # tokens cs r)"
  by pat_completeness auto
termination
proof (relation "measure (\<lambda>(cs, s). length s)", simp)
  fix cs s tr t r assume "strtok cs s = Some tr" "(t, r) = tr"
  then obtain a u where u: "dropWhile (\<lambda>c. c \<in> set cs) s = a # u" "r = drop 1 (dropWhile (\<lambda>c. c \<notin> set cs) (a # u))"
    by (auto simp: strtok_def simp del: dropWhile.simps split: list.splits)
  have "length (dropWhile (\<lambda>c. c \<notin> set cs) (a # u)) \<le> length (a # u)" by (rule length_dropWhile_le)
  moreover have "length (a # u) \<le> length s" using length_dropWhile_le [of "\<lambda>c. c \<in> set cs" s] u(1) by simp
  ultimately have "length r < length s" using u(2) by simp
  then show "((cs, r), (cs, s)) \<in> measure (\<lambda>(cs, s). length s)" by simp
qed

declare tokens.simps [simp del]

subsection \<open>Numbers\<close>

definition is_space :: "char \<Rightarrow> bool" where
  "is_space c \<longleftrightarrow> (let n = (of_char c :: nat) in n = 32 \<or> 9 \<le> n \<and> n \<le> 13)"

definition is_blank :: "char \<Rightarrow> bool" where
  "is_blank c \<longleftrightarrow> c = CHR '' '' \<or> c = CHR 0x09"

text \<open>The value of a digit in any base; 99 for what is none.\<close>

definition digit_of :: "char \<Rightarrow> nat" where
  "digit_of c = (let n = of_char c in
     if 48 \<le> n \<and> n \<le> 57 then n - 48 else if 97 \<le> n \<and> n \<le> 122 then n - 87
     else if 65 \<le> n \<and> n \<le> 90 then n - 55 else 99)"

definition digits_value :: "nat \<Rightarrow> string \<Rightarrow> nat" where
  "digits_value b s = foldl (\<lambda>v c. v * b + digit_of c) 0 (takeWhile (\<lambda>c. digit_of c < b) s)"

definition hex_prefix :: "string \<Rightarrow> bool" where
  "hex_prefix s \<longleftrightarrow> (case s of a # x # d # _ \<Rightarrow> a = CHR ''0'' \<and> to_lower x = CHR ''x'' \<and> digit_of d < 16 | _ \<Rightarrow> False)"

text \<open>Base 0 lets the prefix choose. The result is the sign and the magnitude.\<close>

definition str_number :: "nat \<Rightarrow> string \<Rightarrow> bool \<times> nat" where
  "str_number b s =
     (let s = dropWhile is_space s;
          neg = (s \<noteq> [] \<and> hd s = CHR ''-'');
          s = (if s \<noteq> [] \<and> (hd s = CHR ''-'' \<or> hd s = CHR ''+'') then tl s else s)
      in (neg, if b \<noteq> 0 then digits_value b s
               else if hex_prefix s then digits_value 16 (drop 2 s)
               else if s \<noteq> [] \<and> hd s = CHR ''0'' then digits_value 8 s
               else digits_value 10 s))"

text \<open>\<open>strtol\<close> and \<open>strtoll\<close> (64 bits both) saturate; \<open>strtoul\<close> negates as unsigned.\<close>

definition strtol :: "nat \<Rightarrow> string \<Rightarrow> int" where
  "strtol b s = (case str_number b s of (neg, m) \<Rightarrow>
     if neg then max (- (2 ^ 63)) (- int m) else min (2 ^ 63 - 1) (int m))"

definition strtoul :: "nat \<Rightarrow> string \<Rightarrow> nat" where
  "strtoul b s = (case str_number b s of (neg, m) \<Rightarrow>
     if int m > 2 ^ 64 - 1 then nat (2 ^ 64 - 1) else if neg then nat ((2 ^ 64 - int m) mod 2 ^ 64) else m)"

text \<open>A \<open>long\<close> stored in an \<open>int\<close>.\<close>

definition to_int32 :: "int \<Rightarrow> int" where
  "to_int32 v = sint (word_of_int v :: 32 word)"

definition atoi :: "string \<Rightarrow> int" where
  "atoi s = to_int32 (strtol 10 s)"

text \<open>Decimal digits, as \<open>printf\<close> writes them with \<open>%u\<close>.\<close>

fun show_nat :: "nat \<Rightarrow> string" where
  "show_nat n = (if n < 10 then [char_of (48 + n)] else show_nat (n div 10) @ [char_of (48 + n mod 10)])"

declare show_nat.simps [simp del]

subsection \<open>Reading back what was written\<close>

lemma digit_of_char [simp]: "d < 10 \<Longrightarrow> digit_of (char_of (48 + d)) = d"
  by (simp add: digit_of_def)

lemma show_nat_digits: "c \<in> set (show_nat n) \<Longrightarrow> \<exists>d<10. c = char_of (48 + d :: nat)"
proof (induction n rule: show_nat.induct)
  case (1 n)
  then show ?case
    by (cases "n < 10") (auto simp: show_nat.simps [of n] intro: exI [of _ "n mod 10"])
qed

lemma show_nat_not_empty [simp]: "show_nat n \<noteq> []"
  by (subst show_nat.simps) simp

lemma show_nat_value: "foldl (\<lambda>v c. v * 10 + digit_of c) a (show_nat n) = a * 10 ^ length (show_nat n) + n"
proof (induction n arbitrary: a rule: show_nat.induct)
  case (1 n)
  show ?case
  proof (cases "n < 10")
    case False
    with 1 [of a] show ?thesis
      by (simp add: show_nat.simps [of n] algebra_simps)
  qed (simp add: show_nat.simps [of n])
qed

lemma show_nat_zero_head: "hd (show_nat n) = CHR ''0'' \<Longrightarrow> n = 0"
proof (induction n rule: show_nat.induct)
  case (1 n)
  show ?case
  proof (cases "n < 10")
    case True
    have "digit_of (hd (show_nat n)) = n" using True by (simp add: show_nat.simps [of n])
    moreover have "digit_of (CHR ''0'') = 0" by (simp add: digit_of_def)
    ultimately show ?thesis using 1(2) by simp
  next
    case False
    then have "hd (show_nat n) = hd (show_nat (n div 10))" by (simp add: show_nat.simps [of n])
    with 1 False show ?thesis by auto
  qed
qed

lemma digits_value_show: "digits_value 10 (show_nat n) = n"
proof -
  have "takeWhile (\<lambda>c. digit_of c < 10) (show_nat n) = show_nat n"
    by (rule takeWhile_eq_all_conv [THEN iffD2]) (auto dest: show_nat_digits)
  then show ?thesis by (simp only: digits_value_def show_nat_value)
qed

lemma show_nat_head: "\<exists>d<10. hd (show_nat n) = char_of (48 + d :: nat)"
  by (rule show_nat_digits [of _ n]) simp

lemma digit_char_not:
  fixes d :: nat
  assumes "d < 10"
  shows "char_of (48 + d) \<noteq> CHR ''-''" "char_of (48 + d) \<noteq> CHR ''+''" "\<not> is_space (char_of (48 + d))"
    "char_of (48 + d) \<noteq> CHR '',''" "char_of (48 + d) \<noteq> CHR '' ''" "char_of (48 + d) \<noteq> CHR 0x0A" "char_of (48 + d) \<noteq> CHR 0x09"
    "char_of (48 + d) \<noteq> CHR ''*''" "char_of (48 + d) \<noteq> CHR ''#''"
proof -
  have n: "(of_char (char_of (48 + d) :: char) :: nat) = 48 + d" using assms by simp
  have ne: "char_of (48 + d) \<noteq> c" if "(of_char c :: nat) < 48" for c using that n by auto
  show "char_of (48 + d) \<noteq> CHR ''-''" "char_of (48 + d) \<noteq> CHR ''+''" "char_of (48 + d) \<noteq> CHR '',''"
    "char_of (48 + d) \<noteq> CHR '' ''" "char_of (48 + d) \<noteq> CHR 0x0A" "char_of (48 + d) \<noteq> CHR 0x09"
    "char_of (48 + d) \<noteq> CHR ''*''" "char_of (48 + d) \<noteq> CHR ''#''"
    by (rule ne, simp)+
  show "\<not> is_space (char_of (48 + d))" using n by (simp add: is_space_def)
qed

lemma str_number_show: "str_number 0 (show_nat n) = (False, n)" "str_number 10 (show_nat n) = (False, n)"
proof -
  obtain c r where cr: "show_nat n = c # r" by (cases "show_nat n") auto
  obtain d :: nat where d: "d < 10" "c = char_of (48 + d)" using show_nat_head [of n] cr by auto
  have sp: "dropWhile is_space (show_nat n) = show_nat n" using cr d digit_char_not(3) [OF d(1)] by simp
  have hd: "hd (show_nat n) \<noteq> CHR ''-''" "hd (show_nat n) \<noteq> CHR ''+''" using cr d digit_char_not [OF d(1)] by auto
  have hex: "\<not> hex_prefix (show_nat n)"
  proof (cases "n = 0")
    case False
    then show ?thesis using show_nat_zero_head [of n] cr by (auto simp: hex_prefix_def split: list.splits)
  qed (simp add: hex_prefix_def show_nat.simps)
  show "str_number 10 (show_nat n) = (False, n)" using sp hd by (simp add: str_number_def digits_value_show)
  have "digits_value 8 (show_nat n) = 0" if "hd (show_nat n) = CHR ''0''"
    using show_nat_zero_head [OF that] by (simp add: digits_value_def show_nat.simps digit_of_def)
  then have oct: "(if hd (show_nat n) = CHR ''0'' then digits_value 8 (show_nat n) else digits_value 10 (show_nat n)) = n"
    using show_nat_zero_head [of n] by (auto simp: digits_value_show)
  then show "str_number 0 (show_nat n) = (False, n)"
    using sp hd hex by (simp add: str_number_def Let_def split: if_splits)
qed

lemma strtol_show: "n < 2 ^ 63 \<Longrightarrow> strtol 0 (show_nat n) = int n" "n < 2 ^ 63 \<Longrightarrow> strtol 10 (show_nat n) = int n"
  by (simp_all add: strtol_def str_number_show)

lemma to_int32_id: "- (2 ^ 31) \<le> v \<Longrightarrow> v < 2 ^ 31 \<Longrightarrow> to_int32 v = v"
  by (simp add: to_int32_def sint_sbintrunc' signed_take_bit_int_eq_self)

subsection \<open>Tokens of what was joined\<close>

text \<open>Tokens joined by one separator each come back.\<close>

fun joined_by :: "char \<Rightarrow> string list \<Rightarrow> string" where
  "joined_by c [] = []"
| "joined_by c [t] = t"
| "joined_by c (t # ts) = t @ c # joined_by c ts"

definition token_ok :: "char list \<Rightarrow> string \<Rightarrow> bool" where
  "token_ok cs t \<longleftrightarrow> t \<noteq> [] \<and> set t \<inter> set cs = {}"

lemma strtok_here:
  assumes "token_ok cs t" and "c \<in> set cs"
  shows "strtok cs (t @ c # r) = Some (t, r)" "strtok cs t = Some (t, [])"
proof -
  obtain a u where t: "t = a # u" "a \<notin> set cs" using assms(1) by (cases t) (auto simp: token_ok_def)
  have all: "\<forall>x\<in>set t. x \<notin> set cs" using assms(1) by (auto simp: token_ok_def)
  show "strtok cs (t @ c # r) = Some (t, r)"
    using t all assms(2) by (simp add: strtok_def before_def takeWhile_append2 dropWhile_append2)
  show "strtok cs t = Some (t, [])"
    using t all by (simp add: strtok_def before_def takeWhile_eq_all_conv [THEN iffD2] dropWhile_eq_Nil_conv [THEN iffD2])
qed

lemma tokens_joined:
  assumes "\<forall>t\<in>set ts. token_ok [c] t"
  shows "tokens [c] (joined_by c ts) = ts"
  using assms
proof (induction c ts rule: joined_by.induct)
  case (1 c)
  then show ?case by (simp add: tokens.simps strtok_def)
next
  case (2 c t)
  then show ?case using strtok_here(2) [of "[c]" t c] by (simp add: tokens.simps [of _ t] tokens.simps [of _ "[]"] strtok_def [of _ "[]"])
next
  case (3 c t u us)
  then show ?case using strtok_here(1) [of "[c]" t c "joined_by c (u # us)"] by (simp add: tokens.simps [of _ "t @ _"])
qed

end
