(* ===== verification/Dvb_Frontend.thy ===== *)
theory Dvb_Frontend
  imports Dvb_DvbApi Dvb_CStrings Dvb_Control
begin

unbundle bit_operations_syntax

text \<open>
  The DVB receiver (\<open>cLdvbdev.cpp\<close>): opening the frontend and the DVR device, tuning
  (\<open>FrontendSet\<close> with its DiSEqC part), reading packets, the frontend's events and the timers that
  watch it. The driver is a parameter: a stream of results, error numbers and data, indexed by the
  position of the call in \<open>dev_log\<close>, the sequence of calls made (those to the event loop included).
\<close>

subsection \<open>Calls\<close>

datatype watcher = DvrIo | FrontendIo | LockTimer | MuteTimer | PrintTimer

datatype devnode = NodeFrontend | NodeDvr | NodeDemux

datatype devcall =
    DvOpen devnode int int            \<comment> \<open>adapter and number\<close>
  | DvClose int
  | DmxSetBufferSize int
  | DmxSetPesFilter int nat
  | DmxStop int
  | DvReadv nat
  | FeGetInfo
  | FeGetProperty "dtv_property list"
  | FeSetProperty "dtv_property list"
  | FeSetTone fe_sec_tone_mode
  | FeSetVoltage fe_sec_voltage
  | FeDiseqcSendMasterCmd bytes nat   \<comment> \<open>\<open>msg\<close> and \<open>msg_len\<close>\<close>
  | FeDiseqcSendBurst fe_sec_mini_cmd
  | FeGetEvent
  | FeReadStatus
  | FeReadBer
  | FeReadSignalStrength
  | FeReadSnr
  | FeReadUncorrectedBlocks
  | MSleep mtime
  | EvIoInit watcher int
  | EvIoStart watcher
  | EvTimerInit watcher mtime         \<comment> \<open>the delay, which is the period too\<close>
  | EvTimerAgain watcher
  | EvTimerStart watcher
  | EvTimerStop watcher
  | EvBreak int

record driver =
  dr_ret :: "nat \<Rightarrow> int"
  dr_err :: "nat \<Rightarrow> int"
  dr_info :: "nat \<Rightarrow> dvb_frontend_info"
  dr_version :: "nat \<Rightarrow> 32 word"
  dr_systems :: "nat \<Rightarrow> bytes \<times> 32 word"     \<comment> \<open>\<open>u.buffer.data\<close> and \<open>u.buffer.len\<close>\<close>
  dr_status :: "nat \<Rightarrow> 32 word"               \<comment> \<open>the status of an event or of \<open>FE_READ_STATUS\<close>\<close>
  dr_stat :: "nat \<Rightarrow> nat"
  dr_bytes :: "nat \<Rightarrow> bytes"

subsection \<open>State\<close>

record dvbdev = dvbdemux +
  drv :: driver
  dev_log :: "devcall list"
  cmdargs :: "cmdseq \<Rightarrow> dtv_property list"
  i_frontend :: int
  i_dvr :: int
  i_last_status :: "32 word"
  p_freelist :: "nat list"
  i_frequency :: int
  i_fenum :: int
  i_voltage :: int
  b_tone :: bool
  i_bandwidth :: int
  dvb_plp_id :: int
  i_inversion :: int
  i_srate :: int
  i_fec :: int
  i_rolloff :: int
  i_satnum :: int
  i_uncommitted :: int
  psz_modulation :: "string option"
  psz_delsys :: "string option"
  i_pilot :: int
  i_mis :: "32 word"
  i_fec_lp :: int
  i_guard :: int
  i_transmission :: int
  i_hierarchy :: int
  i_frontend_timeout_duration :: mtime
  i_dvr_buffer_size :: int
  psz_lnb_type :: string
  i_mis_pls_mode :: "32 word"
  i_mis_pls_code :: "32 word"
  i_mis_is_id :: "32 word"

definition DVB_DVR_BUFFER_SIZE :: int where "DVB_DVR_BUFFER_SIZE = 40 * 188 * 1024"
definition DVB_DVR_READ_TIMEOUT :: mtime where "DVB_DVR_READ_TIMEOUT = 30000000"
definition DVB_MAX_READ_ONCE :: nat where "DVB_MAX_READ_ONCE = 50"
definition DVB_MAX_DELIVERY_SYSTEMS :: nat where "DVB_MAX_DELIVERY_SYSTEMS = 20"
definition DEFAULT_FRONTEND_TIMEOUT :: mtime where "DEFAULT_FRONTEND_TIMEOUT = 30000000"
definition EWOULDBLOCK :: int where "EWOULDBLOCK = 11"

text \<open>The constructor; the command sequences start as \<open>cLdvbdevc.c\<close> initialises them.\<close>

definition dvbdev_Init :: "'a dvbdev_scheme \<Rightarrow> 'a dvbdev_scheme" where
  "dvbdev_Init s = s\<lparr>cmdargs := cmdargs_init, i_frontend := 0, i_dvr := 0, i_last_status := 0,
     p_freelist := [], i_frequency := 0, i_fenum := 0, i_voltage := 13, b_tone := False,
     i_bandwidth := 8, dvb_plp_id := 0, i_inversion := -1, i_srate := 27500000, i_fec := 999,
     i_rolloff := 35, i_satnum := 0, i_uncommitted := 0, psz_modulation := None, psz_delsys := None,
     i_pilot := -1, i_mis := 0, i_fec_lp := 999, i_guard := -1, i_transmission := -1,
     i_hierarchy := -1, i_dvr_buffer_size := DVB_DVR_BUFFER_SIZE,
     i_frontend_timeout_duration := DEFAULT_FRONTEND_TIMEOUT, psz_lnb_type := ''universal'',
     i_mis_pls_mode := 0, i_mis_pls_code := 0, i_mis_is_id := 0\<rparr>"

subsection \<open>Running with calls\<close>

text \<open>
  A routine returns a value and a state (\<open>Inr\<close>), ends the process by \<open>exit(1)\<close> in a state
  (\<open>Inl\<close>), or has undefined behaviour or never returns (\<open>None\<close>).
\<close>

type_synonym ('a, 's) run = "('s + 'a \<times> 's) option"

definition ret :: "'a \<Rightarrow> 's \<Rightarrow> ('a, 's) run" where
  "ret a s = Some (Inr (a, s))"

definition exit1 :: "'s \<Rightarrow> ('a, 's) run" where
  "exit1 s = Some (Inl s)"

definition andthen :: "('a, 's) run \<Rightarrow> ('a \<Rightarrow> 's \<Rightarrow> ('b, 's) run) \<Rightarrow> ('b, 's) run" where
  "andthen m f = (case m of None \<Rightarrow> None | Some (Inl s) \<Rightarrow> Some (Inl s) | Some (Inr (a, s)) \<Rightarrow> f a s)"

definition of_opt :: "'s option \<Rightarrow> (unit, 's) run" where
  "of_opt m = map_option (\<lambda>s. Inr ((), s)) m"

lemma andthen_simps [simp]:
  "andthen (ret a s) f = f a s" "andthen (exit1 s) f = exit1 s" "andthen None f = None"
  "andthen (Some (Inl s)) f = Some (Inl s)" "andthen (Some (Inr (a, s))) f = f a s"
  by (simp_all add: andthen_def ret_def exit1_def)

lemma ret_eq [simp]: "ret a s = Some (Inr (b, t)) \<longleftrightarrow> a = b \<and> s = t" "ret a s \<noteq> None" "ret a s \<noteq> exit1 t"
  "exit1 s \<noteq> None" "(exit1 s :: ('a, 's) run) \<noteq> Some (Inr x)" "ret a s = ret b t \<longleftrightarrow> a = b \<and> s = t"
  by (simp_all add: ret_def exit1_def)

lemma andthen_ret: "andthen m f = Some (Inr r) \<longleftrightarrow> (\<exists>a s. m = Some (Inr (a, s)) \<and> f a s = Some (Inr r))"
  by (auto simp: andthen_def split: option.splits sum.splits)

lemma andthen_assoc: "andthen (andthen m f) g = andthen m (\<lambda>a s. andthen (f a s) g)"
  by (auto simp: andthen_def split: option.splits sum.splits)

definition pos :: "'a dvbdev_scheme \<Rightarrow> nat" where
  "pos s = length (dev_log s)"

definition ev_call :: "devcall \<Rightarrow> 'a dvbdev_scheme \<Rightarrow> 'a dvbdev_scheme" where
  "ev_call c s = s\<lparr>dev_log := dev_log s @ [c]\<rparr>"

definition dev_call :: "devcall \<Rightarrow> 'a dvbdev_scheme \<Rightarrow> int \<times> 'a dvbdev_scheme" where
  "dev_call c s = (dr_ret (drv s) (pos s), ev_call c s)"

text \<open>\<open>if (ioctl(...) < 0) exit(1);\<close>\<close>

definition must :: "devcall \<Rightarrow> 'a dvbdev_scheme \<Rightarrow> (int, 'a dvbdev_scheme) run" where
  "must c s = (case dev_call c s of (r, s) \<Rightarrow> if r < 0 then exit1 s else ret r s)"

subsection \<open>Satellite equipment control\<close>

definition sec_voltage :: "int \<Rightarrow> fe_sec_voltage" where
  "sec_voltage v = (if v = 0 then SEC_VOLTAGE_OFF else if v = 18 then SEC_VOLTAGE_18 else SEC_VOLTAGE_13)"

text \<open>The intermediate frequency, and whether the band turns the tone on; \<open>None\<close>: \<open>exit(1)\<close>.\<close>

definition lnb_band :: "string \<Rightarrow> int \<Rightarrow> (int \<times> bool) option" where
  "lnb_band lnb f =
     (if lnb = ''universal''
      then (if 950000 \<le> f \<and> f \<le> 2150000 then Some (f, False)
            else if 2500000 \<le> f \<and> f \<le> 2700000 then Some (3650000 - f, False)
            else if 3400000 \<le> f \<and> f \<le> 4200000 then Some (5150000 - f, False)
            else if 4500000 \<le> f \<and> f \<le> 4800000 then Some (5950000 - f, False)
            else if 10700000 \<le> f \<and> f < 11700000 then Some (f - 9750000, False)
            else if 11700000 \<le> f \<and> f \<le> 13250000 then Some (f - 10600000, True)
            else None)
      else if lnb = ''old-sky''
      then (if 11700000 \<le> f \<and> f \<le> 13250000 then Some (f - 11300000, True) else None)
      else None)"

definition committed_byte :: "int \<Rightarrow> fe_sec_voltage \<Rightarrow> fe_sec_tone_mode \<Rightarrow> byte" where
  "committed_byte sat v t = 0xf0 OR push_bit 2 (word_of_int (sat - 1))
     OR (if v = SEC_VOLTAGE_13 then 0 else 2) OR (if t = SEC_TONE_ON then 1 else 0)"

definition uncommitted_byte :: "int \<Rightarrow> byte" where
  "uncommitted_byte n = 0xf0 OR word_of_int (n - 1)"

definition diseqc_cmd :: "byte \<Rightarrow> byte \<Rightarrow> byte \<Rightarrow> devcall" where
  "diseqc_cmd framing cmd arg = FeDiseqcSendMasterCmd [framing, 0x10, cmd, arg, 0x00, 0x00] 4"

text \<open>Each command goes out twice, the second time marked as repeated.\<close>

definition send_uncommitted :: "int \<Rightarrow> 'a dvbdev_scheme \<Rightarrow> (unit, 'a dvbdev_scheme) run" where
  "send_uncommitted n s =
     (if 0 < n \<and> n < 17
      then andthen (must (diseqc_cmd 0xe0 0x39 (uncommitted_byte n)) s) (\<lambda>_ s.
           andthen (must (diseqc_cmd 0xe1 0x39 (uncommitted_byte n)) s) (\<lambda>_ s.
           ret () (ev_call (MSleep 125000) s)))
      else ret () s)"

definition send_committed :: "byte \<Rightarrow> 'a dvbdev_scheme \<Rightarrow> (unit, 'a dvbdev_scheme) run" where
  "send_committed b s =
     andthen (must (diseqc_cmd 0xe0 0x38 b) s) (\<lambda>_ s.
     andthen (must (diseqc_cmd 0xe1 0x38 b) (ev_call (MSleep 100000) s)) (\<lambda>_ s.
     ret () (ev_call (MSleep 100000) s)))"

definition diseqc_switch ::
  "fe_sec_voltage \<Rightarrow> fe_sec_tone_mode \<Rightarrow> 'a dvbdev_scheme \<Rightarrow> (unit, 'a dvbdev_scheme) run" where
  "diseqc_switch v t s =
     (if 0 < i_satnum s \<and> i_satnum s < 5
      then andthen (send_uncommitted (i_uncommitted s) s) (\<lambda>_ s. send_committed (committed_byte (i_satnum s) v t) s)
      else if i_satnum s = 0xA \<or> i_satnum s = 0xB
      then andthen (must (FeDiseqcSendBurst (if i_satnum s = 0xB then SEC_MINI_B else SEC_MINI_A)) s) (\<lambda>_ s.
           ret () (ev_call (MSleep 100000) s))
      else ret () s)"

definition FrontendDoDiseqc :: "'a dvbdev_scheme \<Rightarrow> (int, 'a dvbdev_scheme) run" where
  "FrontendDoDiseqc s =
     (let v = sec_voltage (i_voltage s) in
      case lnb_band (psz_lnb_type s) (i_frequency s) of
        None \<Rightarrow> exit1 s
      | Some (bis, high) \<Rightarrow>
          (let tone = (if high \<or> b_tone s then SEC_TONE_ON else SEC_TONE_OFF) in
           andthen (must (FeSetTone SEC_TONE_OFF) s) (\<lambda>_ s.
           andthen (must (FeSetVoltage v) s) (\<lambda>_ s.
           andthen (diseqc_switch v tone (ev_call (MSleep 100000) s)) (\<lambda>_ s.
           andthen (must (FeSetTone tone) s) (\<lambda>_ s.
           ret bis (ev_call (MSleep 100000) s)))))))"

subsection \<open>From the configuration to the driver's values\<close>

definition GetInversion :: "int \<Rightarrow> fe_spectral_inversion" where
  "GetInversion i = (if i = 0 then INVERSION_OFF else if i = 1 then INVERSION_ON else INVERSION_AUTO)"

definition GetFEC :: "32 word \<Rightarrow> int \<Rightarrow> fe_code_rate" where
  "GetFEC caps v =
     (if caps AND FE_CAN_FEC_AUTO \<noteq> 0 \<and> v = 999 then FEC_AUTO
      else if caps AND FE_CAN_FEC_AUTO \<noteq> 0 \<and> v = -1 then FEC_AUTO
      else if v = 0 then FEC_NONE
      else if caps AND FE_CAN_FEC_1_2 \<noteq> 0 \<and> v = 12 then FEC_1_2
      else if caps AND FE_CAN_FEC_2_3 \<noteq> 0 \<and> v = 23 then FEC_2_3
      else if caps AND FE_CAN_FEC_3_4 \<noteq> 0 \<and> v = 34 then FEC_3_4
      else if v = 35 then FEC_3_5
      else if caps AND FE_CAN_FEC_4_5 \<noteq> 0 \<and> v = 45 then FEC_4_5
      else if caps AND FE_CAN_FEC_5_6 \<noteq> 0 \<and> v = 56 then FEC_5_6
      else if caps AND FE_CAN_FEC_6_7 \<noteq> 0 \<and> v = 67 then FEC_6_7
      else if caps AND FE_CAN_FEC_7_8 \<noteq> 0 \<and> v = 78 then FEC_7_8
      else if caps AND FE_CAN_FEC_8_9 \<noteq> 0 \<and> v = 89 then FEC_8_9
      else if v = 910 then FEC_9_10
      else FEC_AUTO)"

definition GetModulation :: "string \<Rightarrow> fe_modulation option" where
  "GetModulation m =
     (if same_nocase m ''QPSK'' then Some QPSK else if same_nocase m ''QAM_16'' then Some QAM_16
      else if same_nocase m ''QAM_32'' then Some QAM_32 else if same_nocase m ''QAM_64'' then Some QAM_64
      else if same_nocase m ''QAM_128'' then Some QAM_128 else if same_nocase m ''QAM_256'' then Some QAM_256
      else if same_nocase m ''QAM_AUTO'' then Some QAM_AUTO else if same_nocase m ''VSB_8'' then Some VSB_8
      else if same_nocase m ''VSB_16'' then Some VSB_16 else if same_nocase m ''PSK_8'' then Some PSK_8
      else if same_nocase m ''APSK_16'' then Some APSK_16 else if same_nocase m ''APSK_32'' then Some APSK_32
      else if same_nocase m ''DQPSK'' then Some DQPSK else None)"

definition GetPilot :: "int \<Rightarrow> fe_pilot" where
  "GetPilot i = (if i = 0 then PILOT_OFF else if i = 1 then PILOT_ON else PILOT_AUTO)"

definition GetRollOff :: "int \<Rightarrow> fe_rolloff" where
  "GetRollOff i = (if i = -1 \<or> i = 0 then ROLLOFF_AUTO else if i = 20 then ROLLOFF_20
     else if i = 25 then ROLLOFF_25 else ROLLOFF_35)"

definition GetGuard :: "int \<Rightarrow> fe_guard_interval" where
  "GetGuard i = (if i = 32 then GUARD_INTERVAL_1_32 else if i = 16 then GUARD_INTERVAL_1_16
     else if i = 8 then GUARD_INTERVAL_1_8 else if i = 4 then GUARD_INTERVAL_1_4 else GUARD_INTERVAL_AUTO)"

text \<open>\<open>TRANSMISSION_MODE_4K\<close> is an enumerator, not a macro: its case is not compiled.\<close>

definition GetTransmission :: "int \<Rightarrow> fe_transmit_mode" where
  "GetTransmission i = (if i = 2 then TRANSMISSION_MODE_2K else if i = 8 then TRANSMISSION_MODE_8K
     else TRANSMISSION_MODE_AUTO)"

definition GetHierarchy :: "int \<Rightarrow> fe_hierarchy" where
  "GetHierarchy i = (if i = 0 then HIERARCHY_NONE else if i = 1 then HIERARCHY_1
     else if i = 2 then HIERARCHY_2 else if i = 4 then HIERARCHY_4 else HIERARCHY_AUTO)"

subsection \<open>What the frontend can do\<close>

datatype info_line = InfoVersion "32 word" "32 word" | InfoName string | InfoFrequency nat nat nat nat
  | InfoSymbolRate nat nat nat | InfoCap string | InfoSystem string | InfoUnknownSystem "32 word"

definition fe_cap_names :: "(32 word \<times> string) list" where
  "fe_cap_names =
     [(FE_IS_STUPID, ''FE_IS_STUPID''), (FE_CAN_INVERSION_AUTO, ''INVERSION_AUTO''), (FE_CAN_FEC_1_2, ''FEC_1_2''),
      (FE_CAN_FEC_2_3, ''FEC_2_3''), (FE_CAN_FEC_3_4, ''FEC_3_4''), (FE_CAN_FEC_4_5, ''FEC_4_5''),
      (FE_CAN_FEC_5_6, ''FEC_5_6''), (FE_CAN_FEC_6_7, ''FEC_6_7''), (FE_CAN_FEC_7_8, ''FEC_7_8''),
      (FE_CAN_FEC_8_9, ''FEC_8_9''), (FE_CAN_FEC_AUTO, ''FEC_AUTO''), (FE_CAN_QPSK, ''QPSK''),
      (FE_CAN_QAM_16, ''QAM_16''), (FE_CAN_QAM_32, ''QAM_32''), (FE_CAN_QAM_64, ''QAM_64''),
      (FE_CAN_QAM_128, ''QAM_128''), (FE_CAN_QAM_256, ''QAM_256''), (FE_CAN_QAM_AUTO, ''QAM_AUTO''),
      (FE_CAN_TRANSMISSION_MODE_AUTO, ''TRANSMISSION_MODE_AUTO''), (FE_CAN_BANDWIDTH_AUTO, ''BANDWIDTH_AUTO''),
      (FE_CAN_GUARD_INTERVAL_AUTO, ''GUARD_INTERVAL_AUTO''), (FE_CAN_HIERARCHY_AUTO, ''HIERARCHY_AUTO''),
      (FE_CAN_8VSB, ''8VSB''), (FE_CAN_16VSB, ''16VSB''), (FE_HAS_EXTENDED_CAPS, ''EXTENDED_CAPS''),
      (FE_CAN_2G_MODULATION, ''2G_MODULATION''), (FE_CAN_MULTISTREAM, ''MULTISTREAM''),
      (FE_CAN_TURBO_FEC, ''TURBO_FEC''), (FE_NEEDS_BENDING, ''NEEDS_BENDING''),
      (FE_CAN_RECOVER, ''FE_CAN_RECOVER''), (FE_CAN_MUTE_TS, ''FE_CAN_MUTE_TS'')]"

definition fe_system_names :: "(32 word \<times> string) list" where
  "fe_system_names =
     [(SYS_ATSC, ''ATSC''), (SYS_ATSCMH, ''ATSCMH''), (SYS_CMMB, ''CMBB''), (SYS_DAB, ''DAB''), (SYS_DSS, ''DSS''),
      (SYS_DVBC_ANNEX_B, ''DVBC_ANNEX_B''), (SYS_DVBH, ''DVBH''), (SYS_DVBS, ''DVBS''), (SYS_DVBS2, ''DVBS2''),
      (SYS_DVBT, ''DVBT''), (SYS_ISDBC, ''ISDBC''), (SYS_ISDBS, ''ISDBS''), (SYS_ISDBT, ''ISDBT''),
      (SYS_UNDEFINED, ''UNDEFINED''), (SYS_DVBC_ANNEX_A, ''DVBC_ANNEX_A''), (SYS_DVBC_ANNEX_C, ''DVBC_ANNEX_C''),
      (SYS_DVBT2, ''DVBT2''), (SYS_TURBO, ''TURBO''), (SYS_DTMB, ''DTMB'')]"

text \<open>The lines printed at the first tuning.\<close>

definition FrontendInfo :: "dvb_frontend_info \<Rightarrow> 32 word \<Rightarrow> fe_delivery_system list \<Rightarrow> info_line list" where
  "FrontendInfo info version systems =
     [InfoVersion (version div 256) (version mod 256), InfoName (fe_name info),
      InfoFrequency (frequency_min info) (frequency_max info) (frequency_stepsize info) (frequency_tolerance info),
      InfoSymbolRate (symbol_rate_min info) (symbol_rate_max info) (symbol_rate_tolerance info)]
     @ map (\<lambda>(_, n). InfoCap n) (filter (\<lambda>(c, _). fe_caps info AND c \<noteq> 0) fe_cap_names)
     @ map (\<lambda>d. case map_of fe_system_names d of Some n \<Rightarrow> InfoSystem n | None \<Rightarrow> InfoUnknownSystem d) systems"

subsection \<open>The delivery system\<close>

definition named_system :: "string \<Rightarrow> fe_delivery_system option" where
  "named_system d =
     (if same_nocase d ''DVBS'' then Some SYS_DVBS else if same_nocase d ''DVBS2'' then Some SYS_DVBS2
      else if same_nocase d ''DVBC_ANNEX_A'' then Some SYS_DVBC_ANNEX_A
      else if same_nocase d ''DVBC_ANNEX_B'' then Some SYS_DVBC_ANNEX_B
      else if same_nocase d ''DVBT'' then Some SYS_DVBT else if same_nocase d ''DVBT2'' then Some SYS_DVBT2
      else if same_nocase d ''ATSC'' then Some SYS_ATSC else if same_nocase d ''ISDBT'' then Some SYS_ISDBT
      else None)"

definition plausible_system :: "'a dvbdev_scheme \<Rightarrow> fe_delivery_system \<Rightarrow> bool" where
  "plausible_system s d \<longleftrightarrow>
     (if d = SYS_DVBS then i_frequency s < 50000000
      else if d = SYS_DVBC_ANNEX_A then i_frequency s > 50000000 \<or> i_srate s \<noteq> 27500000 \<or> psz_modulation s \<noteq> None
      else if d = SYS_DVBT then i_frequency s > 50000000
      else if d = SYS_DVBT2 then i_frequency s > 50000000 \<and> dvb_plp_id s \<noteq> 0
      else False)"

text \<open>The first entry of the zeroed array stands for an empty list of systems.\<close>

definition FrontendGuessSystem ::
  "fe_delivery_system list \<Rightarrow> 'a dvbdev_scheme \<Rightarrow> fe_delivery_system option" where
  "FrontendGuessSystem systems s =
     (case psz_delsys s of
        Some d \<Rightarrow> named_system d
      | None \<Rightarrow>
          (if length systems = 1 then Some (hd systems)
           else case find (plausible_system s) systems of
                  Some d \<Rightarrow> Some d
                | None \<Rightarrow> Some (if systems = [] then SYS_UNDEFINED else hd systems)))"

text \<open>A driver of the old API names a type; the type and the capabilities give the systems.\<close>

definition dvbv3_systems :: "dvb_frontend_info \<Rightarrow> fe_delivery_system list option" where
  "dvbv3_systems info =
     (let can = (\<lambda>c. fe_caps info AND c \<noteq> 0) in
      case fe_type_of (fe_itype info) of
        Some FE_OFDM \<Rightarrow> Some (SYS_DVBT # (if can FE_CAN_2G_MODULATION then [SYS_DVBT2] else []))
      | Some FE_QAM \<Rightarrow> Some [SYS_DVBC_ANNEX_A]
      | Some FE_QPSK \<Rightarrow> Some (SYS_DVBS # (if can FE_CAN_2G_MODULATION then [SYS_DVBS2] else []))
      | Some FE_ATSC \<Rightarrow> Some ((if can (FE_CAN_8VSB OR FE_CAN_16VSB) then [SYS_ATSC] else [])
          @ (if can (FE_CAN_QAM_64 OR FE_CAN_QAM_256 OR FE_CAN_QAM_AUTO) then [SYS_DVBC_ANNEX_B] else []))
      | None \<Rightarrow> None)"

text \<open>
  The systems of the frontend. The array for them has 20 entries; a driver that reports more makes
  the copy run past its end.
\<close>

definition query_systems ::
  "dvb_frontend_info \<Rightarrow> 'a dvbdev_scheme \<Rightarrow> (fe_delivery_system list, 'a dvbdev_scheme) run" where
  "query_systems info s =
     (let (r, s) = dev_call (FeGetProperty [(DTV_API_VERSION, 0)]) s in
      if r < 0 then (case dvbv3_systems info of None \<Rightarrow> exit1 s | Some ds \<Rightarrow> ret ds s)
      else
        (let n = pos s in
         andthen (must (FeGetProperty [(DTV_ENUM_DELSYS, 0)]) s) (\<lambda>_ s.
           (let (buf, len) = dr_systems (drv s) n; k = sint len in
            if k < 1 then exit1 s
            else if k \<le> int DVB_MAX_DELIVERY_SYSTEMS \<and> k \<le> int (length buf)
            then ret (map ucast (take (nat k) buf)) s
            else None))))"

subsection \<open>Tuning\<close>

text \<open>Positions of the properties in the sequences.\<close>

definition DELSYS :: nat where "DELSYS = 0"
definition FREQUENCY :: nat where "FREQUENCY = 1"
definition MODULATION :: nat where "MODULATION = 2"
definition INVERSION :: nat where "INVERSION = 3"
definition SYMBOL_RATE :: nat where "SYMBOL_RATE = 4"
definition BANDWIDTH :: nat where "BANDWIDTH = 4"
definition FEC_INNER :: nat where "FEC_INNER = 5"
definition FEC_LP :: nat where "FEC_LP = 6"
definition GUARD :: nat where "GUARD = 7"
definition TRANSMISSION :: nat where "TRANSMISSION = 8"
definition HIERARCHY :: nat where "HIERARCHY = 9"
definition PLP_ID :: nat where "PLP_ID = 10"
definition IDX_DVBS2_PILOT :: nat where "IDX_DVBS2_PILOT = 6"
definition IDX_DVBS2_ROLLOFF :: nat where "IDX_DVBS2_ROLLOFF = 7"
definition IDX_DVBS2_STREAM_ID :: nat where "IDX_DVBS2_STREAM_ID = 8"
definition ISDBT_BANDWIDTH :: nat where "ISDBT_BANDWIDTH = 2"
definition ISDBT_LAYERA_FEC :: nat where "ISDBT_LAYERA_FEC = 4"

lemmas prop_index_defs = DELSYS_def FREQUENCY_def MODULATION_def INVERSION_def SYMBOL_RATE_def BANDWIDTH_def
  FEC_INNER_def FEC_LP_def GUARD_def TRANSMISSION_def HIERARCHY_def PLP_ID_def IDX_DVBS2_PILOT_def
  IDX_DVBS2_ROLLOFF_def IDX_DVBS2_STREAM_ID_def ISDBT_BANDWIDTH_def ISDBT_LAYERA_FEC_def

definition set_prop :: "cmdseq \<Rightarrow> nat \<Rightarrow> 32 word \<Rightarrow> 'a dvbdev_scheme \<Rightarrow> 'a dvbdev_scheme" where
  "set_prop q i v s = s\<lparr>cmdargs := (cmdargs s)(q := put_prop i v (cmdargs s q))\<rparr>"

text \<open>\<open>if (psz_modulation) p->props[MODULATION] = GetModulation()\<close>; an unknown name ends the process.\<close>

definition set_modulation :: "cmdseq \<Rightarrow> 'a dvbdev_scheme \<Rightarrow> (unit, 'a dvbdev_scheme) run" where
  "set_modulation q s =
     (case psz_modulation s of
        None \<Rightarrow> ret () s
      | Some m \<Rightarrow> (case GetModulation m of
          None \<Rightarrow> exit1 s
        | Some v \<Rightarrow> ret () (set_prop q MODULATION (fe_modulation_val v) s)))"

definition set_common :: "cmdseq \<Rightarrow> 'a dvbdev_scheme \<Rightarrow> 'a dvbdev_scheme" where
  "set_common q s =
     set_prop q INVERSION (fe_spectral_inversion_val (GetInversion (i_inversion s)))
       (set_prop q FREQUENCY (word_of_int (i_frequency s)) s)"

definition set_terrestrial :: "cmdseq \<Rightarrow> 32 word \<Rightarrow> 'a dvbdev_scheme \<Rightarrow> 'a dvbdev_scheme" where
  "set_terrestrial q caps s =
     (let s = set_prop q BANDWIDTH (word_of_int (i_bandwidth s * 1000000)) s;
          s = set_prop q FEC_INNER (fe_code_rate_val (GetFEC caps (i_fec s))) s;
          s = set_prop q FEC_LP (fe_code_rate_val (GetFEC caps (i_fec_lp s))) s;
          s = set_prop q GUARD (fe_guard_interval_val (GetGuard (i_guard s))) s;
          s = set_prop q TRANSMISSION (fe_transmit_mode_val (GetTransmission (i_transmission s))) s
      in set_prop q HIERARCHY (fe_hierarchy_val (GetHierarchy (i_hierarchy s))) s)"

definition tune_dvbt :: "32 word \<Rightarrow> 'a dvbdev_scheme \<Rightarrow> (cmdseq, 'a dvbdev_scheme) run" where
  "tune_dvbt caps s =
     andthen (set_modulation Dvbt (set_common Dvbt (set_prop Dvbt DELSYS SYS_DVBT s))) (\<lambda>_ s.
     ret Dvbt (set_terrestrial Dvbt caps s))"

definition tune_dvbt2 :: "32 word \<Rightarrow> 'a dvbdev_scheme \<Rightarrow> (cmdseq, 'a dvbdev_scheme) run" where
  "tune_dvbt2 caps s =
     andthen (set_modulation Dvbt2 (set_common Dvbt2 (set_prop Dvbt2 DELSYS SYS_DVBT2 s))) (\<lambda>_ s.
     let s = set_terrestrial Dvbt2 caps s in
     ret Dvbt2 (set_prop Dvbt2 PLP_ID (word_of_int (dvb_plp_id s)) s))"

definition tune_dvbc :: "'a dvbdev_scheme \<Rightarrow> (cmdseq, 'a dvbdev_scheme) run" where
  "tune_dvbc s = andthen (set_modulation Dvbc (set_common Dvbc s)) (\<lambda>_ s.
     ret Dvbc (set_prop Dvbc SYMBOL_RATE (word_of_int (i_srate s)) s))"

definition tune_annex_b :: "'a dvbdev_scheme \<Rightarrow> (cmdseq, 'a dvbdev_scheme) run" where
  "tune_annex_b s =
     andthen (set_modulation Atsc (set_common Atsc (set_prop Atsc DELSYS SYS_DVBC_ANNEX_B s))) (\<lambda>_. ret Atsc)"

definition tune_atsc :: "'a dvbdev_scheme \<Rightarrow> (cmdseq, 'a dvbdev_scheme) run" where
  "tune_atsc s = andthen (set_modulation Atsc (set_common Atsc s)) (\<lambda>_. ret Atsc)"

definition set_dvbs2 :: "'a dvbdev_scheme \<Rightarrow> 'a dvbdev_scheme" where
  "set_dvbs2 s =
     (let s = set_prop Dvbs2 IDX_DVBS2_PILOT (fe_pilot_val (GetPilot (i_pilot s))) s;
          s = set_prop Dvbs2 IDX_DVBS2_ROLLOFF (fe_rolloff_val (GetRollOff (i_rolloff s))) s
      in set_prop Dvbs2 IDX_DVBS2_STREAM_ID (i_mis s) s)"

text \<open>A modulation makes it DVB-S2, whichever of the two systems was asked for.\<close>

definition tune_dvbs :: "32 word \<Rightarrow> 'a dvbdev_scheme \<Rightarrow> (cmdseq, 'a dvbdev_scheme) run" where
  "tune_dvbs caps s =
     andthen (case psz_modulation s of
                None \<Rightarrow> ret Dvbs s
              | Some _ \<Rightarrow> andthen (set_modulation Dvbs2 s) (\<lambda>_ s. ret Dvbs2 (set_dvbs2 s))) (\<lambda>q s.
     let s = set_prop q INVERSION (fe_spectral_inversion_val (GetInversion (i_inversion s))) s;
         s = set_prop q SYMBOL_RATE (word_of_int (i_srate s)) s;
         s = set_prop q FEC_INNER (fe_code_rate_val (GetFEC caps (i_fec s))) s
     in andthen (FrontendDoDiseqc s) (\<lambda>bis s. ret q (set_prop q FREQUENCY (word_of_int bis) s)))"

text \<open>The three layers are written as the sequence has them.\<close>

definition isdbt_layer :: "nat \<Rightarrow> 'a dvbdev_scheme \<Rightarrow> 'a dvbdev_scheme" where
  "isdbt_layer i s =
     set_prop Isdbt (i + 3) 0 (set_prop Isdbt (i + 2) 0
       (set_prop Isdbt (i + 1) (fe_modulation_val QAM_AUTO) (set_prop Isdbt i (fe_code_rate_val FEC_AUTO) s)))"

definition tune_isdbt :: "'a dvbdev_scheme \<Rightarrow> (cmdseq, 'a dvbdev_scheme) run" where
  "tune_isdbt s =
     (let s = set_common Isdbt (set_prop Isdbt DELSYS SYS_ISDBT s);
          s = set_prop Isdbt ISDBT_BANDWIDTH (word_of_int (i_bandwidth s * 1000000)) s
      in ret Isdbt (fold isdbt_layer [ISDBT_LAYERA_FEC, ISDBT_LAYERA_FEC + 4, ISDBT_LAYERA_FEC + 8] s))"

definition tune :: "fe_delivery_system \<Rightarrow> 32 word \<Rightarrow> 'a dvbdev_scheme \<Rightarrow> (cmdseq, 'a dvbdev_scheme) run" where
  "tune d caps s =
     (if d = SYS_DVBT then tune_dvbt caps s
      else if d = SYS_DVBT2 then tune_dvbt2 caps s
      else if d = SYS_DVBC_ANNEX_A then tune_dvbc s
      else if d = SYS_DVBC_ANNEX_B then tune_annex_b s
      else if d = SYS_DVBS \<or> d = SYS_DVBS2 then tune_dvbs caps s
      else if d = SYS_ATSC then tune_atsc s
      else if d = SYS_ISDBT then tune_isdbt s
      else exit1 s)"

text \<open>
  Emptying the event queue: calls are repeated until one fails with \<open>EWOULDBLOCK\<close>. The result is
  the number of calls made; \<open>None\<close> is the loop that never ends.
\<close>

partial_function (option) drain_events :: "driver \<Rightarrow> nat \<Rightarrow> nat option" where
  "drain_events d n =
     (if dr_ret d n < 0 \<and> dr_err d n = EWOULDBLOCK then Some 1 else do { k \<leftarrow> drain_events d (Suc n); Some (Suc k) })"

definition empty_queue :: "'a dvbdev_scheme \<Rightarrow> (unit, 'a dvbdev_scheme) run" where
  "empty_queue s = (case drain_events (drv s) (pos s) of
       None \<Rightarrow> None | Some k \<Rightarrow> ret () (s\<lparr>dev_log := dev_log s @ replicate k FeGetEvent\<rparr>))"

definition arm_lock :: "'a dvbdev_scheme \<Rightarrow> 'a dvbdev_scheme" where
  "arm_lock s = (if i_frontend_timeout_duration s \<noteq> 0 then ev_call (EvTimerAgain LockTimer) s else s)"

text \<open>\<open>b_init\<close> only decides whether \<open>FrontendInfo\<close> is printed.\<close>

definition FrontendSet :: "bool \<Rightarrow> 'a dvbdev_scheme \<Rightarrow> (unit, 'a dvbdev_scheme) run" where
  "FrontendSet b_init s =
     (let info = dr_info (drv s) (pos s) in
      andthen (must FeGetInfo s) (\<lambda>_ s.
      andthen (query_systems info s) (\<lambda>systems s.
      andthen (must (FeSetProperty [(DTV_CLEAR, 0)]) s) (\<lambda>_ s.
      case FrontendGuessSystem systems s of
        None \<Rightarrow> exit1 s
      | Some d \<Rightarrow>
          andthen (tune d (fe_caps info) s) (\<lambda>q s.
          andthen (empty_queue s) (\<lambda>_ s.
          andthen (must (FeSetProperty (cmdargs s q)) s) (\<lambda>_ s.
          ret () (arm_lock (s\<lparr>i_last_status := 0\<rparr>)))))))))"

subsection \<open>Opening and resetting\<close>

definition pack_mis :: "32 word \<Rightarrow> 32 word \<Rightarrow> 32 word \<Rightarrow> 32 word" where
  "pack_mis mode code is_id = push_bit 26 mode OR push_bit 8 code OR is_id"

definition open_mis :: "'a dvbdev_scheme \<Rightarrow> 'a dvbdev_scheme" where
  "open_mis s =
     (if i_mis_pls_mode s \<noteq> 0 \<or> i_mis_pls_code s \<noteq> 0 \<or> i_mis_is_id s \<noteq> 0
      then s\<lparr>i_mis := pack_mis (i_mis_pls_mode s) (i_mis_pls_code s) (i_mis_is_id s)\<rparr>
      else if i_mis s \<noteq> 0
      then s\<lparr>i_mis_pls_mode := drop_bit 26 (i_mis s) AND 0x03, i_mis_pls_code := drop_bit 8 (i_mis s) AND 0x3ffff,
             i_mis_is_id := i_mis s AND 0xff\<rparr>
      else s)"

definition open_frontend :: "'a dvbdev_scheme \<Rightarrow> (unit, 'a dvbdev_scheme) run" where
  "open_frontend s =
     (if i_frequency s \<noteq> 0
      then (let (fd, s) = dev_call (DvOpen NodeFrontend (i_adapter s) (i_fenum s)) s; s = s\<lparr>i_frontend := fd\<rparr> in
            if fd < 0 then exit1 s else FrontendSet True s)
      else ret () (s\<lparr>i_frontend := -1\<rparr>))"

definition open_dvr :: "'a dvbdev_scheme \<Rightarrow> (unit, 'a dvbdev_scheme) run" where
  "open_dvr s =
     (let (fd, s) = dev_call (DvOpen NodeDvr (i_adapter s) (i_fenum s)) s; s = s\<lparr>i_dvr := fd\<rparr> in
      if fd < 0 then exit1 s else ret () (snd (dev_call (DmxSetBufferSize (i_dvr_buffer_size s)) s)))"

definition dev_watchers :: "'a dvbdev_scheme \<Rightarrow> 'a dvbdev_scheme" where
  "dev_watchers s =
     (let s = ev_call (EvIoStart DvrIo) (ev_call (EvIoInit DvrIo (i_dvr s)) s);
          s = (if i_frontend s \<noteq> -1
               then ev_call (EvIoStart FrontendIo) (ev_call (EvIoInit FrontendIo (i_frontend s)) s) else s);
          s = ev_call (EvTimerInit LockTimer (i_frontend_timeout_duration s)) s
      in ev_call (EvTimerInit MuteTimer DVB_DVR_READ_TIMEOUT) s)"

definition dev_Open :: "'a dvbdev_scheme \<Rightarrow> (unit, 'a dvbdev_scheme) run" where
  "dev_Open s =
     andthen (open_frontend (open_mis s)) (\<lambda>_ s.
     andthen (open_dvr s) (\<lambda>_ s.
     of_opt (en50221_Init (dev_watchers s))))"

definition dev_Reset :: "'a dvbdev_scheme \<Rightarrow> (unit, 'a dvbdev_scheme) run" where
  "dev_Reset s = (if i_frequency s \<noteq> 0 then FrontendSet True s else ret () s)"

subsection \<open>Reading packets\<close>

text \<open>The free list is filled up to 50 blocks.\<close>

definition fill_freelist :: "'a dvbdev_scheme \<Rightarrow> (nat list \<times> 'a dvbdev_scheme) option" where
  "fill_freelist s =
     ofold (\<lambda>_ (bs, s). map_option (\<lambda>(b, s). (bs @ [b], s)) (block_New s))
       [length (p_freelist s)..<DVB_MAX_READ_ONCE] (p_freelist s, s)"

text \<open>What \<open>readv\<close> leaves in the \<open>k\<close>-th buffer of 188 bytes, and in all of them.\<close>

definition readv_block :: "bytes \<Rightarrow> nat \<Rightarrow> block \<Rightarrow> block" where
  "readv_block data k b =
     (let seg = take TS_SIZE (drop (TS_SIZE * k) data) in b\<lparr>bk_ts := take TS_SIZE (seg @ drop (length seg) (bk_ts b))\<rparr>)"

definition readv_into :: "bytes \<Rightarrow> nat list \<Rightarrow> 'a dvbheap_scheme \<Rightarrow> 'a dvbheap_scheme" where
  "readv_into data bs s = fold (\<lambda>(k, b). upd_block b (readv_block data k)) (enumerate 0 bs) s"

definition DVRRead ::
  "'b psi_lib_scheme \<Rightarrow> 'a dvbdev_scheme \<Rightarrow> 'a dvbdev_scheme option" where
  "DVRRead B s = do {
     (bs, s) \<leftarrow> fill_freelist s;
     let n = pos s;
     let (len, s) = dev_call (DvReadv DVB_MAX_READ_ONCE) s;
     let s = (if len < 0 then s
              else readv_into (take (nat len) (dr_bytes (drv s) n)) (take DVB_MAX_READ_ONCE bs) s);
     let k = nat (if len < 0 then 0 else len) div TS_SIZE;
     let s = (if k \<noteq> 0 then ev_call (EvTimerAgain MuteTimer) s else s);
     demux_Run B (take k bs) (s\<lparr>p_freelist := drop k bs\<rparr>) }"

definition DVRMuteCb :: "'a dvbdev_scheme \<Rightarrow> (unit, 'a dvbdev_scheme) run" where
  "DVRMuteCb s =
     (let s = ev_call (EvTimerStop MuteTimer) s in
      andthen (if i_frequency s \<noteq> 0 then FrontendSet False s else ret () s) (\<lambda>_ s. of_opt (en50221_Reset s)))"

subsection \<open>Hardware PID filters\<close>

definition dev_SetFilter :: "nat \<Rightarrow> 'a dvbdev_scheme \<Rightarrow> int \<times> 'a dvbdev_scheme" where
  "dev_SetFilter pid s =
     (let (fd, s) = dev_call (DvOpen NodeDemux (i_adapter s) (i_fenum s)) s in
      if fd < 0 then (-1, s)
      else (let (r, s) = dev_call (DmxSetPesFilter fd pid) s in
            if r < 0 then (-1, snd (dev_call (DvClose fd) s)) else (fd, s)))"

definition dev_UnsetFilter :: "int \<Rightarrow> nat \<Rightarrow> 'a dvbdev_scheme \<Rightarrow> 'a dvbdev_scheme" where
  "dev_UnsetFilter fd pid s = snd (dev_call (DvClose fd) (snd (dev_call (DmxStop fd) s)))"

subsection \<open>Events of the frontend\<close>

definition FrontendPrintCb :: "'a dvbdev_scheme \<Rightarrow> 'a dvbdev_scheme" where
  "FrontendPrintCb s = fold ev_call [FeReadBer, FeReadSignalStrength, FeReadSnr, FeReadUncorrectedBlocks] s"

definition lock_gained :: "'a dvbdev_scheme \<Rightarrow> 'a dvbdev_scheme" where
  "lock_gained s =
     (let s = fold ev_call [EvTimerStop LockTimer, EvTimerAgain MuteTimer, FeReadBer, FeReadSignalStrength, FeReadSnr] s in
      if i_print_period s \<noteq> 0
      then ev_call (EvTimerStart PrintTimer) (ev_call (EvTimerInit PrintTimer (i_print_period s)) s) else s)"

definition lock_lost :: "'a dvbdev_scheme \<Rightarrow> 'a dvbdev_scheme" where
  "lock_lost s =
     (let s = (if i_frontend_timeout_duration s \<noteq> 0
               then fold ev_call [EvTimerStop LockTimer, EvTimerAgain MuteTimer] s else s)
      in if i_print_period s \<noteq> 0 then ev_call (EvTimerStop PrintTimer) s else s)"

text \<open>
  One event: of the status bits that changed, gaining or losing the lock sets the timers, and
  \<open>FE_REINIT\<close>, gained, tunes again; the other bits are only reported.
\<close>

definition frontend_event :: "32 word \<Rightarrow> 'a dvbdev_scheme \<Rightarrow> (unit, 'a dvbdev_scheme) run" where
  "frontend_event status s =
     (let diff = status XOR i_last_status s; s = s\<lparr>i_last_status := status\<rparr>;
          s = (if diff AND FE_HAS_LOCK \<noteq> 0
               then (if status AND FE_HAS_LOCK \<noteq> 0 then lock_gained s else lock_lost s) else s)
      in if diff AND FE_REINIT \<noteq> 0 \<and> status AND FE_REINIT \<noteq> 0 \<and> i_frequency s \<noteq> 0
         then FrontendSet True s else ret () s)"

partial_function (option) FrontendRead :: "'a dvbdev_scheme \<Rightarrow> ('a dvbdev_scheme + unit \<times> 'a dvbdev_scheme) option" where
  "FrontendRead s =
     (if dr_ret (drv s) (pos s) < 0 then Some (Inr ((), ev_call FeGetEvent s))
      else (case frontend_event (dr_status (drv s) (pos s)) (ev_call FeGetEvent s) of
              None \<Rightarrow> None
            | Some r \<Rightarrow> (case r of Inl s \<Rightarrow> Some (Inl s) | Inr p \<Rightarrow> FrontendRead (snd p))))"

definition FrontendLockCb :: "'a dvbdev_scheme \<Rightarrow> (unit, 'a dvbdev_scheme) run" where
  "FrontendLockCb s =
     (if i_quit_timeout_duration s \<noteq> 0 then ret () (ev_call (EvBreak 2) s)
      else (let s = ev_call (EvTimerStop LockTimer) s in
            if i_frequency s \<noteq> 0 then FrontendSet False s else ret () s))"

subsection \<open>The control socket\<close>

definition RET_FRONTEND_STATUS :: nat where "RET_FRONTEND_STATUS = 2"

record ret_frontend_status =
  fs_info :: dvb_frontend_info
  fs_status :: "32 word"
  fs_ber :: nat
  fs_strength :: nat
  fs_snr :: nat

text \<open>The answer is written into the caller's buffer, field by field.\<close>

definition dvb_FrontendStatus ::
  "ret_frontend_status \<Rightarrow> 'a dvbdev_scheme \<Rightarrow> nat \<times> ret_frontend_status \<times> 'a dvbdev_scheme" where
  "dvb_FrontendStatus a s =
     (let n = pos s; (r, s) = dev_call FeGetInfo s in
      if r < 0 then (RET_ERR, a, s)
      else (let a = a\<lparr>fs_info := dr_info (drv s) n\<rparr>; n = pos s; (r, s) = dev_call FeReadStatus s in
        if r < 0 then (RET_ERR, a, s)
        else (let a = a\<lparr>fs_status := dr_status (drv s) n\<rparr> in
          if fs_status a AND FE_HAS_LOCK \<noteq> 0
          then (let n = pos s; (r, s) = dev_call FeReadBer s;
                    a = (if r < 0 then a else a\<lparr>fs_ber := dr_stat (drv s) n\<rparr>);
                    n = pos s; (r, s) = dev_call FeReadSignalStrength s;
                    a = (if r < 0 then a else a\<lparr>fs_strength := dr_stat (drv s) n\<rparr>);
                    n = pos s; (r, s) = dev_call FeReadSnr s;
                    a = (if r < 0 then a else a\<lparr>fs_snr := dr_stat (drv s) n\<rparr>)
                in (RET_FRONTEND_STATUS, a, s))
          else (RET_FRONTEND_STATUS, a, s))))"

subsection \<open>Options\<close>

definition set_dvb_buffer_size :: "int \<Rightarrow> 'a dvbdev_scheme \<Rightarrow> 'a dvbdev_scheme" where
  "set_dvb_buffer_size i s = s\<lparr>i_dvr_buffer_size := ((i + (int TS_SIZE - 1)) sdiv int TS_SIZE) * int TS_SIZE\<rparr>"

definition set_delivery_system :: "string \<Rightarrow> 'a dvbdev_scheme \<Rightarrow> 'a dvbdev_scheme" where
  "set_delivery_system d s =
     (let s = s\<lparr>psz_delsys := Some d\<rparr> in if same_nocase d ''ATSC'' then s\<lparr>i_delsysatsc := 1\<rparr> else s)"

definition set_mis_pls_mode :: "string \<Rightarrow> 'a dvbdev_scheme \<Rightarrow> bool \<times> 'a dvbdev_scheme" where
  "set_mis_pls_mode m s =
     (if m = ''ROOT'' then (True, s\<lparr>i_mis_pls_mode := 0\<rparr>)
      else if m = ''GOLD'' then (True, s\<lparr>i_mis_pls_mode := 1\<rparr>)
      else if m = ''COMBO'' then (True, s\<lparr>i_mis_pls_mode := 2\<rparr>)
      else (False, s))"

definition set_mis_pls_code :: "int \<Rightarrow> 'a dvbdev_scheme \<Rightarrow> bool \<times> 'a dvbdev_scheme" where
  "set_mis_pls_code i s =
     (let c = word_of_int i in (0 \<le> sint c \<and> sint c \<le> 262143, s\<lparr>i_mis_pls_code := c\<rparr>))"

definition set_mis_is_id :: "int \<Rightarrow> 'a dvbdev_scheme \<Rightarrow> bool \<times> 'a dvbdev_scheme" where
  "set_mis_is_id i s =
     (let c = word_of_int i in (0 \<le> sint c \<or> sint c \<le> 255, s\<lparr>i_mis_is_id := c\<rparr>))"

end
