(* ===== verification/Dvb_FrontendClaims.thy ===== *)
theory Dvb_FrontendClaims
  imports Dvb_Frontend Dvb_CiSessions Dvb_DemuxClaims
begin

unbundle bit_operations_syntax

text \<open>
  The receiver. What reaches the driver when it tunes, the satellite switch, the multistream id,
  the lock timer after start-up, the event queue that is emptied before tuning, and the blocks a
  read takes from the free list and hands to the demultiplexer.
\<close>

subsection \<open>Runs\<close>

lemma must_ret: "must c s = Some (Inr (r, s')) \<Longrightarrow> s' = ev_call c s"
  by (auto simp: must_def dev_call_def exit1_def split: if_splits)

lemma must_eq: "must c s = (if dr_ret (drv s) (pos s) < 0 then exit1 (ev_call c s) else ret (dr_ret (drv s) (pos s)) (ev_call c s))"
  by (simp add: must_def dev_call_def)

lemma ev_call_simps [simp]:
  "dev_log (ev_call c s) = dev_log s @ [c]" "drv (ev_call c s) = drv s" "cmdargs (ev_call c s) = cmdargs s"
  by (simp_all add: ev_call_def)

text \<open>A routine that only makes calls.\<close>

definition only_log :: "'a dvbdev_scheme \<Rightarrow> 'a dvbdev_scheme \<Rightarrow> bool" where
  "only_log s s' \<longleftrightarrow> (\<exists>l. s' = s\<lparr>dev_log := l\<rparr>)"

lemma only_log_call [simp]: "only_log s (ev_call c s)"
  unfolding only_log_def ev_call_def by blast

lemma only_log_trans: "only_log s t \<Longrightarrow> only_log t u \<Longrightarrow> only_log s u"
  unfolding only_log_def by auto

lemma only_log_cmdargs: "only_log s t \<Longrightarrow> cmdargs t = cmdargs s"
  unfolding only_log_def by auto

subsection \<open>The satellite switch\<close>

definition committed_calls :: "byte \<Rightarrow> devcall list" where
  "committed_calls b = [diseqc_cmd 0xe0 0x38 b, MSleep 100000, diseqc_cmd 0xe1 0x38 b, MSleep 100000]"

definition uncommitted_calls :: "int \<Rightarrow> devcall list" where
  "uncommitted_calls n = (if 0 < n \<and> n < 17
     then [diseqc_cmd 0xe0 0x39 (uncommitted_byte n), diseqc_cmd 0xe1 0x39 (uncommitted_byte n), MSleep 125000] else [])"

definition switch_calls :: "int \<Rightarrow> int \<Rightarrow> fe_sec_voltage \<Rightarrow> fe_sec_tone_mode \<Rightarrow> devcall list" where
  "switch_calls sat unc v t =
     (if 0 < sat \<and> sat < 5 then uncommitted_calls unc @ committed_calls (committed_byte sat v t)
      else if sat = 0xA then [FeDiseqcSendBurst SEC_MINI_A, MSleep 100000]
      else if sat = 0xB then [FeDiseqcSendBurst SEC_MINI_B, MSleep 100000] else [])"

definition log_calls :: "devcall list \<Rightarrow> 'a dvbdev_scheme \<Rightarrow> 'a dvbdev_scheme" where
  "log_calls cs s = s\<lparr>dev_log := dev_log s @ cs\<rparr>"

lemma log_calls_simps [simp]:
  "ev_call c (log_calls cs s) = log_calls (cs @ [c]) s" "log_calls ds (log_calls cs s) = log_calls (cs @ ds) s"
  "log_calls [] s = s" "dev_log (log_calls cs s) = dev_log s @ cs"
  "cmdargs (log_calls cs s) = cmdargs s" "drv (log_calls cs s) = drv s"
  "i_satnum (log_calls cs s) = i_satnum s" "i_uncommitted (log_calls cs s) = i_uncommitted s"
  by (simp_all add: log_calls_def ev_call_def)

lemma only_log_calls [simp]: "only_log s (log_calls cs s)"
  unfolding only_log_def log_calls_def by blast

lemma log_call_first: "ev_call c s = log_calls [c] s"
  by (simp add: log_calls_def ev_call_def)

lemma send_committed_ret: "send_committed b s = Some (Inr (u, s')) \<Longrightarrow> s' = log_calls (committed_calls b) s"
  by (auto simp: send_committed_def committed_calls_def andthen_ret log_call_first dest!: must_ret)

lemma send_uncommitted_ret: "send_uncommitted n s = Some (Inr (u, s')) \<Longrightarrow> s' = log_calls (uncommitted_calls n) s"
  by (auto simp: send_uncommitted_def uncommitted_calls_def andthen_ret log_call_first dest!: must_ret split: if_splits)

lemma diseqc_switch_ret:
  "diseqc_switch v t s = Some (Inr (u, s')) \<Longrightarrow> s' = log_calls (switch_calls (i_satnum s) (i_uncommitted s) v t) s"
  by (auto simp: diseqc_switch_def switch_calls_def andthen_ret log_call_first
      dest!: must_ret send_uncommitted_ret send_committed_ret split: if_splits)

lemma lnb_band_bounds:
  "lnb_band lnb f = Some (bis, high) \<Longrightarrow> 400000 \<le> bis \<and> bis \<le> 2650000 \<and> (lnb = ''universal'' \<longrightarrow> 950000 \<le> bis)
     \<and> (high \<longleftrightarrow> 11700000 \<le> f)"
  by (auto simp: lnb_band_def split: if_splits)

definition diseqc_calls :: "bool \<Rightarrow> 'a dvbdev_scheme \<Rightarrow> devcall list" where
  "diseqc_calls high s = (let v = sec_voltage (i_voltage s); t = (if high \<or> b_tone s then SEC_TONE_ON else SEC_TONE_OFF)
     in [FeSetTone SEC_TONE_OFF, FeSetVoltage v, MSleep 100000]
       @ switch_calls (i_satnum s) (i_uncommitted s) v t @ [FeSetTone t, MSleep 100000])"

lemma FrontendDoDiseqc_ret:
  assumes "FrontendDoDiseqc s = Some (Inr (bis, s'))"
  shows "\<exists>high. lnb_band (psz_lnb_type s) (i_frequency s) = Some (bis, high) \<and> s' = log_calls (diseqc_calls high s) s"
proof -
  from assms obtain high where b: "lnb_band (psz_lnb_type s) (i_frequency s) = Some (bis, high)"
    by (auto simp: FrontendDoDiseqc_def exit1_def andthen_ret Let_def split: option.splits)
  have "s' = log_calls (diseqc_calls high s) s"
    using assms b
    by (auto simp: FrontendDoDiseqc_def diseqc_calls_def andthen_ret Let_def log_call_first dest!: must_ret diseqc_switch_ret)
  with b show ?thesis by blast
qed

text \<open>C25 Before a satellite is tuned the LNB and the switch are set in the order the bus needs: tone off,
  voltage, a pause, the commands for the switch (each sent twice), and last the tone, on exactly in the
  high band or when it is forced. The frequency that comes back lies in the range of an LNB's
  intermediate frequencies: 950 MHz to 2650 MHz for a universal LNB, from 400 MHz for the other kind.
  Nothing else of the state changes.\<close>

theorem Diseqc_conversation:
  assumes "FrontendDoDiseqc s = Some (Inr (bis, s'))"
  shows "400000 \<le> bis \<and> bis \<le> 2650000 \<and> (psz_lnb_type s = ''universal'' \<longrightarrow> 950000 \<le> bis)
    \<and> (let v = sec_voltage (i_voltage s); t = (if 11700000 \<le> i_frequency s \<or> b_tone s then SEC_TONE_ON else SEC_TONE_OFF)
       in s' = log_calls ([FeSetTone SEC_TONE_OFF, FeSetVoltage v, MSleep 100000]
            @ switch_calls (i_satnum s) (i_uncommitted s) v t @ [FeSetTone t, MSleep 100000]) s)"
proof -
  from FrontendDoDiseqc_ret [OF assms] obtain high where b: "lnb_band (psz_lnb_type s) (i_frequency s) = Some (bis, high)"
    and l: "s' = log_calls (diseqc_calls high s) s" by blast
  from lnb_band_bounds [OF b] l show ?thesis by (simp add: Let_def diseqc_calls_def)
qed

subsection \<open>Command sequences\<close>

text \<open>
  The sequences keep their commands in place, and each but the one that two systems share keeps
  its delivery system.
\<close>

definition cmds_ok :: "'a dvbdev_scheme \<Rightarrow> bool" where
  "cmds_ok s \<longleftrightarrow> (\<forall>q. map fst (cmdargs s q) = map fst (cmdargs_init q)
     \<and> (q \<noteq> Atsc \<longrightarrow> cmdargs s q ! 0 = cmdargs_init q ! 0))"

lemma cmds_ok_Init: "cmds_ok (dvbdev_Init s)"
  by (simp add: cmds_ok_def dvbdev_Init_def)

lemma set_prop_simps [simp]:
  "dev_log (set_prop q i v s) = dev_log s" "drv (set_prop q i v s) = drv s"
  "cmdargs (set_prop q i v s) = (cmdargs s)(q := put_prop i v (cmdargs s q))"
  by (simp_all add: set_prop_def)

text \<open>A routine that makes calls and writes properties.\<close>

definition only_props :: "'a dvbdev_scheme \<Rightarrow> 'a dvbdev_scheme \<Rightarrow> bool" where
  "only_props s s' \<longleftrightarrow> (\<exists>l c. s' = s\<lparr>dev_log := l, cmdargs := c\<rparr>) \<and> (cmds_ok s \<longrightarrow> cmds_ok s')"

lemma only_props_refl [simp]: "only_props s s"
proof -
  have "s = s\<lparr>dev_log := dev_log s, cmdargs := cmdargs s\<rparr>" by simp
  then show ?thesis unfolding only_props_def by blast
qed

lemma only_props_trans [trans]:
  assumes "only_props s t" and "only_props t u"
  shows "only_props s u"
proof -
  from assms obtain l c l' c' where "t = s\<lparr>dev_log := l, cmdargs := c\<rparr>" "u = t\<lparr>dev_log := l', cmdargs := c'\<rparr>"
    unfolding only_props_def by blast
  then have "u = s\<lparr>dev_log := l', cmdargs := c'\<rparr>" by simp
  with assms show ?thesis unfolding only_props_def by blast
qed

lemma only_log_props: "only_log s t \<Longrightarrow> only_props s t"
proof -
  assume "only_log s t"
  then obtain l where "t = s\<lparr>dev_log := l, cmdargs := cmdargs s\<rparr>" unfolding only_log_def by auto
  moreover from this have "cmdargs t = cmdargs s" by simp
  ultimately show ?thesis unfolding only_props_def cmds_ok_def by metis
qed

lemma only_props_set:
  assumes "i \<noteq> 0 \<or> q = Atsc \<or> (\<exists>c. cmdargs_init q ! 0 = (c, v))" and "only_props s t"
  shows "only_props s (set_prop q i v t)"
proof -
  have "cmds_ok (set_prop q i v t)" if ok: "cmds_ok t"
  proof -
    have "put_prop i v (cmdargs t q) ! 0 = cmdargs_init q ! 0" if "q \<noteq> Atsc"
    proof -
      have "cmdargs t q ! 0 = cmdargs_init q ! 0" using ok that by (simp add: cmds_ok_def)
      then show ?thesis using assms(1) that by (cases "cmdargs t q"; cases i) (auto simp: put_prop_def)
    qed
    with ok show ?thesis by (simp add: cmds_ok_def)
  qed
  moreover have "\<exists>l c. set_prop q i v t = t\<lparr>dev_log := l, cmdargs := c\<rparr>"
    by (rule exI [of _ "dev_log t"]) (auto simp: set_prop_def)
  ultimately have "only_props t (set_prop q i v t)" unfolding only_props_def by blast
  with assms(2) show ?thesis by (rule only_props_trans)
qed

lemma set_modulation_ret:
  "set_modulation q s = Some (Inr (u, s')) \<Longrightarrow> s' = (case psz_modulation s of None \<Rightarrow> s
     | Some m \<Rightarrow> set_prop q MODULATION (fe_modulation_val (the (GetModulation m))) s)
     \<and> (\<forall>m. psz_modulation s = Some m \<longrightarrow> GetModulation m \<noteq> None)"
  by (auto simp: set_modulation_def split: option.splits)

lemma FrontendDoDiseqc_only: "FrontendDoDiseqc s = Some (Inr (bis, s')) \<Longrightarrow> only_props s s'"
  using FrontendDoDiseqc_ret [of s bis s'] by (auto intro!: only_log_props)

lemma set_modulation_only: "set_modulation q s = Some (Inr (u, s')) \<Longrightarrow> only_props s s'"
  using set_modulation_ret [of q s u s'] only_props_set [of MODULATION q _ s s]
  by (auto simp: prop_index_defs split: option.splits)

lemma set_common_only: "only_props s t \<Longrightarrow> only_props s (set_common q t)"
  unfolding set_common_def by (intro only_props_set) (simp_all add: prop_index_defs)

lemma set_terrestrial_only: "only_props s t \<Longrightarrow> only_props s (set_terrestrial q caps t)"
  unfolding set_terrestrial_def Let_def by (intro only_props_set) (simp_all add: prop_index_defs)

lemma set_dvbs2_only: "only_props s t \<Longrightarrow> only_props s (set_dvbs2 t)"
  unfolding set_dvbs2_def Let_def by (intro only_props_set) (simp_all add: prop_index_defs)

lemma isdbt_layer_only: "only_props s t \<Longrightarrow> i \<noteq> 0 \<Longrightarrow> only_props s (isdbt_layer i t)"
  unfolding isdbt_layer_def by (intro only_props_set) simp_all

lemma tune_dvbs_only:
  assumes "tune_dvbs caps s = Some (Inr (q, s'))"
  shows "only_props s s'"
proof -
  from assms obtain s1 s2 bis where 1: "(case psz_modulation s of None \<Rightarrow> ret Dvbs s
       | Some _ \<Rightarrow> andthen (set_modulation Dvbs2 s) (\<lambda>_ s. ret Dvbs2 (set_dvbs2 s))) = Some (Inr (q, s1))"
    and 2: "FrontendDoDiseqc (set_prop q FEC_INNER (fe_code_rate_val (GetFEC caps (i_fec s1)))
      (set_prop q SYMBOL_RATE (word_of_int (i_srate s1))
        (set_prop q INVERSION (fe_spectral_inversion_val (GetInversion (i_inversion s1))) s1))) = Some (Inr (bis, s2))"
    and 3: "s' = set_prop q FREQUENCY (word_of_int bis) s2"
    by (auto simp: tune_dvbs_def Let_def andthen_ret set_prop_def)
  from 1 have "only_props s s1"
    by (auto simp: andthen_ret split: option.splits intro: set_dvbs2_only dest: set_modulation_only)
  also have "only_props s1 s2"
    by (rule only_props_trans [OF _ FrontendDoDiseqc_only [OF 2]]) (intro only_props_set only_props_refl, simp_all add: prop_index_defs)
  also have "only_props s2 s'" unfolding 3 by (intro only_props_set only_props_refl) (simp add: prop_index_defs)
  finally show ?thesis .
qed

lemma modulated_only:
  assumes "andthen (set_modulation q (f s)) (\<lambda>_ s. ret q' (g s)) = Some (Inr (r, s'))"
    and "only_props s (f s)" and "\<And>t. only_props t (g t)"
  shows "only_props s s'"
proof -
  from assms(1) obtain t where t: "set_modulation q (f s) = Some (Inr ((), t))" "s' = g t" by (auto simp: andthen_ret)
  with assms show ?thesis by (metis only_props_trans set_modulation_only)
qed

lemma tune_only:
  assumes "tune d caps s = Some (Inr (q, s'))"
  shows "only_props s s'"
proof -
  have delsys: "only_props s (set_prop p DELSYS v s)" if "p = Atsc \<or> (\<exists>c. cmdargs_init p ! 0 = (c, v))" for p v
    using that by (intro only_props_set) auto
  consider "tune_dvbt caps s = Some (Inr (q, s'))" | "tune_dvbt2 caps s = Some (Inr (q, s'))"
    | "tune_dvbc s = Some (Inr (q, s'))" | "tune_annex_b s = Some (Inr (q, s'))" | "tune_dvbs caps s = Some (Inr (q, s'))"
    | "tune_atsc s = Some (Inr (q, s'))" | "tune_isdbt s = Some (Inr (q, s'))"
    using assms by (auto simp: tune_def split: if_splits)
  then show ?thesis
  proof cases
    case 1
    then show ?thesis unfolding tune_dvbt_def
      by (rule modulated_only) (simp_all add: set_common_only set_terrestrial_only delsys cmdargs_defs)
  next
    case 2
    then show ?thesis unfolding tune_dvbt2_def Let_def
      by (rule modulated_only)
        (simp_all add: set_common_only set_terrestrial_only delsys cmdargs_defs only_props_set PLP_ID_def)
  next
    case 3
    then show ?thesis unfolding tune_dvbc_def
      by (rule modulated_only) (simp_all add: set_common_only only_props_set SYMBOL_RATE_def)
  next
    case 4
    then show ?thesis unfolding tune_annex_b_def
      by (rule modulated_only) (simp_all add: set_common_only delsys)
  next
    case 5
    then show ?thesis by (rule tune_dvbs_only)
  next
    case 6
    then show ?thesis unfolding tune_atsc_def by (rule modulated_only) (simp_all add: set_common_only)
  next
    case 7
    then show ?thesis
      by (auto simp: tune_isdbt_def Let_def prop_index_defs(17) intro!: isdbt_layer_only)
        (simp add: set_common_only delsys [unfolded DELSYS_def] only_props_set prop_index_defs cmdargs_defs)
  qed
qed

subsection \<open>A receiver\<close>

text \<open>
  A driver whose calls succeed, but for the \<open>n\<close>-th, which says that the event queue is empty, and a
  receiver with one satellite system.
\<close>

definition ex_info :: dvb_frontend_info where
  "ex_info = \<lparr>fe_name = ''example'', fe_itype = 0, frequency_min = 0, frequency_max = 0, frequency_stepsize = 0,
     frequency_tolerance = 0, symbol_rate_min = 0, symbol_rate_max = 0, symbol_rate_tolerance = 0, fe_caps = FE_CAN_FEC_AUTO\<rparr>"

definition ex_driver :: "nat \<Rightarrow> driver" where
  "ex_driver n = \<lparr>dr_ret = (\<lambda>k. if k = n then -1 else 0), dr_err = (\<lambda>_. EWOULDBLOCK), dr_info = (\<lambda>_. ex_info),
     dr_version = (\<lambda>_. 0x50a), dr_systems = (\<lambda>_. ([5], 1)), dr_status = (\<lambda>_. 0), dr_stat = (\<lambda>_. 0), dr_bytes = (\<lambda>_. [])\<rparr>"

definition ex_dev :: "driver \<Rightarrow> dvbdev" where
  "ex_dev d = dvbdev_Init (dvbdemux.extend (ex_demux [])
     (dvbdev.fields d [] cmdargs_init 0 0 0 [] 0 0 0 False 0 0 0 0 0 0 0 0 None None 0 0 0 0 0 0 0 0 [] 0 0 0))"

lemma ex_dev_simps [simp]:
  "drv (ex_dev d) = d" "dev_log (ex_dev d) = []" "cmdargs (ex_dev d) = cmdargs_init" "p_freelist (ex_dev d) = []"
  "i_frequency (ex_dev d) = 0" "psz_modulation (ex_dev d) = None" "psz_delsys (ex_dev d) = None"
  "psz_lnb_type (ex_dev d) = ''universal''" "i_satnum (ex_dev d) = 0" "i_voltage (ex_dev d) = 13" "\<not> b_tone (ex_dev d)"
  "i_inversion (ex_dev d) = -1" "i_fec (ex_dev d) = 999" "i_srate (ex_dev d) = 27500000" "i_uncommitted (ex_dev d) = 0"
  "i_frontend_timeout_duration (ex_dev d) = 30000000" "i_mis (ex_dev d) = 0" "i_mis_pls_mode (ex_dev d) = 0"
  "i_mis_pls_code (ex_dev d) = 0" "i_mis_is_id (ex_dev d) = 0" "cmds_ok (ex_dev d)" "sys_ret (ex_dev d) = sys_ret (ex_demux [])"
  by (simp_all add: ex_dev_def dvbdev_Init_def dvbdemux.defs dvbdev.defs cmds_ok_def DEFAULT_FRONTEND_TIMEOUT_def
      ex_demux_def dvben.defs)

lemma ex_dev_pool: "pool_ok (ex_dev d)"
  by (simp add: pool_ok_def ex_dev_def dvbdev_Init_def dvbdemux.defs dvbdev.defs ex_demux_def dvben.defs ex_ci_defs)

lemma ex_driver_simps [simp]:
  "dr_ret (ex_driver n) k = (if k = n then -1 else 0)" "dr_err (ex_driver n) k = EWOULDBLOCK"
  "dr_info (ex_driver n) k = ex_info" "dr_systems (ex_driver n) k = ([5], 1)" "dr_bytes (ex_driver n) k = []"
  "fe_caps ex_info = FE_CAN_FEC_AUTO"
  by (simp_all add: ex_driver_def ex_info_def)

subsection \<open>A whole tuning\<close>

lemma query_systems_only: "query_systems info s = Some (Inr (ds, s')) \<Longrightarrow> only_props s s'"
  by (auto simp: query_systems_def dev_call_def case_prod_unfold Let_def exit1_def andthen_ret log_call_first
      split: if_splits option.splits dest!: must_ret intro!: only_log_props)

lemma empty_queue_only: "empty_queue s = Some (Inr (u, s')) \<Longrightarrow> only_props s s'"
  by (rule only_log_props) (auto simp: empty_queue_def only_log_def split: option.splits)

lemma cmdargs_init_shape:
  "hd (map fst (cmdargs_init q)) = DTV_DELIVERY_SYSTEM" "List.last (map fst (cmdargs_init q)) = DTV_TUNE"
  "distinct (map fst (cmdargs_init q))"
  by (cases q; simp add: cmdargs_defs)+

lemma Tuning_frame:
  assumes "cmds_ok s" and "FrontendSet b s = Some (Inr ((), s'))"
  shows "cmds_ok s' \<and> (\<exists>q pre. dev_log s' = pre @ FeSetProperty (cmdargs s' q)
        # (if i_frontend_timeout_duration s \<noteq> 0 then [EvTimerAgain LockTimer] else []))
    \<and> s' = s\<lparr>dev_log := dev_log s', cmdargs := cmdargs s', i_last_status := 0\<rparr>"
proof -
  from assms(2) obtain r0 s0 ds s1 r2 s2 d q s3 s4 r5 s5 where 0: "must FeGetInfo s = Some (Inr (r0, s0))"
    and 1: "query_systems (dr_info (drv s) (pos s)) s0 = Some (Inr (ds, s1))"
    and 2: "must (FeSetProperty [(DTV_CLEAR, 0)]) s1 = Some (Inr (r2, s2))"
    and 3: "tune d (fe_caps (dr_info (drv s) (pos s))) s2 = Some (Inr (q, s3))"
    and 4: "empty_queue s3 = Some (Inr ((), s4))"
    and 5: "must (FeSetProperty (cmdargs s4 q)) s4 = Some (Inr (r5, s5))" and 6: "s' = arm_lock (s5\<lparr>i_last_status := 0\<rparr>)"
    by (auto simp: FrontendSet_def Let_def andthen_ret split: option.splits)
  have "only_props s s0" using must_ret [OF 0] by (simp add: only_log_props)
  also have "only_props s0 s1" using 1 by (rule query_systems_only)
  also have "only_props s1 s2" using must_ret [OF 2] by (simp add: only_log_props)
  also have "only_props s2 s3" using 3 by (rule tune_only)
  also have "only_props s3 s4" using 4 by (rule empty_queue_only)
  finally have o: "only_props s s4" .
  have s5: "s5 = ev_call (FeSetProperty (cmdargs s4 q)) s4" using 5 by (rule must_ret)
  from o assms(1) have ok: "cmds_ok s4" unfolding only_props_def by blast
  from o obtain l c where s4: "s4 = s\<lparr>dev_log := l, cmdargs := c\<rparr>" unfolding only_props_def by blast
  have c: "cmdargs s' = cmdargs s4" by (simp add: 6 s5 arm_lock_def ev_call_def)
  have "dev_log s' = dev_log s4 @ FeSetProperty (cmdargs s4 q)
      # (if i_frontend_timeout_duration s \<noteq> 0 then [EvTimerAgain LockTimer] else [])"
    by (simp add: 6 s5 arm_lock_def ev_call_def s4)
  moreover have "cmds_ok s'" using ok c by (simp add: cmds_ok_def)
  moreover have "s' = s\<lparr>dev_log := dev_log s', cmdargs := cmdargs s', i_last_status := 0\<rparr>"
    by (simp add: 6 s5 arm_lock_def ev_call_def s4)
  ultimately show ?thesis using c by metis
qed


lemma ex_drain: "drain_events (ex_driver n) n = Some 1"
  by (subst drain_events.simps) simp

lemma ex_must: "drv s = ex_driver n \<Longrightarrow> pos s \<noteq> n \<Longrightarrow> must c s = ret 0 (log_calls [c] s)"
  by (simp add: must_eq log_call_first)

lemma pos_simps [simp]: "pos (log_calls cs s) = pos s + length cs" "pos (set_prop q i v s) = pos s"
  by (simp_all add: pos_def)

lemma ex_query:
  "drv s = ex_driver n \<Longrightarrow> pos s + 1 < n \<Longrightarrow> query_systems i s
     = ret [SYS_DVBS] (log_calls [FeGetProperty [(DTV_API_VERSION, 0)], FeGetProperty [(DTV_ENUM_DELSYS, 0)]] s)"
  by (simp add: query_systems_def dev_call_def ex_must log_call_first DVB_MAX_DELIVERY_SYSTEMS_def SYS_DVBS_def)

lemma ex_diseqc:
  assumes "drv s = ex_driver n" and "pos s + 5 \<le> n" and "i_satnum s = 0"
    and "lnb_band (psz_lnb_type s) (i_frequency s) = Some (bis, high)"
  shows "FrontendDoDiseqc s = ret bis (log_calls (diseqc_calls high s) s)"
  using assms
  by (simp add: FrontendDoDiseqc_def diseqc_calls_def ex_must log_call_first diseqc_switch_def switch_calls_def Let_def)

lemma set_prop_config [simp]:
  "i_frequency (set_prop q i v s) = i_frequency s" "i_satnum (set_prop q i v s) = i_satnum s"
  "psz_lnb_type (set_prop q i v s) = psz_lnb_type s" "i_frontend_timeout_duration (set_prop q i v s) = i_frontend_timeout_duration s"
  by (simp_all add: set_prop_def)

lemma log_calls_config [simp]:
  "i_frequency (log_calls cs s) = i_frequency s" "psz_lnb_type (log_calls cs s) = psz_lnb_type s"
  "psz_delsys (log_calls cs s) = psz_delsys s" "psz_modulation (log_calls cs s) = psz_modulation s"
  by (simp_all add: log_calls_def)

lemma ex_tune:
  assumes "drv s = ex_driver n" and "pos s + 5 \<le> n" and "i_satnum s = 0" and "psz_modulation s = None"
    and "lnb_band (psz_lnb_type s) (i_frequency s) = Some (bis, high)"
  shows "\<exists>t cs. tune SYS_DVBS caps s = ret Dvbs t \<and> drv t = ex_driver n \<and> dev_log t = dev_log s @ cs \<and> length cs = 5"
proof -
  have "SYS_DVBS \<noteq> SYS_DVBT" "SYS_DVBS \<noteq> SYS_DVBT2" "SYS_DVBS \<noteq> SYS_DVBC_ANNEX_A" "SYS_DVBS \<noteq> SYS_DVBC_ANNEX_B"
    by (simp_all add: delsys_defs)
  with assms show ?thesis
    by (simp add: tune_def tune_dvbs_def Let_def ex_diseqc diseqc_calls_def switch_calls_def)
qed

lemma ex_FrontendSet:
  assumes "drv s = ex_driver (pos s + 9)" and "i_satnum s = 0" and "psz_modulation s = None" and "psz_delsys s = None"
    and "lnb_band (psz_lnb_type s) (i_frequency s) = Some (bis, high)"
  shows "\<exists>s'. FrontendSet b s = Some (Inr ((), s')) \<and> pos s + 9 < pos s'"
proof -
  let ?cs = "[FeGetInfo, FeGetProperty [(DTV_API_VERSION, 0)], FeGetProperty [(DTV_ENUM_DELSYS, 0)], FeSetProperty [(DTV_CLEAR, 0)]]"
  from ex_tune [of "log_calls ?cs s" "pos s + 9" bis high FE_CAN_FEC_AUTO] assms obtain t cs where
    t: "tune SYS_DVBS FE_CAN_FEC_AUTO (log_calls ?cs s) = ret Dvbs t" "drv t = ex_driver (pos s + 9)"
    "dev_log t = dev_log (log_calls ?cs s) @ cs" "length cs = 5" by auto
  have "pos t = pos s + 9" using t(3,4) by (simp add: pos_def)
  with t(2) have "empty_queue t = ret () (log_calls [FeGetEvent] t)"
    using ex_drain [of "pos s + 9"] by (simp add: empty_queue_def log_calls_def)
  with assms t \<open>pos t = pos s + 9\<close> show ?thesis
    by (simp add: FrontendSet_def Let_def ex_must ex_query FrontendGuessSystem_def ret_def)
      (simp add: arm_lock_def ev_call_def pos_def log_calls_def)
qed

lemma Diseqc_conversation_witness:
  "\<exists>s'. FrontendDoDiseqc ((ex_dev (ex_driver 9))\<lparr>i_frequency := 12000000\<rparr>) = Some (Inr (1400000, s'))
    \<and> dev_log s' = [FeSetTone SEC_TONE_OFF, FeSetVoltage SEC_VOLTAGE_13, MSleep 100000, FeSetTone SEC_TONE_ON, MSleep 100000]"
proof -
  let ?s = "(ex_dev (ex_driver 9))\<lparr>i_frequency := 12000000\<rparr>"
  have "FrontendDoDiseqc ?s = Some (Inr (1400000, log_calls (diseqc_calls True ?s) ?s))"
    by (simp add: ex_diseqc [of _ 9 1400000 True] pos_def lnb_band_def ret_def)
  from this Diseqc_conversation [OF this] show ?thesis by (auto simp: Let_def switch_calls_def sec_voltage_def)
qed


subsection \<open>The parameters sent\<close>

lemma two_fields: "map fst xs = c # cs \<longleftrightarrow> (\<exists>v vs. xs = (c, v) # vs \<and> map fst vs = cs)"
  by (cases xs) auto

lemma dvbs_shape:
  assumes "cmds_ok s" and "q = Dvbs \<or> q = Dvbs2"
  shows "\<exists>v1 v2 v3 v4 v5 v6 v7 v8 v9. cmdargs s q = [(DTV_DELIVERY_SYSTEM, if q = Dvbs then SYS_DVBS else SYS_DVBS2),
    (DTV_FREQUENCY, v1), (DTV_MODULATION, v2), (DTV_INVERSION, v3), (DTV_SYMBOL_RATE, v4), (DTV_INNER_FEC, v5),
    (DTV_PILOT, v6), (DTV_ROLLOFF, v7), (DTV_STREAM_ID, v8), (DTV_TUNE, v9)]"
proof -
  have "map fst (cmdargs s q) = map fst (cmdargs_init q)" "cmdargs s q ! 0 = cmdargs_init q ! 0"
    using assms by (auto simp: cmds_ok_def)
  with assms(2) show ?thesis by (elim disjE) (auto simp: two_fields cmdargs_defs)
qed

text \<open>C27 What a satellite is tuned to: the sequence sent carries the intermediate frequency of the LNB for
  the configured frequency, the symbol rate, the FEC and the inversion of the configuration. A configured
  modulation makes the system DVB-S2, with that modulation and the configured pilot, roll-off and stream
  id; without one it is DVB-S, even where DVB-S2 was asked for.\<close>

theorem Satellite_parameters:
  assumes "cmds_ok s" and "tune d caps s = Some (Inr (q, s'))" and "d = SYS_DVBS \<or> d = SYS_DVBS2"
  shows "(\<exists>bis high. lnb_band (psz_lnb_type s) (i_frequency s) = Some (bis, high)
      \<and> prop_value (cmdargs s' q) DTV_FREQUENCY = Some (word_of_int bis))
    \<and> prop_value (cmdargs s' q) DTV_SYMBOL_RATE = Some (word_of_int (i_srate s))
    \<and> prop_value (cmdargs s' q) DTV_INNER_FEC = Some (fe_code_rate_val (GetFEC caps (i_fec s)))
    \<and> prop_value (cmdargs s' q) DTV_INVERSION = Some (fe_spectral_inversion_val (GetInversion (i_inversion s)))
    \<and> (case psz_modulation s of
         None \<Rightarrow> prop_value (cmdargs s' q) DTV_DELIVERY_SYSTEM = Some SYS_DVBS
       | Some m \<Rightarrow> prop_value (cmdargs s' q) DTV_DELIVERY_SYSTEM = Some SYS_DVBS2
           \<and> prop_value (cmdargs s' q) DTV_MODULATION = map_option fe_modulation_val (GetModulation m)
           \<and> prop_value (cmdargs s' q) DTV_PILOT = Some (fe_pilot_val (GetPilot (i_pilot s)))
           \<and> prop_value (cmdargs s' q) DTV_ROLLOFF = Some (fe_rolloff_val (GetRollOff (i_rolloff s)))
           \<and> prop_value (cmdargs s' q) DTV_STREAM_ID = Some (i_mis s))"
proof -
  have "tune_dvbs caps s = Some (Inr (q, s'))" using assms(2,3) by (auto simp: tune_def delsys_defs)
  then obtain s1 s2 bis where 1: "(case psz_modulation s of None \<Rightarrow> ret Dvbs s
       | Some _ \<Rightarrow> andthen (set_modulation Dvbs2 s) (\<lambda>_ s. ret Dvbs2 (set_dvbs2 s))) = Some (Inr (q, s1))"
    and 2: "FrontendDoDiseqc (set_prop q FEC_INNER (fe_code_rate_val (GetFEC caps (i_fec s1)))
      (set_prop q SYMBOL_RATE (word_of_int (i_srate s1))
        (set_prop q INVERSION (fe_spectral_inversion_val (GetInversion (i_inversion s1))) s1))) = Some (Inr (bis, s2))"
    and 3: "s' = set_prop q FREQUENCY (word_of_int bis) s2"
    by (auto simp: tune_dvbs_def Let_def andthen_ret set_prop_def)
  from FrontendDoDiseqc_ret [OF 2] obtain high where
    b: "lnb_band (psz_lnb_type s1) (i_frequency s1) = Some (bis, high)"
    and c: "cmdargs s2 q = put_prop FEC_INNER (fe_code_rate_val (GetFEC caps (i_fec s1)))
      (put_prop SYMBOL_RATE (word_of_int (i_srate s1))
        (put_prop INVERSION (fe_spectral_inversion_val (GetInversion (i_inversion s1))) (cmdargs s1 q)))"
    by (auto simp: set_prop_def)
  show ?thesis
  proof (cases "psz_modulation s")
    case None
    with 1 have "q = Dvbs" "s1 = s" by auto
    with b c 3 None dvbs_shape [OF assms(1), of Dvbs] show ?thesis
      by (auto simp: prop_value_def put_prop_def prop_index_defs)
  next
    case (Some m)
    with 1 obtain v where v: "GetModulation m = Some v" "q = Dvbs2"
      "s1 = set_dvbs2 (set_prop Dvbs2 MODULATION (fe_modulation_val v) s)"
      by (auto simp: andthen_ret set_modulation_def split: option.splits)
    with b c 3 Some dvbs_shape [OF assms(1), of Dvbs2] show ?thesis
      by (auto simp: prop_value_def put_prop_def prop_index_defs set_dvbs2_def set_prop_def Let_def)
  qed
qed

lemma Satellite_parameters_witness:
  "\<exists>s'. tune SYS_DVBS FE_CAN_FEC_AUTO ((ex_dev (ex_driver 9))\<lparr>i_frequency := 11000000\<rparr>) = Some (Inr (Dvbs, s'))
    \<and> prop_value (cmdargs s' Dvbs) DTV_FREQUENCY = Some 1250000"
proof -
  let ?s = "(ex_dev (ex_driver 9))\<lparr>i_frequency := 11000000\<rparr>"
  from ex_tune [of ?s 9 1250000 False FE_CAN_FEC_AUTO] obtain s' where
    t: "tune SYS_DVBS FE_CAN_FEC_AUTO ?s = Some (Inr (Dvbs, s'))" by (auto simp: pos_def lnb_band_def ret_def)
  have "cmds_ok ?s" by (simp add: cmds_ok_def)
  from t Satellite_parameters [OF this t] show ?thesis by (auto simp: lnb_band_def)
qed

subsection \<open>The event queue\<close>

lemma drain_events_stops:
  assumes "dr_ret d k < 0" and "dr_err d k = EWOULDBLOCK" and "n \<le> k"
  shows "\<exists>m. drain_events d n = Some m"
  using assms(3)
proof (induction "k - n" arbitrary: n)
  case 0
  with assms show ?case by (subst drain_events.simps) simp
next
  case (Suc j)
  then have "\<exists>m. drain_events d (Suc n) = Some m" by simp
  then show ?case by (subst drain_events.simps) auto
qed

lemma drain_events_reason:
  assumes "drain_events d n = Some m"
  shows "\<exists>k\<ge>n. dr_ret d k < 0 \<and> dr_err d k = EWOULDBLOCK"
proof (rule drain_events.raw_induct [where P = "\<lambda>d n m. \<exists>k\<ge>n. dr_ret d k < 0 \<and> dr_err d k = EWOULDBLOCK", OF _ assms])
  fix f :: "driver \<Rightarrow> nat \<Rightarrow> nat option" and d n m
  assume IH: "\<And>d n m. f d n = Some m \<Longrightarrow> \<exists>k\<ge>n. dr_ret d k < 0 \<and> dr_err d k = EWOULDBLOCK"
    and eq: "(if dr_ret d n < 0 \<and> dr_err d n = EWOULDBLOCK then Some 1 else do { k \<leftarrow> f d (Suc n); Some (Suc k) }) = Some m"
  show "\<exists>k\<ge>n. dr_ret d k < 0 \<and> dr_err d k = EWOULDBLOCK"
  proof (cases "dr_ret d n < 0 \<and> dr_err d n = EWOULDBLOCK")
    case False
    with eq obtain j where "f d (Suc n) = Some j" by (auto simp: bind_eq_Some_conv)
    then show ?thesis using IH [of d "Suc n" j] Suc_leD by blast
  qed blast
qed

text \<open>The loop that empties the event queue before tuning ends exactly when some call fails with
  \<open>EWOULDBLOCK\<close>. Any other error (the device was unplugged) is repeated for ever.\<close>

theorem Event_drain:
  "(\<exists>s'. empty_queue s = Some (Inr ((), s')))
     \<longleftrightarrow> (\<exists>k. dr_ret (drv s) (pos s + k) < 0 \<and> dr_err (drv s) (pos s + k) = EWOULDBLOCK)"
proof -
  have "(\<exists>s'. empty_queue s = Some (Inr ((), s'))) \<longleftrightarrow> drain_events (drv s) (pos s) \<noteq> None"
    by (auto simp: empty_queue_def ret_def split: option.splits)
  also have "\<dots> \<longleftrightarrow> (\<exists>k\<ge>pos s. dr_ret (drv s) k < 0 \<and> dr_err (drv s) k = EWOULDBLOCK)"
    using drain_events_stops drain_events_reason by (metis option.exhaust option.simps(3))
  finally show ?thesis by (auto simp: le_iff_add)
qed

subsection \<open>The multistream id\<close>

lemma pack_mis_bit:
  "bit (pack_mis m c i) n \<longleftrightarrow> n < 32 \<and> (26 \<le> n \<and> bit m (n - 26) \<or> 8 \<le> n \<and> bit c (n - 8) \<or> bit i n)"
  by (auto simp: pack_mis_def bit_or_iff bit_push_bit_iff dest: bit_imp_le_length)

lemma word_bit_high:
  assumes "bit (w :: 32 word) n" and "unat w < 2 ^ k"
  shows "n < k"
proof -
  have "unat (take_bit k w) = unat w" using assms(2) by (simp add: unsigned_take_bit_eq take_bit_nat_eq_self)
  then have "take_bit k w = w" by (rule word_unat_eq_iff [THEN iffD2])
  with assms(1) show ?thesis by (metis bit_take_bit_iff)
qed

text \<open>The multistream id keeps its three parts: opening a device with the packed number alone gives
  back the scrambling mode, code and stream id it was made of, for a mode below 4, a code below 2 ^ 18
  and an id below 256.\<close>

theorem MIS_roundtrip:
  assumes "unat m < 2 ^ 2" and "unat c < 2 ^ 18" and "unat i < 2 ^ 8" and "pack_mis m c i \<noteq> 0"
    and "i_mis_pls_mode s = 0" and "i_mis_pls_code s = 0" and "i_mis_is_id s = 0" and "i_mis s = pack_mis m c i"
  shows "open_mis s = s\<lparr>i_mis_pls_mode := m, i_mis_pls_code := c, i_mis_is_id := i\<rparr>
    \<and> i_mis (open_mis (open_mis s)) = i_mis s"
proof -
  have parts: "drop_bit 26 (pack_mis m c i) AND 0x03 = m" "drop_bit 8 (pack_mis m c i) AND 0x3ffff = c"
    "pack_mis m c i AND 0xff = i"
  proof -
    have n: "(0x03 :: 32 word) = mask 2" "(0x3ffff :: 32 word) = mask 18" "(0xff :: 32 word) = mask 8"
      by (simp_all add: mask_eq_decr_exp)
    have low: "bit m n \<Longrightarrow> n < 2" "bit c n \<Longrightarrow> n < 18" "bit i n \<Longrightarrow> n < 8" for n
      using assms(1-3) word_bit_high by blast+
    show "drop_bit 26 (pack_mis m c i) AND 0x03 = m" unfolding n
      by (rule bit_word_eqI) (auto simp: bit_simps pack_mis_bit dest: low)
    show "drop_bit 8 (pack_mis m c i) AND 0x3ffff = c" unfolding n
      by (rule bit_word_eqI) (auto simp: bit_simps pack_mis_bit dest: low)
    show "pack_mis m c i AND 0xff = i" unfolding n
      by (rule bit_word_eqI) (auto simp: bit_simps pack_mis_bit dest: low)
  qed
  show ?thesis using assms(4-) parts by (simp add: open_mis_def)
qed

lemma MIS_roundtrip_witness:
  "open_mis ((ex_dev (ex_driver 0))\<lparr>i_mis := pack_mis 1 5 7\<rparr>)
    = (ex_dev (ex_driver 0))\<lparr>i_mis := pack_mis 1 5 7, i_mis_pls_mode := 1, i_mis_pls_code := 5, i_mis_is_id := 7\<rparr>"
  by (subst MIS_roundtrip [of 1 5 7, THEN conjunct1]) (simp_all add: pack_mis_def)

text \<open>The check of the stream id passes everything (it joins its two bounds by "or"), so an id of 256 is
  taken and, packed, is the first code with id 0: another stream is filtered.\<close>

theorem MIS_id_unchecked:
  "fst (set_mis_is_id i s) \<and> pack_mis m c 256 = pack_mis m (c OR 1) 0"
proof -
  have "(256 :: 32 word) = push_bit 8 1" by (simp add: push_bit_eq_mult)
  then show ?thesis by (auto simp: set_mis_is_id_def Let_def pack_mis_def push_bit_or or.assoc)
qed

subsection \<open>The lock timer after start-up\<close>

lemma sys_call_dev [simp]: "dev_log (snd (sys_call c s)) = dev_log s"
  by (simp add: sys_call_def Let_def)

lemma sys_call_dev': "sys_call c s = (r, t) \<Longrightarrow> dev_log t = dev_log s"
  using sys_call_dev [of c s] by simp

lemma ResetSlot_dev:
  assumes "ResetSlot i s = Some s'" and "\<forall>ss\<in>set (p_sessions s). ss_resource ss = 0" and "length (p_sessions s) = MAX_SESSIONS"
  shows "dev_log s' = dev_log (s :: 'a dvbdev_scheme) \<and> p_sessions s' = p_sessions s"
proof -
  have "i < length (p_slots s)"
    using assms(1) by (auto simp: ResetSlot_def get_slot_def bind_eq_Some_conv)
  with ResetSlot_idle [OF assms(2,3)] assms(1) show ?thesis by (auto simp: reset_state_def upd_slot_def)
qed

lemma reset_high_level_dev:
  assumes "reset_high_level s = Some s'" and "i_ca_type s \<noteq> CA_CI_LINK"
  shows "dev_log s' = dev_log (s :: 'a dvbdev_scheme)"
  using assms
  by (auto simp: reset_high_level_def ca_close_def apdu_send_def APDUSend_def upd_sess_def Let_def bind_eq_Some_conv
      sys_call_def split: if_splits)

lemma en50221_Init_dev:
  assumes "en50221_Init s = Some s'"
  shows "dev_log s' = dev_log (s :: 'a dvbdev_scheme)"
proof -
  have reset: "dev_log t = dev_log u" if r: "en50221_Reset u = Some t" and p: "p_sessions u = replicate MAX_SESSIONS zero_session"
    for t and u :: "'a dvbdev_scheme"
  proof (cases "ca_link u")
    case True
    let ?v = "u\<lparr>p_slots := replicate MAX_CI_SLOTS zero_slot\<rparr>"
    from True r have "ofold ResetSlot [0..<nat (i_nb_slots u)] ?v = Some t"
      by (simp add: en50221_Reset_def ca_link_def Let_def)
    then have "dev_log t = dev_log ?v \<and> p_sessions t = p_sessions u"
      by (rule ofold_preserves [rotated 2]) (use p in \<open>auto dest!: ResetSlot_dev simp: zero_session_def\<close>)
    then show ?thesis by simp
  next
    case False
    then have "i_ca_type u \<noteq> CA_CI_LINK" by (auto simp: ca_link_def CA_CI_LINK_def)
    with False r show ?thesis using reset_high_level_dev [of "u\<lparr>p_slots := replicate MAX_CI_SLOTS zero_slot\<rparr>" t]
      by (simp add: en50221_Reset_def ca_link_def Let_def)
  qed
  show ?thesis using assms
    by (auto simp: en50221_Init_def ca_close_def Let_def sys_call_def split: if_splits dest!: reset)
qed

text \<open>After start-up the lock timer is not running: tuning restarts it before \<open>dev_Open\<close> initialises
  it, and nothing starts it afterwards, so that a first tuning without a lock is never repeated by
  \<open>FrontendLockCb\<close> (nor does the quit timeout fire).\<close>

theorem Lock_timer_not_running:
  assumes "dev_Open s = Some (Inr ((), s'))" and "i_frequency s \<noteq> 0" and "i_frontend_timeout_duration s \<noteq> 0"
    and "cmds_ok s"
  shows "\<exists>pre post. dev_log s' = pre @ EvTimerInit LockTimer (i_frontend_timeout_duration s) # post
    \<and> EvTimerAgain LockTimer \<in> set pre \<and> EvTimerAgain LockTimer \<notin> set post \<and> EvTimerStart LockTimer \<notin> set post"
proof -
  have mis: "i_frequency (open_mis s) = i_frequency s" "cmds_ok (open_mis s) = cmds_ok s"
    "i_frontend_timeout_duration (open_mis s) = i_frontend_timeout_duration s"
    by (simp_all add: open_mis_def cmds_ok_def)
  let ?t = "(ev_call (DvOpen NodeFrontend (i_adapter (open_mis s)) (i_fenum (open_mis s))) (open_mis s))"
  let ?u = "?t\<lparr>i_frontend := dr_ret (drv (open_mis s)) (pos (open_mis s))\<rparr>"
  from assms(1,2) obtain s1 s2 where 1: "FrontendSet True ?u = Some (Inr ((), s1))"
    and 2: "open_dvr s1 = Some (Inr ((), s2))" and 3: "en50221_Init (dev_watchers s2) = Some s'"
    by (auto simp: dev_Open_def andthen_ret of_opt_def open_frontend_def dev_call_def Let_def exit1_def mis split: if_splits)
  have ok: "cmds_ok ?u" "i_frontend_timeout_duration ?u = i_frontend_timeout_duration s"
    using assms(4) mis by (simp_all add: cmds_ok_def ev_call_def)
  from Tuning_frame [OF ok(1) 1] ok(2) assms(3) obtain q pre where
    f: "dev_log s1 = pre @ FeSetProperty (cmdargs s1 q) # [EvTimerAgain LockTimer]"
    and e: "s1 = ?u\<lparr>dev_log := dev_log s1, cmdargs := cmdargs s1, i_last_status := 0\<rparr>" by (auto simp del: dvbdev.update_convs)
  from arg_cong [OF e, of i_frontend_timeout_duration] ok(2)
  have l: "i_frontend_timeout_duration s1 = i_frontend_timeout_duration s" by simp
  have s2: "dev_log s2 = dev_log s1 @ [DvOpen NodeDvr (i_adapter s1) (i_fenum s1), DmxSetBufferSize (i_dvr_buffer_size s1)]"
    "i_frontend_timeout_duration s2 = i_frontend_timeout_duration s1"
    using 2 by (auto simp: open_dvr_def dev_call_def Let_def exit1_def ev_call_def split: if_splits)
  have "\<exists>io. dev_log (dev_watchers s2) = dev_log s2 @ io
      @ [EvTimerInit LockTimer (i_frontend_timeout_duration s2), EvTimerInit MuteTimer DVB_DVR_READ_TIMEOUT]"
    by (auto simp: dev_watchers_def Let_def ev_call_def)
  with en50221_Init_dev [OF 3] l s2 obtain io where
    "dev_log s' = (dev_log s2 @ io) @ EvTimerInit LockTimer (i_frontend_timeout_duration s)
       # [EvTimerInit MuteTimer DVB_DVR_READ_TIMEOUT]" by auto
  moreover have "EvTimerAgain LockTimer \<in> set (dev_log s2 @ io)" using s2 f by simp
  ultimately show ?thesis
    by (intro exI [of _ "dev_log s2 @ io"] exI [of _ "[EvTimerInit MuteTimer DVB_DVR_READ_TIMEOUT]"]) simp
qed

lemma Lock_timer_not_running_witness:
  "\<exists>s' pre post. dev_Open ((ex_dev (ex_driver 10))\<lparr>i_frequency := 11000000, sys_ret := \<lambda>_. -1\<rparr>) = Some (Inr ((), s'))
    \<and> dev_log s' = pre @ EvTimerInit LockTimer 30000000 # post \<and> EvTimerAgain LockTimer \<notin> set post"
proof -
  let ?s = "(ex_dev (ex_driver 10))\<lparr>i_frequency := 11000000, sys_ret := \<lambda>_. -1\<rparr>"
  let ?u = "(log_calls [DvOpen NodeFrontend (i_adapter ?s) (i_fenum ?s)] ?s)\<lparr>i_frontend := 0\<rparr>"
  have mis: "open_mis ?s = ?s" by (simp add: open_mis_def)
  have ok: "cmds_ok ?u" "cmds_ok ?s" by (simp_all add: cmds_ok_def)
  have "\<exists>s'. FrontendSet True ?u = Some (Inr ((), s')) \<and> pos ?u + 9 < pos s'"
    by (rule ex_FrontendSet [where bis = 1250000 and high = False]) (simp_all add: pos_def lnb_band_def log_calls_def)
  then obtain s1 where s1: "FrontendSet True ?u = Some (Inr ((), s1))" and p: "10 < pos s1" by (auto simp: pos_def log_calls_def)
  from Tuning_frame [OF ok(1) s1] have
    e: "s1 = ?u\<lparr>dev_log := dev_log s1, cmdargs := cmdargs s1, i_last_status := 0\<rparr>" by blast
  have "drv s1 = ex_driver 10" "sys_ret s1 = (\<lambda>_. -1)"
    using arg_cong [OF e, of drv] arg_cong [OF e, of sys_ret] by (simp_all add: log_calls_def)
  then have "\<exists>s2. open_dvr s1 = Some (Inr ((), s2)) \<and> sys_ret s2 = (\<lambda>_. -1)"
    using p by (simp add: open_dvr_def dev_call_def Let_def ret_def ev_call_def)
  then obtain s2 where s2: "open_dvr s1 = Some (Inr ((), s2))" "sys_ret s2 = (\<lambda>_. -1)" by blast
  have "\<exists>s'. en50221_Init (dev_watchers s2) = Some s'"
    using s2(2) by (simp add: en50221_Init_def sys_call_def Let_def dev_watchers_def ev_call_def)
  then obtain s' where "en50221_Init (dev_watchers s2) = Some s'" by blast
  moreover have "open_frontend ?s = Some (Inr ((), s1))"
    using s1 by (simp add: open_frontend_def dev_call_def Let_def log_call_first pos_def)
  ultimately have "dev_Open ?s = Some (Inr ((), s'))" using s2(1) by (simp add: dev_Open_def mis of_opt_def)
  with Lock_timer_not_running [OF this _ _ ok(2)] show ?thesis by auto
qed

subsection \<open>Reading packets\<close>

lemma ofold_upt_from:
  assumes "\<And>i s. m \<le> i \<Longrightarrow> i < n \<Longrightarrow> P i s \<Longrightarrow> \<exists>s'. f i s = Some s' \<and> P (Suc i) s'" and "P m s" and "m \<le> n"
  shows "\<exists>s'. ofold f [m..<n] s = Some s' \<and> P n s'"
  using assms(3,1)
proof (induction n rule: dec_induct)
  case base
  with assms(2) show ?case by simp
next
  case (step n)
  then obtain s1 where s1: "ofold f [m..<n] s = Some s1" "P n s1" by force
  with step.prems [of n s1] step.hyps show ?case by (auto simp: ofold_append)
qed

text \<open>Blocks in hand: distinct, allocated, each with its one reference.\<close>

definition in_hand :: "'a dvbheap_scheme \<Rightarrow> nat list \<Rightarrow> bool" where
  "in_hand s bs \<longleftrightarrow> pool_ok s \<and> distinct bs \<and> (\<forall>b\<in>set bs. live s b \<and> block_ref s b = 1)"

lemma block_New_dev: "block_New s = Some (b, s') \<Longrightarrow> drv s' = drv s \<and> dev_log s' = dev_log (s :: 'a dvbdev_scheme)"
  by (auto simp: block_New_def upd_block_def bind_eq_Some_conv split: if_splits list.splits)

lemma fill_freelist_spec:
  fixes s :: "'a dvbdev_scheme"
  assumes "in_hand s (p_freelist s)" and "length (p_freelist s) \<le> DVB_MAX_READ_ONCE"
  shows "\<exists>bs t. fill_freelist s = Some (bs, t) \<and> in_hand t bs \<and> length bs = DVB_MAX_READ_ONCE
    \<and> drv t = drv s \<and> dev_log t = dev_log s \<and> (\<forall>a. a \<notin> set bs \<longrightarrow> live t a = live s a)"
proof -
  define P where "P = (\<lambda>i (bs, t :: 'a dvbdev_scheme). in_hand t bs \<and> length bs = i \<and> drv t = drv s \<and> dev_log t = dev_log s
    \<and> (\<forall>a. a \<notin> set bs \<longrightarrow> live t a = live s a))"
  have "\<exists>u. (\<lambda>_ (bs, t). map_option (\<lambda>(b, t). (bs @ [b], t)) (block_New t)) i v = Some u \<and> P (Suc i) u"
    if "P i v" for i and v :: "nat list \<times> 'a dvbdev_scheme"
  proof -
    obtain bs t where v: "v = (bs, t)" by (cases v)
    from that have h: "in_hand t bs" "length bs = i" "drv t = drv s" "dev_log t = dev_log s"
      "\<forall>a. a \<notin> set bs \<longrightarrow> live t a = live s a" by (auto simp: P_def v)
    from block_New_spec [of t] h(1) obtain b u where u: "block_New t = Some (b, u)" "pool_ok u" "\<not> live t b"
      "live u = (live t)(b := True)" "block_ref u = (block_ref t)(b := 1)" by (auto simp: in_hand_def)
    with h block_New_dev [OF u(1)] show ?thesis by (auto simp: P_def v in_hand_def)
  qed
  moreover have "P (length (p_freelist s)) (p_freelist s, s)" using assms(1) by (simp add: P_def)
  ultimately have "\<exists>u. ofold (\<lambda>_ (bs, t). map_option (\<lambda>(b, t). (bs @ [b], t)) (block_New t))
      [length (p_freelist s)..<DVB_MAX_READ_ONCE] (p_freelist s, s) = Some u \<and> P DVB_MAX_READ_ONCE u"
    using assms(2) by (intro ofold_upt_from) auto
  then show ?thesis unfolding fill_freelist_def P_def by auto
qed

lemma fold_upd_other:
  "b \<notin> set bs \<Longrightarrow> mem (fold (\<lambda>(k, b). upd_block b (f k)) (enumerate m bs) s) b = mem s b"
  by (induction bs arbitrary: m s) (auto simp: upd_block_def)

lemma fold_upd_nth:
  assumes "distinct bs" and "k < length bs"
  shows "mem (fold (\<lambda>(k, b). upd_block b (f k)) (enumerate m bs) s) (bs ! k) = f (m + k) (mem s (bs ! k))"
  using assms
proof (induction bs arbitrary: m k s)
  case (Cons b bs)
  have one: "mem (upd_block b g s) c = (if c = b then g (mem s b) else mem s c)" for g c by (simp add: upd_block_def)
  show ?case
  proof (cases k)
    case 0
    then show ?thesis using Cons.prems(1) fold_upd_other [of b bs f "Suc m" "upd_block b (f m) s"] by (simp add: one)
  next
    case (Suc j)
    then have "j < length bs" "bs ! j \<noteq> b" using Cons.prems by auto
    with Suc Cons.prems(1) Cons.IH [of j "Suc m" "upd_block b (f m) s"] show ?thesis by (simp add: one)
  qed
qed simp

lemma fold_upd_frame:
  assumes "\<And>k x. bk_refcount (f k x) = bk_refcount x"
  shows "in_hand (fold (\<lambda>(k, b). upd_block b (f k)) (enumerate m as) s) bs = in_hand s bs
    \<and> live (fold (\<lambda>(k, b). upd_block b (f k)) (enumerate m as) s) = live s"
proof (induction as arbitrary: m s)
  case (Cons a as)
  have "in_hand (upd_block a (f m) s) bs = in_hand s bs" "live (upd_block a (f m) s) = live s"
    using assms by (auto simp: in_hand_def pool_defs fun_eq_iff)
  with Cons.IH [of "Suc m" "upd_block a (f m) s"] show ?case by simp
qed simp

lemma fold_upd_dev:
  "drv (fold (\<lambda>(k, b). upd_block b (f k)) as s) = drv s \<and> dev_log (fold (\<lambda>(k, b). upd_block b (f k)) as s) = dev_log (s :: 'a dvbdev_scheme)"
  by (induction as arbitrary: s) (auto simp: upd_block_def)



end
