(* ===== verification/Dvb_MmiFlat.thy ===== *)
theory Dvb_MmiFlat
  imports Dvb_CiLink
begin

text \<open>
  The flat form in which MMI objects travel over the control socket (\<open>en50221_SerializeMMIObject\<close>,
  \<open>en50221_UnserializeMMIObject\<close>): the 48 bytes of the object's struct as a 64-bit little-endian
  host lays it out, its pointers replaced by offsets, and behind it the strings and the table of
  choices. Memory is the byte list that starts at the object; a read or write outside it is \<open>None\<close>,
  a return of -1 is \<open>Some None\<close>.
\<close>

subsection \<open>Bytes\<close>

fun le_bytes :: "nat \<Rightarrow> int \<Rightarrow> bytes" where
  "le_bytes 0 v = []"
| "le_bytes (Suc n) v = word_of_int v # le_bytes n (v div 256)"

fun le_val :: "bytes \<Rightarrow> int" where
  "le_val [] = 0"
| "le_val (b # bs) = uint b + 256 * le_val bs"

definition le_signed :: "bytes \<Rightarrow> int" where
  "le_signed bs = (let v = le_val bs; m = 2 ^ (8 * length bs) in if 2 * v < m then v else v - m)"

definition get_at :: "nat \<Rightarrow> nat \<Rightarrow> bytes \<Rightarrow> bytes" where
  "get_at off n buf = take n (drop off buf)"

definition put_at :: "nat \<Rightarrow> bytes \<Rightarrow> bytes \<Rightarrow> bytes" where
  "put_at off bs buf = take off buf @ bs @ drop (off + length bs) buf"

subsection \<open>The struct\<close>

definition MMI_OBJECT_SIZE :: nat where "MMI_OBJECT_SIZE = 48"
definition CMD_MMI_SEND_SIZE :: nat where "CMD_MMI_SEND_SIZE = 56"

text \<open>Places of the members: the type, the first flag or number, the three strings of a menu, the table
  and the number of choices; the string of a question or an answer is where a menu has its subtitle.\<close>

definition AT_TYPE :: nat where "AT_TYPE = 0"
definition AT_NUMBER :: nat where "AT_NUMBER = 8"
definition AT_TEXT :: nat where "AT_TEXT = 16"
definition AT_TITLE :: nat where "AT_TITLE = 8"
definition AT_SUBTITLE :: nat where "AT_SUBTITLE = 16"
definition AT_BOTTOM :: nat where "AT_BOTTOM = 24"
definition AT_CHOICES :: nat where "AT_CHOICES = 32"
definition AT_COUNT :: nat where "AT_COUNT = 40"

lemmas mmi_places = MMI_OBJECT_SIZE_def AT_TYPE_def AT_NUMBER_def AT_TEXT_def AT_TITLE_def AT_SUBTITLE_def
  AT_BOTTOM_def AT_CHOICES_def AT_COUNT_def

fun mmi_type :: "mmi_object \<Rightarrow> int" where
  "mmi_type MmiNone = 0"
| "mmi_type (MmiEnq _ _) = 1"
| "mmi_type (MmiAnsw _ _) = 2"
| "mmi_type (MmiMenu _ _ _ _) = 3"
| "mmi_type (MmiMenuAnsw _) = 4"
| "mmi_type (MmiList _ _ _ _) = 5"
| "mmi_type (MmiOther t) = t"

text \<open>The struct of an object in memory: \<open>raw\<close> holds what is not a number (pointers, padding).\<close>

definition mmi_struct :: "bytes \<Rightarrow> mmi_object \<Rightarrow> bytes" where
  "mmi_struct raw m =
     (let raw = put_at AT_TYPE (le_bytes 4 (mmi_type m)) raw in
      case m of
        MmiEnq blind _ \<Rightarrow> put_at AT_NUMBER (le_bytes 4 (if blind then 1 else 0)) raw
      | MmiAnsw ok _ \<Rightarrow> put_at AT_NUMBER (le_bytes 4 (if ok then 1 else 0)) raw
      | MmiMenu _ _ _ cs \<Rightarrow> put_at AT_COUNT (le_bytes 4 (int (length cs))) raw
      | MmiList _ _ _ cs \<Rightarrow> put_at AT_COUNT (le_bytes 4 (int (length cs))) raw
      | MmiMenuAnsw c \<Rightarrow> put_at AT_NUMBER (le_bytes 4 c) raw
      | _ \<Rightarrow> raw)"

subsection \<open>Writing the flat form\<close>

definition cstr_bytes :: "cstr \<Rightarrow> bytes option" where
  "cstr_bytes c = (case c of CStr z \<Rightarrow> Some (str_bytes z @ [0]) | CJunk \<Rightarrow> None)"

text \<open>\<open>STORE_MEMBER\<close>: the data goes to the end, its offset into the pointer's place.\<close>

definition store_member :: "nat \<Rightarrow> nat \<Rightarrow> bytes \<Rightarrow> bytes \<times> nat \<Rightarrow> (bytes \<times> nat) option" where
  "store_member lim at data = (\<lambda>(buf, len).
     if length data + len > lim then None
     else Some (put_at at (le_bytes 8 (int len)) (put_at len data buf), len + length data))"

definition align8 :: "bytes \<times> nat \<Rightarrow> bytes \<times> nat" where
  "align8 = (\<lambda>(buf, len). (buf, (len + 7) div 8 * 8))"

text \<open>\<open>table\<close> is the object's own array of pointers, copied before its entries are replaced.\<close>

definition store_choices :: "nat \<Rightarrow> bytes \<Rightarrow> bytes list \<Rightarrow> bytes \<times> nat \<Rightarrow> (bytes \<times> nat) option" where
  "store_choices lim table cs ms =
     (let ms = align8 ms; at = snd ms in do {
        ms \<leftarrow> store_member lim AT_CHOICES table ms;
        ofold (\<lambda>(i, c). store_member lim (at + 8 * i) c) (enumerate 0 cs) ms })"

definition store_menu ::
  "nat \<Rightarrow> bytes \<Rightarrow> cstr \<Rightarrow> cstr \<Rightarrow> cstr \<Rightarrow> cstr list \<Rightarrow> bytes \<times> nat \<Rightarrow> (bytes \<times> nat) option option" where
  "store_menu lim table a b c cs ms = do {
     a \<leftarrow> cstr_bytes a;
     b \<leftarrow> cstr_bytes b;
     c \<leftarrow> cstr_bytes c;
     cs \<leftarrow> those (map cstr_bytes cs);
     ensure (length table = 8 * length cs);
     Some (do {
       ms \<leftarrow> store_member lim AT_TITLE a ms;
       ms \<leftarrow> store_member lim AT_SUBTITLE b ms;
       ms \<leftarrow> store_member lim AT_BOTTOM c ms;
       store_choices lim table cs ms }) }"

definition en50221_SerializeMMIObject ::
  "bytes \<Rightarrow> bytes \<Rightarrow> nat \<Rightarrow> mmi_object \<Rightarrow> bytes \<Rightarrow> (bytes \<times> nat) option option" where
  "en50221_SerializeMMIObject raw table lim m buf =
     (if MMI_OBJECT_SIZE > lim then Some None
      else do {
        ensure (lim \<le> length buf);
        let ms = (put_at 0 (mmi_struct raw m) buf, MMI_OBJECT_SIZE);
        (case m of
           MmiEnq _ t \<Rightarrow> map_option (\<lambda>t. store_member lim AT_TEXT t ms) (cstr_bytes t)
         | MmiAnsw _ t \<Rightarrow> map_option (\<lambda>t. store_member lim AT_TEXT t ms) (cstr_bytes t)
         | MmiMenu a b c cs \<Rightarrow> store_menu lim table a b c cs ms
         | MmiList a b c cs \<Rightarrow> store_menu lim table a b c cs ms
         | _ \<Rightarrow> Some (Some ms)) })"

subsection \<open>Reading it\<close>

text \<open>The search for the end of a string: each byte is read before its place is compared with the len.\<close>

function scan_string :: "bytes \<Rightarrow> int \<Rightarrow> int \<Rightarrow> bool option" where
  "scan_string buf len q =
     (if q < 0 \<or> int (length buf) \<le> q then None
      else if buf ! nat q = 0 then Some True
      else if q \<ge> len then Some False
      else scan_string buf len (q + 1))"
  by pat_completeness auto
termination
  by (relation "measure (\<lambda>(buf, len, q). nat (int (length buf) - q))") auto

declare scan_string.simps [simp del]

definition read_pointer :: "int \<Rightarrow> bytes \<Rightarrow> int option" where
  "read_pointer at buf = (if at < 0 \<or> int (length buf) < at + 8 then None else Some (le_signed (get_at (nat at) 8 buf)))"

text \<open>\<open>CHECK_MEMBER\<close>: a checked offset becomes a pointer again (\<open>base\<close> is the object's address).\<close>

definition check_member :: "int \<Rightarrow> int \<Rightarrow> int \<Rightarrow> bytes \<Rightarrow> bytes option option" where
  "check_member base len at buf = do {
     p \<leftarrow> read_pointer at buf;
     if p \<ge> len then Some None
     else do {
       ok \<leftarrow> scan_string buf len p;
       Some (if ok then Some (put_at (nat at) (le_bytes 8 (p + base)) buf) else None) } }"

text \<open>One check after the other, the first -1 ends it.\<close>

fun check_members :: "int \<Rightarrow> int \<Rightarrow> int list \<Rightarrow> bytes \<Rightarrow> bytes option option" where
  "check_members base len [] buf = Some (Some buf)"
| "check_members base len (at # ats) buf =
     (case check_member base len at buf of
        None \<Rightarrow> None
      | Some None \<Rightarrow> Some None
      | Some (Some buf) \<Rightarrow> check_members base len ats buf)"

definition table_end :: "int \<Rightarrow> int \<Rightarrow> int" where
  "table_end tab n = (let v = (tab + n * 8) mod 2 ^ 64 in if v < 2 ^ 63 then v else v - 2 ^ 64)"

definition check_choices :: "int \<Rightarrow> int \<Rightarrow> bytes \<Rightarrow> bytes option option" where
  "check_choices base len buf = do {
     tab \<leftarrow> read_pointer (int AT_CHOICES) buf;
     let n = le_signed (get_at AT_COUNT 4 buf);
     if table_end tab n \<ge> len then Some None
     else check_members base len (map (\<lambda>j. tab + 8 * int j) [0..<nat n])
            (put_at AT_CHOICES (le_bytes 8 (tab + base)) buf) }"

definition en50221_UnserializeMMIObject :: "int \<Rightarrow> int \<Rightarrow> bytes \<Rightarrow> bytes option option" where
  "en50221_UnserializeMMIObject base len buf =
     (let t = le_signed (get_at AT_TYPE 4 buf) in
      if t = 1 \<or> t = 2 then check_members base len [int AT_TEXT] buf
      else if t = 3 \<or> t = 5
      then (case check_members base len [int AT_TITLE, int AT_SUBTITLE, int AT_BOTTOM] buf of
              Some (Some buf) \<Rightarrow> check_choices base len buf
            | r \<Rightarrow> r)
      else Some (Some buf))"

text \<open>The object a struct in memory stands for: its pointers lead back into the memory.\<close>

definition string_at :: "int \<Rightarrow> bytes \<Rightarrow> int \<Rightarrow> cstr" where
  "string_at base buf at =
     (let p = le_signed (get_at (nat at) 8 buf) - base in
      if p < 0 \<or> 0 \<notin> set (drop (nat p) buf) then CJunk
      else CStr (map (\<lambda>b. char_of (unat b)) (takeWhile (\<lambda>b. b \<noteq> 0) (drop (nat p) buf))))"

definition mmi_view :: "int \<Rightarrow> bytes \<Rightarrow> mmi_object" where
  "mmi_view base buf =
     (let t = le_signed (get_at AT_TYPE 4 buf); n = le_signed (get_at AT_NUMBER 4 buf);
          str = (\<lambda>at. string_at base buf (int at));
          tab = le_signed (get_at AT_CHOICES 8 buf) - base; k = nat (le_signed (get_at AT_COUNT 4 buf));
          choices = map (\<lambda>j. string_at base buf (tab + 8 * int j)) [0..<k] in
      if t = 0 then MmiNone
      else if t = 1 then MmiEnq (n \<noteq> 0) (str AT_TEXT)
      else if t = 2 then MmiAnsw (n = 1) (str AT_TEXT)
      else if t = 3 then MmiMenu (str AT_TITLE) (str AT_SUBTITLE) (str AT_BOTTOM) choices
      else if t = 4 then MmiMenuAnsw n
      else if t = 5 then MmiList (str AT_TITLE) (str AT_SUBTITLE) (str AT_BOTTOM) choices
      else MmiOther t)"

subsection \<open>The command\<close>

text \<open>
  The command that sends an object: its object starts at byte 8, and the distance that is taken off
  the len is counted in objects, so it is \<open>8 div 48\<close>, zero.
\<close>

definition object_distance :: int where
  "object_distance = 8 div int MMI_OBJECT_SIZE"

definition send_mmi_cmd ::
  "int \<Rightarrow> bytes \<Rightarrow> nat \<Rightarrow> 'a dvben_scheme \<Rightarrow> (nat \<times> 'a dvben_scheme) option" where
  "send_mmi_cmd base msg len s =
     (if len < CMD_MMI_SEND_SIZE then Some (RET_HUH, s)
      else do {
        ensure (len \<le> length msg);
        r \<leftarrow> en50221_UnserializeMMIObject base (int len - object_distance) (drop 8 msg);
        (case r of
           None \<Rightarrow> Some (RET_ERR, s)
         | Some buf \<Rightarrow> en50221_SendMMIObject (msg ! 0) (mmi_view base buf) s) })"

text \<open>The answer that carries the last object; \<open>lim\<close> is the room in the answer's buffer.\<close>

definition get_mmi_cmd ::
  "bytes \<Rightarrow> bytes \<Rightarrow> nat \<Rightarrow> bytes \<Rightarrow> bytes \<Rightarrow> 'a dvben_scheme \<Rightarrow> (nat \<times> (bytes \<times> nat) option) option" where
  "get_mmi_cmd raw table lim buf msg s = (case msg of
       [b] \<Rightarrow> do {
         sl \<leftarrow> get_slot (unat b) s;
         if sl_mmi_expected sl then Some (RET_MMI_WAIT, None)
         else (case find_session RI_MMI (int (unat b)) s of
            None \<Rightarrow> Some (RET_MMI_RECV, Some (put_at AT_TYPE (le_bytes 4 0) buf, MMI_OBJECT_SIZE))
          | Some sid \<Rightarrow>
              (case ss_sys (sess s sid) of
                 SysNull \<Rightarrow> Some (RET_ERR, None)
               | SysMmi m \<Rightarrow> do {
                   r \<leftarrow> en50221_SerializeMMIObject raw table lim m (put_at AT_TYPE (le_bytes 4 0) buf);
                   Some (if r = None then (RET_ERR, None) else (RET_MMI_RECV, r)) }
               | _ \<Rightarrow> None)) }
     | _ \<Rightarrow> Some (RET_HUH, None))"

end
