(* ===== verification/Dvb_MmiFlatClaims.thy ===== *)
theory Dvb_MmiFlatClaims
  imports Dvb_MmiFlat
begin

text \<open>
  The flat form of MMI objects: what is written is read back as the same object, except that a
  menu without choices is refused; and the reader trusts offsets below the object.
\<close>

subsection \<open>Numbers in bytes\<close>

lemma length_le_bytes [simp]: "length (le_bytes n v) = n"
  by (induction n arbitrary: v) simp_all

lemma le_val_bytes: "le_val (le_bytes n v) = v mod 2 ^ (8 * n)"
proof (induction n arbitrary: v)
  case (Suc n)
  have "v mod 256 + 256 * (v div 256 mod 2 ^ (8 * n)) = v mod (256 * 2 ^ (8 * n))"
    by (simp add: zmod_zmult2_eq)
  then show ?case using Suc.IH by (simp add: uint_word_of_int power_add)
qed simp

lemma le_signed_bytes:
  assumes "0 < n" and "- (2 ^ (8 * n - 1)) \<le> v" and "v < 2 ^ (8 * n - 1)"
  shows "le_signed (le_bytes n v) = v"
proof -
  have m: "(2::int) ^ (8 * n) = 2 * 2 ^ (8 * n - 1)" using assms(1) by (simp flip: power_Suc)
  show ?thesis
  proof (cases "0 \<le> v")
    case True
    with assms m have "v mod 2 ^ (8 * n) = v" by simp
    with True assms m show ?thesis by (simp add: le_signed_def Let_def le_val_bytes)
  next
    case False
    have "v mod 2 ^ (8 * n) = (v + 2 ^ (8 * n)) mod 2 ^ (8 * n)" by simp
    also have "\<dots> = v + 2 ^ (8 * n)" using False assms m by (intro mod_pos_pos_trivial) auto
    finally show ?thesis using False assms m by (simp add: le_signed_def Let_def le_val_bytes)
  qed
qed

lemmas le_signed_4 = le_signed_bytes [of 4, simplified] and le_signed_8 = le_signed_bytes [of 8, simplified]

subsection \<open>Places in memory\<close>

text \<open>Two memories agree outside a set of addresses.\<close>

definition agree :: "nat set \<Rightarrow> bytes \<Rightarrow> bytes \<Rightarrow> bool" where
  "agree D b b' \<longleftrightarrow> length b' = length b \<and> (\<forall>i<length b. i \<notin> D \<longrightarrow> b' ! i = b ! i)"

lemma agree_refl [simp]: "agree D b b"
  by (simp add: agree_def)

lemma agree_trans: "agree D b c \<Longrightarrow> agree E c d \<Longrightarrow> agree (D \<union> E) b d"
  by (auto simp: agree_def)

lemma agree_mono: "agree D b c \<Longrightarrow> D \<subseteq> E \<Longrightarrow> agree E b c"
  by (auto simp: agree_def)

lemma agree_length: "agree D b c \<Longrightarrow> length c = length b"
  by (simp add: agree_def)

lemma length_get_at [simp]: "length (get_at off n b) = min n (length b - off)"
  by (simp add: get_at_def min.commute)

lemma get_agree:
  assumes "agree D b c" and "{off..<off + n} \<inter> D = {}"
  shows "get_at off n c = get_at off n b"
  using assms by (intro nth_equalityI) (auto simp: agree_def get_at_def disjoint_iff)

lemma put_agree: "off + length bs \<le> length b \<Longrightarrow> agree {off..<off + length bs} b (put_at off bs b)"
  by (auto simp: agree_def put_at_def nth_append)

lemma get_put: "off + length bs \<le> length b \<Longrightarrow> get_at off (length bs) (put_at off bs b) = bs"
  by (simp add: get_at_def put_at_def)

lemma get_put_le: "off + n \<le> length b \<Longrightarrow> get_at off n (put_at off (le_bytes n v) b) = le_bytes n v"
  using get_put [of off "le_bytes n v" b] by simp

lemma length_put: "off + length bs \<le> length b \<Longrightarrow> length (put_at off bs b) = length b"
  using put_agree agree_length by blast

subsection \<open>Strings in memory\<close>

definition text_ok :: "bytes \<Rightarrow> bool" where
  "text_ok d \<longleftrightarrow> (\<exists>z. d = z @ [0] \<and> 0 \<notin> set z)"

lemma scan_string_finds:
  assumes "get_at p (length d) b = d" and "text_ok d" and "k < length d" and "p + length d \<le> n"
  shows "scan_string b (int n) (int (p + k)) = Some True"
  using assms(3)
proof (induction "length d - k" arbitrary: k)
  case 0
  then show ?case by simp
next
  case (Suc j)
  from assms(2) obtain z where z: "d = z @ [0]" "0 \<notin> set z" by (auto simp: text_ok_def)
  have l: "p + k < length b" using arg_cong [OF assms(1), of length] Suc.prems by simp
  have nth: "b ! (p + k) = d ! k" using Suc.prems assms(1) l by (metis add_leD1 get_at_def less_or_eq_imp_le nth_drop nth_take)
  show ?case
  proof (cases "k = length z")
    case True
    with l nth z show ?thesis by (subst scan_string.simps) (simp add: nat_int_add)
  next
    case False
    with Suc.prems z have k: "k < length z" by simp
    then have "b ! (p + k) \<noteq> 0" using nth z by (metis nth_append nth_mem)
    moreover have "scan_string b (int n) (int (p + Suc k)) = Some True" using Suc k z by (intro Suc.hyps) auto
    ultimately show ?thesis using l k z assms(4)
      by (subst scan_string.simps) (simp add: nat_int_add algebra_simps)
  qed
qed

definition slot :: "nat \<Rightarrow> nat set" where
  "slot at = {at..<at + 8}"

text \<open>A pointer's place that leads to a text.\<close>

definition leads :: "bytes \<Rightarrow> nat \<Rightarrow> nat \<Rightarrow> bytes \<Rightarrow> bool" where
  "leads b at p d \<longleftrightarrow> at + 8 \<le> length b \<and> get_at at 8 b = le_bytes 8 (int p) \<and> get_at p (length d) b = d
     \<and> text_ok d \<and> p < 2 ^ 62"

lemma leads_agree:
  assumes "leads b at p d" and "agree D b c" and "slot at \<inter> D = {}" and "{p..<p + length d} \<inter> D = {}"
  shows "leads c at p d"
  using assms by (simp add: leads_def get_agree agree_length slot_def)

lemma check_member_ok:
  assumes "leads b at p d" and "p + length d \<le> n"
  shows "check_member base (int n) (int at) b = Some (Some (put_at at (le_bytes 8 (int p + base)) b))"
proof -
  have d: "0 < length d" using assms(1) by (auto simp: leads_def text_ok_def)
  have "read_pointer (int at) b = Some (int p)"
    using assms(1) by (simp add: leads_def read_pointer_def le_signed_8)
  moreover have "scan_string b (int n) (int p) = Some True"
    using scan_string_finds [of p d b 0 n] assms d by (simp add: leads_def)
  moreover have "p < n" using assms(2) d by linarith
  ultimately show ?thesis by (simp add: check_member_def)
qed

text \<open>Checking members whose places and texts keep clear of each other.\<close>

lemma check_members_ok:
  assumes "\<And>at. at \<in> set ats \<Longrightarrow> leads b at (p at) (d at) \<and> p at + length (d at) \<le> n"
    and "distinct ats"
    and "\<And>at at'. at \<in> set ats \<Longrightarrow> at' \<in> set ats \<Longrightarrow> at \<noteq> at' \<Longrightarrow> slot at \<inter> slot at' = {}"
    and "\<And>at at'. at \<in> set ats \<Longrightarrow> at' \<in> set ats \<Longrightarrow> {p at..<p at + length (d at)} \<inter> slot at' = {}"
  shows "\<exists>c. check_members base (int n) (map int ats) b = Some (Some c) \<and> agree (\<Union>at\<in>set ats. slot at) b c
    \<and> (\<forall>at\<in>set ats. get_at at 8 c = le_bytes 8 (int (p at) + base))"
  using assms
proof (induction ats arbitrary: b)
  case (Cons at ats)
  let ?b = "put_at at (le_bytes 8 (int (p at) + base)) b"
  have at: "leads b at (p at) (d at)" "p at + length (d at) \<le> n" using Cons.prems(1) [of at] by simp_all
  have room: "at + length (le_bytes 8 (int (p at) + base)) \<le> length b" using at(1) by (simp add: leads_def)
  have put: "agree (slot at) b ?b" using put_agree [OF room] by (simp add: slot_def)
  have "leads ?b at' (p at') (d at') \<and> p at' + length (d at') \<le> n" if "at' \<in> set ats" for at'
  proof -
    have "at' \<noteq> at" using that Cons.prems(2) by auto
    then have "slot at' \<inter> slot at = {}" "{p at'..<p at' + length (d at')} \<inter> slot at = {}"
      using that Cons.prems(3,4) by auto
    with that Cons.prems(1) [of at'] put show ?thesis by (auto intro: leads_agree)
  qed
  with Cons.prems have "\<exists>c. check_members base (int n) (map int ats) ?b = Some (Some c) \<and> agree (\<Union>at\<in>set ats. slot at) ?b c
      \<and> (\<forall>at\<in>set ats. get_at at 8 c = le_bytes 8 (int (p at) + base))"
    by (intro Cons.IH) auto
  then obtain c where c: "check_members base (int n) (map int ats) ?b = Some (Some c)"
    "agree (\<Union>at\<in>set ats. slot at) ?b c" "\<forall>at\<in>set ats. get_at at 8 c = le_bytes 8 (int (p at) + base)" by blast
  have "get_at at 8 c = get_at at 8 ?b"
  proof (rule get_agree [OF c(2)])
    have "slot at \<inter> slot at' = {}" if "at' \<in> set ats" for at' using that Cons.prems(2,3) by auto
    then have "slot at \<inter> (\<Union>at\<in>set ats. slot at) = {}" by blast
    then show "{at..<at + 8} \<inter> (\<Union>at\<in>set ats. slot at) = {}" by (simp add: slot_def)
  qed
  also have "\<dots> = le_bytes 8 (int (p at) + base)" using room by (simp add: get_put_le)
  finally have "\<forall>a\<in>set (at # ats). get_at a 8 c = le_bytes 8 (int (p a) + base)" using c(3) by simp
  moreover have "agree (\<Union>at\<in>set (at # ats). slot at) b c"
    using agree_trans [OF put c(2)] by simp
  ultimately show ?case using c(1) check_member_ok [OF at] by auto
qed simp

subsection \<open>Storing\<close>

lemma store_member_spec:
  assumes "store_member lim at d (b, len) = Some (c, len')" and "at + 8 \<le> len" and "lim \<le> length b"
  shows "len' = len + length d \<and> len' \<le> lim \<and> agree (slot at \<union> {len..<len'}) b c
    \<and> get_at at 8 c = le_bytes 8 (int len) \<and> get_at len (length d) c = d"
proof -
  let ?b = "put_at len d b"
  from assms(1) have c: "len' = len + length d" "len' \<le> lim" "c = put_at at (le_bytes 8 (int len)) ?b"
    by (auto simp: store_member_def split: if_splits)
  have room: "len + length d \<le> length b" using c assms(3) by simp
  have room': "at + length (le_bytes 8 (int len)) \<le> length ?b" using room assms(2) by (simp add: length_put)
  have a: "agree {len..<len'} b ?b" using put_agree [OF room] c(1) by simp
  have a': "agree (slot at) ?b c" using put_agree [OF room'] c(3) by (simp add: slot_def)
  have "get_at len (length d) c = get_at len (length d) ?b"
    using a' by (rule get_agree) (use assms(2) in \<open>auto simp: slot_def\<close>)
  then have "get_at len (length d) c = d" using get_put [OF room] by simp
  moreover have "get_at at 8 c = le_bytes 8 (int len)" using room' c(3) by (simp add: get_put_le)
  ultimately show ?thesis using c(1,2) agree_trans [OF a a'] by (simp add: Un_commute)
qed

lemma store_all_spec:
  assumes "ofold (\<lambda>(at, d). store_member lim at d) ads (b, len) = Some (c, len')" and "lim \<le> length b" and "lim < 2 ^ 62"
    and "\<And>at d. (at, d) \<in> set ads \<Longrightarrow> at + 8 \<le> len \<and> text_ok d" and "len \<le> lim"
    and "distinct (map fst ads)"
    and "\<And>at at'. at \<in> fst ` set ads \<Longrightarrow> at' \<in> fst ` set ads \<Longrightarrow> at \<noteq> at' \<Longrightarrow> slot at \<inter> slot at' = {}"
  shows "len \<le> len' \<and> len' \<le> lim \<and> agree ((\<Union>at\<in>fst ` set ads. slot at) \<union> {len..<len'}) b c
    \<and> (\<exists>p. \<forall>(at, d)\<in>set ads. leads c at (p at) d \<and> len \<le> p at \<and> p at + length d \<le> len')"
  using assms
proof (induction ads arbitrary: b len)
  case (Cons ad ads)
  obtain at d where ad: "ad = (at, d)" by (cases ad)
  from Cons.prems(1) obtain b1 len1 where 1: "store_member lim at d (b, len) = Some (b1, len1)"
    and 2: "ofold (\<lambda>(at, d). store_member lim at d) ads (b1, len1) = Some (c, len')"
    by (auto simp: ad split: option.splits)
  have at: "at + 8 \<le> len" "text_ok d" using Cons.prems(4) [of at d] by (simp_all add: ad)
  from store_member_spec [OF 1 at(1) Cons.prems(2)] have s1: "len1 = len + length d" "len1 \<le> lim"
    "agree (slot at \<union> {len..<len1}) b b1" "get_at at 8 b1 = le_bytes 8 (int len)" "get_at len (length d) b1 = d" by auto
  have apart: "slot at \<inter> slot at' = {}" "at' \<noteq> at" if "at' \<in> fst ` set ads" for at'
    using that Cons.prems(6) Cons.prems(7) [of at at'] by (force simp: ad)+
  have "at + 8 \<le> len1 \<and> text_ok d" if "(at, d) \<in> set ads" for at d
    using that Cons.prems(4) [of at d] s1(1) by simp
  then have "len1 \<le> len' \<and> len' \<le> lim \<and> agree ((\<Union>at\<in>fst ` set ads. slot at) \<union> {len1..<len'}) b1 c
      \<and> (\<exists>p. \<forall>(at, d)\<in>set ads. leads c at (p at) d \<and> len1 \<le> p at \<and> p at + length d \<le> len')"
    using Cons.prems(2,3,6,7) s1(2,3) by (intro Cons.IH [OF 2]) (auto simp: agree_length)
  then obtain q where ih: "len1 \<le> len'" "len' \<le> lim" "agree ((\<Union>at\<in>fst ` set ads. slot at) \<union> {len1..<len'}) b1 c"
    "\<forall>(at, d)\<in>set ads. leads c at (q at) d \<and> len1 \<le> q at \<and> q at + length d \<le> len'" by blast
  have "leads b1 at len d"
    using s1 at Cons.prems(2,3) by (simp add: leads_def agree_length)
  then have "leads c at len d"
  proof (rule leads_agree [OF _ ih(3)])
    have below: "at' + 8 \<le> len" if "at' \<in> fst ` set ads" for at'
    proof -
      from that obtain d' where "(at', d') \<in> set ads" by auto
      then show ?thesis using Cons.prems(4) [of at' d'] by simp
    qed
    have "slot at \<inter> (\<Union>at\<in>fst ` set ads. slot at) = {}" using apart(1) by blast
    moreover have "slot at \<inter> {len1..<len'} = {}" using at(1) s1(1) by (auto simp: slot_def)
    ultimately show "slot at \<inter> ((\<Union>at\<in>fst ` set ads. slot at) \<union> {len1..<len'}) = {}" by blast
    have "{len..<len + length d} \<inter> slot at' = {}" if "at' \<in> fst ` set ads" for at'
      using below [OF that] by (auto simp: slot_def)
    then show "{len..<len + length d} \<inter> ((\<Union>at\<in>fst ` set ads. slot at) \<union> {len1..<len'}) = {}"
      using s1(1) by auto
  qed
  then have "\<forall>(a, d)\<in>set (ad # ads). leads c a ((q(at := len)) a) d \<and> len \<le> (q(at := len)) a
      \<and> (q(at := len)) a + length d \<le> len'"
    using ih s1(1) apart(2) by (force simp: ad)
  moreover have "agree ((\<Union>at\<in>fst ` set (ad # ads). slot at) \<union> {len..<len'}) b c"
    using agree_trans [OF s1(3) ih(3)] by (rule agree_mono) (use ih(1) s1(1) in \<open>auto simp: ad\<close>)
  ultimately show ?case using ih(1,2) s1(1) by (auto intro: exI [of _ "q(at := len)"])
qed simp

subsection \<open>Strings back from memory\<close>

definition cstr_ok :: "cstr \<Rightarrow> bool" where
  "cstr_ok c \<longleftrightarrow> (\<exists>z. c = CStr z \<and> CHR 0x00 \<notin> set z)"

lemma cstr_bytes_ok: "cstr_ok c \<Longrightarrow> \<exists>d. cstr_bytes c = Some d \<and> text_ok d"
proof -
  have byte: "unat (of_nat (of_char x) :: byte) = of_char x" for x by (simp add: unat_of_nat)
  have zero: "x = CHR 0x00" if "(of_nat (of_char x) :: byte) = 0" for x
  proof -
    have "(of_char x :: nat) = 0" using byte [of x] that by simp
    moreover have "(of_char CHR 0x00 :: nat) = 0" by simp
    ultimately have "(of_char x :: nat) = of_char CHR 0x00" by (simp only:)
    then show ?thesis by (simp only: of_char_eq_iff)
  qed
  assume "cstr_ok c"
  then obtain z where z: "c = CStr z" "CHR 0x00 \<notin> set z" by (auto simp: cstr_ok_def)
  have "0 \<notin> set (str_bytes z)"
  proof
    assume "0 \<in> set (str_bytes z)"
    then obtain x where "x \<in> set z" "(of_nat (of_char x) :: byte) = 0" by (auto simp: str_bytes_def)
    with zero z(2) show False by metis
  qed
  with z(1) show ?thesis by (auto simp: cstr_bytes_def text_ok_def)
qed

lemma string_at_leads:
  assumes "get_at at 8 b = le_bytes 8 (int p + base)" and "get_at p (length d) b = d"
    and "cstr_bytes c = Some d" and "text_ok d" and "0 \<le> int p + base" and "int p + base < 2 ^ 63"
  shows "string_at base b (int at) = c"
proof -
  from assms(3,4) obtain z where z: "c = CStr z" "d = str_bytes z @ [0]" "0 \<notin> set (str_bytes z)"
    by (auto simp: cstr_bytes_def text_ok_def split: cstr.splits)
  have "drop p b = d @ drop (length d) (drop p b)"
    using assms(2) by (metis append_take_drop_id get_at_def)
  then obtain r where r: "drop p b = str_bytes z @ 0 # r" using z(2) by simp
  have "map (\<lambda>b. char_of (unat b)) (str_bytes z) = z"
    by (simp add: str_bytes_def o_def unat_of_nat)
  moreover have "takeWhile (\<lambda>b. b \<noteq> 0) (str_bytes z @ 0 # r) = str_bytes z" using z(3) by (simp add: takeWhile_tail) (metis takeWhile_eq_all_conv)
  moreover have "le_signed (get_at at 8 b) - base = int p" using assms(1,5,6) by (simp add: le_signed_8)
  ultimately show ?thesis using r z(1) by (simp add: string_at_def Let_def)
qed

subsection \<open>The round trip\<close>

fun mmi_ok :: "mmi_object \<Rightarrow> bool" where
  "mmi_ok MmiNone \<longleftrightarrow> True"
| "mmi_ok (MmiEnq _ t) \<longleftrightarrow> cstr_ok t"
| "mmi_ok (MmiAnsw _ t) \<longleftrightarrow> cstr_ok t"
| "mmi_ok (MmiMenu a b c cs) \<longleftrightarrow> cs \<noteq> [] \<and> length cs < 2 ^ 31 \<and> list_all cstr_ok (a # b # c # cs)"
| "mmi_ok (MmiList a b c cs) \<longleftrightarrow> cs \<noteq> [] \<and> length cs < 2 ^ 31 \<and> list_all cstr_ok (a # b # c # cs)"
| "mmi_ok (MmiMenuAnsw n) \<longleftrightarrow> - (2 ^ 31) \<le> n \<and> n < 2 ^ 31"
| "mmi_ok (MmiOther t) \<longleftrightarrow> - (2 ^ 31) \<le> t \<and> t < 2 ^ 31 \<and> t \<notin> {0, 1, 2, 3, 4, 5}"

text \<open>The numbers of the struct.\<close>

definition struct_holds :: "mmi_object \<Rightarrow> bytes \<Rightarrow> bool" where
  "struct_holds m b \<longleftrightarrow> le_signed (get_at AT_TYPE 4 b) = mmi_type m
     \<and> (case m of
          MmiEnq blind _ \<Rightarrow> le_signed (get_at AT_NUMBER 4 b) = (if blind then 1 else 0)
        | MmiAnsw ok _ \<Rightarrow> le_signed (get_at AT_NUMBER 4 b) = (if ok then 1 else 0)
        | MmiMenu _ _ _ cs \<Rightarrow> le_signed (get_at AT_COUNT 4 b) = int (length cs)
        | MmiList _ _ _ cs \<Rightarrow> le_signed (get_at AT_COUNT 4 b) = int (length cs)
        | MmiMenuAnsw n \<Rightarrow> le_signed (get_at AT_NUMBER 4 b) = n
        | _ \<Rightarrow> True)"

lemma struct_holds_agree:
  assumes "struct_holds m b" and "agree D b c"
    and "D \<inter> {0..<4} = {}" and "D \<inter> {40..<44} = {}" and "(\<forall>a b c cs. m \<noteq> MmiMenu a b c cs \<and> m \<noteq> MmiList a b c cs) \<longrightarrow> D \<inter> {8..<12} = {}"
  shows "struct_holds m c"
proof -
  have "get_at 0 4 c = get_at 0 4 b" "get_at 40 4 c = get_at 40 4 b"
    using assms(3,4) by (intro get_agree [OF assms(2)]; auto)+
  moreover have "get_at 8 4 c = get_at 8 4 b" if "D \<inter> {8..<12} = {}"
    using that by (intro get_agree [OF assms(2)]) auto
  ultimately show ?thesis using assms(1,5) by (cases m) (auto simp: struct_holds_def mmi_places)
qed

lemma get_put_other:
  "off + length bs \<le> length b \<Longrightarrow> off' + n \<le> off \<or> off + length bs \<le> off' \<Longrightarrow> get_at off' n (put_at off bs b) = get_at off' n b"
  by (rule get_agree [OF put_agree]) auto

lemma mmi_struct_spec:
  assumes "mmi_ok m" and "length raw = 48"
  shows "length (mmi_struct raw m) = 48 \<and> struct_holds m (mmi_struct raw m)"
proof -
  note eval = struct_holds_def mmi_struct_def Let_def mmi_places length_put get_put_le get_put_other le_signed_4
  show ?thesis using assms by (cases m) (auto simp: eval)
qed

lemma struct_copied:
  assumes s: "length (mmi_struct raw m) = 48" "struct_holds m (mmi_struct raw m)" and "48 \<le> length b"
  shows "length (put_at 0 (mmi_struct raw m) b) = length b \<and> struct_holds m (put_at 0 (mmi_struct raw m) b)"
proof -
  have "get_at off n (put_at 0 (mmi_struct raw m) b) = get_at off n (mmi_struct raw m)" if "off + n \<le> 48" for off n
    using that s(1) by (auto simp: get_at_def put_at_def)
  then show ?thesis using s assms(3) by (auto simp: struct_holds_def mmi_places length_put split: mmi_object.splits)
qed

lemma struct_placed:
  assumes "mmi_ok m" and "length raw = 48" and "48 \<le> length b"
  shows "length (put_at 0 (mmi_struct raw m) b) = length b \<and> struct_holds m (put_at 0 (mmi_struct raw m) b)"
  using struct_copied mmi_struct_spec [OF assms(1,2)] assms(3) by blast

text \<open>Texts behind the places that lead to them are checked one by one, and stay where they are.\<close>

lemma check_texts:
  assumes "\<And>at d. (at, d) \<in> set ads \<Longrightarrow> leads b at (p at) d \<and> at + 8 \<le> len \<and> len \<le> p at \<and> p at + length d \<le> n"
    and "distinct (map fst ads)"
    and "\<And>at at'. at \<in> fst ` set ads \<Longrightarrow> at' \<in> fst ` set ads \<Longrightarrow> at \<noteq> at' \<Longrightarrow> slot at \<inter> slot at' = {}"
  shows "\<exists>c. check_members base (int n) (map (\<lambda>(at, _). int at) ads) b = Some (Some c)
    \<and> agree (\<Union>at\<in>fst ` set ads. slot at) b c
    \<and> (\<forall>(at, d)\<in>set ads. get_at at 8 c = le_bytes 8 (int (p at) + base) \<and> get_at (p at) (length d) c = d)"
proof -
  define dd where "dd = (\<lambda>at. the (map_of ads at))"
  have dd: "dd at = d" if "(at, d) \<in> set ads" for at d using that assms(2) by (simp add: dd_def map_of_is_SomeI)
  have l: "leads b at (p at) (dd at) \<and> at + 8 \<le> len \<and> len \<le> p at \<and> p at + length (dd at) \<le> n"
    if "at \<in> set (map fst ads)" for at
    using that assms(1) dd by force
  have clear: "{p at..<p at + length (dd at)} \<inter> slot at' = {}" if "at \<in> set (map fst ads)" "at' \<in> set (map fst ads)" for at at'
    using l [OF that(1)] l [OF that(2)] by (auto simp: slot_def)
  have "\<exists>c. check_members base (int n) (map int (map fst ads)) b = Some (Some c)
    \<and> agree (\<Union>at\<in>set (map fst ads). slot at) b c
    \<and> (\<forall>at\<in>set (map fst ads). get_at at 8 c = le_bytes 8 (int (p at) + base))"
    by (rule check_members_ok [where d = dd]) (use l clear assms(2,3) in auto)
  then obtain c where c: "check_members base (int n) (map int (map fst ads)) b = Some (Some c)"
    "agree (\<Union>at\<in>set (map fst ads). slot at) b c"
    "\<forall>at\<in>set (map fst ads). get_at at 8 c = le_bytes 8 (int (p at) + base)" by blast
  have "get_at at 8 c = le_bytes 8 (int (p at) + base) \<and> get_at (p at) (length d) c = d" if "(at, d) \<in> set ads" for at d
  proof -
    have at: "at \<in> set (map fst ads)" using that by force
    have "get_at (p at) (length d) c = get_at (p at) (length d) b"
      using clear [OF at] dd [OF that] by (intro get_agree [OF c(2)]) blast
    with l [OF at] dd [OF that] bspec [OF c(3) at] show ?thesis by (simp add: leads_def)
  qed
  then have "\<forall>(at, d)\<in>set ads. get_at at 8 c = le_bytes 8 (int (p at) + base) \<and> get_at (p at) (length d) c = d" by blast
  moreover have "check_members base (int n) (map (\<lambda>(at, _). int at) ads) b = Some (Some c)"
    using c(1) by (simp add: case_prod_unfold o_def)
  moreover have "agree (\<Union>at\<in>fst ` set ads. slot at) b c" using c(2) by simp
  ultimately show ?thesis by blast
qed

lemma text_roundtrip:
  assumes "store_member lim AT_TEXT d (b0, 48) = Some (b, n)" and "lim \<le> length b0" and "lim < 2 ^ 62" and "48 \<le> lim"
    and "cstr_bytes t = Some d" and "text_ok d" and "struct_holds m b0" and "\<forall>a b c cs. m \<noteq> MmiMenu a b c cs \<and> m \<noteq> MmiList a b c cs"
    and "0 \<le> base" and "base + int lim < 2 ^ 63"
  shows "\<exists>c. check_members base (int n) [int AT_TEXT] b = Some (Some c) \<and> struct_holds m c \<and> string_at base c (int AT_TEXT) = t"
proof -
  have st: "ofold (\<lambda>(at, d). store_member lim at d) [(AT_TEXT, d)] (b0, 48) = Some (b, n)" using assms(1) by simp
  from store_all_spec [OF st assms(2,3)] assms(4,6) obtain p where
    a: "n \<le> lim" "agree (slot AT_TEXT \<union> {48..<n}) b0 b" "leads b AT_TEXT (p AT_TEXT) d" "48 \<le> p AT_TEXT" "p AT_TEXT + length d \<le> n"
    by (auto simp: AT_TEXT_def)
  from check_texts [of "[(AT_TEXT, d)]" b p 48 n base] a obtain c where
    c: "check_members base (int n) [int AT_TEXT] b = Some (Some c)" "agree (slot AT_TEXT) b c"
    "get_at AT_TEXT 8 c = le_bytes 8 (int (p AT_TEXT) + base)" "get_at (p AT_TEXT) (length d) c = d"
    by (auto simp: AT_TEXT_def)
  have "struct_holds m c"
    by (rule struct_holds_agree [OF assms(7) agree_trans [OF a(2) c(2)]]) (auto simp: slot_def AT_TEXT_def)
  moreover have "string_at base c (int AT_TEXT) = t"
    using string_at_leads [OF c(3,4) assms(5,6)] assms(9,10) a(1,5) by simp
  ultimately show ?thesis using c(1) by blast
qed

lemma enumerate_map: "enumerate 0 xs = map (\<lambda>i. (i, xs ! i)) [0..<length xs]"
  by (rule nth_equalityI) (simp_all add: nth_enumerate_eq)

lemma ofold_choices:
  "ofold (\<lambda>(i, c). store_member lim (at + 8 * i) c) (enumerate 0 cs) s
    = ofold (\<lambda>(at, d). store_member lim at d) (map (\<lambda>i. (at + 8 * i, cs ! i)) [0..<length cs]) s"
  by (simp add: enumerate_map ofold_map)

lemma those_texts:
  assumes "list_all cstr_ok cs"
  shows "\<exists>ds. those (map cstr_bytes cs) = Some ds \<and> length ds = length cs
    \<and> (\<forall>i<length cs. cstr_bytes (cs ! i) = Some (ds ! i) \<and> text_ok (ds ! i))"
  using assms
proof (induction cs)
  case (Cons c cs)
  then obtain ds where "those (map cstr_bytes cs) = Some ds" "length ds = length cs"
    "\<forall>i<length cs. cstr_bytes (cs ! i) = Some (ds ! i) \<and> text_ok (ds ! i)" by auto
  moreover from Cons.prems obtain d where "cstr_bytes c = Some d" "text_ok d" using cstr_bytes_ok [of c] by auto
  ultimately show ?case by (auto simp: nth_Cons split: nat.splits)
qed simp

text \<open>A menu in memory: the three texts up to \<open>n1\<close>, the table of choices at \<open>T\<close>, the choices behind it.\<close>

definition title_slots :: "bytes \<Rightarrow> bytes \<Rightarrow> bytes \<Rightarrow> (nat \<times> bytes) list" where
  "title_slots dx dy dz = [(AT_TITLE, dx), (AT_SUBTITLE, dy), (AT_BOTTOM, dz)]"

definition choice_slots :: "nat \<Rightarrow> bytes list \<Rightarrow> (nat \<times> bytes) list" where
  "choice_slots T ds = map (\<lambda>i. (T + 8 * i, ds ! i)) [0..<length ds]"

definition flat_menu :: "bytes \<Rightarrow> bytes \<Rightarrow> bytes \<Rightarrow> bytes list \<Rightarrow> nat \<Rightarrow> nat \<Rightarrow> nat \<Rightarrow> bytes \<Rightarrow> bool" where
  "flat_menu dx dy dz ds n1 T n b \<longleftrightarrow> 48 \<le> n1 \<and> n1 \<le> T \<and> T + 8 * length ds \<le> n \<and> n \<le> length b \<and> n < 2 ^ 62
     \<and> (ds = [] \<longrightarrow> n = T) \<and> get_at AT_CHOICES 8 b = le_bytes 8 (int T)
     \<and> (\<exists>p. \<forall>(at, d)\<in>set (title_slots dx dy dz). leads b at (p at) d \<and> 48 \<le> p at \<and> p at + length d \<le> n1)
     \<and> (\<exists>q. \<forall>(at, d)\<in>set (choice_slots T ds). leads b at (q at) d \<and> T + 8 * length ds \<le> q at \<and> q at + length d \<le> n)"

lemma title_slots_facts:
  "(at, d) \<in> set (title_slots dx dy dz) \<Longrightarrow> 8 \<le> at \<and> at + 8 \<le> 32" "distinct (map fst (title_slots dx dy dz))"
  "at \<in> fst ` set (title_slots dx dy dz) \<Longrightarrow> at' \<in> fst ` set (title_slots dx dy dz) \<Longrightarrow> at \<noteq> at' \<Longrightarrow> slot at \<inter> slot at' = {}"
  "(\<Union>at\<in>fst ` set (title_slots dx dy dz). slot at) = {8..<32}"
  by (auto simp: title_slots_def slot_def mmi_places)

lemma choice_slots_facts:
  "(at, d) \<in> set (choice_slots T ds) \<Longrightarrow> T \<le> at \<and> at + 8 \<le> T + 8 * length ds" "distinct (map fst (choice_slots T ds))"
  "at \<in> fst ` set (choice_slots T ds) \<Longrightarrow> at' \<in> fst ` set (choice_slots T ds) \<Longrightarrow> at \<noteq> at' \<Longrightarrow> slot at \<inter> slot at' = {}"
  "(\<Union>at\<in>fst ` set (choice_slots T ds). slot at) \<subseteq> {T..<T + 8 * length ds}"
  by (auto simp: choice_slots_def slot_def o_def distinct_map inj_on_def)

lemma leads_all_agree:
  assumes "\<forall>(at, d)\<in>set ads. leads b at (p at) d \<and> l \<le> p at \<and> p at + length d \<le> n" and "agree D b c"
    and "D \<inter> (\<Union>at\<in>fst ` set ads. slot at) = {}" and "D \<inter> {l..<n} = {}"
  shows "\<forall>(at, d)\<in>set ads. leads c at (p at) d \<and> l \<le> p at \<and> p at + length d \<le> n"
proof clarify
  fix at d assume "(at, d) \<in> set ads"
  then have l: "leads b at (p at) d" "l \<le> p at" "p at + length d \<le> n" "at \<in> fst ` set ads" using assms(1) by force+
  then have "slot at \<inter> D = {}" "{p at..<p at + length d} \<inter> D = {}" using assms(3,4) by auto
  with leads_agree [OF l(1) assms(2)] l show "leads c at (p at) d \<and> l \<le> p at \<and> p at + length d \<le> n" by blast
qed

lemma menu_stored:
  assumes st: "store_menu lim table x y z cs (b0, 48) = Some (Some (b, n))"
    and cs: "those (map cstr_bytes cs) = Some ds" "\<forall>d\<in>set ds. text_ok d"
    and d: "cstr_bytes x = Some dx" "text_ok dx" "cstr_bytes y = Some dy" "text_ok dy" "cstr_bytes z = Some dz" "text_ok dz"
    and room: "lim \<le> length b0" "lim < 2 ^ 62" "48 \<le> lim"
  shows "\<exists>n1 T. flat_menu dx dy dz ds n1 T n b \<and> n \<le> lim \<and> agree ({8..<40} \<union> {48..<n}) b0 b"
proof -
  from st cs d obtain b1 n1 where tab: "length table = 8 * length ds"
    and 1: "ofold (\<lambda>(at, d). store_member lim at d) (title_slots dx dy dz) (b0, 48) = Some (b1, n1)"
    and 2: "store_choices lim table ds (b1, n1) = Some (b, n)"
    by (auto simp: store_menu_def title_slots_def bind_eq_Some_conv)
  define T where "T = (n1 + 7) div 8 * 8"
  from 2 obtain b2 n2 where 3: "store_member lim AT_CHOICES table (b1, T) = Some (b2, n2)"
    and 4: "ofold (\<lambda>(at, d). store_member lim at d) (choice_slots T ds) (b2, n2) = Some (b, n)"
    by (auto simp: store_choices_def choice_slots_def align8_def Let_def T_def bind_eq_Some_conv ofold_choices)
  have a0: "at + 8 \<le> 48 \<and> text_ok dd" if "(at, dd) \<in> set (title_slots dx dy dz)" for at dd
    using that d by (auto simp: title_slots_def mmi_places)
  from store_all_spec [OF 1 room(1,2) a0 room(3) title_slots_facts(2,3) [where dx = dx and dy = dy and dz = dz]] title_slots_facts(4) obtain p where
    s1: "48 \<le> n1" "n1 \<le> lim" "agree ({8..<32} \<union> {48..<n1}) b0 b1"
    "\<forall>(at, d)\<in>set (title_slots dx dy dz). leads b1 at (p at) d \<and> 48 \<le> p at \<and> p at + length d \<le> n1" by auto
  have T: "n1 \<le> T" unfolding T_def by linarith
  have l1: "length b1 = length b0" using s1(3) by (rule agree_length)
  from store_member_spec [OF 3] T s1(1) room(1) l1 tab have
    s2: "n2 = T + 8 * length ds" "n2 \<le> lim" "agree (slot AT_CHOICES \<union> {T..<n2}) b1 b2" "get_at AT_CHOICES 8 b2 = le_bytes 8 (int T)"
    by (auto simp: AT_CHOICES_def)
  have room2: "lim \<le> length b2" using s2(3) l1 room(1) by (simp add: agree_length)
  have c0: "at + 8 \<le> n2 \<and> text_ok dd" if "(at, dd) \<in> set (choice_slots T ds)" for at dd
    using that cs(2) choice_slots_facts(1) [OF that] by (auto simp: s2(1) choice_slots_def)
  from store_all_spec [OF 4 room2 room(2) c0 s2(2) choice_slots_facts(2,3) [where T = T and ds = ds]] obtain q where
    s3: "n2 \<le> n" "n \<le> lim" "agree ((\<Union>at\<in>fst ` set (choice_slots T ds). slot at) \<union> {n2..<n}) b2 b"
    "\<forall>(at, d)\<in>set (choice_slots T ds). leads b at (q at) d \<and> n2 \<le> q at \<and> q at + length d \<le> n" by auto
  have ag3: "agree {T..<n} b2 b" using s3(3) by (rule agree_mono) (use choice_slots_facts(4) [of T ds] s2(1) s3(1) in auto)
  have ag: "agree (slot AT_CHOICES \<union> {T..<n}) b1 b" using agree_trans [OF s2(3) ag3] by (rule agree_mono) (use s3(1) in auto)
  have "\<forall>(at, d)\<in>set (title_slots dx dy dz). leads b at (p at) d \<and> 48 \<le> p at \<and> p at + length d \<le> n1"
    by (rule leads_all_agree [OF s1(4) ag])
      (use T s1(1) title_slots_facts(4) [of dx dy dz] in \<open>auto simp: slot_def AT_CHOICES_def\<close>)
  moreover have "get_at AT_CHOICES 8 b = le_bytes 8 (int T)"
    using get_agree [OF ag3, of AT_CHOICES 8] T s1(1) s2(4) by (simp add: AT_CHOICES_def)
  moreover have "length b = length b2" using ag3 by (rule agree_length)
  moreover have "ds = [] \<longrightarrow> n = T" using 4 s2(1) by (auto simp: choice_slots_def)
  ultimately have "flat_menu dx dy dz ds n1 T n b"
    unfolding flat_menu_def using s1(1) s2(1) s3 T room(2) room2 by auto
  moreover have "agree ({8..<40} \<union> {48..<n}) b0 b"
    using agree_trans [OF s1(3) ag] by (rule agree_mono) (use T s1(1) s2(1) s3(1) in \<open>auto simp: slot_def AT_CHOICES_def\<close>)
  ultimately show ?thesis using s3(2) by blast
qed

text \<open>The reader's first half: the three texts and the place of the table.\<close>

lemma titles_checked:
  assumes f: "flat_menu dx dy dz ds n1 T n b" and d: "cstr_bytes x = Some dx" "cstr_bytes y = Some dy" "cstr_bytes z = Some dz"
    and base: "0 \<le> base" "base + int n < 2 ^ 63"
  shows "\<exists>c. check_members base (int n) [int AT_TITLE, int AT_SUBTITLE, int AT_BOTTOM] b = Some (Some c) \<and> agree {8..<32} b c
    \<and> read_pointer (int AT_CHOICES) c = Some (int T)
    \<and> (\<forall>e. agree ({32..<40} \<union> {n1..<n}) c e \<longrightarrow> string_at base e (int AT_TITLE) = x
        \<and> string_at base e (int AT_SUBTITLE) = y \<and> string_at base e (int AT_BOTTOM) = z)"
proof -
  from f obtain p where p: "\<forall>(at, d)\<in>set (title_slots dx dy dz). leads b at (p at) d \<and> 48 \<le> p at \<and> p at + length d \<le> n1"
    and n1: "48 \<le> n1" "n1 \<le> T" "n1 \<le> n" "T < 2 ^ 62" "n \<le> length b" "get_at AT_CHOICES 8 b = le_bytes 8 (int T)"
    by (auto simp: flat_menu_def)
  have l: "leads b at (p at) dd \<and> at + 8 \<le> 48 \<and> 48 \<le> p at \<and> p at + length dd \<le> n" if "(at, dd) \<in> set (title_slots dx dy dz)" for at dd
    using that p title_slots_facts(1) [OF that] n1(3) by fastforce
  from check_texts [where base = base, OF l title_slots_facts(2,3) [where dx = dx and dy = dy and dz = dz]] title_slots_facts(4) [of dx dy dz] obtain c where
    c: "check_members base (int n) (map (\<lambda>(at, _). int at) (title_slots dx dy dz)) b = Some (Some c)" "agree {8..<32} b c"
    "\<forall>(at, d)\<in>set (title_slots dx dy dz). get_at at 8 c = le_bytes 8 (int (p at) + base) \<and> get_at (p at) (length d) c = d" by auto
  have "get_at AT_CHOICES 8 c = le_bytes 8 (int T)"
    using get_agree [OF c(2), of AT_CHOICES 8] n1(6) by (simp add: AT_CHOICES_def)
  then have ptr: "read_pointer (int AT_CHOICES) c = Some (int T)"
    using n1 agree_length [OF c(2)] by (simp add: read_pointer_def AT_CHOICES_def le_signed_8)
  have str: "string_at base e (int at) = t" if e: "agree ({32..<40} \<union> {n1..<n}) c e" and at: "(at, dd) \<in> set (title_slots dx dy dz)"
    and t: "cstr_bytes t = Some dd" for e at dd t
  proof -
    have r: "get_at at 8 c = le_bytes 8 (int (p at) + base)" "get_at (p at) (length dd) c = dd" "48 \<le> p at" "p at + length dd \<le> n1"
      using c(3) p at by auto
    have "get_at at 8 e = get_at at 8 c"
      using title_slots_facts(1) [OF at] n1(1) by (intro get_agree [OF e]) auto
    moreover have "get_at (p at) (length dd) e = get_at (p at) (length dd) c" using r(3,4) by (intro get_agree [OF e]) auto
    moreover have "text_ok dd" using p at by (auto simp: leads_def)
    ultimately show ?thesis using r t n1(3) base by (intro string_at_leads [of at e "p at" base dd t]) auto
  qed
  have "string_at base e (int AT_TITLE) = x \<and> string_at base e (int AT_SUBTITLE) = y \<and> string_at base e (int AT_BOTTOM) = z"
    if "agree ({32..<40} \<union> {n1..<n}) c e" for e
    using str [OF that, of AT_TITLE dx x] str [OF that, of AT_SUBTITLE dy y] str [OF that, of AT_BOTTOM dz z] d
    by (simp add: title_slots_def)
  moreover have "check_members base (int n) [int AT_TITLE, int AT_SUBTITLE, int AT_BOTTOM] b = Some (Some c)"
    using c(1) by (simp add: title_slots_def)
  ultimately show ?thesis using c(2) ptr by blast
qed

text \<open>And the second: the choices, which the table has to stand before.\<close>

lemma choices_checked:
  assumes f: "flat_menu dx dy dz ds n1 T n b" and ag: "agree {8..<32} b c" and ptr: "read_pointer (int AT_CHOICES) c = Some (int T)"
    and cnt: "le_signed (get_at AT_COUNT 4 c) = int (length ds)" and ne: "ds \<noteq> []"
    and cs: "length cs = length ds" "\<forall>i<length cs. cstr_bytes (cs ! i) = Some (ds ! i)" and base: "0 \<le> base" "base + int n < 2 ^ 63"
  shows "\<exists>e. check_choices base (int n) c = Some (Some e) \<and> agree ({32..<40} \<union> {T..<T + 8 * length ds}) c e
    \<and> le_signed (get_at AT_CHOICES 8 e) = int T + base
    \<and> map (\<lambda>j. string_at base e (int T + 8 * int j)) [0..<length cs] = cs"
proof -
  let ?n2 = "T + 8 * length ds"
  from f obtain q where q: "\<forall>(at, d)\<in>set (choice_slots T ds). leads b at (q at) d \<and> ?n2 \<le> q at \<and> q at + length d \<le> n"
    and n1: "48 \<le> T" "?n2 \<le> n" "n < 2 ^ 62" "n \<le> length b" by (auto simp: flat_menu_def)
  have "?n2 < n" using q ne by (force simp: choice_slots_def leads_def text_ok_def)
  then have te: "table_end (int T) (int (length ds)) = int T + int (length ds) * 8" "int T + int (length ds) * 8 < int n"
    using n1(3) by (auto simp: table_end_def Let_def)
  define e0 where "e0 = put_at AT_CHOICES (le_bytes 8 (int T + base)) c"
  have e0: "agree {32..<40} c e0" "get_at AT_CHOICES 8 e0 = le_bytes 8 (int T + base)"
    using n1 agree_length [OF ag] put_agree [of AT_CHOICES "le_bytes 8 (int T + base)" c]
    by (simp_all add: e0_def AT_CHOICES_def get_put_le)
  have be: "agree {8..<40} b e0" using agree_trans [OF ag e0(1)] by (rule agree_mono) auto
  have "\<forall>(at, d)\<in>set (choice_slots T ds). leads e0 at (q at) d \<and> ?n2 \<le> q at \<and> q at + length d \<le> n"
    by (rule leads_all_agree [OF q be]) (use choice_slots_facts(4) [of T ds] n1(1) in auto)
  then have l: "leads e0 at (q at) dd \<and> at + 8 \<le> ?n2 \<and> ?n2 \<le> q at \<and> q at + length dd \<le> n" if "(at, dd) \<in> set (choice_slots T ds)" for at dd
    using that choice_slots_facts(1) [OF that] by blast
  from check_texts [where base = base, OF l choice_slots_facts(2,3) [where T = T and ds = ds]] obtain e where
    e: "check_members base (int n) (map (\<lambda>(at, _). int at) (choice_slots T ds)) e0 = Some (Some e)"
    "agree (\<Union>at\<in>fst ` set (choice_slots T ds). slot at) e0 e"
    "\<forall>(at, d)\<in>set (choice_slots T ds). get_at at 8 e = le_bytes 8 (int (q at) + base) \<and> get_at (q at) (length d) e = d" by blast
  have "check_members base (int n) (map (\<lambda>j. int T + 8 * int j) [0..<length ds]) e0 = Some (Some e)"
    using e(1) by (simp add: choice_slots_def o_def)
  then have "check_choices base (int n) c = Some (Some e)" using ptr cnt te by (simp add: check_choices_def e0_def Let_def)
  moreover have ag2: "agree {T..<?n2} e0 e" using e(2) choice_slots_facts(4) by (rule agree_mono)
  moreover have "string_at base e (int (T + 8 * j)) = cs ! j" if "j < length cs" for j
  proof -
    have m: "(T + 8 * j, ds ! j) \<in> set (choice_slots T ds)" using that cs(1) by (auto simp: choice_slots_def)
    show ?thesis by (rule string_at_leads) (use bspec [OF e(3) m] l [OF m] that cs(2) base in \<open>auto simp: leads_def\<close>)
  qed
  moreover have "le_signed (get_at AT_CHOICES 8 e) = int T + base"
    using get_agree [OF ag2, of AT_CHOICES 8] e0(2) n1 base by (simp add: AT_CHOICES_def le_signed_8)
  ultimately show ?thesis using agree_trans [OF e0(1) ag2] by (intro exI [of _ e]) (auto intro: nth_equalityI)
qed

lemma menu_roundtrip:
  assumes m: "m = MmiMenu x y z cs \<or> m = MmiList x y z cs" and ok: "mmi_ok m" and holds: "struct_holds m b0"
    and st: "store_menu lim table x y z cs (b0, 48) = Some (Some (b, n))"
    and room: "lim \<le> length b0" "lim < 2 ^ 62" "48 \<le> lim" and base: "0 \<le> base" "base + int lim < 2 ^ 63"
  shows "n \<le> lim \<and> (\<exists>c. en50221_UnserializeMMIObject base (int n) b = Some (Some c) \<and> mmi_view base c = m)"
proof -
  from m ok have oks: "cstr_ok x" "cstr_ok y" "cstr_ok z" "list_all cstr_ok cs" "cs \<noteq> []" by auto
  from cstr_bytes_ok [OF oks(1)] cstr_bytes_ok [OF oks(2)] cstr_bytes_ok [OF oks(3)] obtain dx dy dz where
    d: "cstr_bytes x = Some dx" "text_ok dx" "cstr_bytes y = Some dy" "text_ok dy" "cstr_bytes z = Some dz" "text_ok dz" by blast
  from those_texts [OF oks(4)] obtain ds where ds: "those (map cstr_bytes cs) = Some ds" "length ds = length cs"
    "\<forall>i<length cs. cstr_bytes (cs ! i) = Some (ds ! i) \<and> text_ok (ds ! i)" by blast
  then have dok: "\<forall>d\<in>set ds. text_ok d" by (auto simp: in_set_conv_nth)
  from menu_stored [OF st ds(1) dok d room] obtain n1 T where
    f: "flat_menu dx dy dz ds n1 T n b" and n: "n \<le> lim" and ag: "agree ({8..<40} \<union> {48..<n}) b0 b" by blast
  have base': "base + int n < 2 ^ 63" using base n by linarith
  from titles_checked [OF f d(1,3,5) base(1) base'] obtain c where
    c: "check_members base (int n) [int AT_TITLE, int AT_SUBTITLE, int AT_BOTTOM] b = Some (Some c)" "agree {8..<32} b c"
    "read_pointer (int AT_CHOICES) c = Some (int T)"
    "\<And>e. agree ({32..<40} \<union> {n1..<n}) c e \<Longrightarrow> string_at base e (int AT_TITLE) = x
        \<and> string_at base e (int AT_SUBTITLE) = y \<and> string_at base e (int AT_BOTTOM) = z" by blast
  have hb: "struct_holds m b" by (rule struct_holds_agree [OF holds ag]) (use m in auto)
  have hc: "struct_holds m c" by (rule struct_holds_agree [OF hb c(2)]) (use m in auto)
  have cnt: "le_signed (get_at AT_COUNT 4 c) = int (length ds)" using hc m ds(2) by (auto simp: struct_holds_def)
  have ne: "ds \<noteq> []" using oks(5) ds(2) by auto
  from choices_checked [OF f c(2,3) cnt ne ds(2) [symmetric] _ base(1) base'] ds(3) obtain e where
    e: "check_choices base (int n) c = Some (Some e)" "agree ({32..<40} \<union> {T..<T + 8 * length ds}) c e"
    "le_signed (get_at AT_CHOICES 8 e) = int T + base"
    "map (\<lambda>j. string_at base e (int T + 8 * int j)) [0..<length cs] = cs" by auto
  from f have T: "48 \<le> n1" "n1 \<le> T" "T + 8 * length ds \<le> n" by (auto simp: flat_menu_def)
  have "agree ({32..<40} \<union> {n1..<n}) c e" using e(2) by (rule agree_mono) (use T in auto)
  note titles = c(4) [OF this]
  have he: "struct_holds m e" by (rule struct_holds_agree [OF hc e(2)]) (use m T in auto)
  have "mmi_view base e = m" using m he titles e(3,4) by (auto simp: mmi_view_def Let_def struct_holds_def)
  moreover have "en50221_UnserializeMMIObject base (int n) b = Some (Some e)"
    using m hb c(1) e(1) by (auto simp: en50221_UnserializeMMIObject_def Let_def struct_holds_def)
  ultimately show ?thesis using n by blast
qed


lemma serialized:
  assumes "map_option (map_option snd) (en50221_SerializeMMIObject raw table lim m b0) = Some (Some n)"
  shows "\<exists>b. en50221_SerializeMMIObject raw table lim m b0 = Some (Some (b, n))"
  using assms by auto


text \<open>A menu without choices is refused by the reader of its own flat form: its table is empty and ends
  where the data ends, and the check of the table's end asks for more to follow.\<close>

theorem Mmi_empty_menu_refused:
  assumes "en50221_SerializeMMIObject raw table lim (MmiMenu x y z []) b0 = Some (Some (b, n))" and "length raw = 48"
    and "list_all cstr_ok [x, y, z]" and "lim < 2 ^ 62" and "0 \<le> base" and "base + int lim < 2 ^ 63"
  shows "en50221_UnserializeMMIObject base (int n) b = Some None"
proof -
  let ?m = "MmiMenu x y z []" and ?b = "put_at 0 (mmi_struct raw (MmiMenu x y z [])) b0"
  from assms(1) have lim: "48 \<le> lim" "lim \<le> length b0"
    by (auto simp: en50221_SerializeMMIObject_def MMI_OBJECT_SIZE_def split: if_splits)
  have sl: "length (mmi_struct raw ?m) = 48" "struct_holds ?m (mmi_struct raw ?m)"
    using assms(2) by (simp_all add: struct_holds_def mmi_struct_def Let_def mmi_places length_put get_put_le get_put_other le_signed_4)
  then have b: "length ?b = length b0" "struct_holds ?m ?b" using struct_copied [OF sl, of b0] lim by auto
  have lim': "lim \<le> length ?b" using lim b(1) by simp
  have st: "store_menu lim table x y z [] (?b, 48) = Some (Some (b, n))"
    using assms(1) lim by (simp add: en50221_SerializeMMIObject_def MMI_OBJECT_SIZE_def Let_def)
  from assms(3) have oks: "cstr_ok x" "cstr_ok y" "cstr_ok z" by simp_all
  from cstr_bytes_ok [OF oks(1)] cstr_bytes_ok [OF oks(2)] cstr_bytes_ok [OF oks(3)] obtain dx dy dz where
    d: "cstr_bytes x = Some dx" "text_ok dx" "cstr_bytes y = Some dy" "text_ok dy" "cstr_bytes z = Some dz" "text_ok dz" by blast
  from menu_stored [OF st _ _ d lim' assms(4) lim(1), of "[]"] obtain n1 T where
    f: "flat_menu dx dy dz [] n1 T n b" and n: "n \<le> lim" and ag: "agree ({8..<40} \<union> {48..<n}) ?b b" by auto
  from titles_checked [OF f d(1,3,5) assms(5)] assms(6) n obtain c where
    c: "check_members base (int n) [int AT_TITLE, int AT_SUBTITLE, int AT_BOTTOM] b = Some (Some c)" "agree {8..<32} b c"
    "read_pointer (int AT_CHOICES) c = Some (int T)" by fastforce
  have hb: "struct_holds ?m b" by (rule struct_holds_agree [OF b(2) ag]) auto
  have hc: "struct_holds ?m c" by (rule struct_holds_agree [OF hb c(2)]) auto
  from f have "n = T" "T < 2 ^ 62" by (auto simp: flat_menu_def)
  then have "check_choices base (int n) c = Some None"
    using c(3) hc by (simp add: check_choices_def struct_holds_def table_end_def Let_def)
  then show ?thesis using hb c(1) by (simp add: en50221_UnserializeMMIObject_def Let_def struct_holds_def)
qed

lemma Mmi_empty_menu_refused_witness:
  "\<exists>b. en50221_SerializeMMIObject (replicate 48 0) [] 100 (MmiMenu (CStr ''CAM'') (CStr '''') (CStr '''') []) (replicate 100 0)
      = Some (Some (b, 56)) \<and> en50221_UnserializeMMIObject 4096 56 b = Some None"
proof -
  let ?m = "MmiMenu (CStr ''CAM'') (CStr '''') (CStr '''') []"
  have "map_option (map_option snd) (en50221_SerializeMMIObject (replicate 48 0) [] 100 ?m (replicate 100 0)) = Some (Some 56)"
    by code_simp
  from serialized [OF this] obtain b where
    b: "en50221_SerializeMMIObject (replicate 48 0) [] 100 ?m (replicate 100 0) = Some (Some (b, 56))" by blast
  from b Mmi_empty_menu_refused [OF b _ _ _ _, of 4096] show ?thesis by (auto simp: cstr_ok_def)
qed

text \<open>The reader does not ask whether an offset is negative: an answer whose text is said to lie before the
  object makes it read there, outside the object, however long the message is.\<close>

theorem Mmi_negative_offset:
  assumes "le_signed (get_at AT_TYPE 4 b) = 2" and "le_signed (get_at AT_TEXT 8 b) < 0" and "48 \<le> length b" and "0 \<le> n"
  shows "en50221_UnserializeMMIObject base n b = None"
  using assms
  by (simp add: en50221_UnserializeMMIObject_def check_member_def read_pointer_def AT_TEXT_def scan_string.simps)

lemma Mmi_negative_offset_witness:
  "en50221_UnserializeMMIObject 4096 200 ([2, 0, 0, 0] @ replicate 12 0 @ replicate 8 0xff @ replicate 176 0) = None"
  by (rule Mmi_negative_offset) code_simp+

end
