(* ===== verification/Dvb_Mrtg.thy ===== *)
theory Dvb_Mrtg
  imports Dvb_Blocks
begin

unbundle bit_operations_syntax

text \<open>
  The traffic counters (\<open>cLdvbmrtgcnt.cpp\<close>): packets, broken packets, scrambled packets and breaks
  of the continuity counter, PID by PID, written to a file once a second. Plain \<open>char\<close> is signed
  (x86); the counters are 64 bits wide and taken to be unbounded; the time of day is the argument
  \<open>now\<close>, and what is written to the file is kept in \<open>mrtg_out\<close>, newest last (each report overwrites
  the one before).
\<close>

definition CLDVB_MRTG_INTERVAL :: int where "CLDVB_MRTG_INTERVAL = 1"
definition CLDVB_MRTG_PIDS :: nat where "CLDVB_MRTG_PIDS = 0x2000"

type_synonym timeval = "int \<times> int"

record mrtgcnt =
  mrtg_fh :: bool                    \<comment> \<open>the file is open\<close>
  mrtg_out :: "int list list"
  l_mrtg_packets :: int
  l_mrtg_seq_err_packets :: int
  l_mrtg_error_packets :: int
  l_mrtg_scram_packets :: int
  mrtg_time :: timeval
  i_pid_seq :: "nat \<Rightarrow> int"

definition mrtg_new :: "mrtgcnt \<Rightarrow> mrtgcnt" where
  "mrtg_new s = s\<lparr>mrtg_fh := False, l_mrtg_packets := 0, l_mrtg_seq_err_packets := 0, l_mrtg_error_packets := 0,
     l_mrtg_scram_packets := 0, mrtg_time := (0, 0)\<rparr>"

definition dumpCounts :: "mrtgcnt \<Rightarrow> mrtgcnt" where
  "dumpCounts s =
     (if mrtg_fh s
      then s\<lparr>mrtg_out := mrtg_out s @ [[l_mrtg_packets s * 188 * CLDVB_MRTG_INTERVAL,
             l_mrtg_error_packets s * CLDVB_MRTG_INTERVAL, l_mrtg_seq_err_packets s * CLDVB_MRTG_INTERVAL,
             l_mrtg_scram_packets s * CLDVB_MRTG_INTERVAL]]\<rparr>
      else s)"

subsection \<open>Counting\<close>

definition mrtg_pid :: "bytes \<Rightarrow> nat" where
  "mrtg_pid ts = 256 * unat (ts ! 1 AND 0x1f) + unat (ts ! 2)"

definition mrtg_seq :: "bytes \<Rightarrow> int" where
  "mrtg_seq ts = uint (ts ! 3 AND 0xf)"

definition mrtg_broken :: "bytes \<Rightarrow> bool" where
  "mrtg_broken ts \<longleftrightarrow> ts ! 0 \<noteq> 0x47 \<or> ts ! 1 AND 0x80 \<noteq> 0"

definition seq_break :: "int \<Rightarrow> bytes \<Rightarrow> bool" where
  "seq_break lst ts \<longleftrightarrow> lst \<noteq> -1 \<and>
     (if ts ! 3 AND 0x10 \<noteq> 0 then mrtg_seq ts \<noteq> (lst + 1) mod 16 else mrtg_seq ts \<noteq> lst)"

definition mrtg_packet :: "bytes \<Rightarrow> mrtgcnt \<Rightarrow> mrtgcnt" where
  "mrtg_packet ts s =
     (let s = s\<lparr>l_mrtg_packets := l_mrtg_packets s + 1\<rparr>; pid = mrtg_pid ts in
      if ts ! 0 \<noteq> 0x47 then s\<lparr>l_mrtg_error_packets := l_mrtg_error_packets s + 1\<rparr>
      else if ts ! 1 AND 0x80 \<noteq> 0 then s\<lparr>l_mrtg_error_packets := l_mrtg_error_packets s + 1\<rparr>
      else if pid = 0x1fff then s
      else
        (let s = (if ts ! 3 AND 0xc0 \<noteq> 0 then s\<lparr>l_mrtg_scram_packets := l_mrtg_scram_packets s + 1\<rparr> else s);
             s = (if seq_break (i_pid_seq s pid) ts
                  then s\<lparr>l_mrtg_seq_err_packets := l_mrtg_seq_err_packets s + 1\<rparr> else s)
         in s\<lparr>i_pid_seq := (i_pid_seq s)(pid := mrtg_seq ts)\<rparr>))"

definition later :: "timeval \<Rightarrow> timeval \<Rightarrow> bool" where
  "later a b \<longleftrightarrow> (if fst a = fst b then snd a > snd b else fst a > fst b)"

definition mrtg_report :: "timeval \<Rightarrow> mrtgcnt \<Rightarrow> mrtgcnt" where
  "mrtg_report now s =
     (if later now (mrtg_time s)
      then (let s = dumpCounts s;
                s = (if fst now - fst (mrtg_time s) > CLDVB_MRTG_INTERVAL then s\<lparr>mrtg_time := now\<rparr> else s)
            in s\<lparr>mrtg_time := (fst (mrtg_time s) + CLDVB_MRTG_INTERVAL, snd (mrtg_time s))\<rparr>)
      else s)"

text \<open>A block holds 188 bytes; one that is shorter than the four read here is out of bounds.\<close>

definition mrtgAnalyse :: "timeval \<Rightarrow> bytes list \<Rightarrow> mrtgcnt \<Rightarrow> mrtgcnt option" where
  "mrtgAnalyse now blocks s =
     (if \<not> mrtg_fh s then Some s
      else do {
        s \<leftarrow> ofold (\<lambda>ts s. do { ensure (4 \<le> length ts); Some (mrtg_packet ts s) }) blocks s;
        Some (mrtg_report now s) })"

subsection \<open>Start and stop\<close>

text \<open>\<open>opened\<close>: the file could be opened.\<close>

definition mrtgInit :: "bool \<Rightarrow> timeval \<Rightarrow> string option \<Rightarrow> mrtgcnt \<Rightarrow> int \<times> mrtgcnt" where
  "mrtgInit opened now file s =
     (case file of
        None \<Rightarrow> (-1, s)
      | Some _ \<Rightarrow>
          (if \<not> opened then (-1, s\<lparr>mrtg_fh := False\<rparr>)
           else (0, s\<lparr>mrtg_fh := True, mrtg_out := [[0, 0, 0, 0]],
                     i_pid_seq := (\<lambda>pid. if pid < CLDVB_MRTG_PIDS then -1 else i_pid_seq s pid),
                     mrtg_time := (fst now + CLDVB_MRTG_INTERVAL, snd now)\<rparr>)))"

definition mrtgClose :: "mrtgcnt \<Rightarrow> mrtgcnt" where
  "mrtgClose s = (if mrtg_fh s then (dumpCounts s)\<lparr>mrtg_fh := False\<rparr> else s)"

subsection \<open>What is counted\<close>

text \<open>The breaks in one PID's packets, from the counter of the packet before them.\<close>

fun breaks :: "int \<Rightarrow> bytes list \<Rightarrow> nat" where
  "breaks lst [] = 0"
| "breaks lst (ts # tss) = (if seq_break lst ts then 1 else 0) + breaks (mrtg_seq ts) tss"

definition counted :: "nat \<Rightarrow> bytes list \<Rightarrow> bytes list" where
  "counted pid tss = filter (\<lambda>ts. \<not> mrtg_broken ts \<and> mrtg_pid ts = pid) tss"

lemma mrtg_pid_bound: "mrtg_pid ts < CLDVB_MRTG_PIDS"
proof -
  have "ts ! 1 AND 0x1f = take_bit 5 (ts ! 1)" by (simp add: take_bit_eq_mask mask_eq_decr_exp)
  then have "unat (ts ! 1 AND 0x1f) < 2 ^ 5" using take_bit_nat_less_exp [of 5 "unat (ts ! 1)"] by (simp add: unsigned_take_bit_eq)
  moreover have "unat (ts ! 2) < 256" by (rule unat_byte)
  ultimately show ?thesis by (simp add: mrtg_pid_def CLDVB_MRTG_PIDS_def)
qed

lemma mrtg_packet_counts:
  "l_mrtg_packets (mrtg_packet ts s) = l_mrtg_packets s + 1"
  "l_mrtg_error_packets (mrtg_packet ts s) = l_mrtg_error_packets s + (if mrtg_broken ts then 1 else 0)"
  "l_mrtg_scram_packets (mrtg_packet ts s) = l_mrtg_scram_packets s
     + (if \<not> mrtg_broken ts \<and> mrtg_pid ts \<noteq> 0x1fff \<and> ts ! 3 AND 0xc0 \<noteq> 0 then 1 else 0)"
  "l_mrtg_seq_err_packets (mrtg_packet ts s) = l_mrtg_seq_err_packets s
     + (if \<not> mrtg_broken ts \<and> mrtg_pid ts \<noteq> 0x1fff \<and> seq_break (i_pid_seq s (mrtg_pid ts)) ts then 1 else 0)"
  "i_pid_seq (mrtg_packet ts s) = (if mrtg_broken ts \<or> mrtg_pid ts = 0x1fff then i_pid_seq s
     else (i_pid_seq s)(mrtg_pid ts := mrtg_seq ts))"
  by (simp_all add: mrtg_packet_def mrtg_broken_def Let_def)

lemma breaks_step:
  "(\<Sum>pid<0x1fff. breaks (i_pid_seq s pid) (counted pid (ts # tss)))
   = (if \<not> mrtg_broken ts \<and> mrtg_pid ts \<noteq> 0x1fff \<and> seq_break (i_pid_seq s (mrtg_pid ts)) ts then 1 else 0)
     + (\<Sum>pid<0x1fff. breaks (i_pid_seq (mrtg_packet ts s) pid) (counted pid tss))"
proof (cases "mrtg_broken ts \<or> mrtg_pid ts = 0x1fff")
  case True
  have "(\<Sum>pid<0x1fff. breaks (i_pid_seq s pid) (counted pid (ts # tss)))
      = (\<Sum>pid<0x1fff. breaks (i_pid_seq (mrtg_packet ts s) pid) (counted pid tss))"
    using True by (intro sum.cong) (auto simp: counted_def mrtg_packet_counts)
  with True show ?thesis by auto
next
  case False
  let ?p = "mrtg_pid ts" and ?b = "if seq_break (i_pid_seq s (mrtg_pid ts)) ts then 1 else (0::nat)"
  have p: "?p < 0x1fff" using False mrtg_pid_bound [of ts] by (simp add: CLDVB_MRTG_PIDS_def)
  have "breaks (i_pid_seq s pid) (counted pid (ts # tss)) = (if pid = ?p then ?b else 0)
      + breaks (i_pid_seq (mrtg_packet ts s) pid) (counted pid tss)" for pid
    using False by (auto simp: counted_def mrtg_packet_counts)
  then have "(\<Sum>pid<0x1fff. breaks (i_pid_seq s pid) (counted pid (ts # tss))) = (\<Sum>pid<0x1fff. if pid = ?p then ?b else 0)
      + (\<Sum>pid<0x1fff. breaks (i_pid_seq (mrtg_packet ts s) pid) (counted pid tss))"
    by (simp add: sum.distrib)
  moreover have "(\<Sum>pid<0x1fff. if pid = ?p then ?b else 0) = ?b" using p by (simp add: sum.delta)
  ultimately show ?thesis using False by simp
qed

text \<open>C30 The counters count what they say, however the PIDs are mixed: every block is a packet, a packet without
  the sync byte or with the error flag is an error, a good one of another PID than 8191 with scrambling
  bits is scrambled, and the sequence errors are the sum over the PIDs below 8191 of the breaks in each
  PID's own good packets, as if it had come alone.\<close>

theorem Counters_by_pid:
  assumes "mrtg_fh s" and "\<forall>ts\<in>set tss. 4 \<le> length ts"
  shows "\<exists>s'. mrtgAnalyse now tss s = Some s' \<and> l_mrtg_packets s' = l_mrtg_packets s + int (length tss)
    \<and> l_mrtg_error_packets s' = l_mrtg_error_packets s + int (length (filter mrtg_broken tss))
    \<and> l_mrtg_scram_packets s' = l_mrtg_scram_packets s
        + int (length (filter (\<lambda>ts. \<not> mrtg_broken ts \<and> mrtg_pid ts \<noteq> 0x1fff \<and> ts ! 3 AND 0xc0 \<noteq> 0) tss))
    \<and> l_mrtg_seq_err_packets s' = l_mrtg_seq_err_packets s + int (\<Sum>pid<0x1fff. breaks (i_pid_seq s pid) (counted pid tss))"
proof -
  have rep: "l_mrtg_packets (mrtg_report now t) = l_mrtg_packets t" "l_mrtg_error_packets (mrtg_report now t) = l_mrtg_error_packets t"
    "l_mrtg_scram_packets (mrtg_report now t) = l_mrtg_scram_packets t"
    "l_mrtg_seq_err_packets (mrtg_report now t) = l_mrtg_seq_err_packets t" for t
    by (simp_all add: mrtg_report_def dumpCounts_def Let_def)
  have "\<exists>t. ofold (\<lambda>ts s. do { ensure (4 \<le> length ts); Some (mrtg_packet ts s) }) tss s = Some t
    \<and> l_mrtg_packets t = l_mrtg_packets s + int (length tss)
    \<and> l_mrtg_error_packets t = l_mrtg_error_packets s + int (length (filter mrtg_broken tss))
    \<and> l_mrtg_scram_packets t = l_mrtg_scram_packets s
        + int (length (filter (\<lambda>ts. \<not> mrtg_broken ts \<and> mrtg_pid ts \<noteq> 0x1fff \<and> ts ! 3 AND 0xc0 \<noteq> 0) tss))
    \<and> l_mrtg_seq_err_packets t = l_mrtg_seq_err_packets s + int (\<Sum>pid<0x1fff. breaks (i_pid_seq s pid) (counted pid tss))"
    using assms(2)
  proof (induction tss arbitrary: s)
    case (Cons ts tss)
    from Cons.IH [of "mrtg_packet ts s"] Cons.prems obtain t where
      "ofold (\<lambda>ts s. do { ensure (4 \<le> length ts); Some (mrtg_packet ts s) }) tss (mrtg_packet ts s) = Some t"
      "l_mrtg_packets t = l_mrtg_packets (mrtg_packet ts s) + int (length tss)"
      "l_mrtg_error_packets t = l_mrtg_error_packets (mrtg_packet ts s) + int (length (filter mrtg_broken tss))"
      "l_mrtg_scram_packets t = l_mrtg_scram_packets (mrtg_packet ts s)
        + int (length (filter (\<lambda>ts. \<not> mrtg_broken ts \<and> mrtg_pid ts \<noteq> 0x1fff \<and> ts ! 3 AND 0xc0 \<noteq> 0) tss))"
      "l_mrtg_seq_err_packets t = l_mrtg_seq_err_packets (mrtg_packet ts s)
        + int (\<Sum>pid<0x1fff. breaks (i_pid_seq (mrtg_packet ts s) pid) (counted pid tss))" by auto
    with Cons.prems breaks_step [of s ts tss] show ?case by (simp add: mrtg_packet_counts(1-4))
  qed (simp add: counted_def)
  with assms(1) rep show ?thesis by (auto simp: mrtgAnalyse_def)
qed

definition ex_mrtg :: mrtgcnt where
  "ex_mrtg = \<lparr>mrtg_fh = False, mrtg_out = [], l_mrtg_packets = 0, l_mrtg_seq_err_packets = 0, l_mrtg_error_packets = 0,
     l_mrtg_scram_packets = 0, mrtg_time = (0, 0), i_pid_seq = (\<lambda>_. -1)\<rparr>"

lemma Counters_by_pid_witness:
  "\<exists>s'. mrtgAnalyse (0, 0) [[0x47, 0, 100, 0x10], [0x46, 0, 0, 0], [0x47, 0, 100, 0x11]] (snd (mrtgInit True (0, 0) (Some ''x'') ex_mrtg)) = Some s'
    \<and> l_mrtg_packets s' = 3 \<and> l_mrtg_error_packets s' = 1"
  using Counters_by_pid [of "snd (mrtgInit True (0, 0) (Some ''x'') ex_mrtg)" "[[0x47, 0, 100, 0x10], [0x46, 0, 0, 0], [0x47, 0, 100, 0x11]]" "(0, 0)"]
  by (auto simp: mrtgInit_def ex_mrtg_def mrtg_broken_def)

end
