(* ===== verification/Dvb_Config.thy ===== *)
theory Dvb_Config
  imports Dvb_Control Dvb_CStrings
begin

unbundle bit_operations_syntax

text \<open>
  Configuration: the text that describes an output (\<open>config_ParseHost\<close> and what it calls), the file
  of outputs, which is read again while the program runs (\<open>config_ReadFile\<close>), the options given
  at start, and the conversion of character sets. The resolver, \<open>iconv\<close> and biTStream's \<open>dvb_string_set\<close> are
  parameters (\<open>conf_lib\<close>); the converter that was opened for configurations is the argument \<open>h\<close>, the
  character set it converts to. The parser cuts its text in place: what it keeps a pointer to ends at the
  next slash.
\<close>

definition DEFAULT_PORT :: nat where "DEFAULT_PORT = 3001"
definition DEFAULT_IPV4_MTU :: int where "DEFAULT_IPV4_MTU = 1500"
definition DEFAULT_IPV6_MTU :: int where "DEFAULT_IPV6_MTU = 1280"

text \<open>\<open>getaddrinfo\<close> gives the first address of a host and a service; \<open>iconv to from\<close> gives the converted
  bytes when they fit in the room it is given (six times the input), or the number of bytes it took before it failed;
  \<open>inet_aton\<close> gives the four bytes of an IPv4 address in network order.\<close>

record conf_lib =
  getaddrinfo :: "string \<Rightarrow> string option \<Rightarrow> sockaddr option"
  iconv_open :: "string \<Rightarrow> string \<Rightarrow> bool"
  iconv :: "string \<Rightarrow> string \<Rightarrow> bytes \<Rightarrow> bytes + nat"
  dvb_string_set :: "bytes \<Rightarrow> string \<Rightarrow> bytes"
  inet_aton :: "string \<Rightarrow> bytes option"

subsection \<open>Names\<close>

definition is_ascii :: "char \<Rightarrow> bool" where
  "is_ascii c \<longleftrightarrow> (of_char c :: nat) < 128"

text \<open>What the search for a character outside ASCII leaves: it stops behind the character.\<close>

definition after_non_ascii :: "string \<Rightarrow> string" where
  "after_non_ascii s = drop 1 (dropWhile is_ascii s)"

text \<open>An empty text has no copy (\<open>config_stropt\<close> gives NULL), and \<open>strlen\<close> of that is undefined.\<close>

definition config_striconv ::
  "'c conf_lib_scheme \<Rightarrow> string \<Rightarrow> string \<Rightarrow> string \<Rightarrow> string option \<Rightarrow> (bytes \<times> string option) option" where
  "config_striconv L native psz charset h = do {
     input \<leftarrow> config_stropt (Some psz);
     let raw = str_bytes input;
     if after_non_ascii psz = [] \<or> same_nocase native charset then Some (raw, h)
     else (let h = (if h = None \<and> iconv_open L charset native then Some charset else h) in
       case h of
         None \<Rightarrow> Some (raw, None)
       | Some cs \<Rightarrow> Some (case iconv L cs native raw of Inl out \<Rightarrow> (out, h) | Inr _ \<Rightarrow> (raw, h))) }"

definition config_strdvb ::
  "'c conf_lib_scheme \<Rightarrow> string \<Rightarrow> string option \<Rightarrow> string \<Rightarrow> string option \<Rightarrow> (bytes \<times> string option) option" where
  "config_strdvb L native psz charset h =
     (case psz of
        None \<Rightarrow> Some ([], h)
      | Some z \<Rightarrow> do {
          (b, h) \<leftarrow> config_striconv L native z charset h;
          Some (dvb_string_set L b charset, h) })"

subsection \<open>Addresses\<close>

text \<open>
  A node and a service (\<open>host:port\<close>, the host in brackets for IPv6), with the text behind them. A text
  with an open bracket leaves the caller's pointer where it was.
\<close>

definition cut_node :: "string \<Rightarrow> (string \<times> string option) option" where
  "cut_node s =
     (if s \<noteq> [] \<and> hd s = CHR ''[''
      then (case str_chr (CHR '']'') (tl s) of None \<Rightarrow> None | Some e \<Rightarrow> Some (before [CHR '']''] (tl s), Some (tl e)))
      else Some (before ''@:,/'' s, str_pbrk ''@:,/'' s))"

definition cut_port :: "string option \<Rightarrow> string option \<times> string option" where
  "cut_port e = (case e of
       Some (c # p) \<Rightarrow> if c = CHR '':'' then (Some (before ''@:,/'' p), str_pbrk ''@:,/'' p) else (None, e)
     | _ \<Rightarrow> (None, e))"

definition ParseNodeService :: "'c conf_lib_scheme \<Rightarrow> string \<Rightarrow> nat \<Rightarrow> sockaddr option \<times> string" where
  "ParseNodeService L s dport =
     (case cut_node s of
        None \<Rightarrow> (None, s)
      | Some (node, e) \<Rightarrow>
          (let (port, e) = cut_port e;
               rest = (case e of None \<Rightarrow> [] | Some r \<Rightarrow> r);
               port = (if dport \<noteq> 0 \<and> (port = None \<or> port = Some []) then Some (show_nat dport) else port)
           in (if node = [] then None else getaddrinfo L node port, rest)))"

text \<open>\<open>memcpy\<close> of an address over another.\<close>

definition copy_addr :: "sockaddr \<Rightarrow> sockaddr \<Rightarrow> sockaddr" where
  "copy_addr a old = \<lparr>ss_family = ss_family a, sa_data = sa_data a @ drop (length (sa_data a)) (sa_data old)\<rparr>"

definition parse_bind :: "'c conf_lib_scheme \<Rightarrow> string \<Rightarrow> output_config \<Rightarrow> output_config \<times> string" where
  "parse_bind L s c =
     (if s \<noteq> [] \<and> hd s = CHR ''@''
      then (case ParseNodeService L (tl s) 0 of
              (Some a, rest) \<Rightarrow>
                (if ss_family a = i_family c then (c\<lparr>bind_addr := copy_addr a (bind_addr c)\<rparr>, rest) else (c, rest))
            | (None, rest) \<Rightarrow> (c, rest))
      else (c, s))"

subsection \<open>Options of an output\<close>

text \<open>Names and the character set are only remembered while the options are read.\<close>

record host_names =
  hn_charset :: string
  hn_network :: "string option"
  hn_service :: "string option"
  hn_provider :: "string option"

definition le32_bytes :: "32 word \<Rightarrow> bytes" where
  "le32_bytes w = [ucast w, ucast (drop_bit 8 w), ucast (drop_bit 16 w), ucast (drop_bit 24 w)]"

text \<open>Every round of the loop over the four PIDs cuts the text anew, so each gets the first number.\<close>

definition pidmap_step :: "string \<Rightarrow> output_config \<Rightarrow> nat \<Rightarrow> output_config" where
  "pidmap_step arg c i =
     (case strtok '','' arg of
        None \<Rightarrow> c
      | Some (tok, _) \<Rightarrow> c\<lparr>pi_confpids := (pi_confpids c)[i := strtoul 0 tok mod 65536]\<rparr>)"

text \<open>Milliseconds to microseconds; overflow is undefined.\<close>

definition opt_millis :: "string \<Rightarrow> mtime option" where
  "opt_millis a = (let v = strtol 0 a * 1000 in if - (2 ^ 63) \<le> v \<and> v < 2 ^ 63 then Some v else None)"

text \<open>The numeric options: the text of the option is known to start with its name.\<close>

definition number_option :: "string \<Rightarrow> output_config \<Rightarrow> output_config option" where
  "number_option t c =
     (let num = (\<lambda>opt. strtol 0 (arg_option opt t)) in
      if is_option ''udp'' t then Some (c\<lparr>i_config := i_config c OR OUTPUT_UDP\<rparr>)
      else if is_option ''dvb'' t then Some (c\<lparr>i_config := i_config c OR OUTPUT_DVB\<rparr>)
      else if is_option ''epg'' t then Some (c\<lparr>i_config := i_config c OR OUTPUT_EPG\<rparr>)
      else if is_option ''tsid='' t then Some (c\<lparr>i_cfg_tsid := to_int32 (num ''tsid='')\<rparr>)
      else if is_option ''retention='' t
      then map_option (\<lambda>v. c\<lparr>i_max_retention := v\<rparr>) (opt_millis (arg_option ''retention='' t))
      else if is_option ''latency='' t
      then map_option (\<lambda>v. c\<lparr>i_output_latency := v\<rparr>) (opt_millis (arg_option ''latency='' t))
      else if is_option ''ttl='' t then Some (c\<lparr>i_ttl := to_int32 (num ''ttl='')\<rparr>)
      else if is_option ''tos='' t then Some (c\<lparr>i_tos := word_of_int (num ''tos='')\<rparr>)
      else if is_option ''mtu='' t then Some (c\<lparr>i_mtu := to_int32 (num ''mtu='')\<rparr>)
      else if is_option ''ifindex='' t then Some (c\<lparr>i_if_index_v6 := to_int32 (num ''ifindex='')\<rparr>)
      else if is_option ''networkid='' t then Some (c\<lparr>i_cfg_network_id := word_of_int (num ''networkid='')\<rparr>)
      else if is_option ''onid='' t then Some (c\<lparr>i_onid := word_of_int (num ''onid='')\<rparr>)
      else if is_option ''srcport='' t then Some (c\<lparr>i_srcport := to_int32 (num ''srcport='')\<rparr>)
      else if is_option ''newsid='' t then Some (c\<lparr>i_new_sid := word_of_int (num ''newsid='')\<rparr>)
      else Some c)"

text \<open>\<open>None\<close> inside: the source address of a raw output that is not IPv4 refuses the whole line.\<close>

definition parse_option ::
  "'b ts_lib_scheme \<Rightarrow> string \<Rightarrow> output_config \<times> host_names \<Rightarrow> (output_config \<times> host_names) option option" where
  "parse_option B t = (\<lambda>(c, n).
     (let name = (\<lambda>opt. before ''/'' (arg_option opt t)) in
      if is_option ''charset='' t then Some (Some (c, n\<lparr>hn_charset := name ''charset=''\<rparr>))
      else if is_option ''networkname='' t then Some (Some (c, n\<lparr>hn_network := Some (name ''networkname='')\<rparr>))
      else if is_option ''srvname='' t then Some (Some (c, n\<lparr>hn_service := Some (name ''srvname='')\<rparr>))
      else if is_option ''srvprovider='' t then Some (Some (c, n\<lparr>hn_provider := Some (name ''srvprovider='')\<rparr>))
      else if is_option ''srcaddr='' t
      then (if i_family c \<noteq> AF_INET then Some None
            else Some (Some (c\<lparr>psz_srcaddr := config_stropt (Some (arg_option ''srcaddr='' t)),
                               i_config := i_config c OR OUTPUT_RAW\<rparr>, n)))
      else if is_option ''ssrc='' t
      then Some (Some (c\<lparr>pi_ssrc := le32_bytes (inet_addr B (arg_option ''ssrc='' t))\<rparr>, n))
      else if is_option ''pidmap='' t
      then (case config_stropt (Some (arg_option ''pidmap='' t)) of
              None \<Rightarrow> None
            | Some a \<Rightarrow> Some (Some ((foldl (pidmap_step a) c [0..<CLDVB_N_MAP_PIDS])\<lparr>b_cfg_do_remap := True\<rparr>, n)))
      else map_option (\<lambda>c. Some (c, n)) (number_option t c)))"

function parse_options ::
  "'b ts_lib_scheme \<Rightarrow> string \<Rightarrow> output_config \<times> host_names \<Rightarrow> (output_config \<times> host_names) option option" where
  "parse_options B s st =
     (case str_chr (CHR ''/'') s of
        None \<Rightarrow> Some (Some st)
      | Some r \<Rightarrow>
          (case parse_option B (tl r) st of
             Some (Some st) \<Rightarrow> parse_options B (tl r) st
           | x \<Rightarrow> x))"
  by pat_completeness auto
termination
proof (relation "measure (\<lambda>(B, s, st). length s)", simp)
  fix B :: "'b ts_lib_scheme" and s st r x st'
  assume "str_chr (CHR ''/'') s = Some r"
  then have "r \<noteq> []" "length r \<le> length s" by (auto simp: str_chr_def dest: str_pbrk_shorter)
  then show "((B, tl r, st'), (B, s, st)) \<in> measure (\<lambda>(B, s, st). length s)" by (cases r) auto
qed

declare parse_options.simps [simp del]

subsection \<open>One output\<close>

text \<open>The MTU must hold the RTP header and one packet.\<close>

definition check_mtu :: "'b ts_lib_scheme \<Rightarrow> output_config \<Rightarrow> output_config" where
  "check_mtu B c =
     (let d = (if i_family c = AF_INET6 then DEFAULT_IPV6_MTU else DEFAULT_IPV4_MTU) in
      if i_mtu c = 0 \<or> i_mtu c < int TS_SIZE + int (RTP_HEADER_SIZE B) then c\<lparr>i_mtu := d\<rparr> else c)"

definition set_names ::
  "'c conf_lib_scheme \<Rightarrow> string \<Rightarrow> output_config \<times> host_names \<Rightarrow> string option \<Rightarrow> (output_config \<times> string option) option" where
  "set_names L native = (\<lambda>(c, n) h. do {
     (nn, h) \<leftarrow> (if hn_network n \<noteq> None then config_strdvb L native (hn_network n) (hn_charset n) h
                  else Some (network_name c, h));
     (sn, h) \<leftarrow> (if hn_service n \<noteq> None then config_strdvb L native (hn_service n) (hn_charset n) h
                  else Some (service_name c, h));
     (pn, h) \<leftarrow> (if hn_provider n \<noteq> None then config_strdvb L native (hn_provider n) (hn_charset n) h
                  else Some (provider_name c, h));
     Some (c\<lparr>network_name := nn, service_name := sn, provider_name := pn\<rparr>, h) })"

text \<open>The result is \<open>None\<close> inside when the text is refused.\<close>

definition config_ParseHost ::
  "'b ts_lib_scheme \<Rightarrow> 'c conf_lib_scheme \<Rightarrow> 'a dvboutput_scheme \<Rightarrow> output_config \<Rightarrow> string \<Rightarrow> string option \<Rightarrow>
   (output_config option \<times> string option) option" where
  "config_ParseHost B L s c z h =
     (case ParseNodeService L z DEFAULT_PORT of
        (None, _) \<Rightarrow> Some (None, h)
      | (Some a, rest) \<Rightarrow>
          (let c = c\<lparr>psz_displayname := z, connect_addr := copy_addr a (connect_addr c), i_family := ss_family a\<rparr> in
           if i_family c = AF_UNSPEC then Some (None, h)
           else if rest = [] then Some (Some (check_mtu B c), h)
           else
             (let (c, rest) = parse_bind L rest c in do {
                r \<leftarrow> parse_options B rest
                      (c, \<lparr>hn_charset = psz_dvb_charset s, hn_network = None, hn_service = None, hn_provider = None\<rparr>);
                (case r of
                   None \<Rightarrow> Some (None, h)
                 | Some st \<Rightarrow> do {
                     (c, h) \<leftarrow> set_names L (native_charset s) st h;
                     Some (Some (check_mtu B c), h) }) })))"

subsection \<open>The file of outputs\<close>

text \<open>\<open>fgets\<close> with a buffer of 2048 bytes: up to 2047 characters, or to the end of the line.\<close>

definition LINE_ROOM :: nat where "LINE_ROOM = 2047"

definition fgets_line :: "string \<Rightarrow> string \<times> string" where
  "fgets_line s =
     (let k = min LINE_ROOM (Suc (length (before [CHR 0x0A] s))) in (take k s, drop k s))"

function file_lines :: "string \<Rightarrow> string list" where
  "file_lines s = (if s = [] then [] else (case fgets_line s of (l, r) \<Rightarrow> l # file_lines r))"
  by pat_completeness auto
termination
  by (relation "measure length") (auto simp: fgets_line_def Let_def LINE_ROOM_def)

declare file_lines.simps [simp del]

text \<open>A comment is cut off with the blanks before it.\<close>

definition strip_comment :: "string \<Rightarrow> string" where
  "strip_comment l =
     (if CHR ''#'' \<in> set l then rev (dropWhile is_blank (rev (before ''#'' l))) else l)"

definition blanks :: "char list" where
  "blanks = [CHR 0x09, CHR 0x0A, CHR '' '']"

definition config_pids :: "string \<Rightarrow> nat list" where
  "config_pids t = map (\<lambda>tok. nat (strtol 0 tok mod 65536)) (tokens '','' t)"

definition watch_flag :: "string \<Rightarrow> output_config \<Rightarrow> output_config" where
  "watch_flag t c = c\<lparr>i_config :=
     (if atoi t = 1 then i_config c OR OUTPUT_WATCH else i_config c AND NOT OUTPUT_WATCH)\<rparr>"

definition config_streams :: "string \<Rightarrow> string \<Rightarrow> output_config \<Rightarrow> output_config" where
  "config_streams t rest c =
     (if hd t = CHR ''*'' then c\<lparr>b_passthrough := True\<rparr>
      else (let c = c\<lparr>i_sid := word_of_int (strtol 0 t)\<rparr> in
        case strtok blanks rest of
          None \<Rightarrow> c
        | Some (ps, _) \<Rightarrow> c\<lparr>pi_pids := config_pids ps\<rparr>))"

text \<open>One line: the host, whether it is watched, the program and its PIDs. A line with fewer than three
  fields is skipped, as is one whose host is refused.\<close>

definition parse_line ::
  "'b ts_lib_scheme \<Rightarrow> 'c conf_lib_scheme \<Rightarrow> 'a dvboutput_scheme \<Rightarrow> string \<Rightarrow> string option \<Rightarrow>
   (output_config option \<times> string option) option" where
  "parse_line B L s l h =
     (case strtok blanks (strip_comment l) of
        None \<Rightarrow> Some (None, h)
      | Some (host, r) \<Rightarrow> do {
          (x, h) \<leftarrow> config_ParseHost B L s (config_Defaults s) host h;
          (case x of
             None \<Rightarrow> Some (None, h)
           | Some c \<Rightarrow>
               (case strtok blanks r of
                  None \<Rightarrow> Some (None, h)
                | Some (w, r) \<Rightarrow>
                    (case strtok blanks r of
                       None \<Rightarrow> Some (None, h)
                     | Some (t, r) \<Rightarrow> Some (Some (config_streams t r (watch_flag w c)), h)))) })"

definition present :: "output_config \<Rightarrow> output_config" where
  "present c = c\<lparr>i_config := i_config c OR (OUTPUT_VALID OR OUTPUT_STILL_PRESENT)\<rparr>"

text \<open>The output of a line: the one that runs, or a new one; its changes take effect at once.\<close>

definition apply_line ::
  "'b psi_lib_scheme \<Rightarrow> output_config \<Rightarrow> 'a dvbdemux_scheme \<Rightarrow> 'a dvbdemux_scheme option" where
  "apply_line B c s = do {
     (i, s) \<leftarrow> (case output_Find c s of
                  Some i \<Rightarrow> Some (Some i, s)
                | None \<Rightarrow> output_Create B c s);
     (case i of
        None \<Rightarrow> Some s
      | Some n \<Rightarrow> do {
          let s = upd_out (Nth n) (\<lambda>p. p\<lparr>config := (config p)\<lparr>psz_displayname := psz_displayname c\<rparr>\<rparr>) s;
          s \<leftarrow> output_Change B (Nth n) (present c) s;
          demux_Change B n (present c) s }) }"

definition read_line ::
  "'b psi_lib_scheme \<Rightarrow> 'c conf_lib_scheme \<Rightarrow> string \<Rightarrow> 'a dvbdemux_scheme \<times> string option \<Rightarrow>
   ('a dvbdemux_scheme \<times> string option) option" where
  "read_line B L l = (\<lambda>(s, h). do {
     (x, h) \<leftarrow> parse_line B L s l h;
     (case x of
        None \<Rightarrow> Some (s, h)
      | Some c \<Rightarrow> map_option (\<lambda>s. (s, h)) (apply_line B c s)) })"

text \<open>Outputs that run but have no line any more are closed; the mark of the others is taken off.\<close>

definition close_stale :: "'b psi_lib_scheme \<Rightarrow> nat \<Rightarrow> 'a dvbdemux_scheme \<Rightarrow> 'a dvbdemux_scheme option" where
  "close_stale B i s = do {
     let c = config (pp_outputs s ! i);
     s \<leftarrow> (if has_flag (i_config c) OUTPUT_VALID \<and> \<not> has_flag (i_config c) OUTPUT_STILL_PRESENT
           then do { s \<leftarrow> demux_Change B i (config_Init s) s; output_Close (Nth i) s }
           else Some s);
     Some (upd_out (Nth i) (\<lambda>p. p\<lparr>config := (config p)\<lparr>
       i_config := i_config (config p) AND NOT OUTPUT_STILL_PRESENT\<rparr>\<rparr>) s) }"

text \<open>\<open>file\<close> is what the file holds, \<open>None\<close> when there is none or it cannot be opened.\<close>

definition config_ReadFile ::
  "'b psi_lib_scheme \<Rightarrow> 'c conf_lib_scheme \<Rightarrow> string option \<Rightarrow> 'a dvbdemux_scheme \<times> string option \<Rightarrow>
   ('a dvbdemux_scheme \<times> string option) option" where
  "config_ReadFile B L file sh =
     (case file of
        None \<Rightarrow> Some sh
      | Some txt \<Rightarrow> do {
          (s, h) \<leftarrow> ofold (read_line B L) (file_lines txt) sh;
          s \<leftarrow> ofold (close_stale B) [0..<length (pp_outputs s)] s;
          Some (s, h) })"

end
