(* ===== verification/Dvb_ConfigProps.thy ===== *)
theory Dvb_ConfigProps
  imports Dvb_Config Dvb_DemuxProps Dvb_OutputLife
begin

unbundle bit_operations_syntax

text \<open>
  What a change of an output leaves alone: which outputs there are and what they are known by (flags and
  addresses), and the settings a new configuration starts from. Used for reading the file of outputs again.
\<close>

subsection \<open>PID filters do not touch outputs\<close>

definition outs :: "'a dvbdemux_scheme \<Rightarrow> output_st list \<times> _" where
  "outs s = (pp_outputs s, conf_globals s)"

lemmas outs_defs = outs_def conf_globals_def

lemma outs_upd_pid [simp]: "outs (upd_pid pid f s) = outs s"
  by (simp add: outs_defs upd_pid_def)

lemma SetPID_outs: "SetPID pid s = Some s' \<Longrightarrow> outs s' = outs s"
  by (auto simp: outs_defs SetPID_def upd_pid_def bind_eq_Some_conv sys_call_def Let_def split: if_splits)

lemma UnsetPID_outs: "UnsetPID pid s = Some s' \<Longrightarrow> outs s' = outs s"
  by (auto simp: outs_defs UnsetPID_def upd_pid_def bind_eq_Some_conv sys_call_def Let_def split: if_splits)

lemma StartPID_outs: "StartPID n pid s = Some s' \<Longrightarrow> outs s' = outs s"
  by (auto simp: StartPID_def bind_eq_Some_conv Let_def split: if_splits dest!: SetPID_outs)

lemma StopPID_outs: "StopPID n pid s = Some s' \<Longrightarrow> outs s' = outs s"
  by (auto simp: StopPID_def bind_eq_Some_conv Let_def split: if_splits dest!: UnsetPID_outs)

lemma for_outputs_outs:
  assumes "\<And>i s s'. f i s = Some s' \<Longrightarrow> outs s' = outs s" and "for_outputs f s = Some s'"
  shows "outs s' = outs s"
  using assms(2) unfolding for_outputs_def
  by (rule ofold_frame [where g = outs, rotated]) (rule assms(1))

lemma SelectPMT_outs: "SelectPMT sid pid s = Some s' \<Longrightarrow> outs s' = outs s"
proof -
  assume a: "SelectPMT sid pid s = Some s'"
  have l: "outs t' = outs t"
    if "for_outputs (\<lambda>i s. if on_sid sid (pp_outputs s ! i) then SetPID pid s else Some s) t = Some t'"
    for t t' :: "'a dvbdemux_scheme"
    using that by (rule for_outputs_outs [rotated]) (auto split: if_splits dest: SetPID_outs)
  from a show ?thesis
    by (auto simp: SelectPMT_def bind_eq_Some_conv Let_def split: if_splits dest!: l SetPID_outs)
qed

lemma UnselectPMT_outs: "UnselectPMT B sid pid s = Some s' \<Longrightarrow> outs s' = outs s"
proof -
  assume a: "UnselectPMT B sid pid s = Some s'"
  have l: "outs t' = outs t"
    if "for_outputs (\<lambda>i s. if on_sid sid (pp_outputs s ! i) then UnsetPID pid s else Some s) t = Some t'"
    for t t' :: "'a dvbdemux_scheme"
    using that by (rule for_outputs_outs [rotated]) (auto split: if_splits dest: UnsetPID_outs)
  from a show ?thesis
    by (auto simp: UnselectPMT_def bind_eq_Some_conv Let_def split: if_splits dest!: l UnsetPID_outs)
qed

lemma view_outs: "demux_view s' = demux_view s \<Longrightarrow> outs s' = outs s"
  by (simp add: demux_view_def outs_def)

lemma update_ca_outs: "update_ca B sid s = Some s' \<Longrightarrow> outs s' = outs s"
  by (drule view_update_ca) (rule view_outs)

subsection \<open>What the outputs are known by\<close>

definition ident :: "output_st \<Rightarrow> 64 word \<times> int \<times> sockaddr \<times> sockaddr \<times> int" where
  "ident p = (i_config (config p), i_family (config p), connect_addr (config p), bind_addr (config p), i_if_index_v6 (config p))"

definition idents :: "'a dvbdemux_scheme \<Rightarrow> _" where
  "idents s = (map ident (pp_outputs s), conf_globals s)"

lemma idents_length: "idents s' = idents s \<Longrightarrow> length (pp_outputs s') = length (pp_outputs s)"
  by (simp add: idents_def) (metis length_map)

lemma idents_outs: "outs s' = outs s \<Longrightarrow> idents s' = idents s"
  by (simp add: idents_def outs_def)

lemma globals_upd_out [simp]: "conf_globals (upd_out r f s) = conf_globals s"
  by (cases r) (simp_all add: conf_globals_def)

lemma idents_upd_out:
  "(\<And>p. ident (f p) = ident p) \<Longrightarrow> idents (upd_out (Nth n) f s) = idents s"
  by (cases "n < length (pp_outputs s)") (auto simp: idents_def conf_globals_def nth_list_update intro!: nth_equalityI)

lemma idents_put:
  assumes "n < length (pp_outputs s)" and "config p = config (pp_outputs s ! n)"
  shows "idents (upd_out (Nth n) (\<lambda>_. p) s) = idents s"
  using assms list_update_id [of "map ident (pp_outputs s)" n]
  by (simp add: idents_def conf_globals_def ident_def map_update)

lemma idents_call [simp]: "idents (snd (sys_call c s)) = idents s"
  by (simp add: idents_def conf_globals_def sys_call_def Let_def)

lemma ofold_outs:
  assumes "\<And>x s s'. f x s = Some s' \<Longrightarrow> outs s' = outs s" and "ofold f xs s = Some s'"
  shows "idents s' = idents s"
  using assms(2) by (rule idents_outs [OF ofold_frame [where g = outs, rotated]]) (rule assms(1))

lemma leave_idents: "leave_program B n old sid s = Some s' \<Longrightarrow> idents s' = idents s"
proof -
  assume a: "leave_program B n old sid s = Some s'"
  let ?s = "upd_out (Nth n) (set_cfg_sid sid) s"
  have f: "idents ?s = idents s" by (rule idents_upd_out) (simp add: ident_def set_cfg_sid_def)
  have ca: "outs t' = outs t" if "when_ca B x (en50221_DeletePMT B dev_PIDIsSelected) t = Some t'"
    for t t' :: "'a dvbdemux_scheme" and x
    using that by (intro view_outs) (rule view_when_ca [rotated], assumption, rule view_DeletePMT)
  have "outs s' = outs ?s"
    using a by (auto simp only: leave_program_def Let_def bind_eq_Some_conv split: option.splits if_splits
        dest!: UnselectPMT_outs ca)
  with f show ?thesis by (metis idents_outs)
qed

lemma join_idents: "join_program B n old sid s = Some s' \<Longrightarrow> idents s' = idents s"
proof -
  assume a: "join_program B n old sid s = Some s'"
  let ?s = "upd_out (Nth n) (set_cfg_sid old) s"
  have f: "idents ?s = idents s" by (rule idents_upd_out) (simp add: ident_def set_cfg_sid_def)
  have ca: "outs t' = outs t" if "when_ca B x (en50221_AddPMT B dev_PIDIsSelected) t = Some t'"
    for t t' :: "'a dvbdemux_scheme" and x
    using that by (intro view_outs) (rule view_when_ca [rotated], assumption, rule view_AddPMT)
  have "outs s' = outs ?s"
    using a by (auto simp only: join_program_def Let_def bind_eq_Some_conv split: option.splits if_splits
        dest!: SelectPMT_outs ca)
  with f show ?thesis by (metis idents_outs)
qed

lemma change_pids_idents:
  assumes "change_pids B n c old old_pids s = Some (b, s')"
  shows "idents s' = idents s"
proof -
  let ?sid = "i_sid c"
  from assms obtain wanted pcr current w s1 s2 s3 s4 s5 s6 where
    1: "(if ?sid \<noteq> old \<and> old \<noteq> 0 then leave_program B n old ?sid s else Some s) = Some s1"
    and 2: "ofold (StopPID n) (moved_pids current wanted) s1 = Some s2"
    and 3: "(if ?sid \<noteq> old then update_ca B old s2 else Some s2) = Some s3"
    and 4: "ofold (StartPID n) (moved_pids wanted current) s3 = Some s4"
    and 5: "(if ?sid \<noteq> old \<and> ?sid \<noteq> 0 then join_program B n old ?sid (upd_out (Nth n) (\<lambda>p. p\<lparr>i_pcr_pid := pcr\<rparr>) s4)
             else Some (upd_out (Nth n) (\<lambda>p. p\<lparr>i_pcr_pid := pcr\<rparr>) s4)) = Some s5"
    and 6: "update_ca B ?sid s5 = Some s6"
    and s': "upd_out (Nth n) (\<lambda>p. p\<lparr>config := (config p)\<lparr>b_passthrough := b_passthrough c, i_sid := ?sid,
                                    pi_pids := pi_pids c\<rparr>\<rparr>) s6 = s'"
    by (simp only: change_pids_def Let_def bind_eq_Some_conv split_paired_Ex case_prod_conv option.inject prod.inject)
      (elim exE conjE, rule that; assumption)
  have "idents s1 = idents s" using 1 by (auto split: if_splits dest: leave_idents)
  moreover have "idents s2 = idents s1" using 2 by (rule ofold_outs [rotated]) (rule StopPID_outs)
  moreover have "idents s3 = idents s2" using 3 by (auto split: if_splits dest: update_ca_outs intro: idents_outs)
  moreover have "idents s4 = idents s3" using 4 by (rule ofold_outs [rotated]) (rule StartPID_outs)
  moreover have "idents (upd_out (Nth n) (\<lambda>p. p\<lparr>i_pcr_pid := pcr\<rparr>) s4) = idents s4" by (rule idents_upd_out) (simp add: ident_def)
  with 5 have "idents s5 = idents s4" by (auto split: if_splits dest: join_idents)
  moreover have "idents s6 = idents s5" using 6 by (intro idents_outs) (rule update_ca_outs)
  moreover have "idents s' = idents s6" unfolding s' [symmetric] by (rule idents_upd_out) (simp add: ident_def)
  ultimately show ?thesis by simp
qed

subsection \<open>New tables\<close>

lemma map_es_pid_config: "map_es_pid B p es pid s = Some (q, p') \<Longrightarrow> config p' = config p"
  by (auto simp: map_es_pid_def bind_eq_Some_conv Let_def split: if_splits option.splits)

lemma pmt_add_es_config:
  assumes "pmt_add_es B s es (k, sec, p) = Some (k', sec', p')"
  shows "config p' = config p"
  using assms by (auto simp: pmt_add_es_def bind_eq_Some_conv Let_def split: if_splits option.splits dest: map_es_pid_config)

lemma build_pmt_config:
  assumes "build_pmt B p cur s = Some (sec, p')"
  shows "config p' = config p"
proof -
  have "config (snd (snd b)) = config (snd (snd a))" if "ofold (pmt_add_es B s) ess a = Some b" for ess a b
    using that by (rule ofold_frame [where g = "\<lambda>x. config (snd (snd x))", rotated])
      (metis pmt_add_es_config prod.collapse)
  moreover have "config (init_pid_mapping p) = config p" by (simp add: init_pid_mapping_def)
  ultimately show ?thesis
    using assms by (fastforce simp: build_pmt_def bind_eq_Some_conv Let_def split: prod.splits)
qed

lemma NewPAT_idents: "NewPAT B n s = Some s' \<Longrightarrow> idents s' = idents s"
  by (auto simp: NewPAT_def Let_def bind_eq_Some_conv simp del: upd_out.simps
      split: if_splits option.splits intro!: idents_put)

lemma NewPMT_idents: "NewPMT B n s = Some s' \<Longrightarrow> idents s' = idents s"
  by (auto simp: NewPMT_def Let_def bind_eq_Some_conv simp del: upd_out.simps
      split: if_splits option.splits dest!: build_pmt_config intro!: idents_put)

lemma NewNIT_idents: "NewNIT B n s = Some s' \<Longrightarrow> idents s' = idents s"
  by (auto simp: NewNIT_def Let_def bind_eq_Some_conv simp del: upd_out.simps intro!: idents_put)

lemma drop_empty_pat_config [simp]: "config (drop_empty_pat B p) = config p"
  by (simp add: drop_empty_pat_def split: option.splits)

lemma NewSDT_idents: "NewSDT B n s = Some s' \<Longrightarrow> idents s' = idents s"
  by (auto simp: NewSDT_def Let_def bind_eq_Some_conv simp del: upd_out.simps
      split: if_splits option.splits intro!: idents_put)

lemmas table_idents = NewPAT_idents NewPMT_idents NewNIT_idents NewSDT_idents

lemma change_tables_idents:
  assumes "change_tables B n a t d w x q s = Some s'"
  shows "idents s' = idents s"
proof (cases a)
  case True
  with assms obtain s1 s2 s3 where "NewSDT B n s = Some s1" "NewNIT B n s1 = Some s2"
    "NewPAT B n s2 = Some s3" "NewPMT B n s3 = Some s'"
    by (auto simp: change_tables_def bind_eq_Some_conv)
  then show ?thesis using table_idents by metis
next
  case False
  with assms obtain s1 s2 where
    1: "(if t then do { s \<leftarrow> NewSDT B n s; s \<leftarrow> NewNIT B n s; NewPAT B n s }
         else if d then do { s \<leftarrow> NewNIT B n s; NewPAT B n s }
         else if w then NewNIT B n s else Some s) = Some s1"
    and 2: "(if \<not> t \<and> x then NewSDT B n s1 else Some s1) = Some s2"
    and 3: "(if q then NewPMT B n s2 else Some s2) = Some s'"
    by (auto simp: change_tables_def bind_eq_Some_conv)
  have "idents s1 = idents s"
    using 1 by (auto simp: bind_eq_Some_conv split: if_splits dest!: NewSDT_idents NewNIT_idents NewPAT_idents)
  moreover have "idents s2 = idents s1" using 2 by (auto split: if_splits dest: NewSDT_idents)
  moreover have "idents s' = idents s2" using 3 by (auto split: if_splits dest: NewPMT_idents)
  ultimately show ?thesis by simp
qed

subsection \<open>A change of an output\<close>

text \<open>The flags of the output become those of the new settings, its addresses stay, and so does every other output.\<close>

definition set_ident :: "nat \<Rightarrow> 64 word \<Rightarrow> 'a dvbdemux_scheme \<Rightarrow> _" where
  "set_ident n v s = ((map ident (pp_outputs s))[n := (v, snd (ident (pp_outputs s ! n)))], conf_globals s)"

lemma idents_call': "sys_call c s = (r, s') \<Longrightarrow> idents s' = idents s"
  using idents_call [of c s] by simp

lemma change_tsid_idents: "change_tsid B n c s = (b, s') \<Longrightarrow> idents s' = idents s"
  by (auto simp: change_tsid_def Let_def idents_upd_out ident_def simp del: upd_out.simps split: if_splits prod.splits
      dest!: idents_call')

lemma idents_set:
  assumes "\<And>p. ident (f p) = (v, snd (ident p))"
  shows "idents (upd_out (Nth n) f s) = set_ident n v s"
  using assms by (simp add: idents_def set_ident_def map_update) (simp add: conf_globals_def)

lemma demux_Change_idents:
  assumes "demux_Change B n c s = Some s'"
  shows "n < length (pp_outputs s) \<and> idents s' = set_ident n (i_config c) s"
proof -
  let ?s = "upd_out (Nth n) (\<lambda>p. p\<lparr>config := change_settings c (config p)\<rparr>) s"
  let ?q = "config (pp_outputs s ! n)"
  obtain tsid s1 where t: "change_tsid B n c ?s = (tsid, s1)" by (cases "change_tsid B n c ?s")
  from assms t obtain pids s2 where
    n: "n < length (pp_outputs s)"
    and p: "(if same_streams c ?q then Some (False, s1) else change_pids B n c (i_sid ?q) (pi_pids ?q) s1) = Some (pids, s2)"
    and x: "change_tables B n (i_sid c \<noteq> i_sid ?q \<or> remap_changes ?q c) tsid
       (has_flag (i_config ?q XOR i_config c) OUTPUT_DVB) (network_changes ?q c)
       (service_changes ?q c \<or> has_flag (i_config ?q XOR i_config c) OUTPUT_EPG) pids s2 = Some s'"
    by (auto simp: demux_Change_def Let_def bind_eq_Some_conv simp del: upd_out.simps)
  have "idents ?s = set_ident n (i_config c) s" by (rule idents_set) (simp add: ident_def change_settings_def)
  moreover have "idents s1 = idents ?s" using t by (rule change_tsid_idents)
  moreover have "idents s2 = idents s1" using p by (auto split: if_splits dest: change_pids_idents)
  moreover have "idents s' = idents s2" using x by (rule change_tables_idents)
  ultimately show ?thesis using n by simp
qed

end
