(* ===== verification/Dvb_ReloadProps.thy ===== *)
theory Dvb_ReloadProps
  imports Dvb_ConfigProps
begin

unbundle bit_operations_syntax

text \<open>
  Reading the file of outputs: which outputs carry the mark of a line, and what the sweep leaves.
\<close>

subsection \<open>Matching by what an output is known by\<close>

definition id_matches :: "output_config \<Rightarrow> 64 word \<times> int \<times> sockaddr \<times> sockaddr \<times> int \<Rightarrow> bool" where
  "id_matches c = (\<lambda>(v, fam, con, bnd, idx).
     has_flag v OUTPUT_VALID \<and> i_family c = fam
     \<and> sockaddr_same (sockaddr_len (i_family c)) (connect_addr c) con
     \<and> sockaddr_same (sockaddr_len (i_family c)) (bind_addr c) bnd
     \<and> \<not> (i_family c = AF_INET6 \<and> i_if_index_v6 c \<noteq> idx) \<and> \<not> has_flag (i_config c XOR v) OUTPUT_RAW)"

lemma output_matches_ident: "output_matches c p = id_matches c (ident p)"
  by (simp add: output_matches_def id_matches_def ident_def Let_def)

lemma flag_xor: "has_flag (a XOR b) f \<longleftrightarrow> a AND f \<noteq> b AND f"
  using xor_zero [of "a AND f" "b AND f"] by (auto simp: has_flag_def bit.conj_xor_distrib2)

lemma present_flags [simp]:
  "has_flag (i_config (present c)) OUTPUT_VALID" "has_flag (i_config (present c)) OUTPUT_STILL_PRESENT"
  "i_config (present c) AND OUTPUT_RAW = i_config c AND OUTPUT_RAW"
  by (simp_all add: present_def has_flag_def output_flags bit.conj_disj_distrib2)

lemma id_matches_present: "id_matches c (v, a) \<Longrightarrow> id_matches c (i_config (present c), a)"
  by (auto simp: id_matches_def flag_xor)

lemma sockaddr_same_refl [simp]: "sockaddr_same n a a"
  by (simp add: sockaddr_same_def)

lemma id_matches_own:
  "id_matches c (i_config (present c), i_family c, connect_addr c, bind_addr c, i_if_index_v6 c)"
  by (simp add: id_matches_def flag_xor)

lemma nth_idents: "i < length (pp_outputs s) \<Longrightarrow> fst (idents s) ! i = ident (pp_outputs s ! i)"
  by (simp add: idents_def)

lemma set_ident_cong: "idents s' = idents s \<Longrightarrow> set_ident n v s' = set_ident n v s"
proof -
  assume a: "idents s' = idents s"
  then have m: "map ident (pp_outputs s') = map ident (pp_outputs s)" and g: "conf_globals s' = conf_globals s"
    by (simp_all add: idents_def)
  show ?thesis
  proof (cases "n < length (pp_outputs s)")
    case True
    moreover have "length (pp_outputs s') = length (pp_outputs s)" using a by (rule idents_length)
    ultimately have "ident (pp_outputs s' ! n) = ident (pp_outputs s ! n)" using m by (metis nth_map)
    then show ?thesis using m g by (simp add: set_ident_def)
  next
    case False
    then show ?thesis using m g idents_length [OF a] by (simp add: set_ident_def list_update_beyond)
  qed
qed

lemma set_ident_twice: "idents s' = set_ident n v s \<Longrightarrow> set_ident n w s' = set_ident n w s"
proof -
  assume a: "idents s' = set_ident n v s"
  then have m: "map ident (pp_outputs s') = (map ident (pp_outputs s))[n := (v, snd (ident (pp_outputs s ! n)))]"
    and g: "conf_globals s' = conf_globals s" by (simp_all add: idents_def set_ident_def)
  have l: "length (pp_outputs s') = length (pp_outputs s)" using arg_cong [OF m, of length] by simp
  show ?thesis
  proof (cases "n < length (pp_outputs s)")
    case True
    then have "ident (pp_outputs s' ! n) = (v, snd (ident (pp_outputs s ! n)))"
      using arg_cong [OF m, of "\<lambda>xs. xs ! n"] l by simp
    then show ?thesis using m g by (simp add: set_ident_def)
  qed (use m g l in \<open>simp add: set_ident_def list_update_beyond\<close>)
qed

lemma set_identD:
  assumes "idents s' = set_ident n v s"
  shows "length (pp_outputs s') = length (pp_outputs s)" "conf_globals s' = conf_globals s"
    "i < length (pp_outputs s) \<Longrightarrow>
       ident (pp_outputs s' ! i) = (if i = n then (v, snd (ident (pp_outputs s ! n))) else ident (pp_outputs s ! i))"
proof -
  from assms have m: "map ident (pp_outputs s') = (map ident (pp_outputs s))[n := (v, snd (ident (pp_outputs s ! n)))]"
    and g: "conf_globals s' = conf_globals s" by (simp_all add: idents_def set_ident_def)
  show l: "length (pp_outputs s') = length (pp_outputs s)" using arg_cong [OF m, of length] by simp
  show "conf_globals s' = conf_globals s" by (rule g)
  show "ident (pp_outputs s' ! i) = (if i = n then (v, snd (ident (pp_outputs s ! n))) else ident (pp_outputs s ! i))"
    if "i < length (pp_outputs s)"
    using arg_cong [OF m, of "\<lambda>xs. xs ! i"] that l by simp
qed

subsection \<open>Opening, changing and closing\<close>

lemma PacketVacuum_config: "output_PacketVacuum p = Some p' \<Longrightarrow> config p' = config p"
proof (induction p rule: output_PacketVacuum.induct)
  case (1 p)
  then show ?case by (subst (asm) (2) output_PacketVacuum.simps) (auto split: if_splits list.splits)
qed

lemma ident_set_ident:
  assumes "n < length (pp_outputs s)" and "snd (ident (f (pp_outputs s ! n))) = snd (ident (pp_outputs s ! n))"
  shows "idents (upd_out (Nth n) f s) = set_ident n (fst (ident (f (pp_outputs s ! n)))) s"
  using assms by (simp add: idents_def set_ident_def conf_globals_def map_update)
    (metis prod.collapse)

lemma idents_Ttl: "idents (output_ChangeTtl c (Nth n) s) = idents s"
  by (auto simp: output_ChangeTtl_def Let_def idents_upd_out ident_def simp del: upd_out.simps out_at.simps)

lemma idents_Tos: "idents (output_ChangeTos c (Nth n) s) = idents s"
  by (auto simp: output_ChangeTos_def Let_def idents_upd_out ident_def simp del: upd_out.simps out_at.simps)

lemma set_ident_same: "idents s = set_ident n (fst (ident (pp_outputs s ! n))) s"
  by (cases "n < length (pp_outputs s)")
    (simp_all add: idents_def set_ident_def list_update_beyond flip: map_update)

lemma idents_put_flags:
  assumes "idents t = idents s" and "snd (ident p) = snd (ident (pp_outputs s ! n))" and "n < length (pp_outputs s)"
  shows "\<exists>v. idents (upd_out (Nth n) (\<lambda>_. p) t) = set_ident n v s"
proof -
  have l: "n < length (pp_outputs t)" using assms idents_length [OF assms(1)] by simp
  have e: "ident (pp_outputs t ! n) = ident (pp_outputs s ! n)"
    using arg_cong [OF assms(1), of "\<lambda>x. fst x ! n"] nth_idents l assms(3) by metis
  have "idents (upd_out (Nth n) (\<lambda>_. p) t) = set_ident n (fst (ident p)) t"
    by (rule ident_set_ident [where f = "\<lambda>_. p", OF l]) (simp add: e assms(2))
  then show ?thesis using set_ident_cong [OF assms(1)] by auto
qed

lemma ChangeMtu_idents:
  assumes "output_ChangeMtu B c (Nth n) s = Some s'" and "n < length (pp_outputs s)"
  shows "\<exists>v. idents s' = set_ident n v s"
proof (cases "i_mtu (config (pp_outputs s ! n)) \<noteq> i_mtu c \<or> has_flag (i_config (config (pp_outputs s ! n)) XOR i_config c) OUTPUT_UDP")
  case False
  then have "s' = s" using assms(1) by (simp add: output_ChangeMtu_def)
  then show ?thesis using set_ident_same by blast
next
  case True
  let ?p = "pp_outputs s ! n"
  let ?q = "?p\<lparr>config := (config ?p)\<lparr>i_config := (i_config (config ?p) AND NOT OUTPUT_UDP) OR (i_config c AND OUTPUT_UDP),
             i_mtu := i_mtu c\<rparr>\<rparr>"
  from assms(1) True obtain p where v: "output_PacketVacuum ?q = Some p"
    by (auto simp: output_ChangeMtu_def Let_def bind_eq_Some_conv)
  from PacketVacuum_config [OF v] have id: "snd (ident p) = snd (ident ?p)" "config p = config ?q"
    by (simp_all add: ident_def)
  have put: "\<exists>v. idents (upd_out (Nth n) (\<lambda>_. p\<lparr>o_packets := pks\<rparr>) t) = set_ident n v s" if "idents t = idents s" for pks t
    by (rule idents_put_flags [OF that _ assms(2)]) (use id in \<open>simp add: ident_def\<close>)
  obtain b t where call: "sys_call SysRealloc s = (b, t)" by (cases "sys_call SysRealloc s")
  have id': "idents t = idents s" using call by (rule idents_call')
  have same: "p\<lparr>o_packets := o_packets p\<rparr> = p" by simp
  show ?thesis
    using assms(1) True v put [OF id'] put [of s "o_packets p"] call
    by (auto simp: output_ChangeMtu_def Let_def bind_eq_Some_conv same simp del: upd_out.simps split: if_splits)
qed

lemma Change_idents:
  assumes "output_Change B (Nth n) c s = Some s'"
  shows "n < length (pp_outputs s) \<and> (\<exists>v. idents s' = set_ident n v s)"
proof -
  from assms have n: "n < length (pp_outputs s)" by (simp add: output_Change_def bind_eq_Some_conv)
  have raw: "ident (p\<lparr>raw_pkt_header := h\<rparr>) = ident p" for p h by (simp add: ident_def)
  let ?s1 = "upd_out (Nth n) (\<lambda>p. p\<lparr>config := (config p)\<lparr>pi_ssrc := pi_ssrc c,
               i_output_latency := i_output_latency c, i_max_retention := i_max_retention c\<rparr>\<rparr>) s"
  let ?s3 = "output_ChangeTos c (Nth n) (output_ChangeTtl c (Nth n) ?s1)"
  have i: "idents ?s3 = idents s" by (simp only: idents_Tos idents_Ttl) (rule idents_upd_out, simp add: ident_def)
  obtain s4 where 4: "output_ChangeMtu B c (Nth n) ?s3 = Some s4" and r: "idents s' = idents s4"
  proof (cases "has_flag (i_config c) OUTPUT_RAW")
    case False
    then show ?thesis using assms n that [of s'] by (simp add: output_Change_def Let_def del: upd_out.simps split: option.splits)
  next
    case True
    then obtain s4 a where s4: "output_ChangeMtu B c (Nth n) ?s3 = Some s4"
      and s': "s' = upd_out (Nth n) (\<lambda>p. p\<lparr>raw_pkt_header := (raw_pkt_header p)
               \<lparr>ip_saddr := inet_addr B a, udp_source := htons (word_of_int (i_srcport c))\<rparr>\<rparr>) s4"
      using assms n by (auto simp: output_Change_def Let_def bind_eq_Some_conv simp del: upd_out.simps split: option.splits)
    have "idents s' = idents s4" unfolding s' by (rule idents_upd_out) (rule raw)
    with s4 show ?thesis by (rule that)
  qed
  have "n < length (pp_outputs ?s3)" using n idents_length [OF i] by simp
  from ChangeMtu_idents [OF 4 this] obtain v where "idents s4 = set_ident n v s" using set_ident_cong [OF i] by auto
  then show ?thesis using n r by auto
qed

lemma calls_only_idents: "calls_only s s' \<Longrightarrow> idents s' = idents s"
  by (auto simp: calls_only_def idents_def conf_globals_def)

lemma Adopt_ident:
  assumes "i_config (config p) = 0"
  shows "snd (ident (output_Adopt c p)) = (i_family c, connect_addr c, bind_addr c, i_if_index_v6 c)"
    "fst (ident (output_Adopt c p)) = 0 \<or> fst (ident (output_Adopt c p)) = OUTPUT_RAW"
  using assms by (simp_all add: ident_def output_Adopt_def Let_def init_pid_mapping_def)

lemma ident_handle [simp]: "ident (p\<lparr>i_handle := fd\<rparr>) = ident p"
  by (simp add: ident_def)

lemma RawHeader_ident: "output_RawHeader B c p = Some p' \<Longrightarrow> ident p' = ident p"
  by (auto simp: output_RawHeader_def ident_def split: if_splits option.splits)

lemma set_valid_ident: "snd (ident (set_valid v p)) = snd (ident p)"
  "fst (ident p) = 0 \<or> fst (ident p) = OUTPUT_RAW \<Longrightarrow> \<not> has_flag (fst (ident (set_valid v p))) OUTPUT_STILL_PRESENT"
  by (auto simp: ident_def set_valid_def has_flag_def output_flags bit.conj_disj_distrib2)

text \<open>A slot that is set up is known by the addresses of the line, and is not marked yet.\<close>

definition fresh :: "output_config \<Rightarrow> output_st \<Rightarrow> bool" where
  "fresh c p \<longleftrightarrow> snd (ident p) = (i_family c, connect_addr c, bind_addr c, i_if_index_v6 c)
     \<and> \<not> has_flag (fst (ident p)) OUTPUT_STILL_PRESENT"

lemma Init_fresh:
  assumes "output_Init B (Nth n) c s = Some (rc, s')"
  shows "n < length (pp_outputs s) \<and> (\<exists>p t. s' = upd_out (Nth n) (\<lambda>_. p) t \<and> calls_only s t \<and> fresh c p)"
proof -
  from assms have n: "n < length (pp_outputs s)" by (simp add: output_Init_def bind_eq_Some_conv)
  define p1 s1 where "p1 = fst (output_Randomize (zero_output (config_Init s)) s)"
    and "s1 = snd (output_Randomize (zero_output (config_Init s)) s)"
  have rnd: "output_Randomize (zero_output (config_Init s)) s = (p1, s1)" by (simp add: p1_def s1_def)
  define fd s2 where "fd = fst (sys_call (socket_call c) s1)" and "s2 = snd (sys_call (socket_call c) s1)"
  have sock: "sys_call (socket_call c) s1 = (fd, s2)" by (simp add: fd_def s2_def)
  have c2: "calls_only s s2" by (simp add: s2_def s1_def)
  define p2 where "p2 = (output_Adopt c p1)\<lparr>i_handle := fd\<rparr>"
  have id2: "snd (ident p2) = (i_family c, connect_addr c, bind_addr c, i_if_index_v6 c)"
    "fst (ident p2) = 0 \<or> fst (ident p2) = OUTPUT_RAW"
    using Adopt_ident [of p1 c] by (simp_all add: p2_def p1_def)
  have fr: "fresh c (set_valid v q)" if "ident q = ident p2" for v q
    using set_valid_ident(1) [of v q] set_valid_ident(2) [of q v] id2 that by (simp add: fresh_def)
  show ?thesis
  proof (cases "fd < 0")
    case True
    then have "s' = upd_out (Nth n) (\<lambda>_. set_valid False p2) s2"
      using assms n by (simp add: output_Init_def rnd sock Let_def p2_def)
    then show ?thesis using n c2 fr [OF refl] by blast
  next
    case False
    define s3 where "s3 = output_Bind c fd s2"
    have c3: "calls_only s s3" using c2 by (simp add: s3_def)
    from False assms n obtain p3 where p3: "output_RawHeader B c p2 = Some p3"
      by (auto simp: output_Init_def rnd sock Let_def p2_def bind_eq_Some_conv)
    define rc' s4 where "rc' = fst (sys_call (SysConnect fd (connect_addr c)) s3)"
      and "s4 = snd (sys_call (SysConnect fd (connect_addr c)) s3)"
    have conn: "sys_call (SysConnect fd (connect_addr c)) s3 = (rc', s4)" by (simp add: rc'_def s4_def)
    have c4: "calls_only s s4" "calls_only s (snd (sys_call (SysClose fd) s4))" using c3 by (simp_all add: s4_def)
    have "s' = upd_out (Nth n) (\<lambda>_. set_valid False p3) (snd (sys_call (SysClose fd) s4))
        \<or> s' = upd_out (Nth n) (\<lambda>_. set_valid True p3) s4"
      using False n p3(1) assms by (auto simp: output_Init_def rnd sock Let_def conn p3 simp flip: p2_def s3_def split: if_splits)
    then show ?thesis using n c4 fr [OF RawHeader_ident [OF p3]] by blast
  qed
qed

lemma calls_only_globals: "calls_only s t \<Longrightarrow> conf_globals t = conf_globals s"
  by (auto simp: calls_only_def conf_globals_def)

lemma Create_fresh:
  assumes "output_Create B c s = Some (r, s')"
  shows "\<exists>i. fresh c (pp_outputs s' ! i) \<and> i < length (pp_outputs s') \<and> (r = None \<or> r = Some i)
     \<and> conf_globals s' = conf_globals s \<and> (i < length (pp_outputs s) \<longrightarrow> \<not> out_valid (pp_outputs s ! i))
     \<and> (\<forall>j. j \<noteq> i \<longrightarrow> (j < length (pp_outputs s') \<longleftrightarrow> j < length (pp_outputs s)) \<and>
            (j < length (pp_outputs s) \<longrightarrow> pp_outputs s' ! j = pp_outputs s ! j))"
proof -
  let ?i = "index_of (\<lambda>p. \<not> out_valid p) (pp_outputs s)"
  define s0 where "s0 = (if ?i = length (pp_outputs s)
              then s\<lparr>pp_outputs := pp_outputs s @ [zero_output (config_Init s)]\<rparr> else s)"
  from assms obtain rc where I: "output_Init B (Nth ?i) c s0 = Some (rc, s')" and r: "r = (if rc < 0 then None else Some ?i)"
    by (auto simp: output_Create_def Let_def bind_eq_Some_conv s0_def)
  from Init_fresh [OF I] obtain p t where n: "?i < length (pp_outputs s0)" and s': "s' = upd_out (Nth ?i) (\<lambda>_. p) t"
    and c: "calls_only s0 t" and f: "fresh c p" by blast
  have o: "pp_outputs s' = (pp_outputs s0)[?i := p]" using calls_only_outputs(3) [OF c] by (simp add: s')
  have len: "length (pp_outputs s0) = (if ?i = length (pp_outputs s) then Suc (length (pp_outputs s)) else length (pp_outputs s))"
    by (simp add: s0_def)
  have le: "?i \<le> length (pp_outputs s)" by (rule index_of_le)
  have "conf_globals s' = conf_globals s" using calls_only_globals [OF c] by (simp add: s' s0_def conf_globals_def)
  moreover have "\<not> out_valid (pp_outputs s ! ?i)" if "?i < length (pp_outputs s)"
    using index_of_hit [of "\<lambda>p. \<not> out_valid p" "pp_outputs s"] that by simp
  moreover have "(j < length (pp_outputs s') \<longleftrightarrow> j < length (pp_outputs s)) \<and>
            (j < length (pp_outputs s) \<longrightarrow> pp_outputs s' ! j = pp_outputs s ! j)" if "j \<noteq> ?i" for j
    using that le len by (auto simp: o s0_def nth_append)
  ultimately show ?thesis using f n r by (intro exI [of _ ?i]) (simp add: o)
qed

lemma Init_fails:
  assumes "output_Init B (Nth n) c s = Some (rc, s')" and "rc < 0"
  shows "\<exists>n. sys_ret s n < 0"
proof (rule ccontr)
  assume "\<nexists>n. sys_ret s n < 0"
  then have pos: "0 \<le> sys_ret s n" for n by (meson not_le)
  define p1 s1 where "p1 = fst (output_Randomize (zero_output (config_Init s)) s)"
    and "s1 = snd (output_Randomize (zero_output (config_Init s)) s)"
  have rnd: "output_Randomize (zero_output (config_Init s)) s = (p1, s1)" by (simp add: p1_def s1_def)
  have call: "0 \<le> fst (sys_call k t)" if "calls_only s t" for k t
    using that pos by (auto simp: sys_call_def Let_def calls_only_def)
  define fd s2 where "fd = fst (sys_call (socket_call c) s1)" and "s2 = snd (sys_call (socket_call c) s1)"
  have sock: "sys_call (socket_call c) s1 = (fd, s2)" by (simp add: fd_def s2_def)
  have c2: "calls_only s s2" "0 \<le> fd" by (simp_all add: fd_def s2_def s1_def call)
  define s3 where "s3 = output_Bind c fd s2"
  obtain rc' s4 where conn: "sys_call (SysConnect fd (connect_addr c)) s3 = (rc', s4)"
    by (cases "sys_call (SysConnect fd (connect_addr c)) s3")
  have "0 \<le> rc'" using call [of s3 "SysConnect fd (connect_addr c)"] c2(1) conn by (simp add: s3_def)
  then show False
    using assms c2(2) by (auto simp: output_Init_def rnd sock Let_def bind_eq_Some_conv conn simp flip: s3_def split: if_splits)
qed

lemma Create_fails:
  assumes "output_Create B c s = Some (None, s')"
  shows "\<exists>n. sys_ret s n < 0"
  using assms Init_fails [of B "index_of (\<lambda>p. \<not> out_valid p) (pp_outputs s)" c]
  by (fastforce simp: output_Create_def Let_def bind_eq_Some_conv split: if_splits)

subsection \<open>One line\<close>

text \<open>An output is marked by a line, or it is as it was.\<close>

lemma Find_matches: "output_Find c s = Some i \<Longrightarrow> i < length (pp_outputs s) \<and> output_matches c (pp_outputs s ! i)"
  using index_of_le [of "output_matches c" "pp_outputs s"] index_of_hit [of "output_matches c" "pp_outputs s"]
  by (auto simp: output_Find_def Let_def split: if_splits)

definition kept :: "output_config \<Rightarrow> nat option \<Rightarrow> 'a dvbdemux_scheme \<Rightarrow> 'a dvbdemux_scheme \<Rightarrow> bool" where
  "kept c i s s' \<longleftrightarrow> conf_globals s' = conf_globals s \<and> length (pp_outputs s) \<le> length (pp_outputs s')
     \<and> (\<forall>j. i = Some j \<longrightarrow> j < length (pp_outputs s'))
     \<and> (\<forall>j < length (pp_outputs s'). if i = Some j
          then output_matches c (pp_outputs s' ! j) \<and> has_flag (i_config (config (pp_outputs s' ! j))) OUTPUT_STILL_PRESENT
            \<and> (j < length (pp_outputs s) \<longrightarrow> out_valid (pp_outputs s ! j) \<longrightarrow>
                 (\<forall>d. output_matches d (pp_outputs s ! j) \<longrightarrow> output_matches d (pp_outputs s' ! j)))
          else if j < length (pp_outputs s) \<and> ident (pp_outputs s' ! j) = ident (pp_outputs s ! j) then True
          else \<not> has_flag (i_config (config (pp_outputs s' ! j))) OUTPUT_STILL_PRESENT
            \<and> (j < length (pp_outputs s) \<longrightarrow> \<not> out_valid (pp_outputs s ! j)))"

lemma kept_globals: "kept c i s s' \<Longrightarrow> conf_globals s' = conf_globals s"
  and kept_longer: "kept c i s s' \<Longrightarrow> length (pp_outputs s) \<le> length (pp_outputs s')"
  and kept_index: "kept c (Some j) s s' \<Longrightarrow> j < length (pp_outputs s')"
  by (simp_all add: kept_def)

lemma kept_here:
  assumes "kept c (Some j) s s'"
  shows "output_matches c (pp_outputs s' ! j) \<and> has_flag (i_config (config (pp_outputs s' ! j))) OUTPUT_STILL_PRESENT"
    "j < length (pp_outputs s) \<Longrightarrow> out_valid (pp_outputs s ! j) \<Longrightarrow> output_matches d (pp_outputs s ! j) \<Longrightarrow>
       output_matches d (pp_outputs s' ! j)"
  using assms by (simp_all add: kept_def)

lemma kept_else:
  assumes "kept c i s s'" and "i \<noteq> Some j" and "j < length (pp_outputs s')"
  shows "(j < length (pp_outputs s) \<and> ident (pp_outputs s' ! j) = ident (pp_outputs s ! j))
    \<or> \<not> has_flag (i_config (config (pp_outputs s' ! j))) OUTPUT_STILL_PRESENT
       \<and> (j < length (pp_outputs s) \<longrightarrow> \<not> out_valid (pp_outputs s ! j))"
  using assms unfolding kept_def by meson

lemma line_changes:
  assumes "output_Change B (Nth n) (present c) (upd_out (Nth n) (\<lambda>p. p\<lparr>config := (config p)\<lparr>psz_displayname := d\<rparr>\<rparr>) s) = Some s1"
    and "demux_Change B n (present c) s1 = Some s'"
  shows "n < length (pp_outputs s) \<and> idents s' = set_ident n (i_config (present c)) s"
proof -
  let ?s = "upd_out (Nth n) (\<lambda>p. p\<lparr>config := (config p)\<lparr>psz_displayname := d\<rparr>\<rparr>) s"
  have i: "idents ?s = idents s" by (rule idents_upd_out) (simp add: ident_def)
  from Change_idents [OF assms(1)] obtain v where n: "n < length (pp_outputs ?s)"
    and v: "idents s1 = set_ident n v s" using set_ident_cong [OF i] by auto
  from demux_Change_idents [OF assms(2)] set_ident_twice [OF v] n idents_length [OF i] show ?thesis by simp
qed

lemma id_matches_both:
  "id_matches c (v, a) \<Longrightarrow> id_matches d (v, a) \<Longrightarrow> id_matches d (i_config (present c), a)"
  by (auto simp: id_matches_def flag_xor)

lemma apply_line_kept:
  assumes "apply_line B c s = Some s'"
  shows "\<exists>i. kept c i s s' \<and> (i = None \<longrightarrow> (\<exists>n. sys_ret s n < 0))"
proof (cases "output_Find c s")
  case (Some n)
  note F = Find_matches [OF Some]
  from assms Some have L: "idents s' = set_ident n (i_config (present c)) s"
    by (auto simp: apply_line_def bind_eq_Some_conv Let_def simp del: upd_out.simps dest: line_changes)
  note D = set_identD [OF L]
  have m: "output_matches c (pp_outputs s' ! n)"
    using F D(3) [of n] id_matches_present [of c "fst (ident (pp_outputs s ! n))" "snd (ident (pp_outputs s ! n))"]
    by (simp add: output_matches_ident)
  have f: "has_flag (i_config (config (pp_outputs s' ! n))) OUTPUT_STILL_PRESENT"
    using F D(3) [of n] present_flags(2) [of c] by (simp add: ident_def)
  have k: "output_matches d (pp_outputs s' ! n)" if "output_matches d (pp_outputs s ! n)" for d
    using F D(3) [of n] that
      id_matches_both [of c "fst (ident (pp_outputs s ! n))" "snd (ident (pp_outputs s ! n))" d]
    by (simp add: output_matches_ident)
  have "kept c (Some n) s s'" using m f D k F by (auto simp: kept_def)
  then show ?thesis by blast
next
  case None
  from assms None obtain r s1 where C: "output_Create B c s = Some (r, s1)"
    and R: "(case r of None \<Rightarrow> Some s1
       | Some n \<Rightarrow> do { let s = upd_out (Nth n) (\<lambda>p. p\<lparr>config := (config p)\<lparr>psz_displayname := psz_displayname c\<rparr>\<rparr>) s1;
          s \<leftarrow> output_Change B (Nth n) (present c) s;
          demux_Change B n (present c) s }) = Some s'"
    by (auto simp: apply_line_def bind_eq_Some_conv simp del: upd_out.simps)
  from Create_fresh [OF C] obtain i where
    f: "fresh c (pp_outputs s1 ! i)" and i: "i < length (pp_outputs s1)" and r: "r = None \<or> r = Some i"
    and g: "conf_globals s1 = conf_globals s" and nv: "i < length (pp_outputs s) \<longrightarrow> \<not> out_valid (pp_outputs s ! i)"
    and oth: "\<And>j. j \<noteq> i \<Longrightarrow> (j < length (pp_outputs s1) \<longleftrightarrow> j < length (pp_outputs s)) \<and>
            (j < length (pp_outputs s) \<longrightarrow> pp_outputs s1 ! j = pp_outputs s ! j)" by blast
  have le: "length (pp_outputs s) \<le> length (pp_outputs s1)"
    using oth [of "length (pp_outputs s1)"] i by (metis less_irrefl not_le)
  show ?thesis
  proof (cases r)
    case None
    with R have "s' = s1" by simp
    have fl: "\<not> has_flag (i_config (config (pp_outputs s1 ! i))) OUTPUT_STILL_PRESENT"
      using f by (simp add: fresh_def ident_def)
    have "(j < length (pp_outputs s) \<and> ident (pp_outputs s1 ! j) = ident (pp_outputs s ! j)) \<or> j = i"
      if "j < length (pp_outputs s1)" for j
      using that oth [of j] by auto
    then have "kept c None s s1" using fl g nv le by (auto simp: kept_def)
    then show ?thesis unfolding \<open>s' = s1\<close> using Create_fails C None by blast
  next
    case (Some n)
    with r have n: "n = i" by simp
    from R Some have L: "idents s' = set_ident i (i_config (present c)) s1"
      by (auto simp: bind_eq_Some_conv Let_def n simp del: upd_out.simps dest: line_changes)
    note D = set_identD [OF L]
    have id: "ident (pp_outputs s' ! i) = (i_config (present c), snd (ident (pp_outputs s1 ! i)))" using D(3) [OF i] by simp
    have m: "output_matches c (pp_outputs s' ! i)"
      using id f id_matches_own [of c] by (simp add: output_matches_ident fresh_def)
    have st: "has_flag (i_config (config (pp_outputs s' ! i))) OUTPUT_STILL_PRESENT"
      using id present_flags(2) [of c] by (simp add: ident_def)
    have "ident (pp_outputs s' ! j) = ident (pp_outputs s ! j) \<and> j < length (pp_outputs s)"
      if "j \<noteq> i" "j < length (pp_outputs s')" for j
      using that oth [OF that(1)] D(1) D(3) [of j] by simp
    then have "kept c (Some i) s s'" using m st D(1,2) g le nv i by (auto simp: kept_def)
    then show ?thesis by blast
  qed
qed

subsection \<open>What a line says\<close>

text \<open>The open converter only has a say in the names.\<close>

definition unnamed :: "output_config \<Rightarrow> output_config" where
  "unnamed c = c\<lparr>network_name := [], service_name := [], provider_name := []\<rparr>"

lemma unnamed_matches: "output_matches (unnamed c) p = output_matches c p"
  by (simp add: output_matches_def unnamed_def Let_def)

lemma unnamed_mtu: "unnamed (check_mtu B c) = check_mtu B (unnamed c)"
  by (simp add: check_mtu_def unnamed_def Let_def)

lemma unnamed_streams: "unnamed (config_streams t r (watch_flag w c)) = config_streams t r (watch_flag w (unnamed c))"
  by (simp add: config_streams_def unnamed_def watch_flag_def Let_def split: option.splits)

lemma set_names_unnamed: "set_names L native st h = Some (c, h') \<Longrightarrow> unnamed c = unnamed (fst st)"
  by (auto simp: set_names_def unnamed_def bind_eq_Some_conv split: prod.splits if_splits)

lemma ParseHost_any:
  assumes "config_ParseHost B L s d z h = Some (Some c, h1)" and "config_ParseHost B L s d z h' = Some r"
  shows "\<exists>c' h2. r = (Some c', h2) \<and> unnamed c' = unnamed c"
  using assms
  by (auto simp: config_ParseHost_def bind_eq_Some_conv Let_def unnamed_mtu split: prod.splits option.splits if_splits
      dest!: set_names_unnamed)

lemma parse_line_any:
  assumes "parse_line B L s l h = Some (Some c, h1)" and "parse_line B L s l h' = Some r"
  shows "\<exists>c' h2. r = (Some c', h2) \<and> unnamed c' = unnamed c"
proof -
  from assms(1) obtain host rest where f1: "strtok blanks (strip_comment l) = Some (host, rest)"
    by (cases "strtok blanks (strip_comment l)") (auto simp: parse_line_def)
  from assms(1) f1 obtain x0 h0 where p0: "config_ParseHost B L s (config_Defaults s) host h = Some (x0, h0)"
    and y: "(case x0 of None \<Rightarrow> Some (None, h0) | Some c0 \<Rightarrow> (case strtok blanks rest of None \<Rightarrow> Some (None, h0)
       | Some (w, r) \<Rightarrow> (case strtok blanks r of None \<Rightarrow> Some (None, h0)
         | Some (t, r) \<Rightarrow> Some (Some (config_streams t r (watch_flag w c0)), h0)))) = Some (Some c, h1)"
    by (auto simp only: parse_line_def bind_eq_Some_conv option.case prod.case)
  then obtain c0 where x0: "x0 = Some c0" by (cases x0) auto
  note p = p0 [unfolded x0] and x = y [unfolded x0 option.case]
  from x obtain w r1 t r2 where 1: "strtok blanks (strip_comment l) = Some (host, rest)"
    "strtok blanks rest = Some (w, r1)" "strtok blanks r1 = Some (t, r2)" "c = config_streams t r2 (watch_flag w c0)"
    using f1 by (auto split: option.splits prod.splits)
  from assms(2) 1 obtain q where q: "config_ParseHost B L s (config_Defaults s) host h' = Some q"
    by (auto simp: parse_line_def bind_eq_Some_conv)
  from ParseHost_any [OF p q] obtain c' h2 where "q = (Some c', h2)" "unnamed c' = unnamed c0" by blast
  then show ?thesis using assms(2) 1 q by (auto simp: parse_line_def unnamed_streams)
qed

lemma conf_globalsD:
  assumes "conf_globals s = conf_globals t"
  shows "config_Defaults s = config_Defaults t" "psz_dvb_charset s = psz_dvb_charset t"
    "native_charset s = native_charset t" "sys_ret s = sys_ret t"
  using assms by (simp_all add: config_Defaults_def config_Init_def conf_globals_def)

lemma parse_line_globals:
  assumes "conf_globals s = conf_globals t"
  shows "parse_line B L s l h = parse_line B L t l h"
  unfolding parse_line_def config_ParseHost_def conf_globalsD [OF assms] by (rule refl)

subsection \<open>All lines\<close>

abbreviation marked :: "output_st \<Rightarrow> bool" where
  "marked p \<equiv> has_flag (i_config (config p)) OUTPUT_STILL_PRESENT"

text \<open>Line \<open>l\<close>, read with the settings of \<open>s\<close>, describes the output \<open>p\<close>.\<close>

definition describes ::
  "'b psi_lib_scheme \<Rightarrow> 'c conf_lib_scheme \<Rightarrow> 'a dvbdemux_scheme \<Rightarrow> string \<Rightarrow> output_st \<Rightarrow> bool" where
  "describes B L s l p \<longleftrightarrow> (\<exists>h c h'. parse_line B L s l h = Some (Some c, h') \<and> output_matches c p)"

lemma kept_marks:
  assumes "kept c i s s'" and "\<forall>p\<in>set (pp_outputs s). marked p \<longrightarrow> P p" and "\<And>p. output_matches c p \<Longrightarrow> P p"
    and "\<And>p q. ident p = ident q \<Longrightarrow> P p \<Longrightarrow> P q"
  shows "\<forall>p\<in>set (pp_outputs s'). marked p \<longrightarrow> P p"
proof (intro ballI impI)
  fix p assume "p \<in> set (pp_outputs s')" and m: "marked p"
  then obtain j where j: "j < length (pp_outputs s')" "p = pp_outputs s' ! j" by (metis in_set_conv_nth)
  show "P p"
  proof (cases "i = Some j")
    case True
    then show ?thesis using assms(1,3) j kept_here(1) by blast
  next
    case False
    from kept_else [OF assms(1) this j(1)] m have e: "j < length (pp_outputs s)" "ident p = ident (pp_outputs s ! j)"
      by (simp_all add: j(2) [symmetric])
    then have "marked (pp_outputs s ! j)" using m by (simp add: ident_def)
    then show ?thesis using e assms(2,4) by (metis nth_mem)
  qed
qed

lemma kept_found:
  assumes "kept c i s s'" and "p \<in> set (pp_outputs s)" and "marked p" and "output_matches d p"
  shows "\<exists>q\<in>set (pp_outputs s'). marked q \<and> output_matches d q"
proof -
  from assms(2) obtain j where j: "j < length (pp_outputs s)" "p = pp_outputs s ! j" by (metis in_set_conv_nth)
  from kept_longer [OF assms(1)] j have j': "j < length (pp_outputs s')" by simp
  have v: "out_valid p" using assms(4) by (simp add: output_matches_def Let_def)
  have "marked (pp_outputs s' ! j) \<and> output_matches d (pp_outputs s' ! j)"
  proof (cases "i = Some j")
    case True
    then show ?thesis using assms(1,4) j v kept_here [of c j s s'] by simp
  next
    case False
    from kept_else [OF assms(1) this j'] have "ident (pp_outputs s' ! j) = ident p" using j v by simp
    then show ?thesis using assms(3,4) by (simp add: output_matches_ident ident_def)
  qed
  then show ?thesis using j' nth_mem by blast
qed

lemma read_line_step:
  assumes "read_line B L l (s, h) = Some (s', h')" and "conf_globals s = conf_globals s0"
  shows "conf_globals s' = conf_globals s0"
    "\<forall>p\<in>set (pp_outputs s). marked p \<longrightarrow> (\<exists>l\<in>LS. describes B L s0 l p) \<Longrightarrow> l \<in> LS \<Longrightarrow>
       \<forall>p\<in>set (pp_outputs s'). marked p \<longrightarrow> (\<exists>l\<in>LS. describes B L s0 l p)"
    "\<exists>p\<in>set (pp_outputs s). marked p \<and> output_matches d p \<Longrightarrow> \<exists>p\<in>set (pp_outputs s'). marked p \<and> output_matches d p"
    "\<forall>n. 0 \<le> sys_ret s0 n \<Longrightarrow> parse_line B L s0 l g = Some (Some d, g') \<Longrightarrow>
       \<exists>p\<in>set (pp_outputs s'). marked p \<and> output_matches d p"
proof -
  from assms(1) obtain x h1 where pl: "parse_line B L s l h = Some (x, h1)"
    and r: "(case x of None \<Rightarrow> s' = s | Some c \<Rightarrow> apply_line B c s = Some s')"
    by (auto simp: read_line_def bind_eq_Some_conv split: option.splits)
  note pl0 = pl [unfolded parse_line_globals [OF assms(2), of B L l h]]
  have k: "\<exists>i. kept c i s s' \<and> (i = None \<longrightarrow> (\<exists>n. sys_ret s n < 0))" if "x = Some c" for c
    using r that apply_line_kept [of B c s s'] by simp
  show "conf_globals s' = conf_globals s0"
    using r k assms(2) by (cases x) (auto dest: kept_globals)
  show "\<forall>p\<in>set (pp_outputs s'). marked p \<longrightarrow> (\<exists>l\<in>LS. describes B L s0 l p)"
    if a: "\<forall>p\<in>set (pp_outputs s). marked p \<longrightarrow> (\<exists>l\<in>LS. describes B L s0 l p)" and l: "l \<in> LS"
  proof (cases x)
    case None
    then show ?thesis using r a by simp
  next
    case (Some c)
    from k [OF this] obtain i where i: "kept c i s s'" by blast
    show ?thesis
    proof (rule kept_marks [OF i a])
      show "\<exists>l\<in>LS. describes B L s0 l p" if "output_matches c p" for p
        using that l pl0 Some unfolding describes_def by blast
      show "\<exists>l\<in>LS. describes B L s0 l q" if "ident p = ident q" "\<exists>l\<in>LS. describes B L s0 l p" for p q
        using that by (auto simp: describes_def output_matches_ident)
    qed
  qed
  show "\<exists>p\<in>set (pp_outputs s'). marked p \<and> output_matches d p"
    if "\<exists>p\<in>set (pp_outputs s). marked p \<and> output_matches d p"
  proof (cases x)
    case None
    then show ?thesis using r that by simp
  next
    case (Some c)
    with k kept_found that show ?thesis by blast
  qed
  show "\<exists>p\<in>set (pp_outputs s'). marked p \<and> output_matches d p"
    if pos: "\<forall>n. 0 \<le> sys_ret s0 n" and p: "parse_line B L s0 l g = Some (Some d, g')"
  proof -
    from parse_line_any [OF p pl0] obtain c where c: "x = Some c" "unnamed c = unnamed d" by auto
    from assms(2) have "sys_ret s = sys_ret s0" by (simp add: conf_globals_def)
    with k [OF c(1)] pos obtain j where "kept c (Some j) s s'" by (metis not_le option.exhaust)
    then have "marked (pp_outputs s' ! j) \<and> output_matches c (pp_outputs s' ! j)" "j < length (pp_outputs s')"
      using kept_here(1) kept_index by blast+
    then show ?thesis using c(2) unnamed_matches by (metis nth_mem)
  qed
qed

lemma read_lines:
  assumes "ofold (read_line B L) ls (s, h) = Some (s', h')" and "conf_globals s = conf_globals s0" and "set ls \<subseteq> LS"
    and "\<forall>p\<in>set (pp_outputs s). marked p \<longrightarrow> (\<exists>l\<in>LS. describes B L s0 l p)"
  shows "conf_globals s' = conf_globals s0 \<and> (\<forall>p\<in>set (pp_outputs s'). marked p \<longrightarrow> (\<exists>l\<in>LS. describes B L s0 l p))
    \<and> (\<forall>d. (\<exists>p\<in>set (pp_outputs s). marked p \<and> output_matches d p) \<longrightarrow> (\<exists>p\<in>set (pp_outputs s'). marked p \<and> output_matches d p))
    \<and> ((\<forall>n. 0 \<le> sys_ret s0 n) \<longrightarrow> (\<forall>l\<in>set ls. \<forall>g d g'. parse_line B L s0 l g = Some (Some d, g') \<longrightarrow>
         (\<exists>p\<in>set (pp_outputs s'). marked p \<and> output_matches d p)))"
  using assms
proof (induction ls arbitrary: s h)
  case (Cons l ls)
  then obtain s1 h1 where 1: "read_line B L l (s, h) = Some (s1, h1)" and 2: "ofold (read_line B L) ls (s1, h1) = Some (s', h')"
    by (auto split: option.splits)
  note R = read_line_step [OF 1 Cons.prems(2)]
  have "\<forall>p\<in>set (pp_outputs s1). marked p \<longrightarrow> (\<exists>l\<in>LS. describes B L s0 l p)" using R(2) Cons.prems(3,4) by simp
  note I = Cons.IH [OF 2 R(1) _ this]
  have "set ls \<subseteq> LS" using Cons.prems(3) by simp
  note I = I [OF this]
  note IH = I [THEN conjunct1] I [THEN conjunct2, THEN conjunct1]
    I [THEN conjunct2, THEN conjunct2, THEN conjunct1, rule_format]
    I [THEN conjunct2, THEN conjunct2, THEN conjunct2, rule_format]
  have "\<exists>p\<in>set (pp_outputs s'). marked p \<and> output_matches d p"
    if "\<forall>n. 0 \<le> sys_ret s0 n" "k \<in> set (l # ls)" "parse_line B L s0 k g = Some (Some d, g')" for k g d g'
  proof (cases "k = l")
    case True
    show ?thesis by (rule IH(3)) (rule R(4) [OF that(1) that(3) [unfolded True]])
  next
    case False
    show ?thesis by (rule IH(4)) (use that False in auto)
  qed
  then show ?case using IH(1,2,3) R(3) by blast
qed simp

subsection \<open>The sweep\<close>

lemma heap_only_idents: "heap_only s s' \<Longrightarrow> idents s' = idents s"
  by (auto simp: heap_only_def idents_def conf_globals_def)

lemma close_packet_idents: "close_packet (Nth n) pk s = Some s' \<Longrightarrow> idents s' = idents s"
proof -
  assume "close_packet (Nth n) pk s = Some s'"
  then obtain s1 where s1: "ofold block_Release (pk_blocks pk) s = Some s1"
    and s': "s' = upd_out (Nth n) (\<lambda>p. output_PacketDelete pk (p\<lparr>o_packets := tl (o_packets p)\<rparr>)) s1"
    by (auto simp: close_packet_def bind_eq_Some_conv)
  have "idents s' = idents s1" unfolding s' by (rule idents_upd_out) (simp add: ident_def output_PacketDelete_def)
  also have "\<dots> = idents s" using heap_only_idents [OF heap_only_ofold [OF heap_only_Release s1]] .
  finally show ?thesis .
qed

lemma Close_idents:
  assumes "output_Close (Nth n) s = Some s'"
  shows "n < length (pp_outputs s) \<and> idents s' = set_ident n (i_config (config (pp_outputs s ! n)) AND NOT OUTPUT_VALID) s"
proof -
  from assms obtain s1 p s2 where n: "n < length (pp_outputs s)"
    and 1: "ofold (close_packet (Nth n)) (o_packets (pp_outputs s ! n)) s = Some s1"
    and p: "output_PacketVacuum (pp_outputs s1 ! n) = Some p"
    and 2: "(case p_eit_ts_buffer p of None \<Rightarrow> Some s1 | Some b \<Rightarrow> c_free b s1) = Some s2"
    and s': "s' = snd (sys_call (SysClose (i_handle p)) (upd_out (Nth n) (\<lambda>_. p\<lparr>o_packets := [], p_pat_section := None, p_pmt_section := None,
                p_nit_section := None, p_sdt_section := None, p_eit_ts_buffer := None,
                config := (config p)\<lparr>i_config := i_config (config p) AND NOT OUTPUT_VALID\<rparr>\<rparr>) s2))"
    by (auto simp: output_Close_eq Let_def bind_eq_Some_conv simp del: upd_out.simps)
  have i1: "idents s1 = idents s"
    using 1 by (rule ofold_frame [where g = idents, rotated]) (rule close_packet_idents)
  have l1: "n < length (pp_outputs s1)" using n idents_length [OF i1] by simp
  have e1: "ident (pp_outputs s1 ! n) = ident (pp_outputs s ! n)"
    using arg_cong [OF i1, of "\<lambda>x. fst x ! n"] nth_idents [OF l1] nth_idents [OF n] by simp
  have cfg: "config p = config (pp_outputs s1 ! n)" using p by (rule PacketVacuum_config)
  have i2: "idents s2 = idents s1" using 2 by (auto split: option.splits dest: heap_only_free heap_only_idents)
  have l2: "n < length (pp_outputs s2)" using l1 idents_length [OF i2] by simp
  have e2: "ident (pp_outputs s2 ! n) = ident (pp_outputs s1 ! n)"
    using arg_cong [OF i2, of "\<lambda>x. fst x ! n"] nth_idents [OF l1] nth_idents [OF l2] by simp
  have "idents s' = set_ident n (i_config (config p) AND NOT OUTPUT_VALID) s2"
    unfolding s' idents_call
    by (subst ident_set_ident [OF l2]) (use e2 cfg in \<open>simp_all add: ident_def\<close>)
  also have "\<dots> = set_ident n (i_config (config p) AND NOT OUTPUT_VALID) s"
    using set_ident_cong [OF i2] set_ident_cong [OF i1] by simp
  also have "i_config (config p) = i_config (config (pp_outputs s ! n))" using e1 cfg by (simp add: ident_def)
  finally show ?thesis using n by simp
qed

text \<open>What the sweep makes of one output.\<close>

definition swept :: "output_st \<Rightarrow> output_st \<Rightarrow> bool" where
  "swept p q \<longleftrightarrow> \<not> marked q \<and> (out_valid q \<longleftrightarrow> out_valid p \<and> marked p)
     \<and> (out_valid q \<longrightarrow> (\<forall>d. output_matches d q = output_matches d p))"

lemma clear_mark: "has_flag (v AND NOT OUTPUT_STILL_PRESENT) OUTPUT_VALID = has_flag v OUTPUT_VALID"
  "(v AND NOT OUTPUT_STILL_PRESENT) AND OUTPUT_RAW = v AND OUTPUT_RAW"
  by (simp_all add: has_flag_def output_flags and.assoc)

lemma clear_mark_matches: "id_matches d (v AND NOT OUTPUT_STILL_PRESENT, a) = id_matches d (v, a)"
  by (cases a) (simp add: id_matches_def clear_mark flag_xor)

lemma close_stale_swept:
  assumes "close_stale B n s = Some s'" and "n < length (pp_outputs s)"
  shows "\<exists>v. idents s' = set_ident n v s \<and> swept (pp_outputs s ! n) (pp_outputs s' ! n)"
proof -
  let ?p = "pp_outputs s ! n"
  define stale where "stale = (out_valid ?p \<and> \<not> marked ?p)"
  from assms obtain s1 where
    1: "(if stale then do { s \<leftarrow> demux_Change B n (config_Init s) s; output_Close (Nth n) s } else Some s) = Some s1"
    and s': "s' = upd_out (Nth n) (\<lambda>p. p\<lparr>config := (config p)\<lparr>
       i_config := i_config (config p) AND NOT OUTPUT_STILL_PRESENT\<rparr>\<rparr>) s1"
    by (auto simp: close_stale_def Let_def bind_eq_Some_conv stale_def simp del: upd_out.simps)
  define v where "v = (if stale then 0 else i_config (config ?p))"
  have i1: "idents s1 = set_ident n v s"
  proof (cases stale)
    case True
    with 1 obtain s2 where 2: "demux_Change B n (config_Init s) s = Some s2" "output_Close (Nth n) s2 = Some s1"
      by (auto simp: bind_eq_Some_conv)
    from demux_Change_idents [OF 2(1)] have d: "idents s2 = set_ident n 0 s" by simp
    have "i_config (config (pp_outputs s2 ! n)) = 0" using set_identD(3) [OF d assms(2)] by (simp add: ident_def)
    then show ?thesis using Close_idents [OF 2(2)] set_ident_twice [OF d] True by (simp add: v_def)
  next
    case False
    then have "s1 = s" using 1 by simp
    then show ?thesis using False set_ident_same [of s n] by (simp add: v_def ident_def)
  qed
  note D = set_identD [OF i1]
  have l1: "n < length (pp_outputs s1)" using D(1) assms(2) by simp
  have e1: "ident (pp_outputs s1 ! n) = (v, snd (ident ?p))" using D(3) [OF assms(2)] by simp
  have "idents s' = set_ident n (fst (ident (pp_outputs s' ! n))) s1"
    unfolding s' using l1 by (subst ident_set_ident) (simp_all add: ident_def)
  then have i': "idents s' = set_ident n (fst (ident (pp_outputs s' ! n))) s" using set_ident_twice [OF i1] by simp
  have e': "ident (pp_outputs s' ! n) = (v AND NOT OUTPUT_STILL_PRESENT, snd (ident ?p))"
    using e1 l1 by (simp add: s' ident_def)
  have "\<not> marked (pp_outputs s' ! n)" using arg_cong [OF e', of fst] by (simp add: ident_def)
  moreover have "out_valid (pp_outputs s' ! n) \<longleftrightarrow> has_flag v OUTPUT_VALID"
    using arg_cong [OF e', of fst] by (simp add: ident_def clear_mark)
  moreover have "has_flag v OUTPUT_VALID \<longleftrightarrow> out_valid ?p \<and> marked ?p" by (auto simp: v_def stale_def)
  moreover have "output_matches d (pp_outputs s' ! n) = output_matches d ?p" if "\<not> stale" for d
    unfolding output_matches_ident e' clear_mark_matches using that by (simp add: v_def ident_def)
  ultimately have "swept ?p (pp_outputs s' ! n)" by (auto simp: swept_def stale_def)
  with i' show ?thesis by blast
qed

lemma ofold_upt_inv:
  assumes "\<And>i s s'. i < n \<Longrightarrow> P i s \<Longrightarrow> f i s = Some s' \<Longrightarrow> P (Suc i) s'" and "P 0 s" and "ofold f [0..<n] s = Some s'"
  shows "P n s'"
  using assms
proof (induction n arbitrary: s')
  case (Suc n)
  from Suc.prems(3) obtain s1 where "ofold f [0..<n] s = Some s1" "f n s1 = Some s'"
    by (auto simp: ofold_append bind_eq_Some_conv split: option.splits)
  with Suc.IH [of s1] Suc.prems(1,2) show ?case by simp
qed simp

lemma sweep_all:
  fixes s s' :: "'a dvbdemux_scheme"
  assumes "ofold (close_stale B) [0..<length (pp_outputs s)] s = Some s'"
  shows "length (pp_outputs s') = length (pp_outputs s) \<and> (\<forall>i < length (pp_outputs s). swept (pp_outputs s ! i) (pp_outputs s' ! i))"
proof -
  define P where "P k t \<longleftrightarrow> length (pp_outputs t) = length (pp_outputs s)
    \<and> (\<forall>i < length (pp_outputs s). if i < k then \<exists>q. swept (pp_outputs s ! i) q \<and> ident q = ident (pp_outputs t ! i)
         else ident (pp_outputs t ! i) = ident (pp_outputs s ! i))" for k and t :: "'a dvbdemux_scheme"
  have same: "swept p q = swept p' q'" if "ident p = ident p'" "ident q = ident q'" for p p' q q'
    using that by (simp add: swept_def output_matches_ident) (simp add: ident_def)
  have "P (length (pp_outputs s)) s'"
  proof (rule ofold_upt_inv [OF _ _ assms])
    fix k t t' assume k: "k < length (pp_outputs s)" and Pk: "P k t" and c: "close_stale B k t = Some t'"
    from Pk k have kt: "k < length (pp_outputs t)" by (simp add: P_def)
    from close_stale_swept [OF c kt] obtain v where i: "idents t' = set_ident k v t"
      and w: "swept (pp_outputs t ! k) (pp_outputs t' ! k)" by blast
    note D = set_identD [OF i]
    have "ident (pp_outputs t ! k) = ident (pp_outputs s ! k)" using Pk k by (simp add: P_def)
    then have "swept (pp_outputs s ! k) (pp_outputs t' ! k)" using w same by blast
    then show "P (Suc k) t'" using Pk D k by (auto simp: P_def less_Suc_eq)
  qed (simp add: P_def)
  then show ?thesis using same unfolding P_def by metis
qed

end
