(* ===== verification/Dvb_ConfigClaims.thy ===== *)
theory Dvb_ConfigClaims
  imports Dvb_ReloadProps Dvb_DemuxClaims
begin

unbundle bit_operations_syntax

text \<open>
  The properties of the configuration. \<open>ex_conf\<close> resolves one host; the running program has two outputs, of
  which the file names the first.
\<close>

subsection \<open>Concrete configurations\<close>

definition ex_addr :: sockaddr where
  "ex_addr = \<lparr>ss_family = AF_INET, sa_data = [11, 185, 239, 0, 0, 1] @ replicate 120 0\<rparr>"

definition ex_conf :: conf_lib where
  "ex_conf = \<lparr>
     getaddrinfo = (\<lambda>node serv. if node = ''a'' then Some \<lparr>ss_family = AF_INET, sa_data = [11, 185, 239, 0, 0, 1]\<rparr> else None),
     iconv_open = (\<lambda>_ _. True), iconv = (\<lambda>_ _ b. Inl (filter (\<lambda>c. unat c < 128) b)),
     dvb_string_set = (\<lambda>b _. b), inet_aton = (\<lambda>_. None)\<rparr>"

definition ex_line :: string where "ex_line = ''a 0 *''"

definition ex_named :: output_config where
  "ex_named = (config_Defaults (ex_demux []))\<lparr>psz_displayname := ''a'', connect_addr := ex_addr, i_family := AF_INET,
     i_mtu := 1500, b_passthrough := True\<rparr>"

definition ex_running :: output_st where
  "ex_running = zero_output (ex_named\<lparr>i_config := OUTPUT_VALID\<rparr>)"

definition ex_other :: output_st where
  "ex_other = zero_output ((config_Init (ex_demux []))\<lparr>i_config := OUTPUT_VALID\<rparr>)"

definition ex_reload :: dvbdemux where
  "ex_reload = (ex_demux [])\<lparr>pp_outputs := [ex_running, ex_other]\<rparr>"

lemma ex_fields:
  "strtok blanks (strip_comment ex_line) = Some (''a'', ''0 *'')"
  "strtok blanks ''0 *'' = Some (''0'', ''*'')"
  "strtok blanks ''*'' = Some (''*'', [])"
  by code_simp+

lemma ex_node: "ParseNodeService ex_conf ''a'' DEFAULT_PORT = (Some \<lparr>ss_family = AF_INET, sa_data = [11, 185, 239, 0, 0, 1]\<rparr>, [])"
  by (simp add: ParseNodeService_def cut_node_def cut_port_def before_def str_pbrk_def ex_conf_def)

lemma ex_host: "config_ParseHost ex_psi ex_conf s c ''a'' None =
  Some (Some (check_mtu ex_psi (c\<lparr>psz_displayname := ''a'', connect_addr := copy_addr \<lparr>ss_family = AF_INET, sa_data = [11, 185, 239, 0, 0, 1]\<rparr> (connect_addr c),
     i_family := AF_INET\<rparr>)), None)"
  by (simp add: config_ParseHost_def ex_node Let_def AF_INET_def AF_UNSPEC_def)

lemma ex_parse: "parse_line ex_psi ex_conf (ex_demux []) ex_line None = Some (Some ex_named, None)"
proof -
  have w: "atoi ''0'' \<noteq> 1" by code_simp
  have z: "copy_addr \<lparr>ss_family = AF_INET, sa_data = [11, 185, 239, 0, 0, 1]\<rparr> zero_sockaddr = ex_addr"
    by (simp add: copy_addr_def ex_addr_def zero_sockaddr_def)
  have f: "AF_INET \<noteq> AF_INET6" by (simp add: AF_INET_def AF_INET6_def)
  show ?thesis
    by (simp add: f parse_line_def ex_fields ex_host config_streams_def watch_flag_def w ex_named_def check_mtu_def
        config_Defaults_def config_Init_def z DEFAULT_IPV4_MTU_def ex_demux_def ex_ci_defs dvben.defs dvbdemux.defs)
qed

lemma ex_reload_simps [simp]: "pp_outputs ex_reload = [ex_running, ex_other]"
  by (simp add: ex_reload_def)

lemma ex_find: "output_Find ex_named ex_reload = Some 0"
  by (simp add: output_Find_def output_matches_def ex_running_def ex_other_def ex_named_def config_Defaults_def config_Init_def
      sockaddr_same_def Let_def has_flag_def output_flags)

text \<open>A line that repeats the settings of its output.\<close>

lemma upd_out_same: "n < length (pp_outputs s) \<Longrightarrow> f (pp_outputs s ! n) = pp_outputs s ! n \<Longrightarrow> upd_out (Nth n) f s = s"
  by simp

definition repeats :: "output_config \<Rightarrow> output_config \<Rightarrow> bool" where
  "repeats c q \<longleftrightarrow> c\<lparr>i_config := i_config q\<rparr> = q
     \<and> (\<forall>f\<in>{OUTPUT_UDP, OUTPUT_RAW, OUTPUT_DVB, OUTPUT_EPG}. \<not> has_flag (i_config c) f \<and> \<not> has_flag (i_config q) f)"

lemma has_flag_xor: "\<not> has_flag a f \<Longrightarrow> \<not> has_flag b f \<Longrightarrow> \<not> has_flag (a XOR b) f"
  by (simp add: has_flag_def bit.conj_xor_distrib2)

lemma repeatsD:
  assumes "repeats c q"
  shows "pi_ssrc c = pi_ssrc q" "i_output_latency c = i_output_latency q" "i_max_retention c = i_max_retention q"
    "i_ttl c = i_ttl q" "i_tos c = i_tos q" "i_mtu c = i_mtu q" "psz_displayname c = psz_displayname q"
    "i_cfg_tsid c = i_cfg_tsid q" "i_sid c = i_sid q" "same_streams c q" "\<not> remap_changes q c" "\<not> network_changes q c" "\<not> service_changes q c"
    "\<not> has_flag (i_config q XOR i_config c) OUTPUT_UDP" "\<not> has_flag (i_config c) OUTPUT_RAW"
    "\<not> has_flag (i_config q XOR i_config c) OUTPUT_DVB" "\<not> has_flag (i_config q XOR i_config c) OUTPUT_EPG"
    "change_settings c q = c"
proof -
  have q: "q = c\<lparr>i_config := i_config q\<rparr>" using assms by (simp add: repeats_def)
  show "pi_ssrc c = pi_ssrc q" "i_output_latency c = i_output_latency q" "i_max_retention c = i_max_retention q"
    "i_ttl c = i_ttl q" "i_tos c = i_tos q" "i_mtu c = i_mtu q" "psz_displayname c = psz_displayname q"
    "i_cfg_tsid c = i_cfg_tsid q" "i_sid c = i_sid q" "same_streams c q" "\<not> remap_changes q c" "\<not> network_changes q c" "\<not> service_changes q c"
    by (subst q, simp add: same_streams_def remap_changes_def network_changes_def service_changes_def dvb_string_cmp_def)+
  show "\<not> has_flag (i_config q XOR i_config c) OUTPUT_UDP" "\<not> has_flag (i_config c) OUTPUT_RAW"
    "\<not> has_flag (i_config q XOR i_config c) OUTPUT_DVB" "\<not> has_flag (i_config q XOR i_config c) OUTPUT_EPG"
    using assms by (simp_all add: repeats_def has_flag_xor)
  show "change_settings c q = c" by (subst q) (simp add: change_settings_def)
qed

lemma Change_repeats:
  assumes "n < length (pp_outputs s)" and "repeats c (config (pp_outputs s ! n))"
  shows "output_Change B (Nth n) c s = Some s"
proof -
  note R = repeatsD [OF assms(2)]
  have "upd_out (Nth n) (\<lambda>p. p\<lparr>config := (config p)\<lparr>pi_ssrc := pi_ssrc c,
               i_output_latency := i_output_latency c, i_max_retention := i_max_retention c\<rparr>\<rparr>) s = s"
    by (rule upd_out_same [OF assms(1)]) (simp add: R)
  then show ?thesis
    using R assms(1) by (simp add: output_Change_def output_ChangeTtl_def output_ChangeTos_def output_ChangeMtu_def Let_def)
qed

lemma demux_Change_repeats:
  assumes "n < length (pp_outputs s)" and "repeats c (config (pp_outputs s ! n))"
  shows "demux_Change B n c s = Some (upd_out (Nth n) (\<lambda>p. p\<lparr>config := c\<rparr>) s)"
proof -
  note R = repeatsD [OF assms(2)]
  have "upd_out (Nth n) (\<lambda>p. p\<lparr>config := change_settings c (config p)\<rparr>) s = upd_out (Nth n) (\<lambda>p. p\<lparr>config := c\<rparr>) s"
    using R assms(1) by simp
  moreover have "i_cfg_tsid (config (pp_outputs (upd_out (Nth n) (\<lambda>p. p\<lparr>config := c\<rparr>) s) ! n)) = i_cfg_tsid c"
    using assms(1) by simp
  ultimately show ?thesis
    using R assms(1) by (simp add: demux_Change_def change_tsid_def change_tables_def Let_def rd_less nth_list_update del: upd_out.simps)
qed

lemma ex_flags [simp]:
  "\<not> has_flag OUTPUT_STILL_PRESENT OUTPUT_UDP" "\<not> has_flag OUTPUT_STILL_PRESENT OUTPUT_RAW"
  "\<not> has_flag OUTPUT_STILL_PRESENT OUTPUT_DVB" "\<not> has_flag OUTPUT_STILL_PRESENT OUTPUT_EPG"
  "\<not> has_flag OUTPUT_VALID OUTPUT_DVB" "\<not> has_flag OUTPUT_VALID OUTPUT_EPG" "\<not> has_flag OUTPUT_VALID OUTPUT_STILL_PRESENT"
  by (simp_all add: has_flag_def output_flags)

lemma ex_repeats: "repeats (present ex_named) (config ex_running)"
  by (simp add: repeats_def ex_running_def present_def ex_named_def config_Defaults_def config_Init_def ex_demux_def
      ex_ci_defs dvben.defs dvbdemux.defs)

lemma ex_apply: "apply_line ex_psi ex_named ex_reload =
    Some (ex_reload\<lparr>pp_outputs := [ex_running\<lparr>config := present ex_named\<rparr>, ex_other]\<rparr>)"
proof -
  have d: "psz_displayname (config ex_running) = psz_displayname ex_named" by (simp add: ex_running_def)
  then have "upd_out (Nth 0) (\<lambda>p. p\<lparr>config := (config p)\<lparr>psz_displayname := psz_displayname ex_named\<rparr>\<rparr>) ex_reload = ex_reload"
    by (intro upd_out_same) (simp_all flip: d)
  then show ?thesis
    using ex_repeats by (simp add: apply_line_def ex_find Change_repeats demux_Change_repeats Let_def) 
qed

lemma ex_lines: "file_lines ex_line = [ex_line]"
  by (simp add: ex_line_def file_lines.simps fgets_line_def before_def LINE_ROOM_def)

lemma ex_read: "read_line ex_psi ex_conf ex_line (ex_reload, None) =
    Some (ex_reload\<lparr>pp_outputs := [ex_running\<lparr>config := present ex_named\<rparr>, ex_other]\<rparr>, None)"
proof -
  have "conf_globals ex_reload = conf_globals (ex_demux [])" by (simp add: ex_reload_def conf_globals_def)
  then have "parse_line ex_psi ex_conf ex_reload ex_line None = Some (Some ex_named, None)"
    by (rule parse_line_globals [THEN trans, OF _ ex_parse])
  then show ?thesis by (simp add: read_line_def ex_apply)
qed

definition ex_swept :: "output_st list \<Rightarrow> dvbdemux" where
  "ex_swept ps = ex_reload\<lparr>pp_outputs := ps\<rparr>"

lemma ex_kept: "close_stale ex_psi 0 (ex_swept (ex_running\<lparr>config := present ex_named\<rparr> # ps)) =
  Some (ex_swept (ex_running\<lparr>config := (present ex_named)\<lparr>i_config := i_config (present ex_named) AND NOT OUTPUT_STILL_PRESENT\<rparr>\<rparr> # ps))"
  by (simp add: close_stale_def Let_def ex_swept_def)

lemma ex_other_repeats: "repeats (config_Init (ex_swept ps)) (config ex_other)"
  by (simp add: repeats_def ex_other_def config_Init_def ex_swept_def ex_reload_def)

lemma ex_closed: "\<exists>s. close_stale ex_psi 1 (ex_swept [p, ex_other]) = Some s"
proof -
  let ?s = "ex_swept [p, ex_other\<lparr>config := config_Init (ex_swept [])\<rparr>]"
  have "config_Init (ex_swept ps) = config_Init (ex_swept [])" for ps by (simp add: config_Init_def ex_swept_def)
  then have "demux_Change ex_psi 1 (config_Init (ex_swept [p, ex_other])) (ex_swept [p, ex_other]) = Some ?s"
    using ex_other_repeats [of "[p, ex_other]"] by (subst demux_Change_repeats) (simp_all add: ex_swept_def)
  moreover obtain s where "output_Close (Nth 1) ?s = Some s"
    by (simp add: output_Close_def ex_swept_def ex_other_def output_PacketVacuum.simps zero_output_def)
  ultimately show ?thesis by (simp add: close_stale_def Let_def ex_swept_def ex_other_def)
qed

subsection \<open>Reading the file again\<close>



end
