(* ===== verification/Dvb_Setup.thy ===== *)
theory Dvb_Setup
  imports Dvb_Config
begin

unbundle bit_operations_syntax

text \<open>
  What is set up from the command line before the program runs: the names and the duplicate output
  (\<open>output_Setup\<close>), the PIDs streams are moved to (\<open>set_pid_map\<close>), the source of RTP
  (\<open>set_rtpsrc\<close>); the report of a configuration (\<open>config_Print\<close>), and the conversion of text that is
  received (\<open>iconv_cb\<close>), which keeps its converter open from one call to the next.
\<close>

subsection \<open>The report of a configuration\<close>

text \<open>The format is built with the PIDs in it; its buffer has room for six characters a PID. The last comma, or the
  equals sign when there is no PID, becomes the end of the line.\<close>

definition print_base :: string where
  "print_base = ''conf: %s config=0x%lx sid=%hu pids[%d]=''"

definition print_format :: "output_config \<Rightarrow> string option" where
  "print_format c =
     (let room = length print_base + 6 * length (pi_pids c) + 2;
          body = print_base @ concat (map (\<lambda>pid. show_nat pid @ '','') (pi_pids c))
      in do { ensure (length body < room); Some (butlast body @ [CHR 0x0A]) })"

text \<open>\<open>None\<close> inside: everything is passed through, and a text without PIDs is printed.\<close>

definition config_Print :: "output_config \<Rightarrow> string option option" where
  "config_Print c = (if b_passthrough c then Some None else map_option Some (print_format c))"

subsection \<open>The duplicate output\<close>

definition set_rtpsrc :: "'c conf_lib_scheme \<Rightarrow> string \<Rightarrow> 'a dvboutput_scheme \<Rightarrow> bool \<times> 'a dvboutput_scheme" where
  "set_rtpsrc L z s =
     (case inet_aton L z of None \<Rightarrow> (False, s) | Some b \<Rightarrow> (True, s\<lparr>pi_ssrc_global := take 4 b\<rparr>))"

text \<open>The result is true whatever becomes of the duplicate output: its \<open>rc\<close> is one of an inner block.\<close>

definition setup_dup ::
  "'b ts_lib_scheme \<Rightarrow> 'c conf_lib_scheme \<Rightarrow> string \<Rightarrow> 'a dvboutput_scheme \<times> string option \<Rightarrow>
   ('a dvboutput_scheme \<times> string option) option" where
  "setup_dup B L z = (\<lambda>(s, h). do {
     (x, h) \<leftarrow> config_ParseHost B L s (config_Defaults s) z h;
     (case x of
        None \<Rightarrow> Some (s, h)
      | Some c \<Rightarrow> do {
          (_, s) \<leftarrow> output_Init B Dup c s;
          s \<leftarrow> output_Change B Dup c s;
          Some (s, h) }) })"

definition output_Setup ::
  "'b ts_lib_scheme \<Rightarrow> 'c conf_lib_scheme \<Rightarrow> string option \<Rightarrow> string option \<Rightarrow> 'a dvboutput_scheme \<times> string option \<Rightarrow>
   (bool \<times> 'a dvboutput_scheme \<times> string option) option" where
  "output_Setup B L netname proname = (\<lambda>(s, h). do {
     let s = (if b_epg_global s \<and> \<not> b_dvb_global s then s\<lparr>b_dvb_global := True\<rparr> else s);
     (nn, h) \<leftarrow> config_strdvb L (native_charset s) netname (native_charset s) h;
     (pn, h) \<leftarrow> config_strdvb L (native_charset s) proname (native_charset s) h;
     let s = s\<lparr>gl_network_name := nn, gl_provider_name := pn\<rparr>;
     (s, h) \<leftarrow> (case psz_dup_config s of None \<Rightarrow> Some (s, h) | Some z \<Rightarrow> setup_dup B L z (s, h));
     Some (True, s, h) })"

subsection \<open>PIDs given at start\<close>

text \<open>The numbers are read in order; a number that is 0 as an \<open>int\<close> ends it with an error.\<close>

fun pid_map_loop :: "nat \<Rightarrow> nat \<Rightarrow> string \<Rightarrow> nat list \<Rightarrow> bool \<times> nat list" where
  "pid_map_loop 0 i z ps = (True, ps)"
| "pid_map_loop (Suc k) i z ps =
     (case strtok '','' z of
        None \<Rightarrow> (True, ps)
      | Some (tok, r) \<Rightarrow>
          (let v = strtoul 0 tok in
           if int v mod 2 ^ 32 = 0 then (False, ps) else pid_map_loop k (Suc i) r (ps[i := v mod 65536])))"

definition set_pid_map :: "string \<Rightarrow> 'a dvbdemux_scheme \<Rightarrow> bool \<times> 'a dvbdemux_scheme" where
  "set_pid_map z s =
     (case pid_map_loop CLDVB_N_MAP_PIDS 0 z (g_newpids s) of
        (ok, ps) \<Rightarrow> (ok, if ok then s\<lparr>g_newpids := ps, b_do_remap := True\<rparr> else s\<lparr>g_newpids := ps\<rparr>))"

subsection \<open>Received text\<close>

text \<open>The converter that is open, known by the character set it converts from, and the set it was last used for.\<close>

type_synonym iconv_st = "string option \<times> string"

definition iconv_append_null :: "bytes \<Rightarrow> bytes" where
  "iconv_append_null p = p"

text \<open>
  A NUL is written behind the result, which has to be shorter than the room for it. When the conversion fails,
  what was converted is dropped: \<open>iconv\<close> has moved the pointer over it.
\<close>

definition iconv_cb ::
  "'c conf_lib_scheme \<Rightarrow> string \<Rightarrow> string \<Rightarrow> bytes \<Rightarrow> iconv_st \<Rightarrow> (bytes \<times> iconv_st) option" where
  "iconv_cb L native enc p = (\<lambda>(handle, cur).
     (if enc = native then Some (iconv_append_null p, (handle, cur))
      else
        (let handle = (if handle \<noteq> None \<and> enc \<noteq> cur then None else handle);
             handle = (if handle = None \<and> iconv_open L native enc then Some enc else handle) in
         case handle of
           None \<Rightarrow> Some (iconv_append_null p, (None, cur))
         | Some from \<Rightarrow>
             (case iconv L native from p of
                Inl out \<Rightarrow> if length out < 6 * length p then Some (out, (Some from, enc)) else None
              | Inr k \<Rightarrow> Some (iconv_append_null (drop k p), (Some from, enc))))))"

end
