(* ===== verification/Dvb_SetupClaims.thy ===== *)
theory Dvb_SetupClaims
  imports Dvb_Setup Dvb_ConfigClaims
begin

unbundle bit_operations_syntax

text \<open>
  The properties of reading configurations and of the start-up options: sizes, lines, PID lists, character sets.
\<close>

subsection \<open>Room for a packet\<close>

lemma check_mtu_room:
  assumes "int TS_SIZE + int (RTP_HEADER_SIZE B) \<le> 1280"
  shows "int TS_SIZE + int (RTP_HEADER_SIZE B) \<le> i_mtu (check_mtu B c)"
  using assms by (simp add: check_mtu_def DEFAULT_IPV6_MTU_def DEFAULT_IPV4_MTU_def Let_def not_less)

lemma ParseHost_mtu:
  assumes "config_ParseHost B L s c z h = Some (Some c', h')"
  shows "\<exists>d. c' = check_mtu B d"
  using assms by (auto simp: config_ParseHost_def bind_eq_Some_conv Let_def split: prod.splits option.splits if_splits)

text \<open>An output read from a text has room: whatever \<open>mtu=\<close> says (nothing, zero, a negative or a small number), at least one
  TS packet fits in a datagram behind the RTP header, and a full datagram does not exceed the MTU.\<close>

theorem Mtu_room:
  assumes "config_ParseHost B L s c z h = Some (Some (config p), h')"
    and "int TS_SIZE + int (RTP_HEADER_SIZE B) \<le> 1280"
  shows "1 \<le> output_BlockCount B p \<and>
    output_BlockCount B p * int TS_SIZE + (if has_flag (i_config (config p)) OUTPUT_UDP then 0 else int (RTP_HEADER_SIZE B))
      \<le> i_mtu (config p)"
proof -
  let ?h = "if has_flag (i_config (config p)) OUTPUT_UDP then 0 else int (RTP_HEADER_SIZE B)"
  have m: "int TS_SIZE + int (RTP_HEADER_SIZE B) \<le> i_mtu (config p)"
    using ParseHost_mtu [OF assms(1)] check_mtu_room [OF assms(2)] by auto
  then have pos: "int TS_SIZE \<le> i_mtu (config p) - ?h" by simp
  define x where "x = i_mtu (config p) - ?h"
  have "output_BlockCount B p = x sdiv int TS_SIZE"
    by (simp add: output_BlockCount_def Let_def x_def)
  also have "\<dots> = x div int TS_SIZE"
    using pos by (simp add: signed_divide_int_def TS_SIZE_def flip: x_def)
  finally have "output_BlockCount B p = (i_mtu (config p) - ?h) div int TS_SIZE" unfolding x_def .
  moreover have "1 \<le> (i_mtu (config p) - ?h) div int TS_SIZE"
    using zdiv_mono1 [OF pos, of "int TS_SIZE"] by (simp add: TS_SIZE_def)
  moreover have "(i_mtu (config p) - ?h) div int TS_SIZE * int TS_SIZE \<le> i_mtu (config p) - ?h"
    by (simp add: TS_SIZE_def minus_mod_eq_div_mult [symmetric])
  ultimately show ?thesis by simp
qed

lemma Mtu_room_witness:
  "\<exists>p h. config_ParseHost ex_psi ex_conf (ex_demux []) (ex_named\<lparr>i_mtu := 100\<rparr>) ''a'' None = Some (Some (config p), h)
     \<and> 1 \<le> output_BlockCount ex_psi p"
proof -
  let ?c = "check_mtu ex_psi ((ex_named\<lparr>i_mtu := 100\<rparr>)\<lparr>psz_displayname := ''a'',
     connect_addr := copy_addr \<lparr>ss_family = AF_INET, sa_data = [11, 185, 239, 0, 0, 1]\<rparr> (connect_addr ex_named), i_family := AF_INET\<rparr>)"
  have h: "config_ParseHost ex_psi ex_conf (ex_demux []) (ex_named\<lparr>i_mtu := 100\<rparr>) ''a'' None = Some (Some (config (zero_output ?c)), None)"
    by (simp add: ex_host)
  moreover from Mtu_room [OF h] have "1 \<le> output_BlockCount ex_psi (zero_output ?c)"
    by (simp add: TS_SIZE_def ex_psi_defs ts_lib.defs)
  ultimately show ?thesis by blast
qed

subsection \<open>Lines\<close>

text \<open>No text of the file is lost or read twice: the lines \<open>fgets\<close> gives, one after the other, are the text; none is
  empty or longer than the buffer holds, and a line break only ends a line. A longer line comes in pieces.\<close>

theorem File_lines_complete:
  "concat (file_lines s) = s \<and> (\<forall>l\<in>set (file_lines s). l \<noteq> [] \<and> length l \<le> 2047 \<and> CHR 0x0A \<notin> set (butlast l))"
proof (induction s rule: file_lines.induct)
  case (1 s)
  show ?case
  proof (cases "s = []")
    case False
    let ?b = "before [CHR 0x0A] s"
    let ?k = "min LINE_ROOM (Suc (length ?b))"
    have f: "fgets_line s = (take ?k s, drop ?k s)" by (simp add: fgets_line_def Let_def)
    have IH: "concat (file_lines (drop ?k s)) = drop ?k s"
      "\<And>l. l \<in> set (file_lines (drop ?k s)) \<Longrightarrow> l \<noteq> [] \<and> length l \<le> 2047 \<and> CHR 0x0A \<notin> set (butlast l)"
      using "1" [OF False f [symmetric]] by auto
    have e: "file_lines s = take ?k s # file_lines (drop ?k s)" using False f by (subst file_lines.simps) simp
    have nb: "CHR 0x0A \<notin> set ?b" by (auto simp: before_def dest: set_takeWhileD)
    have tb: "take j s = take j ?b" if "j \<le> length ?b" for j
      using that takeWhile_dropWhile_id [of "\<lambda>c. c \<notin> set [CHR 0x0A]" s]
      by (metis before_def take_append diff_is_0_eq take_0 append_Nil2)
    have "butlast (take ?k s) = take (?k - 1) s" if "?k \<le> length s" using that by (simp add: butlast_take)
    moreover have "set (butlast (take ?k s)) \<subseteq> set (take (?k - 1) s)"
    proof (cases "?k \<le> length s")
      case True
      then show ?thesis by (simp add: butlast_take)
    next
      case False
      have "length ?b \<le> length s" by (simp add: before_def length_takeWhile_le)
      with False have "take ?k s = s" "length s \<le> ?k - 1 \<or> ?k - 1 = length ?b \<and> length s = length ?b" by auto
      then show ?thesis using in_set_butlastD by fastforce
    qed
    moreover have "set (take (?k - 1) s) \<subseteq> set ?b" using tb [of "?k - 1"] set_take_subset [of "?k - 1" ?b] by simp
    ultimately have "CHR 0x0A \<notin> set (butlast (take ?k s))" using nb by blast
    then show ?thesis unfolding e using IH False by (auto simp: LINE_ROOM_def)
  qed (simp add: file_lines.simps)
qed

lemma File_lines_complete_witness: "file_lines ex_line = [ex_line] \<and> concat (file_lines ex_line) = ex_line"
  using File_lines_complete [of ex_line] by (simp add: ex_lines)

subsection \<open>A line is read as it is meant\<close>

text \<open>The text of a line: the host, whether it is watched, the program, its PIDs.\<close>

definition line_text :: "string \<Rightarrow> bool \<Rightarrow> nat \<Rightarrow> nat list \<Rightarrow> string" where
  "line_text host w sid ps = host @ CHR '' '' # (if w then ''1'' else ''0'') @ CHR '' '' # show_nat sid @ CHR '' '' #
     joined_by (CHR '','') (map show_nat ps) @ [CHR 0x0A]"

lemma show_nat_token:
  assumes "\<And>d :: nat. d < 10 \<Longrightarrow> char_of (48 + d) \<notin> set cs"
  shows "token_ok cs (show_nat n)"
  using assms by (auto simp: token_ok_def dest: show_nat_digits)

lemma blanks_digit: "d < 10 \<Longrightarrow> char_of (48 + d :: nat) \<notin> set blanks"
  using digit_char_not [of d] by (simp add: blanks_def)

lemma set_joined: "set (joined_by c ts) \<subseteq> {c} \<union> (\<Union>t\<in>set ts. set t)"
  by (induction c ts rule: joined_by.induct) auto

lemma joined_not_Nil: "ts \<noteq> [] \<Longrightarrow> \<forall>t\<in>set ts. t \<noteq> [] \<Longrightarrow> joined_by c ts \<noteq> []"
  by (induction c ts rule: joined_by.induct) auto

lemma pids_token:
  assumes "ps \<noteq> []"
  shows "token_ok blanks (joined_by (CHR '','') (map show_nat ps))"
proof -
  have "x \<notin> set blanks" if "x \<in> set (joined_by (CHR '','') (map show_nat ps))" for x
  proof -
    have "x = CHR '','' \<or> (\<exists>p. x \<in> set (show_nat p))" using set_joined [of "CHR '',''" "map show_nat ps"] that by auto
    then consider "x = CHR '',''" | d :: nat where "d < 10" "x = char_of (48 + d)" using show_nat_digits by blast
    then show ?thesis by cases (simp add: blanks_def, simp add: blanks_digit)
  qed
  then show ?thesis using assms joined_not_Nil [of "map show_nat ps" "CHR '',''"] by (auto simp: token_ok_def)
qed

lemma config_pids_joined:
  assumes "\<forall>p\<in>set ps. p < 65536"
  shows "config_pids (joined_by (CHR '','') (map show_nat ps)) = ps"
proof -
  have "tokens '','' (joined_by (CHR '','') (map show_nat ps)) = map show_nat ps"
    by (rule tokens_joined) (auto intro!: show_nat_token simp: digit_char_not)
  then show ?thesis using assms by (auto simp: config_pids_def strtol_show intro!: map_idI)
qed

lemma no_comment: "CHR ''#'' \<notin> set l \<Longrightarrow> strip_comment l = l"
  by (simp add: strip_comment_def)

text \<open>C32 A line is read as it is meant: the host is parsed by \<open>config_ParseHost\<close>, and onto its configuration come
  exactly the flag that it is watched, the program and its PIDs, in order, whatever the program number and the PIDs are.\<close>

theorem Config_line:
  assumes "token_ok (CHR ''#'' # blanks) host" and "sid < 65536" and "ps \<noteq> []" and "\<forall>p\<in>set ps. p < 65536"
    and "config_ParseHost B L s (config_Defaults s) host h = Some (Some c, h')"
  shows "parse_line B L s (line_text host w sid ps) h = Some (Some (c\<lparr>i_sid := of_nat sid, pi_pids := ps,
      i_config := (if w then i_config c OR OUTPUT_WATCH else i_config c AND NOT OUTPUT_WATCH)\<rparr>), h')"
proof -
  let ?w = "if w then ''1'' else ''0''" and ?p = "joined_by (CHR '','') (map show_nat ps)"
  have blank: "CHR '' '' \<in> set blanks" "CHR 0x0A \<in> set blanks" by (simp_all add: blanks_def)
  have tok: "token_ok blanks host" "token_ok blanks ?w" "token_ok blanks (show_nat sid)" "token_ok blanks ?p"
    using assms(1) show_nat_token [OF blanks_digit] pids_token [OF assms(3)] by (auto simp: token_ok_def blanks_def)
  have sharp: "CHR ''#'' \<notin> set (show_nat n)" for n using show_nat_digits [of "CHR ''#''" n] digit_char_not(9) by metis
  then have "CHR ''#'' \<notin> set ?p" using set_joined [of "CHR '',''" "map show_nat ps"] by auto
  then have "CHR ''#'' \<notin> set (line_text host w sid ps)" using assms(1) sharp by (simp add: line_text_def token_ok_def)
  then have "strip_comment (line_text host w sid ps) = line_text host w sid ps" by (rule no_comment)
  then have f: "strtok blanks (strip_comment (line_text host w sid ps)) =
      Some (host, ?w @ CHR '' '' # show_nat sid @ CHR '' '' # ?p @ [CHR 0x0A])"
    using strtok_here(1) [OF tok(1) blank(1)] by (simp add: line_text_def)
  have star: "hd (show_nat sid) \<noteq> CHR ''*''" using show_nat_head [of sid] digit_char_not(8) by metis
  have one: "atoi ''1'' = 1" "atoi ''0'' \<noteq> 1" by code_simp+
  show ?thesis
    using assms(5) strtok_here(1) [OF tok(2) blank(1)] strtok_here(1) [OF tok(3) blank(1)] strtok_here(1) [OF tok(4) blank(2)]
      star one assms(2) config_pids_joined [OF assms(4)]
    by (simp add: parse_line_def f config_streams_def watch_flag_def Let_def strtol_show)
qed

lemma Config_line_witness:
  "\<exists>c. parse_line ex_psi ex_conf (ex_demux []) (line_text ''a'' True 65535 [0, 8191, 33]) None = Some (Some c, None)
     \<and> pi_pids c = [0, 8191, 33] \<and> i_sid c = 65535"
proof -
  have t: "token_ok (CHR ''#'' # blanks) ''a''" by (simp add: token_ok_def blanks_def)
  from Config_line [OF t, of 65535 "[0, 8191, 33]", OF _ _ _ ex_host, where w = True and s = "ex_demux []"] show ?thesis by simp
qed

subsection \<open>PIDs streams are moved to\<close>

lemma stropt_plain:
  assumes "z \<noteq> []" and "CHR ''_'' \<notin> set z" and "CHR ''/'' \<notin> set z"
  shows "config_stropt (Some z) = Some z"
proof -
  have "stropt_chars z = z" using assms(2,3) by (induction z) auto
  then show ?thesis using assms(1) by (simp add: config_stropt_def)
qed

lemma pid_map_loop_joined:
  assumes "length ps \<le> k" and "\<forall>p\<in>set ps. 0 < p \<and> p < 65536" and "i + length ps \<le> length old"
  shows "pid_map_loop k i (joined_by (CHR '','') (map show_nat ps)) old =
    (True, take i old @ ps @ drop (i + length ps) old)"
  using assms
proof (induction ps arbitrary: k i old)
  case Nil
  then show ?case by (cases k) (simp_all add: strtok_def)
next
  case (Cons p ps)
  then obtain k' where k: "k = Suc k'" "length ps \<le> k'" by (cases k) auto
  have tok: "token_ok '','' (show_nat p)" by (rule show_nat_token) (simp add: digit_char_not)
  have v: "strtoul 0 (show_nat p) = p" using Cons.prems(2) by (simp add: strtoul_def str_number_show)
  have up: "take (Suc i) (old[i := p]) @ ps @ drop (Suc i + length ps) (old[i := p]) = take i old @ p # ps @ drop (Suc (i + length ps)) old"
    using Cons.prems(3) by (simp add: take_Suc_conv_app_nth take_update_cancel drop_update_cancel)
  show ?case
  proof (cases ps)
    case Nil
    have "strtok '','' (show_nat p) = Some (show_nat p, [])" by (rule strtok_here(2) [OF tok]) simp
    moreover have "pid_map_loop k' (Suc i) [] ps' = (True, ps')" for ps' by (cases k') (simp_all add: strtok_def)
    ultimately show ?thesis using Nil k v Cons.prems upd_conv_take_nth_drop [of i old p] by simp
  next
    case (Cons q qs)
    have "strtok '','' (show_nat p @ CHR '','' # joined_by (CHR '','') (map show_nat ps)) =
        Some (show_nat p, joined_by (CHR '','') (map show_nat ps))" by (rule strtok_here(1) [OF tok]) simp
    moreover have "joined_by (CHR '','') (map show_nat (p # ps)) = show_nat p @ CHR '','' # joined_by (CHR '','') (map show_nat ps)"
      using Cons by simp
    ultimately show ?thesis using k v Cons.prems Cons.IH [OF k(2), of "Suc i" "old[i := p]"] up by simp
  qed
qed

text \<open>The PIDs given at start (\<open>set_pid_map\<close>, option \<open>-0\<close>) are taken in order: numbers joined by commas become
  the first entries, the others keep their value, and remapping is on.\<close>

theorem Pid_map_option:
  assumes "length ps \<le> CLDVB_N_MAP_PIDS" and "\<forall>p\<in>set ps. 0 < p \<and> p < 65536"
    and "length (g_newpids s) = CLDVB_N_MAP_PIDS"
  shows "set_pid_map (joined_by (CHR '','') (map show_nat ps)) s =
    (True, s\<lparr>g_newpids := ps @ drop (length ps) (g_newpids s), b_do_remap := True\<rparr>)"
  using pid_map_loop_joined [of ps CLDVB_N_MAP_PIDS 0 "g_newpids s"] assms by (simp add: set_pid_map_def)

lemma Pid_map_option_witness:
  "g_newpids (snd (set_pid_map (joined_by (CHR '','') (map show_nat [33, 8190])) (ex_demux []))) = [33, 8190, 0, 0]"
  using Pid_map_option [of "[33, 8190]" "ex_demux []"] by (simp add: CLDVB_N_MAP_PIDS_def)

text \<open>C33 The same list in the text of an output (\<open>pidmap=\<close>) is not: each of its four entries is read from the start of
  the list, so all of them get the first number.\<close>

theorem Pidmap_repeats:
  assumes "ps \<noteq> []" and "\<forall>p\<in>set ps. p < 65536" and "length (pi_confpids c) = CLDVB_N_MAP_PIDS"
  shows "\<exists>c'. parse_option B (''pidmap='' @ joined_by (CHR '','') (map show_nat ps)) (c, n) = Some (Some (c', n))
    \<and> b_cfg_do_remap c' \<and> pi_confpids c' = replicate CLDVB_N_MAP_PIDS (hd ps)"
proof -
  let ?a = "joined_by (CHR '','') (map show_nat ps)"
  obtain p qs where ps: "ps = p # qs" using assms(1) by (cases ps) auto
  have tok: "token_ok '','' (show_nat p)" by (rule show_nat_token) (simp add: digit_char_not)
  obtain r where r: "strtok '','' ?a = Some (show_nat p, r)"
    using strtok_here [OF tok] by (cases qs) (auto simp: ps)
  have "c \<noteq> CHR ''_'' \<and> c \<noteq> CHR ''/''" if "c \<in> set ?a" for c
  proof -
    have "c = CHR '','' \<or> (\<exists>p. c \<in> set (show_nat p))" using set_joined [of "CHR '',''" "map show_nat ps"] that by auto
    then consider "c = CHR '',''" | d :: nat where "d < 10" "c = char_of (48 + d)" using show_nat_digits by blast
    then show ?thesis
    proof cases
      case 2
      then have "(of_char c :: nat) = 48 + d" by simp
      then show ?thesis using 2(1) by auto
    qed simp
  qed
  then have a: "config_stropt (Some ?a) = Some ?a"
    using joined_not_Nil [of "map show_nat ps" "CHR '',''"] assms(1) by (intro stropt_plain) auto
  have v: "strtoul 0 (show_nat p) mod 65536 = p" using assms(2) by (simp add: strtoul_def str_number_show ps)
  have step: "pidmap_step ?a d i = d\<lparr>pi_confpids := (pi_confpids d)[i := p]\<rparr>" for d i
    by (simp add: pidmap_step_def r v)
  obtain x0 x1 x2 x3 where x: "pi_confpids c = [x0, x1, x2, x3]"
    using assms(3) by (auto simp: CLDVB_N_MAP_PIDS_def eval_nat_numeral length_Suc_conv)
  have "pi_confpids (foldl (pidmap_step ?a) c [0..<CLDVB_N_MAP_PIDS]) = replicate CLDVB_N_MAP_PIDS p"
    by (simp add: CLDVB_N_MAP_PIDS_def upt_rec step x eval_nat_numeral)
  then show ?thesis
    by (simp add: parse_option_def is_option_def same_nocase_def to_lower_def arg_option_def a [unfolded ps list.map] ps del: joined_by.simps)
qed

definition ex_names :: host_names where
  "ex_names = \<lparr>hn_charset = [], hn_network = None, hn_service = None, hn_provider = None\<rparr>"

lemma Pidmap_repeats_witness:
  "\<exists>c'. parse_option ex_psi (''pidmap='' @ joined_by (CHR '','') (map show_nat [33, 34, 35, 36])) (ex_config, ex_names)
      = Some (Some (c', ex_names)) \<and> pi_confpids c' = [33, 33, 33, 33]"
proof -
  have "length (pi_confpids ex_config) = CLDVB_N_MAP_PIDS" by (simp add: ex_config_def)
  from Pidmap_repeats [of "[33, 34, 35, 36]", OF _ _ this, of ex_psi ex_names]
  obtain c' where c: "parse_option ex_psi (''pidmap='' @ joined_by (CHR '','') (map show_nat [33, 34, 35, 36])) (ex_config, ex_names)
      = Some (Some (c', ex_names))" "pi_confpids c' = replicate CLDVB_N_MAP_PIDS (hd [33, 34, 35, 36])" by auto
  have four: "replicate CLDVB_N_MAP_PIDS x = [x, x, x, x]" for x :: nat
    by (simp add: CLDVB_N_MAP_PIDS_def numeral_eq_Suc)
  show ?thesis by (rule exI [of _ c'], rule conjI, rule c(1)) (simp only: c(2) four list.sel)
qed

subsection \<open>Character sets\<close>

text \<open>The conversion without a converter that stays open: what a single call has to do.\<close>

definition convert_once :: "'c conf_lib_scheme \<Rightarrow> string \<Rightarrow> string \<Rightarrow> bytes \<Rightarrow> bytes option" where
  "convert_once L native enc p =
     (if enc = native \<or> \<not> iconv_open L native enc then Some p
      else (case iconv L native enc p of
              Inl out \<Rightarrow> if length out < 6 * length p then Some out else None
            | Inr k \<Rightarrow> Some (drop k p)))"

definition iconv_inv :: "'c conf_lib_scheme \<Rightarrow> string \<Rightarrow> iconv_st \<Rightarrow> bool" where
  "iconv_inv L native st \<longleftrightarrow> (case fst st of None \<Rightarrow> True | Some e \<Rightarrow> e = snd st \<and> iconv_open L native e)"

text \<open>A sequence of texts converted one after the other.\<close>

fun iconv_calls :: "'c conf_lib_scheme \<Rightarrow> string \<Rightarrow> (string \<times> bytes) list \<Rightarrow> iconv_st \<Rightarrow> bytes list option" where
  "iconv_calls L native [] st = Some []"
| "iconv_calls L native ((enc, p) # xs) st = do {
     (b, st) \<leftarrow> iconv_cb L native enc p st;
     bs \<leftarrow> iconv_calls L native xs st;
     Some (b # bs) }"

lemma iconv_cb_once:
  assumes "iconv_inv L native st"
  shows "map_option fst (iconv_cb L native enc p st) = convert_once L native enc p
    \<and> (\<forall>b st'. iconv_cb L native enc p st = Some (b, st') \<longrightarrow> iconv_inv L native st')"
proof (cases "enc = native")
  case True
  then show ?thesis using assms by (cases st) (auto simp: iconv_cb_def convert_once_def iconv_append_null_def)
next
  case False
  obtain h cur where st: "st = (h, cur)" by (cases st)
  define h2 where "h2 = (let h1 = (if h \<noteq> None \<and> enc \<noteq> cur then None else h)
    in if h1 = None \<and> iconv_open L native enc then Some enc else h1)"
  have h2: "h2 = (if iconv_open L native enc then Some enc else None)"
    using assms by (auto simp: h2_def iconv_inv_def st split: if_splits option.splits)
  have eq: "iconv_cb L native enc p st = (case h2 of
           None \<Rightarrow> Some (iconv_append_null p, (None, cur))
         | Some from \<Rightarrow>
             (case iconv L native from p of
                Inl out \<Rightarrow> if length out < 6 * length p then Some (out, (Some from, enc)) else None
              | Inr k \<Rightarrow> Some (iconv_append_null (drop k p), (Some from, enc))))"
    using False by (simp add: iconv_cb_def st h2_def Let_def)
  show ?thesis
    using False by (auto simp: eq h2 convert_once_def iconv_append_null_def iconv_inv_def split: sum.splits)
qed



lemma after_non_ascii_last: "after_non_ascii (s @ [x]) = [] \<longleftrightarrow> (\<forall>c\<in>set s. is_ascii c)"
  by (induction s) (auto simp: after_non_ascii_def)

text \<open>The names of an output fare worse (\<open>config_striconv\<close>): one whose characters are ASCII but for the last is
  not converted at all, and every other goes through the converter that was opened for the first character set a
  configuration named, whatever set it asks for.\<close>

theorem Names_converted_wrongly:
  assumes "CHR ''_'' \<notin> set (s @ [x])" and "CHR ''/'' \<notin> set (s @ [x])" and "\<not> same_nocase native charset"
  shows "config_striconv L native (s @ [x]) charset (Some first) =
    (if \<forall>c\<in>set s. is_ascii c then Some (str_bytes (s @ [x]), Some first)
     else Some (case iconv L first native (str_bytes (s @ [x])) of Inl out \<Rightarrow> out | Inr k \<Rightarrow> str_bytes (s @ [x]), Some first))"
  using stropt_plain [of "s @ [x]"] assms after_non_ascii_last [of s x]
  by (simp add: config_striconv_def Let_def split: sum.splits)

lemma Names_converted_wrongly_witness:
  "config_striconv ex_conf ''UTF-8'' [CHR ''a'', CHR 0xE9] ''ISO6937'' (Some ''ISO8859'') = Some ([97, 0xE9], Some ''ISO8859'')"
  using Names_converted_wrongly [of "''a''" "CHR 0xE9" "''UTF-8''" "''ISO6937''" ex_conf "''ISO8859''"]
  by (simp add: same_nocase_def to_lower_def is_ascii_def str_bytes_def)

subsection \<open>The report of a configuration\<close>

lemma show_nat_length: "n < 10 ^ Suc k \<Longrightarrow> length (show_nat n) \<le> Suc k"
proof (induction k arbitrary: n)
  case 0
  then show ?case by (subst show_nat.simps) simp
next
  case (Suc k)
  then show ?case using Suc.IH [of "n div 10"] by (subst show_nat.simps) (simp add: less_mult_imp_div_less)
qed

lemma pids_length:
  assumes "\<forall>p\<in>set ps. p < 65536"
  shows "length (concat (map (\<lambda>pid. show_nat pid @ '','') ps)) \<le> 6 * length ps"
  using assms
proof (induction ps)
  case (Cons p ps)
  have "length (show_nat p) \<le> 5" using show_nat_length [of p 4] Cons.prems by simp
  with Cons show ?case by simp
qed simp

text \<open>The report of a configuration (\<open>config_Print\<close>) never writes past its buffer, however many PIDs there are and
  whatever they are: six characters a PID are enough for 16-bit numbers.\<close>

theorem Print_fits:
  assumes "\<forall>p\<in>set (pi_pids c). p < 65536"
  shows "\<exists>r. config_Print c = Some r \<and> (r = None \<longleftrightarrow> b_passthrough c)"
  using pids_length [OF assms] by (simp add: config_Print_def print_format_def Let_def)

lemma Print_fits_witness:
  "\<exists>r. config_Print (ex_config\<lparr>pi_pids := [65535, 65535, 0]\<rparr>) = Some (Some r)"
  using Print_fits [of "ex_config\<lparr>pi_pids := [65535, 65535, 0]\<rparr>"] by (auto simp: ex_config_def)

end
