(* ===== verification/Dvb_Udp.thy ===== *)
theory Dvb_Udp
  imports Dvb_Config Dvb_Frontend
begin

unbundle bit_operations_syntax

text \<open>
  The other input (\<open>cLdvbudp.cpp\<close>): a transport stream from a socket, in RTP or not, or from the standard
  input. The kernel is a parameter, a stream of results and data indexed by the position of the call in
  \<open>udp_log\<close>, in which the calls to the event loop are too. The fields of an RTP header come from biTStream.
\<close>

datatype udpcall =
    UdSocket int
  | UdReuseAddr
  | UdRcvBuf int
  | UdBind sockaddr
  | UdConnect sockaddr
  | UdJoin6 bytes int                    \<comment> \<open>group and interface index\<close>
  | UdJoinSource "32 word" "32 word" "32 word"  \<comment> \<open>group, interface address, source\<close>
  | UdJoinIndex "32 word" "32 word" int  \<comment> \<open>group, interface address, interface index\<close>
  | UdJoin "32 word" "32 word"
  | UdBindDevice string
  | UdClose
  | UdPeek
  | UdReadv nat
  | UdRead nat                           \<comment> \<open>bytes asked for\<close>
  | UdIoInit int
  | UdIoStart
  | UdMuteInit mtime
  | UdMuteAgain
  | UdMuteStop

text \<open>\<open>nt_peer\<close> is the sender of the packet that waits and the length of its address; \<open>nt_name\<close> says whether
  \<open>getnameinfo\<close> knows how to write an address.\<close>

record net_driver =
  nt_ret :: "nat \<Rightarrow> int"
  nt_bytes :: "nat \<Rightarrow> bytes"
  nt_peer :: "nat \<Rightarrow> sockaddr \<times> nat"
  nt_name :: "sockaddr \<Rightarrow> bool"

record udp_lib = conf_lib +
  rtp_get_ssrc :: "bytes \<Rightarrow> bytes"
  rtp_get_seqnum :: "bytes \<Rightarrow> 16 word"

text \<open>\<open>rtp_stack\<close> is what the header on the stack of \<open>udp_Read\<close> holds before it is read into.\<close>

record dvbudp = dvbdemux +
  net :: net_driver
  udp_log :: "udpcall list"
  rtp_stack :: bytes
  udp_handle :: int
  b_udp :: bool
  i_block_cnt :: int
  udp_ssrc :: bytes
  udp_seqnum :: "16 word"
  b_sync :: bool
  i_last_print :: mtime
  last_addr :: sockaddr
  psz_udp_src :: "string option"
  piped :: bool

definition UDP_LOCK_TIMEOUT :: mtime where "UDP_LOCK_TIMEOUT = 5000000"
definition PRINT_REFRACTORY_PERIOD :: mtime where "PRINT_REFRACTORY_PERIOD = 1000000"

definition dvbudp_Init :: "'a dvbudp_scheme \<Rightarrow> 'a dvbudp_scheme" where
  "dvbudp_Init s = s\<lparr>udp_handle := -1, b_udp := False, i_block_cnt := 0, udp_seqnum := 0, b_sync := False,
     i_last_print := 0, psz_udp_src := None, piped := False, udp_ssrc := replicate 4 0\<rparr>"

definition setsource :: "string \<Rightarrow> 'a dvbudp_scheme \<Rightarrow> 'a dvbudp_scheme" where
  "setsource z s = s\<lparr>psz_udp_src := Some z\<rparr>"

definition udp_ev :: "udpcall \<Rightarrow> 'a dvbudp_scheme \<Rightarrow> 'a dvbudp_scheme" where
  "udp_ev c s = s\<lparr>udp_log := udp_log s @ [c]\<rparr>"

definition udp_call :: "udpcall \<Rightarrow> 'a dvbudp_scheme \<Rightarrow> int \<times> 'a dvbudp_scheme" where
  "udp_call c s = (nt_ret (net s) (length (udp_log s)), udp_ev c s)"

subsection \<open>The source\<close>

record udp_opts =
  uo_udp :: bool
  uo_mtu :: int
  uo_ifindex :: int
  uo_ifaddr :: "32 word"
  uo_ifname :: "string option"

text \<open>The texts behind the slashes; each goes on to the end, the next slash is cut off only in the next round.\<close>

function slash_tails :: "string \<Rightarrow> string list" where
  "slash_tails s = (case str_chr (CHR ''/'') s of None \<Rightarrow> [] | Some r \<Rightarrow> tl r # slash_tails (tl r))"
  by pat_completeness auto
termination
proof (relation "measure length", simp)
  fix s r assume "str_chr (CHR ''/'') s = Some r"
  then have "r \<noteq> []" "length r \<le> length s" by (auto simp: str_chr_def dest: str_pbrk_shorter)
  then show "(tl r, s) \<in> measure length" by (cases r) auto
qed

declare slash_tails.simps [simp del]

text \<open>An option with an empty value has no copy: \<open>inet_addr\<close> and \<open>strlen\<close> are given NULL. The name of an
  interface is cut to 15 characters.\<close>

definition udp_option :: "'b ts_lib_scheme \<Rightarrow> string \<Rightarrow> udp_opts \<Rightarrow> udp_opts option" where
  "udp_option B t u =
     (let num = (\<lambda>opt. to_int32 (strtol 0 (arg_option opt t))); str = (\<lambda>opt. config_stropt (Some (arg_option opt t))) in
      if is_option ''udp'' t then Some (u\<lparr>uo_udp := True\<rparr>)
      else if is_option ''mtu='' t then Some (u\<lparr>uo_mtu := num ''mtu=''\<rparr>)
      else if is_option ''ifindex='' t then Some (u\<lparr>uo_ifindex := num ''ifindex=''\<rparr>)
      else if is_option ''ifaddr='' t
      then map_option (\<lambda>a. u\<lparr>uo_ifaddr := inet_addr B a\<rparr>) (str ''ifaddr='')
      else if is_option ''ifname='' t
      then map_option (\<lambda>n. u\<lparr>uo_ifname := Some (take 15 n)\<rparr>) (str ''ifname='')
      else Some u)"

text \<open>\<open>[connect@]bind\<close>, and the text behind it. An address to connect to has to be of the family that is bound.\<close>

definition udp_addresses :: "'c conf_lib_scheme \<Rightarrow> string \<Rightarrow> (sockaddr option \<times> sockaddr \<times> string) option" where
  "udp_addresses L z =
     (let (c, b) = (case str_chr (CHR ''@'') z of
                      None \<Rightarrow> (None, z)
                    | Some r \<Rightarrow> (fst (ParseNodeService L (before ''@'' z) 0), tl r)) in
      case ParseNodeService L b DEFAULT_PORT of
        (None, _) \<Rightarrow> None
      | (Some a, rest) \<Rightarrow>
          Some (case c of None \<Rightarrow> None | Some x \<Rightarrow> if ss_family x = ss_family a then Some x else None, a, rest))"

subsection \<open>Opening\<close>

text \<open>Joining a group: with a source when there is one, else on an interface by index, else by address. The
  device is bound for IPv4 groups only.\<close>

definition udp_join :: "udp_opts \<Rightarrow> sockaddr option \<Rightarrow> sockaddr \<Rightarrow> 'a dvbudp_scheme \<Rightarrow> 'a dvbudp_scheme" where
  "udp_join u c a s =
     (if ss_family a = AF_INET6
      then (if in6_multicast a then snd (udp_call (UdJoin6 (take 16 (drop 6 (sa_data a))) (uo_ifindex u)) s) else s)
      else if in_multicast a
      then (let s = snd (udp_call
              (case c of
                 Some x \<Rightarrow> UdJoinSource (sin_addr a) (uo_ifaddr u) (sin_addr x)
               | None \<Rightarrow> if uo_ifindex u \<noteq> 0 then UdJoinIndex (sin_addr a) (uo_ifaddr u) (uo_ifindex u)
                         else UdJoin (sin_addr a) (uo_ifaddr u)) s) in
            case uo_ifname u of None \<Rightarrow> s | Some n \<Rightarrow> snd (udp_call (UdBindDevice n) s))
      else s)"

definition udp_block_cnt :: "'b ts_lib_scheme \<Rightarrow> udp_opts \<Rightarrow> int \<Rightarrow> int" where
  "udp_block_cnt B u fam =
     (let mtu = (if uo_mtu u = 0 then (if fam = AF_INET6 then DEFAULT_IPV6_MTU else DEFAULT_IPV4_MTU) else uo_mtu u)
      in (mtu - (if uo_udp u then 0 else int (RTP_HEADER_SIZE B))) sdiv int TS_SIZE)"

definition udp_open_socket ::
  "udp_opts \<Rightarrow> sockaddr option \<Rightarrow> sockaddr \<Rightarrow> 'a dvbudp_scheme \<Rightarrow> (unit, 'a dvbudp_scheme) run" where
  "udp_open_socket u c a s =
     (let (fd, s) = udp_call (UdSocket (ss_family a)) s; s = s\<lparr>udp_handle := fd\<rparr> in
      if fd < 0 then exit1 s
      else (let s = snd (udp_call (UdRcvBuf 0x80000) (snd (udp_call UdReuseAddr s))); (r, s) = udp_call (UdBind a) s in
            if r < 0 then exit1 (snd (udp_call UdClose s))
            else (let s = (case c of None \<Rightarrow> s | Some x \<Rightarrow> if sin_port x \<noteq> 0 then snd (udp_call (UdConnect x) s) else s)
                  in ret () (udp_join u c a s))))"

definition udp_watchers :: "'a dvbudp_scheme \<Rightarrow> 'a dvbudp_scheme" where
  "udp_watchers s =
     (udp_ev (UdMuteInit UDP_LOCK_TIMEOUT) (udp_ev UdIoStart (udp_ev (UdIoInit (udp_handle s)) s)))\<lparr>last_addr := zero_sockaddr\<rparr>"

definition udp_dev_Open ::
  "'b ts_lib_scheme \<Rightarrow> 'c conf_lib_scheme \<Rightarrow> 'a dvbudp_scheme \<Rightarrow> (unit, 'a dvbudp_scheme) run" where
  "udp_dev_Open B L s =
     (case psz_udp_src s of
        None \<Rightarrow> None
      | Some z \<Rightarrow>
          (let u0 = \<lparr>uo_udp = b_udp s, uo_mtu = 0, uo_ifindex = 0, uo_ifaddr = 0, uo_ifname = None\<rparr> in
           if take 6 z = ''@stdin''
           then (case ofold (udp_option B) (slash_tails z) u0 of
                   None \<Rightarrow> None
                 | Some u \<Rightarrow> ret () (udp_watchers (s\<lparr>piped := True, b_udp := uo_udp u, udp_handle := 0, i_block_cnt := 1\<rparr>)))
           else (case udp_addresses L z of
                   None \<Rightarrow> exit1 s
                 | Some (c, a, rest) \<Rightarrow>
                     (case ofold (udp_option B) (slash_tails rest) u0 of
                        None \<Rightarrow> None
                      | Some u \<Rightarrow>
                          andthen (udp_open_socket u c a
                                     (s\<lparr>b_udp := uo_udp u, i_block_cnt := udp_block_cnt B u (ss_family a)\<rparr>)) (\<lambda>_ s.
                          ret () (udp_watchers s))))))"

subsection \<open>Reading\<close>

text \<open>At most once a second the sender of the packet that waits is looked up.\<close>

definition udp_Read_print_refactory :: "'a dvbudp_scheme \<Rightarrow> 'a dvbudp_scheme" where
  "udp_Read_print_refactory s =
     (let (now, s) = mdate s; s = s\<lparr>i_wallclock := now\<rparr> in
      if i_last_print s + PRINT_REFRACTORY_PERIOD < now
      then (let n = length (udp_log s); (r, s) = udp_call UdPeek (s\<lparr>i_last_print := now\<rparr>); (a, len) = nt_peer (net s) n in
            if r \<noteq> -1 \<and> 16 \<le> len \<and> \<not> sockaddr_same len a (last_addr s) \<and> nt_name (net s) a
            then s\<lparr>last_addr := \<lparr>ss_family = ss_family a,
                                  sa_data = take (len - 2) (sa_data a) @ drop (len - 2) (sa_data (last_addr s))\<rparr>\<rparr>
            else s)
      else s)"

text \<open>Reading until a buffer of \<open>n\<close> bytes is full: the loop ends with an error, but not at the end of the input.\<close>

partial_function (option) read_full ::
  "int \<Rightarrow> int \<Rightarrow> bytes \<Rightarrow> 'a dvbudp_scheme \<Rightarrow> (int \<times> bytes \<times> 'a dvbudp_scheme) option" where
  "read_full n ts acc s =
     (if n \<le> 0 then Some (ts, acc, s)
      else (let k = length (udp_log s); (r, s) = udp_call (UdRead (nat n)) s in
            if r < 0 then Some (-1, acc, s)
            else read_full (n - r) (ts + r) (acc @ take (nat r) (nt_bytes (net s) k)) s))"

text \<open>The length asked for is that of the first buffer, for each of them. The texts read are those of the buffers
  reached.\<close>

fun p_readv :: "int \<Rightarrow> nat \<Rightarrow> 'a dvbudp_scheme \<Rightarrow> (int \<times> bytes list \<times> 'a dvbudp_scheme) option" where
  "p_readv len0 0 s = Some (0, [], s)"
| "p_readv len0 (Suc ni) s =
     (case read_full len0 0 [] s of
        None \<Rightarrow> None
      | Some (r, d, s) \<Rightarrow>
          if r < 0 then Some (-1, [d], s)
          else (case p_readv len0 ni s of
                  None \<Rightarrow> None
                | Some (q, ds, s) \<Rightarrow> Some (if q < 0 then -1 else r + q, d # ds, s)))"

definition put_chunk :: "bytes \<Rightarrow> block \<Rightarrow> block" where
  "put_chunk d b = b\<lparr>bk_ts := take TS_SIZE (d @ drop (length d) (bk_ts b))\<rparr>"

definition over :: "bytes \<Rightarrow> bytes \<Rightarrow> bytes" where
  "over d old = d @ drop (length d) old"

text \<open>One read into the header, when there is one, and the blocks: the length, and the header after it.\<close>

definition stdin_into ::
  "'b ts_lib_scheme \<Rightarrow> nat list \<Rightarrow> 'a dvbudp_scheme \<Rightarrow> (int \<times> bytes \<times> 'a dvbudp_scheme) option" where
  "stdin_into B bs s =
     (let hdr = \<not> b_udp s in
      case p_readv (if hdr then int (RTP_HEADER_SIZE B) else int TS_SIZE) (length bs + (if hdr then 1 else 0)) s of
        None \<Rightarrow> None
      | Some (r, ds, s) \<Rightarrow>
          (let h = (if hdr then concat (take 1 ds) else []); ds = (if hdr then drop 1 ds else ds) in
           Some (r, over h (rtp_stack s), fold (\<lambda>(d, b). upd_block b (put_chunk d)) (zip ds bs) s)))"

definition socket_into ::
  "'b ts_lib_scheme \<Rightarrow> nat list \<Rightarrow> 'a dvbudp_scheme \<Rightarrow> int \<times> bytes \<times> 'a dvbudp_scheme" where
  "socket_into B bs s =
     (let n = length (udp_log s);
          hdr = (if b_udp s then 0 else RTP_HEADER_SIZE B);
          (r, s) = udp_call (UdReadv (length bs + (if b_udp s then 0 else 1))) s in
      if r < 0 then (r, rtp_stack s, s)
      else (let data = take (nat r) (nt_bytes (net s) n) in
            (r, over (take hdr data) (rtp_stack s), readv_into (drop hdr data) bs s)))"

text \<open>The header is looked at for messages, and remembered.\<close>

definition rtp_seen :: "'c udp_lib_scheme \<Rightarrow> bytes \<Rightarrow> 'a dvbudp_scheme \<Rightarrow> 'a dvbudp_scheme" where
  "rtp_seen L h s = s\<lparr>udp_ssrc := rtp_get_ssrc L h, udp_seqnum := rtp_get_seqnum L h + 1\<rparr>"

definition new_blocks :: "nat \<Rightarrow> 'a dvbheap_scheme \<Rightarrow> (nat list \<times> 'a dvbheap_scheme) option" where
  "new_blocks n s = ofold (\<lambda>_ (bs, s). map_option (\<lambda>(b, s). (bs @ [b], s)) (block_New s)) [0..<n] ([], s)"

text \<open>How many of the blocks are kept for \<open>i_len\<close> bytes, the header included.\<close>

definition whole_packets :: "'b ts_lib_scheme \<Rightarrow> bool \<Rightarrow> int \<Rightarrow> int" where
  "whole_packets B raw len = (len - (if raw then 0 else int (RTP_HEADER_SIZE B))) sdiv int TS_SIZE"

definition udp_keep :: "int \<Rightarrow> nat list \<Rightarrow> nat" where
  "udp_keep n bs = (if n < 0 then length bs else nat n)"

text \<open>The whole packets go on, the blocks that are left back to the pool; on an error that is all of them.\<close>

definition udp_deliver ::
  "'b psi_lib_scheme \<Rightarrow> 'c udp_lib_scheme \<Rightarrow> nat list \<Rightarrow> int \<times> bytes \<times> 'a dvbudp_scheme \<Rightarrow> 'a dvbudp_scheme option" where
  "udp_deliver B L bs = (\<lambda>(len, h, s).
     if len < 0 then do { s \<leftarrow> block_DeleteChain bs s; demux_Run B [] s }
     else do {
       let s = (if b_udp s then s else rtp_seen L h s);
       let n = whole_packets B (b_udp s) len;
       let s = (if n \<noteq> 0 then udp_ev UdMuteAgain (s\<lparr>b_sync := True\<rparr>) else s);
       s \<leftarrow> block_DeleteChain (drop (udp_keep n bs) bs) s;
       demux_Run B (take (udp_keep n bs) bs) s })"

text \<open>Without blocks (an MTU too small for a packet) the chain of blocks is an uninitialised pointer.\<close>

definition udp_Read ::
  "'b psi_lib_scheme \<Rightarrow> 'c udp_lib_scheme \<Rightarrow> 'a dvbudp_scheme \<Rightarrow> 'a dvbudp_scheme option" where
  "udp_Read B L s = do {
     let s = (if piped s then s else udp_Read_print_refactory s);
     ensure (0 < i_block_cnt s);
     (bs, s) \<leftarrow> new_blocks (nat (i_block_cnt s)) s;
     r \<leftarrow> (if piped s then stdin_into B bs s else Some (socket_into B bs s));
     udp_deliver B L bs r }"

definition udp_MuteCb :: "'a dvbudp_scheme \<Rightarrow> 'a dvbudp_scheme" where
  "udp_MuteCb s = udp_ev UdMuteStop s"

text \<open>There are no hardware filters, and nothing to reset.\<close>

definition udp_dev_SetFilter :: "nat \<Rightarrow> 'a dvbudp_scheme \<Rightarrow> int \<times> 'a dvbudp_scheme" where
  "udp_dev_SetFilter pid s = (-1, s)"

definition udp_dev_UnsetFilter :: "int \<Rightarrow> nat \<Rightarrow> 'a dvbudp_scheme \<Rightarrow> 'a dvbudp_scheme" where
  "udp_dev_UnsetFilter fd pid s = s"

definition udp_dev_Reset :: "'a dvbudp_scheme \<Rightarrow> 'a dvbudp_scheme" where
  "udp_dev_Reset s = s"

end
