(* ===== verification/Dvb_UdpClaims.thy ===== *)
theory Dvb_UdpClaims
  imports Dvb_Udp Dvb_FrontendClaims Dvb_ConfigClaims
begin

text \<open>
  What becomes of the bytes of the other input: those of a socket reach the demultiplexer packet by packet, and
  those of the standard input only when it is opened as raw.
\<close>

subsection \<open>The pool and the rest of the state\<close>

definition pool_step :: "'a dvbheap_scheme \<Rightarrow> 'a dvbheap_scheme \<Rightarrow> bool" where
  "pool_step s t \<longleftrightarrow> (\<exists>m al bk li n. t = s\<lparr>mem := m, allocd := al, brk := bk, p_block_lifo := li, i_block_count := n\<rparr>)"

lemma pool_step_refl [simp]: "pool_step s s"
  unfolding pool_step_def
  by (rule exI [of _ "mem s"], rule exI [of _ "allocd s"], rule exI [of _ "brk s"], rule exI [of _ "p_block_lifo s"],
      rule exI [of _ "i_block_count s"]) simp

lemma pool_stepI [simp]:
  "pool_step s (s\<lparr>mem := m, allocd := al, brk := bk, p_block_lifo := li, i_block_count := n\<rparr>)"
  unfolding pool_step_def by (intro exI) (rule refl)

lemma pool_step_trans:
  assumes "pool_step s t" and "pool_step t u"
  shows "pool_step s u"
proof -
  from assms(1) obtain m al bk li n where t: "t = s\<lparr>mem := m, allocd := al, brk := bk, p_block_lifo := li, i_block_count := n\<rparr>"
    by (auto simp: pool_step_def)
  from assms(2) obtain m al bk li n where "u = t\<lparr>mem := m, allocd := al, brk := bk, p_block_lifo := li, i_block_count := n\<rparr>"
    by (auto simp: pool_step_def)
  then have "u = s\<lparr>mem := m, allocd := al, brk := bk, p_block_lifo := li, i_block_count := n\<rparr>" by (simp add: t)
  then show ?thesis by (simp only: pool_stepI)
qed

lemma pool_step_upd [simp]: "pool_step s (upd_block b f s)"
  unfolding pool_step_def upd_block_def
  by (rule exI [of _ "(mem s)(b := f (mem s b))"], rule exI [of _ "allocd s"], rule exI [of _ "brk s"],
      rule exI [of _ "p_block_lifo s"], rule exI [of _ "i_block_count s"]) simp

lemma pool_step_New: "block_New s = Some (b, t) \<Longrightarrow> pool_step s t"
  unfolding block_New_def pool_step_def upd_block_def
  by (rule exI [of _ "mem t"], rule exI [of _ "allocd t"], rule exI [of _ "brk t"], rule exI [of _ "p_block_lifo t"],
      rule exI [of _ "i_block_count t"])
     (auto simp: bind_eq_Some_conv split: if_splits list.splits)

lemma pool_step_Delete: "block_Delete b s = Some t \<Longrightarrow> pool_step s t \<and> mem t = mem s"
  unfolding block_Delete_def pool_step_def c_free_def
  by (rule conjI, rule exI [of _ "mem t"], rule exI [of _ "allocd t"], rule exI [of _ "brk t"],
      rule exI [of _ "p_block_lifo t"], rule exI [of _ "i_block_count t"])
     (auto split: if_splits)

lemma pool_step_fold: "pool_step s (fold (\<lambda>x. upd_block (g x) (f x)) xs s)"
proof (induction xs arbitrary: s)
  case (Cons x xs)
  show ?case using pool_step_trans [OF pool_step_upd Cons.IH] by simp
qed simp

lemma pool_step_udp:
  assumes "pool_step s (t :: 'a dvbudp_scheme)"
  shows "net t = net s" "udp_log t = udp_log s" "b_udp t = b_udp s" "piped t = piped s" "rtp_stack t = rtp_stack s"
    "b_sync t = b_sync s" "udp_seqnum t = udp_seqnum s"
  using assms by (auto simp: pool_step_def)

lemma new_blocks_spec:
  assumes "pool_ok s"
  shows "\<exists>bs t. new_blocks n s = Some (bs, t) \<and> in_hand t bs \<and> length bs = n \<and> pool_step s t
    \<and> live t = (\<lambda>a. live s a \<or> a \<in> set bs) \<and> (\<forall>b\<in>set bs. \<not> live s b)"
proof -
  define P where "P = (\<lambda>i (bs, t). in_hand t bs \<and> length bs = i \<and> pool_step s t
    \<and> live t = (\<lambda>a. live s a \<or> a \<in> set bs) \<and> (\<forall>b\<in>set bs. \<not> live s b))"
  have "\<exists>u. (\<lambda>_ (bs, t). map_option (\<lambda>(b, t). (bs @ [b], t)) (block_New t)) i v = Some u \<and> P (Suc i) u" if "P i v" for i v
  proof -
    obtain bs t where v: "v = (bs, t)" by (cases v)
    from that have h: "in_hand t bs" "length bs = i" "pool_step s t" "live t = (\<lambda>a. live s a \<or> a \<in> set bs)"
      "\<forall>b\<in>set bs. \<not> live s b" by (auto simp: P_def v)
    from block_New_spec [of t] h(1) obtain b u where u: "block_New t = Some (b, u)" "pool_ok u" "\<not> live t b"
      "live u = (live t)(b := True)" "block_ref u = (block_ref t)(b := 1)" by (auto simp: in_hand_def)
    with h pool_step_trans [OF h(3) pool_step_New [OF u(1)]] show ?thesis by (auto simp: P_def v in_hand_def fun_eq_iff)
  qed
  moreover have "P 0 ([], s)" using assms by (simp add: P_def in_hand_def)
  ultimately have "\<exists>u. ofold (\<lambda>_ (bs, t). map_option (\<lambda>(b, t). (bs @ [b], t)) (block_New t)) [0..<n] ([], s) = Some u \<and> P n u"
    by (intro ofold_upt) auto
  then show ?thesis unfolding new_blocks_def P_def by auto
qed

lemma DeleteChain_spec:
  assumes "in_hand s (as @ bs)"
  shows "\<exists>t. block_DeleteChain bs s = Some t \<and> in_hand t as \<and> pool_step s t \<and> mem t = mem s
    \<and> live t = (\<lambda>a. live s a \<and> a \<notin> set bs)"
  using assms
proof (induction bs arbitrary: s)
  case (Cons b bs)
  from Cons.prems have "pool_ok s" "live s b" by (auto simp: in_hand_def)
  from block_Delete_spec [OF this] obtain s1 where s1: "block_Delete b s = Some s1" "pool_ok s1"
    "live s1 = (live s)(b := False)" "block_ref s1 = block_ref s" by blast
  have "in_hand s1 (as @ bs)" using Cons.prems s1(2-4) by (auto simp: in_hand_def)
  from Cons.IH [OF this] obtain t where t: "block_DeleteChain bs s1 = Some t" "in_hand t as" "pool_step s1 t" "mem t = mem s1"
    "live t = (\<lambda>a. live s1 a \<and> a \<notin> set bs)" by blast
  with s1 pool_step_Delete [OF s1(1)] show ?case
    by (auto simp: block_DeleteChain_def fun_eq_iff intro: pool_step_trans)
qed (auto simp: block_DeleteChain_def)

lemma refactory_udp:
  "pool_ok (udp_Read_print_refactory s) = pool_ok s" "live (udp_Read_print_refactory s) = live s"
  "net (udp_Read_print_refactory s) = net s" "b_udp (udp_Read_print_refactory s) = b_udp s"
  "piped (udp_Read_print_refactory s) = piped s" "i_block_cnt (udp_Read_print_refactory s) = i_block_cnt s"
  "b_sync (udp_Read_print_refactory s) = b_sync s" "rtp_stack (udp_Read_print_refactory s) = rtp_stack s"
  by (auto simp: udp_Read_print_refactory_def mdate_def udp_call_def udp_ev_def Let_def pool_ok_def live_def fun_eq_iff
      split: prod.splits)

lemma sdiv_short: "0 \<le> r \<Longrightarrow> h < 188 \<Longrightarrow> (r - int h) sdiv 188 = int (nat (r - int h) div 188)"
  by (cases "int h \<le> r") (auto simp: signed_divide_int_def sgn_if zdiv_int abs_if)

text \<open>Of the blocks in hand those that are filled are handed on with what they hold, the others are given back.\<close>

lemma udp_deliver_spec:
  assumes "in_hand s bs" and "RTP_HEADER_SIZE B = 12" and "hdr = (if b_udp s then 0 else 12)"
    and "k = nat (r - int hdr) div TS_SIZE" and "k \<le> length bs"
  shows "\<exists>t. udp_deliver B L bs (r, h, s) = demux_Run B (take k bs) t \<and> in_hand t (take k bs) \<and> mem t = mem s
    \<and> live t = (\<lambda>a. live s a \<and> a \<notin> set (drop k bs)) \<and> b_sync t = (b_sync s \<or> k \<noteq> 0)
    \<and> (\<exists>c. udp_log t = udp_log s @ c \<and> (k = 0 \<longrightarrow> c = []))"
proof (cases "r < 0")
  case True
  from DeleteChain_spec [of s "[]" bs] assms(1) obtain t where t: "block_DeleteChain bs s = Some t" "in_hand t []" "pool_step s t"
    "mem t = mem s" "live t = (\<lambda>a. live s a \<and> a \<notin> set bs)" by auto
  moreover have "k = 0" using assms(4) True by simp
  ultimately show ?thesis using True pool_step_udp(2,6) [OF t(3)] by (auto simp: udp_deliver_def)
next
  case False
  have hdr: "hdr < 188" "hdr = (if b_udp s then 0 else RTP_HEADER_SIZE B)" using assms(2,3) by auto
  have k: "whole_packets B (b_udp s) r = int k"
    using sdiv_short [of r hdr] False hdr assms(4) by (simp add: whole_packets_def TS_SIZE_def split: if_splits)
  define z where "z = (if b_udp s then s else rtp_seen L h s)"
  have z: "b_udp z = b_udp s" by (simp add: z_def rtp_seen_def)
  define y where "y = (if k \<noteq> 0 then udp_ev UdMuteAgain (z\<lparr>b_sync := True\<rparr>) else z)"
  have y: "in_hand y as = in_hand s as" "live y = live s" "mem y = mem s" "b_sync y = (b_sync s \<or> k \<noteq> 0)"
    "udp_log y = udp_log s @ (if k \<noteq> 0 then [UdMuteAgain] else [])" for as
    by (auto simp: y_def z_def udp_ev_def rtp_seen_def in_hand_def pool_defs fun_eq_iff)
  from DeleteChain_spec [of y "take k bs" "drop k bs"] assms(1) obtain t where t: "block_DeleteChain (drop k bs) y = Some t"
    "in_hand t (take k bs)" "pool_step y t" "mem t = mem y" "live t = (\<lambda>a. live y a \<and> a \<notin> set (drop k bs))"
    by (auto simp: y)
  have "udp_keep (whole_packets B (b_udp s) r) bs = k" by (simp add: udp_keep_def k)
  then have "udp_deliver B L bs (r, h, s) = demux_Run B (take k bs) t"
    using False t(1) by (cases "k = 0") (simp_all add: udp_deliver_def Let_def z k y_def z_def [symmetric])
  with t pool_step_udp(2,6) [OF t(3)] show ?thesis by (intro exI [of _ t]) (auto simp: y)
qed

text \<open>Blocks that are new: when some are given back, what is live is what was live and the others.\<close>

lemma live_new:
  assumes "in_hand u bs" and "live u = (\<lambda>a. live s a \<or> a \<in> set bs)" and "\<forall>b\<in>set bs. \<not> live s b"
  shows "(\<lambda>a. live u a \<and> a \<notin> set (drop k bs)) = (\<lambda>a. live s a \<or> a \<in> set (take k bs))"
proof
  fix a
  have "distinct (take k bs @ drop k bs)" using assms(1) by (simp add: in_hand_def)
  then have "a \<in> set (take k bs) \<Longrightarrow> a \<notin> set (drop k bs)" by (simp only: distinct_append) blast
  moreover have "a \<in> set bs \<longleftrightarrow> a \<in> set (take k bs) \<or> a \<in> set (drop k bs)" by (metis append_take_drop_id set_append Un_iff)
  ultimately show "(live u a \<and> a \<notin> set (drop k bs)) = (live s a \<or> a \<in> set (take k bs))" using assms(2,3) by auto
qed

subsection \<open>An input\<close>

definition ex_udp :: "net_driver \<Rightarrow> bool \<Rightarrow> bool \<Rightarrow> int \<Rightarrow> dvbudp" where
  "ex_udp d raw pip cnt = dvbdemux.extend (ex_demux [])
     (dvbudp.fields d [] (replicate 12 0) 3 raw cnt (replicate 4 0) 0 False 0 zero_sockaddr None pip)"

definition ex_net :: "int \<Rightarrow> bytes \<Rightarrow> net_driver" where
  "ex_net r data = \<lparr>nt_ret = \<lambda>_. r, nt_bytes = \<lambda>_. data, nt_peer = \<lambda>_. (zero_sockaddr, 0), nt_name = \<lambda>_. False\<rparr>"

definition ex_udp_lib :: udp_lib where
  "ex_udp_lib = conf_lib.extend ex_conf (udp_lib.fields (\<lambda>h. take 4 (drop 8 h)) (\<lambda>_. 0))"

lemma ex_udp_simps [simp]:
  "net (ex_udp d r p c) = d" "udp_log (ex_udp d r p c) = []" "b_udp (ex_udp d r p c) = r" "piped (ex_udp d r p c) = p"
  "i_block_cnt (ex_udp d r p c) = c" "\<not> b_sync (ex_udp d r p c)" "pool_ok (ex_udp d r p c)" "\<not> live (ex_udp d r p c) b"
  by (simp_all add: ex_udp_def dvbdemux.defs dvbudp.defs pool_ok_def live_def ex_demux_def dvben.defs ex_ci_defs)

lemma ex_net_simps [simp]: "nt_ret (ex_net r d) k = r" "nt_bytes (ex_net r d) k = d"
  by (simp_all add: ex_net_def)

subsection \<open>A socket\<close>

lemma readv_contents:
  assumes "distinct bs" and "j < length bs" and "hdr + TS_SIZE * j + TS_SIZE \<le> k" and "k \<le> length data"
  shows "bk_ts (mem (readv_into (drop hdr (take k data)) bs s) (bs ! j)) = take TS_SIZE (drop (hdr + TS_SIZE * j) data)"
proof -
  have "mem (readv_into (drop hdr (take k data)) bs s) (bs ! j) = readv_block (drop hdr (take k data)) j (mem s (bs ! j))"
    using fold_upd_nth [OF assms(1,2), of "readv_block (drop hdr (take k data))" 0 s] by (simp add: readv_into_def)
  moreover have "take TS_SIZE (drop (TS_SIZE * j) (drop hdr (take k data))) = take TS_SIZE (drop (hdr + TS_SIZE * j) data)"
    using assms(3) by (simp add: drop_take min_def add.commute)
  moreover define seg where "seg = take TS_SIZE (drop (hdr + TS_SIZE * j) data)"
  moreover have "length seg = TS_SIZE" using assms(3,4) by (simp add: seg_def)
  ultimately show ?thesis by (simp only: readv_block_def Let_def) simp
qed

lemma readv_into_step: "pool_step s (readv_into data bs s)"
  unfolding readv_into_def
  using pool_step_fold [of s snd "\<lambda>p. readv_block data (fst p)" "enumerate 0 bs"] by (simp add: split_beta')

lemma socket_into_spec:
  assumes "in_hand s bs" and "r = nt_ret (net s) (length (udp_log s))" and "data = nt_bytes (net s) (length (udp_log s))"
    and "hdr = (if b_udp s then 0 else RTP_HEADER_SIZE B)" and "nat r \<le> length data"
  shows "\<exists>h t. socket_into B bs s = (r, h, t) \<and> in_hand t bs \<and> live t = live s \<and> b_udp t = b_udp s \<and> b_sync t = b_sync s
    \<and> (\<forall>j<length bs. hdr + TS_SIZE * j + TS_SIZE \<le> nat r \<longrightarrow> bk_ts (mem t (bs ! j)) = take TS_SIZE (drop (hdr + TS_SIZE * j) data))"
proof -
  define w where "w = udp_ev (UdReadv (length bs + (if b_udp s then 0 else 1))) s"
  have w: "in_hand w as = in_hand s as" "live w = live s" "b_udp w = b_udp s" "b_sync w = b_sync s" "net w = net s" for as
    by (auto simp: w_def udp_ev_def in_hand_def pool_defs fun_eq_iff)
  define x where "x = (if r < 0 then w else readv_into (drop hdr (take (nat r) data)) bs w)"
  have "pool_step w x" by (simp add: x_def readv_into_step)
  moreover have "in_hand x bs" "live x = live s"
    using fold_upd_frame [of "readv_block (drop hdr (take (nat r) data))" 0 bs w bs] w assms(1)
    by (simp_all add: x_def readv_into_def readv_block_def Let_def)
  moreover have "\<exists>h. socket_into B bs s = (r, h, x)"
    using assms(2-4) w(5) by (simp add: socket_into_def udp_call_def Let_def x_def flip: w_def)
  moreover have "bk_ts (mem x (bs ! j)) = take TS_SIZE (drop (hdr + TS_SIZE * j) data)"
    if "j < length bs" "hdr + TS_SIZE * j + TS_SIZE \<le> nat r" for j
  proof -
    have "0 < nat r" using that(2) by (simp add: TS_SIZE_def)
    then have "x = readv_into (drop hdr (take (nat r) data)) bs w" by (simp add: x_def)
    then show ?thesis using readv_contents [OF _ that assms(5), of w] assms(1) by (simp add: in_hand_def)
  qed
  moreover have "b_udp x = b_udp s" "b_sync x = b_sync s" using pool_step_udp(3,6) [OF \<open>pool_step w x\<close>] w by simp_all
  ultimately show ?thesis by blast
qed



subsection \<open>The standard input\<close>

lemma upd_fold_frame:
  assumes "\<And>x b. bk_refcount (f x b) = bk_refcount b"
  shows "in_hand (fold (\<lambda>x. upd_block (g x) (f x)) xs s) bs = in_hand s bs
    \<and> live (fold (\<lambda>x. upd_block (g x) (f x)) xs s) = live s"
proof (induction xs arbitrary: s)
  case (Cons x xs)
  have "in_hand (upd_block (g x) (f x) s) bs = in_hand s bs" "live (upd_block (g x) (f x) s) = live s"
    using assms by (auto simp: in_hand_def pool_defs fun_eq_iff)
  with Cons.IH [of "upd_block (g x) (f x) s"] show ?case by simp
qed simp

text \<open>What the next reads give.\<close>

definition arrives :: "bytes list \<Rightarrow> 'a dvbudp_scheme \<Rightarrow> bool" where
  "arrives ps s \<longleftrightarrow> (\<forall>i<length ps. nt_ret (net s) (length (udp_log s) + i) = int (length (ps ! i))
     \<and> nt_bytes (net s) (length (udp_log s) + i) = ps ! i \<and> ps ! i \<noteq> [])"

lemma arrives_Cons:
  assumes "arrives (p # ps) s"
  shows "nt_ret (net s) (length (udp_log s)) = int (length p)" "nt_bytes (net s) (length (udp_log s)) = p" "p \<noteq> []"
    "arrives ps (udp_ev c s)"
proof -
  have at: "nt_ret (net s) (length (udp_log s) + i) = int (length ((p # ps) ! i))
    \<and> nt_bytes (net s) (length (udp_log s) + i) = (p # ps) ! i \<and> (p # ps) ! i \<noteq> []" if "i < Suc (length ps)" for i
    using assms that by (auto simp: arrives_def)
  show "nt_ret (net s) (length (udp_log s)) = int (length p)" "nt_bytes (net s) (length (udp_log s)) = p" "p \<noteq> []"
    using at [of 0] by simp_all
  show "arrives ps (udp_ev c s)" using at [of "Suc _"] by (simp add: arrives_def udp_ev_def)
qed

lemma read_full_pieces:
  assumes "arrives ps s" and "n = int (length (concat ps))"
  shows "\<exists>c. read_full n ts acc s = Some (ts + n, acc @ concat ps, s\<lparr>udp_log := udp_log s @ c\<rparr>)"
  using assms
proof (induction ps arbitrary: n ts acc s)
  case Nil
  then show ?case by (subst read_full.simps) (auto intro: exI [of _ "[]"])
next
  case (Cons p ps)
  let ?c = "UdRead (nat n)"
  note p = arrives_Cons(1-3) [OF Cons.prems(1)] arrives_Cons(4) [OF Cons.prems(1), of ?c]
  have n: "0 < n" "n - int (length p) = int (length (concat ps))" "ts + n = ts + int (length p) + int (length (concat ps))"
    using Cons.prems(2) p(3) by (cases p; simp)+
  from Cons.IH [OF p(4) refl] obtain c where
    c: "read_full (int (length (concat ps))) (ts + int (length p)) (acc @ p) (udp_ev ?c s) =
      Some (ts + int (length p) + int (length (concat ps)), (acc @ p) @ concat ps,
            (udp_ev ?c s)\<lparr>udp_log := udp_log (udp_ev ?c s) @ c\<rparr>)" by blast
  have "read_full n ts acc s = read_full (n - int (length p)) (ts + int (length p)) (acc @ p) (udp_ev ?c s)"
    using n(1) p(1,2) by (subst read_full.simps) (simp add: udp_call_def Let_def udp_ev_def)
  also have "\<dots> = Some (ts + n, acc @ concat (p # ps), s\<lparr>udp_log := udp_log s @ ?c # c\<rparr>)"
    unfolding n(2,3) c by (simp add: udp_ev_def)
  finally show ?case by blast
qed

text \<open>A packet from the standard input arrives as it was written, in however many pieces the kernel hands it over,
  when the input was opened as raw (\<open>@stdin/udp\<close>).\<close>

theorem Stdin_packet:
  assumes "piped s" and "b_udp s" and "i_block_cnt s = 1" and "pool_ok s" and "RTP_HEADER_SIZE B = 12"
    and "arrives ps s" and "length (concat ps) = TS_SIZE"
  shows "\<exists>b t. udp_Read B L s = demux_Run B [b] t \<and> bk_ts (mem t b) = concat ps \<and> in_hand t [b]
    \<and> live t = (live s)(b := True) \<and> \<not> live s b"
proof -
  from new_blocks_spec [OF assms(4), of 1] obtain bs u where u: "new_blocks 1 s = Some (bs, u)" "in_hand u bs" "length bs = 1"
    "pool_step s u" "live u = (\<lambda>a. live s a \<or> a \<in> set bs)" "\<forall>b\<in>set bs. \<not> live s b" by blast
  from u(3) obtain b where b: "bs = [b]" by (cases bs) auto
  note pu = pool_step_udp [OF u(4)]
  have "arrives ps u" using assms(6) by (simp add: arrives_def pu)
  from read_full_pieces [OF this refl, of 0 "[]"] assms(7) obtain c where
    c: "read_full (int TS_SIZE) 0 [] u = Some (int TS_SIZE, concat ps, u\<lparr>udp_log := udp_log u @ c\<rparr>)" by auto
  define x where "x = upd_block b (put_chunk (concat ps)) (u\<lparr>udp_log := udp_log u @ c\<rparr>)"
  have x: "in_hand x [b]" "live x = live u" "b_udp x"
    using u(2) assms(2) by (auto simp: x_def put_chunk_def in_hand_def pool_defs fun_eq_iff b pu)
  have "stdin_into B bs u = Some (int TS_SIZE, over [] (rtp_stack u), x)"
    using c assms(2) by (simp add: stdin_into_def b Let_def pu x_def)
  moreover have one: "1 = nat (int TS_SIZE - int 0) div TS_SIZE" by (simp add: TS_SIZE_def)
  from udp_deliver_spec [OF x(1) assms(5) _ one, of L "over [] (rtp_stack u)"] x(3)
  obtain t where t: "udp_deliver B L [b] (int TS_SIZE, over [] (rtp_stack u), x) = demux_Run B [b] t" "in_hand t [b]"
    "mem t = mem x" "live t = live x" by auto
  ultimately have "udp_Read B L s = demux_Run B [b] t" using assms(1,3) u(1) by (simp add: udp_Read_def pu b)
  moreover have "bk_ts (mem t b) = concat ps" using assms(7) by (simp add: t(3) x_def upd_block_def put_chunk_def)
  ultimately show ?thesis using t(2,4) x(2) u(5,6) by (intro exI [of _ b] exI [of _ t]) (auto simp: b fun_eq_iff)
qed

lemma Stdin_packet_witness:
  "\<exists>b t. udp_Read ex_psi ex_udp_lib (ex_udp (ex_net 94 (replicate 94 0x47)) True True 1) = demux_Run ex_psi [b] t
    \<and> bk_ts (mem t b) = replicate 94 0x47 @ replicate 94 0x47 \<and> in_hand t [b]"
proof -
  have "arrives [replicate 94 0x47, replicate 94 0x47] (ex_udp (ex_net 94 (replicate 94 0x47)) True True 1)"
    by (auto simp: arrives_def less_Suc_eq)
  from Stdin_packet [OF _ _ _ _ _ this, of ex_psi ex_udp_lib] show ?thesis by (auto simp: TS_SIZE_def)
qed

lemma read_full_short:
  assumes "\<forall>k\<ge>length (udp_log s). 1 \<le> nt_ret (net s) k \<and> nt_ret (net s) k \<le> 12" and "n \<le> 12" and "0 \<le> ts"
  shows "\<exists>r d c. read_full n ts acc s = Some (r, d, s\<lparr>udp_log := udp_log s @ c\<rparr>) \<and> 0 \<le> r \<and> r \<le> ts + (if n \<le> 0 then 0 else n + 11) \<and> (0 < n \<longrightarrow> c \<noteq> [])"
  using assms
proof (induction "nat n" arbitrary: n ts acc s rule: less_induct)
  case less
  show ?case
  proof (cases "n \<le> 0")
    case True
    then show ?thesis using less.prems(3) by (subst read_full.simps) (auto intro: exI [of _ "[]"])
  next
    case False
    define r where "r = nt_ret (net s) (length (udp_log s))"
    have r: "1 \<le> r" "r \<le> 12" using less.prems(1) by (simp_all add: r_def)
    let ?c = "UdRead (nat n)" and ?d = "take (nat r) (nt_bytes (net s) (length (udp_log s)))"
    have "\<exists>q d c. read_full (n - r) (ts + r) (acc @ ?d) (udp_ev ?c s) =
        Some (q, d, (udp_ev ?c s)\<lparr>udp_log := udp_log (udp_ev ?c s) @ c\<rparr>) \<and> 0 \<le> q \<and> q \<le> ts + r + (if n - r \<le> 0 then 0 else n - r + 11) \<and> (0 < n - r \<longrightarrow> c \<noteq> [])"
      by (rule less.hyps) (use False r less.prems in \<open>auto simp: udp_ev_def\<close>)
    then obtain q d c where q: "read_full (n - r) (ts + r) (acc @ ?d) (udp_ev ?c s) =
        Some (q, d, s\<lparr>udp_log := udp_log s @ ?c # c\<rparr>)" "0 \<le> q" "q \<le> ts + r + (if n - r \<le> 0 then 0 else n - r + 11)"
      by (auto simp: udp_ev_def)
    have "read_full n ts acc s = Some (q, d, s\<lparr>udp_log := udp_log s @ ?c # c\<rparr>)"
      using False r(1) q(1) by (subst read_full.simps) (simp add: udp_call_def Let_def udp_ev_def r_def)
    moreover have "q \<le> ts + (if n \<le> 0 then 0 else n + 11)" using q(3) r False by (simp split: if_splits)
    ultimately show ?thesis using q(2) by blast
  qed
qed

text \<open>An input that is opened as \<open>@stdin\<close> alone receives nothing: the length of the RTP header is asked for every
  buffer, so a round takes some twenty bytes, not one packet of them goes to the demultiplexer, and they are gone.\<close>

theorem Stdin_needs_udp:
  assumes "piped s" and "\<not> b_udp s" and "i_block_cnt s = 1" and "pool_ok s" and "RTP_HEADER_SIZE B = 12"
    and "\<forall>k\<ge>length (udp_log s). 1 \<le> nt_ret (net s) k \<and> nt_ret (net s) k \<le> 12"
  shows "\<exists>t. udp_Read B L s = demux_Run B [] t \<and> live t = live s \<and> b_sync t = b_sync s \<and> udp_log s \<noteq> udp_log t"
proof -
  from new_blocks_spec [OF assms(4), of 1] obtain bs u where u: "new_blocks 1 s = Some (bs, u)" "in_hand u bs" "length bs = 1"
    "pool_step s u" "live u = (\<lambda>a. live s a \<or> a \<in> set bs)" "\<forall>b\<in>set bs. \<not> live s b" by blast
  from u(3) obtain b where b: "bs = [b]" by (cases bs) auto
  note pu = pool_step_udp [OF u(4)]
  from read_full_short [of u 12 0 "[]"] assms(6) obtain r1 d1 c1 where
    1: "read_full 12 0 [] u = Some (r1, d1, u\<lparr>udp_log := udp_log u @ c1\<rparr>)" "0 \<le> r1" "r1 \<le> 23" "c1 \<noteq> []" by (auto simp: pu)
  from read_full_short [of "u\<lparr>udp_log := udp_log u @ c1\<rparr>" 12 0 "[]"] assms(6) obtain r2 d2 c2 where
    2: "read_full 12 0 [] (u\<lparr>udp_log := udp_log u @ c1\<rparr>) = Some (r2, d2, u\<lparr>udp_log := udp_log u @ c1 @ c2\<rparr>)" "0 \<le> r2" "r2 \<le> 23"
    by (auto simp: pu)
  define x where "x = upd_block b (put_chunk d2) (u\<lparr>udp_log := udp_log u @ c1 @ c2\<rparr>)"
  have x: "in_hand x [b]" "live x = live u" "b_udp x = b_udp s" "b_sync x = b_sync s" "udp_log x = udp_log s @ c1 @ c2"
    using u(2) by (auto simp: x_def put_chunk_def in_hand_def pool_defs fun_eq_iff b pu)
  have "stdin_into B bs u = Some (r1 + r2, over d1 (rtp_stack u), x)"
    using 1 2 assms(2,5) by (simp add: stdin_into_def b Let_def pu x_def numeral_2_eq_2)
  moreover have none: "0 = nat (r1 + r2 - int 12) div TS_SIZE" using 1(3) 2(3) by (simp add: TS_SIZE_def)
  from udp_deliver_spec [OF x(1) assms(5) _ none, of L "over d1 (rtp_stack u)"] x(3) assms(2)
  obtain t where t: "udp_deliver B L [b] (r1 + r2, over d1 (rtp_stack u), x) = demux_Run B [] t"
    "live t = (\<lambda>a. live x a \<and> a \<notin> set [b])" "b_sync t = b_sync x" "udp_log t = udp_log x" by auto
  ultimately have "udp_Read B L s = demux_Run B [] t" using assms(1,3) u(1) by (simp add: udp_Read_def pu b)
  moreover have "live t = live s" using t(2) x(2) u(5,6) by (auto simp: b fun_eq_iff)
  ultimately show ?thesis using t(3,4) x(4,5) 1(4) by auto
qed

lemma Stdin_needs_udp_witness:
  "\<exists>t. udp_Read ex_psi ex_udp_lib (ex_udp (ex_net 12 (replicate 12 0x47)) False True 1) = demux_Run ex_psi [] t \<and> udp_log t \<noteq> []"
  using Stdin_needs_udp [of "ex_udp (ex_net 12 (replicate 12 0x47)) False True 1" ex_psi ex_udp_lib] by auto

lemma read_full_ends:
  assumes "\<forall>k\<ge>length (udp_log s). nt_ret (net s) k = 0" and "0 < n"
  shows "read_full n ts acc s = None"
proof (rule ccontr)
  let ?P = "\<lambda>n ts acc (s :: 'a dvbudp_scheme) y. \<not> ((\<forall>k\<ge>length (udp_log s). nt_ret (net s) k = 0) \<and> 0 < n)"
  assume "read_full n ts acc s \<noteq> None"
  then obtain y where y: "read_full n ts acc s = Some y" by auto
  have "?P n ts acc s y"
  proof (rule read_full.raw_induct [where P = ?P, OF _ y])
    fix f :: "int \<Rightarrow> int \<Rightarrow> bytes \<Rightarrow> 'a dvbudp_scheme \<Rightarrow> (int \<times> bytes \<times> 'a dvbudp_scheme) option" and n ts acc s y
    assume IH: "\<And>n ts acc s y. f n ts acc s = Some y \<Longrightarrow> ?P n ts acc s y"
      and eq: "(if n \<le> 0 then Some (ts, acc, s)
        else (let k = length (udp_log s); (r, s) = udp_call (UdRead (nat n)) s in
              if r < 0 then Some (-1, acc, s)
              else f (n - r) (ts + r) (acc @ take (nat r) (nt_bytes (net s) k)) s)) = Some y"
    show "?P n ts acc s y"
    proof
      assume h: "(\<forall>k\<ge>length (udp_log s). nt_ret (net s) k = 0) \<and> 0 < n"
      then have "f n ts acc (udp_ev (UdRead (nat n)) s) = Some y" using eq by (simp add: udp_call_def udp_ev_def Let_def)
      from IH [OF this] h show False by (simp add: udp_ev_def)
    qed
  qed
  with assms show False by blast
qed

text \<open>C36 When the standard input ends the program hangs: a read of no bytes is not the end of the loop that fills a
  buffer, which runs for ever and never comes back to the event loop.\<close>

theorem Stdin_end_hangs:
  assumes "piped s" and "i_block_cnt s = 1" and "pool_ok s" and "RTP_HEADER_SIZE B = 12"
    and "\<forall>k\<ge>length (udp_log s). nt_ret (net s) k = 0"
  shows "udp_Read B L s = None"
proof -
  from new_blocks_spec [OF assms(3), of 1] obtain bs u where u: "new_blocks 1 s = Some (bs, u)" "length bs = 1" "pool_step s u"
    by blast
  note pu = pool_step_udp [OF u(3)]
  have "read_full n 0 [] u = None" if "0 < n" for n using read_full_ends [of u n] that assms(5) by (simp add: pu)
  then have "stdin_into B bs u = None" using u(2) assms(4) by (simp add: stdin_into_def TS_SIZE_def Let_def)
  then show ?thesis using assms(1,2) u(1) by (simp add: udp_Read_def pu)
qed

lemma Stdin_end_hangs_witness: "udp_Read ex_psi ex_udp_lib (ex_udp (ex_net 0 []) True True 1) = None"
  using Stdin_end_hangs [of "ex_udp (ex_net 0 []) True True 1" ex_psi ex_udp_lib] by simp

end
