(* ===== verification/Dvb_Asi.thy ===== *)
theory Dvb_Asi
  imports Dvb_Udp
begin

unbundle bit_operations_syntax

text \<open>
  The input of ASI cards (\<open>cLdvbasi.cpp\<close>): two settings of the driver as files, the device, and reading it a
  buffer at a time. The driver is a parameter, as for the other inputs.
\<close>

datatype asicall =
    AsOpen string bool     \<comment> \<open>for writing?\<close>
  | AsRead
  | AsWrite string
  | AsClose
  | AsSetPidFilter bytes
  | AsFsync
  | AsGetEvents
  | AsReadv nat
  | AsIoInit int
  | AsIoStart
  | AsMuteInit mtime
  | AsMuteAgain
  | AsMuteStop

record asi_driver =
  as_ret :: "nat \<Rightarrow> int"
  as_text :: "nat \<Rightarrow> string"     \<comment> \<open>what a read of a setting gives\<close>
  as_bytes :: "nat \<Rightarrow> bytes"

text \<open>\<open>as_stack\<close> is what the buffer for a setting holds before it is read into.\<close>

record dvbasi = dvbdemux +
  asi :: asi_driver
  asi_log :: "asicall list"
  as_stack :: string
  asi_handle :: int
  i_bufsize :: int
  p_pid_filter :: bytes
  asi_sync :: bool
  i_asi_adapter :: int

definition ASI_LOCK_TIMEOUT :: mtime where "ASI_LOCK_TIMEOUT = 5000000"
definition ASI_MAXLEN :: nat where "ASI_MAXLEN = 256"

definition dvbasi_Init :: "'a dvbasi_scheme \<Rightarrow> 'a dvbasi_scheme" where
  "dvbasi_Init s = s\<lparr>i_asi_adapter := 0, asi_handle := -1, i_bufsize := 0, asi_sync := False\<rparr>"

definition set_asi_adapter :: "int \<Rightarrow> 'a dvbasi_scheme \<Rightarrow> 'a dvbasi_scheme" where
  "set_asi_adapter a s = s\<lparr>i_asi_adapter := to_int32 a\<rparr>"

definition asi_ev :: "asicall \<Rightarrow> 'a dvbasi_scheme \<Rightarrow> 'a dvbasi_scheme" where
  "asi_ev c s = s\<lparr>asi_log := asi_log s @ [c]\<rparr>"

definition asi_call :: "asicall \<Rightarrow> 'a dvbasi_scheme \<Rightarrow> int \<times> 'a dvbasi_scheme" where
  "asi_call c s = (as_ret (asi s) (length (asi_log s)), asi_ev c s)"

subsection \<open>Settings of the driver\<close>

definition show_unsigned :: "int \<Rightarrow> string" where
  "show_unsigned i = show_nat (nat (i mod 2 ^ 32))"

definition ASI_DEVICE :: "int \<Rightarrow> string" where
  "ASI_DEVICE n = ''/dev/asirx'' @ show_unsigned n"

definition ASI_TIMESTAMPS_FILE :: "int \<Rightarrow> string" where
  "ASI_TIMESTAMPS_FILE n = ''/sys/class/asi/asirx'' @ show_unsigned n @ ''/timestamps''"

definition ASI_BUFSIZE_FILE :: "int \<Rightarrow> string" where
  "ASI_BUFSIZE_FILE n = ''/sys/class/asi/asirx'' @ show_unsigned n @ ''/bufsize''"

text \<open>Where \<open>strtoul\<close> with base 0 stops; a text that is no number is not moved over.\<close>

definition number_end :: "string \<Rightarrow> string" where
  "number_end s =
     (let t = dropWhile is_space s; t = (if t \<noteq> [] \<and> (hd t = CHR ''-'' \<or> hd t = CHR ''+'') then tl t else t) in
      if hex_prefix t then dropWhile (\<lambda>c. digit_of c < 16) (drop 2 t)
      else if t \<noteq> [] \<and> hd t = CHR ''0'' then dropWhile (\<lambda>c. digit_of c < 8) t
      else if t \<noteq> [] \<and> digit_of (hd t) < 10 then dropWhile (\<lambda>c. digit_of c < 10) t
      else s)"

text \<open>The text is not ended by a NUL: behind it the buffer is as it was. A number that fills it is read past its end.\<close>

definition ReadULSysfs :: "string \<Rightarrow> 'a dvbasi_scheme \<Rightarrow> (int \<times> 'a dvbasi_scheme) option" where
  "ReadULSysfs file s =
     (let (fd, s) = asi_call (AsOpen file False) s in
      if fd < 0 then Some (fd, s)
      else (let n = length (asi_log s); (r, s) = asi_call AsRead s; s = snd (asi_call AsClose s) in
            if r < 0 then Some (r, s)
            else (let d = take ASI_MAXLEN (take (nat r) (as_text (asi s) n) @ drop (nat r) (as_stack s)) in
                  case number_end d of
                    [] \<Rightarrow> None
                  | c # _ \<Rightarrow> Some (if c = CHR 0x0A then to_int32 (int (strtoul 0 d)) else -1, s))))"

definition sysfs_text :: "nat \<Rightarrow> string" where
  "sysfs_text n = show_nat n @ [CHR 0x0A]"

definition WriteULSysfs :: "string \<Rightarrow> nat \<Rightarrow> 'a dvbasi_scheme \<Rightarrow> int \<times> 'a dvbasi_scheme" where
  "WriteULSysfs file v s =
     (let (fd, s) = asi_call (AsOpen file True) s in
      if fd < 0 then (fd, s)
      else (let (r, s) = asi_call (AsWrite (sysfs_text v @ [CHR 0x00])) s in (r, snd (asi_call AsClose s))))"

subsection \<open>Opening\<close>

definition asi_device :: "'a dvbasi_scheme \<Rightarrow> (unit, 'a dvbasi_scheme) run" where
  "asi_device s =
     (let (fd, s) = asi_call (AsOpen (ASI_DEVICE (i_asi_adapter s)) False) s; s = s\<lparr>asi_handle := fd\<rparr> in
      if fd < 0 then exit1 s
      else (let s = s\<lparr>p_pid_filter := replicate 1024 0xff\<rparr>; s = snd (asi_call (AsSetPidFilter (p_pid_filter s)) s) in
            ret () (fold asi_ev [AsFsync, AsIoInit (asi_handle s), AsIoStart, AsMuteInit ASI_LOCK_TIMEOUT] s)))"

definition asi_dev_Open :: "'a dvbasi_scheme \<Rightarrow> (unit, 'a dvbasi_scheme) run" where
  "asi_dev_Open s =
     (let (r, s) = WriteULSysfs (ASI_TIMESTAMPS_FILE (i_asi_adapter s)) 0 s in
      if r < 0 then exit1 s
      else (case ReadULSysfs (ASI_BUFSIZE_FILE (i_asi_adapter s)) s of
              None \<Rightarrow> None
            | Some (b, s) \<Rightarrow>
                (let s = s\<lparr>i_bufsize := b\<rparr> in
                 if b < 0 then exit1 s
                 else if b mod int TS_SIZE \<noteq> 0 then exit1 s
                 else asi_device s)))"

subsection \<open>Reading\<close>

text \<open>The events are asked for to report them. Blocks the device did not fill go back to the pool; without any block the
  chain is an uninitialised pointer.\<close>

definition asi_Read :: "'b psi_lib_scheme \<Rightarrow> 'a dvbasi_scheme \<Rightarrow> 'a dvbasi_scheme option" where
  "asi_Read B s = do {
     let s = snd (asi_call AsGetEvents s);
     let k = nat (i_bufsize s) div TS_SIZE;
     ensure (0 < k);
     (bs, s) \<leftarrow> new_blocks k s;
     let n = length (asi_log s);
     let (len, s) = asi_call (AsReadv k) s;
     let s = (if len < 0 then s else readv_into (take (nat len) (as_bytes (asi s) n)) bs s);
     let m = nat (if len < 0 then 0 else len) div TS_SIZE;
     let s = (if m \<noteq> 0 then asi_ev AsMuteAgain (s\<lparr>asi_sync := True\<rparr>) else s);
     s \<leftarrow> block_DeleteChain (drop m bs) s;
     demux_Run B (take m bs) s }"

definition asi_MuteCb :: "'a dvbasi_scheme \<Rightarrow> 'a dvbasi_scheme" where
  "asi_MuteCb s = asi_ev AsMuteStop s"

text \<open>Filtering in hardware is not compiled in.\<close>

definition asi_dev_SetFilter :: "nat \<Rightarrow> 'a dvbasi_scheme \<Rightarrow> int \<times> 'a dvbasi_scheme" where
  "asi_dev_SetFilter pid s = (-1, s)"

definition asi_dev_UnsetFilter :: "int \<Rightarrow> nat \<Rightarrow> 'a dvbasi_scheme \<Rightarrow> 'a dvbasi_scheme" where
  "asi_dev_UnsetFilter fd pid s = s"

definition asi_dev_Reset :: "'a dvbasi_scheme \<Rightarrow> 'a dvbasi_scheme" where
  "asi_dev_Reset s = s"

end
