(* ===== verification/Dvb_AsiClaims.thy ===== *)
theory Dvb_AsiClaims
  imports Dvb_Asi Dvb_UdpClaims Dvb_SetupClaims
begin

text \<open>The input of ASI cards: what opening it makes sure of, and that no block is lost when it is read.\<close>

subsection \<open>Settings\<close>

text \<open>A number, the end of the line, and whatever is behind it.\<close>

lemma number_line:
  defines "line n z \<equiv> show_nat n @ CHR 0x0A # z"
  shows "str_number 0 (line n z) = (False, n)" and "number_end (line n z) = CHR 0x0A # z"
proof -
  obtain c cs where c: "show_nat n = c # cs" by (cases "show_nat n") auto
  obtain d :: nat where d: "d < 10" "c = char_of (48 + d)" using show_nat_head [of n] c by auto
  have sp: "dropWhile is_space (line n z) = line n z" using c d digit_char_not(3) [OF d(1)] by (simp add: line_def)
  have hd: "hd (line n z) = c" "line n z \<noteq> []" "c \<noteq> CHR ''-''" "c \<noteq> CHR ''+''"
    using c d digit_char_not [OF d(1)] by (auto simp: line_def)
  have zero: "n = 0" if "c = CHR ''0''" using show_nat_zero_head [of n] c that by simp
  have hex: "\<not> hex_prefix (line n z)"
  proof (cases "n = 0")
    case True
    then show ?thesis by (auto simp: line_def hex_prefix_def show_nat.simps to_lower_def split: list.splits)
  next
    case False
    then show ?thesis using zero c by (auto simp: line_def hex_prefix_def split: list.splits)
  qed
  have nl: "digit_of (CHR 0x0A) = 99" by (simp add: digit_of_def)
  have all: "\<forall>x\<in>set (show_nat n). digit_of x < 10" using show_nat_digits by fastforce
  then have tw: "takeWhile (\<lambda>c. digit_of c < 10) (line n z) = show_nat n" "dropWhile (\<lambda>c. digit_of c < 10) (line n z) = CHR 0x0A # z"
    by (simp_all add: line_def nl)
  have "takeWhile (\<lambda>c. digit_of c < 10) (show_nat n) = show_nat n" using all by (intro takeWhile_eq_all_conv [THEN iffD2])
  then have "digits_value 10 (line n z) = digits_value 10 (show_nat n)" by (simp only: digits_value_def tw(1))
  then have v10: "digits_value 10 (line n z) = n" by (simp add: digits_value_show)
  have c0: "char_of (48 :: nat) = CHR ''0''" by code_simp
  have oct: "takeWhile (\<lambda>c. digit_of c < 8) (line n z) = ''0'' \<and> dropWhile (\<lambda>c. digit_of c < 8) (line n z) = CHR 0x0A # z"
    if "c = CHR ''0''" using zero [OF that] by (simp add: line_def show_nat.simps nl c0) (simp add: digit_of_def)
  then have v8: "digits_value 8 (line n z) = n" if "c = CHR ''0''"
    using zero [OF that] that by (simp add: digits_value_def digit_of_def)
  show "str_number 0 (line n z) = (False, n)" using sp hd hex v8 v10 by (simp add: str_number_def Let_def)
  show "number_end (line n z) = CHR 0x0A # z" using sp hd hex oct tw(2) d by (auto simp: number_end_def Let_def)
qed

text \<open>A setting is read back as it was written: the text \<open>WriteULSysfs\<close> puts into the file is the number
  \<open>ReadULSysfs\<close> gives, whatever was in the buffer before, for the numbers that are an \<open>int\<close>.\<close>

theorem Sysfs_roundtrip:
  assumes "length (asi_log s) = n" and "0 \<le> as_ret (asi s) n" and "as_ret (asi s) (Suc n) = int (length (sysfs_text v))"
    and "as_text (asi s) (Suc n) = sysfs_text v" and "v < 2 ^ 31"
  shows "\<exists>t. ReadULSysfs file s = Some (int v, t) \<and> asi_log t = asi_log s @ [AsOpen file False, AsRead, AsClose]"
proof -
  obtain z where d: "take ASI_MAXLEN (sysfs_text v @ drop (length (sysfs_text v)) (as_stack s)) = show_nat v @ CHR 0x0A # z"
  proof -
    have "length (show_nat v) \<le> 10" using show_nat_length [of v 9] assms(5) by simp
    then have "take ASI_MAXLEN (sysfs_text v @ drop (length (sysfs_text v)) (as_stack s)) =
      show_nat v @ CHR 0x0A # take (255 - length (show_nat v)) (drop (length (sysfs_text v)) (as_stack s))"
      by (simp add: sysfs_text_def ASI_MAXLEN_def take_Cons')
    then show ?thesis by (rule that)
  qed
  have "int (strtoul 0 (show_nat v @ CHR 0x0A # z)) = int v" using number_line(1) [of v z] assms(5) by (simp add: strtoul_def)
  moreover have "to_int32 (int v) = int v" using assms(5) by (intro to_int32_id) auto
  ultimately show ?thesis
    using assms(1-4) number_line(2) [of v z] d by (auto simp: ReadULSysfs_def asi_call_def asi_ev_def Let_def)
qed

subsection \<open>Opening\<close>

lemma ReadULSysfs_log:
  assumes "ReadULSysfs file s = Some (r, t)"
  shows "\<exists>c. t = s\<lparr>asi_log := asi_log s @ c\<rparr> \<and> AsIoStart \<notin> set c"
  using assms
  by (auto simp: ReadULSysfs_def asi_call_def asi_ev_def Let_def split: if_splits list.splits)

text \<open>C37 When an ASI card is open (the process goes on), its buffer is a whole number of packets, its timestamps were
  turned off before anything else, all PIDs are let through, and the event loop watches the device only after
  that.\<close>

theorem Asi_opens:
  assumes "asi_dev_Open s = Some (Inr ((), t))"
  shows "0 \<le> i_bufsize t \<and> int TS_SIZE dvd i_bufsize t \<and> 0 \<le> asi_handle t
    \<and> (\<exists>mid. asi_log t = asi_log s @ AsOpen (ASI_TIMESTAMPS_FILE (i_asi_adapter s)) True # AsWrite (sysfs_text 0 @ [CHR 0x00]) # mid
          @ [AsSetPidFilter (replicate 1024 0xff), AsFsync, AsIoInit (asi_handle t), AsIoStart, AsMuteInit ASI_LOCK_TIMEOUT]
        \<and> AsIoStart \<notin> set mid)"
proof -
  define w where "w = s\<lparr>asi_log := asi_log s @ [AsOpen (ASI_TIMESTAMPS_FILE (i_asi_adapter s)) True, AsWrite (sysfs_text 0 @ [CHR 0x00]), AsClose]\<rparr>"
  have "\<exists>r. WriteULSysfs (ASI_TIMESTAMPS_FILE (i_asi_adapter s)) 0 s = (r, w) \<and> 0 \<le> r"
    using assms by (auto simp: asi_dev_Open_def WriteULSysfs_def asi_call_def asi_ev_def Let_def w_def split: if_splits)
  then obtain r where r: "WriteULSysfs (ASI_TIMESTAMPS_FILE (i_asi_adapter s)) 0 s = (r, w)" "0 \<le> r" by blast
  obtain b x where b: "ReadULSysfs (ASI_BUFSIZE_FILE (i_asi_adapter w)) w = Some (b, x)"
    using assms r by (cases "ReadULSysfs (ASI_BUFSIZE_FILE (i_asi_adapter w)) w") (auto simp: asi_dev_Open_def)
  then have o: "0 \<le> b" "b mod int TS_SIZE = 0" "asi_device (x\<lparr>i_bufsize := b\<rparr>) = Some (Inr ((), t))"
    using assms r by (auto simp: asi_dev_Open_def Let_def split: if_splits)
  obtain c where c: "x = w\<lparr>asi_log := asi_log w @ c\<rparr>" "AsIoStart \<notin> set c" using ReadULSysfs_log [OF b] by blast
  have t: "i_bufsize t = b" "0 \<le> asi_handle t" "asi_log t = asi_log w @ c @ [AsOpen (ASI_DEVICE (i_asi_adapter s)) False,
      AsSetPidFilter (replicate 1024 0xff), AsFsync, AsIoInit (asi_handle t), AsIoStart, AsMuteInit ASI_LOCK_TIMEOUT]"
    using o(3) by (auto simp: asi_device_def asi_call_def asi_ev_def Let_def c(1) w_def split: if_splits)
  then show ?thesis using o(1,2) c(2)
    by (intro conjI exI [of _ "AsClose # c @ [AsOpen (ASI_DEVICE (i_asi_adapter s)) False]"]) (auto simp: w_def)
qed

subsection \<open>Reading\<close>

lemma pool_step_asi:
  assumes "pool_step s (t :: 'a dvbasi_scheme)"
  shows "asi t = asi s" "asi_log t = asi_log s" "asi_sync t = asi_sync s" "i_bufsize t = i_bufsize s"
  using assms by (auto simp: pool_step_def)

text \<open>Reading an ASI card: the packets the device filled go to the demultiplexer, in order, each in a block of its own; a
  part of a packet and the blocks that stay empty are given back, and after an error so are all of them.\<close>

theorem Asi_read_blocks:
  assumes "pool_ok s" and "0 < i_bufsize s" and "int TS_SIZE dvd i_bufsize s"
    and "r = as_ret (asi s) (Suc (length (asi_log s)))" and "data = as_bytes (asi s) (Suc (length (asi_log s)))"
    and "r \<le> i_bufsize s" and "nat r \<le> length data"
  shows "\<exists>bs t. asi_Read B s = demux_Run B bs t \<and> length bs = nat r div TS_SIZE \<and> in_hand t bs
    \<and> live t = (\<lambda>a. live s a \<or> a \<in> set bs) \<and> (\<forall>b\<in>set bs. \<not> live s b)
    \<and> (\<forall>k<length bs. bk_ts (mem t (bs ! k)) = take TS_SIZE (drop (TS_SIZE * k) data))
    \<and> asi_sync t = (asi_sync s \<or> bs \<noteq> [])"
proof -
  define k where "k = nat (i_bufsize s) div TS_SIZE"
  have "TS_SIZE \<le> nat (i_bufsize s)" using assms(2,3) zdvd_imp_le [OF assms(3,2)] by (simp add: le_nat_iff)
  then have k0: "0 < k" by (simp add: k_def TS_SIZE_def div_greater_zero_iff)
  define v where "v = asi_ev AsGetEvents s"
  have v: "pool_ok v" "live v = live s" "asi v = asi s" "asi_log v = asi_log s @ [AsGetEvents]" "i_bufsize v = i_bufsize s"
    "asi_sync v = asi_sync s" using assms(1) by (auto simp: v_def asi_ev_def pool_ok_def live_def fun_eq_iff)
  from new_blocks_spec [OF v(1), of k] obtain bs u where u: "new_blocks k v = Some (bs, u)" "in_hand u bs" "length bs = k"
    "pool_step v u" "live u = (\<lambda>a. live s a \<or> a \<in> set bs)" "\<forall>b\<in>set bs. \<not> live s b" by (auto simp: v(2))
  note pu = pool_step_asi [OF u(4)]
  define w where "w = asi_ev (AsReadv k) u"
  have w: "in_hand w as = in_hand u as" "live w = live u" "asi_sync w = asi_sync s" "asi w = asi s" for as
    by (auto simp: w_def asi_ev_def in_hand_def pool_defs fun_eq_iff pu v)
  define x where "x = (if r < 0 then w else readv_into (take (nat r) data) bs w)"
  have "pool_step w x" by (simp add: x_def readv_into_step)
  then have x: "in_hand x bs" "live x = live u" "asi_sync x = asi_sync s"
    using fold_upd_frame [of "readv_block (take (nat r) data)" 0 bs w bs] w u(2) pool_step_asi(3) [of w x]
    by (simp_all add: x_def readv_into_def readv_block_def Let_def)
  define m where "m = nat r div TS_SIZE"
  have "nat r \<le> nat (i_bufsize s)" using assms(6) by simp
  then have m: "m \<le> length bs" unfolding m_def u(3) k_def by (rule div_le_mono)
  define y where "y = (if m \<noteq> 0 then asi_ev AsMuteAgain (x\<lparr>asi_sync := True\<rparr>) else x)"
  have y: "in_hand y as = in_hand x as" "live y = live x" "mem y = mem x" "asi_sync y = (asi_sync s \<or> m \<noteq> 0)" for as
    by (auto simp: y_def asi_ev_def in_hand_def pool_defs fun_eq_iff x(3))
  from DeleteChain_spec [of y "take m bs" "drop m bs"] x(1) obtain t where t: "block_DeleteChain (drop m bs) y = Some t"
    "in_hand t (take m bs)" "pool_step y t" "mem t = mem y" "live t = (\<lambda>a. live y a \<and> a \<notin> set (drop m bs))"
    by (auto simp: y)
  have rm: "nat (if r < 0 then 0 else r) div TS_SIZE = m" by (simp add: m_def)
  have run: "asi_Read B s = demux_Run B (take m bs) t"
  proof -
    have "length (asi_log v) = Suc (length (asi_log s))" by (simp add: v)
    then show ?thesis using u(1) t(1) k0 rm
      by (cases "r < 0"; cases "m = 0") (simp_all add: asi_Read_def asi_call_def Let_def pu v w y_def x_def m_def assms(4,5) [symmetric] flip: v_def k_def w_def)
  qed
  have "bk_ts (mem t (bs ! j)) = take TS_SIZE (drop (TS_SIZE * j) data)" if j: "j < m" for j
  proof -
    have r: "0 + TS_SIZE * j + TS_SIZE \<le> nat r" using j by (auto simp: m_def TS_SIZE_def)
    then have "0 < nat r" by (simp add: TS_SIZE_def)
    then have x0: "x = readv_into (drop 0 (take (nat r) data)) bs w" by (simp add: x_def)
    have "distinct bs" "j < length bs" using u(2) j m by (simp_all add: in_hand_def)
    from readv_contents [OF this r assms(7), of w] show ?thesis unfolding t(4) y(3) x0 by simp
  qed
  moreover have "live t = (\<lambda>a. live s a \<or> a \<in> set (take m bs))" using live_new [OF u(2,5,6), of m] t(5) x(2) by (simp add: y)
  moreover have "\<forall>b\<in>set (take m bs). \<not> live s b" using u(6) by (auto dest: in_set_takeD)
  moreover have "asi_sync t = (asi_sync s \<or> take m bs \<noteq> [])"
    using pool_step_asi(3) [OF t(3)] y(4) m by (cases bs) auto
  ultimately show ?thesis using run t(2) m by (intro exI [of _ "take m bs"] exI [of _ t]) (auto simp: m_def)
qed

subsection \<open>A card\<close>

definition ex_asi :: "asi_driver \<Rightarrow> dvbasi" where
  "ex_asi d = dvbdemux.extend (ex_demux []) (dvbasi.fields d [] (replicate 256 (CHR ''7'')) 3 376 [] False 0)"

definition ex_card :: "int \<Rightarrow> asi_driver" where
  "ex_card r = \<lparr>as_ret = \<lambda>_. r, as_text = \<lambda>_. sysfs_text 376, as_bytes = \<lambda>_. replicate 376 0x47\<rparr>"

lemma ex_asi_simps [simp]:
  "asi (ex_asi d) = d" "asi_log (ex_asi d) = []" "i_bufsize (ex_asi d) = 376" "pool_ok (ex_asi d)" "\<not> live (ex_asi d) b"
  "as_ret (ex_card r) k = r" "as_text (ex_card r) k = sysfs_text 376" "as_bytes (ex_card r) k = replicate 376 0x47"
  by (simp_all add: ex_asi_def dvbdemux.defs dvbasi.defs pool_ok_def live_def ex_demux_def dvben.defs ex_ci_defs ex_card_def)

lemma ex_sysfs: "sysfs_text 376 = ''376'' @ [CHR 0x0A]"
  by code_simp

lemma Sysfs_roundtrip_witness:
  "\<exists>t. ReadULSysfs (ASI_BUFSIZE_FILE 0) (ex_asi (ex_card 4)) = Some (376, t)"
  using Sysfs_roundtrip [of "ex_asi (ex_card 4)" 0 376 "ASI_BUFSIZE_FILE 0"] by (auto simp: ex_sysfs)

lemma Asi_opens_witness:
  "\<exists>t. asi_dev_Open (ex_asi (ex_card 4)) = Some (Inr ((), t)) \<and> i_bufsize t = 376 \<and> int TS_SIZE dvd i_bufsize t"
proof -
  let ?w = "(ex_asi (ex_card 4))\<lparr>asi_log := [AsOpen (ASI_TIMESTAMPS_FILE (i_asi_adapter (ex_asi (ex_card 4)))) True,
    AsWrite (sysfs_text 0 @ [CHR 0x00]), AsClose]\<rparr>"
  have "length (sysfs_text 376) = 4" by (simp add: ex_sysfs)
  then obtain u where u: "ReadULSysfs (ASI_BUFSIZE_FILE (i_asi_adapter ?w)) ?w = Some (376, u)"
    using Sysfs_roundtrip [of ?w 3 376 "ASI_BUFSIZE_FILE (i_asi_adapter ?w)"] by auto
  have "asi u = ex_card 4" using ReadULSysfs_log [OF u] by auto
  then obtain t where t: "asi_dev_Open (ex_asi (ex_card 4)) = Some (Inr ((), t))" "i_bufsize t = 376"
    using u by (auto simp: asi_dev_Open_def WriteULSysfs_def asi_call_def asi_ev_def Let_def asi_device_def TS_SIZE_def ret_def)
  with Asi_opens [OF t(1)] show ?thesis by auto
qed

lemma Asi_read_blocks_witness:
  "\<exists>bs t. asi_Read ex_psi (ex_asi (ex_card 200)) = demux_Run ex_psi bs t \<and> length bs = 1 \<and> in_hand t bs
    \<and> bk_ts (mem t (hd bs)) = replicate 188 0x47"
proof -
  obtain bs t where bt: "asi_Read ex_psi (ex_asi (ex_card 200)) = demux_Run ex_psi bs t" "length bs = 1" "in_hand t bs"
    "\<forall>k<length bs. bk_ts (mem t (bs ! k)) = take TS_SIZE (drop (TS_SIZE * k) (replicate 376 0x47))"
    using Asi_read_blocks [of "ex_asi (ex_card 200)" 200 "replicate 376 0x47" ex_psi] by (auto simp: TS_SIZE_def)
  from bt(2) obtain b where b: "bs = [b]" by (cases bs) auto
  from bt(4) show ?thesis using bt(1-3) by (intro exI [of _ bs] exI [of _ t]) (simp add: b TS_SIZE_def)
qed

end
