(* ===== verification/Dvb_Cli.thy ===== *)
theory Dvb_Cli
  imports Dvb_Setup Dvb_Udp Dvb_Asi
begin

unbundle bit_operations_syntax

text \<open>
  The command line (\<open>cLdvbapp.cpp\<close>). \<open>getopt_long\<close> turns the arguments into a sequence of options, and the
  program goes over that sequence three times: for the input, for the options of a DVB receiver, and for all
  others.
\<close>

subsection \<open>getopt\<close>

datatype argkind = no_argument | required_argument | optional_argument

text \<open>What \<open>getopt_long\<close> returns: a letter, the number of a long option without one, or the question mark.\<close>

datatype optval = Ch char | Num int | Bad

type_synonym opt = "optval \<times> string option"

definition ostr :: string where
  "ostr = ''q::c:r:t:o:i:a:n:5:f:F:R:s:S:k:v:pb:I:m:P:K:G:H:X:O:uwUTL:E:d:3D:A:lg:zCWYeM:N:j:J:B:x:Q:6:7:hVZ:y:0:1:2:9:''"

definition long_options :: "(string \<times> argkind \<times> optval) list" where
  "long_options = [
     (''config-file'', required_argument, Ch CHR ''c''), (''remote-socket'', required_argument, Ch CHR ''r''),
     (''ttl'', required_argument, Ch CHR ''t''), (''rtp-output'', required_argument, Ch CHR ''o''),
     (''priority'', required_argument, Ch CHR ''i''), (''adapter'', required_argument, Ch CHR ''a''),
     (''frontend-number'', required_argument, Ch CHR ''n''), (''delsys'', required_argument, Ch CHR ''5''),
     (''dvb-plp-id'', required_argument, Ch CHR ''9''), (''frequency'', required_argument, Ch CHR ''f''),
     (''lnb-type'', required_argument, Ch CHR ''8''), (''fec-inner'', required_argument, Ch CHR ''F''),
     (''rolloff'', required_argument, Ch CHR ''R''), (''symbol-rate'', required_argument, Ch CHR ''s''),
     (''diseqc'', required_argument, Ch CHR ''S''), (''uncommitted'', required_argument, Ch CHR ''k''),
     (''voltage'', required_argument, Ch CHR ''v''), (''force-pulse'', no_argument, Ch CHR ''p''),
     (''bandwidth'', required_argument, Ch CHR ''b''), (''inversion'', required_argument, Ch CHR ''I''),
     (''modulation'', required_argument, Ch CHR ''m''), (''pilot'', required_argument, Ch CHR ''P''),
     (''multistream-id'', required_argument, Ch CHR ''1''), (''multistream-id-pls-mode'', required_argument, Num 0x100001),
     (''multistream-id-pls-code'', required_argument, Num 0x100002), (''multistream-id-is-id'', required_argument, Num 0x100003),
     (''fec-lp'', required_argument, Ch CHR ''K''), (''guard'', required_argument, Ch CHR ''G''),
     (''hierarchy'', required_argument, Ch CHR ''H''), (''transmission'', required_argument, Ch CHR ''X''),
     (''lock-timeout'', required_argument, Ch CHR ''O''), (''budget-mode'', no_argument, Ch CHR ''u''),
     (''select-pmts'', no_argument, Ch CHR ''w''), (''udp'', no_argument, Ch CHR ''U''),
     (''unique-ts-id'', no_argument, Ch CHR ''T''), (''latency'', required_argument, Ch CHR ''L''),
     (''retention'', required_argument, Ch CHR ''E''), (''duplicate'', required_argument, Ch CHR ''d''),
     (''passthrough'', no_argument, Ch CHR ''3''), (''rtp-input'', required_argument, Ch CHR ''D''),
     (''asi-adapter'', required_argument, Ch CHR ''A''), (''any-type'', no_argument, Ch CHR ''z''),
     (''dvb-compliance'', no_argument, Ch CHR ''C''), (''emm-passthrough'', no_argument, Ch CHR ''W''),
     (''ecm-passthrough'', no_argument, Ch CHR ''Y''), (''epg-passthrough'', no_argument, Ch CHR ''e''),
     (''network-name'', no_argument, Ch CHR ''M''), (''network-id'', no_argument, Ch CHR ''N''),
     (''system-charset'', required_argument, Ch CHR ''j''), (''dvb-charset'', required_argument, Ch CHR ''J''),
     (''provider-name'', required_argument, Ch CHR ''B''), (''logger'', no_argument, Ch CHR ''l''),
     (''logger-ident'', required_argument, Ch CHR ''g''), (''print'', required_argument, Ch CHR ''x''),
     (''quit-timeout'', required_argument, Ch CHR ''Q''), (''print-period'', required_argument, Ch CHR ''6''),
     (''es-timeout'', required_argument, Ch CHR ''7''), (''quiet'', no_argument, Ch CHR ''q''),
     (''help'', no_argument, Ch CHR ''h''), (''version'', no_argument, Ch CHR ''V''),
     (''mrtg-file'', required_argument, Ch CHR ''Z''), (''ca-number'', required_argument, Ch CHR ''y''),
     (''pidmap'', required_argument, Ch CHR ''0''), (''dvr-buf-size'', required_argument, Ch CHR ''2'')]"

text \<open>A letter of the option string, and the colons behind it.\<close>

definition short_kind :: "char \<Rightarrow> argkind option" where
  "short_kind c =
     (if c = CHR '':'' then None
      else case str_chr c ostr of
        None \<Rightarrow> None
      | Some r \<Rightarrow> Some (if take 2 (tl r) = ''::'' then optional_argument
                         else if take 1 (tl r) = '':'' then required_argument else no_argument))"

text \<open>A long name, or the start of one that fits a single option (or options that mean the same).\<close>

definition long_match :: "string \<Rightarrow> (argkind \<times> optval) option" where
  "long_match n =
     (case map_of long_options n of
        Some kv \<Rightarrow> Some kv
      | None \<Rightarrow>
          (case remdups (map snd (filter (\<lambda>(m, kv). take (length n) m = n) long_options)) of
             [kv] \<Rightarrow> Some kv
           | _ \<Rightarrow> None))"

text \<open>\<open>cs\<close> is what is left of a group of letters. Arguments that are no options are moved behind the options, and
  two dashes end them.\<close>

function getopt_scan :: "string \<Rightarrow> string list \<Rightarrow> opt list" where
  "getopt_scan (c # cs) rest =
     (case short_kind c of
        None \<Rightarrow> (Bad, None) # getopt_scan cs rest
      | Some no_argument \<Rightarrow> (Ch c, None) # getopt_scan cs rest
      | Some optional_argument \<Rightarrow> (Ch c, if cs = [] then None else Some cs) # getopt_scan [] rest
      | Some required_argument \<Rightarrow>
          if cs \<noteq> [] then (Ch c, Some cs) # getopt_scan [] rest
          else (case rest of [] \<Rightarrow> [(Bad, None)] | a # rest \<Rightarrow> (Ch c, Some a) # getopt_scan [] rest))"
| "getopt_scan [] [] = []"
| "getopt_scan [] (a # rest) =
     (if a = ''--'' then []
      else if take 2 a = ''--''
      then (let n = before ''='' (drop 2 a); v = map_option tl (str_chr (CHR ''='') a) in
        case (long_match n, v) of
          (None, _) \<Rightarrow> (Bad, None) # getopt_scan [] rest
        | (Some (no_argument, x), None) \<Rightarrow> (x, None) # getopt_scan [] rest
        | (Some (no_argument, x), Some _) \<Rightarrow> (Bad, None) # getopt_scan [] rest
        | (Some (optional_argument, x), v) \<Rightarrow> (x, v) # getopt_scan [] rest
        | (Some (required_argument, x), Some v) \<Rightarrow> (x, Some v) # getopt_scan [] rest
        | (Some (required_argument, x), None) \<Rightarrow>
            (case rest of [] \<Rightarrow> [(Bad, None)] | b # rest \<Rightarrow> (x, Some b) # getopt_scan [] rest))
      else if take 1 a = ''-'' \<and> tl a \<noteq> [] then getopt_scan (tl a) rest
      else getopt_scan [] rest)"
  by pat_completeness auto
termination
  by (relation "measure (\<lambda>(cs, rest). length cs + sum_list (map (\<lambda>a. Suc (length a)) rest))") (auto simp: Let_def)

declare getopt_scan.simps [simp del]

definition cli_options :: "string list \<Rightarrow> opt list" where
  "cli_options args = getopt_scan [] args"

subsection \<open>The input\<close>

datatype input = InUdp string | InAsi int | InDvb "int option"

text \<open>One input only (\<open>None\<close> outside: the usage is shown, or support is missing, and the program returns 1).\<close>

fun pick_input :: "opt list \<Rightarrow> input option \<Rightarrow> input option option" where
  "pick_input [] i = Some i"
| "pick_input ((x, a) # os) i =
     (let z = (case a of None \<Rightarrow> [] | Some z \<Rightarrow> z) in
      if x = Ch CHR ''D'' then (if i \<noteq> None then None else pick_input os (Some (InUdp z)))
      else if x = Ch CHR ''A''
      then (if take 10 z = ''deltacast:'' \<or> i \<noteq> None then None else pick_input os (Some (InAsi (strtol 0 z))))
      else if x = Ch CHR ''f''
      then (if i \<noteq> None then None
            else pick_input os (Some (InDvb (if take 1 z = ''-'' then None else Some (to_int32 (strtol 0 z))))))
      else pick_input os i)"

subsection \<open>Options of the receiver\<close>

text \<open>A step goes on, or ends the program with 1 (\<open>Quit\<close>); a null argument or an overflow is undefined.\<close>

datatype 's step = Quit | Go 's

definition checked :: "bool \<times> 's \<Rightarrow> 's step" where
  "checked = (\<lambda>(ok, s). if ok then Go s else Quit)"

definition dev_number :: "char \<Rightarrow> string \<Rightarrow> 'a dvbdev_scheme \<Rightarrow> 'a dvbdev_scheme" where
  "dev_number c z s =
     (let i = to_int32 (strtol 0 z) in
      if c = CHR ''n'' then s\<lparr>i_fenum := i\<rparr>
      else if c = CHR ''9'' then s\<lparr>dvb_plp_id := i\<rparr>
      else if c = CHR ''F'' then s\<lparr>i_fec := i\<rparr>
      else if c = CHR ''R'' then s\<lparr>i_rolloff := i\<rparr>
      else if c = CHR ''s'' then s\<lparr>i_srate := i\<rparr>
      else if c = CHR ''S'' then s\<lparr>i_satnum := to_int32 (strtol 16 z)\<rparr>
      else if c = CHR ''k'' then s\<lparr>i_uncommitted := to_int32 (strtol 10 z)\<rparr>
      else if c = CHR ''v'' then s\<lparr>i_voltage := i\<rparr>
      else if c = CHR ''b'' then s\<lparr>i_bandwidth := i\<rparr>
      else if c = CHR ''I'' then s\<lparr>i_inversion := i\<rparr>
      else if c = CHR ''P'' then s\<lparr>i_pilot := i\<rparr>
      else if c = CHR ''1'' then s\<lparr>i_mis := word_of_int i\<rparr>
      else if c = CHR ''K'' then s\<lparr>i_fec_lp := i\<rparr>
      else if c = CHR ''G'' then s\<lparr>i_guard := i\<rparr>
      else if c = CHR ''X'' then s\<lparr>i_transmission := i\<rparr>
      else if c = CHR ''H'' then s\<lparr>i_hierarchy := i\<rparr>
      else s)"

definition dev_letters :: string where
  "dev_letters = ''n598FRsSkvpbImP1KGXOH2''"

definition dev_option :: "opt \<Rightarrow> 'a dvbdev_scheme \<Rightarrow> 'a dvbdev_scheme step option" where
  "dev_option = (\<lambda>(x, a) s.
     (case x of
        Bad \<Rightarrow> Some (Go s)
      | Num k \<Rightarrow>
          (case a of
             None \<Rightarrow> None
           | Some z \<Rightarrow>
               Some (if k = 0x100001 then checked (set_mis_pls_mode z s)
                     else if k = 0x100002 then checked (set_mis_pls_code (to_int32 (strtol 0 z)) s)
                     else if k = 0x100003 then checked (set_mis_is_id (to_int32 (strtol 0 z)) s)
                     else Go s))
      | Ch c \<Rightarrow>
          if c \<notin> set dev_letters then Some (Go s)
          else if c = CHR ''p'' then Some (Go (s\<lparr>b_tone := True\<rparr>))
          else (case a of
                  None \<Rightarrow> None
                | Some z \<Rightarrow>
                    if c = CHR ''5'' then Some (Go (set_delivery_system z s))
                    else if c = CHR ''8'' then Some (Go (s\<lparr>psz_lnb_type := z\<rparr>))
                    else if c = CHR ''m'' then Some (Go (s\<lparr>psz_modulation := Some z\<rparr>))
                    else if c = CHR ''O'' then map_option (\<lambda>t. Go (s\<lparr>i_frontend_timeout_duration := t\<rparr>)) (opt_millis z)
                    else if c = CHR ''2''
                    then (let i = to_int32 (strtol 0 z) in Some (if i = 0 then Quit else Go (set_dvb_buffer_size i s)))
                    else Some (Go (dev_number c z s)))))"

subsection \<open>Options of the program\<close>

text \<open>The configuration file, and the names to declare.\<close>

record cli_names =
  cli_conf :: "string option"
  cli_network :: "string option"
  cli_provider :: "string option"

definition cli_names_Init :: cli_names where
  "cli_names_Init = \<lparr>cli_conf = None, cli_network = Some ''DVBlast - videolan.org'', cli_provider = None\<rparr>"

definition flag_option :: "char \<Rightarrow> 'a dvbdemux_scheme \<Rightarrow> 'a dvbdemux_scheme" where
  "flag_option c s =
     (if c = CHR ''u'' then s\<lparr>b_budget_mode := True\<rparr>
      else if c = CHR ''w'' then s\<lparr>b_select_pmts := \<not> b_select_pmts s\<rparr>
      else if c = CHR ''U'' then s\<lparr>b_udp_global := True\<rparr>
      else if c = CHR ''z'' then s\<lparr>b_any_type := True\<rparr>
      else if c = CHR ''C'' then s\<lparr>b_dvb_global := True\<rparr>
      else if c = CHR ''W'' then s\<lparr>b_enable_emm := True\<rparr>
      else if c = CHR ''Y'' then s\<lparr>b_enable_ecm := True\<rparr>
      else if c = CHR ''e'' then s\<lparr>b_epg_global := True\<rparr>
      else if c = CHR ''T'' then s\<lparr>b_random_tsid := True\<rparr>
      else s)"

definition flag_letters :: string where
  "flag_letters = ''uwUzCWYeT''"

definition millis_option :: "char \<Rightarrow> string \<Rightarrow> 'a dvbdemux_scheme \<Rightarrow> 'a dvbdemux_scheme option" where
  "millis_option c z s =
     map_option (\<lambda>t. if c = CHR ''L'' then s\<lparr>i_latency_global := t\<rparr>
        else if c = CHR ''E'' then s\<lparr>i_retention_global := t\<rparr>
        else if c = CHR ''Q'' then s\<lparr>i_quit_timeout_duration := t\<rparr>
        else if c = CHR ''6'' then s\<lparr>i_print_period := t\<rparr>
        else s\<lparr>i_es_timeout := t\<rparr>) (opt_millis z)"

definition value_option :: "'c conf_lib_scheme \<Rightarrow> char \<Rightarrow> string \<Rightarrow> 'a dvbdemux_scheme \<Rightarrow> 'a dvbdemux_scheme step option" where
  "value_option L c z s =
     (let i = to_int32 (strtol 0 z) in
      if c = CHR ''t'' then Some (Go (s\<lparr>i_ttl_global := i\<rparr>))
      else if c = CHR ''o'' then Some (checked (set_rtpsrc L z s))
      else if c = CHR ''i'' then Some (Go (s\<lparr>i_priority := i\<rparr>))
      else if c = CHR ''a'' then Some (Go (s\<lparr>i_adapter := i\<rparr>))
      else if c = CHR ''y'' then Some (Go (s\<lparr>i_canum := i\<rparr>))
      else if c \<in> set ''LEQ67'' then map_option Go (millis_option c z s)
      else if c = CHR ''d'' then Some (Go (s\<lparr>psz_dup_config := Some z\<rparr>))
      else if c = CHR ''N'' then Some (Go (s\<lparr>i_network_id := of_nat (strtoul 0 z)\<rparr>))
      else if c = CHR ''j'' then Some (Go (s\<lparr>native_charset := z\<rparr>))
      else if c = CHR ''J'' then Some (Go (s\<lparr>psz_dvb_charset := z\<rparr>))
      else if c = CHR ''Z'' then Some (Go (s\<lparr>mrtg_file := Some z\<rparr>))
      else if c = CHR ''0'' then Some (Go (snd (set_pid_map z s)))
      else Some (Go s))"

definition value_letters :: string where
  "value_letters = ''toiayLEQ67dNjJZ0''"

text \<open>A configuration file turns the filters of all PMTs on, the option for them turns them over.\<close>

definition general_option ::
  "'c conf_lib_scheme \<Rightarrow> opt \<Rightarrow> 'a dvbdemux_scheme \<times> cli_names \<Rightarrow> ('a dvbdemux_scheme \<times> cli_names) step option" where
  "general_option L = (\<lambda>(x, a) (s, n).
     (case x of
        Ch c \<Rightarrow>
          if c = CHR ''c'' then Some (Go (s\<lparr>b_select_pmts := True\<rparr>, n\<lparr>cli_conf := a\<rparr>))
          else if c = CHR ''M'' then Some (Go (s, n\<lparr>cli_network := a\<rparr>))
          else if c = CHR ''B'' then Some (Go (s, n\<lparr>cli_provider := a\<rparr>))
          else if c = CHR ''V'' \<or> c = CHR ''h'' then Some Quit
          else if c \<in> set flag_letters then Some (Go (flag_option c s, n))
          else if c \<in> set value_letters
          then (case a of
                  None \<Rightarrow> None
                | Some z \<Rightarrow> map_option (\<lambda>r. case r of Quit \<Rightarrow> Quit | Go s \<Rightarrow> Go (s, n)) (value_option L c z s))
          else Some (Go (s, n))
      | _ \<Rightarrow> Some (Go (s, n))))"

fun pass :: "(opt \<Rightarrow> 's \<Rightarrow> 's step option) \<Rightarrow> opt list \<Rightarrow> 's \<Rightarrow> 's step option" where
  "pass f [] s = Some (Go s)"
| "pass f (x # xs) s =
     (case f x s of None \<Rightarrow> None | Some Quit \<Rightarrow> Some Quit | Some (Go s) \<Rightarrow> pass f xs s)"

subsection \<open>The program\<close>

text \<open>The object of the input, as its constructor leaves it, is an argument.\<close>

datatype started = RunUdp "dvbudp \<times> cli_names" | RunAsi "dvbasi \<times> cli_names" | RunDvb "dvbdev \<times> cli_names"

definition go_on :: "('s \<Rightarrow> 't step option) \<Rightarrow> 's step option \<Rightarrow> 't step option" where
  "go_on f m = (case m of None \<Rightarrow> None | Some Quit \<Rightarrow> Some Quit | Some (Go s) \<Rightarrow> f s)"

definition cli :: "'c conf_lib_scheme \<Rightarrow> dvbudp \<Rightarrow> dvbasi \<Rightarrow> dvbdev \<Rightarrow> string list \<Rightarrow> started step option" where
  "cli L udp adc dev args =
     (let os = cli_options args in
      if args = [] then Some Quit
      else case pick_input os None of
        None \<Rightarrow> Some Quit
      | Some None \<Rightarrow> Some Quit
      | Some (Some (InUdp z)) \<Rightarrow>
          go_on (\<lambda>s. Some (Go (RunUdp s))) (pass (general_option L) os (setsource z udp, cli_names_Init))
      | Some (Some (InAsi i)) \<Rightarrow>
          go_on (\<lambda>s. Some (Go (RunAsi s))) (pass (general_option L) os (set_asi_adapter i adc, cli_names_Init))
      | Some (Some (InDvb f)) \<Rightarrow>
          go_on (\<lambda>s. go_on (\<lambda>s. Some (Go (RunDvb s))) (pass (general_option L) os (s, cli_names_Init)))
            (pass dev_option os (case f of None \<Rightarrow> dev | Some i \<Rightarrow> dev\<lparr>i_frequency := i\<rparr>)))"

text \<open>The other entry, with everything given (\<open>cLdvbapp::run\<close>).\<close>

definition app_run ::
  "int \<Rightarrow> int \<Rightarrow> int \<Rightarrow> int \<Rightarrow> int \<Rightarrow> string \<Rightarrow> 'a dvbdev_scheme \<Rightarrow> 'a dvbdev_scheme \<times> cli_names" where
  "app_run priority adapter freq srate volt conf s =
     (s\<lparr>i_frequency := freq, i_srate := srate, i_voltage := volt, i_priority := priority, i_adapter := adapter,
        b_select_pmts := True\<rparr>,
      \<lparr>cli_conf = Some conf, cli_network = Some ''cLdvb http://kylone.com/'', cli_provider = Some ''Kylone''\<rparr>)"

text \<open>
  From start to end: set-up, start of the demultiplexer, the event loop, stop; the first component is what the
  process returns. Whether there is an event loop (\<open>loop\<close>), the start-up of the device class when it comes back
  (\<open>dopen\<close>), the text of the configuration file and what the event loop does (\<open>ev_run\<close>) are arguments.
\<close>

definition app_main ::
  "'b psi_lib_scheme \<Rightarrow> 'c conf_lib_scheme \<Rightarrow> bool \<Rightarrow> ('a dvbdemux_scheme \<Rightarrow> 'a dvbdemux_scheme option) \<Rightarrow>
   string option \<Rightarrow> ('a dvbdemux_scheme \<Rightarrow> 'a dvbdemux_scheme option) \<Rightarrow> 'a dvbdemux_scheme \<times> cli_names \<Rightarrow>
   (int \<times> 'a dvbdemux_scheme) option" where
  "app_main B L loop dopen file ev_run = (\<lambda>(s, n).
     (if \<not> loop then Some (1, s)
      else do {
        (ok, s, h) \<leftarrow> output_Setup B L (cli_network n) (cli_provider n) (s, None);
        (if \<not> ok then Some (1, s)
         else do {
           s \<leftarrow> demux_Open B dopen (\<lambda>s. map_option fst (config_ReadFile B L file (s, h))) s;
           s \<leftarrow> ev_run s;
           s \<leftarrow> demux_Close B s;
           Some (0, s) }) }))"

text \<open>A hang-up reads the file of outputs again; every other signal that is handled ends the event loop
  (the first component).\<close>

datatype signal = SIGINT | SIGTERM | SIGHUP

definition sighandler ::
  "'b psi_lib_scheme \<Rightarrow> 'c conf_lib_scheme \<Rightarrow> string option \<Rightarrow> signal \<Rightarrow> 'a dvbdemux_scheme \<times> string option \<Rightarrow>
   (bool \<times> 'a dvbdemux_scheme \<times> string option) option" where
  "sighandler B L file sig sh =
     (if sig = SIGHUP then map_option (\<lambda>sh. (False, sh)) (config_ReadFile B L file sh) else Some (True, sh))"

end
