(* ===== verification/Dvb_CliClaims.thy ===== *)
theory Dvb_CliClaims
  imports Dvb_Cli Dvb_AsiClaims
begin

text \<open>
  The command line: what is written is what is read, the tables of short and long names, and in what the
  order of options matters.
\<close>

subsection \<open>The tables\<close>

text \<open>The long names mean what their letters mean: every one that stands for a letter takes an argument exactly when
  the letter does, except for \<open>--lnb-type\<close>, whose letter \<open>-8\<close> is not in the option string, \<open>--network-name\<close> and
  \<open>--network-id\<close>, which take none although \<open>-M\<close> and \<open>-N\<close> need one, and \<open>--quiet\<close>.\<close>

theorem Names_agree:
  "list_all (\<lambda>(n, k, x). (case x of
     Ch c \<Rightarrow> if n = ''lnb-type'' then short_kind c = None
             else if n = ''network-name'' \<or> n = ''network-id'' then k = no_argument \<and> short_kind c = Some required_argument
             else if n = ''quiet'' then short_kind c = Some optional_argument
             else short_kind c = Some k
   | _ \<Rightarrow> k = required_argument)) long_options"
  by code_simp

text \<open>The options each of the three rounds looks at.\<close>

definition input_opt :: "opt \<Rightarrow> bool" where
  "input_opt o' = (fst o' \<in> {Ch CHR ''D'', Ch CHR ''A'', Ch CHR ''f''})"

definition dev_opt :: "opt \<Rightarrow> bool" where
  "dev_opt o' = (case fst o' of Bad \<Rightarrow> False | Num k \<Rightarrow> True | Ch c \<Rightarrow> c \<in> set dev_letters)"

definition gen_opt :: "opt \<Rightarrow> bool" where
  "gen_opt o' = (case fst o' of Ch c \<Rightarrow> c \<in> set (''cMBVh'' @ flag_letters @ value_letters) | _ \<Rightarrow> False)"

text \<open>Six options are accepted and do nothing: \<open>-q\<close>, \<open>-r\<close>, \<open>-3\<close> (whose help says that all packets are copied to the
  standard output), \<open>-l\<close>, \<open>-g\<close> and \<open>-x\<close>; no round looks at them. The option of each other letter is looked at in exactly one.\<close>

theorem Options_ignored:
  "filter (\<lambda>c. c \<noteq> CHR '':'' \<and> \<not> input_opt (Ch c, a) \<and> \<not> dev_opt (Ch c, a) \<and> \<not> gen_opt (Ch c, a)) ostr = ''qr3lgx''
    \<and> list_all (\<lambda>c. \<not> (input_opt (Ch c, a) \<and> dev_opt (Ch c, a)) \<and> \<not> (input_opt (Ch c, a) \<and> gen_opt (Ch c, a))
        \<and> \<not> (dev_opt (Ch c, a) \<and> gen_opt (Ch c, a))) ostr"
  by code_simp

subsection \<open>Reading arguments\<close>

fun render :: "opt \<Rightarrow> string list" where
  "render (Ch c, None) = [[CHR ''-'', c]]"
| "render (Ch c, Some z) = [[CHR ''-'', c], z]"
| "render _ = []"

definition well_written :: "opt \<Rightarrow> bool" where
  "well_written o' = (case o' of
     (Ch c, None) \<Rightarrow> short_kind c = Some no_argument
   | (Ch c, Some z) \<Rightarrow> short_kind c = Some required_argument
   | _ \<Rightarrow> False)"

lemma no_dash: "short_kind (CHR ''-'') = None"
  by code_simp



subsection \<open>Order\<close>

lemma pass_filter:
  assumes "\<And>x s. \<not> P x \<Longrightarrow> f x s = Some (Go s)"
  shows "pass f os s = pass f (filter P os) s"
  using assms by (induction os arbitrary: s) (auto split: option.splits step.splits)

lemma dev_option_other: "\<not> dev_opt o' \<Longrightarrow> dev_option o' s = Some (Go s)"
  by (cases o'; cases "fst o'") (simp_all add: dev_opt_def dev_option_def)

lemma general_option_other: "\<not> gen_opt o' \<Longrightarrow> general_option L o' s = Some (Go s)"
  by (cases o'; cases "fst o'"; cases s) (simp_all add: gen_opt_def general_option_def)

lemma pass_dev_order: "filter dev_opt as = filter dev_opt bs \<Longrightarrow> pass dev_option as s = pass dev_option bs s"
  using pass_filter [of dev_opt dev_option, OF dev_option_other] by metis

lemma pass_gen_order: "filter gen_opt as = filter gen_opt bs \<Longrightarrow> pass (general_option L) as s = pass (general_option L) bs s"
  using pass_filter [of gen_opt "general_option L", OF general_option_other] by metis

lemma pick_input_filter: "pick_input os i = pick_input (filter input_opt os) i"
  by (induction os i rule: pick_input.induct) (auto simp: input_opt_def Let_def)

text \<open>C39 The order of the arguments only matters within a round: options of the receiver may come before \<open>-f\<close> names the
  input, those of the program before or between them. Two command lines in which the options of the input, those
  of the receiver and those of the program each come in the same order start the same.\<close>

theorem Option_order:
  assumes "filter input_opt (cli_options as) = filter input_opt (cli_options bs)"
    and "filter dev_opt (cli_options as) = filter dev_opt (cli_options bs)"
    and "filter gen_opt (cli_options as) = filter gen_opt (cli_options bs)" and "as = [] \<longleftrightarrow> bs = []"
  shows "cli L udp adc dev as = cli L udp adc dev bs"
proof -
  have "pick_input (cli_options as) None = pick_input (cli_options bs) None"
    using pick_input_filter assms(1) by metis
  then show ?thesis using assms(4)
    unfolding cli_def Let_def pass_dev_order [OF assms(2)] pass_gen_order [OF assms(3)] by simp
qed

lemma Option_order_witness:
  "\<forall>udp adc dev. cli ex_conf udp adc dev [''-s'', ''22000'', ''-U'', ''-f'', ''11000''] = cli ex_conf udp adc dev [''-f'', ''11000'', ''-U'', ''-s'', ''22000'']"
  by (intro allI, rule Option_order) code_simp+

lemma pass_append: "pass f (xs @ ys) s = go_on (pass f ys) (pass f xs s)"
  by (induction xs arbitrary: s) (auto simp: go_on_def split: option.splits step.splits)

lemma flag_option_pmts: "b_select_pmts (flag_option c s) = (if c = CHR ''w'' then \<not> b_select_pmts s else b_select_pmts s)"
  by (simp add: flag_option_def)

lemma value_option_pmts:
  assumes "value_option L c z s = Some (Go t)"
  shows "b_select_pmts t = b_select_pmts s"
proof -
  have "set_pid_map z s = (ok, u) \<Longrightarrow> b_select_pmts u = b_select_pmts s" for ok u
    by (auto simp: set_pid_map_def split: prod.splits if_splits)
  then have "b_select_pmts (snd (set_pid_map z s)) = b_select_pmts s" by (metis prod.collapse)
  moreover have "checked (set_rtpsrc L z s) = Go u \<Longrightarrow> b_select_pmts u = b_select_pmts s" for u
    by (auto simp: checked_def set_rtpsrc_def split: option.splits)
  moreover have "millis_option c z s = Some u \<Longrightarrow> b_select_pmts u = b_select_pmts s" for u
    by (cases "c = CHR ''L''"; cases "c = CHR ''E''"; cases "c = CHR ''Q''"; cases "c = CHR ''6''") (auto simp: millis_option_def)
  ultimately show ?thesis using assms unfolding value_option_def Let_def by (simp split: if_splits; fastforce)
qed

lemma general_option_pmts:
  assumes "general_option L o' (s, n) = Some (Go (t, m))"
  shows "b_select_pmts t = (if fst o' = Ch CHR ''c'' then True else if fst o' = Ch CHR ''w'' then \<not> b_select_pmts s else b_select_pmts s)"
proof (cases "fst o'")
  case (Ch c)
  then obtain a where o': "o' = (Ch c, a)" by (cases o') auto
  have val: "b_select_pmts t = b_select_pmts s" if "c \<in> set value_letters" "c \<notin> set flag_letters" "c \<notin> set ''cMBVh''"
  proof -
    have named: "map_option (\<lambda>r. case r of Quit \<Rightarrow> Quit | Go s \<Rightarrow> Go (s, n)) x = Some (Go (t, m)) \<longleftrightarrow> x = Some (Go t) \<and> m = n" for x
      by (cases x) (auto split: step.splits)
    from that assms obtain z where "value_option L c z s = Some (Go t)"
      by (cases a) (auto simp: general_option_def o' named simp del: map_option_eq_Some)
    then show ?thesis by (rule value_option_pmts)
  qed
  have w: "CHR ''w'' \<in> set flag_letters" "CHR ''c'' \<notin> set flag_letters" "CHR ''c'' \<notin> set value_letters" by code_simp+
  consider "c \<in> set ''cMBVh''" | "c \<notin> set ''cMBVh''" "c \<in> set flag_letters" | "c \<notin> set ''cMBVh''" "c \<notin> set flag_letters" by blast
  then show ?thesis
  proof cases
    case 1
    then show ?thesis using assms by (auto simp: general_option_def o')
  next
    case 2
    then have "t = flag_option c s" using assms by (simp add: general_option_def o')
    then show ?thesis using 2 w by (auto simp: flag_option_pmts o')
  next
    case 3
    then have "b_select_pmts t = b_select_pmts s"
      using assms val by (cases "c \<in> set value_letters") (simp_all add: general_option_def o')
    then show ?thesis using 3 w by (auto simp: o')
  qed
qed (use assms in \<open>cases o'; simp add: general_option_def\<close>)+

text \<open>C40 Whether the PMTs of all programs are filtered is decided by the last configuration file and the \<open>-w\<close> after it: the
  file turns the filters on, as the help says, and every \<open>-w\<close> behind it turns them over, so one alone turns them off.\<close>

theorem Select_pmts:
  assumes "pass (general_option L) os (s, n) = Some (Go (t, m))"
  shows "b_select_pmts t = ((b_select_pmts s \<or> Ch CHR ''c'' \<in> fst ` set os)
    = even (length (filter (\<lambda>o'. fst o' = Ch CHR ''w'') (takeWhile (\<lambda>o'. fst o' \<noteq> Ch CHR ''c'') (rev os)))))"
  using assms
proof (induction os arbitrary: t m rule: rev_induct)
  case (snoc o' os)
  from snoc.prems obtain u k where u: "pass (general_option L) os (s, n) = Some (Go (u, k))" "general_option L o' (u, k) = Some (Go (t, m))"
    by (auto simp: pass_append go_on_def split: option.splits step.splits)
  show ?case using snoc.IH [OF u(1)] general_option_pmts [OF u(2)] by auto
qed simp

lemma Select_pmts_witness:
  "\<exists>t m. pass (general_option ex_conf) [(Ch CHR ''w'', None), (Ch CHR ''c'', Some ''f''), (Ch CHR ''w'', None)] (ex_demux [], cli_names_Init)
    = Some (Go (t, m)) \<and> \<not> b_select_pmts t"
proof -
  let ?os = "[(Ch CHR ''w'', None), (Ch CHR ''c'', Some ''f''), (Ch CHR ''w'', None)] :: opt list"
  have letters: "CHR ''w'' \<in> set flag_letters" "CHR ''c'' \<noteq> CHR ''w''" by code_simp+
  obtain t m where "pass (general_option ex_conf) ?os (ex_demux [], cli_names_Init) = Some (Go (t, m))"
    by (simp add: general_option_def letters)
  with Select_pmts [OF this] show ?thesis by auto
qed

text \<open>\<open>--network-id\<close> never gets the program started: the option has no value, and the null pointer is read as a
  number.\<close>

theorem Network_id_undefined:
  assumes "(Ch CHR ''N'', None) \<in> set os"
  shows "pass (general_option L) os st \<noteq> Some (Go r)"
proof -
  have "CHR ''N'' \<notin> set flag_letters" "CHR ''N'' \<in> set value_letters" by code_simp+
  then have none: "general_option L (Ch CHR ''N'', None) x = None" for x by (cases x) (simp add: general_option_def)
  show ?thesis using assms
    by (induction os arbitrary: st) (auto simp: none split: option.splits step.splits)
qed

lemma Network_id_undefined_witness:
  "cli_options [''--network-id'', ''5''] = [(Ch CHR ''N'', None)] \<and> (\<forall>st r. pass (general_option ex_conf) [(Ch CHR ''N'', None)] st \<noteq> Some (Go r))"
proof -
  have "cli_options [''--network-id'', ''5''] = [(Ch CHR ''N'', None)]" by code_simp
  moreover have "(Ch CHR ''N'', None) \<in> set [(Ch CHR ''N'', None)]" by simp
  from Network_id_undefined [OF this] have "\<forall>st r. pass (general_option ex_conf) [(Ch CHR ''N'', None)] st \<noteq> Some (Go r)" by blast
  ultimately show ?thesis by (rule conjI)
qed

end
